(* ===== verification/Go_Base.thy ===== *)
theory Go_Base
  imports Complex_Main "HOL-Library.Signed_Division"
begin

text \<open>
  The prelude of the development: the parts of the Go language and of its standard library that
  the control plane's code computes with, and the lemmas every component shares.
  \<^item> Go's fixed-width integers are \<open>int\<close> values; \<open>wrap32\<close> and \<open>wrap64\<close> are the two's complement
    wrap-around that every arithmetic operation and every conversion performs, and \<open>is_i32\<close> and
    \<open>is_i64\<close> say that a value is in the range of its type. Integer division truncates: \<open>sdiv\<close>.
  \<^item> A \<open>time.Time\<close> is a number of nanoseconds since Go's zero time (so that \<open>IsZero\<close> is
    \<open>t = 0\<close>), a \<open>time.Duration\<close> an \<open>int64\<close> number of nanoseconds; \<open>Time.Sub\<close> saturates.
  \<^item> \<open>itoa\<close> is the decimal rendering of an \<open>int32\<close> that \<open>internal/canary\<close> and
    \<open>internal/autoscale\<close> both carry, with its buffer bound and its round trip.
\<close>

named_theorems go_arith \<open>unfolding of the width-sensitive arithmetic\<close>
named_theorems go_range \<open>facts that a value is in the range of its integer type\<close>

type_synonym i32 = int
type_synonym i64 = int
type_synonym go_time = int
type_synonym go_duration = int

section \<open>Machine integers\<close>

definition wrap32 :: "int \<Rightarrow> i32" where
  "wrap32 x = (x + 2147483648) mod 4294967296 - 2147483648"

definition wrap64 :: "int \<Rightarrow> i64" where
  "wrap64 x = (x + 9223372036854775808) mod 18446744073709551616 - 9223372036854775808"

definition is_i32 :: "int \<Rightarrow> bool" where
  "is_i32 x \<longleftrightarrow> - 2147483648 \<le> x \<and> x < 2147483648"

definition is_i64 :: "int \<Rightarrow> bool" where
  "is_i64 x \<longleftrightarrow> - 9223372036854775808 \<le> x \<and> x < 9223372036854775808"

definition MaxInt32 :: i32 where
  "MaxInt32 = 2147483647"

lemma wrap32_id: "is_i32 x \<Longrightarrow> wrap32 x = x"
  by (simp add: wrap32_def is_i32_def)

lemma wrap64_id: "is_i64 x \<Longrightarrow> wrap64 x = x"
  by (simp add: wrap64_def is_i64_def)

lemma is_i32_wrap32 [simp, go_range]: "is_i32 (wrap32 x)"
proof -
  have "0 \<le> (x + 2147483648) mod 4294967296" "(x + 2147483648) mod 4294967296 < 4294967296"
    by simp_all
  then show ?thesis
    unfolding wrap32_def is_i32_def by linarith
qed

lemma is_i64_wrap64 [simp, go_range]: "is_i64 (wrap64 x)"
proof -
  have "0 \<le> (x + 9223372036854775808) mod 18446744073709551616"
    "(x + 9223372036854775808) mod 18446744073709551616 < 18446744073709551616"
    by simp_all
  then show ?thesis
    unfolding wrap64_def is_i64_def by linarith
qed

lemma is_i32_imp_is_i64 [go_range]: "is_i32 x \<Longrightarrow> is_i64 x"
  by (simp add: is_i32_def is_i64_def)

lemma sdiv_nonneg: "0 \<le> a \<Longrightarrow> 0 < b \<Longrightarrow> (a::int) sdiv b = a div b"
  by (cases "a = 0") (simp_all add: signed_divide_int_def sgn_if)

lemma max_i32 [go_range]: "is_i32 a \<Longrightarrow> is_i32 b \<Longrightarrow> is_i32 (max a b)"
  by (simp add: max_def)

lemma min_i32 [go_range]: "is_i32 a \<Longrightarrow> is_i32 b \<Longrightarrow> is_i32 (min a b)"
  by (simp add: min_def)

lemma zdiv_mult_le: "0 < (d::int) \<Longrightarrow> d * (x div d) \<le> x"
  using mult_div_mod_eq [of d x] pos_mod_sign [of d x] by linarith

lemma zdiv_le_bound: "0 < (d::int) \<Longrightarrow> x < d * (b + 1) \<Longrightarrow> x div d \<le> b"
proof (rule ccontr)
  assume d: "0 < d" and x: "x < d * (b + 1)" and "\<not> x div d \<le> b"
  then have "d * (b + 1) \<le> d * (x div d)"
    by (intro mult_left_mono) simp_all
  then show False
    using x zdiv_mult_le [OF d, of x] by linarith
qed

lemma zdiv_ge_bound: "0 < (d::int) \<Longrightarrow> d * b \<le> x \<Longrightarrow> b \<le> x div d"
  using zdiv_mono1 [of "d * b" x d] by simp

section \<open>Time and duration\<close>

definition time_zero :: go_time where
  "time_zero = 0"

definition IsZero :: "go_time \<Rightarrow> bool" where
  "IsZero t \<longleftrightarrow> t = 0"

definition Before :: "go_time \<Rightarrow> go_time \<Rightarrow> bool" where
  "Before t u \<longleftrightarrow> t < u"

definition After :: "go_time \<Rightarrow> go_time \<Rightarrow> bool" where
  "After t u \<longleftrightarrow> u < t"

definition Add :: "go_time \<Rightarrow> go_duration \<Rightarrow> go_time" where
  "Add t d = t + d"

definition Sub :: "go_time \<Rightarrow> go_time \<Rightarrow> go_duration" where
  "Sub t u = max (- 9223372036854775808) (min 9223372036854775807 (t - u))"

definition go_Second :: go_duration where
  "go_Second = 1000000000"

lemma Sub_pos: "Before u t \<Longrightarrow> 0 < Sub t u"
  by (simp add: Before_def Sub_def)

lemma Sub_is_i64 [simp, go_range]: "is_i64 (Sub t u)"
  by (simp add: Sub_def is_i64_def)

lemma IsZero_time_zero [simp]: "IsZero time_zero"
  by (simp add: IsZero_def time_zero_def)

lemmas time_defs = IsZero_def time_zero_def Before_def After_def Add_def

section \<open>Decimal rendering\<close>

text \<open>
  \<open>for n > 0 { i--; buf[i] = byte('0' + n%10); n /= 10 }\<close>: the loop fills the buffer from its end,
  so the accumulator is the part of the buffer already written.
\<close>

definition digit_char :: "int \<Rightarrow> char" where
  "digit_char d = char_of (nat (48 + d))"

function itoa_loop :: "int \<Rightarrow> string \<Rightarrow> string" where
  "itoa_loop n buf = (if n > 0 then itoa_loop (n div 10) (digit_char (n mod 10) # buf) else buf)"
  by pat_completeness auto
termination
  by (relation "measure (\<lambda>(n, buf). nat n)") auto

declare itoa_loop.simps [simp del]

definition itoa :: "i32 \<Rightarrow> string" where
  "itoa n =
     (if n = 0 then ''0''
      else let neg = n < 0;
               n' = (if neg then wrap32 (- n) else n);
               s = itoa_loop n' []
           in if neg then CHR ''-'' # s else s)"

text \<open>The reading of a decimal numeral, the inverse the rendering is judged against.\<close>

definition digit_val :: "char \<Rightarrow> int" where
  "digit_val c = int (of_char c) - 48"

fun read_digits :: "int \<Rightarrow> string \<Rightarrow> int" where
  "read_digits acc [] = acc"
| "read_digits acc (c # cs) = read_digits (10 * acc + digit_val c) cs"

definition read_decimal :: "string \<Rightarrow> int" where
  "read_decimal s = (case s of c # cs \<Rightarrow> if c = CHR ''-'' then - read_digits 0 cs else read_digits 0 s
                     | [] \<Rightarrow> 0)"

lemma digit_val_digit_char [simp]: "0 \<le> d \<Longrightarrow> d < 10 \<Longrightarrow> digit_val (digit_char d) = d"
  by (simp add: digit_val_def digit_char_def)

lemma digit_char_not_minus: "0 \<le> d \<Longrightarrow> d < 10 \<Longrightarrow> digit_char d \<noteq> CHR ''-''"
proof
  assume d: "0 \<le> d" "d < 10" and eq: "digit_char d = CHR ''-''"
  have "digit_val (digit_char d) = d"
    using d by (rule digit_val_digit_char)
  then show False
    using d(1) by (simp only: eq) (simp add: digit_val_def)
qed

text \<open>The loop writes the digits of its argument in front of what the buffer already holds.\<close>

lemma itoa_loop_nonpos: "n \<le> 0 \<Longrightarrow> itoa_loop n buf = buf"
  by (simp add: itoa_loop.simps)

lemma itoa_loop_append: "itoa_loop n buf = itoa_loop n [] @ buf"
proof (induction "nat n" arbitrary: n buf rule: less_induct)
  case less
  show ?case
  proof (cases "n > 0")
    case True
    then have IH: "itoa_loop (n div 10) b = itoa_loop (n div 10) [] @ b" for b
      by (intro less) simp
    show ?thesis
      using True IH [of "digit_char (n mod 10) # buf"] IH [of "[digit_char (n mod 10)]"]
      by (simp add: itoa_loop.simps [of n])
  qed (simp add: itoa_loop_nonpos)
qed

lemma itoa_loop_pos: "n > 0 \<Longrightarrow> itoa_loop n [] = itoa_loop (n div 10) [] @ [digit_char (n mod 10)]"
  by (simp add: itoa_loop.simps [of n] itoa_loop_append [of "n div 10" "[digit_char (n mod 10)]"])

lemma read_digits_append: "read_digits acc (xs @ ys) = read_digits (read_digits acc xs) ys"
  by (induction xs arbitrary: acc) simp_all

lemma read_digits_itoa_loop: "0 \<le> n \<Longrightarrow> read_digits 0 (itoa_loop n []) = n"
proof (induction "nat n" arbitrary: n rule: less_induct)
  case less
  show ?case
  proof (cases "n > 0")
    case True
    then have "read_digits 0 (itoa_loop (n div 10) []) = n div 10"
      by (intro less) simp_all
    then show ?thesis
      using True by (simp add: itoa_loop_pos read_digits_append)
  qed (use less in \<open>simp add: itoa_loop_nonpos\<close>)
qed

lemma itoa_loop_digits: "c \<in> set (itoa_loop n []) \<Longrightarrow> \<exists>d. 0 \<le> d \<and> d < 10 \<and> c = digit_char d"
proof (induction "nat n" arbitrary: n rule: less_induct)
  case less
  show ?case
  proof (cases "n > 0")
    case True
    then consider "c \<in> set (itoa_loop (n div 10) [])" | "c = digit_char (n mod 10)"
      using less.prems by (auto simp: itoa_loop_pos)
    then show ?thesis
    proof cases
      case 1
      with True show ?thesis
        by (intro less.hyps [of "n div 10"]) simp_all
    next
      case 2
      then show ?thesis
        by (intro exI [of _ "n mod 10"]) simp
    qed
  qed (use less in \<open>simp add: itoa_loop_nonpos\<close>)
qed

lemma itoa_loop_length: "n < 10 ^ k \<Longrightarrow> length (itoa_loop n []) \<le> k"
proof (induction k arbitrary: n)
  case 0
  then show ?case
    by (simp add: itoa_loop_nonpos)
next
  case (Suc k)
  have div10: "n < 10 * x \<Longrightarrow> n div 10 < x" for x
    by linarith
  from Suc.prems have "length (itoa_loop (n div 10) []) \<le> k"
    by (intro Suc.IH div10) simp
  then show ?case
    by (cases "n > 0") (simp_all add: itoa_loop_pos itoa_loop_nonpos)
qed

lemma read_decimal_unsigned:
  assumes "0 < n"
  shows "read_decimal (itoa_loop n []) = n"
proof -
  obtain c cs where cs: "itoa_loop n [] = c # cs"
    using assms by (cases "itoa_loop n []") (simp_all add: itoa_loop_pos)
  then have "c \<noteq> CHR ''-''"
    using itoa_loop_digits [of c n] digit_char_not_minus by auto
  then show ?thesis
    using assms read_digits_itoa_loop [of n] by (simp add: read_decimal_def cs)
qed

section \<open>Duration rendering\<close>

text \<open>
  \<open>time.Duration.String\<close> of the standard library: \<open>fmtFrac\<close> writes the fraction without trailing
  zeros, \<open>fmtInt\<close> a whole number; the buffer is again filled from its end. The two bytes of the micro
  sign are written as characters 194 and 181.
\<close>

fun fmtFrac :: "nat \<Rightarrow> bool \<Rightarrow> int \<Rightarrow> string \<Rightarrow> string \<times> int" where
  "fmtFrac 0 pr v buf = ((if pr then CHR ''.'' # buf else buf), v)"
| "fmtFrac (Suc k) pr v buf =
     (let digit = v mod 10; pr' = (pr \<or> digit \<noteq> 0)
      in fmtFrac k pr' (v div 10) (if pr' then digit_char digit # buf else buf))"

definition fmtInt :: "int \<Rightarrow> string \<Rightarrow> string" where
  "fmtInt v buf = (if v = 0 then CHR ''0'' # buf else itoa_loop v buf)"

definition Duration_String :: "go_duration \<Rightarrow> string" where
  "Duration_String d =
     (let u = \<bar>d\<bar>; neg = d < 0;
          out = (if u < 1000000000 then
                   (if u = 0 then ''0s''
                    else let (prec, unit) = (if u < 1000 then (0, ''ns'')
                                             else if u < 1000000 then (3, [char_of (194::nat), char_of (181::nat), CHR ''s''])
                                             else (6, ''ms''));
                             (buf, v) = fmtFrac prec False u unit
                         in fmtInt v buf)
                 else let (buf, secs) = fmtFrac 9 False u ''s'';
                          buf = fmtInt (secs mod 60) buf;
                          mins = secs div 60
                      in if mins > 0
                         then let buf = fmtInt (mins mod 60) (CHR ''m'' # buf); hours = mins div 60
                              in if hours > 0 then fmtInt hours (CHR ''h'' # buf) else buf
                         else buf)
      in if neg then CHR ''-'' # out else out)"

lemma Duration_String_600s: "Duration_String 600000000000 = ''10m0s''"
  by code_simp

section \<open>Correctness of the renderings\<close>

text \<open>
  The decimal rendering used in every operator-facing message never needs more than the 12 bytes of
  its buffer, and it is read back as the number it renders, for every \<open>int32\<close> except the most negative
  one, whose negation wraps and which renders as a lone minus sign.
\<close>

theorem itoa_roundtrip:
  assumes "is_i32 n"
  shows "length (itoa n) \<le> 12 \<and>
         (if n = - 2147483648 then itoa n = ''-'' else read_decimal (itoa n) = n)"
proof -
  define m where "m = (if n < 0 then wrap32 (- n) else n)"
  have wm: "n \<noteq> - 2147483648 \<Longrightarrow> wrap32 (- n) = - n"
    using assms by (intro wrap32_id) (simp add: is_i32_def)
  have "is_i32 m"
    using assms by (simp add: m_def)
  then have len: "length (itoa_loop m []) \<le> 10"
    by (intro itoa_loop_length) (simp add: is_i32_def)
  have eq: "itoa n = (if n = 0 then ''0'' else if n < 0 then CHR ''-'' # itoa_loop m [] else itoa_loop m [])"
    by (simp add: itoa_def m_def Let_def)
  have "read_decimal (itoa n) = n" if "n \<noteq> - 2147483648"
  proof -
    consider "n = 0" | "0 < n" | "n < 0" by linarith
    then show ?thesis
    proof cases
      case 2
      then show ?thesis using read_decimal_unsigned [of n] by (simp add: eq m_def)
    next
      case 3
      then show ?thesis
        using read_digits_itoa_loop [of "- n"] wm [OF that] by (simp add: eq m_def read_decimal_def)
    qed (simp add: itoa_def read_decimal_def digit_val_def)
  qed
  moreover have "itoa n = ''-''" if "n = - 2147483648"
    using that by (simp add: itoa_def wrap32_def itoa_loop_nonpos)
  ultimately show ?thesis
    using len by (simp add: eq)
qed

theorem itoa_roundtrip_witness: "length (itoa (-305)) \<le> 12 \<and> read_decimal (itoa (-305)) = -305"
  using itoa_roundtrip [of "-305"] by (simp add: is_i32_def)

end
