(* ===== verification/Api_Rollout.thy ===== *)
theory Api_Rollout
  imports Go_Base
begin

text \<open>
  The part of the API types (\<open>api/v1alpha1\<close>) that the rollout machinery computes with: the
  verdicts of a metric check, the canary and analysis specifications with their \<open>Resolved*\<close>
  accessors, the weight ladder \<open>StepLadder\<close>, and the persisted canary status.
  An enumerated string type is a datatype with the declared constants and one constructor for any
  other string, because the code has branches for values outside the enumeration.
  A \<open>resource.Quantity\<close> of the Kubernetes API machinery is known through the two methods the code
  calls on it, \<open>MilliValue\<close> and \<open>String\<close>; parsing one is a parameter of \<open>DefaultMetrics\<close>.
  The loop of \<open>StepLadder\<close> steps an \<open>int32\<close> and may wrap, so it is an optional result; it is
  proved to return for every specification inside the schema's bounds.
\<close>

section \<open>Verdicts and conditions\<close>

datatype Verdict = VerdictPass | VerdictFail | VerdictInconclusive | VerdictError
  | VerdictOther string

record MetricCheck =
  mc_Name :: string
  mc_Verdict :: Verdict
  mc_Value :: string
  mc_Threshold :: string
  mc_Message :: string

datatype InconclusiveAction = InconclusiveWait | InconclusiveRollback | InconclusivePromote
  | InconclusiveOther string

definition ReasonCanaryNotRunning :: string where "ReasonCanaryNotRunning = ''CanaryNotRunning''"
definition ReasonCanaryProgressing :: string where "ReasonCanaryProgressing = ''CanaryProgressing''"
definition ReasonCanaryChecksPassed :: string where "ReasonCanaryChecksPassed = ''ChecksPassed''"
definition ReasonCanaryChecksFailed :: string where "ReasonCanaryChecksFailed = ''ChecksFailed''"
definition ReasonCanaryRolledBack :: string where "ReasonCanaryRolledBack = ''CanaryRolledBack''"
definition ReasonCanaryPromoted :: string where "ReasonCanaryPromoted = ''CanaryPromoted''"
definition ReasonCanaryProgressDeadlineExceeded :: string where
  "ReasonCanaryProgressDeadlineExceeded = ''CanaryProgressDeadlineExceeded''"
definition ReasonAnalysisError :: string where "ReasonAnalysisError = ''AnalysisError''"
definition ReasonAnalysisInconclusive :: string where
  "ReasonAnalysisInconclusive = ''AnalysisInconclusive''"
definition ReasonAwaitingApproval :: string where "ReasonAwaitingApproval = ''AwaitingApproval''"
definition ReasonCanaryAborted :: string where "ReasonCanaryAborted = ''CanaryAborted''"
definition ReasonNoLastGoodRevision :: string where
  "ReasonNoLastGoodRevision = ''NoLastGoodRevision''"
definition ReasonInsufficientReplicas :: string where
  "ReasonInsufficientReplicas = ''InsufficientReplicas''"
definition ReasonMetricsScopePending :: string where
  "ReasonMetricsScopePending = ''MetricsScopePending''"

lemmas reason_defs = ReasonCanaryNotRunning_def ReasonCanaryProgressing_def
  ReasonCanaryChecksPassed_def ReasonCanaryChecksFailed_def ReasonCanaryRolledBack_def
  ReasonCanaryPromoted_def ReasonCanaryProgressDeadlineExceeded_def ReasonAnalysisError_def
  ReasonAnalysisInconclusive_def ReasonAwaitingApproval_def ReasonCanaryAborted_def
  ReasonNoLastGoodRevision_def ReasonInsufficientReplicas_def ReasonMetricsScopePending_def

record CanaryReadinessTarget =
  rt_Step :: i32
  rt_Weight :: i32
  rt_TotalReplicas :: i32
  rt_CanaryReplicas :: i32
  rt_Generation :: i64
  rt_DeploymentUID :: string

definition zero_ReadinessTarget :: CanaryReadinessTarget where
  "zero_ReadinessTarget = \<lparr>rt_Step = 0, rt_Weight = 0, rt_TotalReplicas = 0, rt_CanaryReplicas = 0,
     rt_Generation = 0, rt_DeploymentUID = ''''\<rparr>"

section \<open>Specifications\<close>

record quantity =
  q_MilliValue :: i64
  q_String :: string

datatype BuiltinMetric = MetricTTFTP95 | MetricTTFTP99 | MetricRequestDurationP95 | MetricErrorRate
  | MetricSuccessRate | MetricQueueDepth | MetricOutputTokenRate | MetricOutputChunkRate
  | MetricOther string

record ThresholdRange =
  tr_Min :: "quantity option"
  tr_Max :: "quantity option"

record AnalysisMetric =
  am_Name :: string
  am_Builtin :: "BuiltinMetric option"
  am_Query :: string
  am_ThresholdRange :: ThresholdRange
  am_CompareToPrimary :: "bool option"

record AnalysisSpec =
  as_Interval :: "go_duration option"
  as_Window :: "go_duration option"
  as_InitialDelay :: "go_duration option"
  as_FailureThreshold :: "i32 option"
  as_ConsecutiveErrorLimit :: "i32 option"
  as_InconclusiveLimit :: "i32 option"
  as_OnInconclusive :: InconclusiveAction
  as_MinRequestRate :: "quantity option"
  as_MinUsageSamples :: "i32 option"
  as_ProviderAddress :: string
  as_ProviderTimeout :: "go_duration option"
  as_Metrics :: "AnalysisMetric list"

datatype TrafficRoutingMode = TrafficRoutingReplica | TrafficRoutingOther string

record CanaryScaleSpec =
  sc_Replicas :: "i32 option"
  sc_MatchTrafficWeight :: "bool option"

record CanarySpec =
  cs_StepWeight :: "i32 option"
  cs_StepWeights :: "i32 list"
  cs_MaxWeight :: "i32 option"
  cs_Analysis :: AnalysisSpec
  cs_TrafficRoutingMode :: TrafficRoutingMode
  cs_Scale :: "CanaryScaleSpec option"
  cs_RequireApproval :: "bool option"

datatype RolloutStrategyType = RolloutRollingUpdate | RolloutRecreate | RolloutCanary
  | RolloutOther string

datatype IntOrString = FromInt i32 | FromString string

record RolloutSpec =
  ro_Type :: RolloutStrategyType
  ro_MaxSurge :: "IntOrString option"
  ro_MaxUnavailable :: "IntOrString option"
  ro_ProgressDeadline :: "go_duration option"
  ro_AutoRollback :: "bool option"
  ro_Canary :: "CanarySpec option"

section \<open>Resolved accessors\<close>

definition durationOr :: "go_duration option \<Rightarrow> go_duration \<Rightarrow> go_duration" where
  "durationOr d fallback = (case d of None \<Rightarrow> fallback | Some v \<Rightarrow> if v \<le> 0 then fallback else v)"

definition int32Or :: "i32 option \<Rightarrow> i32 \<Rightarrow> i32" where
  "int32Or v fallback = (case v of None \<Rightarrow> fallback | Some x \<Rightarrow> if x < 1 then fallback else x)"

definition defaultAnalysisInterval :: go_duration where
  "defaultAnalysisInterval = 30 * go_Second"
definition defaultAnalysisWindow :: go_duration where
  "defaultAnalysisWindow = 60 * go_Second"
definition defaultAnalysisInitialDelay :: go_duration where
  "defaultAnalysisInitialDelay = 60 * go_Second"
definition defaultQueryTimeout :: go_duration where
  "defaultQueryTimeout = 10 * go_Second"
definition defaultFailureThreshold :: i32 where "defaultFailureThreshold = 3"
definition defaultConsecutiveErrorLimit :: i32 where "defaultConsecutiveErrorLimit = 5"
definition defaultInconclusiveLimit :: i32 where "defaultInconclusiveLimit = 5"

text \<open>Every accessor is a method on a pointer, so its receiver is an option.\<close>

definition getInterval :: "AnalysisSpec option \<Rightarrow> go_duration option" where
  "getInterval a = (case a of None \<Rightarrow> None | Some s \<Rightarrow> as_Interval s)"

definition ResolvedInterval :: "AnalysisSpec option \<Rightarrow> go_duration" where
  "ResolvedInterval a = durationOr (getInterval a) defaultAnalysisInterval"

definition ResolvedWindow :: "AnalysisSpec option \<Rightarrow> go_duration" where
  "ResolvedWindow a = (case a of None \<Rightarrow> defaultAnalysisWindow
                       | Some s \<Rightarrow> durationOr (as_Window s) defaultAnalysisWindow)"

definition ResolvedInitialDelay :: "AnalysisSpec option \<Rightarrow> go_duration" where
  "ResolvedInitialDelay a = (case a of None \<Rightarrow> defaultAnalysisInitialDelay
                             | Some s \<Rightarrow> durationOr (as_InitialDelay s) defaultAnalysisInitialDelay)"

definition ResolvedTimeout :: "AnalysisSpec option \<Rightarrow> go_duration" where
  "ResolvedTimeout a = (case a of None \<Rightarrow> defaultQueryTimeout
                        | Some s \<Rightarrow> durationOr (as_ProviderTimeout s) defaultQueryTimeout)"

definition ResolvedFailureThreshold :: "AnalysisSpec option \<Rightarrow> i32" where
  "ResolvedFailureThreshold a = (case a of None \<Rightarrow> defaultFailureThreshold
     | Some s \<Rightarrow> int32Or (as_FailureThreshold s) defaultFailureThreshold)"

definition ResolvedConsecutiveErrorLimit :: "AnalysisSpec option \<Rightarrow> i32" where
  "ResolvedConsecutiveErrorLimit a = (case a of None \<Rightarrow> defaultConsecutiveErrorLimit
     | Some s \<Rightarrow> int32Or (as_ConsecutiveErrorLimit s) defaultConsecutiveErrorLimit)"

definition ResolvedInconclusiveLimit :: "AnalysisSpec option \<Rightarrow> i32" where
  "ResolvedInconclusiveLimit a = (case a of None \<Rightarrow> defaultInconclusiveLimit
     | Some s \<Rightarrow> int32Or (as_InconclusiveLimit s) defaultInconclusiveLimit)"

definition ResolvedOnInconclusive :: "AnalysisSpec option \<Rightarrow> InconclusiveAction" where
  "ResolvedOnInconclusive a = (case a of None \<Rightarrow> InconclusiveWait
     | Some s \<Rightarrow> if as_OnInconclusive s = InconclusiveOther '''' then InconclusiveWait
                else as_OnInconclusive s)"

definition ResolvedMinUsageSamples :: "AnalysisSpec option \<Rightarrow> i32" where
  "ResolvedMinUsageSamples a = (case a of None \<Rightarrow> 20
     | Some s \<Rightarrow> (case as_MinUsageSamples s of None \<Rightarrow> 20 | Some n \<Rightarrow> if n < 1 then 20 else n))"

definition CompareToPrimaryEnabled :: "AnalysisMetric option \<Rightarrow> bool" where
  "CompareToPrimaryEnabled m = (case m of None \<Rightarrow> False
     | Some x \<Rightarrow> (case am_CompareToPrimary x of None \<Rightarrow> False | Some b \<Rightarrow> b))"

definition DefaultMetrics :: "(string \<Rightarrow> quantity) \<Rightarrow> AnalysisMetric list" where
  "DefaultMetrics mustParse =
     [\<lparr>am_Name = ''ttft-vs-primary'', am_Builtin = Some MetricTTFTP95, am_Query = '''',
       am_ThresholdRange = \<lparr>tr_Min = None, tr_Max = Some (mustParse ''1500m'')\<rparr>,
       am_CompareToPrimary = Some True\<rparr>,
      \<lparr>am_Name = ''error-rate'', am_Builtin = Some MetricErrorRate, am_Query = '''',
       am_ThresholdRange = \<lparr>tr_Min = None, tr_Max = Some (mustParse ''50m'')\<rparr>,
       am_CompareToPrimary = None\<rparr>]"

definition ResolvedMetrics ::
    "(string \<Rightarrow> quantity) \<Rightarrow> AnalysisSpec option \<Rightarrow> AnalysisMetric list" where
  "ResolvedMetrics mustParse a = (case a of None \<Rightarrow> DefaultMetrics mustParse
     | Some s \<Rightarrow> if length (as_Metrics s) = 0 then DefaultMetrics mustParse else as_Metrics s)"

definition ApprovalRequired :: "CanarySpec option \<Rightarrow> bool" where
  "ApprovalRequired c = (case c of None \<Rightarrow> False
     | Some s \<Rightarrow> (case cs_RequireApproval s of None \<Rightarrow> False | Some b \<Rightarrow> b))"

definition AutoRollbackEnabled :: "RolloutSpec option \<Rightarrow> bool" where
  "AutoRollbackEnabled r = (case r of None \<Rightarrow> True
     | Some s \<Rightarrow> (case ro_AutoRollback s of None \<Rightarrow> True | Some b \<Rightarrow> b))"

definition IsCanary :: "RolloutSpec option \<Rightarrow> bool" where
  "IsCanary r = (case r of None \<Rightarrow> False
     | Some s \<Rightarrow> ro_Type s = RolloutCanary \<and> ro_Canary s \<noteq> None)"

section \<open>The weight ladder\<close>

fun ladder_filter :: "i32 \<Rightarrow> i32 list \<Rightarrow> i32 list" where
  "ladder_filter prev [] = []"
| "ladder_filter prev (w # ws) =
     (if w > prev \<and> w \<le> 100 then w # ladder_filter w ws else ladder_filter prev ws)"

partial_function (option) ladder_loop :: "i32 \<Rightarrow> i32 \<Rightarrow> i32 \<Rightarrow> i32 list \<Rightarrow> i32 list option" where
  "ladder_loop w step maxW out =
     (if w < maxW then ladder_loop (wrap32 (w + step)) step maxW (out @ [w]) else Some out)"

definition positiveOr :: "i32 option \<Rightarrow> i32 \<Rightarrow> i32" where
  "positiveOr v fallback = (case v of None \<Rightarrow> fallback | Some x \<Rightarrow> if x > 0 then x else fallback)"

definition StepLadder :: "CanarySpec option \<Rightarrow> i32 list option" where
  "StepLadder c =
     (case c of None \<Rightarrow> Some []
      | Some s \<Rightarrow>
          let out = (if length (cs_StepWeights s) > 0 then ladder_filter 0 (cs_StepWeights s) else [])
          in if length out > 0 then Some out
             else let step = positiveOr (cs_StepWeight s) 20;
                      maxW = positiveOr (cs_MaxWeight s) 50
                  in map_option (\<lambda>ws. ws @ [maxW]) (ladder_loop step step maxW []))"

section \<open>The ladder is well formed\<close>

text \<open>The schema's bounds on the ladder fields (the kubebuilder markers of \<open>CanarySpec\<close>).\<close>

definition schema_bound :: "i32 option \<Rightarrow> bool" where
  "schema_bound v \<longleftrightarrow> (case v of None \<Rightarrow> True | Some x \<Rightarrow> 1 \<le> x \<and> x \<le> 100)"

definition valid_ladder_spec :: "CanarySpec \<Rightarrow> bool" where
  "valid_ladder_spec s \<longleftrightarrow> schema_bound (cs_StepWeight s) \<and> schema_bound (cs_MaxWeight s)"

lemma ladder_filter_bounds: "w \<in> set (ladder_filter prev ws) \<Longrightarrow> prev < w \<and> w \<le> 100"
  by (induction prev ws rule: ladder_filter.induct) (auto split: if_splits)

lemma ladder_filter_sorted: "sorted_wrt (<) (ladder_filter prev ws)"
  by (induction prev ws rule: ladder_filter.induct) (auto dest: ladder_filter_bounds)

lemma ladder_loop_returns:
  assumes "0 < step" "0 \<le> w" "maxW + step \<le> 2147483647"
  shows "\<exists>ws. ladder_loop w step maxW out = Some (out @ ws) \<and> sorted_wrt (<) ws \<and>
           (\<forall>x \<in> set ws. w \<le> x \<and> x < maxW)"
  using assms
proof (induction "nat (maxW - w)" arbitrary: w out rule: less_induct)
  case less
  show ?case
  proof (cases "w < maxW")
    case True
    have w': "wrap32 (w + step) = w + step"
      using True less.prems by (intro wrap32_id) (simp add: is_i32_def)
    obtain ws where ws: "ladder_loop (w + step) step maxW (out @ [w]) = Some ((out @ [w]) @ ws)"
        "sorted_wrt (<) ws" "\<forall>x \<in> set ws. w + step \<le> x \<and> x < maxW"
      using less.hyps [of "w + step" "out @ [w]"] less.prems True by auto
    have "ladder_loop w step maxW out = Some (out @ w # ws)"
      using True ws(1) by (simp add: ladder_loop.simps [of w] w')
    moreover have "sorted_wrt (<) (w # ws) \<and> (\<forall>x \<in> set (w # ws). w \<le> x \<and> x < maxW)"
      using ws(2,3) True less.prems(1) by fastforce
    ultimately show ?thesis
      by blast
  next
    case False
    then show ?thesis
      by (intro exI [of _ "[]"]) (simp add: ladder_loop.simps [of w])
  qed
qed

lemma positiveOr_schema:
  "schema_bound v \<Longrightarrow> 1 \<le> d \<Longrightarrow> d \<le> 100 \<Longrightarrow> 1 \<le> positiveOr v d \<and> positiveOr v d \<le> 100"
  by (cases v) (simp_all add: schema_bound_def positiveOr_def)

lemma ladder_well_formed:
  assumes "valid_ladder_spec s"
  shows "\<exists>ws. StepLadder (Some s) = Some ws \<and> ws \<noteq> [] \<and> sorted_wrt (<) ws \<and>
           (\<forall>w \<in> set ws. 1 \<le> w \<and> w \<le> 100) \<and>
           (ladder_filter 0 (cs_StepWeights s) = [] \<longrightarrow> last ws = positiveOr (cs_MaxWeight s) 50)"
proof (cases "ladder_filter 0 (cs_StepWeights s) = []")
  case True
  define step where "step = positiveOr (cs_StepWeight s) 20"
  define maxW where "maxW = positiveOr (cs_MaxWeight s) 50"
  have bounds: "1 \<le> step" "step \<le> 100" "1 \<le> maxW" "maxW \<le> 100"
    using assms positiveOr_schema unfolding step_def maxW_def valid_ladder_spec_def by simp_all
  obtain ws where "ladder_loop step step maxW [] = Some ws" "sorted_wrt (<) ws"
      "\<forall>x \<in> set ws. step \<le> x \<and> x < maxW"
    using ladder_loop_returns [of step step maxW "[]"] bounds by auto
  then have "StepLadder (Some s) = Some (ws @ [maxW])" "sorted_wrt (<) (ws @ [maxW])"
      "\<forall>w \<in> set (ws @ [maxW]). 1 \<le> w \<and> w \<le> 100"
    using True bounds by (auto simp: StepLadder_def Let_def step_def maxW_def sorted_wrt_append)
  then show ?thesis
    by (auto simp: maxW_def)
next
  case False
  then have "StepLadder (Some s) = Some (ladder_filter 0 (cs_StepWeights s))"
    by (auto simp: StepLadder_def)
  then show ?thesis
    using False ladder_filter_sorted [of 0 "cs_StepWeights s"]
      ladder_filter_bounds [of _ 0 "cs_StepWeights s"] by force
qed

text \<open>
  For every specification inside the schema's bounds the ladder computation terminates and gives
  a non-empty, strictly increasing ladder of weights between 1 and 100; when no explicit ladder is
  usable its last rung is the resolved maximal weight, even where the step does not divide it.
\<close>

theorem StepLadder_wf:
  assumes "valid_ladder_spec s"
  shows "\<exists>ws. StepLadder (Some s) = Some ws \<and> ws \<noteq> [] \<and> sorted_wrt (<) ws \<and>
           (\<forall>w \<in> set ws. 1 \<le> w \<and> w \<le> 100) \<and>
           (ladder_filter 0 (cs_StepWeights s) = [] \<longrightarrow> last ws = positiveOr (cs_MaxWeight s) 50)"
  by (rule ladder_well_formed [OF assms])

definition sample_analysis :: AnalysisSpec where
  "sample_analysis = \<lparr>as_Interval = None, as_Window = None, as_InitialDelay = None,
     as_FailureThreshold = None, as_ConsecutiveErrorLimit = None, as_InconclusiveLimit = None,
     as_OnInconclusive = InconclusiveWait, as_MinRequestRate = None, as_MinUsageSamples = None,
     as_ProviderAddress = '''', as_ProviderTimeout = None, as_Metrics = []\<rparr>"

definition sample_canary_spec :: CanarySpec where
  "sample_canary_spec = \<lparr>cs_StepWeight = Some 30, cs_StepWeights = [], cs_MaxWeight = Some 50,
     cs_Analysis = sample_analysis, cs_TrafficRoutingMode = TrafficRoutingReplica, cs_Scale = None,
     cs_RequireApproval = None\<rparr>"

lemma StepLadder_sample: "StepLadder (Some sample_canary_spec) = Some [30, 50]"
  by (simp add: StepLadder_def sample_canary_spec_def positiveOr_def ladder_loop.simps wrap32_def)

theorem StepLadder_wf_witness:
  "valid_ladder_spec sample_canary_spec \<and> last [30, 50 :: i32] = positiveOr (Some 50) 50"
proof -
  have valid: "valid_ladder_spec sample_canary_spec"
    by (simp add: valid_ladder_spec_def schema_bound_def sample_canary_spec_def)
  have "ladder_filter 0 (cs_StepWeights sample_canary_spec) = []"
    by (simp add: sample_canary_spec_def)
  with StepLadder_wf [OF valid] valid show ?thesis
    by (simp add: StepLadder_sample) (simp add: sample_canary_spec_def)
qed

end
