(* ===== verification/Canary_Weights.thy ===== *)
theory Canary_Weights
  imports Api_Rollout
begin

text \<open>
  \<open>internal/canary/weights.go\<close>: the division of a replica total between the primary and the canary
  variant (\<open>Split\<close>), the share it realises (\<open>RealizedWeight\<close>) and the quantisation test
  (\<open>IsQuantized\<close>), with Go's \<open>int32\<close> and \<open>int64\<close> arithmetic written out.
  The locale \<open>replica_splitter\<close> is the contract the rollout state machine relies on.
\<close>

definition Split :: "i32 \<Rightarrow> i32 \<Rightarrow> i32 \<times> i32" where
  "Split tot weight =
     (if tot \<le> 0 then (0, 0)
      else if weight \<le> 0 then (tot, 0)
      else if weight \<ge> 100 then (0, tot)
      else let canary = wrap32 (wrap64 (wrap64 (tot * weight) + 99) sdiv 100);
               canary = max canary 1;
               canary = (if canary \<ge> tot then wrap32 (tot - 1) else canary);
               canary = max canary 0
           in (wrap32 (tot - canary), canary))"

definition RealizedWeight :: "i32 \<Rightarrow> i32 \<Rightarrow> i32" where
  "RealizedWeight primary canary =
     (let tot = wrap32 (primary + canary)
      in if tot \<le> 0 then 0
         else wrap32 (wrap64 (wrap64 (canary * 100) + tot sdiv 2) sdiv tot))"

definition IsQuantized :: "i32 \<Rightarrow> i32 \<Rightarrow> bool" where
  "IsQuantized desired realized =
     (let d = wrap32 (desired - realized); d = (if d < 0 then wrap32 (- d) else d) in d > 1)"

section \<open>The contract of a replica splitter\<close>

locale replica_splitter =
  fixes split :: "i32 \<Rightarrow> i32 \<Rightarrow> i32 \<times> i32"
  assumes split_total: "is_i32 tot \<Longrightarrow> 0 \<le> tot \<Longrightarrow> fst (split tot w) + snd (split tot w) = tot"
    and split_nonneg: "is_i32 tot \<Longrightarrow> 0 \<le> fst (split tot w) \<and> 0 \<le> snd (split tot w)"
    and split_exposes: "is_i32 tot \<Longrightarrow> 1 < tot \<Longrightarrow> 0 < w \<Longrightarrow> 0 < snd (split tot w)"
    and split_keeps: "is_i32 tot \<Longrightarrow> 0 < tot \<Longrightarrow> w < 100 \<Longrightarrow> 0 < fst (split tot w)"
begin

lemma split_bounded: "is_i32 tot \<Longrightarrow> 0 \<le> tot \<Longrightarrow> snd (split tot w) \<le> tot"
  using split_total [of tot w] split_nonneg [of tot w] by linarith

lemma canary_zero_at_one: "w < 100 \<Longrightarrow> snd (split 1 w) = 0"
proof -
  assume "w < 100"
  then have "0 < fst (split 1 w)" "0 \<le> snd (split 1 w)" "fst (split 1 w) + snd (split 1 w) = 1"
    using split_keeps [of 1 w] split_nonneg [of 1 w] split_total [of 1 w] by (simp_all add: is_i32_def)
  then show ?thesis
    by linarith
qed

lemma zero_canary_iff:
  "is_i32 tot \<Longrightarrow> 0 \<le> tot \<Longrightarrow> 0 < w \<Longrightarrow> w < 100 \<Longrightarrow> snd (split tot w) = 0 \<longleftrightarrow> tot \<le> 1"
  using split_exposes [of tot w] split_bounded [of tot w] split_nonneg [of tot w]
    canary_zero_at_one [of w]
  by (cases "tot = 1"; cases "tot = 0") auto

end

section \<open>The code's splitter satisfies it\<close>

lemma split_product_range:
  assumes "is_i32 tot" "0 < tot" "0 < weight" "weight < 100"
  shows "is_i64 (tot * weight)" "is_i64 (tot * weight + 99)"
    "is_i32 ((tot * weight + 99) div 100)"
proof -
  have "tot * weight \<le> tot * 99"
    using assms by (intro mult_left_mono) simp_all
  moreover have "0 \<le> tot * weight"
    using assms by simp
  ultimately have b: "0 \<le> tot * weight" "tot * weight \<le> 2147483647 * 99"
    using assms unfolding is_i32_def by linarith+
  then show "is_i64 (tot * weight)" "is_i64 (tot * weight + 99)"
    by (simp_all add: is_i64_def)
  have "0 \<le> (tot * weight + 99) div 100" "(tot * weight + 99) div 100 \<le> 2147483647"
    using b by linarith+
  then show "is_i32 ((tot * weight + 99) div 100)"
    by (simp add: is_i32_def)
qed

lemma Split_inner:
  assumes "is_i32 tot" "0 < tot" "0 < weight" "weight < 100"
  shows "snd (Split tot weight) = min (tot - 1) ((tot * weight + 99) div 100)"
    and "fst (Split tot weight) = tot - snd (Split tot weight)"
proof -
  define c where "c = (tot * weight + 99) div 100"
  have prod: "1 \<le> tot * weight"
    using assms(2,3) by (metis int_one_le_iff_zero_less mult_pos_pos)
  have c1: "1 \<le> c"
    using prod unfolding c_def by linarith
  have cw: "wrap32 (wrap64 (wrap64 (tot * weight) + 99) sdiv 100) = c"
    using split_product_range [OF assms] prod
    by (simp add: c_def wrap64_id wrap32_id sdiv_nonneg)
  have t1: "wrap32 (tot - 1) = tot - 1"
    using assms(1,2) by (intro wrap32_id) (simp add: is_i32_def)
  have tc: "0 \<le> x \<Longrightarrow> x \<le> tot \<Longrightarrow> wrap32 (tot - x) = tot - x" for x
    using assms(1,2) by (intro wrap32_id) (simp add: is_i32_def)
  show "snd (Split tot weight) = min (tot - 1) ((tot * weight + 99) div 100)"
    using assms c1 by (simp add: Split_def Let_def cw t1 flip: c_def)
  then show "fst (Split tot weight) = tot - snd (Split tot weight)"
    using assms c1 by (auto simp: Split_def Let_def cw t1 tc simp flip: c_def)
qed

lemma Split_boundary:
  "tot \<le> 0 \<Longrightarrow> Split tot w = (0, 0)"
  "0 < tot \<Longrightarrow> w \<le> 0 \<Longrightarrow> Split tot w = (tot, 0)"
  "0 < tot \<Longrightarrow> 100 \<le> w \<Longrightarrow> Split tot w = (0, tot)"
  by (simp_all add: Split_def)

interpretation splitter: replica_splitter Split
proof
  fix tot w :: int
  assume t: "is_i32 tot"
  consider "tot \<le> 0" | "0 < tot" "w \<le> 0" | "0 < tot" "100 \<le> w" | "0 < tot" "0 < w" "w < 100"
    by linarith
  then have *: "(0 \<le> tot \<longrightarrow> fst (Split tot w) + snd (Split tot w) = tot) \<and>
      0 \<le> fst (Split tot w) \<and> 0 \<le> snd (Split tot w) \<and>
      (1 < tot \<and> 0 < w \<longrightarrow> 0 < snd (Split tot w)) \<and>
      (0 < tot \<and> w < 100 \<longrightarrow> 0 < fst (Split tot w))"
  proof cases
    case 4
    define c where "c = (tot * w + 99) div 100"
    have "1 \<le> tot * w"
      using 4 by (metis int_one_le_iff_zero_less mult_pos_pos)
    then have "1 \<le> c"
      unfolding c_def by linarith
    then show ?thesis
      using Split_inner [OF t 4] 4 by (auto simp: min_def simp flip: c_def)
  qed (simp_all add: Split_boundary)
  then show "0 \<le> tot \<Longrightarrow> fst (Split tot w) + snd (Split tot w) = tot"
    and "0 \<le> fst (Split tot w) \<and> 0 \<le> snd (Split tot w)"
    and "1 < tot \<Longrightarrow> 0 < w \<Longrightarrow> 0 < snd (Split tot w)"
    and "0 < tot \<Longrightarrow> w < 100 \<Longrightarrow> 0 < fst (Split tot w)"
    by simp_all
qed

lemma Split_i32 [go_range]: "is_i32 tot \<Longrightarrow> is_i32 (snd (Split tot w)) \<and> is_i32 (fst (Split tot w))"
  using splitter.split_total [of tot w] splitter.split_nonneg [of tot w] Split_boundary(1) [of tot w]
  by (cases "0 \<le> tot") (auto simp: is_i32_def)

section \<open>Correctness of the split\<close>

text \<open>
  C27. The replica-ownership contract of the split, for every \<open>int32\<close> total that is not negative and
  every weight: the two counts are non-negative and sum to the total exactly; a positive weight over
  more than one pod gives the canary a pod; a weight below 100 leaves the primary a pod; and at a
  total of one the primary keeps it.
\<close>

theorem Split_contract:
  assumes "is_i32 tot" "0 \<le> tot" "Split tot w = (p, c)"
  shows "p + c = tot \<and> 0 \<le> p \<and> 0 \<le> c \<and> (0 < w \<and> 1 < tot \<longrightarrow> 1 \<le> c) \<and>
         (w < 100 \<and> 1 \<le> tot \<longrightarrow> 1 \<le> p) \<and> (tot = 1 \<and> w < 100 \<longrightarrow> c = 0)"
  using splitter.split_total [OF assms(1,2), of w] splitter.split_nonneg [OF assms(1), of w]
    splitter.split_exposes [OF assms(1), of w] splitter.split_keeps [OF assms(1), of w]
    splitter.canary_zero_at_one [of w] assms(3)
  by auto

theorem Split_contract_witness:
  "Split 3 20 = (2, 1) \<and> (2::i32) + 1 = 3 \<and> (1::i32) \<le> 2"
proof -
  have s: "Split 3 20 = (2, 1)"
    by (simp add: Split_def wrap32_def wrap64_def signed_divide_int_def)
  have "is_i32 3" "0 \<le> (3::i32)"
    by (simp_all add: is_i32_def)
  from Split_contract [OF this s] s show ?thesis
    by simp
qed

text \<open>
  C39. Between the boundary weights the canary receives exactly the rounded-up share
  \<open>\<lceil>total * weight / 100\<rceil>\<close>, capped so that the primary keeps one pod: the \<open>int64\<close> intermediate never
  overflows and no conversion wraps, for every positive \<open>int32\<close> total.
\<close>

theorem Split_rounds_up:
  assumes "is_i32 tot" "0 < tot" "0 < w" "w < 100"
  shows "snd (Split tot w) = min (tot - 1) \<lceil>real_of_int (tot * w) / 100\<rceil> \<and>
         fst (Split tot w) = tot - snd (Split tot w)"
proof -
  have ceil: "\<lceil>real_of_int x / 100\<rceil> = (x + 99) div 100" for x :: int
  proof (rule ceiling_unique)
    have "(x + 99) div 100 * 100 < x + 100" "x \<le> (x + 99) div 100 * 100"
      by linarith+
    then have "real_of_int ((x + 99) div 100) * 100 < real_of_int x + 100"
        "real_of_int x \<le> real_of_int ((x + 99) div 100) * 100"
      by linarith+
    then show "real_of_int ((x + 99) div 100) - 1 < real_of_int x / 100"
        "real_of_int x / 100 \<le> real_of_int ((x + 99) div 100)"
      by simp_all
  qed
  show ?thesis
    using Split_inner [OF assms] by (simp only: ceil)
qed

theorem Split_rounds_up_witness:
  "snd (Split 2147483647 99) = min (2147483647 - 1) \<lceil>real_of_int (2147483647 * 99) / 100\<rceil>"
  using Split_rounds_up [of 2147483647 99] by (simp add: is_i32_def)

text \<open>
  Exposure grows with the ladder: for a fixed total, a larger weight never gives the canary fewer
  replicas, so climbing a strictly increasing ladder never shrinks the canary.
\<close>

theorem Split_mono:
  assumes "is_i32 tot" "w \<le> w'"
  shows "snd (Split tot w) \<le> snd (Split tot w')"
proof (cases "0 < tot \<and> 0 < w \<and> w' < 100")
  case True
  then have "(tot * w + 99) div 100 \<le> (tot * w' + 99) div 100"
    using assms by (intro zdiv_mono1) simp_all
  then show ?thesis
    using True assms Split_inner(1) [of tot w] Split_inner(1) [of tot w'] by (simp add: min_def)
next
  case False
  then consider "tot \<le> 0" | "0 < tot" "w \<le> 0" | "0 < tot" "100 \<le> w'"
    by linarith
  then show ?thesis
  proof cases
    case 3
    then show ?thesis
      using splitter.split_bounded [OF assms(1), of w] by (simp add: Split_boundary)
  qed (use assms splitter.split_nonneg [OF assms(1), of w'] in \<open>simp_all add: Split_boundary\<close>)
qed

theorem Split_mono_witness: "snd (Split 10 20) \<le> snd (Split 10 40)"
  using Split_mono [of 10 20 40] by (simp add: is_i32_def)

lemma RealizedWeight_eq:
  assumes "0 \<le> p" "0 \<le> c" "0 < p + c" "is_i32 (p + c)"
  shows "RealizedWeight p c = (100 * c + (p + c) div 2) div (p + c)"
proof -
  define t where "t = p + c"
  define n where "n = 100 * c + t div 2"
  have t: "0 < t" "c \<le> t" "t \<le> 2147483647" "is_i32 t"
    using assms unfolding t_def is_i32_def by linarith+
  have n: "0 \<le> n" "n < t * (100 + 1)" "is_i64 (c * 100)" "is_i64 n"
    using assms t unfolding n_def is_i64_def by auto
  have "0 \<le> n div t" "n div t \<le> 100"
    using t n by (intro zdiv_ge_bound zdiv_le_bound; simp)+
  then have q: "wrap32 (n div t) = n div t"
    by (intro wrap32_id) (simp add: is_i32_def)
  have half: "t sdiv 2 = t div 2"
    using t by (intro sdiv_nonneg) simp_all
  have "RealizedWeight p c = wrap32 (wrap64 (wrap64 (c * 100) + t sdiv 2) sdiv t)"
    using t by (simp add: RealizedWeight_def Let_def wrap32_id flip: t_def)
  also have "\<dots> = wrap32 (n sdiv t)"
    using n(3,4) half by (simp add: wrap64_id n_def mult.commute)
  also have "\<dots> = n div t"
    using n(1) t(1) q by (simp add: sdiv_nonneg)
  finally show ?thesis
    by (simp add: n_def t_def)
qed

text \<open>
  The published share is honest: for the counts a split produces, \<open>RealizedWeight\<close> lies between
  0 and 100, is the canary's share rounded to the nearest percent, and is at least the requested
  weight wherever the cap that protects the primary's last pod did not bind.
\<close>

theorem RealizedWeight_split:
  assumes "is_i32 tot" "0 < tot" "Split tot w = (p, c)"
  shows "0 \<le> RealizedWeight p c \<and> RealizedWeight p c \<le> 100 \<and>
         \<bar>2 * (tot * RealizedWeight p c - 100 * c)\<bar> \<le> tot \<and>
         (0 < w \<and> w < 100 \<and> c < tot - 1 \<longrightarrow> w \<le> RealizedWeight p c)"
proof -
  have pc: "p + c = tot" "0 \<le> p" "0 \<le> c"
    using splitter.split_total [of tot w] splitter.split_nonneg [of tot w] assms by auto
  define r where "r = (100 * c + tot div 2) div tot"
  have rw: "RealizedWeight p c = r"
    using RealizedWeight_eq [of p c] pc assms(1,2) by (simp add: r_def)
  have lo: "tot * r \<le> 100 * c + tot div 2"
    unfolding r_def by (rule zdiv_mult_le [OF assms(2)])
  have hi: "100 * c + tot div 2 < tot * r + tot"
    using mult_div_mod_eq [of tot "100 * c + tot div 2"] pos_mod_bound [OF assms(2), of "100 * c + tot div 2"]
    unfolding r_def by linarith
  have "0 \<le> r" "r \<le> 100"
    unfolding r_def using assms(2) pc by (intro zdiv_ge_bound zdiv_le_bound; simp)+
  moreover have "w \<le> r" if "0 < w" "w < 100" "c < tot - 1"
  proof -
    have "c = (tot * w + 99) div 100"
      using Split_inner(1) [OF assms(1,2) that(1,2)] that(3) assms(3) by (auto simp: min_def split: if_splits)
    then have "tot * w \<le> 100 * c"
      by linarith
    then show ?thesis
      unfolding r_def using assms(2) by (intro zdiv_ge_bound) simp_all
  qed
  ultimately show ?thesis
    using lo hi by (auto simp: rw abs_le_iff)
qed

theorem RealizedWeight_split_witness:
  "Split 3 20 = (2, 1) \<and> 20 \<le> RealizedWeight 2 1 \<and> RealizedWeight 2 1 \<le> 100"
proof -
  have s: "Split 3 20 = (2, 1)"
    by (simp add: Split_def wrap32_def wrap64_def signed_divide_int_def)
  have "is_i32 3" "0 < (3::i32)"
    by (simp_all add: is_i32_def)
  from RealizedWeight_split [OF this s] s show ?thesis
    by simp
qed

end
