(* ===== verification/Canary_Verdict.thy ===== *)
theory Canary_Verdict
  imports Api_Rollout
begin

text \<open>
  \<open>internal/canary/verdict.go\<close>: the collapse of the per-metric checks of a round into one verdict
  (\<open>Aggregate\<close>, \<open>rank\<close>) and the three disjoint budgets a canary spends (\<open>counters\<close>, \<open>apply\<close>,
  \<open>SetCounters\<close>). The locale \<open>verdict_budget\<close> states what the state machine relies on when it
  folds rounds into the budgets; its lemmas relate the counters to the history of verdicts.
\<close>

record Round =
  rd_Verdict :: Verdict
  rd_Checks :: "MetricCheck list"

fun rank :: "Verdict \<Rightarrow> int" where
  "rank VerdictPass = 0"
| "rank VerdictInconclusive = 1"
| "rank VerdictFail = 2"
| "rank VerdictError = 3"
| "rank (VerdictOther _) = 4"

fun worst_of :: "Verdict \<Rightarrow> MetricCheck list \<Rightarrow> Verdict" where
  "worst_of worst [] = worst"
| "worst_of worst (c # cs) =
     worst_of (if rank (mc_Verdict c) > rank worst then mc_Verdict c else worst) cs"

definition Aggregate :: "MetricCheck list \<Rightarrow> Round" where
  "Aggregate checks =
     (if length checks = 0 then \<lparr>rd_Verdict = VerdictError, rd_Checks = []\<rparr>
      else \<lparr>rd_Verdict = worst_of VerdictPass checks, rd_Checks = checks\<rparr>)"

record counters =
  failed :: i32
  consecErr :: i32
  consecInconcl :: i32

fun apply_verdict :: "counters \<Rightarrow> Verdict \<Rightarrow> counters" where
  "apply_verdict c VerdictPass = c\<lparr>consecErr := 0, consecInconcl := 0\<rparr>"
| "apply_verdict c VerdictFail =
     c\<lparr>failed := wrap32 (failed c + 1), consecErr := 0, consecInconcl := 0\<rparr>"
| "apply_verdict c VerdictError = c\<lparr>consecErr := wrap32 (consecErr c + 1)\<rparr>"
| "apply_verdict c VerdictInconclusive =
     c\<lparr>consecInconcl := wrap32 (consecInconcl c + 1), consecErr := 0\<rparr>"
| "apply_verdict c (VerdictOther _) = c"

definition zero_counters :: counters where
  "zero_counters = \<lparr>failed = 0, consecErr = 0, consecInconcl = 0\<rparr>"

definition SetCounters :: "i32 \<Rightarrow> i32 \<Rightarrow> i32 \<Rightarrow> counters" where
  "SetCounters f e i = \<lparr>failed = max f 0, consecErr = max e 0, consecInconcl = max i 0\<rparr>"

section \<open>Aggregation\<close>

lemma worst_of_rank: "rank (worst_of v cs) = Max (insert (rank v) (rank ` mc_Verdict ` set cs))"
proof (induction v cs rule: worst_of.induct)
  case (2 v c cs)
  then show ?case
    by (cases "cs = []") (simp_all add: max_def Max_insert2 insert_commute)
qed simp

lemma worst_of_cases: "worst_of v cs = v \<or> (\<exists>c \<in> set cs. worst_of v cs = mc_Verdict c)"
  by (induction v cs rule: worst_of.induct) (auto split: if_splits)

lemma worst_of_ge: "rank v \<le> rank (worst_of v cs) \<and> (\<forall>c \<in> set cs. rank (mc_Verdict c) \<le> rank (worst_of v cs))"
  by (auto simp: worst_of_rank)

lemma rank_Pass: "rank v \<le> 0 \<Longrightarrow> v = VerdictPass"
  by (cases v) simp_all

lemma rank_inj: "rank v = rank w \<Longrightarrow> rank w < 4 \<Longrightarrow> v = w"
  by (cases v; cases w) simp_all

text \<open>
  The round verdict is the verdict of one of the checks and no check outranks it, in the order
  Pass, Inconclusive, Fail, Error, unrecognised; in particular a round passes exactly when there is
  at least one check and every check passed, a Fail never decides a round that also has an Error, and
  a round with no check at all is an Error and never a promotion.
\<close>

theorem Aggregate_dominant:
  "(checks = [] \<longrightarrow> rd_Verdict (Aggregate checks) = VerdictError) \<and>
   (checks \<noteq> [] \<longrightarrow>
      rd_Verdict (Aggregate checks) \<in> mc_Verdict ` set checks \<and>
      (\<forall>c \<in> set checks. rank (mc_Verdict c) \<le> rank (rd_Verdict (Aggregate checks)))) \<and>
   (rd_Verdict (Aggregate checks) = VerdictPass \<longleftrightarrow>
      checks \<noteq> [] \<and> (\<forall>c \<in> set checks. mc_Verdict c = VerdictPass)) \<and>
   (rd_Verdict (Aggregate checks) = VerdictFail \<longrightarrow> VerdictError \<notin> mc_Verdict ` set checks)"
proof (cases checks)
  case (Cons c cs)
  define w where "w = worst_of VerdictPass checks"
  have agg: "rd_Verdict (Aggregate checks) = w"
    by (simp add: Aggregate_def Cons w_def)
  have ge: "rank (mc_Verdict x) \<le> rank w" if "x \<in> set checks" for x
    using worst_of_ge [of VerdictPass checks] that by (simp add: w_def)
  have mem: "w \<in> mc_Verdict ` set checks"
  proof (cases "w = VerdictPass")
    case True
    with ge [of c] Cons rank_Pass [of "mc_Verdict c"] show ?thesis
      by auto
  next
    case False
    with worst_of_cases [of VerdictPass checks] show ?thesis
      by (auto simp: w_def)
  qed
  have "w = VerdictPass \<longleftrightarrow> (\<forall>x \<in> set checks. mc_Verdict x = VerdictPass)"
    using ge mem rank_Pass by fastforce
  moreover have "VerdictError \<notin> mc_Verdict ` set checks" if "w = VerdictFail"
    using ge that by force
  ultimately show ?thesis
    using Cons ge mem agg by auto
qed (simp add: Aggregate_def)

theorem Aggregate_dominant_witness:
  "let chk = \<lambda>v. \<lparr>mc_Name = '''', mc_Verdict = v, mc_Value = '''', mc_Threshold = '''', mc_Message = ''''\<rparr>
   in rd_Verdict (Aggregate [chk VerdictFail, chk VerdictError]) = VerdictError \<and>
      rd_Verdict (Aggregate [chk VerdictPass]) = VerdictPass \<and>
      rd_Verdict (Aggregate []) = VerdictError"
proof -
  have "rd_Verdict (Aggregate []) = VerdictError"
    using Aggregate_dominant [of "[]"] by simp
  then show ?thesis
    by (simp add: Let_def Aggregate_def)
qed

section \<open>The budgets\<close>

text \<open>\<open>room k c\<close> says that the counters have room for \<open>k\<close> more rounds before an \<open>int32\<close> wraps.\<close>

locale verdict_budget =
  fixes step :: "'c \<Rightarrow> Verdict \<Rightarrow> 'c"
    and room :: "nat \<Rightarrow> 'c \<Rightarrow> bool"
    and fails :: "'c \<Rightarrow> int"
    and errs :: "'c \<Rightarrow> int"
    and inconcls :: "'c \<Rightarrow> int"
  assumes room_step: "room (Suc k) c \<Longrightarrow> room k (step c v)"
    and fails_step: "room (Suc k) c \<Longrightarrow> fails (step c v) = fails c + (if v = VerdictFail then 1 else 0)"
    and errs_step: "room (Suc k) c \<Longrightarrow> errs (step c VerdictError) = errs c + 1"
    and errs_reset: "v \<in> {VerdictPass, VerdictFail, VerdictInconclusive} \<Longrightarrow> errs (step c v) = 0"
    and inconcls_step: "room (Suc k) c \<Longrightarrow> inconcls (step c VerdictInconclusive) = inconcls c + 1"
    and inconcls_reset: "v \<in> {VerdictPass, VerdictFail} \<Longrightarrow> inconcls (step c v) = 0"
begin

lemma fails_fold:
  "room (length vs) c \<Longrightarrow> fails (foldl step c vs) = fails c + int (count_list vs VerdictFail)"
proof (induction vs arbitrary: c)
  case (Cons v vs)
  then have "room (Suc (length vs)) c"
    by simp
  from fails_step [OF this, of v] room_step [OF this, of v] Cons.IH [of "step c v"] show ?case
    by simp
qed simp

lemma errs_run:
  "room n c \<Longrightarrow> errs (foldl step c (replicate n VerdictError)) = errs c + int n"
proof (induction n arbitrary: c)
  case (Suc n)
  then have "errs (step c VerdictError) = errs c + 1" "room n (step c VerdictError)"
    by (auto intro: errs_step room_step)
  with Suc.IH show ?case
    by simp
qed simp

lemma inconcls_run:
  "room n c \<Longrightarrow> inconcls (foldl step c (replicate n VerdictInconclusive)) = inconcls c + int n"
proof (induction n arbitrary: c)
  case (Suc n)
  then have "inconcls (step c VerdictInconclusive) = inconcls c + 1" "room n (step c VerdictInconclusive)"
    by (auto intro: inconcls_step room_step)
  with Suc.IH show ?case
    by simp
qed simp

lemma room_fold: "room (length vs + k) c \<Longrightarrow> room k (foldl step c vs)"
  by (induction vs arbitrary: c) (auto intro: room_step)

lemma trailing_errors:
  assumes "room (length vs + Suc n) c" "v \<in> {VerdictPass, VerdictFail, VerdictInconclusive}"
  shows "errs (foldl step c (vs @ v # replicate n VerdictError)) = int n"
proof -
  have "room n (step (foldl step c vs) v)"
    using assms(1) by (intro room_step room_fold)
  then show ?thesis
    using errs_run errs_reset [OF assms(2)] by simp
qed

end

definition counters_room :: "nat \<Rightarrow> counters \<Rightarrow> bool" where
  "counters_room k c \<longleftrightarrow> 0 \<le> failed c \<and> 0 \<le> consecErr c \<and> 0 \<le> consecInconcl c \<and>
     failed c + int k \<le> MaxInt32 \<and> consecErr c + int k \<le> MaxInt32 \<and> consecInconcl c + int k \<le> MaxInt32"

lemma wrap32_incr: "0 \<le> x \<Longrightarrow> x + int (Suc k) \<le> MaxInt32 \<Longrightarrow> wrap32 (x + 1) = x + 1"
  by (rule wrap32_id) (simp add: is_i32_def MaxInt32_def)

interpretation budget: verdict_budget apply_verdict counters_room failed consecErr consecInconcl
proof
  fix k c v
  assume "counters_room (Suc k) c"
  then show "counters_room k (apply_verdict c v)"
    by (cases v) (auto simp: counters_room_def wrap32_incr)
next
  fix k c v
  assume "counters_room (Suc k) c"
  then show "failed (apply_verdict c v) = failed c + (if v = VerdictFail then 1 else 0)"
    by (cases v) (auto simp: counters_room_def wrap32_incr)
qed (auto simp: counters_room_def wrap32_incr)

text \<open>
  C30. The budgets are disjoint, over any history of rounds that does not exhaust an \<open>int32\<close>: the
  failure counter is exactly the number of Fail rounds since it was restored, whatever passed in
  between, and the error counter is exactly the length of the current run of Errors, whatever
  happened before the last round that measured something.
\<close>

theorem budgets_disjoint:
  assumes "counters_room (length vs + Suc n) c"
    and "v \<in> {VerdictPass, VerdictFail, VerdictInconclusive}"
  shows "failed (foldl apply_verdict c vs) = failed c + int (count_list vs VerdictFail) \<and>
         consecErr (foldl apply_verdict c (vs @ v # replicate n VerdictError)) = int n"
proof -
  have "counters_room (length vs) c"
    using assms(1) by (simp add: counters_room_def)
  then show ?thesis
    using budget.fails_fold budget.trailing_errors [OF assms] by simp
qed

theorem budgets_disjoint_witness:
  "failed (foldl apply_verdict zero_counters [VerdictFail, VerdictPass, VerdictFail]) = 2 \<and>
   consecErr (foldl apply_verdict zero_counters
      ([VerdictFail, VerdictPass, VerdictFail] @ VerdictInconclusive # replicate 2 VerdictError)) = 2"
proof -
  have "counters_room (length [VerdictFail, VerdictPass, VerdictFail] + Suc 2) zero_counters"
    by (simp add: counters_room_def zero_counters_def MaxInt32_def)
  then have "failed (foldl apply_verdict zero_counters [VerdictFail, VerdictPass, VerdictFail]) =
        failed zero_counters + int (count_list [VerdictFail, VerdictPass, VerdictFail] VerdictFail) \<and>
      consecErr (foldl apply_verdict zero_counters
        ([VerdictFail, VerdictPass, VerdictFail] @ VerdictInconclusive # replicate 2 VerdictError)) = int 2"
    by (rule budgets_disjoint) simp
  then show ?thesis
    by (simp only: zero_counters_def counters.simps) simp
qed

lemma SetCounters_room: "is_i32 f \<Longrightarrow> is_i32 e \<Longrightarrow> is_i32 i \<Longrightarrow> counters_room 0 (SetCounters f e i)"
  by (simp add: counters_room_def SetCounters_def is_i32_def MaxInt32_def)

lemma SetCounters_id: "counters_room 0 c \<Longrightarrow> SetCounters (failed c) (consecErr c) (consecInconcl c) = c"
  by (simp add: counters_room_def SetCounters_def)

end
