(* ===== verification/Canary_State.thy ===== *)
theory Canary_State
  imports Canary_Weights Canary_Verdict
begin

text \<open>
  \<open>internal/canary/state.go\<close>: the rollout state machine. \<open>Plan\<close>, \<open>State\<close>, \<open>Input\<close> and \<open>Output\<close> are
  the code's structs; \<open>Observe\<close>, \<open>DueForAnalysis\<close>, \<open>Next\<close> and the handlers \<open>Next\<close> dispatches to are
  translated one to one, with every field of the output (also the messages) computed as the code
  computes it. Go's struct literals leave the fields they do not name at zero: \<open>zero_Output\<close> and
  \<open>zero_State\<close>, updated, are those literals. \<open>begin\<close> is a keyword here and is called \<open>begin_canary\<close>.
\<close>

section \<open>Phases, actions and the structs\<close>

datatype Phase = PhaseIdle | PhaseWaiting | PhaseProgressing | PhasePaused | PhasePromoting
  | PhaseRollingBack | PhaseOther string

datatype Action = ActionNone | ActionStart | ActionWait | ActionAdvance | ActionPromote
  | ActionRollback | ActionPause | ActionOther string

record Plan =
  pl_Weights :: "i32 list"
  pl_Interval :: go_duration
  pl_InitialDelay :: go_duration
  pl_Window :: go_duration
  pl_FailureThreshold :: i32
  pl_ConsecutiveErrorLimit :: i32
  pl_InconclusiveLimit :: i32
  pl_OnInconclusive :: InconclusiveAction
  pl_RequireApproval :: bool
  pl_ProgressDeadline :: go_duration

record State =
  st_Phase :: Phase
  st_Revision :: string
  st_StableRevision :: string
  st_FailedRevision :: string
  st_MetricScopeReady :: bool
  st_Step :: i32
  st_AvailableSince :: go_time
  st_ReadinessTarget :: CanaryReadinessTarget
  st_LastAnalysis :: go_time
  st_StartedAt :: go_time
  st_counters :: counters

record DeploymentObservation =
  do_UID :: string
  do_Revision :: string
  do_Generation :: i64
  do_ObservedGeneration :: i64
  do_Replicas :: i32
  do_UpdatedReplicas :: i32
  do_ReadyReplicas :: i32
  do_AvailableReplicas :: i32

record Input =
  in_Now :: go_time
  in_Plan :: Plan
  in_State :: State
  in_TargetRevision :: string
  in_StableRevision :: string
  in_TotalReplicas :: i32
  in_Deployment :: DeploymentObservation
  in_Round :: "Round option"
  in_Approved :: bool
  in_Aborted :: bool

record TrafficObservation =
  to_Weight :: "i32 option"
  to_At :: go_time
  to_Window :: go_duration
  to_Reason :: string

record Output =
  out_Observation :: TrafficObservation
  out_State :: State
  out_Action :: Action
  out_DesiredWeight :: i32
  out_Primary :: i32
  out_Canary :: i32
  out_ReadyReplicas :: i32
  out_AvailableReplicas :: i32
  out_RealizedWeight :: i32
  out_RequeueAfter :: go_duration
  out_Reason :: string
  out_Message :: string

definition zero_State :: State where
  "zero_State = \<lparr>st_Phase = PhaseIdle, st_Revision = '''', st_StableRevision = '''',
     st_FailedRevision = '''', st_MetricScopeReady = False, st_Step = 0, st_AvailableSince = time_zero,
     st_ReadinessTarget = zero_ReadinessTarget, st_LastAnalysis = time_zero, st_StartedAt = time_zero,
     st_counters = zero_counters\<rparr>"

definition zero_Observation :: TrafficObservation where
  "zero_Observation = \<lparr>to_Weight = None, to_At = time_zero, to_Window = 0, to_Reason = ''''\<rparr>"

definition zero_Output :: Output where
  "zero_Output = \<lparr>out_Observation = zero_Observation, out_State = zero_State, out_Action = ActionOther '''',
     out_DesiredWeight = 0, out_Primary = 0, out_Canary = 0, out_ReadyReplicas = 0,
     out_AvailableReplicas = 0, out_RealizedWeight = 0, out_RequeueAfter = 0, out_Reason = '''',
     out_Message = ''''\<rparr>"

definition annoAbort :: string where "annoAbort = ''llmcp.io/abort''"
definition annoPromote :: string where "annoPromote = ''llmcp.io/promote''"

text \<open>The operator-facing messages, one constant for each literal of the handlers.\<close>

definition msg_aborted :: string where
  "msg_aborted = ''Rollout aborted by '' @ annoAbort"

definition msg_restart :: "string \<Rightarrow> string" where
  "msg_restart rv = ''Spec changed mid-rollout; restarting the canary at step 0 for revision '' @ rv"

definition msg_not_retried :: "string \<Rightarrow> string" where
  "msg_not_retried rv = ''Revision '' @ rv @ '' was rolled back and will not be retried; '' @
     ''change the spec to try again''"

definition msg_idle :: string where
  "msg_idle = ''No canary in flight''"

definition msg_no_rollback_target :: string where
  "msg_no_rollback_target =
     ''No revision has reached availability yet, so there is nothing to roll back to; '' @
     ''rolling out directly instead of canarying''"

definition msg_empty_ladder :: "string \<Rightarrow> string" where
  "msg_empty_ladder rv = ''The weight ladder is empty; promoting revision '' @ rv @ '' directly''"

definition msg_started :: "string \<Rightarrow> string" where
  "msg_started rv = ''Canary started for revision '' @ rv"

definition msg_capacity :: "i32 \<Rightarrow> string \<Rightarrow> string" where
  "msg_capacity n rv = ''Replica-based traffic splitting needs at least 2 replicas to divide; '' @
     ''spec.replicas is '' @ itoa n @ '', so revision '' @ rv @
     '' cannot start; holding the stable revision until capacity is increased''"

definition msg_promoted :: "string \<Rightarrow> string" where
  "msg_promoted rv = ''Revision '' @ rv @ '' is promoted and serving all traffic''"

definition msg_converging :: "string \<Rightarrow> string" where
  "msg_converging rv = ''Promoting revision '' @ rv @ ''; waiting for the primary to converge''"

definition msg_approved :: string where
  "msg_approved = ''Promotion approved via '' @ annoPromote"

definition msg_wait_approval :: string where
  "msg_wait_approval = ''Waiting for approval: set the '' @ annoPromote @
     '' annotation to \"true\" to promote''"

definition msg_final_pause :: string where
  "msg_final_pause = ''Every check passed at the final weight. Set '' @ annoPromote @
     ''=\"true\" to promote, or '' @ annoAbort @ ''=\"true\" to roll back.''"

definition msg_full_ladder :: "string \<Rightarrow> string" where
  "msg_full_ladder rv = ''Every check passed through the full weight ladder; promoting '' @ rv"

definition msg_advance :: "i32 \<Rightarrow> string" where
  "msg_advance w = ''Checks passed; advancing to '' @ itoa w @ ''% traffic''"

definition msg_inconcl_rollback :: "i32 \<Rightarrow> string" where
  "msg_inconcl_rollback n = ''Rolling back: analysis was inconclusive for '' @ itoa n @ '' consecutive rounds''"

definition msg_inconcl_promote :: string where
  "msg_inconcl_promote =
     ''Promoting despite inconclusive analysis, as onInconclusive: Promote requests. '' @
     ''No metric evidence supports this promotion.''"

definition msg_inconcl_held :: "i32 \<Rightarrow> i32 \<Rightarrow> string" where
  "msg_inconcl_held w n = ''Held at '' @ itoa w @ ''% after '' @ itoa n @
     '' inconclusive rounds. Most often there is too little traffic to judge; '' @
     ''send load, raise the analysis window, or lower minRequestRate.''"

definition msg_error_abort :: "i32 \<Rightarrow> string" where
  "msg_error_abort n =
     ''Aborting: the metric provider has been unreachable for '' @ itoa n @ '' consecutive rounds''"

definition msg_error_hold :: "i32 \<Rightarrow> i32 \<Rightarrow> string" where
  "msg_error_hold n bound = ''Metric provider error ('' @ itoa n @ ''/'' @ itoa bound @
     ''); holding at the current weight rather than rolling back''"

definition msg_inconcl_hold :: "i32 \<Rightarrow> i32 \<Rightarrow> string" where
  "msg_inconcl_hold n bound = ''Analysis inconclusive ('' @ itoa n @ ''/'' @ itoa bound @
     ''); most often too little traffic to judge''"

definition msg_fail_rollback :: "i32 \<Rightarrow> i32 \<Rightarrow> string" where
  "msg_fail_rollback n bound =
     ''Rolling back: '' @ itoa n @ '' failed checks reached the threshold of '' @ itoa bound"

definition msg_fail_hold :: "i32 \<Rightarrow> i32 \<Rightarrow> string" where
  "msg_fail_hold n bound =
     ''Check failed ('' @ itoa n @ ''/'' @ itoa bound @ ''); holding at the current weight''"

definition msg_capacity_ok :: "string \<Rightarrow> string" where
  "msg_capacity_ok rv = ''Capacity is sufficient; starting the canary at step 0 for revision '' @ rv"

definition msg_deadline :: "go_duration \<Rightarrow> string" where
  "msg_deadline d = ''Canary did not establish a complete ready measurement window within '' @
     Duration_String d @ ''; rolling back''"

definition msg_wait_ready :: string where
  "msg_wait_ready =
     ''Waiting for the current canary generation and all planned replicas to become ready and available''"

definition msg_warm :: string where
  "msg_warm = ''Waiting for warm-up and a full measurement window for this rung''"

definition msg_progressing :: string where
  "msg_progressing = ''Canary is progressing''"

section \<open>Helpers\<close>

fun isActive :: "Phase \<Rightarrow> bool" where
  "isActive PhaseWaiting = True"
| "isActive PhaseProgressing = True"
| "isActive PhasePaused = True"
| "isActive _ = False"

definition weightAt :: "Plan \<Rightarrow> i32 \<Rightarrow> i32" where
  "weightAt p step =
     (if length (pl_Weights p) = 0 then 0
      else let step = max step 0;
               step = (if step \<ge> int (length (pl_Weights p))
                       then wrap32 (wrap32 (int (length (pl_Weights p))) - 1) else step)
           in pl_Weights p ! nat step)"

definition currentWeight :: "Plan \<Rightarrow> State \<Rightarrow> i32" where
  "currentWeight p st = weightAt p (st_Step st)"

definition splitFor :: "Input \<Rightarrow> i32 \<Rightarrow> i32 \<times> i32" where
  "splitFor inp weight = Split (in_TotalReplicas inp) weight"

definition nextAnalysisIn :: "Input \<Rightarrow> State \<Rightarrow> go_duration" where
  "nextAnalysisIn inp st =
     (if IsZero (st_LastAnalysis st) then pl_Interval (in_Plan inp)
      else let remaining = Sub (Add (st_LastAnalysis st) (pl_Interval (in_Plan inp))) (in_Now inp)
           in if remaining \<le> 0 then go_Second else remaining)"

definition DueForAnalysis :: "go_time \<Rightarrow> Plan \<Rightarrow> State \<Rightarrow> bool" where
  "DueForAnalysis now plan st =
     (if st_Phase st \<noteq> PhaseProgressing \<and> st_Phase st \<noteq> PhaseWaiting then False
      else if IsZero (st_AvailableSince st) then False
      else if Before now (Add (st_AvailableSince st) (wrap64 (pl_InitialDelay plan + pl_Window plan))) then False
      else if IsZero (st_LastAnalysis st) then True
      else \<not> Before now (Add (st_LastAnalysis st) (pl_Interval plan)))"

section \<open>Observe\<close>

definition readiness_target :: "Input \<Rightarrow> CanaryReadinessTarget" where
  "readiness_target inp =
     (let st = in_State inp; w = currentWeight (in_Plan inp) st
      in \<lparr>rt_Step = st_Step st, rt_Weight = w, rt_TotalReplicas = in_TotalReplicas inp,
          rt_CanaryReplicas = snd (splitFor inp w), rt_Generation = do_Generation (in_Deployment inp),
          rt_DeploymentUID = do_UID (in_Deployment inp)\<rparr>)"

definition deployment_ready :: "Input \<Rightarrow> i32 \<Rightarrow> bool" where
  "deployment_ready inp count =
     (let d = in_Deployment inp
      in count > 0 \<and> do_Revision d = st_Revision (in_State inp) \<and>
         do_Generation d > 0 \<and> do_UID d \<noteq> '''' \<and>
         do_ObservedGeneration d \<ge> do_Generation d \<and>
         do_Replicas d = count \<and> do_UpdatedReplicas d = count \<and>
         do_ReadyReplicas d = count \<and> do_AvailableReplicas d = count)"

definition Observe :: "Input \<Rightarrow> Input" where
  "Observe inp =
     (if \<not> isActive (st_Phase (in_State inp)) \<or> st_Revision (in_State inp) \<noteq> in_TargetRevision inp then inp
      else let st = in_State inp;
               count = snd (splitFor inp (currentWeight (in_Plan inp) st));
               target = readiness_target inp;
               changed = (target \<noteq> st_ReadinessTarget st);
               st = (if rt_DeploymentUID (st_ReadinessTarget st) \<noteq> '''' \<and>
                        rt_DeploymentUID (st_ReadinessTarget st) \<noteq> rt_DeploymentUID target
                     then st\<lparr>st_MetricScopeReady := False\<rparr> else st);
               ready = deployment_ready inp count;
               (st, round) =
                 (if changed \<or> \<not> ready
                  then (st\<lparr>st_ReadinessTarget := target, st_AvailableSince := time_zero,
                          st_LastAnalysis := time_zero,
                          st_counters := (st_counters st)\<lparr>consecErr := 0, consecInconcl := 0\<rparr>,
                          st_Phase := PhaseWaiting\<rparr>, None)
                  else (st, in_Round inp));
               st = (if ready \<and> IsZero (st_AvailableSince st)
                     then st\<lparr>st_AvailableSince := in_Now inp\<rparr> else st)
           in inp\<lparr>in_State := st, in_Round := round\<rparr>)"

section \<open>The handlers\<close>

definition rollback :: "Input \<Rightarrow> State \<Rightarrow> string \<Rightarrow> string \<Rightarrow> Output" where
  "rollback inp st reason message =
     zero_Output\<lparr>out_State := st\<lparr>st_Phase := PhaseRollingBack, st_FailedRevision := st_Revision st\<rparr>,
       out_Action := ActionRollback, out_DesiredWeight := 0, out_Primary := in_TotalReplicas inp,
       out_Canary := 0, out_RealizedWeight := 0, out_Reason := reason, out_Message := message\<rparr>"

definition capacityHold :: "Input \<Rightarrow> Output" where
  "capacityHold inp =
     zero_Output\<lparr>out_State := zero_State\<lparr>st_Phase := PhaseWaiting, st_Revision := in_TargetRevision inp,
         st_StableRevision := in_StableRevision inp,
         st_FailedRevision := st_FailedRevision (in_State inp)\<rparr>,
       out_Action := ActionWait, out_Primary := in_TotalReplicas inp, out_DesiredWeight := 0,
       out_RealizedWeight := 0, out_Reason := ReasonInsufficientReplicas,
       out_Message := msg_capacity (in_TotalReplicas inp) (in_TargetRevision inp),
       out_RequeueAfter := pl_Interval (in_Plan inp)\<rparr>"

definition start :: "Input \<Rightarrow> string \<Rightarrow> string \<Rightarrow> Output" where
  "start inp reason message =
     (let w = weightAt (in_Plan inp) 0; (primary, canary) = splitFor inp w
      in zero_Output\<lparr>out_State := zero_State\<lparr>st_Phase := PhaseWaiting, st_Revision := in_TargetRevision inp,
             st_StableRevision := in_StableRevision inp,
             st_FailedRevision := st_FailedRevision (in_State inp), st_Step := 0,
             st_StartedAt := in_Now inp\<rparr>,
           out_Action := ActionStart, out_DesiredWeight := w, out_Primary := primary,
           out_Canary := canary, out_RealizedWeight := RealizedWeight primary canary,
           out_RequeueAfter := pl_Interval (in_Plan inp), out_Reason := reason, out_Message := message\<rparr>)"

text \<open>The three settled answers of \<open>begin\<close> share one struct literal up to reason and message.\<close>

definition settled :: "Input \<Rightarrow> string \<Rightarrow> string \<Rightarrow> Output" where
  "settled inp reason message =
     zero_Output\<lparr>out_State := zero_State\<lparr>st_Phase := PhaseIdle,
         st_FailedRevision := st_FailedRevision (in_State inp)\<rparr>,
       out_Action := ActionNone, out_Primary := in_TotalReplicas inp, out_DesiredWeight := 0,
       out_RealizedWeight := 0, out_Reason := reason, out_Message := message\<rparr>"

definition begin_canary :: "Input \<Rightarrow> Output" where
  "begin_canary inp =
     (if in_TargetRevision inp \<noteq> '''' \<and> in_TargetRevision inp = st_FailedRevision (in_State inp) then
        settled inp ReasonCanaryRolledBack
          (msg_not_retried (in_TargetRevision inp))
      else if in_TargetRevision inp = in_StableRevision inp \<or> in_TargetRevision inp = '''' then
        settled inp ReasonCanaryNotRunning msg_idle
      else if in_StableRevision inp = '''' then
        settled inp ReasonNoLastGoodRevision
          msg_no_rollback_target
      else if length (pl_Weights (in_Plan inp)) = 0 then
        zero_Output\<lparr>out_State := zero_State\<lparr>st_Phase := PhasePromoting,
            st_Revision := in_TargetRevision inp, st_StableRevision := in_StableRevision inp,
            st_FailedRevision := st_FailedRevision (in_State inp), st_StartedAt := in_Now inp\<rparr>,
          out_Action := ActionPromote, out_RequeueAfter := pl_Interval (in_Plan inp),
          out_Primary := in_TotalReplicas inp, out_DesiredWeight := 100, out_RealizedWeight := 100,
          out_Reason := ReasonCanaryPromoted,
          out_Message := msg_empty_ladder (in_TargetRevision inp)\<rparr>
      else if snd (splitFor inp (weightAt (in_Plan inp) 0)) = 0 then capacityHold inp
      else start inp ReasonCanaryProgressing (msg_started (in_TargetRevision inp)))"

text \<open>The promotion answer that four branches share up to the message.\<close>

definition promote_out :: "Input \<Rightarrow> State \<Rightarrow> string \<Rightarrow> Output" where
  "promote_out inp st message =
     zero_Output\<lparr>out_State := st, out_Action := ActionPromote,
       out_RequeueAfter := pl_Interval (in_Plan inp), out_DesiredWeight := 100,
       out_Primary := in_TotalReplicas inp, out_RealizedWeight := 100,
       out_Reason := ReasonCanaryPromoted, out_Message := message\<rparr>"

definition promoting :: "Input \<Rightarrow> State \<Rightarrow> Output" where
  "promoting inp st =
     (if st_Revision st \<noteq> in_TargetRevision inp then begin_canary inp
      else if in_StableRevision inp = st_Revision st then
        zero_Output\<lparr>out_State := zero_State\<lparr>st_Phase := PhaseIdle, st_FailedRevision := st_FailedRevision st\<rparr>,
          out_Action := ActionNone, out_Primary := in_TotalReplicas inp, out_DesiredWeight := 0,
          out_RealizedWeight := 0, out_Reason := ReasonCanaryPromoted,
          out_Message := msg_promoted (st_Revision st)\<rparr>
      else promote_out inp st
        (msg_converging (st_Revision st)))"

text \<open>The pause answer of \<open>paused\<close> and \<open>advance\<close>, up to the message.\<close>

definition pause_out :: "Input \<Rightarrow> State \<Rightarrow> string \<Rightarrow> Output" where
  "pause_out inp st message =
     (let weight = currentWeight (in_Plan inp) st; (primary, canary) = splitFor inp weight
      in zero_Output\<lparr>out_State := st, out_Action := ActionPause, out_DesiredWeight := weight,
           out_Primary := primary, out_Canary := canary,
           out_RealizedWeight := RealizedWeight primary canary,
           out_Reason := ReasonAwaitingApproval, out_Message := message\<rparr>)"

definition paused :: "Input \<Rightarrow> State \<Rightarrow> Output" where
  "paused inp st =
     (if in_Approved inp
      then promote_out inp (st\<lparr>st_Phase := PhasePromoting\<rparr>) msg_approved
      else pause_out inp st msg_wait_approval)"

definition advance :: "Input \<Rightarrow> State \<Rightarrow> Output" where
  "advance inp st =
     (let lst = wrap32 (wrap32 (int (length (pl_Weights (in_Plan inp)))) - 1)
      in if st_Step st \<ge> lst then
           (if pl_RequireApproval (in_Plan inp)
            then pause_out inp (st\<lparr>st_Phase := PhasePaused\<rparr>)
                   msg_final_pause
            else promote_out inp (st\<lparr>st_Phase := PhasePromoting\<rparr>)
                   (msg_full_ladder (st_Revision st)))
         else
           let st = st\<lparr>st_Step := wrap32 (st_Step st + 1), st_Phase := PhaseWaiting,
                       st_AvailableSince := time_zero, st_LastAnalysis := time_zero\<rparr>;
               weight = currentWeight (in_Plan inp) st; (primary, canary) = splitFor inp weight
           in zero_Output\<lparr>out_State := st, out_Action := ActionAdvance, out_DesiredWeight := weight,
                out_Primary := primary, out_Canary := canary,
                out_RealizedWeight := RealizedWeight primary canary,
                out_RequeueAfter := pl_Interval (in_Plan inp), out_Reason := ReasonCanaryChecksPassed,
                out_Message := msg_advance weight\<rparr>)"

text \<open>The closure \<open>hold\<close> of \<open>analyse\<close>: the captured variables are its arguments.\<close>

definition hold :: "State \<Rightarrow> i32 \<Rightarrow> i32 \<Rightarrow> i32 \<Rightarrow> Phase \<Rightarrow> string \<Rightarrow> string \<Rightarrow> go_duration \<Rightarrow> Output" where
  "hold st weight primary canary phase reason message requeue =
     zero_Output\<lparr>out_State := st\<lparr>st_Phase := phase\<rparr>, out_Action := ActionWait,
       out_DesiredWeight := weight, out_Primary := primary, out_Canary := canary,
       out_RealizedWeight := RealizedWeight primary canary, out_RequeueAfter := requeue,
       out_Reason := reason, out_Message := message\<rparr>"

definition onInconclusive :: "Input \<Rightarrow> State \<Rightarrow> i32 \<Rightarrow> i32 \<Rightarrow> i32 \<Rightarrow> Output" where
  "onInconclusive inp st primary canary weight =
     (case pl_OnInconclusive (in_Plan inp) of
        InconclusiveRollback \<Rightarrow>
          rollback inp st ReasonAnalysisInconclusive
            (msg_inconcl_rollback (consecInconcl (st_counters st)))
      | InconclusivePromote \<Rightarrow>
          promote_out inp (st\<lparr>st_Phase := PhasePromoting\<rparr>)
            msg_inconcl_promote
      | _ \<Rightarrow>
          hold st weight primary canary PhaseProgressing ReasonAnalysisInconclusive
            (msg_inconcl_held weight (consecInconcl (st_counters st)))
            (pl_Interval (in_Plan inp)))"

text \<open>The end of \<open>analyse\<close>: the switch on the verdict of a round that is due.\<close>

definition judge :: "Input \<Rightarrow> State \<Rightarrow> i32 \<Rightarrow> i32 \<Rightarrow> i32 \<Rightarrow> Verdict \<Rightarrow> Output" where
  "judge inp st weight primary canary v =
     (let plan = in_Plan inp; c = st_counters st
      in case v of
        VerdictError \<Rightarrow>
          if consecErr c \<ge> pl_ConsecutiveErrorLimit plan
          then rollback inp st ReasonAnalysisError
                 (msg_error_abort (consecErr c))
          else hold st weight primary canary PhaseProgressing ReasonAnalysisError
                 (msg_error_hold (consecErr c) (pl_ConsecutiveErrorLimit plan)) (pl_Interval plan)
      | VerdictInconclusive \<Rightarrow>
          if consecInconcl c \<ge> pl_InconclusiveLimit plan
          then onInconclusive inp st primary canary weight
          else hold st weight primary canary PhaseProgressing ReasonAnalysisInconclusive
                 (msg_inconcl_hold (consecInconcl c) (pl_InconclusiveLimit plan)) (pl_Interval plan)
      | VerdictFail \<Rightarrow>
          if failed c \<ge> pl_FailureThreshold plan
          then rollback inp st ReasonCanaryRolledBack
                 (msg_fail_rollback (failed c) (pl_FailureThreshold plan))
          else hold st weight primary canary PhaseProgressing ReasonCanaryChecksFailed
                 (msg_fail_hold (failed c) (pl_FailureThreshold plan)) (pl_Interval plan)
      | _ \<Rightarrow> advance inp st)"

definition analyse :: "Input \<Rightarrow> State \<Rightarrow> Output" where
  "analyse inp st =
     (let plan = in_Plan inp; now = in_Now inp; weight = currentWeight plan st;
          (primary, canary) = splitFor inp weight;
          evidence = wrap64 (pl_InitialDelay plan + pl_Window plan)
      in if canary = 0 then capacityHold inp
         else if IsZero (st_StartedAt st) then
           start inp ReasonCanaryProgressing
             (msg_capacity_ok (in_TargetRevision inp))
         else if IsZero (st_LastAnalysis st) \<and> pl_ProgressDeadline plan > 0 \<and> \<not> IsZero (st_StartedAt st) \<and>
                 \<not> Before now (Add (st_StartedAt st) (pl_ProgressDeadline plan)) \<and>
                 (IsZero (st_AvailableSince st) \<or> Before now (Add (st_AvailableSince st) evidence)) then
           rollback inp st ReasonCanaryProgressDeadlineExceeded
             (msg_deadline (pl_ProgressDeadline plan))
         else if IsZero (st_AvailableSince st) then
           hold st weight primary canary PhaseWaiting ReasonCanaryProgressing
             msg_wait_ready
             (pl_Interval plan)
         else
           let warmUntil = Add (st_AvailableSince st) evidence
           in if Before now warmUntil then
                hold st weight primary canary PhaseProgressing ReasonCanaryProgressing
                  msg_warm (Sub warmUntil now)
              else case in_Round inp of
                None \<Rightarrow> hold st weight primary canary PhaseProgressing ReasonCanaryProgressing
                          msg_progressing (nextAnalysisIn inp st)
              | Some r \<Rightarrow>
                  if \<not> DueForAnalysis now plan st then
                    hold st weight primary canary PhaseProgressing ReasonCanaryProgressing
                      msg_progressing (nextAnalysisIn inp st)
                  else judge inp (st\<lparr>st_LastAnalysis := now,
                                   st_counters := apply_verdict (st_counters st) (rd_Verdict r)\<rparr>)
                         weight primary canary (rd_Verdict r))"

section \<open>Next\<close>

definition Next :: "Input \<Rightarrow> Output" where
  "Next inp0 =
     (let inp = Observe inp0; st = in_State inp
      in if in_Aborted inp \<and> isActive (st_Phase st) then
           rollback inp st ReasonCanaryAborted msg_aborted
         else if isActive (st_Phase st) \<and> st_Revision st \<noteq> in_TargetRevision inp then
           (if snd (splitFor inp (weightAt (in_Plan inp) 0)) = 0 then capacityHold inp
            else start inp ReasonCanaryProgressing
                   (msg_restart (in_TargetRevision inp)))
         else case st_Phase st of
             PhasePromoting \<Rightarrow> promoting inp st
           | PhaseIdle \<Rightarrow> begin_canary inp
           | PhaseRollingBack \<Rightarrow> begin_canary inp
           | PhasePaused \<Rightarrow> paused inp st
           | PhaseWaiting \<Rightarrow> analyse inp st
           | PhaseProgressing \<Rightarrow> analyse inp st
           | PhaseOther _ \<Rightarrow> begin_canary inp)"

end
