(* ===== verification/Canary_Cases.thy ===== *)
theory Canary_Cases
  imports Canary_State
begin

text \<open>
  The proof library of the rollout state machine: what \<open>Observe\<close> keeps and what it establishes, the
  fields of every answer a handler gives (collection \<open>answer\<close>), and the case rules \<open>Next_cases\<close>,
  \<open>analyse_cases\<close> and \<open>judge_cases\<close>, by which the properties of \<open>Next\<close> are proved one handler at a
  time.
\<close>

named_theorems answer \<open>the fields of the answers of the handlers\<close>

section \<open>Observe\<close>

lemma Observe_frame [simp]:
  "in_Now (Observe inp) = in_Now inp" "in_Plan (Observe inp) = in_Plan inp"
  "in_TargetRevision (Observe inp) = in_TargetRevision inp"
  "in_StableRevision (Observe inp) = in_StableRevision inp"
  "in_TotalReplicas (Observe inp) = in_TotalReplicas inp"
  "in_Deployment (Observe inp) = in_Deployment inp"
  "in_Approved (Observe inp) = in_Approved inp" "in_Aborted (Observe inp) = in_Aborted inp"
  by (simp_all add: Observe_def Let_def split: prod.split)

lemma Observe_state_frame [simp]:
  "st_Revision (in_State (Observe inp)) = st_Revision (in_State inp)"
  "st_StableRevision (in_State (Observe inp)) = st_StableRevision (in_State inp)"
  "st_FailedRevision (in_State (Observe inp)) = st_FailedRevision (in_State inp)"
  "st_Step (in_State (Observe inp)) = st_Step (in_State inp)"
  "st_StartedAt (in_State (Observe inp)) = st_StartedAt (in_State inp)"
  "failed (st_counters (in_State (Observe inp))) = failed (st_counters (in_State inp))"
  by (simp_all add: Observe_def Let_def split: prod.split)

lemma Observe_isActive [simp]: "isActive (st_Phase (in_State (Observe inp))) = isActive (st_Phase (in_State inp))"
  by (simp add: Observe_def Let_def split: prod.split)

lemma Observe_inactive: "\<not> isActive (st_Phase (in_State inp)) \<Longrightarrow> Observe inp = inp"
  by (simp add: Observe_def)

lemma Observe_other_revision: "st_Revision (in_State inp) \<noteq> in_TargetRevision inp \<Longrightarrow> Observe inp = inp"
  by (simp add: Observe_def)

lemma Observe_phase:
  "st_Phase (in_State (Observe inp)) = st_Phase (in_State inp) \<or>
   st_Phase (in_State (Observe inp)) = PhaseWaiting \<and> isActive (st_Phase (in_State inp)) \<and>
   st_Revision (in_State inp) = in_TargetRevision inp"
  by (simp add: Observe_def Let_def split: prod.split)

text \<open>The code's capacity at the current rung, and the exact readiness it demands of the deployment.\<close>

definition planned :: "Input \<Rightarrow> i32" where
  "planned inp = snd (splitFor inp (currentWeight (in_Plan inp) (in_State inp)))"

text \<open>
  What has to be true of the world for a round to survive \<open>Observe\<close>: the deployment is exactly ready
  and neither rung nor capacity nor incarnation moved since its clock was started.
\<close>

lemma Observe_round:
  assumes "in_Round (Observe inp) = Some r" "isActive (st_Phase (in_State inp))"
    "st_Revision (in_State inp) = in_TargetRevision inp"
  shows "in_Round inp = Some r" "deployment_ready inp (planned inp)"
    "st_ReadinessTarget (in_State inp) = readiness_target inp"
  using assms by (auto simp: Observe_def Let_def planned_def split: prod.splits if_splits)

lemma Observe_clock:
  assumes "isActive (st_Phase (in_State inp))" "st_Revision (in_State inp) = in_TargetRevision inp"
    "\<not> IsZero (st_AvailableSince (in_State (Observe inp)))"
  shows "deployment_ready inp (planned inp)"
  using assms by (auto simp: Observe_def Let_def planned_def split: prod.splits if_splits)

lemma Observe_round_state:
  assumes "in_Round (Observe inp) = Some r" "isActive (st_Phase (in_State inp))"
    "st_Revision (in_State inp) = in_TargetRevision inp"
  shows "st_Phase (in_State (Observe inp)) = st_Phase (in_State inp)"
    "st_LastAnalysis (in_State (Observe inp)) = st_LastAnalysis (in_State inp)"
    "st_counters (in_State (Observe inp)) = st_counters (in_State inp)"
  using assms by (auto simp: Observe_def Let_def split: prod.splits if_splits)

lemma Observe_counters:
  "st_counters (in_State (Observe inp)) = st_counters (in_State inp) \<or>
   st_counters (in_State (Observe inp)) = (st_counters (in_State inp))\<lparr>consecErr := 0, consecInconcl := 0\<rparr>"
  by (simp add: Observe_def Let_def split: prod.split)

section \<open>The answers\<close>

lemma rollback_answer [answer]:
  "out_Action (rollback inp st r m) = ActionRollback" "out_Primary (rollback inp st r m) = in_TotalReplicas inp"
  "out_Canary (rollback inp st r m) = 0" "out_Reason (rollback inp st r m) = r"
  "out_RequeueAfter (rollback inp st r m) = 0" "out_DesiredWeight (rollback inp st r m) = 0"
  "out_State (rollback inp st r m) = st\<lparr>st_Phase := PhaseRollingBack, st_FailedRevision := st_Revision st\<rparr>"
  by (simp_all add: rollback_def zero_Output_def)

lemma capacityHold_answer [answer]:
  "out_Action (capacityHold inp) = ActionWait" "out_Primary (capacityHold inp) = in_TotalReplicas inp"
  "out_Canary (capacityHold inp) = 0" "out_RequeueAfter (capacityHold inp) = pl_Interval (in_Plan inp)"
  "out_DesiredWeight (capacityHold inp) = 0"
  "out_State (capacityHold inp) = zero_State\<lparr>st_Phase := PhaseWaiting, st_Revision := in_TargetRevision inp,
     st_StableRevision := in_StableRevision inp, st_FailedRevision := st_FailedRevision (in_State inp)\<rparr>"
  by (simp_all add: capacityHold_def zero_Output_def)

lemma start_answer [answer]:
  "out_Action (start inp r m) = ActionStart"
  "out_Primary (start inp r m) = fst (splitFor inp (weightAt (in_Plan inp) 0))"
  "out_Canary (start inp r m) = snd (splitFor inp (weightAt (in_Plan inp) 0))"
  "out_RequeueAfter (start inp r m) = pl_Interval (in_Plan inp)"
  "out_DesiredWeight (start inp r m) = weightAt (in_Plan inp) 0"
  "out_State (start inp r m) = zero_State\<lparr>st_Phase := PhaseWaiting, st_Revision := in_TargetRevision inp,
     st_StableRevision := in_StableRevision inp, st_FailedRevision := st_FailedRevision (in_State inp),
     st_Step := 0, st_StartedAt := in_Now inp\<rparr>"
  by (simp_all add: start_def zero_Output_def Let_def split: prod.split)

lemma settled_answer [answer]:
  "out_Action (settled inp r m) = ActionNone" "out_Primary (settled inp r m) = in_TotalReplicas inp"
  "out_Canary (settled inp r m) = 0" "out_RequeueAfter (settled inp r m) = 0"
  "out_DesiredWeight (settled inp r m) = 0" "out_Reason (settled inp r m) = r"
  "out_State (settled inp r m) = zero_State\<lparr>st_Phase := PhaseIdle,
     st_FailedRevision := st_FailedRevision (in_State inp)\<rparr>"
  by (simp_all add: settled_def zero_Output_def)

lemma promote_out_answer [answer]:
  "out_Action (promote_out inp st m) = ActionPromote" "out_Primary (promote_out inp st m) = in_TotalReplicas inp"
  "out_Canary (promote_out inp st m) = 0" "out_RequeueAfter (promote_out inp st m) = pl_Interval (in_Plan inp)"
  "out_DesiredWeight (promote_out inp st m) = 100" "out_State (promote_out inp st m) = st"
  by (simp_all add: promote_out_def zero_Output_def)

lemma pause_out_answer [answer]:
  "out_Action (pause_out inp st m) = ActionPause"
  "out_Primary (pause_out inp st m) = fst (splitFor inp (currentWeight (in_Plan inp) st))"
  "out_Canary (pause_out inp st m) = snd (splitFor inp (currentWeight (in_Plan inp) st))"
  "out_RequeueAfter (pause_out inp st m) = 0" "out_State (pause_out inp st m) = st"
  "out_DesiredWeight (pause_out inp st m) = currentWeight (in_Plan inp) st"
  by (simp_all add: pause_out_def zero_Output_def Let_def split: prod.split)

lemma hold_answer [answer]:
  "out_Action (hold st w p c ph r m d) = ActionWait" "out_Primary (hold st w p c ph r m d) = p"
  "out_Canary (hold st w p c ph r m d) = c" "out_RequeueAfter (hold st w p c ph r m d) = d"
  "out_DesiredWeight (hold st w p c ph r m d) = w"
  "out_State (hold st w p c ph r m d) = st\<lparr>st_Phase := ph\<rparr>"
  by (simp_all add: hold_def zero_Output_def)

lemma zero_State_fields [simp]:
  "st_Phase zero_State = PhaseIdle" "st_Revision zero_State = ''''" "st_StableRevision zero_State = ''''"
  "st_FailedRevision zero_State = ''''" "st_Step zero_State = 0" "st_counters zero_State = zero_counters"
  "st_AvailableSince zero_State = 0" "st_LastAnalysis zero_State = 0" "st_StartedAt zero_State = 0"
  "st_ReadinessTarget zero_State = zero_ReadinessTarget" "\<not> st_MetricScopeReady zero_State"
  by (simp_all add: zero_State_def time_zero_def)

section \<open>Case rules\<close>

lemma splitFor_Observe [simp]: "splitFor (Observe inp) w = splitFor inp w"
  by (simp add: splitFor_def)

lemma Next_cases [case_names abort restart_hold restart promoting beginning paused analyse]:
  obtains
    (abort) "in_Aborted inp" "isActive (st_Phase (in_State inp))"
      "Next inp = rollback (Observe inp) (in_State (Observe inp)) ReasonCanaryAborted
         msg_aborted"
  | (restart_hold) "\<not> in_Aborted inp" "isActive (st_Phase (in_State inp))"
      "st_Revision (in_State inp) \<noteq> in_TargetRevision inp"
      "snd (splitFor inp (weightAt (in_Plan inp) 0)) = 0" "Next inp = capacityHold inp"
  | (restart) "\<not> in_Aborted inp" "isActive (st_Phase (in_State inp))"
      "st_Revision (in_State inp) \<noteq> in_TargetRevision inp"
      "snd (splitFor inp (weightAt (in_Plan inp) 0)) \<noteq> 0" "Next inp = start inp ReasonCanaryProgressing (msg_restart (in_TargetRevision inp))"
  | (promoting) "st_Phase (in_State inp) = PhasePromoting" "Next inp = promoting inp (in_State inp)"
  | (beginning) "\<not> isActive (st_Phase (in_State inp))" "st_Phase (in_State inp) \<noteq> PhasePromoting"
      "Next inp = begin_canary inp"
  | (paused) "\<not> in_Aborted inp" "st_Revision (in_State inp) = in_TargetRevision inp"
      "st_Phase (in_State inp) = PhasePaused" "st_Phase (in_State (Observe inp)) = PhasePaused"
      "Next inp = paused (Observe inp) (in_State (Observe inp))"
  | (analyse) "\<not> in_Aborted inp" "isActive (st_Phase (in_State inp))"
      "st_Revision (in_State inp) = in_TargetRevision inp"
      "st_Phase (in_State (Observe inp)) = PhaseWaiting \<or> st_Phase (in_State (Observe inp)) = PhaseProgressing"
      "Next inp = analyse (Observe inp) (in_State (Observe inp))"
proof (cases "isActive (st_Phase (in_State inp))")
  case active: True
  show ?thesis
  proof (cases "in_Aborted inp")
    case True
    with active abort show ?thesis by (simp add: Next_def Let_def)
  next
    case na: False
    show ?thesis
    proof (cases "st_Revision (in_State inp) = in_TargetRevision inp")
      case False
      with active na restart_hold restart show ?thesis
        by (cases "snd (splitFor inp (weightAt (in_Plan inp) 0)) = 0")
          (simp_all add: Next_def Let_def Observe_other_revision)
    next
      case True
      have "isActive (st_Phase (in_State (Observe inp)))"
        using active by simp
      then show ?thesis
        using active na True paused analyse Observe_phase [of inp]
        by (cases "st_Phase (in_State (Observe inp))") (auto simp: Next_def Let_def)
    qed
  qed
next
  case False
  then have "Observe inp = inp"
    by (rule Observe_inactive)
  with False promoting beginning show ?thesis
    by (cases "st_Phase (in_State inp)") (simp_all add: Next_def Let_def)
qed

lemma begin_cases [case_names settled empty_ladder no_capacity start]:
  obtains
    (settled) r m where "begin_canary inp = settled inp r m"
      "in_TargetRevision inp = st_FailedRevision (in_State inp) \<or>
       in_TargetRevision inp = in_StableRevision inp \<or> in_TargetRevision inp = '''' \<or> in_StableRevision inp = ''''"
  | (empty_ladder) "pl_Weights (in_Plan inp) = []" "in_TargetRevision inp \<noteq> in_StableRevision inp"
      "in_TargetRevision inp \<noteq> st_FailedRevision (in_State inp)" "out_Action (begin_canary inp) = ActionPromote"
      "out_Primary (begin_canary inp) = in_TotalReplicas inp" "out_Canary (begin_canary inp) = 0"
      "out_RequeueAfter (begin_canary inp) = pl_Interval (in_Plan inp)"
      "out_State (begin_canary inp) = zero_State\<lparr>st_Phase := PhasePromoting,
         st_Revision := in_TargetRevision inp, st_StableRevision := in_StableRevision inp,
         st_FailedRevision := st_FailedRevision (in_State inp), st_StartedAt := in_Now inp\<rparr>"
  | (no_capacity) "begin_canary inp = capacityHold inp" "pl_Weights (in_Plan inp) \<noteq> []"
      "snd (splitFor inp (weightAt (in_Plan inp) 0)) = 0"
      "in_TargetRevision inp \<noteq> in_StableRevision inp"
      "in_TargetRevision inp \<noteq> st_FailedRevision (in_State inp)"
      "in_StableRevision inp \<noteq> ''''" "in_TargetRevision inp \<noteq> ''''"
  | (start) "begin_canary inp = start inp ReasonCanaryProgressing (msg_started (in_TargetRevision inp))" "pl_Weights (in_Plan inp) \<noteq> []"
      "snd (splitFor inp (weightAt (in_Plan inp) 0)) \<noteq> 0"
      "in_TargetRevision inp \<noteq> in_StableRevision inp"
      "in_TargetRevision inp \<noteq> st_FailedRevision (in_State inp)"
      "in_StableRevision inp \<noteq> ''''" "in_TargetRevision inp \<noteq> ''''"
proof -
  consider "in_TargetRevision inp \<noteq> '''' \<and> in_TargetRevision inp = st_FailedRevision (in_State inp)"
    | "in_TargetRevision inp = in_StableRevision inp \<or> in_TargetRevision inp = '''' \<or> in_StableRevision inp = ''''"
    | "in_TargetRevision inp \<noteq> ''''" "in_TargetRevision inp \<noteq> st_FailedRevision (in_State inp)"
      "in_TargetRevision inp \<noteq> in_StableRevision inp" "in_StableRevision inp \<noteq> ''''"
    by blast
  then show thesis
  proof cases
    case 3
    then show thesis
      using empty_ladder no_capacity start
      by (cases "pl_Weights (in_Plan inp) = []"; cases "snd (splitFor inp (weightAt (in_Plan inp) 0)) = 0")
        (simp_all add: begin_canary_def zero_Output_def)
  next
    case 2
    then have "\<exists>r m. begin_canary inp = settled inp r m"
      unfolding begin_canary_def by (cases "in_TargetRevision inp = in_StableRevision inp"; auto)
    with 2 settled show thesis
      by blast
  next
    case 1
    then have "begin_canary inp = settled inp ReasonCanaryRolledBack (msg_not_retried (in_TargetRevision inp))"
      by (auto simp: begin_canary_def)
    with 1 settled show thesis
      by blast
  qed
qed

lemma promoting_cases [case_names superseded converged waiting]:
  obtains
    (superseded) "st_Revision st \<noteq> in_TargetRevision inp" "promoting inp st = begin_canary inp"
  | (converged) "st_Revision st = in_TargetRevision inp" "in_StableRevision inp = st_Revision st"
      "out_Action (promoting inp st) = ActionNone" "out_Primary (promoting inp st) = in_TotalReplicas inp"
      "out_Canary (promoting inp st) = 0" "out_RequeueAfter (promoting inp st) = 0"
      "out_State (promoting inp st) = zero_State\<lparr>st_Phase := PhaseIdle, st_FailedRevision := st_FailedRevision st\<rparr>"
  | (waiting) m where "st_Revision st = in_TargetRevision inp" "in_StableRevision inp \<noteq> st_Revision st"
      "promoting inp st = promote_out inp st m"
  by (auto simp: promoting_def zero_Output_def split: if_splits)

lemma paused_cases [case_names approved waiting]:
  obtains
    (approved) m where "in_Approved inp" "paused inp st = promote_out inp (st\<lparr>st_Phase := PhasePromoting\<rparr>) m"
  | (waiting) m where "\<not> in_Approved inp" "paused inp st = pause_out inp st m"
  by (auto simp: paused_def split: if_splits)

definition last_rung :: "Plan \<Rightarrow> i32" where
  "last_rung plan = wrap32 (wrap32 (int (length (pl_Weights plan))) - 1)"

lemma advance_cases [case_names pause promote climb]:
  obtains
    (pause) m where "st_Step st \<ge> last_rung (in_Plan inp)" "pl_RequireApproval (in_Plan inp)"
      "advance inp st = pause_out inp (st\<lparr>st_Phase := PhasePaused\<rparr>) m"
  | (promote) m where "st_Step st \<ge> last_rung (in_Plan inp)" "\<not> pl_RequireApproval (in_Plan inp)"
      "advance inp st = promote_out inp (st\<lparr>st_Phase := PhasePromoting\<rparr>) m"
  | (climb) st' where "st_Step st < last_rung (in_Plan inp)"
      "st' = st\<lparr>st_Step := wrap32 (st_Step st + 1), st_Phase := PhaseWaiting,
         st_AvailableSince := time_zero, st_LastAnalysis := time_zero\<rparr>"
      "out_Action (advance inp st) = ActionAdvance" "out_State (advance inp st) = st'"
      "out_DesiredWeight (advance inp st) = currentWeight (in_Plan inp) st'"
      "out_Primary (advance inp st) = fst (splitFor inp (currentWeight (in_Plan inp) st'))"
      "out_Canary (advance inp st) = snd (splitFor inp (currentWeight (in_Plan inp) st'))"
      "out_RequeueAfter (advance inp st) = pl_Interval (in_Plan inp)"
proof (cases "st_Step st \<ge> last_rung (in_Plan inp)")
  case True
  with pause promote show ?thesis
    by (cases "pl_RequireApproval (in_Plan inp)") (simp_all add: advance_def last_rung_def)
next
  case False
  with climb [OF _ refl] show ?thesis
    by (simp add: advance_def last_rung_def zero_Output_def Let_def split: prod.split)
qed

text \<open>
  The gates of \<open>analyse\<close> as predicates: the warm-up delay and one full measurement window since the
  readiness clock started, and the bound on how long that may take.
\<close>

definition evidence_span :: "Plan \<Rightarrow> go_duration" where
  "evidence_span plan = wrap64 (pl_InitialDelay plan + pl_Window plan)"

definition warm :: "go_time \<Rightarrow> Plan \<Rightarrow> State \<Rightarrow> bool" where
  "warm now plan st \<longleftrightarrow> \<not> IsZero (st_AvailableSince st) \<and>
     \<not> Before now (Add (st_AvailableSince st) (evidence_span plan))"

definition deadline_missed :: "go_time \<Rightarrow> Plan \<Rightarrow> State \<Rightarrow> bool" where
  "deadline_missed now plan st \<longleftrightarrow> IsZero (st_LastAnalysis st) \<and> pl_ProgressDeadline plan > 0 \<and>
     \<not> IsZero (st_StartedAt st) \<and> \<not> Before now (Add (st_StartedAt st) (pl_ProgressDeadline plan)) \<and>
     \<not> warm now plan st"

lemma analyse_cases [case_names no_capacity start deadline not_ready warming idle judge]:
  fixes inp :: Input and st :: State
  defines "weight \<equiv> currentWeight (in_Plan inp) st"
  defines "p \<equiv> fst (splitFor inp weight)" and "c \<equiv> snd (splitFor inp weight)"
  obtains
    (no_capacity) "c = 0" "analyse inp st = capacityHold inp"
  | (start) "c \<noteq> 0" "IsZero (st_StartedAt st)"
      "analyse inp st = start inp ReasonCanaryProgressing (msg_capacity_ok (in_TargetRevision inp))"
  | (deadline) "c \<noteq> 0" "deadline_missed (in_Now inp) (in_Plan inp) st"
      "analyse inp st = rollback inp st ReasonCanaryProgressDeadlineExceeded
         (msg_deadline (pl_ProgressDeadline (in_Plan inp)))"
  | (not_ready) "c \<noteq> 0" "\<not> IsZero (st_StartedAt st)" "IsZero (st_AvailableSince st)"
      "\<not> deadline_missed (in_Now inp) (in_Plan inp) st"
      "analyse inp st = hold st weight p c PhaseWaiting ReasonCanaryProgressing msg_wait_ready
         (pl_Interval (in_Plan inp))"
  | (warming) "c \<noteq> 0" "\<not> IsZero (st_StartedAt st)"
      "Before (in_Now inp) (Add (st_AvailableSince st) (evidence_span (in_Plan inp)))"
      "\<not> deadline_missed (in_Now inp) (in_Plan inp) st"
      "analyse inp st = hold st weight p c PhaseProgressing ReasonCanaryProgressing msg_warm
         (Sub (Add (st_AvailableSince st) (evidence_span (in_Plan inp))) (in_Now inp))"
  | (idle) "c \<noteq> 0" "\<not> IsZero (st_StartedAt st)" "warm (in_Now inp) (in_Plan inp) st"
      "in_Round inp = None \<or> \<not> DueForAnalysis (in_Now inp) (in_Plan inp) st"
      "analyse inp st = hold st weight p c PhaseProgressing ReasonCanaryProgressing msg_progressing
         (nextAnalysisIn inp st)"
  | (judge) r where "c \<noteq> 0" "\<not> IsZero (st_StartedAt st)" "warm (in_Now inp) (in_Plan inp) st"
      "in_Round inp = Some r" "DueForAnalysis (in_Now inp) (in_Plan inp) st"
      "analyse inp st = judge inp (st\<lparr>st_LastAnalysis := in_Now inp,
           st_counters := apply_verdict (st_counters st) (rd_Verdict r)\<rparr>) weight p c (rd_Verdict r)"
proof -
  note unfolds = analyse_def Let_def case_prod_beta weight_def [symmetric] p_def [symmetric]
    c_def [symmetric] evidence_span_def [symmetric] deadline_missed_def warm_def
  consider "c = 0" | "c \<noteq> 0" "IsZero (st_StartedAt st)"
    | "c \<noteq> 0" "\<not> IsZero (st_StartedAt st)" "deadline_missed (in_Now inp) (in_Plan inp) st"
    | "c \<noteq> 0" "\<not> IsZero (st_StartedAt st)" "\<not> deadline_missed (in_Now inp) (in_Plan inp) st"
      "IsZero (st_AvailableSince st)"
    | "c \<noteq> 0" "\<not> IsZero (st_StartedAt st)" "\<not> deadline_missed (in_Now inp) (in_Plan inp) st"
      "\<not> IsZero (st_AvailableSince st)"
      "Before (in_Now inp) (Add (st_AvailableSince st) (evidence_span (in_Plan inp)))"
    | "c \<noteq> 0" "\<not> IsZero (st_StartedAt st)" "warm (in_Now inp) (in_Plan inp) st"
    unfolding warm_def by blast
  then show thesis
  proof cases
    case 1
    with no_capacity show thesis by (simp add: unfolds)
  next
    case 2
    with start show thesis by (simp add: unfolds)
  next
    case 3
    with deadline show thesis by (auto simp: unfolds)
  next
    case 4
    with not_ready show thesis by (auto simp: unfolds)
  next
    case 5
    with warming show thesis by (auto simp: unfolds)
  next
    case 6
    show thesis
    proof (cases "in_Round inp = None \<or> \<not> DueForAnalysis (in_Now inp) (in_Plan inp) st")
      case True
      with 6 have "analyse inp st = hold st weight p c PhaseProgressing ReasonCanaryProgressing
          msg_progressing (nextAnalysisIn inp st)"
        by (auto simp: unfolds split: option.split)
      with 6 True idle show thesis by blast
    next
      case False
      then obtain r where r: "in_Round inp = Some r" "DueForAnalysis (in_Now inp) (in_Plan inp) st"
        by auto
      with 6 have "analyse inp st = judge inp (st\<lparr>st_LastAnalysis := in_Now inp,
           st_counters := apply_verdict (st_counters st) (rd_Verdict r)\<rparr>) weight p c (rd_Verdict r)"
        by (auto simp: unfolds)
      with 6 r judge show thesis by blast
    qed
  qed
qed

lemma judge_cases [case_names rollback hold promote advance]:
  obtains
    (rollback) r m where "judge inp st w p c v = rollback inp st r m"
      "v = VerdictError \<and> consecErr (st_counters st) \<ge> pl_ConsecutiveErrorLimit (in_Plan inp) \<or>
       v = VerdictFail \<and> failed (st_counters st) \<ge> pl_FailureThreshold (in_Plan inp) \<or>
       v = VerdictInconclusive \<and> consecInconcl (st_counters st) \<ge> pl_InconclusiveLimit (in_Plan inp) \<and>
         pl_OnInconclusive (in_Plan inp) = InconclusiveRollback"
  | (hold) r m where "judge inp st w p c v = hold st w p c PhaseProgressing r m (pl_Interval (in_Plan inp))"
      "v = VerdictError \<and> consecErr (st_counters st) < pl_ConsecutiveErrorLimit (in_Plan inp) \<or>
       v = VerdictFail \<and> failed (st_counters st) < pl_FailureThreshold (in_Plan inp) \<or>
       v = VerdictInconclusive"
  | (promote) m where "judge inp st w p c v = promote_out inp (st\<lparr>st_Phase := PhasePromoting\<rparr>) m"
      "v = VerdictInconclusive" "consecInconcl (st_counters st) \<ge> pl_InconclusiveLimit (in_Plan inp)"
      "pl_OnInconclusive (in_Plan inp) = InconclusivePromote"
  | (advance) "judge inp st w p c v = advance inp st" "v \<notin> {VerdictError, VerdictFail, VerdictInconclusive}"
proof (cases v)
  case VerdictError
  with rollback hold show ?thesis
    by (cases "consecErr (st_counters st) \<ge> pl_ConsecutiveErrorLimit (in_Plan inp)")
      (simp_all add: judge_def Let_def)
next
  case VerdictFail
  with rollback hold show ?thesis
    by (cases "failed (st_counters st) \<ge> pl_FailureThreshold (in_Plan inp)")
      (simp_all add: judge_def Let_def)
next
  case VerdictInconclusive
  with rollback hold promote show ?thesis
    by (cases "consecInconcl (st_counters st) \<ge> pl_InconclusiveLimit (in_Plan inp)";
        cases "pl_OnInconclusive (in_Plan inp)") (simp_all add: judge_def Let_def onInconclusive_def)
qed (use advance in \<open>simp_all add: judge_def Let_def\<close>)

end
