(* ===== verification/Canary_Props.thy ===== *)
theory Canary_Props
  imports Canary_Cases
begin

text \<open>
  The properties of the rollout state machine, each proved by the case rules: replica conservation
  over the splitter's contract, the priority of an abort, what a promotion needs, the stickiness of a
  rollback, the budgets at their limits, evidence and timing gates, and the frame of \<open>FailedRevision\<close>.
\<close>

section \<open>Replica conservation\<close>

lemma splitFor_total:
  "is_i32 (in_TotalReplicas inp) \<Longrightarrow> 0 \<le> in_TotalReplicas inp \<Longrightarrow>
   fst (splitFor inp w) + snd (splitFor inp w) = in_TotalReplicas inp"
  by (simp add: splitFor_def splitter.split_total)

definition conserves :: "Input \<Rightarrow> Output \<Rightarrow> bool" where
  "conserves inp out \<longleftrightarrow> out_Primary out + out_Canary out = in_TotalReplicas inp \<and>
     0 \<le> out_Primary out \<and> 0 \<le> out_Canary out"

lemma splitFor_nonneg: "is_i32 (in_TotalReplicas inp) \<Longrightarrow> 0 \<le> fst (splitFor inp w) \<and> 0 \<le> snd (splitFor inp w)"
  by (simp add: splitFor_def splitter.split_nonneg)

lemmas split_facts = splitFor_total splitFor_nonneg

lemma conserves_begin:
  assumes "is_i32 (in_TotalReplicas inp)" "0 \<le> in_TotalReplicas inp"
  shows "conserves inp (begin_canary inp)"
  using assms
  by (cases rule: begin_cases [of inp]) (auto simp: conserves_def answer split_facts)

lemma conserves_advance:
  assumes "is_i32 (in_TotalReplicas inp)" "0 \<le> in_TotalReplicas inp"
  shows "conserves inp (advance inp st)"
  using assms
  by (cases rule: advance_cases [where inp = inp and st = st]) (auto simp: conserves_def answer split_facts)

lemma conserves_judge:
  assumes "is_i32 (in_TotalReplicas inp)" "0 \<le> in_TotalReplicas inp"
  shows "conserves inp (judge inp st w (fst (splitFor inp x)) (snd (splitFor inp x)) v)"
  using assms conserves_advance [OF assms]
  by (cases rule: judge_cases [where inp = inp and st = st and w = w and v = v and
        p = "fst (splitFor inp x)" and c = "snd (splitFor inp x)"])
    (auto simp: conserves_def answer split_facts)

lemma conserves_analyse:
  assumes "is_i32 (in_TotalReplicas inp)" "0 \<le> in_TotalReplicas inp"
  shows "conserves inp (analyse inp st)"
  using assms conserves_judge [OF assms]
  by (cases rule: analyse_cases [where inp = inp and st = st]) (auto simp: conserves_def answer split_facts)

lemma Next_conserves:
  assumes "is_i32 (in_TotalReplicas inp)" "0 \<le> in_TotalReplicas inp"
  shows "conserves inp (Next inp)"
proof -
  have "conserves (Observe inp) x \<longleftrightarrow> conserves inp x" for x
    by (simp add: conserves_def)
  then show ?thesis
    using assms conserves_begin [OF assms] conserves_analyse [of "Observe inp"]
    by (cases rule: Next_cases [of inp];
        cases rule: promoting_cases [where inp = inp and st = "in_State inp"];
        cases rule: paused_cases [where inp = "Observe inp" and st = "in_State (Observe inp)"])
      (auto simp: conserves_def answer split_facts)
qed

text \<open>
  Whatever the phase, the verdict and the operator's signals, the two replica counts of a decision
  are non-negative and sum to the requested total exactly: the machine only divides a total, it never
  over- or under-provisions.
\<close>

theorem Next_conserves_replicas:
  assumes "is_i32 (in_TotalReplicas inp)" "0 \<le> in_TotalReplicas inp"
  shows "out_Primary (Next inp) + out_Canary (Next inp) = in_TotalReplicas inp \<and>
         0 \<le> out_Primary (Next inp) \<and> 0 \<le> out_Canary (Next inp)"
  using Next_conserves [OF assms] by (simp add: conserves_def)

text \<open>A canary at its first rung over five replicas, with its candidate ready and warm.\<close>

definition sample_plan :: Plan where
  "sample_plan = \<lparr>pl_Weights = [20, 40], pl_Interval = 30, pl_InitialDelay = 60, pl_Window = 60,
     pl_FailureThreshold = 3, pl_ConsecutiveErrorLimit = 5, pl_InconclusiveLimit = 5,
     pl_OnInconclusive = InconclusiveWait, pl_RequireApproval = False, pl_ProgressDeadline = 600\<rparr>"

definition sample_state :: State where
  "sample_state = zero_State\<lparr>st_Phase := PhaseProgressing, st_Revision := ''b'', st_StableRevision := ''a'',
     st_AvailableSince := 2000, st_StartedAt := 1000,
     st_ReadinessTarget := \<lparr>rt_Step = 0, rt_Weight = 20, rt_TotalReplicas = 5, rt_CanaryReplicas = 1,
       rt_Generation = 1, rt_DeploymentUID = ''u''\<rparr>\<rparr>"

definition sample_input :: Input where
  "sample_input = \<lparr>in_Now = 3000, in_Plan = sample_plan, in_State = sample_state,
     in_TargetRevision = ''b'', in_StableRevision = ''a'', in_TotalReplicas = 5,
     in_Deployment = \<lparr>do_UID = ''u'', do_Revision = ''b'', do_Generation = 1, do_ObservedGeneration = 1,
       do_Replicas = 1, do_UpdatedReplicas = 1, do_ReadyReplicas = 1, do_AvailableReplicas = 1\<rparr>,
     in_Round = None, in_Approved = False, in_Aborted = False\<rparr>"

definition sample_round :: "Verdict \<Rightarrow> Round" where
  "sample_round v = \<lparr>rd_Verdict = v, rd_Checks = []\<rparr>"

lemmas sample_defs = sample_input_def sample_state_def sample_plan_def sample_round_def

theorem Next_conserves_replicas_witness:
  "out_Primary (Next sample_input) + out_Canary (Next sample_input) = 5"
  using Next_conserves_replicas [of sample_input] by (simp add: sample_defs is_i32_def)

section \<open>Abort and restart\<close>

text \<open>
  An abort outranks every other signal: whenever a canary is in flight and the abort annotation is
  armed, the decision is a rollback to the full primary with the abort's own reason, and the revision
  under evaluation is recorded as rejected - whatever the approval, the round or the target say.
\<close>

theorem Next_abort_wins:
  assumes "in_Aborted inp" "isActive (st_Phase (in_State inp))"
  shows "out_Action (Next inp) = ActionRollback \<and> out_Canary (Next inp) = 0 \<and>
         out_Primary (Next inp) = in_TotalReplicas inp \<and> out_Reason (Next inp) = ReasonCanaryAborted \<and>
         st_Phase (out_State (Next inp)) = PhaseRollingBack \<and>
         st_FailedRevision (out_State (Next inp)) = st_Revision (in_State inp)"
  using assms by (simp add: Next_def Let_def answer)

text \<open>
  A change of the target revision while a canary is in flight restarts from nothing: the new state
  names the new target at rung 0 with empty budgets, no evidence clock, no last analysis and no metric
  handshake, so nothing measured on the old revision counts for the new one.
\<close>

theorem Next_restart_forgets:
  assumes "\<not> in_Aborted inp" "isActive (st_Phase (in_State inp))"
    and "st_Revision (in_State inp) \<noteq> in_TargetRevision inp"
  shows "st_Revision (out_State (Next inp)) = in_TargetRevision inp \<and>
         st_Step (out_State (Next inp)) = 0 \<and> st_counters (out_State (Next inp)) = zero_counters \<and>
         IsZero (st_AvailableSince (out_State (Next inp))) \<and> IsZero (st_LastAnalysis (out_State (Next inp))) \<and>
         \<not> st_MetricScopeReady (out_State (Next inp)) \<and>
         out_Action (Next inp) \<in> {ActionStart, ActionWait}"
  using assms by (cases rule: Next_cases [of inp]) (auto simp: answer IsZero_def)

section \<open>What a promotion needs\<close>

text \<open>
  A round is consumed when its canary is in flight on the target, the deployment is exactly ready at the
  rung the clock was started for, and the warm-up and one full window have passed.
\<close>

definition round_consumed :: "Input \<Rightarrow> Round \<Rightarrow> bool" where
  "round_consumed inp r \<longleftrightarrow> in_Round inp = Some r \<and> \<not> in_Aborted inp \<and>
     st_Revision (in_State inp) = in_TargetRevision inp \<and>
     st_Phase (in_State inp) \<in> {PhaseWaiting, PhaseProgressing} \<and>
     \<not> IsZero (st_StartedAt (in_State inp)) \<and> planned inp \<noteq> 0 \<and>
     deployment_ready inp (planned inp) \<and> st_ReadinessTarget (in_State inp) = readiness_target inp \<and>
     warm (in_Now inp) (in_Plan inp) (in_State (Observe inp)) \<and>
     DueForAnalysis (in_Now inp) (in_Plan inp) (in_State (Observe inp))"

definition judged_state :: "Input \<Rightarrow> Round \<Rightarrow> State" where
  "judged_state inp r = (in_State (Observe inp))\<lparr>st_LastAnalysis := in_Now inp,
     st_counters := apply_verdict (st_counters (in_State inp)) (rd_Verdict r)\<rparr>"

lemma currentWeight_Observe [simp]:
  "currentWeight p (in_State (Observe inp)) = currentWeight p (in_State inp)"
  by (simp add: currentWeight_def)

text \<open>The decision of a pass that runs the analysis, with the judged case resolved.\<close>

lemma analyse_pass [case_names no_capacity start deadline holding judge]:
  assumes "\<not> in_Aborted inp" "isActive (st_Phase (in_State inp))"
    "st_Revision (in_State inp) = in_TargetRevision inp"
    "st_Phase (in_State (Observe inp)) = PhaseWaiting \<or> st_Phase (in_State (Observe inp)) = PhaseProgressing"
  obtains
    (no_capacity) "planned inp = 0" "analyse (Observe inp) (in_State (Observe inp)) = capacityHold (Observe inp)"
  | (start) "analyse (Observe inp) (in_State (Observe inp)) =
       start (Observe inp) ReasonCanaryProgressing (msg_capacity_ok (in_TargetRevision inp))"
      "IsZero (st_StartedAt (in_State inp))"
  | (deadline) "deadline_missed (in_Now inp) (in_Plan inp) (in_State (Observe inp))"
      "analyse (Observe inp) (in_State (Observe inp)) = rollback (Observe inp) (in_State (Observe inp))
         ReasonCanaryProgressDeadlineExceeded (msg_deadline (pl_ProgressDeadline (in_Plan inp)))"
  | (holding) ph m d where "ph = PhaseWaiting \<or> ph = PhaseProgressing"
      "analyse (Observe inp) (in_State (Observe inp)) = hold (in_State (Observe inp))
         (currentWeight (in_Plan inp) (in_State inp))
         (fst (splitFor inp (currentWeight (in_Plan inp) (in_State inp)))) (planned inp) ph
         ReasonCanaryProgressing m d"
      "0 < pl_Interval (in_Plan inp) \<longrightarrow> 0 < d"
  | (judge) r where "round_consumed inp r"
      "analyse (Observe inp) (in_State (Observe inp)) = judge (Observe inp) (judged_state inp r)
         (currentWeight (in_Plan inp) (in_State inp))
         (fst (splitFor inp (currentWeight (in_Plan inp) (in_State inp)))) (planned inp) (rd_Verdict r)"
proof (cases rule: analyse_cases [where inp = "Observe inp" and st = "in_State (Observe inp)"])
  case (judge r)
  note r = Observe_round [OF judge(4) assms(2,3)] Observe_round_state [OF judge(4) assms(2,3)]
  have "round_consumed inp r"
    using judge assms r by (auto simp: round_consumed_def planned_def)
  then show ?thesis
    using that(5) judge(6) r(6) by (simp add: judged_state_def planned_def)
next
  case idle
  have "0 < pl_Interval (in_Plan inp) \<longrightarrow> 0 < nextAnalysisIn (Observe inp) (in_State (Observe inp))"
    by (simp add: nextAnalysisIn_def Let_def go_Second_def)
  then show ?thesis
    using that(4) idle(5) by (auto simp: planned_def)
next
  case warming
  have "analyse (Observe inp) (in_State (Observe inp)) = hold (in_State (Observe inp))
      (currentWeight (in_Plan inp) (in_State inp))
      (fst (splitFor inp (currentWeight (in_Plan inp) (in_State inp)))) (planned inp) PhaseProgressing
      ReasonCanaryProgressing msg_warm
      (Sub (Add (st_AvailableSince (in_State (Observe inp))) (evidence_span (in_Plan inp))) (in_Now inp))"
    using warming(5) by (simp add: planned_def)
  then show ?thesis
    by (rule that(4) [rotated]) (use warming(3) in \<open>simp_all add: Sub_pos\<close>)
qed (use that assms in \<open>auto simp: planned_def\<close>)

lemma judged_state_fields [simp]:
  "st_Revision (judged_state inp r) = st_Revision (in_State inp)"
  "st_Step (judged_state inp r) = st_Step (in_State inp)"
  "st_FailedRevision (judged_state inp r) = st_FailedRevision (in_State inp)"
  "st_counters (judged_state inp r) = apply_verdict (st_counters (in_State inp)) (rd_Verdict r)"
  "st_LastAnalysis (judged_state inp r) = in_Now inp"
  by (simp_all add: judged_state_def)

lemma advance_promotes:
  "out_Action (advance inp st) = ActionPromote \<Longrightarrow>
   st_Step st \<ge> last_rung (in_Plan inp) \<and> \<not> pl_RequireApproval (in_Plan inp)"
  by (cases rule: advance_cases [where inp = inp and st = st]) (auto simp: answer)

lemma judge_promotes:
  "out_Action (judge inp st w p c v) = ActionPromote \<Longrightarrow>
   v \<notin> {VerdictError, VerdictFail, VerdictInconclusive} \<and> st_Step st \<ge> last_rung (in_Plan inp) \<and>
     \<not> pl_RequireApproval (in_Plan inp) \<or>
   v = VerdictInconclusive \<and> consecInconcl (st_counters st) \<ge> pl_InconclusiveLimit (in_Plan inp) \<and>
     pl_OnInconclusive (in_Plan inp) = InconclusivePromote"
  by (cases rule: judge_cases [where inp = inp and st = st and w = w and p = p and c = c and v = v])
    (auto simp: answer dest: advance_promotes)

lemma begin_promotes:
  "out_Action (begin_canary inp) = ActionPromote \<Longrightarrow>
   pl_Weights (in_Plan inp) = [] \<and> in_TargetRevision inp \<noteq> in_StableRevision inp \<and>
   in_TargetRevision inp \<noteq> st_FailedRevision (in_State inp)"
  by (cases rule: begin_cases [of inp]) (auto simp: answer)

lemma analyse_promotes:
  assumes "\<not> in_Aborted inp" "isActive (st_Phase (in_State inp))"
    "st_Revision (in_State inp) = in_TargetRevision inp"
    "st_Phase (in_State (Observe inp)) = PhaseWaiting \<or> st_Phase (in_State (Observe inp)) = PhaseProgressing"
    "out_Action (analyse (Observe inp) (in_State (Observe inp))) = ActionPromote"
  shows "\<exists>r. round_consumed inp r \<and>
     (rd_Verdict r \<notin> {VerdictError, VerdictFail, VerdictInconclusive} \<and>
        st_Step (in_State inp) \<ge> last_rung (in_Plan inp) \<and> \<not> pl_RequireApproval (in_Plan inp) \<or>
      rd_Verdict r = VerdictInconclusive \<and> pl_OnInconclusive (in_Plan inp) = InconclusivePromote)"
  using assms(5)
proof (cases rule: analyse_pass [OF assms(1-4)])
  case (5 r)
  then show ?thesis
    using assms(5) judge_promotes [of "Observe inp" "judged_state inp r"] by fastforce
qed (simp_all add: answer)

lemma Next_promote_reasons:
  assumes "out_Action (Next inp) = ActionPromote"
  shows "st_Phase (in_State inp) = PhasePromoting \<and> st_Revision (in_State inp) = in_TargetRevision inp \<or>
    st_Phase (in_State inp) = PhasePaused \<and> in_Approved inp \<or>
    (\<exists>r. round_consumed inp r \<and>
       (rd_Verdict r \<notin> {VerdictError, VerdictFail, VerdictInconclusive} \<and>
          st_Step (in_State inp) \<ge> last_rung (in_Plan inp) \<and> \<not> pl_RequireApproval (in_Plan inp) \<or>
        rd_Verdict r = VerdictInconclusive \<and> pl_OnInconclusive (in_Plan inp) = InconclusivePromote)) \<or>
    pl_Weights (in_Plan inp) = [] \<and> in_TargetRevision inp \<noteq> in_StableRevision inp \<and>
      in_TargetRevision inp \<noteq> st_FailedRevision (in_State inp)"
proof (cases rule: Next_cases [of inp])
  case promoting
  then show ?thesis
    using assms begin_promotes [of inp]
    by (cases rule: promoting_cases [where inp = inp and st = "in_State inp"]) (auto simp: answer)
next
  case beginning
  then show ?thesis
    using assms begin_promotes [of inp] by auto
next
  case paused
  then show ?thesis
    using assms
    by (cases rule: paused_cases [where inp = "Observe inp" and st = "in_State (Observe inp)"])
      (auto simp: answer)
next
  case analyse
  then show ?thesis
    using assms analyse_promotes by (metis (no_types, lifting))
qed (use assms in \<open>simp_all add: answer\<close>)

text \<open>
  C4. Nothing is promoted without a cause: a promotion is either the continuation of one already under
  way for the same target, or an approval of a paused canary, or the consumption of a due round over an
  exactly ready, fully warmed candidate - a round that did not err, fail or stay inconclusive, at the
  last rung and with no approval required, or an inconclusive one under the explicit Promote policy -
  or the degenerate empty ladder for a target that was never rejected.
\<close>

theorem Next_promotion_has_cause:
  assumes "out_Action (Next inp) = ActionPromote"
  shows "st_Phase (in_State inp) = PhasePromoting \<and> st_Revision (in_State inp) = in_TargetRevision inp \<or>
    st_Phase (in_State inp) = PhasePaused \<and> in_Approved inp \<or>
    (\<exists>r. round_consumed inp r \<and>
       (rd_Verdict r \<notin> {VerdictError, VerdictFail, VerdictInconclusive} \<and>
          st_Step (in_State inp) \<ge> last_rung (in_Plan inp) \<and> \<not> pl_RequireApproval (in_Plan inp) \<or>
        rd_Verdict r = VerdictInconclusive \<and> pl_OnInconclusive (in_Plan inp) = InconclusivePromote)) \<or>
    pl_Weights (in_Plan inp) = [] \<and> in_TargetRevision inp \<noteq> in_StableRevision inp \<and>
      in_TargetRevision inp \<noteq> st_FailedRevision (in_State inp)"
  by (rule Next_promote_reasons [OF assms])

text \<open>
  The manual gate holds: with approval required, no approval given, a non-empty ladder and any
  policy for inconclusive rounds but Promote, no input starts a promotion.
\<close>

theorem approval_gate:
  assumes "pl_RequireApproval (in_Plan inp)" "\<not> in_Approved inp" "pl_Weights (in_Plan inp) \<noteq> []"
    and "pl_OnInconclusive (in_Plan inp) \<noteq> InconclusivePromote"
    and "st_Phase (in_State inp) \<noteq> PhasePromoting"
  shows "out_Action (Next inp) \<noteq> ActionPromote"
  using Next_promote_reasons [of inp] assms by blast

section \<open>Witnesses on the sample canary\<close>

theorem Next_abort_wins_witness:
  "out_Action (Next (sample_input\<lparr>in_Aborted := True, in_Approved := True\<rparr>)) = ActionRollback"
  using Next_abort_wins [of "sample_input\<lparr>in_Aborted := True, in_Approved := True\<rparr>"]
  by (simp add: sample_defs)

theorem Next_restart_forgets_witness:
  "st_Revision (out_State (Next (sample_input\<lparr>in_TargetRevision := ''c''\<rparr>))) = ''c''"
  using Next_restart_forgets [of "sample_input\<lparr>in_TargetRevision := ''c''\<rparr>"]
  by (simp add: sample_defs)

lemma sample_last_rung_promotes:
  "out_Action (Next (sample_input\<lparr>in_Round := Some (sample_round VerdictPass),
     in_Plan := sample_plan\<lparr>pl_Weights := [20]\<rparr>\<rparr>)) = ActionPromote"
  by code_simp

theorem Next_promotion_has_cause_witness:
  "\<exists>r. round_consumed (sample_input\<lparr>in_Round := Some (sample_round VerdictPass),
     in_Plan := sample_plan\<lparr>pl_Weights := [20]\<rparr>\<rparr>) r \<and> rd_Verdict r \<noteq> VerdictFail"
  using Next_promotion_has_cause [OF sample_last_rung_promotes]
  by (auto simp: sample_defs)

theorem approval_gate_witness:
  "out_Action (Next (sample_input\<lparr>in_Round := Some (sample_round VerdictPass),
     in_Plan := sample_plan\<lparr>pl_Weights := [20], pl_RequireApproval := True\<rparr>\<rparr>)) \<noteq> ActionPromote"
  using approval_gate [of "sample_input\<lparr>in_Round := Some (sample_round VerdictPass),
     in_Plan := sample_plan\<lparr>pl_Weights := [20], pl_RequireApproval := True\<rparr>\<rparr>"]
  by (simp add: sample_defs)

end
