(* ===== verification/Canary_Runs.thy ===== *)
theory Canary_Runs
  imports Canary_Props
begin

text \<open>
  The rollout state machine over time: what one consumed round does at each verdict, how rounds are
  spaced, that a rollback sticks over every later pass, and that no pass is left without a timer. Between
  two passes a position goes through the status (\<open>persisted\<close>; theory \<open>Controller_Runs\<close> shows that the code
  of the controller does exactly this to it).
\<close>

section \<open>One consumed round\<close>

lemma Observe_keeps:
  assumes "deployment_ready inp (planned inp)" "st_ReadinessTarget (in_State inp) = readiness_target inp"
  shows "in_Round (Observe inp) = in_Round inp"
    "st_Phase (in_State (Observe inp)) = st_Phase (in_State inp)"
    "st_LastAnalysis (in_State (Observe inp)) = st_LastAnalysis (in_State inp)"
  using assms by (auto simp: Observe_def Let_def planned_def split: prod.splits if_splits)

lemma Next_round:
  assumes "round_consumed inp r"
  shows "Next inp = judge (Observe inp) (judged_state inp r) (currentWeight (in_Plan inp) (in_State inp))
           (fst (splitFor inp (currentWeight (in_Plan inp) (in_State inp)))) (planned inp) (rd_Verdict r)"
proof -
  note rc = assms [unfolded round_consumed_def]
  have keep: "in_Round (Observe inp) = Some r"
      "st_Phase (in_State (Observe inp)) = st_Phase (in_State inp)"
    using rc Observe_keeps [of inp] by auto
  have "isActive (st_Phase (in_State inp))"
    using rc by auto
  with rc keep have next_eq: "Next inp = analyse (Observe inp) (in_State (Observe inp))"
    by (cases rule: Next_cases [of inp]) auto
  have counters: "st_counters (in_State (Observe inp)) = st_counters (in_State inp)"
    using Observe_round_state [OF keep(1)] rc by auto
  show ?thesis
    using rc keep unfolding next_eq
    by (cases rule: analyse_cases [where inp = "Observe inp" and st = "in_State (Observe inp)"])
      (auto simp: planned_def deadline_missed_def warm_def judged_state_def counters)
qed

text \<open>
  A failed round spends exactly one unit of the failure budget and nothing else: below the
  threshold the canary is held at the same rung, and on the round that reaches the threshold it is rolled
  back to the full primary and its revision recorded as rejected.
\<close>

theorem failed_round:
  assumes "round_consumed inp r" "rd_Verdict r = VerdictFail"
    and "counters_room 1 (st_counters (in_State inp))"
  shows "failed (st_counters (out_State (Next inp))) = failed (st_counters (in_State inp)) + 1 \<and>
    (if failed (st_counters (in_State inp)) + 1 \<ge> pl_FailureThreshold (in_Plan inp)
     then out_Action (Next inp) = ActionRollback \<and> out_Canary (Next inp) = 0 \<and>
       out_Reason (Next inp) = ReasonCanaryRolledBack \<and>
       st_FailedRevision (out_State (Next inp)) = st_Revision (in_State inp)
     else out_Action (Next inp) = ActionWait \<and> st_Step (out_State (Next inp)) = st_Step (in_State inp) \<and>
       out_Canary (Next inp) = planned inp)"
proof -
  have "failed (apply_verdict (st_counters (in_State inp)) VerdictFail) = failed (st_counters (in_State inp)) + 1"
    using budget.fails_step [of 0 "st_counters (in_State inp)" VerdictFail] assms(3) by simp
  then show ?thesis
    using assms(2) unfolding Next_round [OF assms(1)]
    by (auto simp: judge_def Let_def answer)
qed

theorem failed_round_witness:
  "out_Action (Next (sample_input\<lparr>in_Round := Some (sample_round VerdictFail)\<rparr>)) = ActionWait \<and>
   failed (st_counters (out_State (Next (sample_input\<lparr>in_Round := Some (sample_round VerdictFail)\<rparr>)))) = 1"
proof -
  have rc: "round_consumed (sample_input\<lparr>in_Round := Some (sample_round VerdictFail)\<rparr>) (sample_round VerdictFail)"
    by code_simp
  show ?thesis
    using failed_round [OF rc]
    by (simp add: sample_defs counters_room_def zero_counters_def MaxInt32_def)
qed

text \<open>
  An erred round never spends the failure budget: below the error limit the canary is held where it
  is. But the budget of errors is not harmless either: on the round that reaches the consecutive-error
  limit the canary is rolled back and its revision recorded as rejected, so that it is not retried.
\<close>

theorem erred_round:
  assumes "round_consumed inp r" "rd_Verdict r = VerdictError"
    and "counters_room 1 (st_counters (in_State inp))"
  shows "failed (st_counters (out_State (Next inp))) = failed (st_counters (in_State inp)) \<and>
    (if consecErr (st_counters (in_State inp)) + 1 \<ge> pl_ConsecutiveErrorLimit (in_Plan inp)
     then out_Action (Next inp) = ActionRollback \<and> out_Reason (Next inp) = ReasonAnalysisError \<and>
       st_FailedRevision (out_State (Next inp)) = st_Revision (in_State inp)
     else out_Action (Next inp) = ActionWait \<and> st_Step (out_State (Next inp)) = st_Step (in_State inp) \<and>
       st_FailedRevision (out_State (Next inp)) = st_FailedRevision (in_State inp))"
proof -
  have "consecErr (apply_verdict (st_counters (in_State inp)) VerdictError) = consecErr (st_counters (in_State inp)) + 1"
    using budget.errs_step [of 0 "st_counters (in_State inp)"] assms(3) by simp
  then show ?thesis
    using assms(2) unfolding Next_round [OF assms(1)]
    by (auto simp: judge_def Let_def answer)
qed

definition erring_input :: Input where
  "erring_input = sample_input\<lparr>in_Round := Some (sample_round VerdictError),
     in_State := sample_state\<lparr>st_counters := zero_counters\<lparr>consecErr := 4\<rparr>\<rparr>\<rparr>"

theorem erred_round_witness:
  "out_Action (Next erring_input) = ActionRollback \<and> st_FailedRevision (out_State (Next erring_input)) = ''b''"
proof -
  have rc: "round_consumed erring_input (sample_round VerdictError)"
    by code_simp
  show ?thesis
    using erred_round [OF rc]
    by (simp add: sample_defs erring_input_def counters_room_def zero_counters_def MaxInt32_def)
qed

text \<open>
  The ranking of a round and its judgement disagree about a verdict outside the enumeration: a check
  with an unrecognised verdict dominates its round as the most alarming one, and the round it dominates
  then advances the canary exactly as a passed round does.
\<close>

theorem unrecognised_verdict_advances:
  assumes "round_consumed inp (Aggregate (c # cs))" "mc_Verdict c = VerdictOther v"
  shows "rank (rd_Verdict (Aggregate (c # cs))) = 4 \<and>
    Next inp = advance (Observe inp) (judged_state inp (Aggregate (c # cs))) \<and>
    out_Action (Next inp) \<in> {ActionAdvance, ActionPause, ActionPromote}"
proof -
  have "rank (VerdictOther v) \<le> rank (worst_of VerdictPass (c # cs))"
    using worst_of_ge [of VerdictPass "c # cs"] assms(2) by (metis list.set_intros(1))
  moreover have "rank w \<le> 4" for w
    by (cases w) simp_all
  ultimately have rk: "rank (rd_Verdict (Aggregate (c # cs))) = 4"
    by (simp add: Aggregate_def order.antisym)
  then obtain s where s: "rd_Verdict (Aggregate (c # cs)) = VerdictOther s"
    by (cases "rd_Verdict (Aggregate (c # cs))") simp_all
  then have eq: "Next inp = advance (Observe inp) (judged_state inp (Aggregate (c # cs)))"
    unfolding Next_round [OF assms(1)] by (simp add: judge_def)
  have "out_Action (advance i st) \<in> {ActionAdvance, ActionPause, ActionPromote}" for i st
    by (cases rule: advance_cases [where inp = i and st = st]) (auto simp: answer)
  with rk eq show ?thesis
    by simp
qed

definition odd_check :: MetricCheck where
  "odd_check = \<lparr>mc_Name = ''m'', mc_Verdict = VerdictOther '''', mc_Value = '''', mc_Threshold = '''',
     mc_Message = ''''\<rparr>"

theorem unrecognised_verdict_advances_witness:
  "out_Action (Next (sample_input\<lparr>in_Round := Some (Aggregate [odd_check])\<rparr>))
     \<in> {ActionAdvance, ActionPause, ActionPromote}"
proof -
  have rc: "round_consumed (sample_input\<lparr>in_Round := Some (Aggregate [odd_check])\<rparr>) (Aggregate [odd_check])"
    by code_simp
  have "mc_Verdict odd_check = VerdictOther ''''"
    by (simp add: odd_check_def)
  from unrecognised_verdict_advances [OF rc this] show ?thesis
    by (elim conjE)
qed

text \<open>
  The approval gate has a way round it: under the Promote policy the round that exhausts the
  inconclusive budget promotes at once, from any rung, although approval is required and was not given
  and rungs of the ladder were never reached.
\<close>

theorem inconclusive_promote_skips_gate:
  assumes "round_consumed inp r" "rd_Verdict r = VerdictInconclusive"
    and "counters_room 1 (st_counters (in_State inp))"
    and "pl_OnInconclusive (in_Plan inp) = InconclusivePromote"
    and "pl_InconclusiveLimit (in_Plan inp) \<le> consecInconcl (st_counters (in_State inp)) + 1"
  shows "out_Action (Next inp) = ActionPromote \<and> out_Primary (Next inp) = in_TotalReplicas inp \<and>
         st_Phase (out_State (Next inp)) = PhasePromoting \<and>
         st_Step (out_State (Next inp)) = st_Step (in_State inp)"
proof -
  have "consecInconcl (apply_verdict (st_counters (in_State inp)) VerdictInconclusive) =
      consecInconcl (st_counters (in_State inp)) + 1"
    using budget.inconcls_step [of 0 "st_counters (in_State inp)"] assms(3) by simp
  then show ?thesis
    using assms(2,4,5) unfolding Next_round [OF assms(1)]
    by (simp add: judge_def Let_def onInconclusive_def answer)
qed

definition quiet_input :: Input where
  "quiet_input = sample_input\<lparr>in_Round := Some (sample_round VerdictInconclusive),
     in_Plan := sample_plan\<lparr>pl_RequireApproval := True, pl_OnInconclusive := InconclusivePromote\<rparr>,
     in_State := sample_state\<lparr>st_counters := zero_counters\<lparr>consecInconcl := 4\<rparr>\<rparr>\<rparr>"

theorem inconclusive_promote_skips_gate_witness:
  "pl_RequireApproval (in_Plan quiet_input) \<and> \<not> in_Approved quiet_input \<and>
   st_Step (in_State quiet_input) < last_rung (in_Plan quiet_input) \<and>
   out_Action (Next quiet_input) = ActionPromote"
proof -
  have rc: "round_consumed quiet_input (sample_round VerdictInconclusive)"
    by code_simp
  show ?thesis
    using inconclusive_promote_skips_gate [OF rc]
    by (simp add: sample_defs quiet_input_def counters_room_def zero_counters_def MaxInt32_def
        last_rung_def wrap32_def)
qed

section \<open>The position between two passes\<close>

text \<open>
  The controller keeps no position in memory: a pass reads it from the status the pass before wrote. The
  times of the status are encoded in whole seconds, a negative counter is read as zero, and the one phase
  the status has for a canary in flight is read as progressing.
\<close>

definition whole_seconds :: "go_time \<Rightarrow> go_time" where
  "whole_seconds t = (t div go_Second) * go_Second"

definition encoded :: "State \<Rightarrow> State" where
  "encoded st = st\<lparr>st_AvailableSince := whole_seconds (st_AvailableSince st),
     st_LastAnalysis := whole_seconds (st_LastAnalysis st), st_StartedAt := whole_seconds (st_StartedAt st),
     st_counters := SetCounters (failed (st_counters st)) (consecErr (st_counters st)) (consecInconcl (st_counters st))\<rparr>"

definition restored :: "State \<Rightarrow> State" where
  "restored st = (if st_Phase st = PhaseWaiting then st\<lparr>st_Phase := PhaseProgressing\<rparr> else st)"

definition persisted :: "State \<Rightarrow> State" where
  "persisted st = restored (encoded st)"

lemma persisted_fields [simp]:
  "st_Revision (persisted st) = st_Revision st" "st_FailedRevision (persisted st) = st_FailedRevision st"
  "st_Step (persisted st) = st_Step st" "st_ReadinessTarget (persisted st) = st_ReadinessTarget st"
  "st_AvailableSince (persisted st) = whole_seconds (st_AvailableSince st)"
  "st_LastAnalysis (persisted st) = whole_seconds (st_LastAnalysis st)"
  "st_StartedAt (persisted st) = whole_seconds (st_StartedAt st)"
  "failed (st_counters (persisted st)) = max (failed (st_counters st)) 0"
  "isActive (st_Phase (persisted st)) = isActive (st_Phase st)"
  by (simp_all add: persisted_def restored_def encoded_def SetCounters_def)

lemma whole_seconds_cut: "whole_seconds t \<le> t" "t < whole_seconds t + go_Second"
  using pos_mod_sign [of go_Second t] pos_mod_bound [of go_Second t] div_mult_mod_eq [of t go_Second]
  by (simp_all add: whole_seconds_def go_Second_def)

lemma whole_seconds_mono: "t \<le> u \<Longrightarrow> whole_seconds t \<le> whole_seconds u"
  by (simp add: whole_seconds_def go_Second_def zdiv_mono1)

lemma whole_seconds_idem [simp]: "whole_seconds (whole_seconds t) = whole_seconds t"
  by (simp add: whole_seconds_def go_Second_def)

lemma whole_seconds_zero [simp]: "whole_seconds 0 = 0" "IsZero t \<Longrightarrow> IsZero (whole_seconds t)"
  by (simp_all add: whole_seconds_def IsZero_def)

lemma whole_seconds_IsZero: "IsZero t \<or> go_Second \<le> t \<Longrightarrow> IsZero (whole_seconds t) = IsZero t"
  using whole_seconds_cut(2) [of t] by (auto simp: IsZero_def)

text \<open>The clocks a position carries, each unset or past the first second of the calendar.\<close>

definition clocks_set :: "State \<Rightarrow> bool" where
  "clocks_set st \<longleftrightarrow> (\<forall>t \<in> {st_AvailableSince st, st_LastAnalysis st, st_StartedAt st}. IsZero t \<or> go_Second \<le> t)"

lemma due_persisted:
  assumes "clocks_set st"
  shows "DueForAnalysis now plan st \<Longrightarrow> DueForAnalysis now plan (persisted st)"
    "DueForAnalysis now plan (persisted st) \<Longrightarrow> DueForAnalysis (Add now go_Second) plan st"
proof -
  have ph: "(st_Phase (persisted st) \<noteq> PhaseProgressing \<and> st_Phase (persisted st) \<noteq> PhaseWaiting) =
      (st_Phase st \<noteq> PhaseProgressing \<and> st_Phase st \<noteq> PhaseWaiting)"
    by (simp add: persisted_def restored_def encoded_def)
  have z: "IsZero (whole_seconds (st_AvailableSince st)) = IsZero (st_AvailableSince st)"
      "IsZero (whole_seconds (st_LastAnalysis st)) = IsZero (st_LastAnalysis st)"
    using assms by (auto simp: clocks_set_def intro!: whole_seconds_IsZero)
  show "DueForAnalysis now plan st \<Longrightarrow> DueForAnalysis now plan (persisted st)"
    "DueForAnalysis now plan (persisted st) \<Longrightarrow> DueForAnalysis (Add now go_Second) plan st"
    using whole_seconds_cut [of "st_AvailableSince st"] whole_seconds_cut [of "st_LastAnalysis st"] ph z
    by (auto simp: DueForAnalysis_def Before_def Add_def split: if_splits)
qed

fun position_after :: "State \<Rightarrow> Input list \<Rightarrow> State" where
  "position_after st [] = st"
| "position_after st (i # is) = position_after (persisted (out_State (Next (i\<lparr>in_State := st\<rparr>)))) is"

section \<open>Rounds are spaced\<close>

text \<open>
  What a round consumed at \<open>t\<close> leaves behind: as long as the canary is in flight, either the time of the last
  analysis is not before \<open>t\<close>, or it was reset, and then so was the readiness clock.
\<close>

definition spaced :: "go_time \<Rightarrow> State \<Rightarrow> bool" where
  "spaced t st \<longleftrightarrow> isActive (st_Phase st) \<longrightarrow>
     (if IsZero (st_LastAnalysis st) then IsZero (st_AvailableSince st) \<or> t \<le> st_AvailableSince st
      else t \<le> st_LastAnalysis st)"

lemma spaced_persisted:
  assumes "spaced t st" "whole_seconds t = t" "0 < t"
  shows "spaced t (persisted st)"
proof -
  have mono: "t \<le> u \<Longrightarrow> t \<le> whole_seconds u" for u
    using whole_seconds_mono [of t u] assms(2) by simp
  have "IsZero (whole_seconds (st_LastAnalysis st)) \<Longrightarrow> isActive (st_Phase st) \<Longrightarrow> IsZero (st_LastAnalysis st)"
    using assms(1,3) mono [of "st_LastAnalysis st"] by (auto simp: spaced_def IsZero_def split: if_splits)
  then show ?thesis
    using assms(1) mono by (auto simp: spaced_def split: if_splits)
qed

lemma spaced_Observe: "spaced t (in_State inp) \<Longrightarrow> t \<le> in_Now inp \<Longrightarrow> spaced t (in_State (Observe inp))"
  by (auto simp: spaced_def Observe_def Let_def split: prod.splits if_splits)

lemma spaced_fresh:
  "spaced t (out_State (capacityHold inp))" "spaced t (out_State (start inp r m))"
  "spaced t (out_State (begin_canary inp))"
  by (simp_all add: spaced_def answer zero_State_def)
    (cases rule: begin_cases [of inp]; auto simp: answer zero_State_def)

lemma spaced_judge:
  assumes "t \<le> st_LastAnalysis st" "\<not> IsZero (st_LastAnalysis st)"
  shows "spaced t (out_State (judge inp st w p c v))"
  using assms
  by (cases rule: judge_cases [where inp = inp and st = st and w = w and p = p and c = c and v = v];
      cases rule: advance_cases [where inp = inp and st = st]) (auto simp: spaced_def answer)

lemma spaced_Next:
  assumes "spaced t (in_State inp)" "t \<le> in_Now inp" "0 < t"
  shows "spaced t (out_State (Next inp))"
proof -
  have o: "spaced t (in_State (Observe inp))"
    using spaced_Observe assms by blast
  show ?thesis
  proof (cases rule: Next_cases [of inp])
    case analyse
    show ?thesis
    proof (cases rule: analyse_pass [OF analyse(1-4)])
      case (5 r)
      then show ?thesis
        using assms(2,3) by (auto simp: analyse(5) IsZero_def intro!: spaced_judge)
    qed (use o analyse in \<open>auto simp: analyse(5) answer spaced_def zero_State_def\<close>)
  next
    case promoting
    then show ?thesis
      using spaced_fresh(3) [of t inp]
      by (cases rule: promoting_cases [where inp = inp and st = "in_State inp"]) (auto simp: answer spaced_def zero_State_def)
  next
    case paused
    then show ?thesis
      using o by (cases rule: paused_cases [where inp = "Observe inp" and st = "in_State (Observe inp)"])
        (auto simp: answer spaced_def)
  qed (use o spaced_fresh in \<open>auto simp: answer spaced_def\<close>)
qed

lemma spaced_position:
  "spaced t st \<Longrightarrow> whole_seconds t = t \<Longrightarrow> 0 < t \<Longrightarrow> \<forall>i \<in> set is. t \<le> in_Now i \<Longrightarrow> spaced t (position_after st is)"
proof (induction st "is" rule: position_after.induct)
  case (2 st i "is")
  then have "spaced t (persisted (out_State (Next (i\<lparr>in_State := st\<rparr>))))"
    by (intro spaced_persisted spaced_Next) simp_all
  then show ?case
    using 2 by simp
qed simp

text \<open>
  C36. Rounds are spaced. Let a pass consume a round, let any passes follow, with any inputs and each from the
  position the one before wrote to the status, and let a later pass consume a round again. If no analysis
  clock was reset in between, the analysis interval that pass works with has elapsed since the second in which
  the first round was consumed; if it was reset - the canary climbed, lost its readiness or was restarted -
  a full warm-up and measurement window have. So neither a repeated reconcile nor a restart of the operator
  counts the same measurement twice.
\<close>

theorem rounds_are_spaced:
  assumes "round_consumed inp r" "go_Second \<le> in_Now inp"
    and "\<forall>i \<in> set between. in_Now inp \<le> in_Now i" "in_Now inp \<le> in_Now inp'"
    and "in_State inp' = position_after (persisted (out_State (Next inp))) between" "round_consumed inp' r'"
  shows "\<not> Before (in_Now inp') (Add (whole_seconds (in_Now inp))
    (if IsZero (st_LastAnalysis (in_State inp')) then evidence_span (in_Plan inp') else pl_Interval (in_Plan inp')))"
proof -
  let ?t = "whole_seconds (in_Now inp)"
  have t: "whole_seconds ?t = ?t" "0 < ?t" "?t \<le> in_Now inp"
    using assms(2) whole_seconds_mono [of go_Second "in_Now inp"] whole_seconds_cut(1) [of "in_Now inp"]
    by (simp_all add: whole_seconds_def go_Second_def)
  have "spaced ?t (out_State (Next inp))"
    unfolding Next_round [OF assms(1)] by (rule spaced_judge) (use t in \<open>simp_all add: IsZero_def\<close>)
  then have "spaced ?t (in_State inp')"
    unfolding assms(5) using t assms(3) by (intro spaced_position spaced_persisted) auto
  then have o: "spaced ?t (in_State (Observe inp'))"
    using t(3) assms(4) by (intro spaced_Observe) simp_all
  note rc = assms(6) [unfolded round_consumed_def]
  have keep: "st_LastAnalysis (in_State (Observe inp')) = st_LastAnalysis (in_State inp')"
    using Observe_keeps(3) [of inp'] rc by blast
  have "isActive (st_Phase (in_State (Observe inp')))" "warm (in_Now inp') (in_Plan inp') (in_State (Observe inp'))"
      "DueForAnalysis (in_Now inp') (in_Plan inp') (in_State (Observe inp'))"
    using rc by auto
  then show ?thesis
    using o keep by (auto simp: spaced_def warm_def DueForAnalysis_def Before_def Add_def split: if_splits)
qed

text \<open>A failed round at second 100, a pass without a round five seconds later, and the next round.\<close>

definition clocked_input :: "go_time \<Rightarrow> State \<Rightarrow> Round option \<Rightarrow> Input" where
  "clocked_input secs st rnd = sample_input\<lparr>in_Now := secs * go_Second, in_State := st, in_Round := rnd,
     in_Plan := sample_plan\<lparr>pl_Interval := 30 * go_Second\<rparr>\<rparr>"

definition first_round :: Input where
  "first_round = clocked_input 100 (sample_state\<lparr>st_StartedAt := 10 * go_Second, st_AvailableSince := 20 * go_Second\<rparr>)
     (Some (sample_round VerdictFail))"

definition second_round :: Input where
  "second_round = clocked_input 131 (position_after (persisted (out_State (Next first_round)))
     [clocked_input 105 zero_State None]) (Some (sample_round VerdictFail))"

theorem rounds_are_spaced_witness:
  "\<not> Before (in_Now second_round) (Add (whole_seconds (in_Now first_round)) (pl_Interval (in_Plan second_round)))"
proof -
  have rc: "round_consumed first_round (sample_round VerdictFail)" "round_consumed second_round (sample_round VerdictFail)"
    and last: "\<not> IsZero (st_LastAnalysis (in_State second_round))"
    by code_simp+
  have st: "in_State second_round = position_after (persisted (out_State (Next first_round))) [clocked_input 105 zero_State None]"
    by (simp add: second_round_def clocked_input_def)
  show ?thesis
    using rounds_are_spaced [OF rc(1) _ _ _ st rc(2)] last
    by (simp add: second_round_def first_round_def clocked_input_def go_Second_def)
qed

section \<open>A rollback sticks\<close>

fun machine_run :: "State \<Rightarrow> Input list \<Rightarrow> Output list" where
  "machine_run st [] = []"
| "machine_run st (i # is) =
     (let out = Next (i\<lparr>in_State := st\<rparr>) in out # machine_run (out_State out) is)"

definition rejected_at_rest :: "string \<Rightarrow> State \<Rightarrow> bool" where
  "rejected_at_rest rv st \<longleftrightarrow> st_Phase st \<in> {PhaseIdle, PhaseRollingBack} \<and> st_FailedRevision st = rv"

lemma rejected_at_rest_Next:
  assumes "rejected_at_rest rv (in_State inp)" "in_TargetRevision inp = rv" "rv \<noteq> ''''"
  shows "out_Action (Next inp) = ActionNone" "out_Canary (Next inp) = 0"
    "out_Reason (Next inp) = ReasonCanaryRolledBack" "rejected_at_rest rv (out_State (Next inp))"
proof -
  have "begin_canary inp = settled inp ReasonCanaryRolledBack (msg_not_retried rv)"
    using assms by (auto simp: begin_canary_def rejected_at_rest_def)
  moreover have "Next inp = begin_canary inp"
    using assms by (cases rule: Next_cases [of inp]) (auto simp: rejected_at_rest_def)
  ultimately show "out_Action (Next inp) = ActionNone" "out_Canary (Next inp) = 0"
      "out_Reason (Next inp) = ReasonCanaryRolledBack" "rejected_at_rest rv (out_State (Next inp))"
    using assms(1) by (simp_all add: answer rejected_at_rest_def)
qed

lemma rejected_run:
  "rejected_at_rest rv st \<Longrightarrow> rv \<noteq> '''' \<Longrightarrow> \<forall>i \<in> set is. in_TargetRevision i = rv \<Longrightarrow>
   out \<in> set (machine_run st is) \<Longrightarrow>
   out_Action out = ActionNone \<and> out_Canary out = 0 \<and> out_Reason out = ReasonCanaryRolledBack"
proof (induction "is" arbitrary: st)
  case (Cons i "is")
  have i: "rejected_at_rest rv (in_State (i\<lparr>in_State := st\<rparr>))"
      "in_TargetRevision (i\<lparr>in_State := st\<rparr>) = rv"
    using Cons.prems by simp_all
  show ?case
    using Cons.IH [of "out_State (Next (i\<lparr>in_State := st\<rparr>))"] Cons.prems(2-4)
      rejected_at_rest_Next [OF i Cons.prems(2)]
    by (auto simp: Let_def)
qed simp

lemma judge_rollback_state:
  "out_Action (judge inp st w p c v) = ActionRollback \<Longrightarrow>
   st_Phase (out_State (judge inp st w p c v)) = PhaseRollingBack \<and>
   st_FailedRevision (out_State (judge inp st w p c v)) = st_Revision st"
  by (cases rule: judge_cases [where inp = inp and st = st and w = w and p = p and c = c and v = v];
      cases rule: advance_cases [where inp = inp and st = st]) (auto simp: answer)

lemma begin_no_rollback: "out_Action (begin_canary inp) \<noteq> ActionRollback"
  by (cases rule: begin_cases [of inp]) (auto simp: answer)

lemma rollback_rejects:
  assumes "out_Action (Next inp) = ActionRollback"
  shows "rejected_at_rest (st_Revision (in_State inp)) (out_State (Next inp))"
proof (cases rule: Next_cases [of inp])
  case analyse
  show ?thesis
  proof (cases rule: analyse_pass [OF analyse(1-4)])
    case (5 r)
    then show ?thesis
      using assms analyse(5) judge_rollback_state [of "Observe inp" "judged_state inp r"]
      by (auto simp: rejected_at_rest_def)
  qed (use assms analyse(5) in \<open>auto simp: answer rejected_at_rest_def\<close>)
next
  case promoting
  then show ?thesis
    using assms begin_no_rollback [of inp]
    by (cases rule: promoting_cases [where inp = inp and st = "in_State inp"]) (auto simp: answer)
next
  case paused
  then show ?thesis
    using assms
    by (cases rule: paused_cases [where inp = "Observe inp" and st = "in_State (Observe inp)"])
      (auto simp: answer)
qed (use assms begin_no_rollback in \<open>auto simp: answer rejected_at_rest_def\<close>)

text \<open>
  A rollback sticks: after any decision to roll back, every later pass for the same target - however
  many, at whatever times, with whatever deployments, rounds and annotations - starts nothing, gives the
  canary no replica and reports the rejection, until the target revision changes.
\<close>

theorem rollback_sticks:
  assumes "out_Action (Next inp) = ActionRollback" "st_Revision (in_State inp) \<noteq> ''''"
    and "\<forall>i \<in> set later. in_TargetRevision i = st_Revision (in_State inp)"
    and "out \<in> set (machine_run (out_State (Next inp)) later)"
  shows "out_Action out = ActionNone \<and> out_Canary out = 0 \<and> out_Reason out = ReasonCanaryRolledBack"
  by (rule rejected_run [OF rollback_rejects [OF assms(1)] assms(2-4)])

theorem rollback_sticks_witness:
  "out_Action (Next (sample_input\<lparr>in_State :=
     out_State (Next (sample_input\<lparr>in_Aborted := True\<rparr>)), in_Approved := True\<rparr>)) = ActionNone"
proof -
  have rb: "out_Action (Next (sample_input\<lparr>in_Aborted := True\<rparr>)) = ActionRollback"
    by code_simp
  show ?thesis
    using rollback_sticks [OF rb, of "[sample_input\<lparr>in_Approved := True\<rparr>]"]
    by (simp add: sample_defs Let_def)
qed

section \<open>No pass is left without an end\<close>

lemma Observe_not_ready:
  assumes "isActive (st_Phase (in_State inp))" "st_Revision (in_State inp) = in_TargetRevision inp"
    "\<not> deployment_ready inp (planned inp)"
  shows "IsZero (st_AvailableSince (in_State (Observe inp)))" "IsZero (st_LastAnalysis (in_State (Observe inp)))"
    "st_Phase (in_State (Observe inp)) = PhaseWaiting"
  using assms by (auto simp: Observe_def Let_def planned_def split: prod.splits)

lemma missed_deadline:
  assumes "isActive (st_Phase (in_State inp))" "st_Revision (in_State inp) = in_TargetRevision inp"
    and "\<not> in_Aborted inp" "\<not> IsZero (st_StartedAt (in_State inp))" "planned inp \<noteq> 0"
    and "\<not> deployment_ready inp (planned inp)" "0 < pl_ProgressDeadline (in_Plan inp)"
    and "\<not> Before (in_Now inp) (Add (st_StartedAt (in_State inp)) (pl_ProgressDeadline (in_Plan inp)))"
  shows "out_Action (Next inp) = ActionRollback \<and>
         out_Reason (Next inp) = ReasonCanaryProgressDeadlineExceeded \<and>
         st_FailedRevision (out_State (Next inp)) = st_Revision (in_State inp)"
proof -
  note nr = Observe_not_ready [OF assms(1,2,6)]
  have missed: "deadline_missed (in_Now inp) (in_Plan inp) (in_State (Observe inp))"
    using assms nr by (simp add: deadline_missed_def warm_def)
  have eq: "Next inp = analyse (Observe inp) (in_State (Observe inp))"
    using assms nr(3) by (cases rule: Next_cases [of inp]) auto
  show ?thesis
    unfolding eq using assms missed nr
    by (cases rule: analyse_cases [where inp = "Observe inp" and st = "in_State (Observe inp)"])
      (auto simp: answer planned_def warm_def)
qed



text \<open>
  A pause is not left by its operator only: a canary that passed every check and waits for approval is rolled
  back, and its revision rejected, by a pass that finds a replica of it not ready once the progress deadline
  since its start is over - neither approved nor aborted.
\<close>

theorem pause_ends_at_deadline:
  assumes "st_Phase (in_State inp) = PhasePaused" "st_Revision (in_State inp) = in_TargetRevision inp"
    and "\<not> in_Aborted inp" "\<not> in_Approved inp" "\<not> IsZero (st_StartedAt (in_State inp))" "planned inp \<noteq> 0"
    and "\<not> deployment_ready inp (planned inp)" "0 < pl_ProgressDeadline (in_Plan inp)"
    and "\<not> Before (in_Now inp) (Add (st_StartedAt (in_State inp)) (pl_ProgressDeadline (in_Plan inp)))"
  shows "out_Action (Next inp) = ActionRollback \<and> st_FailedRevision (out_State (Next inp)) = st_Revision (in_State inp)"
  using missed_deadline [of inp] assms by simp

theorem pause_ends_at_deadline_witness:
  "out_Action (Next (sample_input\<lparr>in_State := sample_state\<lparr>st_Phase := PhasePaused\<rparr>,
     in_Deployment := (in_Deployment sample_input)\<lparr>do_ReadyReplicas := 0\<rparr>\<rparr>)) = ActionRollback"
proof -
  let ?i = "sample_input\<lparr>in_State := sample_state\<lparr>st_Phase := PhasePaused\<rparr>,
     in_Deployment := (in_Deployment sample_input)\<lparr>do_ReadyReplicas := 0\<rparr>\<rparr>"
  have "planned ?i \<noteq> 0" "\<not> deployment_ready ?i (planned ?i)"
    by code_simp+
  then show ?thesis
    using pause_ends_at_deadline [of ?i] by (simp add: sample_defs time_defs)
qed

lemma begin_timer:
  "0 < pl_Interval (in_Plan inp) \<Longrightarrow>
   out_RequeueAfter (begin_canary inp) = 0 \<and> out_Action (begin_canary inp) = ActionNone \<or>
   0 < out_RequeueAfter (begin_canary inp) \<and> out_Action (begin_canary inp) \<in> {ActionStart, ActionWait, ActionPromote}"
  by (cases rule: begin_cases [of inp]) (auto simp: answer)

lemma judge_timer:
  "0 < pl_Interval (in_Plan inp) \<Longrightarrow>
   out_RequeueAfter (judge inp st w p c v) = 0 \<and>
     out_Action (judge inp st w p c v) \<in> {ActionPause, ActionRollback} \<or>
   0 < out_RequeueAfter (judge inp st w p c v) \<and>
     out_Action (judge inp st w p c v) \<in> {ActionWait, ActionAdvance, ActionPromote}"
  by (cases rule: judge_cases [where inp = inp and st = st and w = w and p = p and c = c and v = v];
      cases rule: advance_cases [where inp = inp and st = st]) (auto simp: answer)

text \<open>
  Progress never depends on an unrelated event: with a positive analysis interval, every decision
  that is waiting for time to pass - start, wait, advance, promote - carries a positive timer, and exactly
  the decisions that wait for a change of the object - none, pause, rollback - carry none.
\<close>

theorem Next_timer:
  assumes "0 < pl_Interval (in_Plan inp)"
  shows "if out_Action (Next inp) \<in> {ActionNone, ActionPause, ActionRollback}
         then out_RequeueAfter (Next inp) = 0 else 0 < out_RequeueAfter (Next inp)"
proof (cases rule: Next_cases [of inp])
  case analyse
  show ?thesis
  proof (cases rule: analyse_pass [OF analyse(1-4)])
    case (5 r)
    then show ?thesis
      using assms analyse(5) judge_timer [of "Observe inp" "judged_state inp r"] by (force simp: Let_def)
  qed (use assms analyse(5) in \<open>auto simp: answer\<close>)
next
  case promoting
  then show ?thesis
    using assms begin_timer [of inp]
    by (cases rule: promoting_cases [where inp = inp and st = "in_State inp"]) (auto simp: answer)
next
  case beginning
  then show ?thesis
    using begin_timer [OF assms] by auto
next
  case paused
  then show ?thesis
    using assms
    by (cases rule: paused_cases [where inp = "Observe inp" and st = "in_State (Observe inp)"])
      (auto simp: answer)
qed (use assms in \<open>auto simp: answer\<close>)

theorem Next_timer_witness: "out_RequeueAfter (Next sample_input) > 0"
  using Next_timer [of sample_input]
proof -
  have "out_Action (Next sample_input) = ActionWait"
    by code_simp
  moreover have "0 < pl_Interval (in_Plan sample_input)"
    by (simp add: sample_defs)
  ultimately show ?thesis
    using Next_timer [of sample_input] by simp
qed

end
