(* ===== verification/Canary_Spec.thy ===== *)
theory Canary_Spec
  imports Canary_Runs
begin

text \<open>
  The protocol the rollout state machine promises, as an abstract transition system, and the proof that
  \<open>Next\<close> implements it. An abstract position is one of three modes - no canary, a canary at a rung with a
  number of failed rounds, a promotion - and the last rejected revision; \<open>spec_step\<close> has one rule for
  each thing a pass may do. \<open>Next_refines\<close> is the simulation, \<open>canary_reach\<close> the positions the machine
  reaches from the empty one through the status, with a plan that may be another in every pass, and the
  bounds on rung and failure budget are proved once on the specification and transferred.
\<close>

section \<open>The protocol\<close>

datatype mode = Off | Canary string int int | Promo string

record protocol =
  a_mode :: mode
  a_rejected :: string

inductive spec_step :: "Plan \<Rightarrow> string \<Rightarrow> protocol \<Rightarrow> Action \<Rightarrow> protocol \<Rightarrow> bool"
  for plan :: Plan and tgt :: string where
  settle: "m = Off \<or> m = Promo r \<Longrightarrow>
     spec_step plan tgt \<lparr>a_mode = m, a_rejected = x\<rparr> ActionNone \<lparr>a_mode = Off, a_rejected = x\<rparr>"
| commence: "m = Off \<or> m = Promo r \<Longrightarrow> tgt \<noteq> x \<Longrightarrow> a \<in> {ActionStart, ActionWait} \<Longrightarrow>
     spec_step plan tgt \<lparr>a_mode = m, a_rejected = x\<rparr> a \<lparr>a_mode = Canary tgt 0 0, a_rejected = x\<rparr>"
| restart: "a \<in> {ActionStart, ActionWait} \<Longrightarrow>
     spec_step plan tgt \<lparr>a_mode = Canary r k f, a_rejected = x\<rparr> a \<lparr>a_mode = Canary tgt 0 0, a_rejected = x\<rparr>"
| stay: "a \<in> {ActionWait, ActionPause} \<Longrightarrow>
     spec_step plan tgt \<lparr>a_mode = Canary tgt k f, a_rejected = x\<rparr> a \<lparr>a_mode = Canary tgt k f, a_rejected = x\<rparr>"
| spend: "f + 1 < pl_FailureThreshold plan \<Longrightarrow>
     spec_step plan tgt \<lparr>a_mode = Canary tgt k f, a_rejected = x\<rparr> ActionWait
       \<lparr>a_mode = Canary tgt k (f + 1), a_rejected = x\<rparr>"
| climb: "k + 1 < int (length (pl_Weights plan)) \<Longrightarrow>
     spec_step plan tgt \<lparr>a_mode = Canary tgt k f, a_rejected = x\<rparr> ActionAdvance
       \<lparr>a_mode = Canary tgt (k + 1) f, a_rejected = x\<rparr>"
| promote: "spec_step plan tgt \<lparr>a_mode = Canary tgt k f, a_rejected = x\<rparr> ActionPromote
       \<lparr>a_mode = Promo tgt, a_rejected = x\<rparr>"
| direct: "m = Off \<or> m = Promo r \<Longrightarrow> pl_Weights plan = [] \<Longrightarrow> tgt \<noteq> x \<Longrightarrow>
     spec_step plan tgt \<lparr>a_mode = m, a_rejected = x\<rparr> ActionPromote \<lparr>a_mode = Promo tgt, a_rejected = x\<rparr>"
| converge: "spec_step plan tgt \<lparr>a_mode = Promo tgt, a_rejected = x\<rparr> ActionPromote
       \<lparr>a_mode = Promo tgt, a_rejected = x\<rparr>"
| reject: "spec_step plan tgt \<lparr>a_mode = Canary r k f, a_rejected = x\<rparr> ActionRollback
       \<lparr>a_mode = Off, a_rejected = r\<rparr>"

inductive_cases spec_step_advance: "spec_step plan tgt s ActionAdvance t"
inductive_cases spec_step_promote: "spec_step plan tgt s ActionPromote t"
inductive_cases spec_step_start: "spec_step plan tgt s ActionStart t"

text \<open>The bound the protocol keeps: a canary stays on its ladder and below its failure threshold.\<close>

definition on_ladder :: "Plan \<Rightarrow> protocol \<Rightarrow> bool" where
  "on_ladder plan s \<longleftrightarrow> (\<forall>r k f. a_mode s = Canary r k f \<longrightarrow>
     0 \<le> k \<and> (k = 0 \<or> k < int (length (pl_Weights plan))) \<and> 0 \<le> f \<and> f < pl_FailureThreshold plan)"

text \<open>
  Over a history of plans - ladder and threshold can be edited in flight - the rung is one that some plan
  has, and the failed rounds are below the threshold of some plan.
\<close>

definition within_plans :: "Plan list \<Rightarrow> protocol \<Rightarrow> bool" where
  "within_plans ps s \<longleftrightarrow> (\<forall>r k f. a_mode s = Canary r k f \<longrightarrow>
     0 \<le> k \<and> (k = 0 \<or> (\<exists>p \<in> set ps. k < int (length (pl_Weights p)))) \<and>
     0 \<le> f \<and> (\<exists>p \<in> set ps. f < pl_FailureThreshold p))"

lemma spec_step_within:
  "spec_step plan tgt s a t \<Longrightarrow> 1 \<le> pl_FailureThreshold plan \<Longrightarrow> within_plans ps s \<Longrightarrow> within_plans (plan # ps) t"
  by (induction rule: spec_step.induct) (auto simp: within_plans_def)

text \<open>What the simulation needs of a position: no counter overflows.\<close>

definition in_range :: "protocol \<Rightarrow> bool" where
  "in_range s \<longleftrightarrow> (\<forall>r k f. a_mode s = Canary r k f \<longrightarrow> 0 \<le> k \<and> 0 \<le> f \<and> f < MaxInt32)"

section \<open>The abstraction\<close>

fun mode_of :: "Phase \<Rightarrow> string \<Rightarrow> int \<Rightarrow> int \<Rightarrow> mode" where
  "mode_of PhaseWaiting r k f = Canary r k f"
| "mode_of PhaseProgressing r k f = Canary r k f"
| "mode_of PhasePaused r k f = Canary r k f"
| "mode_of PhasePromoting r k f = Promo r"
| "mode_of _ r k f = Off"

definition abs_state :: "State \<Rightarrow> protocol" where
  "abs_state st = \<lparr>a_mode = mode_of (st_Phase st) (st_Revision st) (st_Step st) (failed (st_counters st)),
                   a_rejected = st_FailedRevision st\<rparr>"

lemma mode_of_active: "isActive ph \<Longrightarrow> mode_of ph r k f = Canary r k f"
  by (cases ph) simp_all

lemma mode_of_inactive: "\<not> isActive ph \<Longrightarrow> mode_of ph r k f = Off \<or> mode_of ph r k f = Promo r"
  by (cases ph) simp_all

lemma abs_Observe [simp]: "abs_state (in_State (Observe inp)) = abs_state (in_State inp)"
proof (cases "isActive (st_Phase (in_State inp))")
  case True
  then show ?thesis by (simp add: abs_state_def mode_of_active)
qed (simp add: Observe_inactive)

definition plan_ok :: "Plan \<Rightarrow> bool" where
  "plan_ok plan \<longleftrightarrow> 1 \<le> pl_FailureThreshold plan \<and> is_i32 (pl_FailureThreshold plan) \<and>
     int (length (pl_Weights plan)) \<le> MaxInt32"

lemma on_ladder_in_range: "plan_ok plan \<Longrightarrow> on_ladder plan s \<Longrightarrow> in_range s"
  by (auto simp: plan_ok_def on_ladder_def in_range_def is_i32_def MaxInt32_def)

lemma within_in_range: "within_plans ps s \<Longrightarrow> \<forall>p \<in> set ps. plan_ok p \<Longrightarrow> in_range s"
  unfolding within_plans_def in_range_def plan_ok_def is_i32_def MaxInt32_def by fastforce

lemma last_rung_eq: "plan_ok plan \<Longrightarrow> last_rung plan = int (length (pl_Weights plan)) - 1"
  unfolding last_rung_def plan_ok_def MaxInt32_def
  by (subst wrap32_id wrap32_id, simp add: is_i32_def)+ simp

section \<open>Simulation\<close>

abbreviation refines :: "Input \<Rightarrow> State \<Rightarrow> Output \<Rightarrow> bool" where
  "refines inp st out \<equiv> spec_step (in_Plan inp) (in_TargetRevision inp) (abs_state st) (out_Action out)
     (abs_state (out_State out))"

lemma begin_refines:
  assumes "\<not> isActive (st_Phase (in_State inp))"
  shows "refines inp (in_State inp) (begin_canary inp)"
  using mode_of_inactive [OF assms]
  by (cases rule: begin_cases [of inp])
    (auto simp: answer abs_state_def zero_counters_def intro!: spec_step.intros)

lemma capacityHold_refines:
  "isActive (st_Phase st) \<Longrightarrow> st_FailedRevision st = st_FailedRevision (in_State inp) \<Longrightarrow>
   refines inp st (capacityHold inp)"
  by (auto simp: answer abs_state_def mode_of_active zero_counters_def intro!: spec_step.intros)

lemma start_refines:
  "isActive (st_Phase st) \<Longrightarrow> st_FailedRevision st = st_FailedRevision (in_State inp) \<Longrightarrow>
   refines inp st (start inp r m)"
  by (auto simp: answer abs_state_def mode_of_active zero_counters_def intro!: spec_step.intros)

lemma rollback_refines: "isActive (st_Phase st) \<Longrightarrow> refines inp st (rollback inp st r m)"
  by (auto simp: answer abs_state_def mode_of_active intro!: spec_step.intros)

lemma hold_refines:
  "isActive (st_Phase st) \<Longrightarrow> st_Revision st = in_TargetRevision inp \<Longrightarrow> isActive ph \<Longrightarrow>
   refines inp st (hold st w p c ph r m d)"
  by (auto simp: answer abs_state_def mode_of_active intro!: spec_step.intros)

lemma advance_refines:
  assumes "plan_ok (in_Plan inp)" "isActive (st_Phase st)" "st_Revision st = in_TargetRevision inp"
    "in_range (abs_state st)"
  shows "refines inp st (advance inp st)"
proof (cases rule: advance_cases [where inp = inp and st = st])
  case (climb st')
  have k: "0 \<le> st_Step st" "st_Step st + 1 < int (length (pl_Weights (in_Plan inp)))"
    using climb(1) last_rung_eq [OF assms(1)] assms(2,4) by (auto simp: in_range_def abs_state_def mode_of_active)
  then have "wrap32 (st_Step st + 1) = st_Step st + 1"
    using assms(1) by (intro wrap32_id) (simp add: is_i32_def plan_ok_def MaxInt32_def)
  then show ?thesis
    using climb assms k by (auto simp: abs_state_def mode_of_active intro!: spec_step.intros)
qed (use assms in \<open>auto simp: answer abs_state_def mode_of_active intro!: spec_step.intros\<close>)

lemma failed_apply:
  "0 \<le> failed c \<Longrightarrow> failed c < MaxInt32 \<Longrightarrow>
   failed (apply_verdict c v) = (if v = VerdictFail then failed c + 1 else failed c)"
  by (cases v) (auto intro: wrap32_id simp: is_i32_def MaxInt32_def)

lemma judge_refines:
  assumes ok: "plan_ok (in_Plan inp)" and active: "isActive (st_Phase st0)"
    and rev: "st_Revision st0 = in_TargetRevision inp" and range: "in_range (abs_state st0)"
    and st: "st = st0\<lparr>st_LastAnalysis := now, st_counters := apply_verdict (st_counters st0) v\<rparr>"
  shows "refines inp st0 (judge inp st w p c v)"
proof (cases "v = VerdictFail")
  case True
  have f: "0 \<le> failed (st_counters st0)" "failed (st_counters st0) < MaxInt32"
    using range active by (auto simp: in_range_def abs_state_def mode_of_active)
  have f1: "failed (st_counters st) = failed (st_counters st0) + 1"
    using True f failed_apply [of "st_counters st0" v] by (simp add: st)
  show ?thesis
  proof (cases rule: judge_cases [where inp = inp and st = st and w = w and p = p and c = c and v = v])
    case (hold r m)
    then have "failed (st_counters st0) + 1 < pl_FailureThreshold (in_Plan inp)"
      using True f1 by simp
    then show ?thesis
      using hold(1) f1 active rev st
      by (auto simp: answer abs_state_def mode_of_active intro!: spec_step.spend)
  qed (use True active st in \<open>auto simp: answer abs_state_def mode_of_active intro!: spec_step.intros\<close>)
next
  case False
  have st0: "0 \<le> failed (st_counters st0)" "failed (st_counters st0) < MaxInt32"
    using range active by (auto simp: in_range_def abs_state_def mode_of_active)
  then have same: "abs_state st = abs_state st0"
    using False failed_apply [OF st0, of v] by (simp add: abs_state_def st)
  have act: "isActive (st_Phase st)" "st_Revision st = in_TargetRevision inp"
    using active rev st by simp_all
  have "refines inp st (judge inp st w p c v)"
  proof (cases rule: judge_cases [where inp = inp and st = st and w = w and p = p and c = c and v = v])
    case (rollback r m)
    then show ?thesis using rollback_refines [OF act(1)] by simp
  next
    case (hold r m)
    then show ?thesis using hold_refines [OF act] by simp
  next
    case (promote m)
    then show ?thesis
      using act by (auto simp: answer abs_state_def mode_of_active intro: spec_step.promote)
  next
    case advance
    then show ?thesis using advance_refines [OF ok act] range by (simp add: same)
  qed
  then show ?thesis
    by (simp add: same)
qed

lemma analyse_refines:
  assumes "plan_ok (in_Plan inp)" "in_range (abs_state (in_State inp))"
    and "\<not> in_Aborted inp" "isActive (st_Phase (in_State inp))"
      "st_Revision (in_State inp) = in_TargetRevision inp"
      "st_Phase (in_State (Observe inp)) = PhaseWaiting \<or> st_Phase (in_State (Observe inp)) = PhaseProgressing"
  shows "refines inp (in_State inp) (analyse (Observe inp) (in_State (Observe inp)))"
proof -
  let ?i = "Observe inp" and ?s = "in_State (Observe inp)"
  have act: "isActive (st_Phase ?s)" "st_Revision ?s = in_TargetRevision ?i"
    using assms by simp_all
  have "refines ?i ?s (analyse ?i ?s)"
  proof (cases rule: analyse_pass [OF assms(3-6)])
    case 1
    then show ?thesis using capacityHold_refines [OF act(1), of ?i] by simp
  next
    case 2
    then show ?thesis using start_refines [OF act(1), of ?i] by simp
  next
    case 3
    then show ?thesis using rollback_refines [OF act(1), of ?i] by simp
  next
    case (4 ph m d)
    then show ?thesis using hold_refines [OF act, of ph] by auto
  next
    case (5 r)
    have counters: "st_counters ?s = st_counters (in_State inp)"
      using 5(1) Observe_keeps(1) [of inp] Observe_round_state(3) [of inp r]
      by (auto simp: round_consumed_def)
    then show ?thesis
      unfolding 5(2)
      by (intro judge_refines) (use assms act in \<open>simp_all add: judged_state_def\<close>)
  qed
  then show ?thesis
    by simp
qed

lemma Next_simulates:
  assumes "plan_ok (in_Plan inp)" "in_range (abs_state (in_State inp))"
  shows "refines inp (in_State inp) (Next inp)"
proof (cases rule: Next_cases [of inp])
  case abort
  then show ?thesis
    using rollback_refines [of "in_State (Observe inp)" inp]
    by (simp add: answer abs_state_def mode_of_active)
next
  case promoting
  then show ?thesis
    using begin_refines [of inp]
    by (cases rule: promoting_cases [where inp = inp and st = "in_State inp"])
      (auto simp: answer abs_state_def intro: spec_step.settle spec_step.converge)
next
  case paused
  then show ?thesis
    by (cases rule: paused_cases [where inp = "Observe inp" and st = "in_State (Observe inp)"])
      (auto simp: answer abs_state_def intro: spec_step.stay spec_step.promote)
next
  case analyse
  then show ?thesis
    using analyse_refines [OF assms analyse(1-4)] by simp
qed (simp_all add: begin_refines capacityHold_refines start_refines)

text \<open>
  C1. The state machine implements the protocol: from any position that is on its ladder, every pass -
  for any clock, deployment, round, target and operator signals - is a step the abstract specification
  allows, with the same action. Every branch of the code is covered.
\<close>

theorem Next_refines:
  assumes "plan_ok (in_Plan inp)" "on_ladder (in_Plan inp) (abs_state (in_State inp))"
  shows "spec_step (in_Plan inp) (in_TargetRevision inp) (abs_state (in_State inp))
           (out_Action (Next inp)) (abs_state (out_State (Next inp)))"
  using Next_simulates [OF assms(1) on_ladder_in_range [OF assms]] .

theorem Next_refines_witness:
  "spec_step sample_plan ''b'' (abs_state sample_state)
     (out_Action (Next (sample_input\<lparr>in_Round := Some (sample_round VerdictPass)\<rparr>)))
     (abs_state (out_State (Next (sample_input\<lparr>in_Round := Some (sample_round VerdictPass)\<rparr>))))"
  using Next_refines [of "sample_input\<lparr>in_Round := Some (sample_round VerdictPass)\<rparr>"]
  by (simp add: sample_defs plan_ok_def on_ladder_def abs_state_def is_i32_def MaxInt32_def zero_counters_def)

section \<open>Reachable positions\<close>

text \<open>
  The positions a canary reaches from the empty one, with the plans of the passes, the last one first. The
  specification of the rollout is not part of the revision, so that each pass may find another ladder and
  other limits; between passes a position goes through the status.
\<close>

inductive canary_reach :: "Plan list \<Rightarrow> State \<Rightarrow> bool" where
  empty: "canary_reach [] zero_State"
| pass: "canary_reach ps (in_State inp) \<Longrightarrow> plan_ok (in_Plan inp) \<Longrightarrow>
     canary_reach (in_Plan inp # ps) (out_State (Next inp))"
| read_back: "canary_reach ps st \<Longrightarrow> canary_reach ps (persisted st)"

lemma reach_plans_ok: "canary_reach ps st \<Longrightarrow> p \<in> set ps \<Longrightarrow> plan_ok p"
  by (induction rule: canary_reach.induct) auto

lemma abs_persisted:
  "in_range (abs_state st) \<Longrightarrow> abs_state (persisted st) = abs_state st"
  by (cases "st_Phase st")
    (auto simp: abs_state_def in_range_def persisted_def restored_def encoded_def SetCounters_def)

lemma reach_within: "canary_reach ps st \<Longrightarrow> within_plans ps (abs_state st)"
proof (induction rule: canary_reach.induct)
  case (pass ps inp)
  have "in_range (abs_state (in_State inp))"
    using within_in_range [OF pass.IH] reach_plans_ok [OF pass.hyps(1)] by blast
  from spec_step_within [OF Next_simulates [OF pass.hyps(2) this] _ pass.IH] pass.hyps(2) show ?case
    by (simp add: plan_ok_def)
next
  case (read_back ps st)
  then show ?case
    using within_in_range [OF read_back.IH] reach_plans_ok [OF read_back.hyps] by (simp add: abs_persisted)
qed (simp add: within_plans_def abs_state_def)

lemma weightAt_in_ladder:
  assumes "pl_Weights p \<noteq> []" "int (length (pl_Weights p)) \<le> MaxInt32"
  shows "weightAt p k \<in> set (pl_Weights p)"
proof -
  have "wrap32 (wrap32 (int (length (pl_Weights p))) - 1) = int (length (pl_Weights p)) - 1"
    using assms by (subst wrap32_id wrap32_id, simp add: is_i32_def MaxInt32_def)+ simp
  moreover have "0 < length (pl_Weights p)"
    using assms(1) by simp
  ultimately show ?thesis
    by (auto simp: weightAt_def Let_def nat_less_iff intro!: nth_mem)
qed

text \<open>
  C12. Over every history of passes from the empty position - each with a plan of its own, its position read back
  from the status in between - a canary in flight stands on a rung that the ladder of one of these plans has,
  and its failed rounds are below the threshold of one of them: with an unchanged plan, on a rung of its
  ladder and below its threshold. Whatever the plan is now, the weight the canary asks for is an entry of the
  present ladder.
\<close>

theorem reachable_canary_bounded:
  assumes "canary_reach ps st" "isActive (st_Phase st)"
  shows "0 \<le> st_Step st \<and> (st_Step st = 0 \<or> (\<exists>p \<in> set ps. st_Step st < int (length (pl_Weights p)))) \<and>
         0 \<le> failed (st_counters st) \<and> (\<exists>p \<in> set ps. failed (st_counters st) < pl_FailureThreshold p) \<and>
         (plan_ok p \<and> pl_Weights p \<noteq> [] \<longrightarrow> currentWeight p st \<in> set (pl_Weights p))"
  using reach_within [OF assms(1)] mode_of_active [OF assms(2)] weightAt_in_ladder [of p "st_Step st"]
  by (simp add: within_plans_def abs_state_def currentWeight_def plan_ok_def)

text \<open>A canary is started with one plan and read back, and the ladder is shortened before the next pass.\<close>

definition short_plan :: Plan where
  "short_plan = sample_plan\<lparr>pl_Weights := [50], pl_FailureThreshold := 1\<rparr>"

definition edited_position :: State where
  "edited_position = out_State (Next (sample_input\<lparr>in_Plan := short_plan,
     in_State := persisted (out_State (Next (sample_input\<lparr>in_State := zero_State\<rparr>)))\<rparr>))"

theorem reachable_canary_bounded_witness:
  "failed (st_counters edited_position) < 3 \<and> st_Step edited_position < 2 \<and> currentWeight short_plan edited_position = 50"
proof -
  have ok: "plan_ok sample_plan" "plan_ok short_plan"
    by (simp_all add: short_plan_def sample_defs plan_ok_def is_i32_def MaxInt32_def)
  have "canary_reach [sample_plan] (persisted (out_State (Next (sample_input\<lparr>in_State := zero_State\<rparr>))))"
    using canary_reach.pass [of "[]" "sample_input\<lparr>in_State := zero_State\<rparr>"] canary_reach.empty ok(1)
    by (intro canary_reach.read_back) (simp add: sample_input_def)
  then have reach: "canary_reach [short_plan, sample_plan] edited_position"
    using canary_reach.pass [of "[sample_plan]" "sample_input\<lparr>in_Plan := short_plan,
       in_State := persisted (out_State (Next (sample_input\<lparr>in_State := zero_State\<rparr>)))\<rparr>"] ok(2)
    by (simp add: edited_position_def)
  have act: "isActive (st_Phase edited_position)"
    by code_simp
  from reachable_canary_bounded [OF reach act, of short_plan] ok(2) show ?thesis
    by (auto simp: short_plan_def sample_plan_def)
qed

end
