(* ===== verification/Go_Float.thy ===== *)
theory Go_Float
  imports Go_Base "HOL-Library.Log_Nat"
begin

text \<open>
  Go's \<open>float64\<close>: IEEE 754 binary64 with rounding to nearest, ties to even. A finite float is its exact
  rational value; an operation computes the exact rational result and rounds it (\<open>round64\<close>), so that
  the arithmetic of the code is evaluated bit for bit. The two zeros are one value: nothing in the modelled
  code divides by a zero or looks at a zero's sign. Comparisons with NaN are false, as in Go.
\<close>

datatype f64 = NaN | PInf | NInf | Fin rat

definition pow2 :: "int \<Rightarrow> rat" where
  "pow2 e = (if 0 \<le> e then 2 ^ nat e else 1 / 2 ^ nat (- e))"

text \<open>\<open>log2_floor x\<close> is the exponent of the leading bit of a positive rational.\<close>

definition log2_floor :: "rat \<Rightarrow> int" where
  "log2_floor x = (let (n, d) = quotient_of x; e = bitlen n - bitlen d
                   in if x < pow2 e then e - 1 else e)"

definition round_even :: "rat \<Rightarrow> int" where
  "round_even x = (let f = \<lfloor>x\<rfloor>; r = x - of_int f
                   in if r < 1 / 2 then f else if r > 1 / 2 then f + 1 else if even f then f else f + 1)"

definition round64 :: "rat \<Rightarrow> f64" where
  "round64 x =
     (if x = 0 then Fin 0
      else let a = \<bar>x\<bar>; e = max (log2_floor a) (- 1022); ulp = pow2 (e - 52);
               v = of_int (round_even (a / ulp)) * ulp
           in if v \<ge> pow2 1024 then (if x > 0 then PInf else NInf)
              else Fin (if x > 0 then v else - v))"

fun IsNaN :: "f64 \<Rightarrow> bool" where
  "IsNaN NaN = True" | "IsNaN _ = False"

fun IsInf :: "f64 \<Rightarrow> bool" where
  "IsInf PInf = True" | "IsInf NInf = True" | "IsInf _ = False"

fun flt :: "f64 \<Rightarrow> f64 \<Rightarrow> bool" where
  "flt NaN _ = False"
| "flt _ NaN = False"
| "flt (Fin a) (Fin b) = (a < b)"
| "flt NInf NInf = False"
| "flt NInf _ = True"
| "flt PInf _ = False"
| "flt (Fin _) PInf = True"
| "flt (Fin _) NInf = False"

fun feq :: "f64 \<Rightarrow> f64 \<Rightarrow> bool" where
  "feq NaN _ = False"
| "feq _ NaN = False"
| "feq a b = (a = b)"

definition fle :: "f64 \<Rightarrow> f64 \<Rightarrow> bool" where
  "fle a b \<longleftrightarrow> flt a b \<or> feq a b"

fun fneg :: "f64 \<Rightarrow> f64" where
  "fneg NaN = NaN" | "fneg PInf = NInf" | "fneg NInf = PInf" | "fneg (Fin a) = Fin (- a)"

fun fadd :: "f64 \<Rightarrow> f64 \<Rightarrow> f64" where
  "fadd NaN _ = NaN"
| "fadd _ NaN = NaN"
| "fadd (Fin a) (Fin b) = round64 (a + b)"
| "fadd PInf NInf = NaN"
| "fadd NInf PInf = NaN"
| "fadd PInf _ = PInf"
| "fadd _ PInf = PInf"
| "fadd NInf _ = NInf"
| "fadd _ NInf = NInf"

definition fsub :: "f64 \<Rightarrow> f64 \<Rightarrow> f64" where
  "fsub a b = fadd a (fneg b)"

definition signed_inf :: "bool \<Rightarrow> f64" where
  "signed_inf neg = (if neg then NInf else PInf)"

fun fneg_sign :: "f64 \<Rightarrow> bool" where
  "fneg_sign NInf = True" | "fneg_sign (Fin a) = (a < 0)" | "fneg_sign _ = False"

fun fmul :: "f64 \<Rightarrow> f64 \<Rightarrow> f64" where
  "fmul NaN _ = NaN"
| "fmul _ NaN = NaN"
| "fmul (Fin a) (Fin b) = round64 (a * b)"
| "fmul (Fin a) b = (if a = 0 then NaN else signed_inf ((a < 0) \<noteq> fneg_sign b))"
| "fmul a (Fin b) = (if b = 0 then NaN else signed_inf (fneg_sign a \<noteq> (b < 0)))"
| "fmul a b = signed_inf (fneg_sign a \<noteq> fneg_sign b)"

fun fdiv :: "f64 \<Rightarrow> f64 \<Rightarrow> f64" where
  "fdiv NaN _ = NaN"
| "fdiv _ NaN = NaN"
| "fdiv (Fin a) (Fin b) = (if b = 0 then (if a = 0 then NaN else signed_inf (a < 0)) else round64 (a / b))"
| "fdiv (Fin a) _ = Fin 0"
| "fdiv a (Fin b) = signed_inf (fneg_sign a \<noteq> (b < 0))"
| "fdiv _ _ = NaN"

fun fabs :: "f64 \<Rightarrow> f64" where
  "fabs NaN = NaN" | "fabs (Fin a) = Fin \<bar>a\<bar>" | "fabs _ = PInf"

text \<open>Conversions: an \<open>int32\<close> is exact, an \<open>int64\<close> is rounded.\<close>

definition f64_of_i32 :: "i32 \<Rightarrow> f64" where
  "f64_of_i32 n = Fin (of_int n)"

definition f64_of_i64 :: "i64 \<Rightarrow> f64" where
  "f64_of_i64 n = round64 (of_int n)"

text \<open>\<open>Duration.Seconds\<close>\<close>

definition Duration_Seconds :: "go_duration \<Rightarrow> f64" where
  "Duration_Seconds d =
     (let sec = d sdiv go_Second; nsec = d - sec * go_Second
      in fadd (f64_of_i64 sec) (fdiv (f64_of_i64 nsec) (Fin 1000000000)))"

text \<open>\<open>math.Round\<close>: to the nearest integer, halves away from zero.\<close>

fun go_Round :: "f64 \<Rightarrow> f64" where
  "go_Round (Fin q) = round64 (of_int (if q < 0 then - \<lfloor>- q + 1 / 2\<rfloor> else \<lfloor>q + 1 / 2\<rfloor>))"
| "go_Round v = v"

section \<open>Rounding\<close>

lemma pow2_pos [simp]: "0 < pow2 e"
  by (simp add: pow2_def)

lemma pow2_power_int: "pow2 e = power_int 2 e"
  by (simp add: pow2_def power_int_def inverse_eq_divide power_one_over)

lemma pow2_add: "pow2 (a + b) = pow2 a * pow2 b"
  by (simp add: pow2_power_int power_int_add)

lemma pow2_mono: "a \<le> b \<Longrightarrow> pow2 a \<le> pow2 b"
  by (simp add: pow2_power_int power_int_increasing)

lemma pow2_52: "pow2 52 = of_int (2 ^ 52)" "pow2 53 = of_int (2 ^ 53)"
  by (simp_all add: pow2_def)

lemma round_even_of_int [simp]: "round_even (of_int n) = n"
  by (simp add: round_even_def Let_def)

lemma round_even_mono: "x \<le> y \<Longrightarrow> round_even x \<le> round_even y"
proof (cases "\<lfloor>x\<rfloor> = \<lfloor>y\<rfloor>")
  case True
  assume "x \<le> y"
  with True show ?thesis
    by (auto simp: round_even_def Let_def)
next
  case False
  assume "x \<le> y"
  with False have "\<lfloor>x\<rfloor> + 1 \<le> \<lfloor>y\<rfloor>"
    using floor_mono [of x y] by linarith
  moreover have "round_even x \<le> \<lfloor>x\<rfloor> + 1" "\<lfloor>y\<rfloor> \<le> round_even y"
    by (auto simp: round_even_def Let_def)
  ultimately show ?thesis
    by linarith
qed

lemma bitlen_pow2: "0 < n \<Longrightarrow> pow2 (bitlen n - 1) \<le> of_int n \<and> of_int n < pow2 (bitlen n)"
proof -
  assume n: "0 < n"
  have b: "2 ^ nat (bitlen n - 1) \<le> n" "n < 2 ^ nat (bitlen n)" "0 < bitlen n"
    using bitlen_bounds [OF n] n by (auto simp: bitlen_alt_def)
  have "of_int (2 ^ nat (bitlen n - 1)) \<le> (of_int n :: rat)" "(of_int n :: rat) < of_int (2 ^ nat (bitlen n))"
    using b(1,2) by (simp_all only: of_int_le_iff of_int_less_iff)
  then show ?thesis
    using b(3) by (simp add: pow2_def)
qed

lemma log2_floor_bounds:
  assumes "0 < x"
  shows "pow2 (log2_floor x) \<le> x" "x < pow2 (log2_floor x + 1)"
proof -
  obtain n d where nd: "quotient_of x = (n, d)"
    by (cases "quotient_of x")
  have d: "0 < d" and x: "x = of_int n / of_int d"
    using quotient_of_denom_pos [OF nd] quotient_of_div [OF nd] by simp_all
  have n: "0 < n"
    using assms d unfolding x by (simp add: zero_less_divide_iff)
  define e where "e = bitlen n - bitlen d"
  have nb: "pow2 (bitlen n - 1) \<le> of_int n" "of_int n < pow2 (bitlen n)"
    and db: "pow2 (bitlen d - 1) \<le> of_int d" "of_int d < pow2 (bitlen d)"
    using bitlen_pow2 n d by auto
  have dpos: "(0::rat) < of_int d"
    using d by simp
  have "pow2 (e - 1) * of_int d \<le> pow2 (e - 1) * pow2 (bitlen d)"
    using db(2) by (intro mult_left_mono) (simp_all add: less_imp_le)
  also have "\<dots> = pow2 (bitlen n - 1)"
    by (simp add: e_def flip: pow2_add)
  finally have lo: "pow2 (e - 1) \<le> x"
    using nb(1) dpos by (simp add: x pos_le_divide_eq)
  have "of_int n < pow2 (e + 1) * pow2 (bitlen d - 1)"
    using nb(2) by (simp add: e_def flip: pow2_add)
  also have "\<dots> \<le> pow2 (e + 1) * of_int d"
    using db(1) by (intro mult_left_mono) (simp_all add: less_imp_le)
  finally have hi: "x < pow2 (e + 1)"
    using dpos by (simp add: x pos_divide_less_eq)
  have l: "log2_floor x = (if x < pow2 e then e - 1 else e)"
    by (simp add: log2_floor_def nd e_def)
  show "pow2 (log2_floor x) \<le> x" "x < pow2 (log2_floor x + 1)"
    using lo hi by (auto simp: l)
qed

lemma log2_floor_mono: "0 < x \<Longrightarrow> x \<le> y \<Longrightarrow> log2_floor x \<le> log2_floor y"
proof (rule ccontr)
  assume x: "0 < x" "x \<le> y" and "\<not> log2_floor x \<le> log2_floor y"
  then have "pow2 (log2_floor y + 1) \<le> pow2 (log2_floor x)"
    by (intro pow2_mono) linarith
  then show False
    using log2_floor_bounds [of x] log2_floor_bounds [of y] x by linarith
qed

section \<open>Rounding is monotone\<close>

text \<open>\<open>round_mag\<close> is the rounded magnitude, before the overflow test.\<close>

definition float_exp :: "rat \<Rightarrow> int" where
  "float_exp a = max (log2_floor a) (- 1022)"

definition round_mag :: "rat \<Rightarrow> rat" where
  "round_mag a = of_int (round_even (a / pow2 (float_exp a - 52))) * pow2 (float_exp a - 52)"

lemma round64_eq:
  "round64 x = (if x = 0 then Fin 0
     else if round_mag \<bar>x\<bar> \<ge> pow2 1024 then (if x > 0 then PInf else NInf)
     else Fin (if x > 0 then round_mag \<bar>x\<bar> else - round_mag \<bar>x\<bar>))"
  by (simp add: round64_def round_mag_def float_exp_def Let_def)

lemma round_even_nonneg: "0 \<le> x \<Longrightarrow> 0 \<le> round_even x"
  using round_even_mono [of 0 x] round_even_of_int [of 0] by simp

lemma round_mag_nonneg: "0 \<le> a \<Longrightarrow> 0 \<le> round_mag a"
  unfolding round_mag_def
  by (intro mult_nonneg_nonneg) (simp_all add: round_even_nonneg less_imp_le)

lemma round_mag_le_pow2:
  assumes "0 < a"
  shows "round_mag a \<le> pow2 (float_exp a + 1)"
proof -
  let ?u = "pow2 (float_exp a - 52)"
  have "a < pow2 (log2_floor a + 1)"
    using log2_floor_bounds(2) [OF assms] .
  also have "\<dots> \<le> pow2 (float_exp a + 1)"
    by (intro pow2_mono) (simp add: float_exp_def)
  also have split: "pow2 (float_exp a + 1) = pow2 53 * ?u"
    by (simp add: add.commute flip: pow2_add)
  finally have "a / ?u \<le> of_int (2 ^ 53)"
    by (simp add: pow2_52 pos_divide_le_eq less_imp_le)
  then have "round_even (a / ?u) \<le> 2 ^ 53"
    using round_even_mono [of "a / ?u" "of_int (2 ^ 53)"] by (simp only: round_even_of_int)
  then have "(of_int (round_even (a / ?u)) :: rat) \<le> of_int (2 ^ 53)"
    by (simp only: of_int_le_iff)
  then show ?thesis
    unfolding split round_mag_def pow2_52 by (intro mult_right_mono) (simp_all add: less_imp_le)
qed

lemma round_mag_ge_pow2:
  assumes "0 < a" "- 1022 \<le> log2_floor a"
  shows "pow2 (float_exp a) \<le> round_mag a"
proof -
  let ?u = "pow2 (float_exp a - 52)"
  have e: "float_exp a = log2_floor a"
    using assms(2) by (simp add: float_exp_def)
  have split: "pow2 (float_exp a) = pow2 52 * ?u"
    by (simp flip: pow2_add)
  have "of_int (2 ^ 52) \<le> a / ?u"
    using log2_floor_bounds(1) [OF assms(1)] split
    by (simp add: e pow2_52 pos_le_divide_eq)
  then have "2 ^ 52 \<le> round_even (a / ?u)"
    using round_even_mono [of "of_int (2 ^ 52)" "a / ?u"] by (simp only: round_even_of_int)
  then have "(of_int (2 ^ 52) :: rat) \<le> of_int (round_even (a / ?u))"
    by (simp only: of_int_le_iff)
  then show ?thesis
    unfolding split round_mag_def pow2_52 by (intro mult_right_mono) (simp_all add: less_imp_le)
qed

lemma round_mag_mono:
  assumes "0 < a" "a \<le> b"
  shows "round_mag a \<le> round_mag b"
proof (cases "float_exp a = float_exp b")
  case True
  have "a / pow2 (float_exp b - 52) \<le> b / pow2 (float_exp b - 52)"
    using assms(2) by (intro divide_right_mono) (simp_all add: less_imp_le)
  then show ?thesis
    unfolding round_mag_def True
    by (intro mult_right_mono) (simp_all add: round_even_mono less_imp_le)
next
  case False
  then have e: "float_exp a + 1 \<le> float_exp b" "- 1022 \<le> log2_floor b"
    using log2_floor_mono [OF assms] by (auto simp: float_exp_def max_def split: if_splits)
  have "round_mag a \<le> pow2 (float_exp a + 1)"
    by (rule round_mag_le_pow2 [OF assms(1)])
  also have "\<dots> \<le> pow2 (float_exp b)"
    by (rule pow2_mono [OF e(1)])
  also have "\<dots> \<le> round_mag b"
    using assms e(2) by (intro round_mag_ge_pow2) simp_all
  finally show ?thesis .
qed

lemma fle_simps [simp]:
  "fle (Fin a) (Fin b) = (a \<le> b)" "fle NInf (Fin a)" "fle (Fin a) PInf" "fle NInf PInf"
  "fle PInf PInf" "fle NInf NInf" "\<not> fle NaN v" "\<not> fle v NaN"
  "\<not> fle PInf (Fin a)" "\<not> fle (Fin a) NInf" "\<not> fle PInf NInf"
  by (auto simp: fle_def) (cases v; simp)+

lemma round64_not_NaN [simp]: "round64 x \<noteq> NaN"
  by (simp add: round64_eq)

lemma round64_mono:
  assumes "x \<le> y"
  shows "fle (round64 x) (round64 y)"
proof -
  consider "0 < x" | "x \<le> 0" "0 \<le> y" | "y < 0"
    by linarith
  then show ?thesis
  proof cases
    case 1
    then show ?thesis
      using assms round_mag_mono [of x y] by (auto simp: round64_eq)
  next
    case 2
    then show ?thesis
      using round_mag_nonneg [of "\<bar>x\<bar>"] round_mag_nonneg [of "\<bar>y\<bar>"]
      by (auto simp: round64_eq)
  next
    case 3
    then show ?thesis
      using assms round_mag_mono [of "- y" "- x"] by (auto simp: round64_eq)
  qed
qed

section \<open>Concrete rounding\<close>

lemma log2_floor_unique:
  assumes "pow2 e \<le> a" "a < pow2 (e + 1)"
  shows "log2_floor a = e"
proof -
  have a: "0 < a"
    using assms(1) pow2_pos [of e] by linarith
  have less: "pow2 x < pow2 y \<Longrightarrow> x < y" for x y
    using pow2_mono [of y x] by linarith
  have "e < log2_floor a + 1"
    using log2_floor_bounds(2) [OF a] assms(1) by (intro less) linarith
  moreover have "log2_floor a < e + 1"
    using log2_floor_bounds(1) [OF a] assms(2) by (intro less) linarith
  ultimately show ?thesis
    by linarith
qed

lemma round_even_unique:
  assumes "\<bar>x - of_int n\<bar> < 1 / 2"
  shows "round_even x = n"
proof (cases "of_int n \<le> x")
  case True
  then have "\<lfloor>x\<rfloor> = n"
    using assms by (intro floor_unique) (simp_all add: abs_less_iff)
  then show ?thesis
    using assms True by (simp add: round_even_def Let_def abs_less_iff)
next
  case False
  then have "\<lfloor>x\<rfloor> = n - 1"
    using assms by (intro floor_unique) (simp_all add: abs_less_iff)
  then show ?thesis
    using assms False by (simp add: round_even_def Let_def abs_less_iff)
qed

text \<open>A positive rational in the binade of exponent \<open>e\<close>, nearer to \<open>n\<close> units in the last place than
  to any other multiple, rounds to \<open>n\<close> units.\<close>

lemma round64_nearest:
  assumes "- 1022 \<le> e" "e \<le> 1022" "pow2 e \<le> a" "a < pow2 (e + 1)"
    and "\<bar>a / pow2 (e - 52) - of_int n\<bar> < 1 / 2"
  shows "round64 a = Fin (of_int n * pow2 (e - 52))"
proof -
  have a: "0 < a"
    using assms(3) pow2_pos [of e] by linarith
  have e: "float_exp a = e"
    using log2_floor_unique [OF assms(3,4)] assms(1) by (simp add: float_exp_def)
  have mag: "round_mag a = of_int n * pow2 (e - 52)"
    by (simp add: round_mag_def e round_even_unique [OF assms(5)])
  have "round_mag a \<le> pow2 (e + 1)"
    using round_mag_le_pow2 [OF a] by (simp add: e)
  also have "\<dots> < pow2 1024"
    using pow2_mono [of "e + 1" 1023] assms(2) pow2_add [of 1023 1] pow2_pos [of 1023]
    by (simp add: pow2_def)
  finally show ?thesis
    using a mag by (simp add: round64_eq)
qed

text \<open>Integers of up to 53 bits are exact.\<close>

lemma round64_exact:
  assumes "- 9007199254740992 < n" "n < 9007199254740992"
  shows "round64 (of_int n) = Fin (of_int n)"
proof -
  have pos: "round_mag (of_int m) = of_int m" if m: "0 < m" "m < 9007199254740992" for m :: int
  proof -
    let ?e = "log2_floor (of_int m)"
    have b: "pow2 ?e \<le> of_int m" "of_int m < pow2 (?e + 1)"
      using log2_floor_bounds [of "of_int m"] m by simp_all
    have "0 \<le> ?e"
      using b(2) m pow2_mono [of "?e + 1" 0] by (cases "0 \<le> ?e") (simp_all add: pow2_def)
    moreover have "?e \<le> 52"
      using b(1) m pow2_mono [of 53 ?e] by (cases "?e \<le> 52") (simp_all add: pow2_52)
    moreover define k where "k = nat (52 - ?e)"
    ultimately have e: "float_exp (of_int m) = ?e" "pow2 (?e - 52) = 1 / 2 ^ k"
      by (simp_all add: float_exp_def pow2_def)
    have "(of_int m :: rat) / (1 / 2 ^ k) = of_int (m * 2 ^ k)"
      by simp
    then have "round_even (of_int m / (1 / 2 ^ k)) = m * 2 ^ k"
      by (simp only: round_even_of_int)
    then show ?thesis
      by (simp add: round_mag_def e)
  qed
  have lim: "(of_int m :: rat) < pow2 1024" if "m < 9007199254740992" for m :: int
  proof -
    have "of_int m < pow2 53"
      using that by (simp add: pow2_52)
    also have "\<dots> \<le> pow2 1024"
      by (intro pow2_mono) simp
    finally show ?thesis .
  qed
  show ?thesis
  proof (cases "0 \<le> n")
    case True
    then show ?thesis
      using pos [of n] lim [of n] assms by (cases "n = 0") (simp_all add: round64_eq)
  next
    case False
    then show ?thesis
      using pos [of "- n"] lim [of "- n"] assms by (simp add: round64_eq)
  qed
qed

lemma round64_small [simp]:
  "round64 0 = Fin 0" "round64 1 = Fin 1" "round64 (- 1) = Fin (- 1)"
  "numeral k < (9007199254740992 :: int) \<Longrightarrow> round64 (numeral k) = Fin (numeral k)"
  using round64_exact [of 0] round64_exact [of 1] round64_exact [of "- 1"] round64_exact [of "numeral k"]
  by simp_all

lemma fle_ends [simp]: "fle NInf v = (v \<noteq> NaN)" "fle v PInf = (v \<noteq> NaN)"
  by (cases v; simp)+

section \<open>Durations in seconds are finite\<close>

lemma round64_finite:
  assumes "\<bar>q\<bar> \<le> pow2 e" "0 \<le> e" "e \<le> 1000"
  shows "\<exists>r. round64 q = Fin r \<and> \<bar>r\<bar> \<le> pow2 (e + 1)"
proof (cases "q = 0")
  case True
  then show ?thesis
    by (simp add: less_imp_le)
next
  case False
  let ?a = "\<bar>q\<bar>"
  have pos: "0 < ?a"
    using False by simp
  have "pow2 (log2_floor ?a) \<le> pow2 e"
    using log2_floor_bounds [OF pos] assms(1) by linarith
  then have "log2_floor ?a \<le> e"
    using pow2_mono [of "e + 1" "log2_floor ?a"] pow2_add [of e 1] pow2_pos [of e]
    by (cases "log2_floor ?a \<le> e") (simp_all add: pow2_def [of 1])
  then have "float_exp ?a \<le> e"
    using assms(2) by (simp add: float_exp_def)
  then have m: "round_mag ?a \<le> pow2 (e + 1)"
    using round_mag_le_pow2 [OF pos] pow2_mono [of "float_exp ?a + 1" "e + 1"] by simp
  have "pow2 (e + 1) < pow2 1024"
  proof -
    have "pow2 1024 = pow2 1001 * 8388608" "pow2 (e + 1) \<le> pow2 1001"
      using pow2_add [of 1001 23] pow2_mono [of "e + 1" 1001] assms(3) by (simp_all add: pow2_def [of 23])
    then show ?thesis
      using pow2_pos [of 1001] by linarith
  qed
  then show ?thesis
    using False m round_mag_nonneg [of ?a] by (cases "0 < q") (simp_all add: round64_eq)
qed

lemma Duration_Seconds_finite:
  assumes "is_i64 d"
  shows "\<exists>q. Duration_Seconds d = Fin q"
proof -
  let ?s = "d sdiv go_Second"
  let ?n = "d - ?s * go_Second"
  have abs: "?s = (if d \<ge> 0 then d div go_Second else - ((- d) div go_Second))"
    by (simp add: signed_divide_int_def go_Second_def sgn_if)
  have s: "\<bar>?s\<bar> \<le> \<bar>d\<bar>"
    using zdiv_mult_le [of 1000000000 "\<bar>d\<bar>"] pos_imp_zdiv_nonneg_iff [of 1000000000 "\<bar>d\<bar>"]
    unfolding abs by (cases "0 \<le> d") (simp_all add: go_Second_def)
  have n: "\<bar>?n\<bar> \<le> \<bar>d\<bar>"
    using zdiv_mult_le [of 1000000000 "\<bar>d\<bar>"] pos_imp_zdiv_nonneg_iff [of 1000000000 "\<bar>d\<bar>"]
    unfolding abs by (cases "0 \<le> d") (simp_all add: go_Second_def)
  have d: "\<bar>rat_of_int x\<bar> \<le> pow2 63" if "\<bar>x\<bar> \<le> \<bar>d\<bar>" for x
  proof -
    have "\<bar>x\<bar> \<le> 2 ^ 63"
      using that assms unfolding is_i64_def by auto
    then have "rat_of_int \<bar>x\<bar> \<le> rat_of_int (2 ^ 63)"
      by (simp only: of_int_le_iff)
    then show ?thesis
      by (simp add: pow2_def)
  qed
  obtain a where a: "f64_of_i64 ?s = Fin a" "\<bar>a\<bar> \<le> pow2 64"
    using round64_finite [OF d [OF s]] by (auto simp: f64_of_i64_def)
  obtain b where b: "f64_of_i64 ?n = Fin b" "\<bar>b\<bar> \<le> pow2 64"
    using round64_finite [OF d [OF n]] by (auto simp: f64_of_i64_def)
  have "\<bar>b / 1000000000\<bar> \<le> pow2 64"
    using b(2) by (simp add: abs_le_iff)
  then obtain c where c: "fdiv (Fin b) (Fin 1000000000) = Fin c" "\<bar>c\<bar> \<le> pow2 65"
    using round64_finite [of "b / 1000000000" 64] by auto
  have "\<bar>a + c\<bar> \<le> pow2 66"
    using a(2) c(2) pow2_add [of 65 1] pow2_mono [of 64 65] by (simp add: pow2_def [of 1])
  then show ?thesis
    using round64_finite [of "a + c" 66] c(1) by (auto simp: Duration_Seconds_def a b Let_def)
qed

end
