(* ===== verification/Go_Text.thy ===== *)
theory Go_Text
  imports Go_Float Go_Unicode
begin

text \<open>
  The parts of Go's \<open>strconv\<close>, \<open>fmt\<close>, \<open>strings\<close> and \<open>time\<close> that the control plane renders text with:
  \<open>%d\<close>, \<open>%q\<close>, \<open>FormatFloat\<close> in the formats \<open>g\<close> and \<open>f\<close>, \<open>strings.NewReplacer\<close>, \<open>strings.TrimSpace\<close>
  and \<open>Duration.Round\<close>. Strings are byte strings; quoting reads them as UTF-8, copies the printable
  characters and escapes the others and every byte that is not UTF-8. The two float zeros are one
  value, so that minus zero prints as zero.
\<close>

section \<open>Integers and durations\<close>

definition fmt_d :: "int \<Rightarrow> string" where
  "fmt_d n = (if n < 0 then CHR ''-'' # fmtInt (- n) [] else fmtInt n [])"

definition Duration_Round :: "go_duration \<Rightarrow> go_duration \<Rightarrow> go_duration" where
  "Duration_Round d m =
     (if m \<le> 0 then d
      else if d < 0 then
        (let r = (- d) mod m
         in if r + r < m then d + r
            else let d1 = wrap64 (d - m + r) in if d1 < d then d1 else - 9223372036854775808)
      else
        (let r = d mod m
         in if r + r < m then d - r
            else let d1 = wrap64 (d + m - r) in if d1 > d then d1 else 9223372036854775807))"

section \<open>Floats\<close>

definition digit_count :: "int \<Rightarrow> nat" where
  "digit_count n = length (itoa_loop n [])"

text \<open>The decimal point position of a positive number: \<open>10 ^ (dp - 1) \<le> a < 10 ^ dp\<close>.\<close>

definition decimal_point :: "rat \<Rightarrow> int" where
  "decimal_point a =
     (if 1 \<le> a then int (digit_count \<lfloor>a\<rfloor>) else 1 - int (digit_count (\<lceil>1 / a\<rceil> - 1)))"

definition rat_pow10 :: "int \<Rightarrow> rat" where
  "rat_pow10 k = (if 0 \<le> k then 10 ^ nat k else 1 / 10 ^ nat (- k))"

fun drop_zero_digits :: "string \<Rightarrow> string" where
  "drop_zero_digits [] = []"
| "drop_zero_digits (c # cs) = (if c = CHR ''0'' then drop_zero_digits cs else c # cs)"

text \<open>The digits of \<open>a\<close> to \<open>prec\<close> significant places, trailing zeros removed, and the decimal point.\<close>

definition significant :: "nat \<Rightarrow> rat \<Rightarrow> string \<times> int" where
  "significant prec a =
     (let dp = decimal_point a;
          n = round_even (a * rat_pow10 (int prec - dp));
          (ds, dp) = (if n \<ge> 10 ^ prec then (''1'', dp + 1) else (itoa_loop n [], dp))
      in (rev (drop_zero_digits (rev ds)), dp))"

definition exponent_text :: "int \<Rightarrow> string" where
  "exponent_text e = (if e < 0 then ''-'' else ''+'') @
     (if \<bar>e\<bar> < 10 then ''0'' else '''') @ fmtInt \<bar>e\<bar> []"

definition fixed_text :: "string \<Rightarrow> int \<Rightarrow> string" where
  "fixed_text ds dp =
     (let nd = int (length ds);
          whole = (if dp > 0 then take (nat dp) ds @ replicate (nat (dp - nd)) (CHR ''0'') else ''0'');
          frac = (if dp > 0 then drop (nat dp) ds else replicate (nat (- dp)) (CHR ''0'') @ ds)
      in if frac = '''' then whole else whole @ ''.'' @ frac)"

definition FormatFloat_g :: "nat \<Rightarrow> f64 \<Rightarrow> string" where
  "FormatFloat_g prec v =
     (case v of NaN \<Rightarrow> ''NaN'' | PInf \<Rightarrow> ''+Inf'' | NInf \<Rightarrow> ''-Inf''
      | Fin q \<Rightarrow>
          if q = 0 then ''0''
          else let (ds, dp) = significant prec \<bar>q\<bar>;
                   nd = int (length ds);
                   eprec = (if int prec > nd \<and> nd \<ge> dp then nd else int prec);
                   e = dp - 1;
                   body = (if e < - 4 \<or> e \<ge> eprec
                           then take 1 ds @ (if nd > 1 then ''.'' @ drop 1 ds else '''') @ ''e'' @ exponent_text e
                           else fixed_text ds dp)
               in if q < 0 then ''-'' @ body else body)"

definition FormatFloat_f :: "nat \<Rightarrow> f64 \<Rightarrow> string" where
  "FormatFloat_f prec v =
     (case v of NaN \<Rightarrow> ''NaN'' | PInf \<Rightarrow> ''+Inf'' | NInf \<Rightarrow> ''-Inf''
      | Fin q \<Rightarrow>
          let n = round_even (\<bar>q\<bar> * 10 ^ prec);
              frac = itoa_loop (n mod 10 ^ prec) [];
              body = fmtInt (n div 10 ^ prec) [] @
                (if prec = 0 then '''' else ''.'' @ replicate (prec - length frac) (CHR ''0'') @ frac)
          in if q < 0 then ''-'' @ body else body)"

section \<open>Strings\<close>

definition is_space :: "char \<Rightarrow> bool" where
  "is_space c \<longleftrightarrow> (of_char c :: nat) \<in> {9, 10, 11, 12, 13, 32}"

text \<open>\<open>strings.TrimSpace(s) == ""\<close>\<close>

definition is_blank :: "string \<Rightarrow> bool" where
  "is_blank s = list_all is_space s"

definition hex_digit :: "nat \<Rightarrow> char" where
  "hex_digit n = (if n < 10 then char_of (48 + n) else char_of (87 + n))"

definition backslash :: char where
  "backslash = char_of (92 :: nat)"

fun hex_digits :: "nat \<Rightarrow> nat \<Rightarrow> string" where
  "hex_digits 0 n = []"
| "hex_digits (Suc k) n = hex_digits k (n div 16) @ [hex_digit (n mod 16)]"

text \<open>\<open>appendEscapedRune\<close>: the text of one rune inside double quotes.\<close>

definition quote_rune :: "nat \<Rightarrow> string" where
  "quote_rune r =
     (if r = 34 \<or> r = 92 then [backslash, char_of r]
      else if is_print r then encode_rune r
      else if r = 7 then backslash # ''a'' else if r = 8 then backslash # ''b''
      else if r = 12 then backslash # ''f'' else if r = 10 then backslash # ''n''
      else if r = 13 then backslash # ''r'' else if r = 9 then backslash # ''t''
      else if r = 11 then backslash # ''v''
      else if r < 32 \<or> r = 127 then backslash # ''x'' @ hex_digits 2 r
      else if r < 65536 then backslash # ''u'' @ hex_digits 4 r
      else backslash # ''U'' @ hex_digits 8 r)"

text \<open>The loop of \<open>strconv.Quote\<close>; a byte that starts no well-formed rune is escaped on its own.\<close>

function quote_from :: "string \<Rightarrow> string" where
  "quote_from [] = []"
| "quote_from (c # cs) =
     (let k = rune_size (c # cs)
      in if k = 0 then backslash # ''x'' @ hex_digits 2 (byte c) @ quote_from cs
         else quote_rune (decode_rune (take k (c # cs))) @ quote_from (drop k (c # cs)))"
  by pat_completeness auto
termination
  by (relation "measure length") auto

definition go_Quote :: "string \<Rightarrow> string" where
  "go_Quote s = [char_of (34 :: nat)] @ quote_from s @ [char_of (34 :: nat)]"

fun first_match :: "(string \<times> string) list \<Rightarrow> string \<Rightarrow> (string \<times> string) option" where
  "first_match [] s = None"
| "first_match ((old, new) # rs) s =
     (if length old \<le> length s \<and> take (length old) s = old then Some (old, new) else first_match rs s)"

text \<open>\<open>strings.NewReplacer(pairs...).Replace\<close> for non-empty old strings: left to right, at each place the
  first pair that matches.\<close>

fun replace_from :: "(string \<times> string) list \<Rightarrow> nat \<Rightarrow> string \<Rightarrow> string" where
  "replace_from rs k [] = []"
| "replace_from rs (Suc k) (c # cs) = replace_from rs k cs"
| "replace_from rs 0 (c # cs) =
     (case first_match rs (c # cs) of
        Some (old, new) \<Rightarrow> new @ replace_from rs (length old - 1) cs
      | None \<Rightarrow> c # replace_from rs 0 cs)"

definition replacer :: "(string \<times> string) list \<Rightarrow> string \<Rightarrow> string" where
  "replacer rs s = replace_from rs 0 s"

end
