(* ===== verification/Analysis.thy ===== *)
theory Analysis
  imports Canary_Verdict Go_Text
begin

text \<open>
  Metric analysis (\<open>internal/analysis\<close>): the PromQL of the built-in metrics (\<open>builtin.go\<close>), the verdict
  of one observation (\<open>evaluate.go\<close>), and a whole round with its traffic gate (\<open>analyzer.go\<close>). The metric
  backend is the one method of \<open>Provider\<close>, an argument: from a query to a transport error (with its text)
  or a sample. A quantile is passed to \<open>histogramQuantile\<close> as the text \<open>%g\<close> gives for it.
\<close>

record Sample =
  sa_Value :: f64
  sa_Count :: int

definition zero_Sample :: Sample where
  "zero_Sample = \<lparr>sa_Value = Fin 0, sa_Count = 0\<rparr>"

type_synonym provider = "string \<Rightarrow> string + Sample"

section \<open>Names\<close>

definition LiteralNaN :: string where "LiteralNaN = ''NaN''"
definition LiteralPosInf :: string where "LiteralPosInf = ''+Inf''"
definition LiteralNegInf :: string where "LiteralNegInf = ''-Inf''"
definition RequestsStartedTotal :: string where
  "RequestsStartedTotal = ''llmcp_inference_requests_started_total''"
definition RequestsTotal :: string where "RequestsTotal = ''llmcp_inference_requests_total''"
definition RequestDurationSeconds :: string where
  "RequestDurationSeconds = ''llmcp_inference_request_duration_seconds''"
definition TTFTSeconds :: string where "TTFTSeconds = ''llmcp_inference_ttft_seconds''"
definition OutputChunksTotal :: string where
  "OutputChunksTotal = ''llmcp_inference_output_chunks_total''"
definition ReportedOutputTokensTotal :: string where
  "ReportedOutputTokensTotal = ''llmcp_inference_reported_output_tokens_total''"
definition UsageRequestsTotal :: string where
  "UsageRequestsTotal = ''llmcp_inference_usage_requests_total''"
definition RequestsInFlight :: string where
  "RequestsInFlight = ''llmcp_inference_requests_in_flight''"
definition QueueDepth :: string where "QueueDepth = ''llmcp_inference_queue_depth''"
definition ShimInfo :: string where "ShimInfo = ''llmcp_shim_info''"
definition LabelVariant :: string where "LabelVariant = ''variant''"
definition LabelCode :: string where "LabelCode = ''code''"
definition LabelNamespace :: string where "LabelNamespace = ''namespace''"
definition LabelModelDeployment :: string where "LabelModelDeployment = ''model_deployment''"

section \<open>Queries\<close>

record QueryContext =
  qc_Namespace :: string
  qc_ModelDeployment :: string
  qc_Model :: string
  qc_Variant :: string
  qc_Window :: string

definition clampFloor :: string where "clampFloor = ''1e-9''"

definition formatInt :: "i64 \<Rightarrow> string" where
  "formatInt n = (if n = 0 then ''0'' else itoa_loop n [])"

definition PromDuration :: "go_duration \<Rightarrow> string" where
  "PromDuration d =
     (let secs = Duration_Round d go_Second sdiv go_Second; secs = max secs 1 in formatInt secs @ ''s'')"

definition validateIdentity :: "QueryContext \<Rightarrow> string option" where
  "validateIdentity qc =
     (if is_blank (qc_Namespace qc) \<or> is_blank (qc_ModelDeployment qc)
      then Some ''metric queries require namespace and ModelDeployment identity'' else None)"

definition fleetSelector :: "QueryContext \<Rightarrow> string" where
  "fleetSelector qc =
     LabelNamespace @ ''='' @ go_Quote (qc_Namespace qc) @ '','' @
     LabelModelDeployment @ ''='' @ go_Quote (qc_ModelDeployment qc)"

definition selector :: "QueryContext \<Rightarrow> string" where
  "selector qc = fleetSelector qc @ '','' @ LabelVariant @ ''='' @ go_Quote (qc_Variant qc)"

definition labelContents :: "string \<Rightarrow> string" where
  "labelContents value = (let quoted = go_Quote value in take (length quoted - 2) (drop 1 quoted))"

definition substitute :: "string \<Rightarrow> QueryContext \<Rightarrow> string" where
  "substitute query qc =
     replacer [(''{{.Namespace}}'', labelContents (qc_Namespace qc)),
               (''{{.ModelDeployment}}'', labelContents (qc_ModelDeployment qc)),
               (''{{.Model}}'', labelContents (qc_Model qc)),
               (''{{.Variant}}'', labelContents (qc_Variant qc)),
               (''{{.Window}}'', qc_Window qc),
               (''{{ .Namespace }}'', labelContents (qc_Namespace qc)),
               (''{{ .ModelDeployment }}'', labelContents (qc_ModelDeployment qc)),
               (''{{ .Model }}'', labelContents (qc_Model qc)),
               (''{{ .Variant }}'', labelContents (qc_Variant qc)),
               (''{{ .Window }}'', qc_Window qc)] query"

definition histogramQuantile :: "string \<Rightarrow> string \<Rightarrow> string \<Rightarrow> string \<Rightarrow> string" where
  "histogramQuantile q metric sel window =
     ''histogram_quantile('' @ q @ '', sum by (le) (rate('' @ metric @ ''_bucket{'' @ sel @ ''}['' @ window @ ''])))''"

definition errorRateQuery :: "QueryContext \<Rightarrow> string" where
  "errorRateQuery qc =
     (let base = selector qc;
          errSel = base @ '','' @ LabelCode @ ''=~'' @ [char_of (34 :: nat)] @ ''5..'' @ [char_of (34 :: nat)];
          total = ''sum(rate('' @ RequestsTotal @ ''{'' @ base @ ''}['' @ qc_Window qc @ '']))''
      in ''(sum(rate('' @ RequestsTotal @ ''{'' @ errSel @ ''}['' @ qc_Window qc @ ''])) or 0 * '' @ total @
         '') / clamp_min('' @ total @ '', '' @ clampFloor @ '')'')"

fun builtin_name :: "BuiltinMetric \<Rightarrow> string" where
  "builtin_name MetricTTFTP95 = ''ttft-p95''"
| "builtin_name MetricTTFTP99 = ''ttft-p99''"
| "builtin_name MetricRequestDurationP95 = ''request-duration-p95''"
| "builtin_name MetricErrorRate = ''error-rate''"
| "builtin_name MetricSuccessRate = ''success-rate''"
| "builtin_name MetricQueueDepth = ''queue-depth''"
| "builtin_name MetricOutputTokenRate = ''output-token-rate''"
| "builtin_name MetricOutputChunkRate = ''output-chunk-rate''"
| "builtin_name (MetricOther s) = s"

definition builtinQuery :: "BuiltinMetric \<Rightarrow> QueryContext \<Rightarrow> string + string" where
  "builtinQuery b qc =
     (case validateIdentity qc of
        Some err \<Rightarrow> Inl err
      | None \<Rightarrow>
          let sel = selector qc
          in case b of
            MetricTTFTP95 \<Rightarrow> Inr (histogramQuantile ''0.95'' TTFTSeconds sel (qc_Window qc))
          | MetricTTFTP99 \<Rightarrow> Inr (histogramQuantile ''0.99'' TTFTSeconds sel (qc_Window qc))
          | MetricRequestDurationP95 \<Rightarrow>
              Inr (histogramQuantile ''0.95'' RequestDurationSeconds sel (qc_Window qc))
          | MetricErrorRate \<Rightarrow> Inr (errorRateQuery qc)
          | MetricSuccessRate \<Rightarrow> Inr (''1 - ('' @ errorRateQuery qc @ '')'')
          | MetricQueueDepth \<Rightarrow>
              Inr (''avg(avg_over_time('' @ QueueDepth @ ''{'' @ sel @ ''}['' @ qc_Window qc @ '']))'')
          | MetricOutputTokenRate \<Rightarrow>
              Inr (''sum(rate('' @ ReportedOutputTokensTotal @ ''{'' @ sel @ ''}['' @ qc_Window qc @ '']))'')
          | MetricOutputChunkRate \<Rightarrow>
              Inr (''sum(rate('' @ OutputChunksTotal @ ''{'' @ sel @ ''}['' @ qc_Window qc @ '']))'')
          | MetricOther s \<Rightarrow> Inl (''unknown builtin metric '' @ go_Quote (builtin_name b)))"

definition Query :: "AnalysisMetric \<Rightarrow> QueryContext \<Rightarrow> string + string" where
  "Query m qc =
     (if am_Query m \<noteq> '''' then Inr (substitute (am_Query m) qc)
      else case am_Builtin m of
        None \<Rightarrow> Inl (''metric '' @ go_Quote (am_Name m) @ '' sets neither builtin nor query'')
      | Some b \<Rightarrow> builtinQuery b qc)"

definition UsageSamplesQuery :: "QueryContext \<Rightarrow> string + string" where
  "UsageSamplesQuery qc =
     (case validateIdentity qc of Some err \<Rightarrow> Inl err
      | None \<Rightarrow> Inr (''sum(increase('' @ UsageRequestsTotal @ ''{'' @ selector qc @ ''}['' @ qc_Window qc @ '']))''))"

definition RequestRateQuery :: "QueryContext \<Rightarrow> string + string" where
  "RequestRateQuery qc =
     (case validateIdentity qc of Some err \<Rightarrow> Inl err
      | None \<Rightarrow> Inr (''sum(rate('' @ RequestsTotal @ ''{'' @ selector qc @ ''}['' @ qc_Window qc @ '']))''))"

definition RatioQuery :: "string \<Rightarrow> string \<Rightarrow> string" where
  "RatioQuery canaryQuery primaryQuery =
     ''('' @ canaryQuery @ '') / clamp_min('' @ primaryQuery @ '', '' @ clampFloor @ '')''"

section \<open>Verdicts\<close>

record MetricObservation =
  mo_Sample :: Sample
  mo_Err :: "string option"

definition quantityFloat :: "quantity \<Rightarrow> f64" where
  "quantityFloat q = fdiv (f64_of_i64 (q_MilliValue q)) (Fin 1000)"

definition renderValue :: "f64 \<Rightarrow> string" where
  "renderValue v = (case v of NaN \<Rightarrow> LiteralNaN | PInf \<Rightarrow> LiteralPosInf | NInf \<Rightarrow> LiteralNegInf
                    | Fin q \<Rightarrow> FormatFloat_g 6 v)"

definition renderRange :: "ThresholdRange \<Rightarrow> string" where
  "renderRange r =
     (case (tr_Min r, tr_Max r) of
        (Some lo, Some hi) \<Rightarrow> ''['' @ q_String lo @ '', '' @ q_String hi @ '']''
      | (Some lo, None) \<Rightarrow> ''>= '' @ q_String lo
      | (None, Some hi) \<Rightarrow> ''<= '' @ q_String hi
      | (None, None) \<Rightarrow> ''unbounded'')"

definition Inconclusive :: "AnalysisMetric \<Rightarrow> string \<Rightarrow> MetricCheck" where
  "Inconclusive m message =
     \<lparr>mc_Name = am_Name m, mc_Verdict = VerdictInconclusive, mc_Value = '''',
      mc_Threshold = renderRange (am_ThresholdRange m), mc_Message = message\<rparr>"

definition Errored :: "AnalysisMetric \<Rightarrow> string \<Rightarrow> MetricCheck" where
  "Errored m message =
     \<lparr>mc_Name = am_Name m, mc_Verdict = VerdictError, mc_Value = '''',
      mc_Threshold = renderRange (am_ThresholdRange m), mc_Message = message\<rparr>"

definition check_with :: "AnalysisMetric \<Rightarrow> string \<Rightarrow> Verdict \<Rightarrow> string \<Rightarrow> MetricCheck" where
  "check_with m value verdict message =
     \<lparr>mc_Name = am_Name m, mc_Verdict = verdict, mc_Value = value,
      mc_Threshold = renderRange (am_ThresholdRange m), mc_Message = message\<rparr>"

definition below_min :: "AnalysisMetric \<Rightarrow> f64 \<Rightarrow> bool" where
  "below_min m v = (case tr_Min (am_ThresholdRange m) of None \<Rightarrow> False | Some q \<Rightarrow> flt v (quantityFloat q))"

definition above_max :: "AnalysisMetric \<Rightarrow> f64 \<Rightarrow> bool" where
  "above_max m v = (case tr_Max (am_ThresholdRange m) of None \<Rightarrow> False | Some q \<Rightarrow> flt (quantityFloat q) v)"

definition range_text :: "quantity option \<Rightarrow> string" where
  "range_text q = (case q of None \<Rightarrow> '''' | Some x \<Rightarrow> q_String x)"

definition Evaluate :: "AnalysisMetric \<Rightarrow> MetricObservation \<Rightarrow> MetricCheck" where
  "Evaluate m obs =
     (case mo_Err obs of
        Some err \<Rightarrow> check_with m '''' VerdictError (''querying the metric provider failed: '' @ err)
      | None \<Rightarrow>
          let count = sa_Count (mo_Sample obs); v = sa_Value (mo_Sample obs)
          in if count = 0 then
               check_with m '''' VerdictInconclusive
                 (''the query matched no series; this is not a measurement of zero, '' @
                  ''it is the absence of a measurement'')
             else if count > 1 then
               check_with m '''' VerdictError
                 (''the query returned '' @ fmt_d count @ '' series; it must aggregate to exactly one '' @
                  ''(a missing sum() or sum by (le)), because choosing among them would measure an arbitrary pod'')
             else if IsNaN v then
               check_with m (renderValue v) VerdictInconclusive
                 (''the query returned '' @ LiteralNaN @
                  '', which usually means the histogram had no observations '' @ ''in the analysis window'')
             else if IsInf v then
               check_with m (renderValue v) VerdictInconclusive
                 (''the query returned an infinity, which means a ratio'' @ [CHR 0x27] @ ''s denominator was empty; '' @
                  ''the comparison could not be made'')
             else if below_min m v then
               check_with m (renderValue v) VerdictFail
                 (renderValue v @ '' is below the minimum of '' @ range_text (tr_Min (am_ThresholdRange m)))
             else if above_max m v then
               check_with m (renderValue v) VerdictFail
                 (renderValue v @ '' exceeds the maximum of '' @ range_text (tr_Max (am_ThresholdRange m)))
             else check_with m (renderValue v) VerdictPass '''')"

section \<open>A round\<close>

record AnalysisRequest =
  rq_Namespace :: string
  rq_ModelDeployment :: string
  rq_Model :: string
  rq_Window :: string
  rq_MinRequestRate :: f64
  rq_MinUsageSamples :: i32
  rq_Metrics :: "AnalysisMetric list"

definition context_for :: "AnalysisRequest \<Rightarrow> string \<Rightarrow> QueryContext" where
  "context_for req variant =
     \<lparr>qc_Namespace = rq_Namespace req, qc_ModelDeployment = rq_ModelDeployment req,
      qc_Model = rq_Model req, qc_Variant = variant, qc_Window = rq_Window req\<rparr>"

definition allChecks :: "AnalysisMetric list \<Rightarrow> (AnalysisMetric \<Rightarrow> MetricCheck) \<Rightarrow> MetricCheck list" where
  "allChecks metrics build = map build metrics"

text \<open>A query that could not be rendered and one that could not be answered take the same path.\<close>

definition ask :: "provider \<Rightarrow> string + string \<Rightarrow> string + Sample" where
  "ask p query = (case query of Inl err \<Rightarrow> Inl err | Inr q \<Rightarrow> p q)"

definition finite_value :: "f64 \<Rightarrow> bool" where
  "finite_value v \<longleftrightarrow> \<not> IsNaN v \<and> \<not> IsInf v"

definition gateOnTraffic :: "provider \<Rightarrow> AnalysisRequest \<Rightarrow> QueryContext \<Rightarrow> MetricCheck list option" where
  "gateOnTraffic p req canaryCtx =
     (if fle (rq_MinRequestRate req) (Fin 0) then None
      else case ask p (RequestRateQuery canaryCtx) of
        Inl err \<Rightarrow> Some (allChecks (rq_Metrics req)
          (\<lambda>m. Errored m (''could not measure the canary'' @ [CHR 0x27] @ ''s request rate: '' @ err)))
      | Inr s \<Rightarrow>
          if sa_Count s = 0 then
            Some (allChecks (rq_Metrics req) (\<lambda>m. Inconclusive m
              (''the canary has produced no request metrics at all; '' @
               ''either it is receiving no traffic or its shim is not being scraped'')))
          else if sa_Count s \<noteq> 1 \<or> \<not> finite_value (sa_Value s) \<or> flt (sa_Value s) (Fin 0) then
            Some (allChecks (rq_Metrics req) (\<lambda>m. Inconclusive m
              ''the canary request rate is not one finite nonnegative measurement''))
          else if sa_Count s = 1 \<and> flt (sa_Value s) (rq_MinRequestRate req) then
            Some (allChecks (rq_Metrics req) (\<lambda>m. Inconclusive m
              (''the canary is receiving '' @ FormatFloat_g 3 (sa_Value s) @
               '' req/s, below the minimum of '' @ FormatFloat_g 3 (rq_MinRequestRate req) @
               '' req/s required to judge it'')))
          else None)"

fun usage_gate :: "provider \<Rightarrow> AnalysisMetric \<Rightarrow> i32 \<Rightarrow> QueryContext list \<Rightarrow> MetricCheck option" where
  "usage_gate p m minUsage [] = None"
| "usage_gate p m minUsage (qc # qcs) =
     (case ask p (UsageSamplesQuery qc) of
        Inl err \<Rightarrow> Some (Errored m (''could not measure reported-usage samples: '' @ err))
      | Inr s \<Rightarrow>
          if sa_Count s \<noteq> 1 \<or> \<not> finite_value (sa_Value s) \<or> flt (sa_Value s) (f64_of_i32 minUsage)
          then Some (Inconclusive m (qc_Variant qc @ '' requires at least '' @ fmt_d minUsage @
                 '' usage-bearing completions before evaluating reported token throughput''))
          else usage_gate p m minUsage qcs)"

definition runOne ::
    "provider \<Rightarrow> AnalysisMetric \<Rightarrow> QueryContext \<Rightarrow> QueryContext \<Rightarrow> i32 \<Rightarrow> MetricCheck" where
  "runOne p m canaryCtx primaryCtx minUsage0 =
     (let usage =
        (if am_Query m = '''' \<and> am_Builtin m = Some MetricOutputTokenRate then
           usage_gate p m (if minUsage0 < 1 then 20 else minUsage0)
             (canaryCtx # (if CompareToPrimaryEnabled (Some m) then [primaryCtx] else []))
         else None)
      in case usage of
        Some check \<Rightarrow> check
      | None \<Rightarrow>
          (case Query m canaryCtx of
             Inl err \<Rightarrow> Errored m (''building the query: '' @ err)
           | Inr canaryQuery \<Rightarrow>
               (case (if CompareToPrimaryEnabled (Some m)
                      then (case Query m primaryCtx of Inl err \<Rightarrow> Inl err
                            | Inr primaryQuery \<Rightarrow> Inr (RatioQuery canaryQuery primaryQuery))
                      else Inr canaryQuery) of
                  Inl err \<Rightarrow> Errored m (''building the primary comparison query: '' @ err)
                | Inr query \<Rightarrow>
                    (case p query of
                       Inl err \<Rightarrow> Evaluate m \<lparr>mo_Sample = zero_Sample, mo_Err = Some err\<rparr>
                     | Inr s \<Rightarrow> Evaluate m \<lparr>mo_Sample = s, mo_Err = None\<rparr>))))"

definition Run :: "provider \<Rightarrow> AnalysisRequest \<Rightarrow> MetricCheck list" where
  "Run p req =
     (let canaryCtx = context_for req ''canary''; primaryCtx = context_for req ''primary''
      in case gateOnTraffic p req canaryCtx of
        Some checks \<Rightarrow> checks
      | None \<Rightarrow> map (\<lambda>m. runOne p m canaryCtx primaryCtx (rq_MinUsageSamples req)) (rq_Metrics req))"

end
