(* ===== verification/Naming.thy ===== *)
theory Naming
  imports Go_Text "HOL-Library.Word"
begin

text \<open>
  Names, labels and selectors (\<open>internal/naming/naming.go\<close>). A label set is a map. \<open>hash/fnv\<close>'s 32-bit
  FNV-1a is written out on words; \<open>rand.SafeEncodeString\<close> of the Kubernetes libraries is the parameter
  \<open>enc\<close>, of which its documentation is used: it replaces every character by a letter or digit. The
  theorems show that every generated name is a label value of at most 63 characters and, for a resource
  name without dots, a DNS label, that the two variants never share a Deployment name, that the immutable
  selector of a Deployment matches exactly the pods of its own variant whatever their revision - and that
  dotted resource names give Services no DNS name, long ones are put into labels uncut, and two resources
  can be given the same Service.
\<close>

unbundle bit_operations_syntax

section \<open>Constants\<close>

definition LlmcpDomain :: string where "LlmcpDomain = ''llmcp.io''"
definition AppName :: string where "AppName = ''llmcp''"
definition ManagedBy :: string where "ManagedBy = ''llmcp-controller''"
definition FieldManager :: string where "FieldManager = ''llmcp-controller''"

definition LabelName :: string where "LabelName = ''app.kubernetes.io/name''"
definition LabelInstance :: string where "LabelInstance = ''app.kubernetes.io/instance''"
definition LabelManagedBy :: string where "LabelManagedBy = ''app.kubernetes.io/managed-by''"
definition LabelComponent :: string where "LabelComponent = ''app.kubernetes.io/component''"

definition NamingLabelModelDeployment :: string where
  "NamingLabelModelDeployment = LlmcpDomain @ ''/model-deployment''"
definition NamingLabelVariant :: string where "NamingLabelVariant = LlmcpDomain @ ''/variant''"
definition LabelRevision :: string where "LabelRevision = LlmcpDomain @ ''/revision''"
definition AnnoPromote :: string where "AnnoPromote = LlmcpDomain @ ''/promote''"
definition AnnoAbort :: string where "AnnoAbort = LlmcpDomain @ ''/abort''"

definition ComponentInferenceServer :: string where "ComponentInferenceServer = ''inference-server''"
definition ShimContainerName :: string where "ShimContainerName = ''shim''"
definition ServicePort :: i32 where "ServicePort = 8080"
definition EnginePort :: i32 where "EnginePort = 8000"
definition ShimPort :: i32 where "ShimPort = 8080"
definition ShimMetricsPort :: i32 where "ShimMetricsPort = 9090"
definition PortNameHTTP :: string where "PortNameHTTP = ''http''"
definition PortNameEngine :: string where "PortNameEngine = ''engine''"
definition PortNameMetrics :: string where "PortNameMetrics = ''metrics''"
definition ShimHealthPath :: string where "ShimHealthPath = ''/llmcp/healthz''"
definition ShimLivePath :: string where "ShimLivePath = ''/llmcp/livez''"
definition ShimMetricsPath :: string where "ShimMetricsPath = ''/metrics''"
definition maxNameLen :: nat where "maxNameLen = 63"

lemmas label_keys = LabelName_def LabelInstance_def LabelManagedBy_def LabelComponent_def
  NamingLabelModelDeployment_def NamingLabelVariant_def LabelRevision_def LlmcpDomain_def

section \<open>Labels and selectors\<close>

type_synonym labels = "string \<rightharpoonup> string"

datatype Variant = VariantPrimary | VariantCanary

fun variant_string :: "Variant \<Rightarrow> string" where
  "variant_string VariantPrimary = ''primary''"
| "variant_string VariantCanary = ''canary''"

definition CommonLabels :: "string \<Rightarrow> labels" where
  "CommonLabels mdName = [LabelName \<mapsto> AppName, LabelInstance \<mapsto> mdName, LabelManagedBy \<mapsto> ManagedBy,
     LabelComponent \<mapsto> ComponentInferenceServer, NamingLabelModelDeployment \<mapsto> mdName]"

definition SelectorLabels :: "string \<Rightarrow> Variant \<Rightarrow> labels" where
  "SelectorLabels mdName variant =
     [NamingLabelModelDeployment \<mapsto> mdName, NamingLabelVariant \<mapsto> variant_string variant]"

definition PodLabels :: "string \<Rightarrow> Variant \<Rightarrow> string \<Rightarrow> labels" where
  "PodLabels mdName variant revision =
     (let labels = CommonLabels mdName ++ SelectorLabels mdName variant
      in if revision \<noteq> '''' then labels(LabelRevision \<mapsto> revision) else labels)"

definition ServiceSelector :: "string \<Rightarrow> labels" where
  "ServiceSelector mdName = [NamingLabelModelDeployment \<mapsto> mdName]"

definition VariantServiceSelector :: "string \<Rightarrow> Variant \<Rightarrow> labels" where
  "VariantServiceSelector mdName variant = SelectorLabels mdName variant"

section \<open>Names\<close>

definition fnv32a :: "string \<Rightarrow> 32 word" where
  "fnv32a s = fold (\<lambda>c h. (h XOR of_nat (of_char c)) * 16777619) s 2166136261"

definition TrimRight_dash :: "string \<Rightarrow> string" where
  "TrimRight_dash s = rev (dropWhile (\<lambda>c. c = CHR ''-'') (rev s))"

text \<open>
  The lengths are natural numbers: the digest has at most 8 characters and the suffix is cut first, so no
  subtraction goes below zero. The slice of the name keeps at least one character; of an empty name,
  which the API server does not admit, the slice expression of the code would panic.
\<close>

definition withSuffix :: "(string \<Rightarrow> string) \<Rightarrow> string \<Rightarrow> string \<Rightarrow> string" where
  "withSuffix enc name suffix =
     (if length name + length suffix \<le> maxNameLen then name @ suffix
      else
        let digest = take 8 (enc (fmt_d (uint (fnv32a name))));
            maxSuffix = maxNameLen - length digest - 2;
            suffix = (if length suffix > maxSuffix then take maxSuffix suffix else suffix);
            keep = max (min (maxNameLen - length suffix - length digest - 1) (length name)) 1
        in TrimRight_dash (take keep name @ ''-'' @ digest @ suffix))"

definition PrimaryDeployment :: "(string \<Rightarrow> string) \<Rightarrow> string \<Rightarrow> string" where
  "PrimaryDeployment enc mdName = withSuffix enc mdName ''-primary''"

definition CanaryDeployment :: "(string \<Rightarrow> string) \<Rightarrow> string \<Rightarrow> string" where
  "CanaryDeployment enc mdName = withSuffix enc mdName ''-canary''"

fun DeploymentFor :: "(string \<Rightarrow> string) \<Rightarrow> string \<Rightarrow> Variant \<Rightarrow> string" where
  "DeploymentFor enc mdName VariantCanary = CanaryDeployment enc mdName"
| "DeploymentFor enc mdName VariantPrimary = PrimaryDeployment enc mdName"

definition Service :: "(string \<Rightarrow> string) \<Rightarrow> string \<Rightarrow> string" where
  "Service enc mdName = withSuffix enc mdName ''''"

definition Endpoint :: "(string \<Rightarrow> string) \<Rightarrow> string \<Rightarrow> string \<Rightarrow> i32 \<Rightarrow> string" where
  "Endpoint enc mdName namespace port =
     ''http://'' @ Service enc mdName @ ''.'' @ namespace @ ''.svc:'' @
     fmt_d (if port = 0 then ServicePort else port) @ ''/v1''"

definition MetricsService :: "(string \<Rightarrow> string) \<Rightarrow> string \<Rightarrow> string" where
  "MetricsService enc mdName = withSuffix enc mdName ''-metrics''"

definition ServiceMonitor :: "(string \<Rightarrow> string) \<Rightarrow> string \<Rightarrow> string" where
  "ServiceMonitor enc mdName = withSuffix enc mdName ''''"

definition PrometheusRule :: "(string \<Rightarrow> string) \<Rightarrow> string \<Rightarrow> string" where
  "PrometheusRule enc mdName = withSuffix enc mdName ''-slo''"

definition ControllerRevision_name :: "(string \<Rightarrow> string) \<Rightarrow> string \<Rightarrow> string \<Rightarrow> string" where
  "ControllerRevision_name enc mdName revision = withSuffix enc mdName (''-'' @ revision)"

section \<open>Generated names are label values\<close>

definition dns_alnum :: "char \<Rightarrow> bool" where
  "dns_alnum c \<longleftrightarrow> (of_char c :: nat) \<in> {97..122} \<union> {48..57}"

definition dns_char :: "char \<Rightarrow> bool" where
  "dns_char c \<longleftrightarrow> dns_alnum c \<or> c = CHR ''-''"

text \<open>A DNS label, but for its length; a resource name, which may also have dots (every DNS subdomain is
  one); a label value, as Kubernetes admits it, in lower case.\<close>

definition dns_name :: "string \<Rightarrow> bool" where
  "dns_name s \<longleftrightarrow> s \<noteq> [] \<and> list_all dns_char s \<and> hd s \<noteq> CHR ''-'' \<and> last s \<noteq> CHR ''-''"

definition resource_name :: "string \<Rightarrow> bool" where
  "resource_name s \<longleftrightarrow> s \<noteq> [] \<and> list_all (\<lambda>c. dns_char c \<or> c = CHR ''.'') s \<and> dns_alnum (hd s) \<and> dns_alnum (last s)"

definition label_value :: "string \<Rightarrow> bool" where
  "label_value s \<longleftrightarrow> length s \<le> 63 \<and> (s = [] \<or> resource_name s)"

definition safe_encoder :: "(string \<Rightarrow> string) \<Rightarrow> bool" where
  "safe_encoder enc \<longleftrightarrow> (\<forall>s. length (enc s) = length s \<and> list_all dns_alnum (enc s))"

lemma not_alnum [simp]: "\<not> dns_alnum CHR ''-''" "\<not> dns_alnum CHR ''.''" "\<not> dns_char CHR ''.''" "dns_char CHR ''-''"
  by (simp_all add: dns_char_def dns_alnum_def)

lemma dns_name_resource: "dns_name s \<longleftrightarrow> resource_name s \<and> CHR ''.'' \<notin> set s"
proof
  assume dns: "dns_name s"
  then have "dns_char (hd s)" "dns_char (last s)"
    by (auto simp: dns_name_def list_all_iff)
  with dns show "resource_name s \<and> CHR ''.'' \<notin> set s"
    by (auto simp: dns_name_def resource_name_def list_all_iff dns_char_def)
next
  assume "resource_name s \<and> CHR ''.'' \<notin> set s"
  then show "dns_name s"
    by (auto simp: dns_name_def resource_name_def list_all_iff)
qed

lemma TrimRight_append:
  assumes "list_ex (\<lambda>c. c \<noteq> CHR ''-'') t"
  shows "TrimRight_dash (s @ t) = s @ TrimRight_dash t" "TrimRight_dash t \<noteq> []"
  using assms by (auto simp: TrimRight_dash_def list_ex_iff dropWhile_append)

lemma TrimRight_set: "set (TrimRight_dash s) \<subseteq> set s"
  unfolding TrimRight_dash_def by (auto dest: set_dropWhileD)

lemma TrimRight_length: "length (TrimRight_dash s) \<le> length s"
  unfolding TrimRight_dash_def using length_dropWhile_le [of _ "rev s"] by simp

lemma TrimRight_last: "TrimRight_dash s \<noteq> [] \<Longrightarrow> last (TrimRight_dash s) \<noteq> CHR ''-''"
  using hd_dropWhile [of "\<lambda>c. c = CHR ''-''" "rev s"] by (simp add: TrimRight_dash_def last_rev)

lemma TrimRight_id: "s \<noteq> [] \<Longrightarrow> last s \<noteq> CHR ''-'' \<Longrightarrow> TrimRight_dash s = s"
  by (cases s rule: rev_cases) (simp_all add: TrimRight_dash_def)

text \<open>The long case, with its two cuts named.\<close>

definition name_digest :: "(string \<Rightarrow> string) \<Rightarrow> string \<Rightarrow> string" where
  "name_digest enc name = take 8 (enc (fmt_d (uint (fnv32a name))))"

definition cut_suffix :: "(string \<Rightarrow> string) \<Rightarrow> string \<Rightarrow> string \<Rightarrow> string" where
  "cut_suffix enc name suffix = take (maxNameLen - length (name_digest enc name) - 2) suffix"

definition kept_name :: "(string \<Rightarrow> string) \<Rightarrow> string \<Rightarrow> string \<Rightarrow> string" where
  "kept_name enc name suffix =
     take (max (min (maxNameLen - length (cut_suffix enc name suffix) - length (name_digest enc name) - 1)
       (length name)) 1) name"

lemma digest_short [simp]: "length (name_digest enc name) \<le> 8"
  by (simp add: name_digest_def)

lemma withSuffix_long:
  assumes "length name + length suffix > maxNameLen"
  shows "withSuffix enc name suffix =
    TrimRight_dash (kept_name enc name suffix @ ''-'' @ name_digest enc name @ cut_suffix enc name suffix)"
proof -
  have "(if m < length suffix then take m suffix else suffix) = take m suffix" for m
    by simp
  moreover have "(length name + length suffix \<le> maxNameLen) = False"
    using assms by simp
  ultimately show ?thesis
    unfolding withSuffix_def kept_name_def cut_suffix_def name_digest_def Let_def by (simp only: if_False)
qed

lemma long_parts:
  "length (cut_suffix enc name suffix) + length (name_digest enc name) + 2 \<le> 63"
  "length (kept_name enc name suffix @ ''-'' @ name_digest enc name @ cut_suffix enc name suffix) \<le> 63"
  "name \<noteq> [] \<Longrightarrow> kept_name enc name suffix \<noteq> [] \<and> hd (kept_name enc name suffix) = hd name"
proof -
  show cut: "length (cut_suffix enc name suffix) + length (name_digest enc name) + 2 \<le> 63"
    using digest_short [of enc name] unfolding cut_suffix_def maxNameLen_def length_take by linarith
  show "length (kept_name enc name suffix @ ''-'' @ name_digest enc name @ cut_suffix enc name suffix) \<le> 63"
    using cut by (simp add: kept_name_def maxNameLen_def)
  show "name \<noteq> [] \<Longrightarrow> kept_name enc name suffix \<noteq> [] \<and> hd (kept_name enc name suffix) = hd name"
    by (cases name) (simp_all add: kept_name_def)
qed

lemma digest_nonempty: "safe_encoder enc \<Longrightarrow> name_digest enc name \<noteq> [] \<and> list_all dns_alnum (name_digest enc name)"
proof -
  assume safe: "safe_encoder enc"
  have "fmt_d n \<noteq> []" for n
    by (simp add: fmt_d_def fmtInt_def itoa_loop_pos)
  then have "enc (fmt_d n) \<noteq> []" for n
    using safe unfolding safe_encoder_def by (metis length_0_conv)
  then show ?thesis
    using safe by (auto simp: name_digest_def safe_encoder_def list_all_iff dest: in_set_takeD)
qed

lemma withSuffix_valid:
  assumes "safe_encoder enc" "resource_name name" "list_all dns_char suffix" "suffix = '''' \<or> last suffix \<noteq> CHR ''-''"
  shows "resource_name (withSuffix enc name suffix) \<and> length (withSuffix enc name suffix) \<le> 63 \<and>
    (CHR ''.'' \<notin> set name \<longrightarrow> CHR ''.'' \<notin> set (withSuffix enc name suffix))"
proof (cases "length name + length suffix \<le> maxNameLen")
  case True
  have "CHR ''.'' \<notin> set suffix" "suffix \<noteq> [] \<Longrightarrow> dns_alnum (last suffix)"
    using assms(3,4) by (auto simp: list_all_iff dns_char_def)
  then show ?thesis
    using True assms(2,3) by (auto simp: withSuffix_def resource_name_def maxNameLen_def last_append list_all_iff)
next
  case False
  let ?k = "kept_name enc name suffix" and ?d = "name_digest enc name" and ?c = "cut_suffix enc name suffix"
  define w where "w = TrimRight_dash (?d @ ?c)"
  have digest: "?d \<noteq> []" "list_all dns_alnum ?d"
    using digest_nonempty [OF assms(1)] by auto
  then have "list_ex (\<lambda>c. c \<noteq> CHR ''-'') (?d @ ?c)"
    by (cases ?d) auto
  then have name: "withSuffix enc name suffix = ?k @ ''-'' @ w" and w: "w \<noteq> []"
    using False TrimRight_append(1) [where s = "?k @ ''-''"] TrimRight_append(2) by (simp_all add: withSuffix_long w_def)
  have "list_all dns_char ?c"
    using assms(3) by (auto simp: cut_suffix_def list_all_iff dest: in_set_takeD)
  then have chars: "\<forall>c \<in> set w. dns_char c"
    using digest(2) TrimRight_set [of "?d @ ?c"] by (auto simp: w_def list_all_iff dns_char_def)
  moreover have "last w \<noteq> CHR ''-''"
    using w TrimRight_last unfolding w_def by blast
  ultimately have "dns_alnum (last w)"
    using w last_in_set dns_char_def by blast
  moreover have "?k \<noteq> []" "hd ?k = hd name" "set ?k \<subseteq> set name"
    using long_parts(3) [of name enc suffix] assms(2)
    by (auto simp: resource_name_def kept_name_def dest: in_set_takeD)
  moreover have "length w \<le> length (?d @ ?c)"
    using TrimRight_length [of "?d @ ?c"] by (simp add: w_def)
  ultimately show ?thesis
    using assms(2) chars w long_parts(2) [of enc name suffix] unfolding name resource_name_def
    by (auto simp: list_all_iff)
qed

text \<open>
  C37. For every resource name the API server admits, of any length and with dots, and every revision that is
  a DNS label but for its length, each name the operator generates - of both Deployments, both Services, the
  ServiceMonitor, the rules and a history entry - has at most 63 characters and is a valid label value. When
  the resource name has no dot, each is a DNS label.
\<close>

theorem generated_names_valid:
  assumes "safe_encoder enc" "resource_name name" "dns_name revision"
    and "s \<in> {DeploymentFor enc name v, Service enc name, MetricsService enc name, ServiceMonitor enc name,
      PrometheusRule enc name, ControllerRevision_name enc name revision}"
  shows "s \<noteq> '''' \<and> label_value s \<and> (CHR ''.'' \<notin> set name \<longrightarrow> dns_name s)"
proof -
  have "list_all dns_char ''-primary''" "list_all dns_char ''-canary''" "list_all dns_char ''-metrics''"
    "list_all dns_char ''-slo''" "list_all dns_char (''-'' @ revision)"
    using assms(3) by (auto simp: dns_char_def dns_alnum_def dns_name_def)
  moreover have "last (''-'' @ revision) \<noteq> CHR ''-''"
    using assms(3) by (simp add: dns_name_def)
  ultimately have suf: "resource_name (withSuffix enc name suf) \<and> length (withSuffix enc name suf) \<le> 63 \<and>
      (CHR ''.'' \<notin> set name \<longrightarrow> CHR ''.'' \<notin> set (withSuffix enc name suf))"
    if "suf \<in> {''-primary'', ''-canary'', '''', ''-metrics'', ''-slo'', ''-'' @ revision}" for suf
    using that withSuffix_valid [OF assms(1,2), of suf] by (elim insertE emptyE) simp_all
  have "\<exists>suf \<in> {''-primary'', ''-canary'', '''', ''-metrics'', ''-slo'', ''-'' @ revision}. s = withSuffix enc name suf"
    using assms(4) unfolding Service_def MetricsService_def ServiceMonitor_def PrometheusRule_def
      ControllerRevision_name_def
    by (cases v) (auto simp only: DeploymentFor.simps PrimaryDeployment_def CanaryDeployment_def)
  then obtain suf where "s = withSuffix enc name suf" "resource_name s \<and> length s \<le> 63 \<and>
      (CHR ''.'' \<notin> set name \<longrightarrow> CHR ''.'' \<notin> set s)"
    using suf by blast
  then show ?thesis
    by (auto simp: dns_name_resource label_value_def resource_name_def)
qed

text \<open>A sample encoder: each character to one letter, as the library's table does.\<close>

definition sample_encoder :: "string \<Rightarrow> string" where
  "sample_encoder s = map (\<lambda>c. char_of (98 + (of_char c :: nat) mod 25)) s"

lemma sample_encoder_safe: "safe_encoder sample_encoder"
  by (auto simp: safe_encoder_def sample_encoder_def list_all_iff dns_alnum_def of_char_of take_bit_eq_mod)

theorem generated_names_valid_witness:
  "label_value (DeploymentFor sample_encoder (replicate 80 (CHR ''m'') @ ''.x'') VariantCanary) \<and>
   dns_name (MetricsService sample_encoder (replicate 80 (CHR ''m'')))"
  using generated_names_valid [OF sample_encoder_safe, of "replicate 80 (CHR ''m'') @ ''.x''" "''x7''"
      "DeploymentFor sample_encoder (replicate 80 (CHR ''m'') @ ''.x'') VariantCanary" VariantCanary]
    generated_names_valid [OF sample_encoder_safe, of "replicate 80 (CHR ''m'')" "''x7''"
      "MetricsService sample_encoder (replicate 80 (CHR ''m''))" VariantCanary]
  by (simp add: resource_name_def dns_name_def dns_char_def dns_alnum_def list_all_iff)

section \<open>Names that are no DNS labels\<close>

text \<open>
  The names are not always DNS labels. A resource name with a dot, which the API server admits, is kept as it
  is when it is short enough, so that the Service and the metrics Service are given a name with a dot.
\<close>

theorem dotted_service_name:
  assumes "CHR ''.'' \<in> set name" "length name \<le> 55"
  shows "\<not> dns_name (Service enc name) \<and> \<not> dns_name (MetricsService enc name)"
  using assms by (auto simp: Service_def MetricsService_def withSuffix_def maxNameLen_def dns_name_resource)

theorem dotted_service_name_witness:
  "resource_name ''llama3.1'' \<and> \<not> dns_name (Service sample_encoder ''llama3.1'')"
  using dotted_service_name [of "''llama3.1''" sample_encoder]
  by (simp add: resource_name_def dns_char_def dns_alnum_def)

text \<open>
  The names are shortened, but the labels that carry the resource name are not: for a resource name of more
  than 63 characters the labels of every child and the selector of its pods hold a value that is no label
  value.
\<close>

theorem long_name_label:
  assumes "length name > 63"
  shows "(\<exists>value. CommonLabels name LabelInstance = Some value \<and> \<not> label_value value) \<and>
    (\<exists>value. SelectorLabels name v NamingLabelModelDeployment = Some value \<and> \<not> label_value value)"
  using assms by (simp add: CommonLabels_def SelectorLabels_def label_keys label_value_def)

theorem long_name_label_witness:
  "\<exists>value. SelectorLabels (replicate 80 (CHR ''m'')) VariantPrimary NamingLabelModelDeployment = Some value \<and>
     \<not> label_value value"
  using long_name_label [of "replicate 80 (CHR ''m'')" VariantPrimary] by simp

section \<open>Variants\<close>

lemma withSuffix_ends:
  assumes "suffix \<noteq> []" "length suffix \<le> 53" "last suffix \<noteq> CHR ''-''"
  shows "\<exists>stem. withSuffix enc name suffix = stem @ suffix"
proof (cases "length name + length suffix \<le> maxNameLen")
  case False
  have "length suffix \<le> 63 - length (name_digest enc name) - 2"
    using assms(2) digest_short [of enc name] by linarith
  then have "cut_suffix enc name suffix = suffix"
    unfolding cut_suffix_def maxNameLen_def by (rule take_all)
  then have "withSuffix enc name suffix = (kept_name enc name suffix @ ''-'' @ name_digest enc name) @ suffix"
    using assms(1,3) False by (simp add: withSuffix_long TrimRight_id)
  then show ?thesis ..
qed (simp add: withSuffix_def)

text \<open>
  The two variants never share a Deployment, of one resource or of two, whatever the names are and
  however they were cut; the selector of a Deployment, which the API server makes immutable, matches the
  pods of exactly that resource and variant at every revision, and the selector of the Service matches the
  pods of both variants of exactly that resource.
\<close>

theorem variants_are_separated:
  "PrimaryDeployment enc a \<noteq> CanaryDeployment enc b
   \<and> (SelectorLabels a v \<subseteq>\<^sub>m PodLabels b w r \<longleftrightarrow> a = b \<and> v = w)
   \<and> (ServiceSelector a \<subseteq>\<^sub>m PodLabels b w r \<longleftrightarrow> a = b)
   \<and> LabelRevision \<notin> dom (SelectorLabels a v)"
proof (intro conjI)
  obtain s t where "PrimaryDeployment enc a = s @ ''-primary''" "CanaryDeployment enc b = t @ ''-canary''"
    using withSuffix_ends [of "''-primary''" enc a] withSuffix_ends [of "''-canary''" enc b]
    by (auto simp: PrimaryDeployment_def CanaryDeployment_def)
  moreover have "s @ ''-primary'' \<noteq> t @ ''-canary''" for s t
  proof
    assume "s @ ''-primary'' = t @ ''-canary''"
    then have "rev (s @ ''-primary'') ! 3 = rev (t @ ''-canary'') ! 3"
      by simp
    then show False
      by simp
  qed
  ultimately show "PrimaryDeployment enc a \<noteq> CanaryDeployment enc b"
    by simp
  have pod: "PodLabels b w r NamingLabelModelDeployment = Some b" "PodLabels b w r NamingLabelVariant = Some (variant_string w)"
    by (simp_all add: PodLabels_def CommonLabels_def SelectorLabels_def label_keys Let_def)
  show "SelectorLabels a v \<subseteq>\<^sub>m PodLabels b w r \<longleftrightarrow> a = b \<and> v = w"
    using pod by (cases v; cases w) (auto simp: map_le_def SelectorLabels_def label_keys)
  show "ServiceSelector a \<subseteq>\<^sub>m PodLabels b w r \<longleftrightarrow> a = b"
    using pod by (auto simp: map_le_def ServiceSelector_def label_keys)
  show "LabelRevision \<notin> dom (SelectorLabels a v)"
    by (simp add: SelectorLabels_def label_keys)
qed

text \<open>
  Two resources can be given the same Service: the metrics Service of a resource has the name of the
  serving Service of a second resource whose name is the first one's with \<open>-metrics\<close> appended, for every
  name that leaves room for the suffix.
\<close>

theorem service_names_collide:
  "length name \<le> 55 \<Longrightarrow> MetricsService enc name = Service enc (name @ ''-metrics'')"
  by (simp add: MetricsService_def Service_def withSuffix_def maxNameLen_def)

theorem service_names_collide_witness:
  "MetricsService sample_encoder ''chat'' = Service sample_encoder ''chat-metrics''"
  using service_names_collide [of "''chat''" sample_encoder] by simp

end
