(* ===== verification/Api_Workload.thy ===== *)
theory Api_Workload
  imports Api_Autoscaling Naming
begin

text \<open>
  The objects a serving pod is made of. First the parts of the Kubernetes core types that the operator
  writes or reads: containers with their probes, ports, mounts and security contexts, the pod
  specification, Services. Then the workload side of the API
  (\<open>api/v1alpha1/modeldeployment_types.go\<close>, \<open>engine_types.go\<close>, \<open>observability_types.go\<close>): the model and
  its source, the engine, serving and observability blocks, and the specification that holds them.
  Fields of the core types that no code of the repository touches are left out; a map whose emptiness
  the code tests is an association list.
\<close>

section \<open>Core types\<close>

type_synonym resource_list = "(string \<times> quantity) list"

record ResourceRequirements =
  rq_Limits :: resource_list
  rq_Requests :: resource_list

record SecretKeySelector =
  sk_Name :: string
  sk_Key :: string
  sk_Optional :: "bool option"

datatype EnvVarSource = SecretKeyRef SecretKeySelector | OtherEnvSource string

record EnvVar =
  ev_Name :: string
  ev_Value :: string
  ev_ValueFrom :: "EnvVarSource option"

record ContainerPort =
  cp_Name :: string
  cp_ContainerPort :: i32
  cp_Protocol :: string

record VolumeMount =
  vm_Name :: string
  vm_MountPath :: string
  vm_ReadOnly :: bool

record SecurityContext =
  sx_AllowPrivilegeEscalation :: "bool option"
  sx_ReadOnlyRootFilesystem :: "bool option"
  sx_RunAsNonRoot :: "bool option"
  sx_CapabilitiesDrop :: "string list option"
  sx_SeccompProfileType :: "string option"

record HTTPGetAction =
  hg_Path :: string
  hg_Port :: IntOrString
  hg_Scheme :: string

record Probe =
  pb_HTTPGet :: "HTTPGetAction option"
  pb_PeriodSeconds :: i32
  pb_FailureThreshold :: i32
  pb_SuccessThreshold :: i32
  pb_TimeoutSeconds :: i32

record Container =
  cn_Name :: string
  cn_Image :: string
  cn_ImagePullPolicy :: string
  cn_RestartPolicy :: "string option"
  cn_Command :: "string list"
  cn_Args :: "string list"
  cn_Ports :: "ContainerPort list"
  cn_Env :: "EnvVar list"
  cn_VolumeMounts :: "VolumeMount list"
  cn_Resources :: ResourceRequirements
  cn_SecurityContext :: "SecurityContext option"
  cn_StartupProbe :: "Probe option"
  cn_ReadinessProbe :: "Probe option"
  cn_LivenessProbe :: "Probe option"
  cn_TerminationMessagePath :: string
  cn_TerminationMessagePolicy :: string

record PodSecurityContext =
  px_RunAsNonRoot :: "bool option"
  px_RunAsUser :: "i64 option"
  px_RunAsGroup :: "i64 option"
  px_FSGroup :: "i64 option"
  px_SeccompProfileType :: "string option"

datatype VolumeSource = EmptyDir | OtherVolume string

record Volume =
  vo_Name :: string
  vo_Source :: VolumeSource

record PodSpec =
  ps_SecurityContext :: "PodSecurityContext option"
  ps_InitContainers :: "Container list"
  ps_Containers :: "Container list"
  ps_Volumes :: "Volume list"
  ps_RestartPolicy :: string
  ps_TerminationGracePeriodSeconds :: "i64 option"
  ps_DNSPolicy :: string
  ps_SchedulerName :: string

definition zero_resources :: ResourceRequirements where
  "zero_resources = \<lparr>rq_Limits = [], rq_Requests = []\<rparr>"

definition zero_container :: Container where
  "zero_container = \<lparr>cn_Name = '''', cn_Image = '''', cn_ImagePullPolicy = '''', cn_RestartPolicy = None,
     cn_Command = [], cn_Args = [], cn_Ports = [], cn_Env = [], cn_VolumeMounts = [],
     cn_Resources = zero_resources, cn_SecurityContext = None, cn_StartupProbe = None,
     cn_ReadinessProbe = None, cn_LivenessProbe = None, cn_TerminationMessagePath = '''',
     cn_TerminationMessagePolicy = ''''\<rparr>"

definition zero_pod :: PodSpec where
  "zero_pod = \<lparr>ps_SecurityContext = None, ps_InitContainers = [], ps_Containers = [], ps_Volumes = [],
     ps_RestartPolicy = '''', ps_TerminationGracePeriodSeconds = None, ps_DNSPolicy = '''',
     ps_SchedulerName = ''''\<rparr>"

definition PullIfNotPresent :: string where "PullIfNotPresent = ''IfNotPresent''"
definition ProtocolTCP :: string where "ProtocolTCP = ''TCP''"
definition ContainerRestartPolicyAlways :: string where "ContainerRestartPolicyAlways = ''Always''"
definition SeccompProfileTypeRuntimeDefault :: string where
  "SeccompProfileTypeRuntimeDefault = ''RuntimeDefault''"
definition ResourceCPU :: string where "ResourceCPU = ''cpu''"
definition ResourceMemory :: string where "ResourceMemory = ''memory''"

section \<open>The model and its source\<close>

record ImageModelSource =
  im_Image :: string
  im_Path :: string
  im_PullPolicy :: string

record HuggingFaceModelSource =
  hf_Repo :: string
  hf_File :: string
  hf_TokenSecretRef :: "SecretKeySelector option"

record PVCModelSource =
  pv_ClaimName :: string
  pv_Path :: string
  pv_ReadOnly :: "bool option"

record ModelSourceSpec =
  so_Image :: "ImageModelSource option"
  so_HuggingFace :: "HuggingFaceModelSource option"
  so_PersistentVolumeClaim :: "PVCModelSource option"

record ModelSpec =
  mo_Name :: string
  mo_Source :: ModelSourceSpec

section \<open>Engine, serving, observability\<close>

record EngineSpec =
  en_Type :: string
  en_Image :: string
  en_ImagePullPolicy :: string
  en_ContextSize :: "i32 option"
  en_MaxConcurrency :: "i32 option"
  en_Threads :: "i32 option"
  en_ExtraArgs :: "string list"
  en_Env :: "EnvVar list"
  en_Resources :: ResourceRequirements
  en_APIKeySecretRef :: "SecretKeySelector option"

definition EngineLlamaCPP :: string where "EngineLlamaCPP = ''llamacpp''"

record ShimSpec =
  sh_Enabled :: "bool option"
  sh_Image :: string
  sh_Resources :: ResourceRequirements
  sh_LogLevel :: string

record ServingSpec =
  sv_Port :: i32
  sv_StartupTimeout :: "go_duration option"
  sv_Shim :: ShimSpec

definition ShimEnabled :: "ServingSpec \<Rightarrow> bool" where
  "ShimEnabled s = (case sh_Enabled (sv_Shim s) of None \<Rightarrow> True | Some b \<Rightarrow> b)"

record PrometheusRuleSpec =
  pr_Enabled :: "bool option"
  pr_Labels :: "(string \<times> string) list"
  pr_LongWindowAlerts :: "bool option"

record SLOSpec =
  sl_TTFTThreshold :: "quantity option"
  sl_TTFTObjective :: "quantity option"
  sl_AvailabilityObjective :: "quantity option"

record ServiceMonitorSpec =
  smn_Enabled :: "bool option"
  smn_Interval :: "go_duration option"
  smn_ScrapeTimeout :: "go_duration option"
  smn_Labels :: "(string \<times> string) list"
  smn_ScrapeEngineMetrics :: "bool option"

record ObservabilitySpec =
  ob_ServiceMonitor :: "ServiceMonitorSpec option"
  ob_PrometheusRule :: "PrometheusRuleSpec option"
  ob_SLO :: "SLOSpec option"

text \<open>The accessors of the observability block, on the pointer their receiver is.\<close>

definition PrometheusRuleEnabled :: "ObservabilitySpec option \<Rightarrow> bool" where
  "PrometheusRuleEnabled o1 =
     (case o1 of None \<Rightarrow> True
      | Some ob \<Rightarrow> (case ob_PrometheusRule ob of None \<Rightarrow> True
                   | Some r \<Rightarrow> (case pr_Enabled r of None \<Rightarrow> True | Some b \<Rightarrow> b)))"

definition LongWindowAlertsEnabled :: "ObservabilitySpec option \<Rightarrow> bool" where
  "LongWindowAlertsEnabled o1 =
     (case o1 of None \<Rightarrow> False
      | Some ob \<Rightarrow> (case ob_PrometheusRule ob of None \<Rightarrow> False
                   | Some r \<Rightarrow> (case pr_LongWindowAlerts r of None \<Rightarrow> False | Some b \<Rightarrow> b)))"

definition ServiceMonitorEnabled :: "ObservabilitySpec option \<Rightarrow> bool" where
  "ServiceMonitorEnabled o1 =
     (case o1 of None \<Rightarrow> True
      | Some ob \<Rightarrow> (case ob_ServiceMonitor ob of None \<Rightarrow> True
                   | Some r \<Rightarrow> (case smn_Enabled r of None \<Rightarrow> True | Some b \<Rightarrow> b)))"

definition EngineMetricsScraped :: "ObservabilitySpec option \<Rightarrow> bool" where
  "EngineMetricsScraped o1 =
     (case o1 of None \<Rightarrow> True
      | Some ob \<Rightarrow> (case ob_ServiceMonitor ob of None \<Rightarrow> True
                   | Some r \<Rightarrow> (case smn_ScrapeEngineMetrics r of None \<Rightarrow> True | Some b \<Rightarrow> b)))"

definition defaultTTFTThresholdMilli :: i64 where "defaultTTFTThresholdMilli = 1500"
definition defaultTTFTObjectiveMilli :: i64 where "defaultTTFTObjectiveMilli = 990"
definition defaultAvailObjectiveMilli :: i64 where "defaultAvailObjectiveMilli = 995"

definition ResolvedTTFTThreshold :: "SLOSpec option \<Rightarrow> f64" where
  "ResolvedTTFTThreshold s =
     (case s of None \<Rightarrow> fdiv (f64_of_i64 defaultTTFTThresholdMilli) (Fin 1000)
      | Some o1 \<Rightarrow> (case sl_TTFTThreshold o1 of
            None \<Rightarrow> fdiv (f64_of_i64 defaultTTFTThresholdMilli) (Fin 1000)
          | Some q \<Rightarrow> fdiv (f64_of_i64 (q_MilliValue q)) (Fin 1000)))"

definition objectiveOr :: "quantity option \<Rightarrow> i64 \<Rightarrow> f64" where
  "objectiveOr q fallbackMilli =
     (case q of None \<Rightarrow> fdiv (f64_of_i64 fallbackMilli) (Fin 1000)
      | Some x \<Rightarrow>
          (let v = fdiv (f64_of_i64 (q_MilliValue x)) (Fin 1000)
           in if fle v (Fin 0) \<or> fle (Fin 1) v then fdiv (f64_of_i64 fallbackMilli) (Fin 1000) else v))"

definition ttftObjective :: "SLOSpec option \<Rightarrow> quantity option" where
  "ttftObjective s = (case s of None \<Rightarrow> None | Some o1 \<Rightarrow> sl_TTFTObjective o1)"

definition ResolvedTTFTObjective :: "SLOSpec option \<Rightarrow> f64" where
  "ResolvedTTFTObjective s = objectiveOr (ttftObjective s) defaultTTFTObjectiveMilli"

definition ResolvedAvailabilityObjective :: "SLOSpec option \<Rightarrow> f64" where
  "ResolvedAvailabilityObjective s =
     (case s of None \<Rightarrow> objectiveOr None defaultAvailObjectiveMilli
      | Some o1 \<Rightarrow> objectiveOr (sl_AvailabilityObjective o1) defaultAvailObjectiveMilli)"

section \<open>The specification\<close>

record ModelDeploymentSpec =
  sp_Replicas :: "i32 option"
  sp_Model :: ModelSpec
  sp_Engine :: EngineSpec
  sp_Serving :: ServingSpec
  sp_Rollout :: RolloutSpec
  sp_Observability :: ObservabilitySpec
  sp_Autoscaling :: "AutoscalingSpec option"

definition zero_shim :: ShimSpec where
  "zero_shim = \<lparr>sh_Enabled = None, sh_Image = '''', sh_Resources = zero_resources, sh_LogLevel = ''''\<rparr>"

end
