(* ===== verification/Controller_Types.thy ===== *)
theory Controller_Types
  imports Canary_State Analysis Api_Workload
begin

text \<open>
  The objects the reconciler reads and writes: the part of a \<open>ModelDeployment\<close> that planning, scaling
  and status use (\<open>api/v1alpha1/modeldeployment_types.go\<close>, \<open>analysis_types.go\<close>), the fields the code
  reads of an \<open>apps/v1\<close> Deployment, and the reconciler's own fields. What lies outside the repository is
  an argument: the clock (every read within one pass gives the same instant), the metric backend, the
  parser of quantities, and the result of converting an out-of-range float to an integer.
\<close>

section \<open>ModelDeployment\<close>

datatype ApiPhase = ApiPending | ApiProgressing | ApiAvailable | ApiCanarying | ApiPromoting
  | ApiRollingBack | ApiPaused | ApiDegraded | ApiPhaseOther string

datatype ConditionStatus = ConditionTrue | ConditionFalse | ConditionUnknown | ConditionStatusOther string

record Condition =
  cd_Type :: string
  cd_Status :: ConditionStatus
  cd_ObservedGeneration :: i64
  cd_LastTransitionTime :: go_time
  cd_Reason :: string
  cd_Message :: string

record CanaryStatus =
  ct_Revision :: string
  ct_StableRevision :: string
  ct_FailedRevision :: string
  ct_DesiredWeight :: i32
  ct_CurrentWeight :: i32
  ct_ObservedWeight :: "i32 option"
  ct_ObservedAt :: "go_time option"
  ct_ObservationWindow :: "go_duration option"
  ct_ObservationReason :: string
  ct_MetricScopeReady :: bool
  ct_Step :: i32
  ct_Steps :: i32
  ct_FailedChecks :: i32
  ct_ConsecutiveErrors :: i32
  ct_ConsecutiveInconclusive :: i32
  ct_Checks :: "MetricCheck list"
  ct_StartTime :: "go_time option"
  ct_LastAnalysisTime :: "go_time option"
  ct_AvailableSince :: "go_time option"
  ct_ReadinessTarget :: CanaryReadinessTarget
  ct_ReadyReplicas :: i32
  ct_AvailableReplicas :: i32
  ct_Message :: string

record ModelDeploymentStatus =
  ms_ObservedGeneration :: i64
  ms_Phase :: ApiPhase
  ms_Replicas :: i32
  ms_Selector :: string
  ms_ReadyReplicas :: i32
  ms_UpdatedReplicas :: i32
  ms_AvailableReplicas :: i32
  ms_StableRevision :: string
  ms_LastGoodRevision :: string
  ms_Endpoint :: string
  ms_Canary :: "CanaryStatus option"
  ms_Autoscaling :: "AutoscalingStatus option"
  ms_Conditions :: "Condition list"

record ModelDeployment =
  md_Namespace :: string
  md_Name :: string
  md_UID :: string
  md_Generation :: i64
  md_ResourceVersion :: string
  md_DeletionTimestamp :: "go_time option"
  md_Annotations :: "string \<Rightarrow> string option"
  md_Spec :: ModelDeploymentSpec
  md_Status :: ModelDeploymentStatus

abbreviation md_Replicas :: "ModelDeployment \<Rightarrow> i32 option" where
  "md_Replicas md \<equiv> sp_Replicas (md_Spec md)"

abbreviation md_ModelName :: "ModelDeployment \<Rightarrow> string" where
  "md_ModelName md \<equiv> mo_Name (sp_Model (md_Spec md))"

abbreviation md_Image :: "ModelDeployment \<Rightarrow> ImageModelSource option" where
  "md_Image md \<equiv> so_Image (mo_Source (sp_Model (md_Spec md)))"

abbreviation md_HuggingFace :: "ModelDeployment \<Rightarrow> HuggingFaceModelSource option" where
  "md_HuggingFace md \<equiv> so_HuggingFace (mo_Source (sp_Model (md_Spec md)))"

abbreviation md_Rollout :: "ModelDeployment \<Rightarrow> RolloutSpec" where
  "md_Rollout md \<equiv> sp_Rollout (md_Spec md)"

abbreviation md_Autoscaling :: "ModelDeployment \<Rightarrow> AutoscalingSpec option" where
  "md_Autoscaling md \<equiv> sp_Autoscaling (md_Spec md)"

abbreviation with_replicas :: "ModelDeployment \<Rightarrow> i32 \<Rightarrow> ModelDeployment" where
  "with_replicas md n \<equiv> md\<lparr>md_Spec := (md_Spec md)\<lparr>sp_Replicas := Some n\<rparr>\<rparr>"

section \<open>Deployments\<close>

record DeploymentCondition =
  dc_Type :: string
  dc_Status :: ConditionStatus
  dc_Reason :: string

record Deployment =
  dp_UID :: string
  dp_Generation :: i64
  dp_SpecReplicas :: "i32 option"
  dp_TemplateLabels :: "string \<Rightarrow> string option"
  dp_PodSpec :: PodSpec
  dp_ObservedGeneration :: i64
  dp_Replicas :: i32
  dp_UpdatedReplicas :: i32
  dp_ReadyReplicas :: i32
  dp_AvailableReplicas :: i32
  dp_Conditions :: "DeploymentCondition list"

definition DeploymentProgressing :: string where "DeploymentProgressing = ''Progressing''"

fun find_condition :: "string \<Rightarrow> DeploymentCondition list \<Rightarrow> DeploymentCondition option" where
  "find_condition t [] = None"
| "find_condition t (c # cs) = (if dc_Type c = t then Some c else find_condition t cs)"

definition findDeploymentCondition :: "Deployment \<Rightarrow> string \<Rightarrow> DeploymentCondition option" where
  "findDeploymentCondition dep t = find_condition t (dp_Conditions dep)"

definition readyReplicasFor :: "Deployment option \<Rightarrow> i32" where
  "readyReplicasFor dep = (case dep of None \<Rightarrow> 0 | Some d \<Rightarrow> dp_ReadyReplicas d)"

definition readyAcrossVariants :: "Deployment option \<Rightarrow> Deployment option \<Rightarrow> i32" where
  "readyAcrossVariants primary canary = wrap32 (readyReplicasFor primary + readyReplicasFor canary)"

section \<open>Names\<close>

definition annotationEnabled :: string where "annotationEnabled = ''true''"
definition ReasonProgressDeadlineExceeded :: string where
  "ReasonProgressDeadlineExceeded = ''ProgressDeadlineExceeded''"

text \<open>A lookup of a missing key in a Go map gives the zero value.\<close>

definition map_get :: "(string \<Rightarrow> string option) \<Rightarrow> string \<Rightarrow> string" where
  "map_get m k = (case m k of None \<Rightarrow> '''' | Some v \<Rightarrow> v)"

definition annotationTrue :: "ModelDeployment \<Rightarrow> string \<Rightarrow> bool" where
  "annotationTrue md key \<longleftrightarrow> map_get (md_Annotations md) key = annotationEnabled"

fun firstNonEmpty :: "string list \<Rightarrow> string" where
  "firstNonEmpty [] = ''''"
| "firstNonEmpty (v # vs) = (if v \<noteq> '''' then v else firstNonEmpty vs)"

definition replicasFor :: "ModelDeployment \<Rightarrow> i32" where
  "replicasFor md = (case md_Replicas md of None \<Rightarrow> 1 | Some n \<Rightarrow> n)"

definition soonest :: "go_duration \<Rightarrow> go_duration \<Rightarrow> go_duration" where
  "soonest a b = (if a \<le> 0 then max b 0 else if b \<le> 0 then a else min a b)"

section \<open>The reconciler\<close>

record Reconciler =
  rr_Now :: go_time
  rr_Provider :: "provider option"
  rr_Prometheus :: "string \<Rightarrow> go_duration \<Rightarrow> provider"
  rr_MustParse :: "string \<Rightarrow> quantity"
  rr_OutOfRange :: "f64 \<Rightarrow> int"

section \<open>Time as floats\<close>

text \<open>\<open>Time.UnixMilli\<close>; the epoch is 62135596800 seconds after the zero time.\<close>

definition UnixMilli :: "go_time \<Rightarrow> i64" where
  "UnixMilli t = (t - 62135596800 * go_Second) div 1000000"

definition unix_seconds :: "go_time \<Rightarrow> f64" where
  "unix_seconds t = fdiv (f64_of_i64 (UnixMilli t)) (Fin 1000)"

definition int32_of_f64 :: "(f64 \<Rightarrow> int) \<Rightarrow> f64 \<Rightarrow> i32" where
  "int32_of_f64 oob v =
     (case v of Fin q \<Rightarrow> (let t = (if q < 0 then - \<lfloor>- q\<rfloor> else \<lfloor>q\<rfloor>) in if is_i32 t then t else oob v)
      | _ \<Rightarrow> oob v)"

definition progressDeadlineSeconds :: "Reconciler \<Rightarrow> ModelDeployment \<Rightarrow> i32" where
  "progressDeadlineSeconds r md =
     (case ro_ProgressDeadline (md_Rollout md) of
        None \<Rightarrow> 600
      | Some d \<Rightarrow>
          let secs = int32_of_f64 (rr_OutOfRange r) (Duration_Seconds d)
          in if secs < 1 then 600 else secs)"

end
