(* ===== verification/Controller_Plan.thy ===== *)
theory Controller_Plan
  imports Controller_Types
begin

text \<open>
  Planning a pass (\<open>internal/controller/canary.go\<close>, \<open>metric_scope.go\<close>, \<open>canary_exposure.go\<close>): from the
  persisted status, the live Deployments and the metric backend to a \<open>rollout\<close>, the description of what
  should run. \<open>planCanary\<close> feeds the state machine of \<open>Canary_State\<close> and carries its decision out;
  \<open>holdRejectedRevision\<close> and \<open>guardAgainstStall\<close> then keep a rejected revision off the primary. The
  ladder computation may not return (\<open>StepLadder\<close>), and so may not the planning of a canary: both are
  options. Logging and the operator's own Prometheus series are left out.
\<close>

section \<open>Metric scope and providers\<close>

definition canary_spec :: "ModelDeployment \<Rightarrow> CanarySpec option" where
  "canary_spec md = ro_Canary (md_Rollout md)"

definition providerFor :: "Reconciler \<Rightarrow> ModelDeployment \<Rightarrow> provider option" where
  "providerFor r md =
     (case rr_Provider r of
        Some p \<Rightarrow> Some p
      | None \<Rightarrow>
          (case canary_spec md of
             None \<Rightarrow> None
           | Some c \<Rightarrow>
               if as_ProviderAddress (cs_Analysis c) = '''' then None
               else Some (rr_Prometheus r (as_ProviderAddress (cs_Analysis c))
                      (ResolvedTimeout (Some (cs_Analysis c))))))"

definition scope_query :: "ModelDeployment \<Rightarrow> go_time \<Rightarrow> go_duration \<Rightarrow> string \<Rightarrow> string" where
  "scope_query md now window variant =
     (let ts = FormatFloat_f 3 (unix_seconds now);
          sel = ShimInfo @ ''{namespace='' @ go_Quote (md_Namespace md) @ '',model_deployment='' @
                go_Quote (md_Name md) @ '',variant='' @ go_Quote variant @ ''}''
      in ''count(('' @ sel @ '' @ '' @ ts @ '' == 1) and ('' @ sel @ '' @ '' @ ts @ '' offset '' @
         PromDuration window @ '' == 1) and (timestamp('' @ sel @ '' @ '' @ ts @ '') >= '' @
         FormatFloat_f 3 (unix_seconds (Add now (- window))) @ ''))'')"

fun scope_loop ::
    "provider \<Rightarrow> ModelDeployment \<Rightarrow> go_time \<Rightarrow> go_duration \<Rightarrow> (string \<times> i32) list \<Rightarrow> bool \<times> string" where
  "scope_loop p md now window [] = (True, ''Resource-scoped metric schema is ready'')"
| "scope_loop p md now window ((variant, replicas) # vs) =
     (if replicas \<le> 0 then scope_loop p md now window vs
      else case p (scope_query md now window variant) of
        Inl err \<Rightarrow> (False, ''Could not verify resource-scoped shim metrics; check provider availability and '' @
          ''upgrade pinned old shim images to a controller-compatible version'')
      | Inr s \<Rightarrow>
          if sa_Count s \<noteq> 1 \<or> IsNaN (sa_Value s) \<or> IsInf (sa_Value s) \<or> flt (sa_Value s) (f64_of_i32 replicas)
          then (False, ''Waiting for '' @ fmt_d replicas @ '' '' @ variant @
            '' shims to expose namespace/model_deployment identity over a full '' @ PromDuration window @
            '' window; upgrade pinned old shim images'')
          else scope_loop p md now window vs)"

definition metricsScopeReady ::
    "Reconciler \<Rightarrow> provider option \<Rightarrow> ModelDeployment \<Rightarrow> go_duration \<Rightarrow> i32 \<Rightarrow> i32 \<Rightarrow> bool \<times> string" where
  "metricsScopeReady r prov md window primary candidate =
     (case prov of
        None \<Rightarrow> (False, ''Waiting for a configured provider and resource-scoped shim metrics'')
      | Some p \<Rightarrow>
          if window \<le> 0 \<or> md_Namespace md = '''' \<or> md_Name md = ''''
          then (False, ''Waiting for a configured provider and resource-scoped shim metrics'')
          else scope_loop p md (rr_Now r) window [(''primary'', primary), (''canary'', candidate)])"

section \<open>Traffic observation\<close>

definition observationAwaitingFreshWindow :: string where
  "observationAwaitingFreshWindow = ''AwaitingFreshWindow''"
definition observationProviderUnavailable :: string where
  "observationProviderUnavailable = ''ProviderUnavailable''"
definition observationMissingSeries :: string where "observationMissingSeries = ''MissingSeries''"
definition observationStaleSamples :: string where "observationStaleSamples = ''StaleSamples''"
definition observationInsufficientTraffic :: string where
  "observationInsufficientTraffic = ''InsufficientTraffic''"
definition observationMeasured :: string where "observationMeasured = ''Measured''"

definition traffic_selector :: "ModelDeployment \<Rightarrow> string \<Rightarrow> string" where
  "traffic_selector md variant =
     RequestsStartedTotal @ ''{namespace='' @ go_Quote (md_Namespace md) @ '',model_deployment='' @
     go_Quote (md_Name md) @ '',variant='' @ go_Quote variant @ ''}''"

text \<open>One variant's rate: the reason it could not be taken, or its value.\<close>

definition variant_rate ::
    "provider \<Rightarrow> ModelDeployment \<Rightarrow> go_time \<Rightarrow> go_duration \<Rightarrow> string \<Rightarrow> string + f64" where
  "variant_rate p md now window variant =
     (let sel = traffic_selector md variant; ts = FormatFloat_f 3 (unix_seconds now)
      in case p (''min(timestamp('' @ sel @ '' @ '' @ ts @ ''))'') of
        Inl err \<Rightarrow> Inl observationProviderUnavailable
      | Inr fresh \<Rightarrow>
          if sa_Count fresh \<noteq> 1 \<or> IsNaN (sa_Value fresh) \<or> IsInf (sa_Value fresh) then Inl observationMissingSeries
          else
            let age = fsub (unix_seconds now) (sa_Value fresh)
            in if flt age (Fin 0) \<or> flt (Duration_Seconds window) age then Inl observationStaleSamples
               else case p (''sum(rate('' @ sel @ ''['' @ PromDuration window @ ''] @ '' @ ts @ ''))'') of
                 Inl err \<Rightarrow> Inl observationProviderUnavailable
               | Inr rate \<Rightarrow>
                   if sa_Count rate \<noteq> 1 \<or> IsNaN (sa_Value rate) \<or> IsInf (sa_Value rate) \<or>
                      flt (sa_Value rate) (Fin 0) then Inl observationMissingSeries
                   else Inr (sa_Value rate))"

definition analysis_spec :: "ModelDeployment \<Rightarrow> AnalysisSpec option" where
  "analysis_spec md = map_option cs_Analysis (canary_spec md)"

definition sampleCanaryTraffic ::
    "Reconciler \<Rightarrow> provider option \<Rightarrow> ModelDeployment \<Rightarrow> go_time \<Rightarrow> go_duration \<Rightarrow> TrafficObservation" where
  "sampleCanaryTraffic r prov md now window =
     (let obs = (\<lambda>w reason. \<lparr>to_Weight = w, to_At = now, to_Window = window, to_Reason = reason\<rparr>)
      in case prov of
        None \<Rightarrow> obs None observationProviderUnavailable
      | Some p \<Rightarrow>
          (case variant_rate p md now window ''primary'' of
             Inl reason \<Rightarrow> obs None reason
           | Inr primary \<Rightarrow>
               (case variant_rate p md now window ''canary'' of
                  Inl reason \<Rightarrow> obs None reason
                | Inr canary \<Rightarrow>
                    let tot = fadd primary canary
                    in if IsInf tot \<or> fle tot (Fin 0) \<or> flt tot (ResolvedMinRequestRate (analysis_spec md))
                       then obs None observationInsufficientTraffic
                       else obs (Some (int32_of_f64 (rr_OutOfRange r)
                                  (go_Round (fmul (Fin 100) (fdiv canary tot))))) observationMeasured)))"

definition reusable_observation ::
    "CanaryStatus option \<Rightarrow> Plan \<Rightarrow> go_time \<Rightarrow> Output \<Rightarrow> (go_time \<times> go_duration \<times> CanaryStatus) option" where
  "reusable_observation prev plan now out =
     (case prev of
        None \<Rightarrow> None
      | Some cs \<Rightarrow>
          (case (ct_ObservedAt cs, ct_ObservationWindow cs) of
             (Some ts, Some w) \<Rightarrow>
               if ct_Revision cs = st_Revision (out_State out) \<and>
                  ct_ReadinessTarget cs = st_ReadinessTarget (out_State out) \<and> w = pl_Window plan \<and>
                  \<not> Before ts (Add (st_AvailableSince (out_State out))
                                 (wrap64 (pl_InitialDelay plan + pl_Window plan))) \<and>
                  \<not> Before now ts \<and> Before now (Add ts (min (pl_Interval plan) (pl_Window plan)))
               then Some (ts, w, cs) else None
           | _ \<Rightarrow> None))"

definition observeCanaryTraffic ::
    "Reconciler \<Rightarrow> ModelDeployment \<Rightarrow> Plan \<Rightarrow> go_time \<Rightarrow> Output \<Rightarrow> Output" where
  "observeCanaryTraffic r md plan now out0 =
     (if out_Canary out0 = 0 \<or> st_Revision (out_State out0) = '''' then out0
      else
        let out = out0\<lparr>out_Observation := (out_Observation out0)\<lparr>to_Reason := observationAwaitingFreshWindow\<rparr>\<rparr>
        in if IsZero (st_AvailableSince (out_State out)) \<or>
              Before now (Add (st_AvailableSince (out_State out)) (wrap64 (pl_InitialDelay plan + pl_Window plan)))
           then out
           else
             let retention = min (pl_Interval plan) (pl_Window plan)
             in case reusable_observation (ms_Canary (md_Status md)) plan now out of
               Some (ts, w, cs) \<Rightarrow>
                 out\<lparr>out_Observation := \<lparr>to_Weight = ct_ObservedWeight cs, to_At = ts, to_Window = w,
                                          to_Reason = ct_ObservationReason cs\<rparr>,
                     out_RequeueAfter := soonest (out_RequeueAfter out) (Sub (Add ts retention) now)\<rparr>
             | None \<Rightarrow>
                 out\<lparr>out_Observation := sampleCanaryTraffic r (providerFor r md) md now (pl_Window plan),
                     out_RequeueAfter := soonest (out_RequeueAfter out) retention\<rparr>)"

section \<open>Persisted state\<close>

fun canaryPhaseFrom :: "ApiPhase \<Rightarrow> Phase" where
  "canaryPhaseFrom ApiCanarying = PhaseProgressing"
| "canaryPhaseFrom ApiPaused = PhasePaused"
| "canaryPhaseFrom ApiPromoting = PhasePromoting"
| "canaryPhaseFrom ApiRollingBack = PhaseRollingBack"
| "canaryPhaseFrom _ = PhaseIdle"

definition time_or_zero :: "go_time option \<Rightarrow> go_time" where
  "time_or_zero t = (case t of None \<Rightarrow> time_zero | Some x \<Rightarrow> x)"

definition canaryStateFrom :: "ModelDeployment \<Rightarrow> State" where
  "canaryStateFrom md =
     (case ms_Canary (md_Status md) of
        None \<Rightarrow> zero_State
      | Some cs \<Rightarrow>
          \<lparr>st_Phase = canaryPhaseFrom (ms_Phase (md_Status md)), st_Revision = ct_Revision cs,
           st_StableRevision = ct_StableRevision cs, st_FailedRevision = ct_FailedRevision cs,
           st_MetricScopeReady = ct_MetricScopeReady cs, st_Step = ct_Step cs,
           st_AvailableSince = time_or_zero (ct_AvailableSince cs),
           st_ReadinessTarget = ct_ReadinessTarget cs,
           st_LastAnalysis = time_or_zero (ct_LastAnalysisTime cs),
           st_StartedAt = time_or_zero (ct_StartTime cs),
           st_counters = SetCounters (ct_FailedChecks cs) (ct_ConsecutiveErrors cs)
                           (ct_ConsecutiveInconclusive cs)\<rparr>)"

definition time_ref :: "go_time \<Rightarrow> go_time option" where
  "time_ref t = (if IsZero t then None else Some t)"

definition canaryStatusFrom :: "Output \<Rightarrow> Round option \<Rightarrow> CanaryStatus option \<Rightarrow> CanaryStatus option" where
  "canaryStatusFrom out rnd prev =
     (let st = out_State out; obs = out_Observation out
      in if st_Phase st = PhaseIdle \<and> st_Revision st = '''' \<and> st_FailedRevision st = '''' then None
         else Some
           \<lparr>ct_Revision = st_Revision st, ct_StableRevision = st_StableRevision st,
            ct_FailedRevision = st_FailedRevision st, ct_DesiredWeight = out_DesiredWeight out,
            ct_CurrentWeight = out_RealizedWeight out, ct_ObservedWeight = to_Weight obs,
            ct_ObservedAt = time_ref (to_At obs),
            ct_ObservationWindow = (if IsZero (to_At obs) then None else Some (to_Window obs)),
            ct_ObservationReason = to_Reason obs, ct_MetricScopeReady = st_MetricScopeReady st,
            ct_Step = st_Step st, ct_Steps = 0, ct_FailedChecks = failed (st_counters st),
            ct_ConsecutiveErrors = consecErr (st_counters st),
            ct_ConsecutiveInconclusive = consecInconcl (st_counters st),
            ct_Checks = (if IsZero (st_LastAnalysis st) then []
                         else case rnd of Some r \<Rightarrow> rd_Checks r
                         | None \<Rightarrow> (case prev of Some p \<Rightarrow> ct_Checks p | None \<Rightarrow> [])),
            ct_StartTime = time_ref (st_StartedAt st), ct_LastAnalysisTime = time_ref (st_LastAnalysis st),
            ct_AvailableSince = time_ref (st_AvailableSince st),
            ct_ReadinessTarget = st_ReadinessTarget st, ct_ReadyReplicas = out_ReadyReplicas out,
            ct_AvailableReplicas = out_AvailableReplicas out, ct_Message = out_Message out\<rparr>)"

section \<open>Planning\<close>

record rollout =
  rl_PrimaryRevision :: string
  rl_CanaryRevision :: string
  rl_PrimaryReplicas :: i32
  rl_CanaryReplicas :: i32
  rl_Output :: Output
  rl_Round :: "Round option"
  rl_Active :: bool
  rl_RequeueAfter :: go_duration
  rl_RolledBack :: bool
  rl_StallReverted :: bool

definition zero_rollout :: rollout where
  "zero_rollout = \<lparr>rl_PrimaryRevision = '''', rl_CanaryRevision = '''', rl_PrimaryReplicas = 0,
     rl_CanaryReplicas = 0, rl_Output = zero_Output, rl_Round = None, rl_Active = False,
     rl_RequeueAfter = 0, rl_RolledBack = False, rl_StallReverted = False\<rparr>"

definition canaryPlan :: "Reconciler \<Rightarrow> ModelDeployment \<Rightarrow> Plan option" where
  "canaryPlan r md =
     (case canary_spec md of
        None \<Rightarrow> None
      | Some c \<Rightarrow>
          let a = Some (cs_Analysis c)
          in map_option (\<lambda>weights.
            \<lparr>pl_Weights = weights, pl_Interval = ResolvedInterval a, pl_InitialDelay = ResolvedInitialDelay a,
             pl_Window = ResolvedWindow a, pl_FailureThreshold = ResolvedFailureThreshold a,
             pl_ConsecutiveErrorLimit = ResolvedConsecutiveErrorLimit a,
             pl_InconclusiveLimit = ResolvedInconclusiveLimit a, pl_OnInconclusive = ResolvedOnInconclusive a,
             pl_RequireApproval = ApprovalRequired (Some c),
             pl_ProgressDeadline = wrap64 (progressDeadlineSeconds r md * go_Second)\<rparr>) (StepLadder (Some c)))"

definition analysis_request :: "Reconciler \<Rightarrow> ModelDeployment \<Rightarrow> AnalysisRequest" where
  "analysis_request r md =
     (let a = analysis_spec md
      in \<lparr>rq_Namespace = md_Namespace md, rq_ModelDeployment = md_Name md, rq_Model = md_ModelName md,
          rq_Window = PromDuration (ResolvedWindow a), rq_MinRequestRate = ResolvedMinRequestRate a,
          rq_MinUsageSamples = ResolvedMinUsageSamples a, rq_Metrics = ResolvedMetrics (rr_MustParse r) a\<rparr>)"

definition controller_analyse :: "Reconciler \<Rightarrow> ModelDeployment \<Rightarrow> Round" where
  "controller_analyse r md =
     (case providerFor r md of
        None \<Rightarrow> Aggregate (map (\<lambda>m. Errored m (''no metric provider is configured: '' @
                  ''set spec.rollout.canary.analysis.provider.address''))
                  (ResolvedMetrics (rr_MustParse r) (analysis_spec md)))
      | Some p \<Rightarrow> Aggregate (Run p (analysis_request r md)))"

definition observed_deployment :: "Deployment option \<Rightarrow> DeploymentObservation" where
  "observed_deployment dep =
     (let none = \<lparr>do_UID = '''', do_Revision = '''', do_Generation = 0, do_ObservedGeneration = 0,
                  do_Replicas = 0, do_UpdatedReplicas = 0, do_ReadyReplicas = 0, do_AvailableReplicas = 0\<rparr>
      in case dep of
        None \<Rightarrow> none
      | Some d \<Rightarrow>
          (case dp_SpecReplicas d of
             None \<Rightarrow> none
           | Some n \<Rightarrow>
               \<lparr>do_UID = dp_UID d, do_Revision = map_get (dp_TemplateLabels d) LabelRevision,
                do_Generation = dp_Generation d, do_ObservedGeneration = dp_ObservedGeneration d,
                do_Replicas = n, do_UpdatedReplicas = dp_UpdatedReplicas d,
                do_ReadyReplicas = dp_ReadyReplicas d, do_AvailableReplicas = dp_AvailableReplicas d\<rparr>))"

definition canary_input ::
    "Reconciler \<Rightarrow> ModelDeployment \<Rightarrow> Plan \<Rightarrow> string \<Rightarrow> Deployment option \<Rightarrow> i32 \<Rightarrow> Input" where
  "canary_input r md plan target canaryDep tot =
     \<lparr>in_Now = rr_Now r, in_Plan = plan, in_State = canaryStateFrom md, in_TargetRevision = target,
      in_StableRevision = ms_LastGoodRevision (md_Status md), in_TotalReplicas = tot,
      in_Deployment = observed_deployment canaryDep, in_Round = None,
      in_Approved = annotationTrue md AnnoPromote, in_Aborted = annotationTrue md AnnoAbort\<rparr>"

text \<open>The gate before a round: the input the state machine sees, and the message of a pending scope.\<close>

definition gated_input ::
    "Reconciler \<Rightarrow> ModelDeployment \<Rightarrow> Plan \<Rightarrow> string \<Rightarrow> Input \<Rightarrow> Input \<times> string option" where
  "gated_input r md plan target inp =
     (if \<not> in_Aborted inp \<and> st_Revision (canaryStateFrom md) = target \<and>
         DueForAnalysis (rr_Now r) plan (in_State inp) then
        (if \<not> st_MetricScopeReady (in_State inp) then
           (let preview = Next inp;
                (ready, message) = metricsScopeReady r (providerFor r md) md (pl_Window plan)
                                     (out_Primary preview) (out_Canary preview)
            in if \<not> ready then (inp, Some message)
               else (inp\<lparr>in_State := (in_State inp)\<lparr>st_MetricScopeReady := True\<rparr>,
                         in_Round := Some (controller_analyse r md)\<rparr>, None))
         else (inp\<lparr>in_Round := Some (controller_analyse r md)\<rparr>, None))
      else (inp, None))"

definition decided ::
    "Reconciler \<Rightarrow> ModelDeployment \<Rightarrow> Plan \<Rightarrow> Input \<Rightarrow> string option \<Rightarrow> Output" where
  "decided r md plan inp pending =
     (let out = Next inp;
          out = (case pending of None \<Rightarrow> out
                 | Some message \<Rightarrow> out\<lparr>out_Reason := ReasonMetricsScopePending, out_Message := message,
                     out_RequeueAfter := soonest (out_RequeueAfter out) (pl_Interval plan)\<rparr>);
          out = out\<lparr>out_ReadyReplicas := do_ReadyReplicas (in_Deployment inp),
                    out_AvailableReplicas := do_AvailableReplicas (in_Deployment inp)\<rparr>
      in observeCanaryTraffic r md plan (rr_Now r) out)"

definition carry_out :: "ModelDeployment \<Rightarrow> string \<Rightarrow> i32 \<Rightarrow> Output \<Rightarrow> Round option \<Rightarrow> rollout" where
  "carry_out md target tot out rnd =
     (let res = zero_rollout\<lparr>rl_Output := out, rl_Round := rnd, rl_PrimaryReplicas := out_Primary out,
                  rl_CanaryReplicas := out_Canary out, rl_RequeueAfter := out_RequeueAfter out\<rparr>;
          lastGood = ms_LastGoodRevision (md_Status md)
      in case out_Action out of
        ActionPromote \<Rightarrow>
          res\<lparr>rl_PrimaryRevision := st_Revision (out_State out), rl_PrimaryReplicas := tot, rl_CanaryReplicas := 0\<rparr>
      | ActionRollback \<Rightarrow>
          res\<lparr>rl_PrimaryRevision := firstNonEmpty [st_StableRevision (out_State out), lastGood, target],
              rl_PrimaryReplicas := tot, rl_CanaryReplicas := 0\<rparr>
      | ActionNone \<Rightarrow>
          res\<lparr>rl_PrimaryRevision := target, rl_PrimaryReplicas := tot, rl_CanaryReplicas := 0\<rparr>
      | _ \<Rightarrow>
          res\<lparr>rl_PrimaryRevision := firstNonEmpty [lastGood, target],
              rl_CanaryRevision := st_Revision (out_State out),
              rl_Active := (st_Revision (out_State out) \<noteq> '''')\<rparr>)"

definition planCanary ::
    "Reconciler \<Rightarrow> ModelDeployment \<Rightarrow> string \<Rightarrow> Deployment option \<Rightarrow> i32 \<Rightarrow> rollout option" where
  "planCanary r md target canaryDep tot =
     map_option (\<lambda>plan.
       let inp = Observe (canary_input r md plan target canaryDep tot);
           (inp, pending) = gated_input r md plan target inp;
           out = decided r md plan inp pending
       in carry_out md target tot out (in_Round inp)) (canaryPlan r md)"

definition canaryFailedRevision :: "ModelDeployment \<Rightarrow> string" where
  "canaryFailedRevision md = (case ms_Canary (md_Status md) of None \<Rightarrow> '''' | Some cs \<Rightarrow> ct_FailedRevision cs)"

definition with_failed :: "string \<Rightarrow> rollout \<Rightarrow> rollout" where
  "with_failed rv res = res\<lparr>rl_Output := (rl_Output res)
     \<lparr>out_State := (out_State (rl_Output res))\<lparr>st_FailedRevision := rv\<rparr>\<rparr>\<rparr>"

definition holdRejectedRevision :: "ModelDeployment \<Rightarrow> rollout \<Rightarrow> string \<Rightarrow> rollout" where
  "holdRejectedRevision md res target =
     (if rl_Active res \<or> rl_RolledBack res then res
      else
        let rejected = firstNonEmpty [st_FailedRevision (out_State (rl_Output res)), canaryFailedRevision md];
            lastGood = ms_LastGoodRevision (md_Status md)
        in if rejected = '''' \<or> rejected \<noteq> target then res
           else if lastGood = '''' \<or> lastGood = target then res
           else with_failed rejected
             (res\<lparr>rl_PrimaryRevision := lastGood, rl_PrimaryReplicas := replicasFor md,
                 rl_CanaryRevision := '''', rl_CanaryReplicas := 0, rl_RolledBack := True\<rparr>))"

definition deploymentStalled :: "Deployment option \<Rightarrow> bool" where
  "deploymentStalled dep =
     (case dep of
        None \<Rightarrow> False
      | Some d \<Rightarrow>
          (case findDeploymentCondition d DeploymentProgressing of
             None \<Rightarrow> False
           | Some c \<Rightarrow> dc_Status c = ConditionFalse \<and> dc_Reason c = ReasonProgressDeadlineExceeded))"

definition guardAgainstStall :: "ModelDeployment \<Rightarrow> rollout \<Rightarrow> Deployment option \<Rightarrow> rollout" where
  "guardAgainstStall md res primaryDep =
     (if rl_Active res \<or> rl_RolledBack res then res
      else if \<not> AutoRollbackEnabled (Some (md_Rollout md)) \<or> \<not> deploymentStalled primaryDep then res
      else
        let lastGood = ms_LastGoodRevision (md_Status md)
        in if lastGood = '''' \<or> lastGood = rl_PrimaryRevision res then res
           else with_failed (rl_PrimaryRevision res)
             (res\<lparr>rl_PrimaryRevision := lastGood, rl_CanaryRevision := '''', rl_CanaryReplicas := 0,
                 rl_RolledBack := True, rl_StallReverted := True\<rparr>))"

definition planRollout ::
    "Reconciler \<Rightarrow> ModelDeployment \<Rightarrow> string \<Rightarrow> Deployment option \<Rightarrow> Deployment option \<Rightarrow> rollout option" where
  "planRollout r md target primaryDep canaryDep =
     (let tot = replicasFor md;
          res = (if IsCanary (Some (md_Rollout md)) then planCanary r md target canaryDep tot
                 else Some (zero_rollout\<lparr>rl_PrimaryRevision := target, rl_PrimaryReplicas := tot\<rparr>))
      in map_option (\<lambda>res. guardAgainstStall md (holdRejectedRevision md res target) primaryDep) res)"

definition validateCanaryRouting :: "RolloutSpec \<Rightarrow> string option" where
  "validateCanaryRouting ro =
     (case ro_Canary ro of
        None \<Rightarrow> None
      | Some c \<Rightarrow>
          (case cs_Scale c of
             None \<Rightarrow> None
           | Some sc \<Rightarrow>
               if \<not> IsCanary (Some ro) then None
               else if cs_TrafficRoutingMode c \<noteq> TrafficRoutingOther '''' \<and>
                       cs_TrafficRoutingMode c \<noteq> TrafficRoutingReplica then None
               else if sc_Replicas sc \<noteq> None then
                 Some (''replica traffic routing requires proportional capacity: '' @
                       ''remove spec.rollout.canary.scale.replicas'')
               else if sc_MatchTrafficWeight sc = Some False then
                 Some (''replica traffic routing requires spec.rollout.canary.scale.matchTrafficWeight=true '' @
                       ''or an omitted scale'')
               else None))"

end
