(* ===== verification/Controller_Status.thy ===== *)
theory Controller_Status
  imports Controller_Plan
begin

text \<open>
  The status a pass writes (\<open>internal/controller/status.go\<close>): \<open>computeStatus\<close> with every condition it
  sets, the bank of the last known-good revision and the phase. Setting a condition in a list is done by
  the Kubernetes API machinery and is the parameter \<open>setc\<close>; the selector and the endpoint are computed
  elsewhere and arrive with the observation, as in the code.
\<close>

type_synonym condition_setter = "Condition list \<Rightarrow> Condition \<Rightarrow> Condition list"

section \<open>Names\<close>

definition ConditionReady :: string where "ConditionReady = ''Ready''"
definition ConditionAvailable :: string where "ConditionAvailable = ''Available''"
definition ConditionProgressing :: string where "ConditionProgressing = ''Progressing''"
definition ConditionModelReady :: string where "ConditionModelReady = ''ModelReady''"
definition ConditionSpecValid :: string where "ConditionSpecValid = ''SpecValid''"
definition ConditionMetricsRegistered :: string where "ConditionMetricsRegistered = ''MetricsRegistered''"
definition ConditionCanaryHealthy :: string where "ConditionCanaryHealthy = ''CanaryHealthy''"
definition ConditionMetricScopeReady :: string where "ConditionMetricScopeReady = ''MetricScopeReady''"
definition ConditionTrafficRoutingReady :: string where
  "ConditionTrafficRoutingReady = ''TrafficRoutingReady''"
definition ConditionAutoscalingReady :: string where "ConditionAutoscalingReady = ''AutoscalingReady''"

definition ReasonReconciling :: string where "ReasonReconciling = ''Reconciling''"
definition ReasonMinimumReplicasAvailable :: string where
  "ReasonMinimumReplicasAvailable = ''MinimumReplicasAvailable''"
definition ReasonMinimumReplicasUnavailable :: string where
  "ReasonMinimumReplicasUnavailable = ''MinimumReplicasUnavailable''"
definition ReasonNewRevisionDetected :: string where "ReasonNewRevisionDetected = ''NewRevisionDetected''"
definition ReasonRolloutInProgress :: string where "ReasonRolloutInProgress = ''RolloutInProgress''"
definition ReasonRolloutComplete :: string where "ReasonRolloutComplete = ''RolloutComplete''"
definition ReasonRevisionRejected :: string where "ReasonRevisionRejected = ''RevisionRejected''"
definition ReasonScaledToZero :: string where "ReasonScaledToZero = ''ScaledToZero''"
definition ReasonModelResolved :: string where "ReasonModelResolved = ''ModelResolved''"
definition ReasonModelLoading :: string where "ReasonModelLoading = ''ModelLoading''"
definition ReasonEngineUnhealthy :: string where "ReasonEngineUnhealthy = ''EngineUnhealthy''"
definition ReasonInvalidSpec :: string where "ReasonInvalidSpec = ''InvalidSpec''"
definition ReasonSpecAccepted :: string where "ReasonSpecAccepted = ''SpecAccepted''"
definition ReasonMetricsScopeReady :: string where "ReasonMetricsScopeReady = ''MetricsScopeReady''"
definition ReasonWeightQuantized :: string where "ReasonWeightQuantized = ''WeightQuantized''"
definition ReasonTrafficSplit :: string where "ReasonTrafficSplit = ''TrafficSplit''"

definition AllConditionTypes :: "string list" where
  "AllConditionTypes = [ConditionReady, ConditionAvailable, ConditionProgressing, ConditionModelReady,
     ConditionSpecValid, ConditionMetricsRegistered, ConditionCanaryHealthy, ConditionMetricScopeReady,
     ConditionTrafficRoutingReady, ConditionAutoscalingReady]"

section \<open>Inputs\<close>

record metricsVerdict =
  mv_Status :: ConditionStatus
  mv_Reason :: string
  mv_Message :: string
  mv_RequeueAfter :: go_duration

record autoscaleVerdict =
  av_Status :: ConditionStatus
  av_Reason :: string
  av_Message :: string
  av_Autoscaling :: "AutoscalingStatus option"
  av_RequeueAfter :: go_duration

record observed =
  ov_Deployment :: "Deployment option"
  ov_CanaryDeployment :: "Deployment option"
  ov_DesiredReplicas :: i32
  ov_Revision :: string
  ov_PrimaryRevision :: string
  ov_Selector :: string
  ov_Endpoint :: string
  ov_Rollout :: rollout
  ov_Scaling :: autoscaleVerdict
  ov_Metrics :: metricsVerdict

definition condition :: "string \<Rightarrow> i64 \<Rightarrow> ConditionStatus \<Rightarrow> string \<Rightarrow> string \<Rightarrow> Condition" where
  "condition t gen st reason message =
     \<lparr>cd_Type = t, cd_Status = st, cd_ObservedGeneration = gen, cd_LastTransitionTime = time_zero,
      cd_Reason = reason, cd_Message = message\<rparr>"

definition setCondition ::
    "condition_setter \<Rightarrow> ModelDeploymentStatus \<Rightarrow> Condition \<Rightarrow> ModelDeploymentStatus" where
  "setCondition setc status cond = status\<lparr>ms_Conditions := setc (ms_Conditions status) cond\<rparr>"

definition pluralReplicas :: "i32 \<Rightarrow> string" where
  "pluralReplicas n = (if n = 1 then ''1 replica'' else fmt_d n @ '' replicas'')"

section \<open>The conditions\<close>

definition setSpecValid :: "condition_setter \<Rightarrow> ModelDeploymentStatus \<Rightarrow> i64 \<Rightarrow> ModelDeploymentStatus" where
  "setSpecValid setc status gen =
     setCondition setc status
       (condition ConditionSpecValid gen ConditionTrue ReasonSpecAccepted ''Specification accepted'')"

definition setMetricsRegistered ::
    "condition_setter \<Rightarrow> ModelDeploymentStatus \<Rightarrow> metricsVerdict \<Rightarrow> i64 \<Rightarrow> ModelDeploymentStatus" where
  "setMetricsRegistered setc status v gen =
     setCondition setc status
       (if mv_Status v = ConditionStatusOther ''''
        then condition ConditionMetricsRegistered gen ConditionUnknown ReasonReconciling
               ''Metric collection has not been evaluated''
        else condition ConditionMetricsRegistered gen (mv_Status v) (mv_Reason v) (mv_Message v))"

definition setAutoscalingReady ::
    "condition_setter \<Rightarrow> ModelDeploymentStatus \<Rightarrow> autoscaleVerdict \<Rightarrow> i64 \<Rightarrow> ModelDeploymentStatus" where
  "setAutoscalingReady setc status v gen =
     setCondition setc status
       (if av_Status v = ConditionStatusOther ''''
        then condition ConditionAutoscalingReady gen ConditionUnknown ReasonReconciling
               ''Autoscaling has not been evaluated''
        else condition ConditionAutoscalingReady gen (av_Status v) (av_Reason v) (av_Message v))"

definition availability :: "ModelDeploymentStatus \<Rightarrow> observed \<Rightarrow> i64 \<Rightarrow> Condition" where
  "availability status obs gen =
     (if ov_DesiredReplicas obs = 0 then
        condition ConditionAvailable gen ConditionTrue ReasonScaledToZero ''Scaled to zero replicas''
      else if ov_Deployment obs = None then
        condition ConditionAvailable gen ConditionFalse ReasonReconciling
          ''Waiting for the serving Deployment to be created''
      else if ms_ReadyReplicas status > 0 then
        condition ConditionAvailable gen ConditionTrue ReasonMinimumReplicasAvailable
          (pluralReplicas (ms_ReadyReplicas status) @ '' ready'')
      else condition ConditionAvailable gen ConditionFalse ReasonMinimumReplicasUnavailable
             ''No replicas are ready'')"

definition setAvailable ::
    "condition_setter \<Rightarrow> ModelDeploymentStatus \<Rightarrow> observed \<Rightarrow> i64 \<Rightarrow> ModelDeploymentStatus \<times> bool" where
  "setAvailable setc status obs gen =
     (let cond = availability status obs gen
      in (setCondition setc status cond, cd_Status cond = ConditionTrue))"

definition reverted :: "observed \<Rightarrow> Deployment \<Rightarrow> bool" where
  "reverted obs dep \<longleftrightarrow> ov_CanaryDeployment obs = None \<and> dp_ObservedGeneration dep \<ge> dp_Generation dep \<and>
     dp_UpdatedReplicas dep = ov_DesiredReplicas obs \<and> dp_Replicas dep = ov_DesiredReplicas obs \<and>
     dp_AvailableReplicas dep = ov_DesiredReplicas obs"

definition rolloutComplete :: "ModelDeploymentStatus \<Rightarrow> observed \<Rightarrow> Deployment \<Rightarrow> bool" where
  "rolloutComplete status obs dep \<longleftrightarrow> ms_UpdatedReplicas status = ov_DesiredReplicas obs \<and>
     ms_Replicas status = ov_DesiredReplicas obs \<and> ms_AvailableReplicas status = ov_DesiredReplicas obs \<and>
     dp_ObservedGeneration dep \<ge> dp_Generation dep"

text \<open>The verdict of \<open>setProgressing\<close>: the condition, whether a rollout is in flight, whether it stalled.\<close>

definition progress :: "ModelDeploymentStatus \<Rightarrow> observed \<Rightarrow> i64 \<Rightarrow> Condition \<times> bool \<times> bool" where
  "progress status obs gen =
     (let cond = condition ConditionProgressing gen
      in case ov_Deployment obs of
        None \<Rightarrow> (cond ConditionTrue ReasonNewRevisionDetected ''Creating the serving Deployment'', True, False)
      | Some dep \<Rightarrow>
          if deploymentStalled (Some dep) then
            (cond ConditionFalse ReasonProgressDeadlineExceeded
               ''Rollout has not progressed within spec.rollout.progressDeadline'', False, True)
          else if rl_RolledBack (ov_Rollout obs) \<and> ov_PrimaryRevision obs \<noteq> '''' \<and>
                  ov_PrimaryRevision obs \<noteq> ov_Revision obs then
            (if reverted obs dep then
               (cond ConditionFalse ReasonRevisionRejected
                  (''Revision '' @ ov_Revision obs @ '' was rejected and every replica runs the last known-good '' @
                   ''revision '' @ ov_PrimaryRevision obs @ ''; change the spec to roll out again''), False, False)
             else (cond ConditionTrue ReasonRolloutInProgress
                     (''Reverting to the last known-good revision '' @ ov_PrimaryRevision obs), True, False))
          else if rolloutComplete status obs dep then
            (cond ConditionFalse ReasonRolloutComplete ''All replicas are running the target revision'', False, False)
          else (cond ConditionTrue ReasonRolloutInProgress ''Rolling out the target revision'', True, False))"

definition setProgressing ::
    "condition_setter \<Rightarrow> ModelDeploymentStatus \<Rightarrow> observed \<Rightarrow> i64 \<Rightarrow> ModelDeploymentStatus \<times> bool \<times> bool" where
  "setProgressing setc status obs gen =
     (let (cond, progressing, stalled) = progress status obs gen
      in (setCondition setc status cond, progressing, stalled))"

definition modelLoadingMessage :: "ModelDeployment \<Rightarrow> string" where
  "modelLoadingMessage md =
     (case md_HuggingFace md of
        Some hf \<Rightarrow> ''Downloading '' @ hf_File hf @ '' from Hugging Face repository '' @ hf_Repo hf @ '' and loading it''
      | None \<Rightarrow>
          (case md_Image md of
             Some im \<Rightarrow> ''Loading the model from image '' @ im_Image im
           | None \<Rightarrow> ''Waiting for the model to load''))"

definition setModelReady ::
    "condition_setter \<Rightarrow> ModelDeployment \<Rightarrow> ModelDeploymentStatus \<Rightarrow> bool \<Rightarrow> bool \<Rightarrow> i64 \<Rightarrow> ModelDeploymentStatus" where
  "setModelReady setc md status available progressing gen =
     setCondition setc status
       (if available then condition ConditionModelReady gen ConditionTrue ReasonModelResolved
                            ''Model loaded and the engine is serving''
        else if progressing then condition ConditionModelReady gen ConditionFalse ReasonModelLoading
                                   (modelLoadingMessage md)
        else condition ConditionModelReady gen ConditionFalse ReasonEngineUnhealthy
               ''No engine replica has reported healthy'')"

definition setReady ::
    "condition_setter \<Rightarrow> ModelDeploymentStatus \<Rightarrow> bool \<Rightarrow> bool \<Rightarrow> i64 \<Rightarrow> ModelDeploymentStatus" where
  "setReady setc status available progressing gen =
     setCondition setc status
       (if available \<and> \<not> progressing then condition ConditionReady gen ConditionTrue ReasonRolloutComplete
                                          ''ModelDeployment is serving the target revision''
        else if progressing then condition ConditionReady gen ConditionFalse ReasonRolloutInProgress
                                   ''Rollout in progress''
        else condition ConditionReady gen ConditionFalse ReasonMinimumReplicasUnavailable
               ''No replicas are ready'')"

definition setMetricScopeReady ::
    "condition_setter \<Rightarrow> ModelDeploymentStatus \<Rightarrow> observed \<Rightarrow> i64 \<Rightarrow> ModelDeploymentStatus" where
  "setMetricScopeReady setc status obs gen =
     (let out = rl_Output (ov_Rollout obs); cond = condition ConditionMetricScopeReady gen
      in setCondition setc status
        (if out_Canary out > 0 \<and> st_Revision (out_State out) \<noteq> '''' then
           (if st_MetricScopeReady (out_State out)
            then cond ConditionTrue ReasonMetricsScopeReady ''A complete resource-scoped metric window is available''
            else cond ConditionFalse ReasonMetricsScopePending
                   (if out_Reason out = ReasonMetricsScopePending \<and> out_Message out \<noteq> '''' then out_Message out
                    else ''Waiting for namespace/model_deployment metrics from the current candidate''))
         else cond ConditionUnknown ReasonCanaryNotRunning ''No canary metric-scope handshake is in progress''))"

definition canary_health :: "Output \<Rightarrow> ConditionStatus" where
  "canary_health out =
     (case out_Action out of
        ActionRollback \<Rightarrow> ConditionFalse
      | ActionStart \<Rightarrow> ConditionTrue | ActionAdvance \<Rightarrow> ConditionTrue | ActionPause \<Rightarrow> ConditionTrue
      | ActionWait \<Rightarrow>
          if out_Reason out = ReasonCanaryChecksFailed then ConditionFalse
          else if out_Reason out \<in> {ReasonAnalysisError, ReasonAnalysisInconclusive,
                  ReasonInsufficientReplicas, ReasonMetricsScopePending} then ConditionUnknown
          else if st_Phase (out_State out) = PhaseWaiting then ConditionUnknown else ConditionTrue
      | ActionPromote \<Rightarrow> ConditionTrue
      | _ \<Rightarrow> ConditionUnknown)"

definition canary_active :: "Output \<Rightarrow> bool" where
  "canary_active out =
     (case out_Action out of
        ActionStart \<Rightarrow> True | ActionAdvance \<Rightarrow> True | ActionPause \<Rightarrow> out_Canary out > 0
      | ActionWait \<Rightarrow> True | _ \<Rightarrow> False)"

definition setCanaryHealthy ::
    "condition_setter \<Rightarrow> ModelDeploymentStatus \<Rightarrow> observed \<Rightarrow> i64 \<Rightarrow> ModelDeploymentStatus \<times> bool" where
  "setCanaryHealthy setc status obs gen =
     (let out = rl_Output (ov_Rollout obs)
      in (setCondition setc status
            (condition ConditionCanaryHealthy gen (canary_health out)
               (firstNonEmpty [out_Reason out, ReasonCanaryNotRunning])
               (firstNonEmpty [out_Message out, ''No canary in flight''])),
          canary_active out))"

definition setTrafficRoutingReady ::
    "condition_setter \<Rightarrow> ModelDeploymentStatus \<Rightarrow> observed \<Rightarrow> i64 \<Rightarrow> ModelDeploymentStatus" where
  "setTrafficRoutingReady setc status obs gen =
     (let out = rl_Output (ov_Rollout obs); cond = condition ConditionTrafficRoutingReady gen
      in setCondition setc status
        (if out_Reason out = ReasonInsufficientReplicas then cond ConditionFalse (out_Reason out) (out_Message out)
         else if ms_Canary status = None \<or> out_Canary out = 0 then
           cond ConditionTrue ReasonCanaryNotRunning ''All traffic is served by the primary variant''
         else if IsQuantized (out_DesiredWeight out) (out_RealizedWeight out) then
           cond ConditionTrue ReasonWeightQuantized
             (''Requested '' @ fmt_d (out_DesiredWeight out) @ ''% to the canary; '' @
              fmt_d (wrap32 (out_Primary out + out_Canary out)) @ '' replicas can only express '' @
              fmt_d (out_RealizedWeight out) @ ''%'')
         else cond ConditionTrue ReasonTrafficSplit
             (''Configured canary replica share is '' @ fmt_d (out_RealizedWeight out) @ ''%; '' @
              fmt_d (out_ReadyReplicas out) @ '' of '' @ fmt_d (out_Canary out) @
              '' desired candidate replicas are ready'')))"

section \<open>The phase\<close>

definition derivePhase :: "bool \<Rightarrow> bool \<Rightarrow> bool \<Rightarrow> string \<Rightarrow> rollout \<Rightarrow> ApiPhase" where
  "derivePhase available progressing stalled lastGood plan =
     (let rest = (if stalled then ApiDegraded
                  else if available \<and> \<not> progressing then ApiAvailable
                  else if lastGood = '''' \<and> \<not> available then ApiPending
                  else if progressing then ApiProgressing
                  else ApiDegraded)
      in case out_Action (rl_Output plan) of
        ActionStart \<Rightarrow> ApiCanarying
      | ActionAdvance \<Rightarrow> ApiCanarying
      | ActionWait \<Rightarrow> if rl_Active plan then ApiCanarying else rest
      | ActionPause \<Rightarrow> ApiPaused
      | ActionPromote \<Rightarrow> ApiPromoting
      | ActionRollback \<Rightarrow> ApiRollingBack
      | _ \<Rightarrow> rest)"

section \<open>The status\<close>

definition deployments :: "observed \<Rightarrow> Deployment list" where
  "deployments obs = concat (map (\<lambda>d. case d of None \<Rightarrow> [] | Some x \<Rightarrow> [x])
     [ov_Deployment obs, ov_CanaryDeployment obs])"

definition sum_field :: "(Deployment \<Rightarrow> i32) \<Rightarrow> Deployment list \<Rightarrow> i32" where
  "sum_field f ds = fold (\<lambda>d acc. wrap32 (acc + f d)) ds 0"

definition updated_replicas :: "observed \<Rightarrow> string \<Rightarrow> i32" where
  "updated_replicas obs primaryRevision =
     (let n = (case ov_Deployment obs of
                 Some d \<Rightarrow> if primaryRevision = ov_Revision obs then wrap32 (dp_UpdatedReplicas d) else 0
               | None \<Rightarrow> 0)
      in case ov_CanaryDeployment obs of Some d \<Rightarrow> wrap32 (n + dp_UpdatedReplicas d) | None \<Rightarrow> n)"

definition base_status :: "ModelDeployment \<Rightarrow> observed \<Rightarrow> ModelDeploymentStatus \<Rightarrow> string \<Rightarrow> ModelDeploymentStatus" where
  "base_status md obs prev primaryRevision =
     \<lparr>ms_ObservedGeneration = md_Generation md, ms_Phase = ApiPhaseOther '''',
      ms_Replicas = sum_field dp_Replicas (deployments obs), ms_Selector = ov_Selector obs,
      ms_ReadyReplicas = sum_field dp_ReadyReplicas (deployments obs),
      ms_UpdatedReplicas = updated_replicas obs primaryRevision,
      ms_AvailableReplicas = sum_field dp_AvailableReplicas (deployments obs),
      ms_StableRevision = primaryRevision, ms_LastGoodRevision = ms_LastGoodRevision prev,
      ms_Endpoint = ov_Endpoint obs, ms_Canary = None, ms_Autoscaling = None,
      ms_Conditions = ms_Conditions prev\<rparr>"

definition canary_status :: "ModelDeployment \<Rightarrow> observed \<Rightarrow> ModelDeploymentStatus \<Rightarrow> CanaryStatus option" where
  "canary_status md obs prev =
     map_option (\<lambda>cs. case ro_Canary (md_Rollout md) of
         Some c \<Rightarrow> cs\<lparr>ct_Steps := wrap32 (int (length (cs_StepWeights c)))\<rparr>
       | None \<Rightarrow> cs)
       (canaryStatusFrom (rl_Output (ov_Rollout obs)) (rl_Round (ov_Rollout obs)) (ms_Canary prev))"

definition computeStatus ::
    "condition_setter \<Rightarrow> ModelDeployment \<Rightarrow> observed \<Rightarrow> ModelDeploymentStatus \<Rightarrow> ModelDeploymentStatus" where
  "computeStatus setc md obs prev =
     (let gen = md_Generation md;
          primaryRevision = firstNonEmpty [ov_PrimaryRevision obs, ov_Revision obs];
          status = base_status md obs prev primaryRevision;
          status = setSpecValid setc status gen;
          status = setMetricsRegistered setc status (ov_Metrics obs) gen;
          (status, available) = setAvailable setc status obs gen;
          (status, progressing, stalled) = setProgressing setc status obs gen;
          status = setModelReady setc md status available progressing gen;
          status = status\<lparr>ms_Canary := canary_status md obs prev,
                          ms_Autoscaling := av_Autoscaling (ov_Scaling obs)\<rparr>;
          (status, canaryActive) = setCanaryHealthy setc status obs gen;
          status = setMetricScopeReady setc status obs gen;
          status = setTrafficRoutingReady setc status obs gen;
          status = setAutoscalingReady setc status (ov_Scaling obs) gen;
          status = (if available \<and> \<not> progressing \<and> \<not> stalled \<and> \<not> canaryActive \<and> primaryRevision \<noteq> ''''
                    then status\<lparr>ms_LastGoodRevision := primaryRevision\<rparr> else status);
          status = setReady setc status available progressing gen
      in status\<lparr>ms_Phase := derivePhase available progressing stalled (ms_LastGoodRevision status) (ov_Rollout obs)\<rparr>)"

definition setInvalidSpec ::
    "condition_setter \<Rightarrow> (Condition list \<Rightarrow> string \<Rightarrow> bool) \<Rightarrow> ModelDeploymentStatus \<Rightarrow> i64 \<Rightarrow> string \<Rightarrow> ModelDeploymentStatus" where
  "setInvalidSpec setc has status gen msg =
     (let status = setCondition setc status (condition ConditionSpecValid gen ConditionFalse ReasonInvalidSpec msg);
          status = setCondition setc status (condition ConditionReady gen ConditionFalse ReasonInvalidSpec msg);
          status = fold (\<lambda>t status. if has (ms_Conditions status) t then status
                    else setCondition setc status
                           (condition t gen ConditionUnknown ReasonInvalidSpec (''Not evaluated: '' @ msg)))
                    AllConditionTypes status
      in status\<lparr>ms_Phase := ApiDegraded\<rparr>)"

end
