(* ===== verification/Controller_Events.thy ===== *)
theory Controller_Events
  imports Controller_Status
begin

text \<open>
  The audit trail: \<open>eventOnce\<close> of the reconciler and \<open>emitRolloutEvents\<close> of
  \<open>internal/controller/canary.go\<close>, as the list of events a pass emits, computed from the plan and the
  status before the pass. The counters and gauges the function also updates are in
  theory \<open>Operator_Metrics\<close>.
\<close>

datatype EventType = EventNormal | EventWarning

record Event =
  ev_Type :: EventType
  ev_Reason :: string
  ev_Action :: string
  ev_Message :: string

fun conditionReason :: "Condition list \<Rightarrow> string \<Rightarrow> string" where
  "conditionReason [] t = ''''"
| "conditionReason (c # cs) t = (if cd_Type c = t then cd_Reason c else conditionReason cs t)"

definition eventOnce :: "ModelDeployment \<Rightarrow> string \<Rightarrow> string \<Rightarrow> Event \<Rightarrow> Event list" where
  "eventOnce md conditionType reason e =
     (if conditionReason (ms_Conditions (md_Status md)) conditionType = reason then [] else [e])"


definition EventReasonCanaryStarted :: string where "EventReasonCanaryStarted = ''CanaryStarted''"
definition EventReasonCanaryAdvanced :: string where "EventReasonCanaryAdvanced = ''CanaryAdvanced''"
definition EventReasonCanaryPromoted :: string where "EventReasonCanaryPromoted = ''CanaryPromoted''"
definition EventReasonCanaryRolledBack :: string where "EventReasonCanaryRolledBack = ''CanaryRolledBack''"
definition EventReasonCanaryPaused :: string where "EventReasonCanaryPaused = ''CanaryPaused''"
definition EventReasonCanaryAborted :: string where "EventReasonCanaryAborted = ''CanaryAborted''"
definition EventReasonAnalysisFailed :: string where "EventReasonAnalysisFailed = ''AnalysisFailed''"
definition EventReasonWeightQuantized :: string where "EventReasonWeightQuantized = ''WeightQuantized''"
definition EventReasonRolloutStalled :: string where "EventReasonRolloutStalled = ''RolloutStalled''"

lemmas event_reason_defs = EventReasonCanaryStarted_def EventReasonCanaryAdvanced_def
  EventReasonCanaryPromoted_def EventReasonCanaryRolledBack_def EventReasonCanaryPaused_def
  EventReasonCanaryAborted_def EventReasonAnalysisFailed_def EventReasonWeightQuantized_def
  EventReasonRolloutStalled_def

definition em_dash :: string where "em_dash = [CHR 0xE2, CHR 0x80, CHR 0x94]"

fun first_failed :: "MetricCheck list \<Rightarrow> string" where
  "first_failed [] = ''no failing check was recorded''"
| "first_failed (c # cs) =
     (if mc_Verdict c = VerdictFail then mc_Name c @ '': '' @ mc_Message c else first_failed cs)"

definition failedCheckSummary :: "Round \<Rightarrow> string" where
  "failedCheckSummary rnd = first_failed (rd_Checks rnd)"

definition event :: "EventType \<Rightarrow> string \<Rightarrow> string \<Rightarrow> string \<Rightarrow> Event" where
  "event t reason action message =
     \<lparr>ev_Type = t, ev_Reason = reason, ev_Action = action, ev_Message = message\<rparr>"

definition action_events :: "ModelDeployment \<Rightarrow> Output \<Rightarrow> Event list" where
  "action_events md out =
     (let prevPhase = ms_Phase (md_Status md); prevCanary = ms_Canary (md_Status md)
      in case out_Action out of
        ActionStart \<Rightarrow>
          if (case prevCanary of None \<Rightarrow> True | Some p \<Rightarrow> ct_Revision p \<noteq> st_Revision (out_State out))
          then [event EventNormal EventReasonCanaryStarted ''Canary'' (out_Message out)] else []
      | ActionAdvance \<Rightarrow>
          if (case prevCanary of None \<Rightarrow> True | Some p \<Rightarrow> ct_Step p \<noteq> st_Step (out_State out))
          then [event EventNormal EventReasonCanaryAdvanced ''Canary'' (out_Message out)] else []
      | ActionPromote \<Rightarrow>
          if prevPhase \<noteq> ApiPromoting
          then [event EventNormal EventReasonCanaryPromoted ''Promote'' (out_Message out)] else []
      | ActionPause \<Rightarrow>
          if prevPhase \<noteq> ApiPaused
          then [event EventNormal EventReasonCanaryPaused ''Pause'' (out_Message out)] else []
      | ActionRollback \<Rightarrow>
          if prevPhase \<noteq> ApiRollingBack
          then [event EventWarning
                  (if out_Reason out = ReasonCanaryAborted then EventReasonCanaryAborted
                   else EventReasonCanaryRolledBack) ''Rollback'' (out_Message out)] else []
      | _ \<Rightarrow> [])"

definition emitRolloutEvents :: "ModelDeployment \<Rightarrow> rollout \<Rightarrow> Event list" where
  "emitRolloutEvents md res =
     (let out = rl_Output res
      in if rl_StallReverted res then
           (if ms_Phase (md_Status md) \<noteq> ApiDegraded
            then [event EventWarning EventReasonRolloutStalled ''Rollback''
                    (''Rollout exceeded its progress deadline; reverting to revision '' @ rl_PrimaryRevision res)]
            else [])
         else
           action_events md out @
           (case rl_Round res of
              Some rnd \<Rightarrow>
                if rd_Verdict rnd = VerdictFail \<and> out_Action out \<noteq> ActionRollback
                then [event EventWarning EventReasonAnalysisFailed ''Analyze''
                        (out_Message out @ '' '' @ em_dash @ '' '' @ failedCheckSummary rnd)] else []
            | None \<Rightarrow> []) @
           (if IsQuantized (out_DesiredWeight out) (out_RealizedWeight out) \<and> rl_Active res
            then [event EventWarning EventReasonWeightQuantized ''Split''
                    (''Requested '' @ fmt_d (out_DesiredWeight out) @ ''% traffic to the canary but '' @
                     fmt_d (wrap32 (out_Primary out + out_Canary out)) @ '' replicas can only express '' @
                     fmt_d (out_RealizedWeight out) @ ''%; '' @ ''increase spec.replicas for a finer split'')]
            else []))"

end
