(* ===== verification/Autoscale.thy ===== *)
theory Autoscale
  imports Go_Float
begin

text \<open>
  The replica recommendation (\<open>internal/autoscale/recommend.go\<close>): a pure function from one poll's
  measurement, the configuration and the stored history to the desired total. The arithmetic on the
  measurement is \<open>float64\<close> arithmetic; conversions of a float outside the range of \<open>int64\<close>, whose result
  Go leaves to the implementation, are the parameter \<open>oob\<close>: it can only reach the text of a message.
\<close>

named_theorems autoscale \<open>unfolding of the straight-line parts of the recommendation\<close>

section \<open>Data\<close>

datatype Direction = DirectionNone | DirectionUp | DirectionDown

definition maxHistory :: nat where
  "maxHistory = 32"

record AutoscaleConfig =
  cf_MinReplicas :: i32
  cf_MaxReplicas :: i32
  cf_Target :: f64
  cf_Tolerance :: f64
  cf_ScaleUpStabilization :: go_duration
  cf_ScaleDownStabilization :: go_duration

record Observation =
  ob_Value :: f64
  ob_Valid :: bool
  ob_Reason :: string

record Recommendation =
  rc_Time :: go_time
  rc_Replicas :: i32

record AutoscaleInput =
  ai_Now :: go_time
  ai_Current :: i32
  ai_ReadyReplicas :: i32
  ai_Observation :: Observation
  ai_Config :: AutoscaleConfig
  ai_History :: "Recommendation list"

record AutoscaleOutput =
  ao_Replicas :: i32
  ao_Changed :: bool
  ao_Direction :: Direction
  ao_Raw :: i32
  ao_PerPod :: f64
  ao_Valid :: bool
  ao_History :: "Recommendation list"
  ao_Reason :: string
  ao_Message :: string

definition ReasonNoMetrics :: string where "ReasonNoMetrics = ''NoMetrics''"
definition ReasonWithinTolerance :: string where "ReasonWithinTolerance = ''WithinTolerance''"
definition ReasonScaleUp :: string where "ReasonScaleUp = ''ScaleUp''"
definition ReasonScaleDown :: string where "ReasonScaleDown = ''ScaleDown''"
definition ReasonStabilized :: string where "ReasonStabilized = ''Stabilized''"

lemmas scale_reason_defs = ReasonNoMetrics_def ReasonWithinTolerance_def ReasonScaleUp_def
  ReasonScaleDown_def ReasonStabilized_def

section \<open>Rendering\<close>

definition itoa64 :: "i64 \<Rightarrow> string" where
  "itoa64 n = (if n = 0 then ''0'' else itoa_loop n [])"

definition twoDigits :: "i64 \<Rightarrow> string" where
  "twoDigits n = (if n < 10 then ''0'' @ itoa64 n else itoa64 n)"

definition int64_of_f64 :: "(f64 \<Rightarrow> i64) \<Rightarrow> f64 \<Rightarrow> i64" where
  "int64_of_f64 oob v =
     (case v of Fin q \<Rightarrow> (let t = (if q < 0 then - \<lfloor>- q\<rfloor> else \<lfloor>q\<rfloor>) in if is_i64 t then t else oob v)
      | _ \<Rightarrow> oob v)"

definition formatFixed :: "(f64 \<Rightarrow> i64) \<Rightarrow> f64 \<Rightarrow> string" where
  "formatFixed oob v0 =
     (let neg = flt v0 (Fin 0);
          v = (if neg then fneg v0 else v0);
          whole0 = int64_of_f64 oob v;
          frac0 = int64_of_f64 oob (go_Round (fmul (fsub v (f64_of_i64 whole0)) (Fin 100)));
          whole = (if frac0 \<ge> 100 then wrap64 (whole0 + 1) else whole0);
          frac = (if frac0 \<ge> 100 then frac0 - 100 else frac0);
          out = itoa64 whole @ ''.'' @ twoDigits frac
      in if neg then ''-'' @ out else out)"

fun trim_zero_tail :: "string \<Rightarrow> string" where
  "trim_zero_tail [] = []"
| "trim_zero_tail (c # cs) = (if c = CHR ''0'' then trim_zero_tail cs else c # cs)"

definition trimZeros :: "(f64 \<Rightarrow> i64) \<Rightarrow> f64 \<Rightarrow> string" where
  "trimZeros oob v =
     (let back = trim_zero_tail (rev (formatFixed oob v));
          back = (case back of c # cs \<Rightarrow> if c = CHR ''.'' then cs else back | [] \<Rightarrow> []);
          out = rev back
      in if out = '''' \<or> out = ''-'' then ''0'' else out)"

definition formatFloat :: "(f64 \<Rightarrow> i64) \<Rightarrow> f64 \<Rightarrow> string" where
  "formatFloat oob v = (if IsNaN v then ''NaN'' else if IsInf v then ''Inf'' else trimZeros oob v)"

section \<open>Arithmetic helpers\<close>

text \<open>\<open>math.Ceil\<close> of a value below \<open>MaxInt32\<close> is exact, and its conversion is in range.\<close>

definition ceilToInt32 :: "f64 \<Rightarrow> i32" where
  "ceilToInt32 v =
     (if IsNaN v then 0
      else if fle v (Fin 0) then 0
      else if fle (Fin (of_int MaxInt32)) v then MaxInt32
      else case v of Fin q \<Rightarrow> \<lceil>q\<rceil> | _ \<Rightarrow> 0)"

definition clamp :: "i32 \<Rightarrow> i32 \<Rightarrow> i32 \<Rightarrow> i32" where
  "clamp n lo0 hi0 = (let lo = max lo0 1; hi = (if hi0 < lo then lo else hi0) in min (max n lo) hi)"

definition directionOf :: "i32 \<Rightarrow> i32 \<Rightarrow> Direction" where
  "directionOf from to = (if to > from then DirectionUp else if to < from then DirectionDown
                          else DirectionNone)"

section \<open>History and stabilization\<close>

fun min_loop :: "go_time \<Rightarrow> i32 \<Rightarrow> bool \<Rightarrow> Recommendation list \<Rightarrow> i32 \<times> bool" where
  "min_loop cutoff out found [] = (out, found)"
| "min_loop cutoff out found (r # rs) =
     (if Before (rc_Time r) cutoff then min_loop cutoff out found rs
      else min_loop cutoff (min out (rc_Replicas r)) True rs)"

definition minOver :: "Recommendation list \<Rightarrow> go_time \<Rightarrow> i32" where
  "minOver history cutoff = (let (out, found) = min_loop cutoff MaxInt32 False history
                             in if \<not> found then 0 else out)"

fun max_loop :: "go_time \<Rightarrow> i32 \<Rightarrow> bool \<Rightarrow> Recommendation list \<Rightarrow> i32 \<times> bool" where
  "max_loop cutoff out found [] = (out, found)"
| "max_loop cutoff out found (r # rs) =
     (if Before (rc_Time r) cutoff then max_loop cutoff out found rs
      else max_loop cutoff (max out (rc_Replicas r)) True rs)"

definition maxOver :: "Recommendation list \<Rightarrow> go_time \<Rightarrow> i32" where
  "maxOver history cutoff = (let (out, found) = max_loop cutoff 0 False history
                             in if \<not> found then MaxInt32 else out)"

definition prune :: "Recommendation list \<Rightarrow> go_time \<Rightarrow> AutoscaleConfig \<Rightarrow> Recommendation list" where
  "prune history now cfg =
     (let window = max (cf_ScaleUpStabilization cfg) (cf_ScaleDownStabilization cfg);
          cutoff = Add now (- window);
          out = filter (\<lambda>r. \<not> (Before (rc_Time r) cutoff \<or> After (rc_Time r) now)) history
      in if length out > maxHistory then drop (length out - maxHistory) out else out)"

definition stabilize ::
    "i32 \<Rightarrow> i32 \<Rightarrow> Recommendation list \<Rightarrow> go_time \<Rightarrow> AutoscaleConfig \<Rightarrow> i32" where
  "stabilize raw current history now cfg =
     (if raw > current then
        (if cf_ScaleUpStabilization cfg \<le> 0 then raw
         else max (minOver history (Add now (- cf_ScaleUpStabilization cfg))) current)
      else if raw < current then
        (if cf_ScaleDownStabilization cfg \<le> 0 then raw
         else min (maxOver history (Add now (- cf_ScaleDownStabilization cfg))) current)
      else current)"

section \<open>The recommendation\<close>

definition hold_scale :: "AutoscaleInput \<Rightarrow> string \<Rightarrow> string \<Rightarrow> AutoscaleOutput" where
  "hold_scale inp reason message =
     (let cfg = ai_Config inp; current = clamp (ai_Current inp) (cf_MinReplicas cfg) (cf_MaxReplicas cfg)
      in \<lparr>ao_Replicas = current, ao_Changed = (current \<noteq> ai_Current inp),
          ao_Direction = directionOf (ai_Current inp) current, ao_Raw = current, ao_PerPod = Fin 0,
          ao_Valid = False, ao_History = prune (ai_History inp) (ai_Now inp) cfg,
          ao_Reason = reason, ao_Message = message\<rparr>)"

definition scale_ratio :: "AutoscaleInput \<Rightarrow> f64" where
  "scale_ratio inp = fdiv (fdiv (ob_Value (ai_Observation inp)) (f64_of_i32 (ai_ReadyReplicas inp)))
                          (cf_Target (ai_Config inp))"

definition Recommend :: "(f64 \<Rightarrow> i64) \<Rightarrow> AutoscaleInput \<Rightarrow> AutoscaleOutput" where
  "Recommend oob inp =
     (let cfg = ai_Config inp;
          current = clamp (ai_Current inp) (cf_MinReplicas cfg) (cf_MaxReplicas cfg)
      in if \<not> ob_Valid (ai_Observation inp) then
           hold_scale inp ReasonNoMetrics
             (''Holding at '' @ itoa current @ '' replicas: '' @
              (if ob_Reason (ai_Observation inp) = '''' then ''no usable measurement''
               else ob_Reason (ai_Observation inp)))
         else if ai_ReadyReplicas inp < 1 then
           hold_scale inp ReasonNoMetrics
             (''Holding at '' @ itoa current @
              '' replicas: no pods are ready, so there is no per-pod load to measure'')
         else if fle (cf_Target cfg) (Fin 0) then
           hold_scale inp ReasonNoMetrics
             (''Holding at '' @ itoa current @
              '' replicas: the autoscaling target must be greater than zero'')
         else
           let perPod = fdiv (ob_Value (ai_Observation inp)) (f64_of_i32 (ai_ReadyReplicas inp));
               ratio = scale_ratio inp
           in if fle (fabs (fsub ratio (Fin 1))) (cf_Tolerance cfg) then
                \<lparr>ao_Replicas = current, ao_Changed = (current \<noteq> ai_Current inp),
                 ao_Direction = directionOf (ai_Current inp) current, ao_Raw = current,
                 ao_PerPod = perPod, ao_Valid = True,
                 ao_History = prune (ai_History inp @ [\<lparr>rc_Time = ai_Now inp, rc_Replicas = current\<rparr>])
                                (ai_Now inp) cfg,
                 ao_Reason = ReasonWithinTolerance,
                 ao_Message = ''Holding at '' @ itoa current @ '' replicas: '' @ formatFloat oob perPod @
                   '' per pod is within '' @ formatFloat oob (fmul (cf_Tolerance cfg) (Fin 100)) @
                   ''% of the target '' @ formatFloat oob (cf_Target cfg)\<rparr>
              else
                let scaled = fmul (f64_of_i32 (ai_ReadyReplicas inp)) ratio;
                    raw = clamp (ceilToInt32 scaled) (cf_MinReplicas cfg) (cf_MaxReplicas cfg);
                    history = prune (ai_History inp @ [\<lparr>rc_Time = ai_Now inp, rc_Replicas = raw\<rparr>])
                                (ai_Now inp) cfg;
                    stabilized = stabilize raw current history (ai_Now inp) cfg;
                    replicas = clamp stabilized (cf_MinReplicas cfg) (cf_MaxReplicas cfg)
                in \<lparr>ao_Replicas = replicas, ao_Changed = (replicas \<noteq> ai_Current inp),
                    ao_Direction = directionOf current replicas, ao_Raw = raw,
                    ao_PerPod = perPod, ao_Valid = True, ao_History = history,
                    ao_Reason = (if replicas > current then ReasonScaleUp
                                 else if replicas < current then ReasonScaleDown else ReasonStabilized),
                    ao_Message =
                      (if replicas > current then
                         ''Scaling up to '' @ itoa replicas @ '' replicas: '' @ formatFloat oob perPod @
                         '' per pod against a target of '' @ formatFloat oob (cf_Target cfg)
                       else if replicas < current then
                         ''Scaling down to '' @ itoa replicas @ '' replicas: '' @ formatFloat oob perPod @
                         '' per pod against a target of '' @ formatFloat oob (cf_Target cfg)
                       else ''Holding at '' @ itoa current @ '' replicas: the metric suggests '' @
                         itoa raw @ '', but the stabilization window has not cleared'')\<rparr>)"

section \<open>Cases of the recommendation\<close>

definition cur_of :: "AutoscaleInput \<Rightarrow> i32" where
  "cur_of inp = clamp (ai_Current inp) (cf_MinReplicas (ai_Config inp)) (cf_MaxReplicas (ai_Config inp))"

definition measured :: "AutoscaleInput \<Rightarrow> bool" where
  "measured inp \<longleftrightarrow> ob_Valid (ai_Observation inp) \<and> 1 \<le> ai_ReadyReplicas inp
     \<and> \<not> fle (cf_Target (ai_Config inp)) (Fin 0)"

definition in_band :: "AutoscaleInput \<Rightarrow> bool" where
  "in_band inp \<longleftrightarrow> fle (fabs (fsub (scale_ratio inp) (Fin 1))) (cf_Tolerance (ai_Config inp))"

definition raw_of :: "AutoscaleInput \<Rightarrow> i32" where
  "raw_of inp = clamp (ceilToInt32 (fmul (f64_of_i32 (ai_ReadyReplicas inp)) (scale_ratio inp)))
                  (cf_MinReplicas (ai_Config inp)) (cf_MaxReplicas (ai_Config inp))"

definition next_history :: "AutoscaleInput \<Rightarrow> i32 \<Rightarrow> Recommendation list" where
  "next_history inp n = prune (ai_History inp @ [\<lparr>rc_Time = ai_Now inp, rc_Replicas = n\<rparr>])
                          (ai_Now inp) (ai_Config inp)"

definition scaled_of :: "AutoscaleInput \<Rightarrow> i32" where
  "scaled_of inp = clamp (stabilize (raw_of inp) (cur_of inp) (next_history inp (raw_of inp))
                            (ai_Now inp) (ai_Config inp))
                     (cf_MinReplicas (ai_Config inp)) (cf_MaxReplicas (ai_Config inp))"

lemmas recommend_parts = cur_of_def measured_def in_band_def raw_of_def next_history_def scaled_of_def

lemma Recommend_cases:
  obtains (held) m where "\<not> measured inp" "Recommend oob inp = hold_scale inp ReasonNoMetrics m"
  | (band) "measured inp" "in_band inp" "ao_Replicas (Recommend oob inp) = cur_of inp"
      "ao_Raw (Recommend oob inp) = cur_of inp" "ao_Valid (Recommend oob inp)"
      "ao_Changed (Recommend oob inp) = (cur_of inp \<noteq> ai_Current inp)"
      "ao_Direction (Recommend oob inp) = directionOf (ai_Current inp) (cur_of inp)"
      "ao_History (Recommend oob inp) = next_history inp (cur_of inp)"
      "ao_Reason (Recommend oob inp) = ReasonWithinTolerance"
  | (scaled) "measured inp" "\<not> in_band inp" "ao_Replicas (Recommend oob inp) = scaled_of inp"
      "ao_Raw (Recommend oob inp) = raw_of inp" "ao_Valid (Recommend oob inp)"
      "ao_Changed (Recommend oob inp) = (scaled_of inp \<noteq> ai_Current inp)"
      "ao_Direction (Recommend oob inp) = directionOf (cur_of inp) (scaled_of inp)"
      "ao_History (Recommend oob inp) = next_history inp (raw_of inp)"
      "ao_Reason (Recommend oob inp) = (if scaled_of inp > cur_of inp then ReasonScaleUp
         else if scaled_of inp < cur_of inp then ReasonScaleDown else ReasonStabilized)"
proof (cases "measured inp")
  case False
  then have "\<exists>m. Recommend oob inp = hold_scale inp ReasonNoMetrics m"
    unfolding measured_def Recommend_def Let_def by (simp only: if_False if_True split: if_splits) auto
  then show thesis
    using held False by blast
next
  case True
  note m = True [unfolded measured_def]
  show thesis
  proof (cases "in_band inp")
    case True
    show thesis
      by (rule band)
        (use m True \<open>measured inp\<close> in \<open>simp_all add: Recommend_def Let_def in_band_def cur_of_def next_history_def\<close>)
  next
    case False
    show thesis
      by (rule scaled)
        (use m False \<open>measured inp\<close> in \<open>simp_all add: Recommend_def Let_def recommend_parts\<close>)
  qed
qed

section \<open>Clamping, pruning and the window extrema\<close>

lemma clamp_bounds: "max lo 1 \<le> clamp n lo hi" "clamp n lo hi \<le> max hi (max lo 1)"
  by (auto simp: clamp_def Let_def)

lemma clamp_mono: "a \<le> b \<Longrightarrow> clamp a lo hi \<le> clamp b lo hi"
  by (auto simp: clamp_def Let_def)

lemma clamp_fix: "max lo 1 \<le> n \<Longrightarrow> n \<le> max hi (max lo 1) \<Longrightarrow> clamp n lo hi = n"
  by (auto simp: clamp_def Let_def)

lemma clamp_idem: "clamp (clamp n lo hi) lo hi = clamp n lo hi"
  by (rule clamp_fix) (rule clamp_bounds)+

definition in_window :: "go_time \<Rightarrow> AutoscaleConfig \<Rightarrow> Recommendation \<Rightarrow> bool" where
  "in_window now cfg r \<longleftrightarrow>
     now - max (cf_ScaleUpStabilization cfg) (cf_ScaleDownStabilization cfg) \<le> rc_Time r
     \<and> rc_Time r \<le> now"

lemma prune_eq:
  "prune h now cfg = (let out = filter (in_window now cfg) h in drop (length out - maxHistory) out)"
proof -
  have "(\<lambda>r. \<not> (Before (rc_Time r) (Add now (- max (cf_ScaleUpStabilization cfg)
           (cf_ScaleDownStabilization cfg))) \<or> After (rc_Time r) now)) = in_window now cfg"
    by (auto simp: in_window_def time_defs)
  then show ?thesis
    by (simp add: prune_def Let_def)
qed

lemma prune_length: "length (prune h now cfg) \<le> maxHistory"
  by (simp add: prune_eq Let_def)

lemma prune_in_window: "r \<in> set (prune h now cfg) \<Longrightarrow> r \<in> set h \<and> in_window now cfg r"
  by (auto simp: prune_eq Let_def dest: in_set_dropD)

lemma prune_keeps:
  "length (filter (in_window now cfg) h) \<le> maxHistory \<Longrightarrow> r \<in> set h \<Longrightarrow> in_window now cfg r
     \<Longrightarrow> r \<in> set (prune h now cfg)"
  by (simp add: prune_eq Let_def)

lemma prune_snoc:
  assumes "in_window now cfg r"
  shows "prune (h @ [r]) now cfg =
    (let out = filter (in_window now cfg) h in drop (length out - (maxHistory - 1)) out) @ [r]"
  using assms by (simp add: prune_eq Let_def maxHistory_def)

lemma min_loop_fst: "fst (min_loop c out fnd h) \<le> out"
  by (induction c out fnd h rule: min_loop.induct) auto

lemma min_loop_le:
  "r \<in> set h \<Longrightarrow> \<not> Before (rc_Time r) c \<Longrightarrow>
     snd (min_loop c out fnd h) \<and> fst (min_loop c out fnd h) \<le> rc_Replicas r"
proof (induction c out fnd h rule: min_loop.induct)
  case (2 c out fnd q rs)
  have keep: "snd (min_loop c o' True rs)" for o'
    by (induction rs arbitrary: o') auto
  show ?case
    using 2 keep min_loop_fst [of c "min out (rc_Replicas q)" True rs] by auto
qed simp

lemma minOver_le: "r \<in> set h \<Longrightarrow> c \<le> rc_Time r \<Longrightarrow> minOver h c \<le> rc_Replicas r"
  using min_loop_le [of r h c MaxInt32 False] by (auto simp: minOver_def Before_def split: prod.splits)

lemma max_loop_fst: "out \<le> fst (max_loop c out fnd h)"
  by (induction c out fnd h rule: max_loop.induct) auto

lemma max_loop_ge:
  "r \<in> set h \<Longrightarrow> \<not> Before (rc_Time r) c \<Longrightarrow>
     snd (max_loop c out fnd h) \<and> rc_Replicas r \<le> fst (max_loop c out fnd h)"
proof (induction c out fnd h rule: max_loop.induct)
  case (2 c out fnd q rs)
  have keep: "snd (max_loop c o' True rs)" for o'
    by (induction rs arbitrary: o') auto
  show ?case
    using 2 keep max_loop_fst [of "max out (rc_Replicas q)" c True rs] by auto
qed simp

lemma maxOver_ge: "r \<in> set h \<Longrightarrow> c \<le> rc_Time r \<Longrightarrow> rc_Replicas r \<le> maxOver h c"
  using max_loop_ge [of r h c 0 False] by (auto simp: maxOver_def Before_def split: prod.splits)

lemma max_loop_bound:
  "\<forall>r \<in> set h. rc_Replicas r \<le> b \<Longrightarrow> out \<le> b \<Longrightarrow> fst (max_loop c out fnd h) \<le> b"
  by (induction c out fnd h rule: max_loop.induct) auto

lemma maxOver_eq:
  assumes "r \<in> set h" "c \<le> rc_Time r" "\<forall>q \<in> set h. rc_Replicas q \<le> rc_Replicas r" "0 \<le> rc_Replicas r"
  shows "maxOver h c = rc_Replicas r"
  using maxOver_ge [OF assms(1,2)] max_loop_ge [of r h c 0 False]
    max_loop_bound [of h "rc_Replicas r" 0 c False] assms
  by (auto simp: maxOver_def Before_def split: prod.splits)

end
