(* ===== verification/Controller_Scale.thy ===== *)
theory Controller_Scale
  imports Controller_Events Autoscale
begin

text \<open>
  The autoscaling pass (\<open>internal/controller/autoscale.go\<close>): the whole handler \<open>reconcileAutoscaling\<close>, from
  the mode, a conflicting HorizontalPodAutoscaler and the metric to the write of \<open>spec.replicas\<close>, the
  verdict, the status block and the events. The API server is an argument: the answer to the list of
  autoscalers and the outcome of the patch. The operator's own metrics and logging are left out.
\<close>

section \<open>Names\<close>

definition ReasonAutoscalingDisabled :: string where "ReasonAutoscalingDisabled = ''AutoscalingDisabled''"
definition ReasonAutoscalingActive :: string where "ReasonAutoscalingActive = ''AutoscalingActive''"
definition ReasonAutoscalingNoMetrics :: string where "ReasonAutoscalingNoMetrics = ''AutoscalingNoMetrics''"
definition ReasonAutoscalingConflict :: string where "ReasonAutoscalingConflict = ''AutoscalingConflict''"
definition ReasonScaledUp :: string where "ReasonScaledUp = ''ScaledUp''"
definition ReasonScaledDown :: string where "ReasonScaledDown = ''ScaledDown''"
definition EventReasonScaledUp :: string where "EventReasonScaledUp = ''ScaledUp''"
definition EventReasonScaledDown :: string where "EventReasonScaledDown = ''ScaledDown''"
definition EventReasonAutoscalingConflict :: string where
  "EventReasonAutoscalingConflict = ''AutoscalingConflict''"
definition EventReasonAutoscalingNoMetrics :: string where
  "EventReasonAutoscalingNoMetrics = ''AutoscalingNoMetrics''"
definition kindModelDeployment :: string where "kindModelDeployment = ''ModelDeployment''"
definition GroupName :: string where "GroupName = ''inference.llmcp.io''"

section \<open>The conflict check\<close>

record HPA =
  hp_Name :: string
  hp_Kind :: string
  hp_TargetName :: string
  hp_APIVersion :: string

fun sameGroup_at :: "string \<Rightarrow> string \<Rightarrow> string \<Rightarrow> bool" where
  "sameGroup_at before [] grp = False"
| "sameGroup_at before (c # cs) grp =
     (if c = CHR ''/'' then before = grp else sameGroup_at (before @ [c]) cs grp)"

definition sameGroup :: "string \<Rightarrow> string \<Rightarrow> bool" where
  "sameGroup apiVersion grp = sameGroup_at [] apiVersion grp"

fun first_conflict :: "ModelDeployment \<Rightarrow> HPA list \<Rightarrow> string" where
  "first_conflict md [] = ''''"
| "first_conflict md (h # hs) =
     (if hp_Kind h = kindModelDeployment \<and> hp_TargetName h = md_Name md \<and> sameGroup (hp_APIVersion h) GroupName
      then hp_Name h else first_conflict md hs)"

text \<open>The list call: the items, a missing API (no match), or another error.\<close>

datatype ListResult = ListItems "HPA list" | ListNoMatch | ListError string

fun externalScalerConflict :: "ModelDeployment \<Rightarrow> ListResult \<Rightarrow> string + string" where
  "externalScalerConflict md (ListItems hs) = Inr (first_conflict md hs)"
| "externalScalerConflict md ListNoMatch = Inr ''''"
| "externalScalerConflict md (ListError e) = Inl (''listing HorizontalPodAutoscalers: '' @ e)"

section \<open>The sample\<close>

definition AutoscalingQuery :: "AutoscalingMetric \<Rightarrow> QueryContext \<Rightarrow> string + string" where
  "AutoscalingQuery metric qc =
     (case validateIdentity qc of
        Some err \<Rightarrow> Inl err
      | None \<Rightarrow>
          let render = (\<lambda>name. ''sum(avg_over_time('' @ name @ ''{'' @ fleetSelector qc @ ''}['' @ qc_Window qc @ '']))'')
          in case metric of
            AutoscalingQueueDepth \<Rightarrow> Inr (render QueueDepth)
          | AutoscalingConcurrency \<Rightarrow> Inr (render RequestsInFlight)
          | AutoscalingMetricOther s \<Rightarrow> Inl (''unknown autoscaling metric '' @ go_Quote s))"

definition autoscalingProviderFor :: "Reconciler \<Rightarrow> ModelDeployment \<Rightarrow> provider option" where
  "autoscalingProviderFor r md =
     (case rr_Provider r of
        Some p \<Rightarrow> Some p
      | None \<Rightarrow>
          (case md_Autoscaling md of
             None \<Rightarrow> None
           | Some s \<Rightarrow>
               if au_ProviderAddress s = '''' then None
               else Some (rr_Prometheus r (au_ProviderAddress s) (ResolvedProviderTimeout (Some s)))))"

definition no_observation :: "string \<Rightarrow> Observation" where
  "no_observation reason = \<lparr>ob_Value = Fin 0, ob_Valid = False, ob_Reason = reason\<rparr>"

definition sampleAutoscalingMetricFrom :: "ModelDeployment \<Rightarrow> provider option \<Rightarrow> Observation" where
  "sampleAutoscalingMetricFrom md prov =
     (case prov of
        None \<Rightarrow> no_observation ''no metric provider is configured: set spec.autoscaling.provider.address''
      | Some p \<Rightarrow>
          (case AutoscalingQuery (ResolvedMetric (md_Autoscaling md))
                  \<lparr>qc_Namespace = md_Namespace md, qc_ModelDeployment = md_Name md, qc_Model = md_ModelName md,
                   qc_Variant = '''', qc_Window = PromDuration (ResolvedAutoscaleWindow (md_Autoscaling md))\<rparr> of
             Inl err \<Rightarrow> no_observation (''building the query: '' @ err)
           | Inr query \<Rightarrow>
               (case p query of
                  Inl err \<Rightarrow> no_observation (''querying the metric provider failed: '' @ err)
                | Inr s \<Rightarrow>
                    if sa_Count s = 0 then
                      no_observation (''the query matched no series; this is not a measurement of zero, it is the '' @
                        ''absence of one '' @ em_dash @ '' check that the shim is injected and being scraped'')
                    else if sa_Count s > 1 then
                      no_observation (''the query returned '' @ fmt_d (sa_Count s) @
                        '' series; it must aggregate to exactly one'')
                    else if IsNaN (sa_Value s) \<or> IsInf (sa_Value s) then
                      no_observation (''the query returned '' @ LiteralNaN @ '' or an infinity'')
                    else \<lparr>ob_Value = sa_Value s, ob_Valid = True, ob_Reason = ''''\<rparr>)))"

section \<open>History and status\<close>

definition recommendationsFrom :: "AutoscalingStatus option \<Rightarrow> Recommendation list" where
  "recommendationsFrom status =
     (case status of None \<Rightarrow> []
      | Some s \<Rightarrow> map (\<lambda>r. \<lparr>rc_Time = sr_Time r, rc_Replicas = sr_Replicas r\<rparr>) (aus_Recommendations s))"

definition formatMetric :: "f64 \<Rightarrow> string" where
  "formatMetric v = FormatFloat_g 6 v"

definition autoscalingStatusFrom ::
    "AutoscaleOutput \<Rightarrow> Observation \<Rightarrow> AutoscalingStatus option \<Rightarrow> AutoscalingStatus" where
  "autoscalingStatusFrom out obs prev =
     \<lparr>aus_DesiredReplicas = ao_Replicas out,
      aus_CurrentMetric = (if ob_Valid obs then formatMetric (ob_Value obs) else ''''),
      aus_CurrentMetricPerPod = (if ob_Valid obs then formatMetric (ao_PerPod out) else ''''),
      aus_LastScaleTime = (case prev of None \<Rightarrow> None | Some p \<Rightarrow> aus_LastScaleTime p),
      aus_Recommendations = map (\<lambda>r. \<lparr>sr_Time = rc_Time r, sr_Replicas = rc_Replicas r\<rparr>) (ao_History out),
      aus_Message = ao_Message out\<rparr>"

definition autoscalingReason :: "string \<Rightarrow> string" where
  "autoscalingReason reason =
     (if reason = ReasonNoMetrics then ReasonAutoscalingNoMetrics
      else if reason = ReasonScaleUp then ReasonScaledUp
      else if reason = ReasonScaleDown then ReasonScaledDown
      else ReasonAutoscalingActive)"

section \<open>The patch\<close>

text \<open>A patch that succeeds replaces the object in memory by the server's answer.\<close>

datatype PatchResult = PatchOk ModelDeployment | PatchNotFound | PatchError string

fun applyReplicas :: "ModelDeployment \<Rightarrow> PatchResult \<Rightarrow> i32 \<Rightarrow> ModelDeployment \<times> string option" where
  "applyReplicas md (PatchOk resp) n = (with_replicas resp n, None)"
| "applyReplicas md PatchNotFound n = (md, None)"
| "applyReplicas md (PatchError e) n = (md, Some (''scaling to '' @ fmt_d n @ '' replicas: '' @ e))"

section \<open>The handler\<close>

record ScaleResult =
  sc_Verdict :: autoscaleVerdict
  sc_Err :: "string option"
  sc_Object :: ModelDeployment
  sc_Events :: "Event list"

definition verdict :: "ConditionStatus \<Rightarrow> string \<Rightarrow> string \<Rightarrow> AutoscalingStatus option \<Rightarrow> go_duration \<Rightarrow> autoscaleVerdict" where
  "verdict st reason message aus requeue =
     \<lparr>av_Status = st, av_Reason = reason, av_Message = message, av_Autoscaling = aus, av_RequeueAfter = requeue\<rparr>"

definition scale_observation ::
    "Reconciler \<Rightarrow> ModelDeployment \<Rightarrow> Deployment option \<Rightarrow> Deployment option \<Rightarrow> Observation" where
  "scale_observation r md primaryDep canaryDep =
     (let prov = autoscalingProviderFor r md;
          (scopeReady, scopeMessage) = metricsScopeReady r prov md (ResolvedAutoscaleWindow (md_Autoscaling md))
            (readyReplicasFor primaryDep) (readyReplicasFor canaryDep)
      in if \<not> scopeReady then no_observation (''resource-scoped metric schema is not ready: '' @ scopeMessage)
         else sampleAutoscalingMetricFrom md prov)"

definition scale_input ::
    "Reconciler \<Rightarrow> ModelDeployment \<Rightarrow> Deployment option \<Rightarrow> Deployment option \<Rightarrow> AutoscaleInput" where
  "scale_input r md primaryDep canaryDep =
     (let spec = md_Autoscaling md
      in \<lparr>ai_Now = rr_Now r, ai_Current = replicasFor md,
          ai_ReadyReplicas = readyAcrossVariants primaryDep canaryDep,
          ai_Observation = scale_observation r md primaryDep canaryDep,
          ai_Config = \<lparr>cf_MinReplicas = (case spec of None \<Rightarrow> 0 | Some s \<Rightarrow> au_MinReplicas s),
                       cf_MaxReplicas = (case spec of None \<Rightarrow> 0 | Some s \<Rightarrow> au_MaxReplicas s),
                       cf_Target = ResolvedTarget spec, cf_Tolerance = ResolvedTolerance spec,
                       cf_ScaleUpStabilization = ResolvedScaleUpStabilization spec,
                       cf_ScaleDownStabilization = ResolvedScaleDownStabilization spec\<rparr>,
          ai_History = recommendationsFrom (ms_Autoscaling (md_Status md))\<rparr>)"

definition msg_scaling_off :: string where
  "msg_scaling_off = ''Replica count is owned outside this operator: set spec.autoscaling.mode '' @
     ''to Builtin, or drive .spec.replicas with kubectl scale or a HorizontalPodAutoscaler''"

definition msg_scaling_conflict :: "string \<Rightarrow> string" where
  "msg_scaling_conflict name = ''HorizontalPodAutoscaler '' @ name @ '' also targets this ModelDeployment while '' @
     ''spec.autoscaling.mode is Builtin. Two controllers writing .spec.replicas from different '' @
     ''signals will fight; the built-in autoscaler is standing down. Delete the HPA, or set mode to Off.''"

definition scale_events :: "ModelDeployment \<Rightarrow> AutoscaleOutput \<Rightarrow> Event list" where
  "scale_events md out =
     (case ao_Direction out of
        DirectionUp \<Rightarrow> [\<lparr>ev_Type = EventNormal, ev_Reason = EventReasonScaledUp, ev_Action = ''Autoscale'',
                        ev_Message = ao_Message out\<rparr>]
      | DirectionDown \<Rightarrow> [\<lparr>ev_Type = EventNormal, ev_Reason = EventReasonScaledDown, ev_Action = ''Autoscale'',
                          ev_Message = ao_Message out\<rparr>]
      | DirectionNone \<Rightarrow> [])"

definition reconcileAutoscaling ::
    "Reconciler \<Rightarrow> ModelDeployment \<Rightarrow> Deployment option \<Rightarrow> Deployment option \<Rightarrow> ListResult \<Rightarrow> PatchResult \<Rightarrow> ScaleResult" where
  "reconcileAutoscaling r md primaryDep canaryDep hpas patch =
     (let spec = md_Autoscaling md; poll = ResolvedPollInterval spec
      in if \<not> AutoscalingEnabled spec then
           \<lparr>sc_Verdict = verdict ConditionFalse ReasonAutoscalingDisabled msg_scaling_off None 0,
            sc_Err = None, sc_Object = md, sc_Events = []\<rparr>
         else case externalScalerConflict md hpas of
           Inl err \<Rightarrow>
             \<lparr>sc_Verdict = verdict ConditionUnknown ReasonReconciling
                (''Could not check for a conflicting HorizontalPodAutoscaler: '' @ err) None 0,
              sc_Err = Some err, sc_Object = md, sc_Events = []\<rparr>
         | Inr conflict \<Rightarrow>
             if conflict \<noteq> '''' then
               \<lparr>sc_Verdict = verdict ConditionFalse ReasonAutoscalingConflict (msg_scaling_conflict conflict) None poll,
                sc_Err = None, sc_Object = md,
                sc_Events = eventOnce md ConditionAutoscalingReady ReasonAutoscalingConflict
                  \<lparr>ev_Type = EventWarning, ev_Reason = EventReasonAutoscalingConflict, ev_Action = ''Autoscale'',
                   ev_Message = msg_scaling_conflict conflict\<rparr>\<rparr>
             else
               let inp = scale_input r md primaryDep canaryDep;
                   out = Recommend (rr_OutOfRange r) inp;
                   aus = autoscalingStatusFrom out (ai_Observation inp) (ms_Autoscaling (md_Status md));
                   v = (if ao_Valid out
                        then verdict ConditionTrue (autoscalingReason (ao_Reason out)) (ao_Message out) (Some aus) poll
                        else verdict ConditionFalse ReasonAutoscalingNoMetrics (ao_Message out) (Some aus) poll);
                   evs = (if ao_Valid out then []
                          else eventOnce md ConditionAutoscalingReady ReasonAutoscalingNoMetrics
                            \<lparr>ev_Type = EventWarning, ev_Reason = EventReasonAutoscalingNoMetrics,
                             ev_Action = ''Autoscale'', ev_Message = ao_Message out\<rparr>)
               in if \<not> ao_Changed out then \<lparr>sc_Verdict = v, sc_Err = None, sc_Object = md, sc_Events = evs\<rparr>
                  else case applyReplicas md patch (ao_Replicas out) of
                    (md', Some err) \<Rightarrow> \<lparr>sc_Verdict = v, sc_Err = Some err, sc_Object = md', sc_Events = evs\<rparr>
                  | (md', None) \<Rightarrow>
                      \<lparr>sc_Verdict = v\<lparr>av_Autoscaling := Some (aus\<lparr>aus_LastScaleTime := Some (rr_Now r)\<rparr>)\<rparr>,
                       sc_Err = None, sc_Object = md', sc_Events = evs @ scale_events md out\<rparr>)"

end
