(* ===== verification/Controller_Props.thy ===== *)
theory Controller_Props
  imports Controller_Scale Canary_Runs
begin

text \<open>
  What one pass of the controller promises on top of the state machine: planning always returns for a
  specification the schema admits and divides exactly the requested replicas; a round is consumed only
  behind the metric-scope handshake, and a pending handshake spends no budget; measuring the traffic
  share changes nothing but its display and the timer; and the state an answer carries is coherent with
  its action, which is what the status relies on.
\<close>

section \<open>Frames\<close>

lemma observeCanaryTraffic_frame [simp]:
  "out_State (observeCanaryTraffic r md plan now out) = out_State out"
  "out_Action (observeCanaryTraffic r md plan now out) = out_Action out"
  "out_DesiredWeight (observeCanaryTraffic r md plan now out) = out_DesiredWeight out"
  "out_RealizedWeight (observeCanaryTraffic r md plan now out) = out_RealizedWeight out"
  "out_Primary (observeCanaryTraffic r md plan now out) = out_Primary out"
  "out_Canary (observeCanaryTraffic r md plan now out) = out_Canary out"
  "out_Reason (observeCanaryTraffic r md plan now out) = out_Reason out"
  "out_Message (observeCanaryTraffic r md plan now out) = out_Message out"
  "out_ReadyReplicas (observeCanaryTraffic r md plan now out) = out_ReadyReplicas out"
  "out_AvailableReplicas (observeCanaryTraffic r md plan now out) = out_AvailableReplicas out"
  by (simp_all add: observeCanaryTraffic_def Let_def split: option.split prod.split)

lemma decided_frame [simp]:
  "out_State (decided r md plan inp pending) = out_State (Next inp)"
  "out_Action (decided r md plan inp pending) = out_Action (Next inp)"
  "out_Primary (decided r md plan inp pending) = out_Primary (Next inp)"
  "out_Canary (decided r md plan inp pending) = out_Canary (Next inp)"
  "out_DesiredWeight (decided r md plan inp pending) = out_DesiredWeight (Next inp)"
  "out_RealizedWeight (decided r md plan inp pending) = out_RealizedWeight (Next inp)"
  by (simp_all add: decided_def Let_def split: option.split)

lemma gated_input_frame [simp]:
  "in_TotalReplicas (fst (gated_input r md plan target inp)) = in_TotalReplicas inp"
  "in_TargetRevision (fst (gated_input r md plan target inp)) = in_TargetRevision inp"
  "in_StableRevision (fst (gated_input r md plan target inp)) = in_StableRevision inp"
  "in_Plan (fst (gated_input r md plan target inp)) = in_Plan inp"
  "in_Now (fst (gated_input r md plan target inp)) = in_Now inp"
  "in_Deployment (fst (gated_input r md plan target inp)) = in_Deployment inp"
  "in_Aborted (fst (gated_input r md plan target inp)) = in_Aborted inp"
  "in_Approved (fst (gated_input r md plan target inp)) = in_Approved inp"
  "st_Phase (in_State (fst (gated_input r md plan target inp))) = st_Phase (in_State inp)"
  "st_Revision (in_State (fst (gated_input r md plan target inp))) = st_Revision (in_State inp)"
  "st_FailedRevision (in_State (fst (gated_input r md plan target inp))) = st_FailedRevision (in_State inp)"
  "st_counters (in_State (fst (gated_input r md plan target inp))) = st_counters (in_State inp)"
  by (simp_all add: gated_input_def Let_def split: prod.split)

lemma canary_input_fields [simp]:
  "in_TotalReplicas (canary_input r md plan target dep n) = n"
  "in_TargetRevision (canary_input r md plan target dep n) = target"
  "in_StableRevision (canary_input r md plan target dep n) = ms_LastGoodRevision (md_Status md)"
  "in_State (canary_input r md plan target dep n) = canaryStateFrom md"
  "in_Plan (canary_input r md plan target dep n) = plan"
  "in_Now (canary_input r md plan target dep n) = rr_Now r"
  "in_Round (canary_input r md plan target dep n) = None"
  by (simp_all add: canary_input_def)

lemma with_failed_fields [simp]:
  "rl_PrimaryRevision (with_failed rv res) = rl_PrimaryRevision res"
  "rl_CanaryRevision (with_failed rv res) = rl_CanaryRevision res"
  "rl_PrimaryReplicas (with_failed rv res) = rl_PrimaryReplicas res"
  "rl_CanaryReplicas (with_failed rv res) = rl_CanaryReplicas res"
  "rl_Active (with_failed rv res) = rl_Active res" "rl_RolledBack (with_failed rv res) = rl_RolledBack res"
  "rl_StallReverted (with_failed rv res) = rl_StallReverted res" "rl_Round (with_failed rv res) = rl_Round res"
  "out_Action (rl_Output (with_failed rv res)) = out_Action (rl_Output res)"
  "st_FailedRevision (out_State (rl_Output (with_failed rv res))) = rv"
  "st_Phase (out_State (rl_Output (with_failed rv res))) = st_Phase (out_State (rl_Output res))"
  "st_Revision (out_State (rl_Output (with_failed rv res))) = st_Revision (out_State (rl_Output res))"
  by (simp_all add: with_failed_def)

text \<open>The input the state machine decides on in a pass.\<close>

definition pass_input ::
    "Reconciler \<Rightarrow> ModelDeployment \<Rightarrow> Plan \<Rightarrow> string \<Rightarrow> Deployment option \<Rightarrow> Input" where
  "pass_input r md plan target dep =
     fst (gated_input r md plan target (Observe (canary_input r md plan target dep (replicasFor md))))"

lemma planCanary_Some:
  assumes "canaryPlan r md = Some plan"
  shows "\<exists>pending. planCanary r md target dep (replicasFor md) =
    Some (carry_out md target (replicasFor md) (decided r md plan (pass_input r md plan target dep) pending)
            (in_Round (pass_input r md plan target dep)))"
  using assms
  by (cases "gated_input r md plan target (Observe (canary_input r md plan target dep (replicasFor md)))")
    (auto simp: planCanary_def pass_input_def)

section \<open>Actions and positions\<close>

text \<open>The position of the state machine after a decision, by its action.\<close>

fun coherent :: "string \<Rightarrow> Action \<Rightarrow> State \<Rightarrow> bool" where
  "coherent target ActionNone st \<longleftrightarrow> (\<exists>f. st = zero_State\<lparr>st_FailedRevision := f\<rparr>)"
| "coherent target ActionStart st \<longleftrightarrow> st_Phase st = PhaseWaiting \<and> st_Revision st = target"
| "coherent target ActionAdvance st \<longleftrightarrow> st_Phase st = PhaseWaiting \<and> st_Revision st = target"
| "coherent target ActionWait st \<longleftrightarrow> st_Phase st \<in> {PhaseWaiting, PhaseProgressing} \<and> st_Revision st = target"
| "coherent target ActionPause st \<longleftrightarrow> st_Phase st = PhasePaused \<and> st_Revision st = target"
| "coherent target ActionPromote st \<longleftrightarrow> st_Phase st = PhasePromoting \<and> st_Revision st = target"
| "coherent target ActionRollback st \<longleftrightarrow> st_Phase st = PhaseRollingBack"
| "coherent target (ActionOther s) st \<longleftrightarrow> False"

abbreviation coherent_out :: "string \<Rightarrow> Output \<Rightarrow> bool" where
  "coherent_out target out \<equiv> coherent target (out_Action out) (out_State out)"

lemma begin_coherent: "coherent_out (in_TargetRevision inp) (begin_canary inp)"
  by (cases rule: begin_cases [of inp]) (auto simp: answer zero_State_def)

lemma advance_coherent: "coherent_out (st_Revision st) (advance inp st)"
  by (cases rule: advance_cases [where inp = inp and st = st]) (auto simp: answer)

lemma judge_coherent: "coherent_out (st_Revision st) (judge inp st w p c v)"
  using advance_coherent [of st inp]
  by (cases rule: judge_cases [where inp = inp and st = st and w = w and p = p and c = c and v = v])
    (auto simp: answer)

lemma analyse_coherent:
  assumes "st_Revision st = in_TargetRevision inp"
  shows "coherent_out (in_TargetRevision inp) (analyse inp st)"
proof (cases rule: analyse_cases [where inp = inp and st = st])
  case (judge r)
  let ?st = "st\<lparr>st_LastAnalysis := in_Now inp, st_counters := apply_verdict (st_counters st) (rd_Verdict r)\<rparr>"
  have "st_Revision ?st = in_TargetRevision inp"
    using assms by simp
  with judge(6) judge_coherent [of ?st] show ?thesis
    by metis
qed (use assms in \<open>auto simp: answer\<close>)

lemma Next_coherent: "coherent_out (in_TargetRevision inp) (Next inp)"
proof (cases rule: Next_cases [of inp])
  case promoting
  then show ?thesis
    using begin_coherent [of inp]
    by (cases rule: promoting_cases [where inp = inp and st = "in_State inp"]) (auto simp: answer zero_State_def)
next
  case paused
  then show ?thesis
    by (cases rule: paused_cases [where inp = "Observe inp" and st = "in_State (Observe inp)"]) (auto simp: answer)
next
  case analyse
  then show ?thesis
    using analyse_coherent [of "in_State (Observe inp)" "Observe inp"] by simp
qed (use begin_coherent in \<open>auto simp: answer\<close>)

section \<open>Planning returns and divides the replicas\<close>

definition spec_admitted :: "ModelDeployment \<Rightarrow> bool" where
  "spec_admitted md \<longleftrightarrow> (case ro_Canary (md_Rollout md) of None \<Rightarrow> True | Some c \<Rightarrow> valid_ladder_spec c)"

lemma canaryPlan_returns:
  assumes "spec_admitted md" "IsCanary (Some (md_Rollout md))"
  shows "\<exists>plan. canaryPlan r md = Some plan"
proof -
  obtain c where c: "ro_Canary (md_Rollout md) = Some c" "valid_ladder_spec c"
    using assms by (auto simp: spec_admitted_def IsCanary_def split: option.splits)
  then obtain ws where "StepLadder (Some c) = Some ws"
    using ladder_well_formed by blast
  with c show ?thesis
    by (simp add: canaryPlan_def canary_spec_def Let_def)
qed

definition divides :: "i32 \<Rightarrow> rollout \<Rightarrow> bool" where
  "divides n res \<longleftrightarrow> rl_PrimaryReplicas res + rl_CanaryReplicas res = n
     \<and> 0 \<le> rl_PrimaryReplicas res \<and> 0 \<le> rl_CanaryReplicas res
     \<and> (rl_Active res \<or> rl_CanaryReplicas res = 0)"

lemma carry_out_divides:
  assumes "conserves inp out" "coherent_out target out" "in_TotalReplicas inp = n" "0 \<le> n" "target \<noteq> ''''"
  shows "divides n (carry_out md target n out rnd)"
  using assms
  by (cases "out_Action out") (auto simp: carry_out_def divides_def conserves_def zero_rollout_def Let_def)

lemma planCanary_divides:
  assumes "canaryPlan r md = Some plan" "is_i32 (replicasFor md)" "0 \<le> replicasFor md" "target \<noteq> ''''"
  shows "\<exists>res. planCanary r md target dep (replicasFor md) = Some res \<and> divides (replicasFor md) res"
proof -
  let ?inp = "pass_input r md plan target dep"
  have n: "in_TotalReplicas ?inp = replicasFor md" and t: "in_TargetRevision ?inp = target"
    by (simp_all add: pass_input_def)
  obtain pending where p: "planCanary r md target dep (replicasFor md) =
      Some (carry_out md target (replicasFor md) (decided r md plan ?inp pending) (in_Round ?inp))"
    using planCanary_Some [OF assms(1)] by blast
  have "conserves ?inp (decided r md plan ?inp pending)"
    using Next_conserves [of ?inp] assms(2,3) by (simp add: n conserves_def)
  moreover have "coherent_out target (decided r md plan ?inp pending)"
    using Next_coherent [of ?inp] by (simp add: t)
  ultimately show ?thesis
    using p carry_out_divides [OF _ _ n assms(3,4)] by blast
qed

lemma hold_divides: "divides (replicasFor md) res \<Longrightarrow> 0 \<le> replicasFor md \<Longrightarrow>
    divides (replicasFor md) (holdRejectedRevision md res target)"
  by (auto simp: holdRejectedRevision_def Let_def divides_def)

lemma stall_divides: "divides n res \<Longrightarrow> divides n (guardAgainstStall md res dep)"
  by (auto simp: guardAgainstStall_def Let_def divides_def)

lemma planRollout_returns:
  assumes "spec_admitted md" "is_i32 (replicasFor md)" "0 \<le> replicasFor md" "target \<noteq> ''''"
  shows "\<exists>res. planRollout r md target primaryDep canaryDep = Some res \<and> divides (replicasFor md) res"
proof -
  obtain res where res: "(if IsCanary (Some (md_Rollout md)) then planCanary r md target canaryDep (replicasFor md)
      else Some (zero_rollout\<lparr>rl_PrimaryRevision := target, rl_PrimaryReplicas := replicasFor md\<rparr>)) = Some res"
      "divides (replicasFor md) res"
  proof (cases "IsCanary (Some (md_Rollout md))")
    case True
    then obtain plan where "canaryPlan r md = Some plan"
      using canaryPlan_returns [OF assms(1)] by blast
    then show thesis
      using that True planCanary_divides [OF _ assms(2-4)] by fastforce
  next
    case False
    then show thesis
      using that assms(3) by (simp add: divides_def zero_rollout_def)
  qed
  then have "divides (replicasFor md) (guardAgainstStall md (holdRejectedRevision md res target) primaryDep)"
    using assms(3) by (intro stall_divides hold_divides)
  moreover have "planRollout r md target primaryDep canaryDep
      = Some (guardAgainstStall md (holdRejectedRevision md res target) primaryDep)"
    using res(1) by (simp add: planRollout_def)
  ultimately show ?thesis
    by blast
qed

text \<open>
  C9. For a specification inside the schema's bounds planning a pass returns, under both strategies, and
  the plan divides exactly the requested replicas: the two counts are non-negative, sum to
  \<open>spec.replicas\<close>, and the canary has any only while it is active, whatever the rollback guards did to
  the plan.
\<close>

theorem planRollout_divides:
  assumes "spec_admitted md" "is_i32 (replicasFor md)" "0 \<le> replicasFor md" "target \<noteq> ''''"
  shows "\<exists>res. planRollout r md target primaryDep canaryDep = Some res
    \<and> rl_PrimaryReplicas res + rl_CanaryReplicas res = replicasFor md
    \<and> 0 \<le> rl_PrimaryReplicas res \<and> 0 \<le> rl_CanaryReplicas res
    \<and> (0 < rl_CanaryReplicas res \<longrightarrow> rl_Active res)"
  using planRollout_returns [OF assms] by (fastforce simp: divides_def)

section \<open>Rounds and the metric scope\<close>

lemma scope_loop_ready:
  "fst (scope_loop p md now window vs) \<Longrightarrow> (variant, n) \<in> set vs \<Longrightarrow> 0 < n \<Longrightarrow>
     \<exists>s v. p (scope_query md now window variant) = Inr s \<and> sa_Count s = 1 \<and> sa_Value s = Fin v \<and> of_int n \<le> v"
proof (induction p md now window vs rule: scope_loop.induct)
  case (2 p md now window variant' replicas vs)
  show ?case
  proof (cases "replicas \<le> 0")
    case False
    obtain s where ps: "p (scope_query md now window variant') = Inr s"
      using 2(3) False by (auto split: sum.splits)
    have s: "sa_Count s = 1" "\<not> IsNaN (sa_Value s)" "\<not> IsInf (sa_Value s)"
        "\<not> flt (sa_Value s) (f64_of_i32 replicas)" "fst (scope_loop p md now window vs)"
      using 2(3) False ps by (simp_all split: if_splits)
    then obtain v where "sa_Value s = Fin v" "of_int replicas \<le> v"
      by (cases "sa_Value s") (auto simp: f64_of_i32_def)
    with s ps 2 False show ?thesis
      by auto
  qed (use 2 in auto)
qed simp

text \<open>What the handshake established, for one variant that should have replicas.\<close>

definition scope_seen :: "Reconciler \<Rightarrow> ModelDeployment \<Rightarrow> go_duration \<Rightarrow> string \<Rightarrow> i32 \<Rightarrow> bool" where
  "scope_seen r md window variant n \<longleftrightarrow> n \<le> 0 \<or>
     (\<exists>p s v. providerFor r md = Some p \<and> p (scope_query md (rr_Now r) window variant) = Inr s
        \<and> sa_Count s = 1 \<and> sa_Value s = Fin v \<and> of_int n \<le> v)"

lemma metricsScopeReady_seen:
  assumes "fst (metricsScopeReady r (providerFor r md) md window a b)"
  shows "scope_seen r md window ''primary'' a" "scope_seen r md window ''canary'' b"
proof -
  obtain p where p: "providerFor r md = Some p"
      "fst (scope_loop p md (rr_Now r) window [(''primary'', a), (''canary'', b)])"
    using assms by (auto simp: metricsScopeReady_def split: option.splits if_splits)
  show "scope_seen r md window ''primary'' a" "scope_seen r md window ''canary'' b"
    using scope_loop_ready [OF p(2), of "''primary''" a] scope_loop_ready [OF p(2), of "''canary''" b] p(1)
    unfolding scope_seen_def by fastforce+
qed

lemma carry_out_round [simp]: "rl_Round (carry_out md target n out k) = k"
  by (simp add: carry_out_def zero_rollout_def Let_def split: Action.split)

lemma guarded_round [simp]: "rl_Round (guardAgainstStall md res dep) = rl_Round res"
  "rl_Round (holdRejectedRevision md res target) = rl_Round res"
  by (simp_all add: guardAgainstStall_def holdRejectedRevision_def Let_def)

text \<open>
  C15. A round is run only behind its gates. Whenever a pass consumed an analysis round, the canary was not
  aborted, a round was due at that time for the observed state, and either the metric schema of this
  incarnation had been verified before or it was verified in this very pass: for each variant that should
  have replicas the backend returned exactly one finite count, at least as large as the replicas planned
  for it.
\<close>

theorem round_needs_scope:
  assumes "planRollout r md target pd cd = Some res" "IsCanary (Some (md_Rollout md))" "rl_Round res = Some rnd"
  shows "\<exists>plan inp. canaryPlan r md = Some plan
    \<and> inp = Observe (canary_input r md plan target cd (replicasFor md))
    \<and> \<not> annotationTrue md AnnoAbort \<and> DueForAnalysis (rr_Now r) plan (in_State inp)
    \<and> (st_MetricScopeReady (in_State inp)
       \<or> scope_seen r md (pl_Window plan) ''primary'' (out_Primary (Next inp))
         \<and> scope_seen r md (pl_Window plan) ''canary'' (out_Canary (Next inp)))"
proof -
  obtain plan where plan: "canaryPlan r md = Some plan"
    using assms(1,2) by (auto simp: planRollout_def planCanary_def Let_def)
  let ?inp = "Observe (canary_input r md plan target cd (replicasFor md))"
  obtain pending where p: "planCanary r md target cd (replicasFor md) =
      Some (carry_out md target (replicasFor md) (decided r md plan (pass_input r md plan target cd) pending)
              (in_Round (pass_input r md plan target cd)))"
    using planCanary_Some [OF plan] by blast
  have "in_Round (pass_input r md plan target cd) = Some rnd"
    using assms p by (auto simp: planRollout_def)
  moreover have "in_Round ?inp = None"
    by (simp add: Observe_def Let_def split: prod.split)
  ultimately have "\<not> in_Aborted ?inp" "DueForAnalysis (rr_Now r) plan (in_State ?inp)"
    "st_MetricScopeReady (in_State ?inp) \<or> fst (metricsScopeReady r (providerFor r md) md (pl_Window plan)
       (out_Primary (Next ?inp)) (out_Canary (Next ?inp)))"
    by (auto simp: pass_input_def gated_input_def Let_def split: if_splits prod.splits)
  then show ?thesis
    using plan metricsScopeReady_seen by (auto simp: canary_input_def)
qed

section \<open>Samples\<close>

definition sample_reconciler :: Reconciler where
  "sample_reconciler = \<lparr>rr_Now = 1000000 * go_Second, rr_Provider = Some (\<lambda>_. Inl ''unreachable''),
     rr_Prometheus = (\<lambda>_ _ _. Inl ''unreachable''),
     rr_MustParse = (\<lambda>s. \<lparr>q_MilliValue = 1500, q_String = s\<rparr>), rr_OutOfRange = (\<lambda>_. 0)\<rparr>"

definition sample_status :: ModelDeploymentStatus where
  "sample_status = \<lparr>ms_ObservedGeneration = 1, ms_Phase = ApiAvailable, ms_Replicas = 5, ms_Selector = '''',
     ms_ReadyReplicas = 5, ms_UpdatedReplicas = 5, ms_AvailableReplicas = 5, ms_StableRevision = ''a'',
     ms_LastGoodRevision = ''a'', ms_Endpoint = '''', ms_Canary = None, ms_Autoscaling = None,
     ms_Conditions = []\<rparr>"

definition sample_rollout :: "RolloutStrategyType \<Rightarrow> RolloutSpec" where
  "sample_rollout t = \<lparr>ro_Type = t, ro_MaxSurge = None, ro_MaxUnavailable = None, ro_ProgressDeadline = None, ro_AutoRollback = None,
     ro_Canary = Some sample_canary_spec\<rparr>"

definition sample_engine :: EngineSpec where
  "sample_engine = \<lparr>en_Type = EngineLlamaCPP, en_Image = '''', en_ImagePullPolicy = '''', en_ContextSize = None,
     en_MaxConcurrency = Some 8, en_Threads = None, en_ExtraArgs = [''--flash-attn''], en_Env = [],
     en_Resources = zero_resources, en_APIKeySecretRef = None\<rparr>"

definition sample_spec :: "RolloutStrategyType \<Rightarrow> ModelDeploymentSpec" where
  "sample_spec t = \<lparr>sp_Replicas = Some 5,
     sp_Model = \<lparr>mo_Name = ''qwen'', mo_Source = \<lparr>so_Image = Some \<lparr>im_Image = ''reg/qwen:1'',
       im_Path = ''/weights/qwen.gguf'', im_PullPolicy = ''''\<rparr>, so_HuggingFace = None,
       so_PersistentVolumeClaim = None\<rparr>\<rparr>,
     sp_Engine = sample_engine,
     sp_Serving = \<lparr>sv_Port = 0, sv_StartupTimeout = None, sv_Shim = zero_shim\<rparr>,
     sp_Rollout = sample_rollout t,
     sp_Observability = \<lparr>ob_ServiceMonitor = None, ob_PrometheusRule = None, ob_SLO = None\<rparr>,
     sp_Autoscaling = None\<rparr>"

definition sample_md :: "RolloutStrategyType \<Rightarrow> ModelDeployment" where
  "sample_md t = \<lparr>md_Namespace = ''prod'', md_Name = ''chat'', md_UID = ''u1'', md_Generation = 2, md_ResourceVersion = ''7'', md_DeletionTimestamp = None,
     md_Annotations = (\<lambda>_. None), md_Spec = sample_spec t, md_Status = sample_status\<rparr>"

definition sample_deployment :: "i32 \<Rightarrow> DeploymentCondition list \<Rightarrow> Deployment" where
  "sample_deployment n conds = \<lparr>dp_UID = ''u'', dp_Generation = 1, dp_SpecReplicas = Some n,
     dp_TemplateLabels = (\<lambda>k. if k = LabelRevision then Some ''b'' else None),
     dp_PodSpec = zero_pod, dp_ObservedGeneration = 1,
     dp_Replicas = n, dp_UpdatedReplicas = n, dp_ReadyReplicas = n, dp_AvailableReplicas = n,
     dp_Conditions = conds\<rparr>"

lemmas sample_md_defs = sample_reconciler_def sample_status_def sample_rollout_def sample_spec_def sample_md_def
  sample_deployment_def

lemma sample_md_admitted: "spec_admitted (sample_md t)"
  by (simp add: spec_admitted_def sample_md_defs sample_canary_spec_def valid_ladder_spec_def schema_bound_def)

theorem planRollout_divides_witness:
  "\<exists>res. planRollout sample_reconciler (sample_md RolloutCanary) ''b'' None None = Some res
     \<and> rl_PrimaryReplicas res + rl_CanaryReplicas res = 5"
proof -
  have n: "replicasFor (sample_md RolloutCanary) = 5"
    by (simp add: replicasFor_def sample_md_def sample_spec_def)
  show ?thesis
    using planRollout_divides [OF sample_md_admitted, of RolloutCanary "''b''" sample_reconciler None None]
    by (auto simp: n is_i32_def)
qed

text \<open>A canary of revision b on its first rung of two replicas, ready and warm, its schema verified.\<close>

definition sample_canary_status :: CanaryStatus where
  "sample_canary_status = \<lparr>ct_Revision = ''b'', ct_StableRevision = ''a'', ct_FailedRevision = '''',
     ct_DesiredWeight = 30, ct_CurrentWeight = 40, ct_ObservedWeight = None, ct_ObservedAt = None,
     ct_ObservationWindow = None, ct_ObservationReason = '''', ct_MetricScopeReady = True, ct_Step = 0,
     ct_Steps = 2, ct_FailedChecks = 0, ct_ConsecutiveErrors = 0, ct_ConsecutiveInconclusive = 0,
     ct_Checks = [], ct_StartTime = Some (999000 * go_Second), ct_LastAnalysisTime = None,
     ct_AvailableSince = Some (999700 * go_Second),
     ct_ReadinessTarget = \<lparr>rt_Step = 0, rt_Weight = 30, rt_TotalReplicas = 5, rt_CanaryReplicas = 2,
       rt_Generation = 1, rt_DeploymentUID = ''u''\<rparr>,
     ct_ReadyReplicas = 2, ct_AvailableReplicas = 2, ct_Message = ''''\<rparr>"

definition sample_canary_md :: ModelDeployment where
  "sample_canary_md = (sample_md RolloutCanary)\<lparr>md_Status := sample_status
     \<lparr>ms_Phase := ApiCanarying, ms_Canary := Some sample_canary_status\<rparr>\<rparr>"

definition sample_full_plan :: Plan where
  "sample_full_plan = \<lparr>pl_Weights = [30, 50], pl_Interval = 30 * go_Second, pl_InitialDelay = 60 * go_Second,
     pl_Window = 60 * go_Second, pl_FailureThreshold = 3, pl_ConsecutiveErrorLimit = 5, pl_InconclusiveLimit = 5,
     pl_OnInconclusive = InconclusiveWait, pl_RequireApproval = False, pl_ProgressDeadline = 600 * go_Second\<rparr>"

lemma sample_full_plan: "canaryPlan sample_reconciler sample_canary_md = Some sample_full_plan"
  by (simp add: canaryPlan_def canary_spec_def sample_canary_md_def sample_md_defs StepLadder_sample Let_def
      sample_full_plan_def) 
    (simp add: sample_canary_spec_def sample_analysis_def ResolvedInterval_def getInterval_def durationOr_def
      ResolvedInitialDelay_def ResolvedWindow_def ResolvedFailureThreshold_def ResolvedConsecutiveErrorLimit_def
      ResolvedInconclusiveLimit_def ResolvedOnInconclusive_def int32Or_def ApprovalRequired_def
      defaultAnalysisInterval_def defaultAnalysisInitialDelay_def defaultAnalysisWindow_def
      defaultFailureThreshold_def defaultConsecutiveErrorLimit_def defaultInconclusiveLimit_def
      progressDeadlineSeconds_def wrap64_def go_Second_def)

lemma sample_due: "DueForAnalysis (rr_Now sample_reconciler) sample_full_plan
    (in_State (Observe (canary_input sample_reconciler sample_canary_md sample_full_plan ''b''
       (Some (sample_deployment 2 [])) 5)))"
  by code_simp

lemma sample_scope: "st_MetricScopeReady (in_State (Observe (canary_input sample_reconciler sample_canary_md
    sample_full_plan ''b'' (Some (sample_deployment 2 [])) 5)))"
  by code_simp

lemma sample_round_runs:
  "\<exists>res. planRollout sample_reconciler sample_canary_md ''b'' None (Some (sample_deployment 2 [])) = Some res
     \<and> rl_Round res = Some (controller_analyse sample_reconciler sample_canary_md)"
proof -
  let ?cd = "Some (sample_deployment 2 [])"
  let ?inp = "Observe (canary_input sample_reconciler sample_canary_md sample_full_plan ''b'' ?cd 5)"
  have n: "replicasFor sample_canary_md = 5" and can: "IsCanary (Some (md_Rollout sample_canary_md))"
    and na: "\<not> annotationTrue sample_canary_md AnnoAbort" and rv: "st_Revision (canaryStateFrom sample_canary_md) = ''b''"
    by (simp_all add: replicasFor_def sample_canary_md_def sample_md_defs IsCanary_def sample_canary_spec_def
        annotationTrue_def map_get_def annotationEnabled_def canaryStateFrom_def sample_canary_status_def)
  have ab: "\<not> in_Aborted ?inp"
    using na by (simp add: canary_input_def)
  have rnd: "in_Round (pass_input sample_reconciler sample_canary_md sample_full_plan ''b'' ?cd)
      = Some (controller_analyse sample_reconciler sample_canary_md)"
    using sample_due sample_scope ab rv by (simp add: pass_input_def gated_input_def n)
  show ?thesis
    using planCanary_Some [OF sample_full_plan, of "''b''" ?cd] can rnd
    by (auto simp: planRollout_def)
qed

theorem round_needs_scope_witness:
  "DueForAnalysis (rr_Now sample_reconciler) sample_full_plan
     (in_State (Observe (canary_input sample_reconciler sample_canary_md sample_full_plan ''b''
       (Some (sample_deployment 2 [])) (replicasFor sample_canary_md))))
   \<and> \<not> annotationTrue sample_canary_md AnnoAbort"
proof -
  obtain res where res: "planRollout sample_reconciler sample_canary_md ''b'' None (Some (sample_deployment 2 [])) = Some res"
      "rl_Round res = Some (controller_analyse sample_reconciler sample_canary_md)"
    using sample_round_runs by blast
  have "IsCanary (Some (md_Rollout sample_canary_md))"
    by (simp add: sample_canary_md_def sample_md_defs IsCanary_def)
  from round_needs_scope [OF res(1) this res(2)] show ?thesis
    unfolding sample_full_plan by blast
qed

end
