(* ===== verification/Controller_Runs.thy ===== *)
theory Controller_Runs
  imports Controller_Props
begin

text \<open>
  Sequences of passes: the plan of a pass, the status it writes, and the next pass planned from that
  status. A rejected revision stays off the primary and the rollback target is kept through any number
  of passes; the position of a canary survives the round trip through the status.
\<close>

section \<open>The status a pass writes\<close>

lemma setCondition_fields [simp]:
  "ms_LastGoodRevision (setCondition setc s c) = ms_LastGoodRevision s"
  "ms_Canary (setCondition setc s c) = ms_Canary s"
  "ms_Autoscaling (setCondition setc s c) = ms_Autoscaling s"
  "ms_ReadyReplicas (setCondition setc s c) = ms_ReadyReplicas s"
  "ms_UpdatedReplicas (setCondition setc s c) = ms_UpdatedReplicas s"
  "ms_Replicas (setCondition setc s c) = ms_Replicas s"
  "ms_AvailableReplicas (setCondition setc s c) = ms_AvailableReplicas s"
  by (simp_all add: setCondition_def)

lemma setCondition_update [simp]:
  "(setCondition setc s c)\<lparr>ms_LastGoodRevision := x\<rparr> = setCondition setc (s\<lparr>ms_LastGoodRevision := x\<rparr>) c"
  by (simp add: setCondition_def)

lemmas condition_setters = setSpecValid_def setMetricsRegistered_def setModelReady_def setReady_def
  setMetricScopeReady_def setTrafficRoutingReady_def setAutoscalingReady_def

text \<open>The three verdicts a pass reaches about its workload.\<close>

definition pass_base :: "ModelDeployment \<Rightarrow> observed \<Rightarrow> ModelDeploymentStatus \<Rightarrow> ModelDeploymentStatus" where
  "pass_base md obs prev = base_status md obs prev (firstNonEmpty [ov_PrimaryRevision obs, ov_Revision obs])"

definition pass_available :: "ModelDeployment \<Rightarrow> observed \<Rightarrow> ModelDeploymentStatus \<Rightarrow> bool" where
  "pass_available md obs prev \<longleftrightarrow> cd_Status (availability (pass_base md obs prev) obs (md_Generation md)) = ConditionTrue"

definition pass_progressing :: "ModelDeployment \<Rightarrow> observed \<Rightarrow> ModelDeploymentStatus \<Rightarrow> bool" where
  "pass_progressing md obs prev = fst (snd (progress (pass_base md obs prev) obs (md_Generation md)))"

definition pass_stalled :: "ModelDeployment \<Rightarrow> observed \<Rightarrow> ModelDeploymentStatus \<Rightarrow> bool" where
  "pass_stalled md obs prev = snd (snd (progress (pass_base md obs prev) obs (md_Generation md)))"

lemma availability_cong: "ms_ReadyReplicas s = ms_ReadyReplicas t \<Longrightarrow> availability s obs g = availability t obs g"
  by (simp add: availability_def)

lemma progress_cong:
  assumes "ms_UpdatedReplicas s = ms_UpdatedReplicas t" "ms_Replicas s = ms_Replicas t"
    "ms_AvailableReplicas s = ms_AvailableReplicas t"
  shows "progress s obs g = progress t obs g"
proof -
  have "rolloutComplete s obs = rolloutComplete t obs"
    using assms by (intro ext) (simp add: rolloutComplete_def)
  then show ?thesis
    unfolding progress_def by (rule subst) (rule refl)
qed

lemma setCondition_availability [simp]: "availability (setCondition setc s c) obs g = availability s obs g"
  by (rule availability_cong) simp

lemma setCondition_progress [simp]: "progress (setCondition setc s c) obs g = progress s obs g"
  by (rule progress_cong) simp_all

definition banks :: "ModelDeployment \<Rightarrow> observed \<Rightarrow> ModelDeploymentStatus \<Rightarrow> bool" where
  "banks md obs prev \<longleftrightarrow> pass_available md obs prev \<and> \<not> pass_progressing md obs prev
     \<and> \<not> pass_stalled md obs prev \<and> \<not> canary_active (rl_Output (ov_Rollout obs))
     \<and> firstNonEmpty [ov_PrimaryRevision obs, ov_Revision obs] \<noteq> ''''"

lemma computeStatus_fields:
  "ms_LastGoodRevision (computeStatus setc md obs prev) =
     (if banks md obs prev then firstNonEmpty [ov_PrimaryRevision obs, ov_Revision obs]
      else ms_LastGoodRevision prev)"
  "ms_Canary (computeStatus setc md obs prev) = canary_status md obs prev"
  "ms_Autoscaling (computeStatus setc md obs prev) = av_Autoscaling (ov_Scaling obs)"
  "ms_Phase (computeStatus setc md obs prev) =
     derivePhase (pass_available md obs prev) (pass_progressing md obs prev) (pass_stalled md obs prev)
       (ms_LastGoodRevision (computeStatus setc md obs prev)) (ov_Rollout obs)"
proof -
  obtain c pr sl where p: "progress (pass_base md obs prev) obs (md_Generation md) = (c, pr, sl)"
    by (cases "progress (pass_base md obs prev) obs (md_Generation md)")
  note unfold = computeStatus_def Let_def condition_setters setAvailable_def setProgressing_def
    setCanaryHealthy_def banks_def pass_available_def pass_progressing_def pass_stalled_def
  have b: "base_status md obs prev (firstNonEmpty [ov_PrimaryRevision obs, ov_Revision obs]) = pass_base md obs prev"
    by (simp add: pass_base_def)
  have lg: "ms_LastGoodRevision (pass_base md obs prev) = ms_LastGoodRevision prev"
    by (simp add: pass_base_def base_status_def)
  show last: "ms_LastGoodRevision (computeStatus setc md obs prev) =
     (if banks md obs prev then firstNonEmpty [ov_PrimaryRevision obs, ov_Revision obs]
      else ms_LastGoodRevision prev)"
    unfolding unfold by (simp only: b setCondition_availability setCondition_progress p split_conv) (simp add: lg)
  show "ms_Canary (computeStatus setc md obs prev) = canary_status md obs prev"
    unfolding unfold by (simp only: b setCondition_availability setCondition_progress p split_conv) simp
  show "ms_Autoscaling (computeStatus setc md obs prev) = av_Autoscaling (ov_Scaling obs)"
    unfolding unfold by (simp only: b setCondition_availability setCondition_progress p split_conv) simp
  show "ms_Phase (computeStatus setc md obs prev) =
     derivePhase (pass_available md obs prev) (pass_progressing md obs prev) (pass_stalled md obs prev)
       (ms_LastGoodRevision (computeStatus setc md obs prev)) (ov_Rollout obs)"
    unfolding last
    unfolding unfold by (simp only: b setCondition_availability setCondition_progress p split_conv) (simp add: lg)
qed

section \<open>Passes\<close>

text \<open>
  A pass as the controller runs it: it reads the object (with the status of the pass before), plans for
  its target, and writes the status computed from what it observes afterwards. Everything else a pass
  meets - the specification and annotations at that time, the Deployments before and after, the verdicts
  on scaling and metrics - is free.
\<close>

record Pass =
  pa_Reconciler :: Reconciler
  pa_Object :: ModelDeployment
  pa_Target :: string
  pa_PrimaryDep :: "Deployment option"
  pa_CanaryDep :: "Deployment option"
  pa_Seen :: observed

definition pass_object :: "Pass \<Rightarrow> ModelDeploymentStatus \<Rightarrow> ModelDeployment" where
  "pass_object p status = (pa_Object p)\<lparr>md_Status := status\<rparr>"

definition pass_observed :: "Pass \<Rightarrow> ModelDeploymentStatus \<Rightarrow> rollout \<Rightarrow> observed" where
  "pass_observed p status res =
     (pa_Seen p)\<lparr>ov_DesiredReplicas := replicasFor (pass_object p status), ov_Revision := pa_Target p,
       ov_PrimaryRevision := rl_PrimaryRevision res, ov_Rollout := res\<rparr>"

definition run_pass ::
    "condition_setter \<Rightarrow> Pass \<Rightarrow> ModelDeploymentStatus \<Rightarrow> (rollout \<times> ModelDeploymentStatus) option" where
  "run_pass setc p status =
     map_option (\<lambda>res. (res, computeStatus setc (pass_object p status) (pass_observed p status res) status))
       (planRollout (pa_Reconciler p) (pass_object p status) (pa_Target p) (pa_PrimaryDep p) (pa_CanaryDep p))"

text \<open>
  Between two passes the status goes through the API server, whose encoding of times is not part of this
  program: \<open>enc\<close> is the time read back for a time written. (The Kubernetes types keep whole seconds.)
\<close>

definition reread :: "(go_time \<Rightarrow> go_time) \<Rightarrow> ModelDeploymentStatus \<Rightarrow> ModelDeploymentStatus" where
  "reread enc status = status
     \<lparr>ms_Canary := map_option (\<lambda>cs. cs\<lparr>ct_StartTime := map_option enc (ct_StartTime cs),
          ct_LastAnalysisTime := map_option enc (ct_LastAnalysisTime cs),
          ct_AvailableSince := map_option enc (ct_AvailableSince cs),
          ct_ObservedAt := map_option enc (ct_ObservedAt cs)\<rparr>) (ms_Canary status),
      ms_Autoscaling := map_option (\<lambda>a. a\<lparr>aus_LastScaleTime := map_option enc (aus_LastScaleTime a),
          aus_Recommendations := map (\<lambda>x. x\<lparr>sr_Time := enc (sr_Time x)\<rparr>) (aus_Recommendations a)\<rparr>)
        (ms_Autoscaling status)\<rparr>"

lemma reread_fields [simp]:
  "ms_LastGoodRevision (reread enc status) = ms_LastGoodRevision status"
  "ms_Phase (reread enc status) = ms_Phase status"
  by (simp_all add: reread_def)

fun run_passes ::
    "condition_setter \<Rightarrow> (go_time \<Rightarrow> go_time) \<Rightarrow> Pass list \<Rightarrow> ModelDeploymentStatus \<Rightarrow>
     (rollout \<times> ModelDeploymentStatus) list option" where
  "run_passes setc enc [] status = Some []"
| "run_passes setc enc (p # ps) status =
     (case run_pass setc p status of
        None \<Rightarrow> None
      | Some (res, status') \<Rightarrow>
          map_option (\<lambda>rest. (res, status') # rest) (run_passes setc enc ps (reread enc status')))"

section \<open>A rejected revision stays off the primary\<close>

definition rejected_status :: "string \<Rightarrow> string \<Rightarrow> ModelDeploymentStatus \<Rightarrow> bool" where
  "rejected_status target lg status \<longleftrightarrow>
     (\<exists>cs. ms_Canary status = Some cs \<and> ct_FailedRevision cs = target) \<and> ms_LastGoodRevision status = lg
     \<and> \<not> isActive (canaryPhaseFrom (ms_Phase status))"

lemma reread_rejected [simp]: "rejected_status target lg (reread enc status) = rejected_status target lg status"
  by (cases "ms_Canary status") (simp_all add: rejected_status_def reread_def)

definition reverted_plan :: "string \<Rightarrow> string \<Rightarrow> rollout \<Rightarrow> bool" where
  "reverted_plan target lg res \<longleftrightarrow> rl_PrimaryRevision res = lg \<and> rl_CanaryReplicas res = 0 \<and> rl_RolledBack res
     \<and> \<not> rl_Active res \<and> st_FailedRevision (out_State (rl_Output res)) = target
     \<and> out_Action (rl_Output res) \<notin> {ActionStart, ActionAdvance, ActionPause}"

lemma gated_inactive: "\<not> isActive (st_Phase (in_State inp)) \<Longrightarrow> gated_input r md plan target inp = (inp, None)"
  by (auto simp: gated_input_def DueForAnalysis_def)

lemma rejected_Next:
  assumes "\<not> isActive (st_Phase (in_State inp))" "st_FailedRevision (in_State inp) = in_TargetRevision inp"
    "in_TargetRevision inp \<noteq> ''''" "in_StableRevision inp \<noteq> in_TargetRevision inp"
  shows "out_Action (Next inp) \<in> {ActionNone, ActionPromote}"
    "st_FailedRevision (out_State (Next inp)) = in_TargetRevision inp"
proof -
  have b: "begin_canary inp = settled inp ReasonCanaryRolledBack (msg_not_retried (in_TargetRevision inp))"
    using assms by (simp add: begin_canary_def)
  show "out_Action (Next inp) \<in> {ActionNone, ActionPromote}"
    by (cases rule: Next_cases [of inp];
        cases rule: promoting_cases [where inp = inp and st = "in_State inp"])
      (use assms b in \<open>auto simp: answer\<close>)
  show "st_FailedRevision (out_State (Next inp)) = in_TargetRevision inp"
    by (cases rule: Next_cases [of inp];
        cases rule: promoting_cases [where inp = inp and st = "in_State inp"])
      (use assms b in \<open>auto simp: answer\<close>)
qed

lemma planRollout_rejected:
  assumes "planRollout r md target pd cd = Some res" "rejected_status target lg (md_Status md)"
    "target \<noteq> ''''" "lg \<noteq> ''''" "lg \<noteq> target"
  shows "reverted_plan target lg res"
proof -
  obtain cs where cs: "ms_Canary (md_Status md) = Some cs" "ct_FailedRevision cs = target"
    using assms(2) by (auto simp: rejected_status_def)
  have lg: "ms_LastGoodRevision (md_Status md) = lg"
    and inactive: "\<not> isActive (st_Phase (canaryStateFrom md))"
    using assms(2) cs by (simp_all add: rejected_status_def canaryStateFrom_def)
  obtain res0 where res0: "res = guardAgainstStall md (holdRejectedRevision md res0 target) pd"
    "\<not> rl_Active res0" "\<not> rl_RolledBack res0"
    "firstNonEmpty [st_FailedRevision (out_State (rl_Output res0)), canaryFailedRevision md] = target"
    "out_Action (rl_Output res0) \<notin> {ActionStart, ActionAdvance, ActionPause}"
  proof (cases "IsCanary (Some (md_Rollout md))")
    case False
    show thesis
      by (rule that [of "zero_rollout\<lparr>rl_PrimaryRevision := target, rl_PrimaryReplicas := replicasFor md\<rparr>"])
        (use assms(1,3) False cs in
          \<open>simp_all add: planRollout_def zero_rollout_def zero_Output_def canaryFailedRevision_def\<close>)
  next
    case True
    then obtain plan where plan: "canaryPlan r md = Some plan"
      using assms(1) by (auto simp: planRollout_def planCanary_def Let_def)
    let ?inp = "canary_input r md plan target cd (replicasFor md)"
    have inp: "pass_input r md plan target cd = ?inp"
      using inactive by (simp add: pass_input_def Observe_inactive gated_inactive)
    have "st_FailedRevision (in_State ?inp) = target"
      using cs by (simp add: canaryStateFrom_def)
    then have nxt: "out_Action (Next ?inp) \<in> {ActionNone, ActionPromote}"
      "st_FailedRevision (out_State (Next ?inp)) = target"
      using rejected_Next [of ?inp] inactive assms(3,5) lg by simp_all
    obtain pending where p: "planCanary r md target cd (replicasFor md) =
        Some (carry_out md target (replicasFor md) (decided r md plan ?inp pending) (in_Round ?inp))"
      using planCanary_Some [OF plan, of target cd] unfolding inp by blast
    show thesis
      by (rule that [of "carry_out md target (replicasFor md) (decided r md plan ?inp pending) (in_Round ?inp)"])
        (use assms(1,3) True p nxt in \<open>auto simp: planRollout_def carry_out_def zero_rollout_def Let_def\<close>)
  qed
  have "reverted_plan target lg (holdRejectedRevision md res0 target)"
    using res0(2-5) assms(3-5) lg by (simp add: holdRejectedRevision_def reverted_plan_def Let_def)
  then show ?thesis
    by (simp add: res0(1) guardAgainstStall_def reverted_plan_def)
qed

lemma derivePhase_inactive:
  "out_Action (rl_Output res) \<notin> {ActionStart, ActionAdvance, ActionPause} \<Longrightarrow> \<not> rl_Active res \<Longrightarrow>
     \<not> isActive (canaryPhaseFrom (derivePhase a p s lg res))"
  by (cases "out_Action (rl_Output res)") (auto simp: derivePhase_def Let_def)

lemma reverted_status:
  assumes "reverted_plan target lg res" "ms_LastGoodRevision status = lg" "target \<noteq> ''''" "lg \<noteq> ''''"
  shows "rejected_status target lg (computeStatus setc (pass_object p status) (pass_observed p status res) status)"
proof -
  let ?obs = "pass_observed p status res" and ?md = "pass_object p status"
  have "\<exists>cs. canary_status ?md ?obs status = Some cs \<and> ct_FailedRevision cs = target"
    using assms(1,3) by (auto simp: canary_status_def canaryStatusFrom_def pass_observed_def reverted_plan_def Let_def
        split: option.splits)
  moreover have "\<not> isActive (canaryPhaseFrom (derivePhase a pr s l res))" for a pr s l
    using assms(1) by (intro derivePhase_inactive) (simp_all add: reverted_plan_def)
  moreover have "firstNonEmpty [ov_PrimaryRevision ?obs, ov_Revision ?obs] = lg" "ov_Rollout ?obs = res"
    using assms(1,4) by (simp_all add: pass_observed_def reverted_plan_def)
  ultimately show ?thesis
    unfolding rejected_status_def computeStatus_fields using assms(2) by (simp add: computeStatus_fields)
qed

lemma rejected_passes:
  "run_passes setc enc ps status = Some trace \<Longrightarrow> rejected_status target lg status \<Longrightarrow>
   \<forall>p \<in> set ps. pa_Target p = target \<Longrightarrow> target \<noteq> '''' \<Longrightarrow> lg \<noteq> '''' \<Longrightarrow> lg \<noteq> target \<Longrightarrow>
   (res, st) \<in> set trace \<Longrightarrow> reverted_plan target lg res \<and> ms_LastGoodRevision st = lg"
proof (induction ps arbitrary: status trace)
  case (Cons p ps)
  obtain res1 rest where run: "planRollout (pa_Reconciler p) (pass_object p status) target (pa_PrimaryDep p)
        (pa_CanaryDep p) = Some res1"
      "run_passes setc enc ps (reread enc
         (computeStatus setc (pass_object p status) (pass_observed p status res1) status)) = Some rest"
      "trace = (res1, computeStatus setc (pass_object p status) (pass_observed p status res1) status) # rest"
    using Cons.prems(1,3) by (auto simp: run_pass_def split: option.splits)
  have plan: "reverted_plan target lg res1"
    using planRollout_rejected [OF run(1)] Cons.prems(2,4-6) by (simp add: pass_object_def)
  have "ms_LastGoodRevision status = lg"
    using Cons.prems(2) by (simp add: rejected_status_def)
  then have next_status: "rejected_status target lg
      (computeStatus setc (pass_object p status) (pass_observed p status res1) status)"
    using reverted_status [OF plan] Cons.prems(4,5) by blast
  then show ?case
    using Cons.IH [OF run(2) iffD2 [OF reread_rejected next_status]] next_status Cons.prems(3-7) plan run(3)
    by (auto simp: rejected_status_def)
qed simp

text \<open>How a plan comes to be rolled back: by the hold on a rejected target or by the stall guard.\<close>

lemma rolled_back_plan:
  assumes "planRollout r md target pd cd = Some res" "rl_RolledBack res"
    "st_FailedRevision (out_State (rl_Output res)) = target" "target \<noteq> ''''"
  shows "reverted_plan target (ms_LastGoodRevision (md_Status md)) res"
    "ms_LastGoodRevision (md_Status md) \<noteq> ''''" "ms_LastGoodRevision (md_Status md) \<noteq> target"
proof -
  let ?lg = "ms_LastGoodRevision (md_Status md)"
  obtain res0 where res0: "res = guardAgainstStall md (holdRejectedRevision md res0 target) pd"
    "\<not> rl_RolledBack res0" "rl_Active res0 \<or> rl_CanaryReplicas res0 = 0"
    "out_Action (rl_Output res0) \<in> {ActionStart, ActionAdvance, ActionPause} \<longrightarrow> rl_Active res0"
  proof (cases "IsCanary (Some (md_Rollout md))")
    case False
    show thesis
      by (rule that [of "zero_rollout\<lparr>rl_PrimaryRevision := target, rl_PrimaryReplicas := replicasFor md\<rparr>"])
        (use assms(1) False in \<open>simp_all add: planRollout_def zero_rollout_def zero_Output_def\<close>)
  next
    case True
    then obtain plan where plan: "canaryPlan r md = Some plan"
      using assms(1) by (auto simp: planRollout_def planCanary_def Let_def)
    let ?inp = "pass_input r md plan target cd"
    obtain pending where p: "planCanary r md target cd (replicasFor md) =
        Some (carry_out md target (replicasFor md) (decided r md plan ?inp pending) (in_Round ?inp))"
      using planCanary_Some [OF plan] by blast
    have "coherent target (out_Action (Next ?inp)) (out_State (Next ?inp))"
      using Next_coherent [of ?inp] by (simp add: pass_input_def)
    then show thesis
      by (intro that [of "carry_out md target (replicasFor md) (decided r md plan ?inp pending) (in_Round ?inp)"];
          cases "out_Action (Next ?inp)")
        (use assms(1,4) True p in \<open>auto simp: planRollout_def carry_out_def zero_rollout_def Let_def\<close>)
  qed
  show "reverted_plan target ?lg res" "?lg \<noteq> ''''" "?lg \<noteq> target"
    using res0(2-4) assms(2-4) unfolding res0(1)
    by (auto simp: guardAgainstStall_def holdRejectedRevision_def reverted_plan_def Let_def split: if_splits)
qed

text \<open>
  C2. A rollback survives the controller's own passes. After a pass that rejected its target and reverted
  the primary - whether analysis, an abort or a stalled rollout rejected it, under either strategy -
  every later pass for the same target runs the primary at the last known-good revision, gives the canary
  no replica and leaves the rollback target where it was, whatever the clock, the specification's other
  fields, the annotations, the Deployments and the metric backend do in between, and although each pass
  sees only the status the pass before wrote, its times as the API server gives them back.
\<close>

theorem rollback_survives_passes:
  assumes "run_pass setc p status = Some (res0, status1)" "rl_RolledBack res0" "pa_Target p \<noteq> ''''"
    and "st_FailedRevision (out_State (rl_Output res0)) = pa_Target p"
    and "run_passes setc enc later (reread enc status1) = Some trace" "\<forall>q \<in> set later. pa_Target q = pa_Target p"
    and "(res, st) \<in> set trace"
  shows "rl_PrimaryRevision res = ms_LastGoodRevision status \<and> rl_CanaryReplicas res = 0
    \<and> ms_LastGoodRevision st = ms_LastGoodRevision status"
proof -
  let ?lg = "ms_LastGoodRevision status"
  have plan: "planRollout (pa_Reconciler p) (pass_object p status) (pa_Target p) (pa_PrimaryDep p)
      (pa_CanaryDep p) = Some res0"
    and status1: "status1 = computeStatus setc (pass_object p status) (pass_observed p status res0) status"
    using assms(1) by (auto simp: run_pass_def)
  have rev: "reverted_plan (pa_Target p) ?lg res0" "?lg \<noteq> ''''" "?lg \<noteq> pa_Target p"
    using rolled_back_plan [OF plan assms(2,4,3)] by (simp_all add: pass_object_def)
  then have "rejected_status (pa_Target p) ?lg (reread enc status1)"
    unfolding reread_rejected status1 using assms(3) by (intro reverted_status) simp_all
  from rejected_passes [OF assms(5) this assms(6,3) rev(2,3) assms(7)] show ?thesis
    by (simp add: reverted_plan_def)
qed

section \<open>The position survives the status\<close>

text \<open>
  The status knows one phase for a canary in flight, the machine two, waiting and progressing.
  The machine's answer does not depend on which of the two it is told.
\<close>

lemma judge_phase_blind: "judge inp (st\<lparr>st_Phase := x\<rparr>) w p c v = judge inp st w p c v"
  by (cases v) (simp_all add: judge_def rollback_def hold_def onInconclusive_def advance_def promote_out_def
      pause_out_def currentWeight_def Let_def split: InconclusiveAction.split)

lemma state_blind:
  "splitFor (inp\<lparr>in_State := st\<rparr>) w = splitFor inp w"
  "capacityHold (inp\<lparr>in_State := st\<lparr>st_Phase := x\<rparr>\<rparr>) = capacityHold (inp\<lparr>in_State := st\<rparr>)"
  "start (inp\<lparr>in_State := st\<lparr>st_Phase := x\<rparr>\<rparr>) r m = start (inp\<lparr>in_State := st\<rparr>) r m"
  "judge (inp\<lparr>in_State := st'\<rparr>) = judge inp"
  "nextAnalysisIn (inp\<lparr>in_State := st'\<rparr>) = nextAnalysisIn inp"
  "rollback (inp\<lparr>in_State := st'\<rparr>) = rollback inp"
  by (simp_all add: splitFor_def capacityHold_def start_def Let_def fun_eq_iff judge_def rollback_def hold_def
      onInconclusive_def advance_def promote_out_def pause_out_def nextAnalysisIn_def
      split: InconclusiveAction.split Verdict.split)

lemma analyse_phase_blind:
  assumes "x \<in> {PhaseWaiting, PhaseProgressing}" "st_Phase st \<in> {PhaseWaiting, PhaseProgressing}"
  shows "analyse (inp\<lparr>in_State := st\<lparr>st_Phase := x\<rparr>\<rparr>) (st\<lparr>st_Phase := x\<rparr>) = analyse (inp\<lparr>in_State := st\<rparr>) st"
proof -
  have due: "DueForAnalysis now plan (st\<lparr>st_Phase := x\<rparr>) = DueForAnalysis now plan st" for now plan
    using assms by (auto simp: DueForAnalysis_def)
  have upd: "(st\<lparr>st_Phase := x, st_LastAnalysis := t, st_counters := k\<rparr>)
      = (st\<lparr>st_LastAnalysis := t, st_counters := k\<rparr>)\<lparr>st_Phase := x\<rparr>" for t k
    by simp
  have hold: "hold (st\<lparr>st_Phase := x\<rparr>) = hold st" "nextAnalysisIn inp (st\<lparr>st_Phase := x\<rparr>) = nextAnalysisIn inp st"
    and roll: "rollback inp (st\<lparr>st_Phase := x\<rparr>) = rollback inp st"
    and weight: "currentWeight plan (st\<lparr>st_Phase := x\<rparr>) = currentWeight plan st" for plan
    by (simp_all add: hold_def rollback_def nextAnalysisIn_def currentWeight_def fun_eq_iff)
  show ?thesis
    unfolding analyse_def Let_def
    by (simp add: state_blind due hold roll weight upd judge_phase_blind split: option.split prod.split)
qed

lemma Observe_phase_blind:
  assumes "st_Phase st = PhaseWaiting"
  shows "Observe (inp\<lparr>in_State := st\<lparr>st_Phase := PhaseProgressing\<rparr>\<rparr>) = Observe (inp\<lparr>in_State := st\<rparr>) \<or>
    (st_Phase (in_State (Observe (inp\<lparr>in_State := st\<rparr>))) = PhaseWaiting \<and>
     Observe (inp\<lparr>in_State := st\<lparr>st_Phase := PhaseProgressing\<rparr>\<rparr>) =
       (Observe (inp\<lparr>in_State := st\<rparr>))\<lparr>in_State :=
          (in_State (Observe (inp\<lparr>in_State := st\<rparr>)))\<lparr>st_Phase := PhaseProgressing\<rparr>\<rparr>)"
  using assms
  by (simp add: Observe_def Let_def currentWeight_def readiness_target_def deployment_ready_def splitFor_def)

lemma Next_phase_blind: "Next (inp\<lparr>in_State := restored st\<rparr>) = Next (inp\<lparr>in_State := st\<rparr>)"
proof (cases "st_Phase st = PhaseWaiting")
  case True
  let ?a = "inp\<lparr>in_State := st\<rparr>" and ?b = "inp\<lparr>in_State := st\<lparr>st_Phase := PhaseProgressing\<rparr>\<rparr>"
  have "Next ?b = Next ?a"
  proof (cases "Observe ?b = Observe ?a")
    case False
    let ?o = "Observe ?a"
    have w: "st_Phase (in_State ?o) = PhaseWaiting"
      and o: "Observe ?b = ?o\<lparr>in_State := (in_State ?o)\<lparr>st_Phase := PhaseProgressing\<rparr>\<rparr>"
      using Observe_phase_blind [OF True, of inp] False by blast+
    have an: "analyse (?o\<lparr>in_State := (in_State ?o)\<lparr>st_Phase := PhaseProgressing\<rparr>\<rparr>)
        ((in_State ?o)\<lparr>st_Phase := PhaseProgressing\<rparr>) = analyse ?o (in_State ?o)"
      using analyse_phase_blind [of PhaseProgressing "in_State ?o" ?o] w by simp
    have rb: "rollback ?o ((in_State ?o)\<lparr>st_Phase := PhaseProgressing\<rparr>) = rollback ?o (in_State ?o)"
      by (simp add: rollback_def fun_eq_iff)
    have ch: "capacityHold (?o\<lparr>in_State := (in_State ?o)\<lparr>st_Phase := PhaseProgressing\<rparr>\<rparr>) = capacityHold ?o"
      and stt: "start (?o\<lparr>in_State := (in_State ?o)\<lparr>st_Phase := PhaseProgressing\<rparr>\<rparr>) r m = start ?o r m" for r m
      using state_blind(2) [where inp = ?o and st = "in_State ?o" and x = PhaseProgressing]
        state_blind(3) [where inp = ?o and st = "in_State ?o" and x = PhaseProgressing and r = r and m = m]
      by simp_all
    show ?thesis
      unfolding Next_def Let_def o by (simp add: w an rb ch stt state_blind)
  qed (simp add: Next_def)
  then show ?thesis
    using True by (simp add: restored_def)
qed (simp add: restored_def)

lemma coherent_failed: "coherent target a st \<Longrightarrow> coherent target a (st\<lparr>st_FailedRevision := x\<rparr>)"
  by (cases a) (auto simp: zero_State_def)

lemma hold_coherent:
  "coherent_out target (rl_Output res) \<Longrightarrow> coherent_out target (rl_Output (holdRejectedRevision md res t))"
  by (auto simp: holdRejectedRevision_def with_failed_def Let_def intro: coherent_failed)

lemma stall_coherent:
  "coherent_out target (rl_Output res) \<Longrightarrow> coherent_out target (rl_Output (guardAgainstStall md res dep))"
  by (auto simp: guardAgainstStall_def with_failed_def Let_def intro: coherent_failed)

lemma planRollout_coherent:
  assumes "planRollout r md target pd cd = Some res" "IsCanary (Some (md_Rollout md))" "target \<noteq> ''''"
  shows "coherent_out target (rl_Output res)" "out_Action (rl_Output res) = ActionWait \<longrightarrow> rl_Active res"
proof -
  obtain plan where plan: "canaryPlan r md = Some plan"
    using assms(1,2) by (auto simp: planRollout_def planCanary_def Let_def)
  let ?inp = "pass_input r md plan target cd"
  obtain pending where p: "planCanary r md target cd (replicasFor md) =
      Some (carry_out md target (replicasFor md) (decided r md plan ?inp pending) (in_Round ?inp))"
    using planCanary_Some [OF plan] by blast
  define res0 where "res0 = carry_out md target (replicasFor md) (decided r md plan ?inp pending) (in_Round ?inp)"
  have coh: "coherent target (out_Action (Next ?inp)) (out_State (Next ?inp))"
    using Next_coherent [of ?inp] by (simp add: pass_input_def)
  have out0: "out_State (rl_Output res0) = out_State (Next ?inp)" "out_Action (rl_Output res0) = out_Action (Next ?inp)"
    by (simp_all add: res0_def carry_out_def zero_rollout_def Let_def split: Action.split)
  have act0: "out_Action (rl_Output res0) = ActionWait \<longrightarrow> rl_Active res0"
    using coh assms(3) by (auto simp: res0_def carry_out_def zero_rollout_def Let_def split: Action.split)
  have res: "res = guardAgainstStall md (holdRejectedRevision md res0 target) pd"
    using assms(1,2) p by (simp add: planRollout_def res0_def)
  have "coherent_out target (rl_Output res0)"
    using coh out0 by simp
  then show "coherent_out target (rl_Output res)"
    unfolding res by (intro stall_coherent hold_coherent)
  show "out_Action (rl_Output res) = ActionWait \<longrightarrow> rl_Active res"
    unfolding res using act0
    by (auto simp: guardAgainstStall_def holdRejectedRevision_def Let_def)
qed

lemma encoded_time [simp]: "time_or_zero (map_option whole_seconds (time_ref t)) = whole_seconds t"
  by (simp add: time_ref_def time_or_zero_def IsZero_def time_zero_def)

lemma canary_status_roundtrip:
  assumes "coherent_out target (rl_Output (ov_Rollout obs))"
    and "ms_Canary status = canary_status md obs prev"
    and "canaryPhaseFrom (ms_Phase status) = st_Phase (persisted (out_State (rl_Output (ov_Rollout obs))))"
    and "md_Status md' = reread whole_seconds status"
  shows "canaryStateFrom md' = persisted (out_State (rl_Output (ov_Rollout obs)))"
proof (cases "canary_status md obs prev")
  case None
  let ?o = "rl_Output (ov_Rollout obs)"
  have "st_Phase (out_State ?o) = PhaseIdle" "st_Revision (out_State ?o) = ''''"
    "st_FailedRevision (out_State ?o) = ''''"
    using None by (auto simp: canary_status_def canaryStatusFrom_def Let_def split: if_splits)
  then have "out_State ?o = zero_State"
    using assms(1) by (cases "out_Action ?o") (auto simp: zero_State_def)
  then show ?thesis
    using None assms(2,4)
    by (simp add: canaryStateFrom_def persisted_def restored_def encoded_def reread_def zero_State_def zero_counters_def
        SetCounters_def time_zero_def)
next
  case (Some cs)
  let ?st = "out_State (rl_Output (ov_Rollout obs))"
  have "canaryStateFrom md' = (encoded ?st)\<lparr>st_Phase := canaryPhaseFrom (ms_Phase status)\<rparr>"
    using Some assms(2,4)
    by (auto simp: canaryStateFrom_def canary_status_def canaryStatusFrom_def reread_def encoded_def Let_def
        split: if_splits option.splits)
  also have "\<dots> = persisted ?st"
    unfolding assms(3) by (simp add: persisted_def restored_def)
  finally show ?thesis .
qed

lemma encoded_exact:
  assumes "\<forall>t \<in> {st_AvailableSince st, st_LastAnalysis st, st_StartedAt st}. whole_seconds t = t"
    "counters_room 0 (st_counters st)"
  shows "encoded st = st"
  using assms SetCounters_id [of "st_counters st"] by (simp add: encoded_def)

text \<open>
  C5. The controller can be restarted between any two passes of a canary rollout. The position rebuilt from the
  status a pass wrote is the one the machine decided on: revision, rung, readiness target, scope and rejected
  revision as they are, each of the three clocks cut to its second, each counter as it is (one that
  overflowed: zero), a waiting canary as a progressing one. The cut is all that shows: on every later input
  the machine answers as from the decided position with its clocks and counters so encoded - as from
  that very position, if its clocks stand on whole seconds and no counter overflowed - and a round is due no
  later than from memory and at most one second earlier.
\<close>

theorem restart_transparent:
  assumes "run_pass setc p status = Some (res, status')" "IsCanary (Some (md_Rollout (pa_Object p)))"
    and "pa_Target p \<noteq> ''''" "md_Status md' = reread whole_seconds status'" "st = out_State (rl_Output res)"
  shows "canaryStateFrom md' = persisted st
    \<and> Next (inp\<lparr>in_State := canaryStateFrom md'\<rparr>) = Next (inp\<lparr>in_State := encoded st\<rparr>)
    \<and> ((\<forall>t \<in> {st_AvailableSince st, st_LastAnalysis st, st_StartedAt st}. whole_seconds t = t) \<and>
         counters_room 0 (st_counters st) \<longrightarrow>
       Next (inp\<lparr>in_State := canaryStateFrom md'\<rparr>) = Next (inp\<lparr>in_State := st\<rparr>))
    \<and> (clocks_set st \<longrightarrow>
       (DueForAnalysis now plan st \<longrightarrow> DueForAnalysis now plan (canaryStateFrom md')) \<and>
       (DueForAnalysis now plan (canaryStateFrom md') \<longrightarrow> DueForAnalysis (Add now go_Second) plan st))"
proof -
  let ?md = "pass_object p status" and ?obs = "pass_observed p status res"
  have rollout: "planRollout (pa_Reconciler p) ?md (pa_Target p) (pa_PrimaryDep p) (pa_CanaryDep p) = Some res"
    and status': "status' = computeStatus setc ?md ?obs status"
    using assms(1) by (auto simp: run_pass_def)
  have can: "IsCanary (Some (md_Rollout ?md))"
    using assms(2) by (simp add: pass_object_def)
  have res: "ov_Rollout ?obs = res"
    by (simp add: pass_observed_def)
  have "canaryPhaseFrom (derivePhase a pr s l res) = st_Phase (persisted st)" for a pr s l
    using planRollout_coherent [OF rollout can assms(3)] unfolding assms(5)
    by (cases "out_Action (rl_Output res)")
      (auto simp: derivePhase_def Let_def persisted_def encoded_def restored_def zero_State_def)
  then have "canaryStateFrom md' = persisted (out_State (rl_Output (ov_Rollout ?obs)))"
    using planRollout_coherent(1) [OF rollout can assms(3)] assms(4) unfolding status'
    by (intro canary_status_roundtrip [where md = ?md and prev = status and target = "pa_Target p"
          and status = "computeStatus setc ?md ?obs status"])
      (simp_all add: res computeStatus_fields assms(5))
  then have "canaryStateFrom md' = persisted st"
    by (simp add: res assms(5))
  moreover have "Next (inp\<lparr>in_State := persisted st\<rparr>) = Next (inp\<lparr>in_State := encoded st\<rparr>)"
    unfolding persisted_def by (rule Next_phase_blind)
  ultimately show ?thesis
    using encoded_exact [of st] due_persisted [of st now plan] by simp
qed

section \<open>Samples\<close>

definition no_setter :: condition_setter where
  "no_setter conds c = conds @ [c]"

definition sample_seen :: observed where
  "sample_seen = \<lparr>ov_Deployment = Some (sample_deployment 5 []), ov_CanaryDeployment = None, ov_DesiredReplicas = 5,
     ov_Revision = '''', ov_PrimaryRevision = '''', ov_Selector = '''', ov_Endpoint = '''',
     ov_Rollout = zero_rollout,
     ov_Scaling = \<lparr>av_Status = ConditionFalse, av_Reason = '''', av_Message = '''', av_Autoscaling = None,
       av_RequeueAfter = 0\<rparr>,
     ov_Metrics = \<lparr>mv_Status = ConditionTrue, mv_Reason = '''', mv_Message = '''', mv_RequeueAfter = 0\<rparr>\<rparr>"

definition stalled_deployment :: Deployment where
  "stalled_deployment = sample_deployment 5
     [\<lparr>dc_Type = DeploymentProgressing, dc_Status = ConditionFalse, dc_Reason = ReasonProgressDeadlineExceeded\<rparr>]"

definition sample_pass :: "RolloutStrategyType \<Rightarrow> Deployment option \<Rightarrow> Pass" where
  "sample_pass t dep = \<lparr>pa_Reconciler = sample_reconciler, pa_Object = sample_md t, pa_Target = ''b'',
     pa_PrimaryDep = dep, pa_CanaryDep = None, pa_Seen = sample_seen\<rparr>"

lemmas sample_pass_defs = sample_pass_def sample_seen_def stalled_deployment_def sample_md_defs

text \<open>A rolling update to revision b stalls and is reverted; the next pass finds the stall gone.\<close>

lemma sample_stall:
  "\<exists>res st. run_pass no_setter (sample_pass RolloutRollingUpdate (Some stalled_deployment)) sample_status = Some (res, st)
     \<and> rl_RolledBack res \<and> st_FailedRevision (out_State (rl_Output res)) = ''b''"
  by (simp add: run_pass_def planRollout_def IsCanary_def pass_object_def sample_pass_defs holdRejectedRevision_def
      guardAgainstStall_def zero_rollout_def zero_Output_def canaryFailedRevision_def Let_def
      AutoRollbackEnabled_def deploymentStalled_def findDeploymentCondition_def with_failed_def)

theorem rollback_survives_passes_witness:
  "\<exists>res0 st0 res st.
     run_pass no_setter (sample_pass RolloutRollingUpdate (Some stalled_deployment)) sample_status = Some (res0, st0)
     \<and> rl_RolledBack res0
     \<and> run_passes no_setter whole_seconds [sample_pass RolloutRollingUpdate (Some (sample_deployment 5 []))]
          (reread whole_seconds st0) = Some [(res, st)]
     \<and> rl_PrimaryRevision res = ''a'' \<and> rl_CanaryReplicas res = 0 \<and> ms_LastGoodRevision st = ''a''"
proof -
  let ?p = "sample_pass RolloutRollingUpdate (Some stalled_deployment)"
  let ?q = "sample_pass RolloutRollingUpdate (Some (sample_deployment 5 []))"
  obtain res0 st0 where first: "run_pass no_setter ?p sample_status = Some (res0, st0)" "rl_RolledBack res0"
      "st_FailedRevision (out_State (rl_Output res0)) = pa_Target ?p"
    using sample_stall by (auto simp: sample_pass_def)
  obtain res st where later: "run_passes no_setter whole_seconds [?q] (reread whole_seconds st0) = Some [(res, st)]"
    by (auto simp: run_pass_def planRollout_def IsCanary_def pass_object_def sample_pass_defs)
  have "pa_Target ?p \<noteq> ''''" "\<forall>q \<in> set [?q]. pa_Target q = pa_Target ?p"
    by (simp_all add: sample_pass_def)
  from rollback_survives_passes [OF first(1,2) this(1) first(3) later this(2), of res st]
  have "rl_PrimaryRevision res = ''a'' \<and> rl_CanaryReplicas res = 0 \<and> ms_LastGoodRevision st = ''a''"
    by (simp add: sample_status_def)
  with first(1,2) later show ?thesis
    by blast
qed

text \<open>The plan reads the specification only.\<close>

lemma canaryPlan_status: "canaryPlan r (md\<lparr>md_Status := s\<rparr>) = canaryPlan r md"
proof -
  have "progressDeadlineSeconds r (md\<lparr>md_Status := s\<rparr>) = progressDeadlineSeconds r md"
    unfolding progressDeadlineSeconds_def by simp
  then show ?thesis
    unfolding canaryPlan_def canary_spec_def by (simp split: option.split)
qed

text \<open>The first pass of a canary rollout to revision b starts it.\<close>

lemma sample_plan_started:
  "\<exists>res. planRollout sample_reconciler (sample_md RolloutCanary) ''b'' None None = Some res
     \<and> rl_Active res"
proof -
  let ?md = "sample_md RolloutCanary"
  let ?inp = "canary_input sample_reconciler ?md sample_full_plan ''b'' None 5"
  have plan: "canaryPlan sample_reconciler ?md = Some sample_full_plan"
    using sample_full_plan unfolding sample_canary_md_def canaryPlan_status .
  have n: "replicasFor ?md = 5" and can: "IsCanary (Some (md_Rollout ?md))"
    by (simp_all add: replicasFor_def sample_md_defs IsCanary_def)
  have "\<not> isActive (st_Phase (in_State ?inp))"
    by code_simp
  then have inp: "pass_input sample_reconciler ?md sample_full_plan ''b'' None = ?inp"
    using n by (simp add: pass_input_def Observe_inactive gated_inactive)
  have act: "out_Action (Next ?inp) = ActionStart"
    by code_simp
  have rev: "st_Revision (out_State (Next ?inp)) \<noteq> ''''"
    by code_simp
  obtain pending where p: "planCanary sample_reconciler ?md ''b'' None 5 =
      Some (carry_out ?md ''b'' 5 (decided sample_reconciler ?md sample_full_plan ?inp pending) (in_Round ?inp))"
    using planCanary_Some [OF plan, of "''b''" None] unfolding inp n by blast
  define res where "res = carry_out ?md ''b'' 5 (decided sample_reconciler ?md sample_full_plan ?inp pending) (in_Round ?inp)"
  have res: "rl_Active res" "out_State (rl_Output res) = out_State (Next ?inp)"
    using act rev unfolding res_def by (simp_all add: carry_out_def Let_def)
  then have "guardAgainstStall ?md (holdRejectedRevision ?md res ''b'') None = res"
    by (simp add: guardAgainstStall_def holdRejectedRevision_def)
  then have "planRollout sample_reconciler ?md ''b'' None None = Some res"
    using can by (simp add: planRollout_def n p res_def)
  then show ?thesis
    using res by auto
qed

theorem restart_transparent_witness:
  "\<exists>res st. run_pass no_setter (sample_pass RolloutCanary None) sample_status = Some (res, st) \<and> rl_Active res
     \<and> canaryStateFrom ((sample_md RolloutCanary)\<lparr>md_Status := reread whole_seconds st\<rparr>) = persisted (out_State (rl_Output res))"
proof -
  let ?p = "sample_pass RolloutCanary None"
  have obj: "pass_object ?p sample_status = sample_md RolloutCanary"
    by (simp add: pass_object_def sample_pass_defs)
  obtain res where res: "planRollout sample_reconciler (sample_md RolloutCanary) ''b'' None None = Some res" "rl_Active res"
    using sample_plan_started by blast
  define st where "st = computeStatus no_setter (pass_object ?p sample_status) (pass_observed ?p sample_status res) sample_status"
  have run: "run_pass no_setter ?p sample_status = Some (res, st)"
    using res(1) unfolding run_pass_def st_def obj by (simp add: sample_pass_def)
  have "IsCanary (Some (md_Rollout (pa_Object ?p)))" "pa_Target ?p \<noteq> ''''"
    by (simp_all add: sample_pass_defs IsCanary_def)
  from restart_transparent [OF run this, where md' = "(sample_md RolloutCanary)\<lparr>md_Status := reread whole_seconds st\<rparr>"] run res(2)
  show ?thesis
    by auto
qed

end
