(* ===== verification/Controller_Status_Props.thy ===== *)
theory Controller_Status_Props
  imports Controller_Events Controller_Runs
begin

text \<open>
  What the status and the events of a pass may claim: when the rollback target advances, what is reported
  as the length of the ladder, and which events are repeated by passes in which nothing changed.
\<close>

section \<open>The rollback target\<close>

lemma available_cause:
  assumes "pass_available md obs prev"
  shows "ov_DesiredReplicas obs = 0 \<or> ms_ReadyReplicas (pass_base md obs prev) > 0"
  using assms
  by (auto simp: pass_available_def availability_def condition_def split: if_splits option.splits)

lemma settled_cause:
  assumes "\<not> pass_progressing md obs prev" "\<not> pass_stalled md obs prev"
  shows "\<exists>dep. ov_Deployment obs = Some dep \<and> \<not> deploymentStalled (Some dep)
    \<and> dp_ObservedGeneration dep \<ge> dp_Generation dep
    \<and> (if rl_RolledBack (ov_Rollout obs) \<and> ov_PrimaryRevision obs \<noteq> '''' \<and> ov_PrimaryRevision obs \<noteq> ov_Revision obs
       then reverted obs dep else rolloutComplete (pass_base md obs prev) obs dep)"
  using assms
  by (auto simp: pass_progressing_def pass_stalled_def progress_def Let_def reverted_def rolloutComplete_def
      split: if_splits option.splits)

lemma revert_keeps:
  "out_Action (rl_Output (guardAgainstStall md res pd)) = out_Action (rl_Output res)"
  "out_Canary (rl_Output (guardAgainstStall md res pd)) = out_Canary (rl_Output res)"
  "out_Action (rl_Output (holdRejectedRevision md res target)) = out_Action (rl_Output res)"
  "out_Canary (rl_Output (holdRejectedRevision md res target)) = out_Canary (rl_Output res)"
  "rl_CanaryReplicas (guardAgainstStall md res pd) \<in> {rl_CanaryReplicas res, 0}"
  "rl_CanaryReplicas (holdRejectedRevision md res target) \<in> {rl_CanaryReplicas res, 0}"
  by (simp_all add: guardAgainstStall_def holdRejectedRevision_def with_failed_def Let_def)

text \<open>A plan whose answer counts as no canary in flight gives the canary no replica.\<close>

lemma inactive_plan_has_no_canary:
  assumes "planRollout r md target pd cd = Some res" "\<not> canary_active (rl_Output res)"
  shows "rl_CanaryReplicas res \<le> 0"
proof -
  obtain res0 where res: "res = guardAgainstStall md (holdRejectedRevision md res0 target) pd"
    and res0: "(if IsCanary (Some (md_Rollout md)) then planCanary r md target cd (replicasFor md)
      else Some (zero_rollout\<lparr>rl_PrimaryRevision := target, rl_PrimaryReplicas := replicasFor md\<rparr>)) = Some res0"
    using assms(1) by (auto simp: planRollout_def Let_def)
  have act: "canary_active (rl_Output res) = canary_active (rl_Output res0)"
    by (simp add: res canary_active_def revert_keeps split: Action.split)
  have le: "rl_CanaryReplicas res0 \<le> 0 \<Longrightarrow> rl_CanaryReplicas res \<le> 0"
    using revert_keeps(5) [of md "holdRejectedRevision md res0 target" pd] revert_keeps(6) [of md res0 target] by (auto simp: res)
  have "rl_CanaryReplicas res0 \<le> 0"
  proof (cases "IsCanary (Some (md_Rollout md))")
    case True
    obtain plan where plan: "canaryPlan r md = Some plan"
      using True res0 by (auto simp: planCanary_def)
    let ?inp = "pass_input r md plan target cd"
    obtain pending where eq: "res0 = carry_out md target (replicasFor md) (decided r md plan ?inp pending) (in_Round ?inp)"
      using planCanary_Some [OF plan, of target cd] True res0 by auto
    have "coherent_out (in_TargetRevision ?inp) (decided r md plan ?inp pending)"
      using Next_coherent [of ?inp] by simp
    then show ?thesis
      using assms(2) unfolding act unfolding eq
      by (cases "out_Action (decided r md plan ?inp pending)") (simp_all add: carry_out_def canary_active_def Let_def)
  qed (use res0 in \<open>auto simp: zero_rollout_def\<close>)
  then show ?thesis
    by (rule le)
qed

text \<open>
  C14. The rollback target advances only to a revision the primary has fully converged on. Whenever a pass
  changes \<open>lastGoodRevision\<close>, no canary was in flight: the rollout neither started, advanced nor waited for one,
  nor paused with replicas of one, and a plan of the planner with this answer gives the canary no replica.
  The new value is the revision chosen for the
  primary, its Deployment exists, has not blown its deadline and has been observed at its current
  generation, all updated, existing and available replicas equal the desired count (of the primary after
  a revert, of both variants otherwise), and a replica is ready - unless no replica at all is desired.
\<close>

theorem last_good_advances_when_settled:
  assumes "ms_LastGoodRevision (computeStatus setc md obs prev) \<noteq> ms_LastGoodRevision prev"
  shows "ms_LastGoodRevision (computeStatus setc md obs prev) = firstNonEmpty [ov_PrimaryRevision obs, ov_Revision obs]
    \<and> out_Action (rl_Output (ov_Rollout obs)) \<notin> {ActionStart, ActionAdvance, ActionWait}
    \<and> \<not> (out_Action (rl_Output (ov_Rollout obs)) = ActionPause \<and> out_Canary (rl_Output (ov_Rollout obs)) > 0)
    \<and> (planRollout r md' target pd cd = Some (ov_Rollout obs) \<longrightarrow> rl_CanaryReplicas (ov_Rollout obs) \<le> 0)
    \<and> (ov_DesiredReplicas obs = 0 \<or> ms_ReadyReplicas (pass_base md obs prev) > 0)
    \<and> (\<exists>dep. ov_Deployment obs = Some dep \<and> \<not> deploymentStalled (Some dep)
        \<and> dp_ObservedGeneration dep \<ge> dp_Generation dep
        \<and> (if rl_RolledBack (ov_Rollout obs) \<and> ov_PrimaryRevision obs \<noteq> '''' \<and> ov_PrimaryRevision obs \<noteq> ov_Revision obs
           then reverted obs dep else rolloutComplete (pass_base md obs prev) obs dep))"
proof -
  have b: "banks md obs prev"
    using assms by (simp add: computeStatus_fields split: if_splits)
  then have inactive: "\<not> canary_active (rl_Output (ov_Rollout obs))"
    by (simp add: banks_def)
  then have "out_Action (rl_Output (ov_Rollout obs)) \<notin> {ActionStart, ActionAdvance, ActionWait}"
    "\<not> (out_Action (rl_Output (ov_Rollout obs)) = ActionPause \<and> out_Canary (rl_Output (ov_Rollout obs)) > 0)"
    by (auto simp: canary_active_def)
  then show ?thesis
    using b available_cause [of md obs prev] settled_cause [of md obs prev]
      inactive_plan_has_no_canary [of r md' target pd cd "ov_Rollout obs"] inactive
    by (simp add: computeStatus_fields banks_def)
qed

definition sample_settled :: "i32 \<Rightarrow> observed" where
  "sample_settled n = sample_seen\<lparr>ov_Deployment := Some (sample_deployment n []), ov_DesiredReplicas := n,
     ov_Revision := ''b'', ov_PrimaryRevision := ''b'',
     ov_Rollout := zero_rollout\<lparr>rl_PrimaryRevision := ''b'', rl_PrimaryReplicas := n\<rparr>\<rparr>"

lemma sample_settled_banks:
  "ms_LastGoodRevision (computeStatus no_setter (sample_md RolloutRollingUpdate) (sample_settled n) sample_status) = ''b''"
  if "n = 0 \<or> n = 5"
  using that
  by (auto simp: computeStatus_fields banks_def pass_available_def pass_progressing_def pass_stalled_def pass_base_def
      base_status_def availability_def condition_def progress_def deploymentStalled_def findDeploymentCondition_def
      rolloutComplete_def updated_replicas_def sum_field_def deployments_def canary_active_def zero_rollout_def
      zero_Output_def sample_settled_def sample_seen_def sample_deployment_def wrap32_def Let_def)

theorem last_good_advances_when_settled_witness:
  "out_Action (rl_Output (ov_Rollout (sample_settled 5))) \<notin> {ActionStart, ActionAdvance, ActionWait}"
proof -
  have "ms_LastGoodRevision (computeStatus no_setter (sample_md RolloutRollingUpdate) (sample_settled 5) sample_status)
      \<noteq> ms_LastGoodRevision sample_status"
    using sample_settled_banks [of 5] by (simp add: sample_status_def)
  from last_good_advances_when_settled [OF this] show ?thesis
    by blast
qed

text \<open>
  A revision that never ran a pod becomes the rollback target. With zero desired replicas, a primary
  on the target, no canary and a Deployment observed at its generation that reports no replica and no
  blown deadline, the pass records the target as last known-good, although no replica of it ever became
  ready.
\<close>

theorem scaled_to_zero_banks_unproven:
  assumes "ov_DesiredReplicas obs = 0" "ov_CanaryDeployment obs = None" "ov_Deployment obs = Some dep"
    and "\<not> deploymentStalled (Some dep)" "dp_ObservedGeneration dep \<ge> dp_Generation dep"
    and "dp_Replicas dep = 0" "dp_UpdatedReplicas dep = 0" "dp_AvailableReplicas dep = 0" "dp_ReadyReplicas dep = 0"
    and "ov_PrimaryRevision obs = ov_Revision obs" "ov_Revision obs \<noteq> ''''"
    and "\<not> canary_active (rl_Output (ov_Rollout obs))"
  shows "ms_LastGoodRevision (computeStatus setc md obs prev) = ov_Revision obs"
proof -
  have "pass_available md obs prev"
    using assms(1) by (simp add: pass_available_def availability_def condition_def)
  moreover have "rolloutComplete (pass_base md obs prev) obs dep"
    using assms by (simp add: rolloutComplete_def pass_base_def base_status_def updated_replicas_def sum_field_def
        deployments_def wrap32_def Let_def)
  then have "progress (pass_base md obs prev) obs (md_Generation md) =
      (condition ConditionProgressing (md_Generation md) ConditionFalse ReasonRolloutComplete
         ''All replicas are running the target revision'', False, False)"
    using assms(3,4,10) by (simp add: progress_def)
  ultimately show ?thesis
    using assms(10-12)
    by (simp add: computeStatus_fields banks_def pass_progressing_def pass_stalled_def)
qed

theorem scaled_to_zero_banks_unproven_witness:
  "ms_LastGoodRevision (computeStatus no_setter (sample_md RolloutRollingUpdate) (sample_settled 0) sample_status) = ''b''"
  using scaled_to_zero_banks_unproven [of "sample_settled 0" "sample_deployment 0 []"]
  by (simp add: sample_settled_def sample_seen_def sample_deployment_def deploymentStalled_def
      findDeploymentCondition_def canary_active_def zero_rollout_def zero_Output_def)

section \<open>The ladder in the status\<close>

text \<open>
  The number of steps in the status is the number of explicit step weights, not the length of the
  ladder the rollout climbs: for every valid specification that gives a step size instead of explicit
  weights the status reports zero steps, while the ladder is not empty.
\<close>

theorem steps_ignore_generated_ladder:
  assumes "ro_Canary (md_Rollout md) = Some c" "cs_StepWeights c = []" "valid_ladder_spec c"
    and "ms_Canary (computeStatus setc md obs prev) = Some cs"
  shows "ct_Steps cs = 0 \<and> (\<exists>ws. StepLadder (Some c) = Some ws \<and> ws \<noteq> [])"
proof -
  have "ct_Steps cs = 0"
    using assms(1,2,4) by (auto simp: computeStatus_fields canary_status_def wrap32_def)
  then show ?thesis
    using ladder_well_formed [OF assms(3)] by auto
qed

definition sample_in_flight :: observed where
  "sample_in_flight = (sample_settled 5)\<lparr>ov_Rollout := zero_rollout\<lparr>rl_Active := True,
     rl_Output := zero_Output\<lparr>out_Action := ActionWait,
       out_State := zero_State\<lparr>st_Revision := ''b'', st_Phase := PhaseProgressing, st_Step := 1\<rparr>\<rparr>\<rparr>\<rparr>"

theorem steps_ignore_generated_ladder_witness:
  "\<exists>cs. ms_Canary (computeStatus no_setter (sample_md RolloutCanary) sample_in_flight sample_status) = Some cs
     \<and> ct_Step cs = 1 \<and> ct_Steps cs = 0"
proof -
  let ?md = "sample_md RolloutCanary"
  obtain cs where cs: "ms_Canary (computeStatus no_setter ?md sample_in_flight sample_status) = Some cs" "ct_Step cs = 1"
    by (auto simp: computeStatus_fields canary_status_def canaryStatusFrom_def sample_in_flight_def zero_rollout_def
        sample_md_defs Let_def)
  have "ro_Canary (md_Rollout ?md) = Some sample_canary_spec" "cs_StepWeights sample_canary_spec = []"
    "valid_ladder_spec sample_canary_spec"
    by (simp_all add: sample_md_defs sample_canary_spec_def valid_ladder_spec_def schema_bound_def)
  from steps_ignore_generated_ladder [OF this cs(1)] cs show ?thesis
    by blast
qed

section \<open>Repeated events\<close>

text \<open>
  The event about a quantized weight is emitted on every pass of an active canary whose split is
  quantized, also when the status already shows the same revision, rung, phase and weights: it is the one
  event of a pass that does not depend on a transition.
\<close>

theorem quantized_event_repeats:
  assumes "rl_Active res" "IsQuantized (out_DesiredWeight (rl_Output res)) (out_RealizedWeight (rl_Output res))"
    and "\<not> rl_StallReverted res"
  shows "\<exists>e \<in> set (emitRolloutEvents md res). ev_Reason e = EventReasonWeightQuantized"
  using assms by (auto simp: emitRolloutEvents_def Let_def event_def)

theorem quantized_event_repeats_witness:
  "\<exists>e \<in> set (emitRolloutEvents sample_canary_md
      (zero_rollout\<lparr>rl_Active := True, rl_Output := zero_Output\<lparr>out_Action := ActionWait, out_DesiredWeight := 30,
         out_RealizedWeight := 40, out_Primary := 3, out_Canary := 2\<rparr>\<rparr>)).
      ev_Reason e = EventReasonWeightQuantized"
  by (rule quantized_event_repeats) (simp_all add: zero_rollout_def IsQuantized_def wrap32_def Let_def)

end
