(* ===== verification/Autoscale_Props.thy ===== *)
theory Autoscale_Props
  imports Autoscale
begin

text \<open>
  What the autoscaler promises: its recommendation stays inside the configured bounds, it never scales
  on data nobody produced, it changes the fleet only on evidence that covers the stabilization window,
  its history stays small and recent, and it grows with the measured load. Three theorems state where
  the code departs from its own documentation: the history cap shortens the window, the ready count
  does not always cancel in \<open>float64\<close>, and a correction into new bounds is reported as a hold.
\<close>

definition sample_config :: AutoscaleConfig where
  "sample_config = \<lparr>cf_MinReplicas = 1, cf_MaxReplicas = 20, cf_Target = Fin 5, cf_Tolerance = Fin (1 / 10),
     cf_ScaleUpStabilization = 60 * go_Second, cf_ScaleDownStabilization = 300 * go_Second\<rparr>"

definition sample_scale :: "rat \<Rightarrow> i32 \<Rightarrow> i32 \<Rightarrow> Recommendation list \<Rightarrow> AutoscaleInput" where
  "sample_scale v ready current h =
     \<lparr>ai_Now = 1000 * go_Second, ai_Current = current, ai_ReadyReplicas = ready,
      ai_Observation = \<lparr>ob_Value = Fin v, ob_Valid = True, ob_Reason = ''''\<rparr>,
      ai_Config = sample_config, ai_History = h\<rparr>"

lemmas sample_scale_defs = sample_scale_def sample_config_def go_Second_def

section \<open>Bounds\<close>

lemma hold_scale_fields [simp]:
  "ao_Replicas (hold_scale inp r m) = cur_of inp" "ao_Raw (hold_scale inp r m) = cur_of inp"
  "ao_Changed (hold_scale inp r m) = (cur_of inp \<noteq> ai_Current inp)"
  "\<not> ao_Valid (hold_scale inp r m)" "ao_Reason (hold_scale inp r m) = r"
  "ao_History (hold_scale inp r m) = prune (ai_History inp) (ai_Now inp) (ai_Config inp)"
  by (simp_all add: hold_scale_def cur_of_def Let_def)

lemma Recommend_in_bounds:
  "max (cf_MinReplicas (ai_Config inp)) 1 \<le> ao_Replicas (Recommend oob inp)
   \<and> ao_Replicas (Recommend oob inp)
       \<le> max (cf_MaxReplicas (ai_Config inp)) (max (cf_MinReplicas (ai_Config inp)) 1)
   \<and> max (cf_MinReplicas (ai_Config inp)) 1 \<le> ao_Raw (Recommend oob inp)
   \<and> ao_Raw (Recommend oob inp)
       \<le> max (cf_MaxReplicas (ai_Config inp)) (max (cf_MinReplicas (ai_Config inp)) 1)
   \<and> ao_Changed (Recommend oob inp) = (ao_Replicas (Recommend oob inp) \<noteq> ai_Current inp)"
  by (cases rule: Recommend_cases [of inp oob])
    (simp_all only: hold_scale_fields cur_of_def scaled_of_def raw_of_def clamp_bounds simp_thms)

text \<open>
  C35. Whatever the measurement, the clock and the stored history are, the recommended count and the raw
  recommendation lie between the configured minimum (at least one) and the configured maximum (or the
  minimum, when the range is inverted), and \<open>Changed\<close> says exactly whether the count differs from the
  current one.
\<close>

theorem Recommend_bounds:
  "max (cf_MinReplicas (ai_Config inp)) 1 \<le> ao_Replicas (Recommend oob inp)
   \<and> ao_Replicas (Recommend oob inp)
       \<le> max (cf_MaxReplicas (ai_Config inp)) (max (cf_MinReplicas (ai_Config inp)) 1)
   \<and> max (cf_MinReplicas (ai_Config inp)) 1 \<le> ao_Raw (Recommend oob inp)
   \<and> ao_Raw (Recommend oob inp)
       \<le> max (cf_MaxReplicas (ai_Config inp)) (max (cf_MinReplicas (ai_Config inp)) 1)
   \<and> ao_Changed (Recommend oob inp) = (ao_Replicas (Recommend oob inp) \<noteq> ai_Current inp)"
  by (rule Recommend_in_bounds)

text \<open>
  The contract the autoscaling pass relies on: whatever it is asked, a recommender answers a count inside
  the configured bounds and says truthfully whether it differs from the current one.
\<close>

locale bounded_recommender =
  fixes recommend :: "AutoscaleInput \<Rightarrow> AutoscaleOutput"
  assumes floor: "max (cf_MinReplicas (ai_Config inp)) 1 \<le> ao_Replicas (recommend inp)"
    and ceiling: "ao_Replicas (recommend inp)
      \<le> max (cf_MaxReplicas (ai_Config inp)) (max (cf_MinReplicas (ai_Config inp)) 1)"
    and changed: "ao_Changed (recommend inp) = (ao_Replicas (recommend inp) \<noteq> ai_Current inp)"

interpretation autoscaler: bounded_recommender "Recommend oob" for oob
  by unfold_locales (use Recommend_in_bounds in blast)+

text \<open>
  Without a usable measurement (an invalid observation, no ready pod, or a target that is not
  positive) the autoscaler holds: the count is the current one brought inside the bounds, the output is
  marked invalid with the reason \<open>NoMetrics\<close>, and no recommendation enters the history. With a usable
  one the output is valid and the newest history entry is its raw recommendation, stamped now.
\<close>

theorem Recommend_holds_without_data:
  assumes "0 \<le> max (cf_ScaleUpStabilization (ai_Config inp)) (cf_ScaleDownStabilization (ai_Config inp))"
  shows "if measured inp
    then ao_Valid (Recommend oob inp) \<and> ao_History (Recommend oob inp) \<noteq> []
      \<and> last (ao_History (Recommend oob inp))
          = \<lparr>rc_Time = ai_Now inp, rc_Replicas = ao_Raw (Recommend oob inp)\<rparr>
    else \<not> ao_Valid (Recommend oob inp)
      \<and> ao_Replicas (Recommend oob inp)
          = clamp (ai_Current inp) (cf_MinReplicas (ai_Config inp)) (cf_MaxReplicas (ai_Config inp))
      \<and> ao_Reason (Recommend oob inp) = ReasonNoMetrics
      \<and> set (ao_History (Recommend oob inp)) \<subseteq> set (ai_History inp)"
proof -
  have w: "in_window (ai_Now inp) (ai_Config inp) \<lparr>rc_Time = ai_Now inp, rc_Replicas = n\<rparr>" for n
    using assms by (simp add: in_window_def)
  show ?thesis
  proof (cases rule: Recommend_cases [of inp oob])
    case (held m)
    then show ?thesis
      by (auto simp: cur_of_def dest: prune_in_window)
  qed (simp_all add: next_history_def prune_snoc [OF w])
qed

theorem Recommend_holds_without_data_witness:
  "\<not> ao_Valid (Recommend (\<lambda>_. 0) (sample_scale 65 0 25 []))
   \<and> ao_Replicas (Recommend (\<lambda>_. 0) (sample_scale 65 0 25 [])) = 20"
  using Recommend_holds_without_data [of "sample_scale 65 0 25 []" "\<lambda>_. 0"]
  by (simp add: sample_scale_defs measured_def clamp_def)

section \<open>History\<close>

text \<open>
  The history handed back for the status never exceeds 32 entries, and each of them is a stored entry
  or the new recommendation, is no older than the longer stabilization window and is not stamped in the
  future, whatever was stored.
\<close>

theorem Recommend_history_bounded:
  "length (ao_History (Recommend oob inp)) \<le> 32
   \<and> (\<forall>r \<in> set (ao_History (Recommend oob inp)).
        in_window (ai_Now inp) (ai_Config inp) r
        \<and> (r \<in> set (ai_History inp) \<or> r = \<lparr>rc_Time = ai_Now inp, rc_Replicas = ao_Raw (Recommend oob inp)\<rparr>))"
  using prune_length prune_in_window
  by (cases rule: Recommend_cases [of inp oob])
    (fastforce simp: next_history_def maxHistory_def)+

section \<open>Stabilization\<close>

lemma scaled_up_window:
  assumes "0 < cf_ScaleUpStabilization (ai_Config inp)" "cur_of inp < scaled_of inp"
    and "r \<in> set (next_history inp (raw_of inp))"
    and "ai_Now inp - cf_ScaleUpStabilization (ai_Config inp) \<le> rc_Time r"
  shows "scaled_of inp \<le> rc_Replicas r"
proof -
  let ?h = "next_history inp (raw_of inp)"
  let ?c = "Add (ai_Now inp) (- cf_ScaleUpStabilization (ai_Config inp))"
  let ?s = "stabilize (raw_of inp) (cur_of inp) ?h (ai_Now inp) (ai_Config inp)"
  have cur: "max (cf_MinReplicas (ai_Config inp)) 1 \<le> cur_of inp"
    unfolding cur_of_def by (rule clamp_bounds)
  have le: "minOver ?h ?c \<le> rc_Replicas r"
    using assms(3,4) by (intro minOver_le) (simp_all add: Add_def)
  have up: "cur_of inp < ?s"
  proof (rule ccontr)
    assume "\<not> cur_of inp < ?s"
    then have "scaled_of inp \<le> clamp (cur_of inp) (cf_MinReplicas (ai_Config inp)) (cf_MaxReplicas (ai_Config inp))"
      unfolding scaled_of_def by (intro clamp_mono) simp
    then show False
      using assms(2) by (simp add: cur_of_def clamp_idem)
  qed
  then have "?s = minOver ?h ?c"
    using assms(1) by (auto simp: stabilize_def split: if_splits)
  moreover have "scaled_of inp \<le> ?s"
    using up cur unfolding scaled_of_def by (simp add: clamp_def Let_def)
  ultimately show ?thesis
    using le by simp
qed

lemma scaled_down_window:
  assumes "0 < cf_ScaleDownStabilization (ai_Config inp)" "scaled_of inp < cur_of inp"
    and "r \<in> set (next_history inp (raw_of inp))"
    and "ai_Now inp - cf_ScaleDownStabilization (ai_Config inp) \<le> rc_Time r"
  shows "rc_Replicas r \<le> scaled_of inp"
proof -
  let ?h = "next_history inp (raw_of inp)"
  let ?c = "Add (ai_Now inp) (- cf_ScaleDownStabilization (ai_Config inp))"
  let ?s = "stabilize (raw_of inp) (cur_of inp) ?h (ai_Now inp) (ai_Config inp)"
  have cur: "cur_of inp \<le> max (cf_MaxReplicas (ai_Config inp)) (max (cf_MinReplicas (ai_Config inp)) 1)"
    unfolding cur_of_def by (rule clamp_bounds)
  have le: "rc_Replicas r \<le> maxOver ?h ?c"
    using assms(3,4) by (intro maxOver_ge) (simp_all add: Add_def)
  have down: "?s < cur_of inp"
  proof (rule ccontr)
    assume "\<not> ?s < cur_of inp"
    then have "clamp (cur_of inp) (cf_MinReplicas (ai_Config inp)) (cf_MaxReplicas (ai_Config inp)) \<le> scaled_of inp"
      unfolding scaled_of_def by (intro clamp_mono) simp
    then show False
      using assms(2) by (simp add: cur_of_def clamp_idem)
  qed
  then have "?s = maxOver ?h ?c"
    using assms(1) by (auto simp: stabilize_def split: if_splits)
  moreover have "?s \<le> scaled_of inp"
    using down cur unfolding scaled_of_def by (auto simp: clamp_def Let_def)
  ultimately show ?thesis
    using le by simp
qed

text \<open>
  C21. A change needs evidence over the whole stabilization window. Provided the recommendations inside
  the longer window fit the cap together with the new one, the fleet grows only to a count that every
  stored recommendation of the scale-up window already asked for, and shrinks only to a count that no
  stored recommendation of the scale-down window exceeds: one spike adds nothing, one quiet poll
  removes nothing.
\<close>

theorem Recommend_needs_window:
  assumes "length (filter (in_window (ai_Now inp) (ai_Config inp)) (ai_History inp)) < 32"
    and "r \<in> set (ai_History inp)" "rc_Time r \<le> ai_Now inp" "measured inp"
  shows "(cur_of inp < ao_Replicas (Recommend oob inp)
        \<and> 0 < cf_ScaleUpStabilization (ai_Config inp)
        \<and> ai_Now inp - cf_ScaleUpStabilization (ai_Config inp) \<le> rc_Time r
          \<longrightarrow> ao_Replicas (Recommend oob inp) \<le> rc_Replicas r)
    \<and> (ao_Replicas (Recommend oob inp) < cur_of inp
        \<and> 0 < cf_ScaleDownStabilization (ai_Config inp)
        \<and> ai_Now inp - cf_ScaleDownStabilization (ai_Config inp) \<le> rc_Time r
          \<longrightarrow> rc_Replicas r \<le> ao_Replicas (Recommend oob inp))"
proof -
  have mem: "r \<in> set (next_history inp n)" if "in_window (ai_Now inp) (ai_Config inp) r" for n
    unfolding next_history_def using assms(1,2) that
    by (intro prune_keeps) (auto simp: maxHistory_def)
  show ?thesis
    by (cases rule: Recommend_cases [of inp oob])
      (use assms mem scaled_up_window [of inp r] scaled_down_window [of inp r]
        in \<open>auto simp: in_window_def\<close>)
qed

lemma Recommend_scaled:
  "measured inp \<Longrightarrow> \<not> in_band inp \<Longrightarrow>
     ao_Replicas (Recommend oob inp) = scaled_of inp \<and> ao_Raw (Recommend oob inp) = raw_of inp
     \<and> ao_Changed (Recommend oob inp) = (scaled_of inp \<noteq> ai_Current inp)
     \<and> ao_Direction (Recommend oob inp) = directionOf (cur_of inp) (scaled_of inp)
     \<and> ao_Reason (Recommend oob inp) = (if scaled_of inp > cur_of inp then ReasonScaleUp
         else if scaled_of inp < cur_of inp then ReasonScaleDown else ReasonStabilized)"
  by (cases rule: Recommend_cases [of inp oob]) simp_all

lemmas evaluate_scale = sample_scale_defs recommend_parts scale_ratio_def f64_of_i32_def fsub_def clamp_def
  ceilToInt32_def MaxInt32_def stabilize_def prune_def maxHistory_def minOver_def maxOver_def time_defs

theorem Recommend_needs_window_witness:
  "ao_Replicas (Recommend (\<lambda>_. 0)
     (sample_scale 65 1 5 [\<lparr>rc_Time = 990 * go_Second, rc_Replicas = 8\<rparr>])) = 8 \<and> (8 :: int) \<le> 8"
proof -
  let ?r = "\<lparr>rc_Time = 990 * go_Second, rc_Replicas = 8\<rparr>"
  let ?inp = "sample_scale 65 1 5 [?r]"
  have run: "measured ?inp" "\<not> in_band ?inp" "scaled_of ?inp = 8" "cur_of ?inp = 5"
    by (simp_all add: evaluate_scale)
  then have "ao_Replicas (Recommend (\<lambda>_. 0) ?inp) = 8"
    using Recommend_scaled [of ?inp "\<lambda>_. 0"] by simp
  moreover have "(8 :: int) \<le> 8"
    using Recommend_needs_window [of ?inp ?r "\<lambda>_. 0"] run calculation
    by (simp add: sample_scale_defs)
  ultimately show ?thesis
    by simp
qed

section \<open>Monotonicity in the load\<close>

lemma fdiv_mono: "fle a b \<Longrightarrow> 0 < d \<Longrightarrow> fle (fdiv a (Fin d)) (fdiv b (Fin d))"
  by (cases a; cases b) (simp_all add: signed_inf_def round64_mono divide_right_mono)

lemma fmul_mono: "fle a b \<Longrightarrow> 0 < d \<Longrightarrow> fle (fmul (Fin d) a) (fmul (Fin d) b)"
  by (cases a; cases b) (simp_all add: signed_inf_def round64_mono mult_left_mono)

lemma ceilToInt32_mono: "fle a b \<Longrightarrow> ceilToInt32 a \<le> ceilToInt32 b"
  by (cases a; cases b) (auto simp: ceilToInt32_def MaxInt32_def ceiling_le_iff not_le
      intro: order.trans [OF _ le_of_int_ceiling])

definition with_value :: "AutoscaleInput \<Rightarrow> f64 \<Rightarrow> AutoscaleInput" where
  "with_value inp v = inp\<lparr>ai_Observation := (ai_Observation inp)\<lparr>ob_Value := v\<rparr>\<rparr>"

text \<open>
  C23. More measured load never asks for fewer replicas: for two polls that differ only in the measured
  value, both outside the tolerance band, the raw recommendation of the larger value is at least that of
  the smaller one, through every rounding of the \<open>float64\<close> arithmetic and every saturation.
\<close>

theorem Recommend_monotone:
  assumes "measured inp" "cf_Target (ai_Config inp) = Fin t" "fle v w"
    and "\<not> in_band (with_value inp v)" "\<not> in_band (with_value inp w)"
  shows "ao_Raw (Recommend oob (with_value inp v)) \<le> ao_Raw (Recommend oob (with_value inp w))"
proof -
  have m: "measured (with_value inp x)" for x
    using assms(1) by (simp add: measured_def with_value_def)
  have pos: "0 < t" "0 < ai_ReadyReplicas inp"
    using assms(1,2) by (auto simp: measured_def)
  have "fle (scale_ratio (with_value inp v)) (scale_ratio (with_value inp w))"
    using assms(2,3) pos by (simp add: scale_ratio_def with_value_def f64_of_i32_def fdiv_mono)
  then have "raw_of (with_value inp v) \<le> raw_of (with_value inp w)"
    using pos unfolding raw_of_def
    by (simp add: with_value_def f64_of_i32_def clamp_mono ceilToInt32_mono fmul_mono)
  then show ?thesis
    using Recommend_scaled [OF m assms(4), of oob] Recommend_scaled [OF m assms(5), of oob] by simp
qed

theorem Recommend_monotone_witness:
  "ao_Raw (Recommend (\<lambda>_. 0) (with_value (sample_scale 65 1 5 []) (Fin 40)))
     \<le> ao_Raw (Recommend (\<lambda>_. 0) (with_value (sample_scale 65 1 5 []) (Fin 65)))"
  by (rule Recommend_monotone [where t = 5]) (simp_all add: evaluate_scale with_value_def)

section \<open>Departures from the documentation\<close>

text \<open>
  The cap shortens the window. When 31 or more recommendations of the window follow an older one, the
  older one has no influence on the decision although it lies inside the scale-down window: if the newest
  31 all ask for at most the new raw count, the fleet shrinks to it at once, whatever the older entries
  asked for.
\<close>

theorem history_cap_shortens_window:
  assumes "measured inp" "\<not> in_band inp" "raw_of inp < cur_of inp"
    and "ai_History inp = older @ newer" "length newer = 31"
    and "\<forall>r \<in> set newer. in_window (ai_Now inp) (ai_Config inp) r \<and> rc_Replicas r \<le> raw_of inp"
    and "0 < cf_ScaleDownStabilization (ai_Config inp)"
  shows "ao_Replicas (Recommend oob inp) = raw_of inp"
proof -
  let ?new = "\<lparr>rc_Time = ai_Now inp, rc_Replicas = raw_of inp\<rparr>"
  have "in_window (ai_Now inp) (ai_Config inp) ?new"
    using assms(7) by (simp add: in_window_def)
  moreover have "filter (in_window (ai_Now inp) (ai_Config inp)) newer = newer"
    using assms(6) by (simp add: filter_id_conv)
  ultimately have h: "next_history inp (raw_of inp) = newer @ [?new]"
    using assms(4,5) by (simp add: next_history_def prune_snoc Let_def maxHistory_def flip: append_assoc)
  have lo: "max (cf_MinReplicas (ai_Config inp)) 1 \<le> raw_of inp"
    "raw_of inp \<le> max (cf_MaxReplicas (ai_Config inp)) (max (cf_MinReplicas (ai_Config inp)) 1)"
    unfolding raw_of_def by (rule clamp_bounds)+
  have "maxOver (newer @ [?new]) (Add (ai_Now inp) (- cf_ScaleDownStabilization (ai_Config inp))) = raw_of inp"
    using maxOver_eq [of ?new "newer @ [?new]"] assms(6,7) lo(1) by (simp add: Add_def)
  then have "scaled_of inp = raw_of inp"
    using assms(3,7) lo by (simp add: scaled_of_def h stabilize_def clamp_fix)
  then show ?thesis
    using Recommend_scaled [OF assms(1,2)] by simp
qed

text \<open>At 31 reconciles within a minute, a demand for 13 replicas recorded 200 seconds ago is forgotten
  although the scale-down window is 300 seconds, and the fleet drops from 13 to 1.\<close>

theorem history_cap_shortens_window_witness:
  "ao_Replicas (Recommend (\<lambda>_. 0) (sample_scale 0 13 13
     (\<lparr>rc_Time = 800 * go_Second, rc_Replicas = 13\<rparr> #
      replicate 31 \<lparr>rc_Time = 990 * go_Second, rc_Replicas = 1\<rparr>))) = 1"
proof -
  let ?old = "\<lparr>rc_Time = 800 * go_Second, rc_Replicas = 13\<rparr>"
  let ?new = "replicate 31 \<lparr>rc_Time = 990 * go_Second, rc_Replicas = 1\<rparr>"
  let ?inp = "sample_scale 0 13 13 (?old # ?new)"
  have run: "measured ?inp" "\<not> in_band ?inp" "raw_of ?inp = 1" "cur_of ?inp = 13"
    by (simp_all add: evaluate_scale)
  have "ao_Replicas (Recommend (\<lambda>_. 0) ?inp) = raw_of ?inp"
    by (rule history_cap_shortens_window [where older = "[?old]" and newer = ?new])
      (use run in \<open>simp_all add: sample_scale_defs in_window_def\<close>)
  then show ?thesis
    using run by simp
qed

text \<open>The three roundings of \<open>3 * ((65 / 3) / 5)\<close>: the product is one unit above 13.\<close>

lemma round_65_over_3: "round64 (65 / 3) = Fin (6098624495397547 / 281474976710656)"
  using round64_nearest [of 4 "65 / 3" 6098624495397547] by (simp add: pow2_def)

lemma round_per_pod_ratio:
  "round64 (6098624495397547 / 1407374883553280) = Fin (2439449798159019 / 562949953421312)"
  using round64_nearest [of 2 "6098624495397547 / 1407374883553280" 4878899596318038]
  by (simp add: pow2_def)

lemma round_scaled: "round64 (7318349394477057 / 562949953421312) = Fin (7318349394477057 / 562949953421312)"
  using round64_nearest [of 3 "7318349394477057 / 562949953421312" 7318349394477057] by (simp add: pow2_def)

lemma round_ratio_gap:
  "round64 (1876499844737707 / 562949953421312) = Fin (1876499844737707 / 562949953421312)"
  using round64_nearest [of 1 "1876499844737707 / 562949953421312" 7505999378950828] by (simp add: pow2_def)

lemmas ratio_roundings = round_65_over_3 round_per_pod_ratio round_scaled round_ratio_gap

text \<open>
  C37. The ready count does not always cancel. For the same fleet-wide value 65 and the same target 5 per
  pod, one ready pod asks for 13 replicas and three ready pods ask for 14: in \<open>float64\<close> the product
  \<open>ready * ((value / ready) / target)\<close> is rounded three times and can end just above the integer that
  \<open>value / target\<close> is, so the ceiling adds a replica.
\<close>

theorem ready_count_does_not_cancel:
  "ao_Raw (Recommend oob (sample_scale 65 1 5 [])) = 13
   \<and> ao_Raw (Recommend oob (sample_scale 65 3 5 [])) = 14"
proof -
  have one: "measured (sample_scale 65 1 5 [])" "\<not> in_band (sample_scale 65 1 5 [])"
    "raw_of (sample_scale 65 1 5 []) = 13"
    by (simp_all add: evaluate_scale)
  have three: "measured (sample_scale 65 3 5 [])" "\<not> in_band (sample_scale 65 3 5 [])"
    "raw_of (sample_scale 65 3 5 []) = 14"
    by (simp_all add: evaluate_scale ratio_roundings ceiling_unique)
  show ?thesis
    using Recommend_scaled [OF one(1,2), of oob] Recommend_scaled [OF three(1,2), of oob] one(3) three(3)
    by simp
qed

text \<open>
  C36. A correction into changed bounds is reported as a hold: when the current count lies outside the
  bounds and the measurement agrees with the bound, the count changes, yet the direction is \<open>None\<close> and
  the reason \<open>Stabilized\<close>, so that no scaling event is emitted for the write.
\<close>

theorem correction_reported_as_hold:
  assumes "measured inp" "\<not> in_band inp" "raw_of inp = cur_of inp" "cur_of inp \<noteq> ai_Current inp"
  shows "ao_Changed (Recommend oob inp) \<and> ao_Replicas (Recommend oob inp) = cur_of inp
    \<and> ao_Direction (Recommend oob inp) = DirectionNone
    \<and> ao_Reason (Recommend oob inp) = ReasonStabilized"
proof -
  have "scaled_of inp = cur_of inp"
    using assms(3) by (simp add: scaled_of_def stabilize_def) (simp add: cur_of_def clamp_idem)
  then show ?thesis
    using Recommend_scaled [OF assms(1,2), of oob] assms(4) by (simp add: directionOf_def)
qed

theorem correction_reported_as_hold_witness:
  "ao_Changed (Recommend (\<lambda>_. 0) (sample_scale 100 1 25 []))
   \<and> ao_Direction (Recommend (\<lambda>_. 0) (sample_scale 100 1 25 [])) = DirectionNone"
  using correction_reported_as_hold [of "sample_scale 100 1 25 []" "\<lambda>_. 0"]
  by (simp add: evaluate_scale)

end
