(* ===== verification/Analysis_Props.thy ===== *)
theory Analysis_Props
  imports Analysis
begin

text \<open>
  What an analysis round promises the rollout: a check passes only on one finite measurement inside its
  range, fails only on one finite measurement outside it, and says so for nothing else; a provider
  outage gives errors and only errors; and nothing passes for a canary whose traffic was not measured. The
  locale is the interface of an analysis round to the budgets of the rollout, interpreted on the analyzer.
\<close>

section \<open>One observation\<close>

lemma check_with_verdict [simp]: "mc_Verdict (check_with m value v msg) = v"
  by (simp add: check_with_def)

lemma Errored_verdict [simp]: "mc_Verdict (Errored m msg) = VerdictError"
  by (simp add: Errored_def)

lemma Inconclusive_verdict [simp]: "mc_Verdict (Inconclusive m msg) = VerdictInconclusive"
  by (simp add: Inconclusive_def)

lemma finite_value_Fin: "finite_value v \<longleftrightarrow> (\<exists>q. v = Fin q)"
  by (cases v) (simp_all add: finite_value_def)

definition sample_metric :: AnalysisMetric where
  "sample_metric = \<lparr>am_Name = ''error-rate'', am_Builtin = Some MetricErrorRate, am_Query = '''',
     am_ThresholdRange = \<lparr>tr_Min = None, tr_Max = Some \<lparr>q_MilliValue = 2000, q_String = ''2''\<rparr>\<rparr>,
     am_CompareToPrimary = None\<rparr>"

section \<open>A whole round\<close>

lemma Aggregate_errors:
  assumes "\<And>c. c \<in> set checks \<Longrightarrow> mc_Verdict c = VerdictError"
  shows "rd_Verdict (Aggregate checks) = VerdictError"
proof (cases checks)
  case (Cons c cs)
  then have "mc_Verdict c = VerdictError"
    using assms by simp
  moreover have "worst_of VerdictError cs = VerdictError"
    using worst_of_cases [of VerdictError cs] assms Cons by auto
  ultimately show ?thesis
    by (simp add: Aggregate_def Cons)
qed (simp add: Aggregate_def)

text \<open>An outage: no query is answered.\<close>

definition provider_down :: "provider \<Rightarrow> bool" where
  "provider_down p \<longleftrightarrow> (\<forall>q. \<exists>e. p q = Inl e)"

locale round_source =
  fixes run :: "provider \<Rightarrow> 'r \<Rightarrow> MetricCheck list"
    and metrics :: "'r \<Rightarrow> AnalysisMetric list"
  assumes one_check_per_metric: "length (run p r) = length (metrics r)"
    and outage_errs: "provider_down p \<Longrightarrow> c \<in> set (run p r) \<Longrightarrow> mc_Verdict c = VerdictError"
begin

lemma outage_verdict:
  assumes "provider_down p"
  shows "rd_Verdict (Aggregate (run p r)) = VerdictError"
  using outage_errs [OF assms] by (intro Aggregate_errors) blast

lemma outage_keeps_failures:
  assumes "provider_down p"
  shows "failed (apply_verdict c (rd_Verdict (Aggregate (run p r)))) = failed c"
  using outage_verdict [OF assms] by simp

end

lemma ask_down: "provider_down p \<Longrightarrow> \<exists>e. ask p u = Inl e"
  by (cases u) (simp_all add: ask_def provider_down_def)

lemma runOne_outage:
  assumes down: "provider_down p"
  shows "mc_Verdict (runOne p m qc qp n) = VerdictError"
proof -
  obtain e where e: "p q = Inl (e q)" for q
    using assms unfolding provider_down_def by metis
  have final: "mc_Verdict (case p q of Inl err \<Rightarrow> Evaluate m \<lparr>mo_Sample = zero_Sample, mo_Err = Some err\<rparr>
      | Inr s \<Rightarrow> Evaluate m \<lparr>mo_Sample = s, mo_Err = None\<rparr>) = VerdictError" for q
    by (simp add: e Evaluate_def)
  obtain err where err: "ask p (UsageSamplesQuery qc) = Inl err"
    using ask_down [OF down] by blast
  show ?thesis
    unfolding runOne_def Let_def
    by (cases "Query m qc"; cases "Query m qp") (simp_all add: final err)
qed

interpretation analyzer: round_source Run rq_Metrics
proof unfold_locales
  fix p r
  show "length (Run p r) = length (rq_Metrics r)"
    by (auto simp: Run_def Let_def gateOnTraffic_def allChecks_def split: option.splits sum.splits if_splits)
next
  fix p :: provider and c r
  assume down: "provider_down p" and c: "c \<in> set (Run p r)"
  obtain e where "ask p (RequestRateQuery (context_for r ''canary'')) = Inl e"
    using ask_down [OF down] by blast
  then show "mc_Verdict c = VerdictError"
    using c runOne_outage [OF down]
    by (auto simp: Run_def Let_def gateOnTraffic_def allChecks_def split: if_splits)
qed

text \<open>
  A provider outage never spends the failure budget: when every query fails, a round over any request
  has one check per metric, its verdict is Error, and applying it leaves the failure counter where it was.
\<close>

theorem outage_spends_no_failures:
  assumes "provider_down p"
  shows "length (Run p req) = length (rq_Metrics req)
    \<and> rd_Verdict (Aggregate (Run p req)) = VerdictError
    \<and> failed (apply_verdict c (rd_Verdict (Aggregate (Run p req)))) = failed c"
  using analyzer.one_check_per_metric analyzer.outage_verdict [OF assms]
    analyzer.outage_keeps_failures [OF assms] by simp

definition sample_request :: AnalysisRequest where
  "sample_request = \<lparr>rq_Namespace = ''prod'', rq_ModelDeployment = ''chat'', rq_Model = ''qwen'',
     rq_Window = ''60s'', rq_MinRequestRate = Fin 1, rq_MinUsageSamples = 20, rq_Metrics = [sample_metric]\<rparr>"

theorem outage_spends_no_failures_witness:
  "rd_Verdict (Aggregate (Run (\<lambda>_. Inl ''connection refused'') sample_request)) = VerdictError
   \<and> length (Run (\<lambda>_. Inl ''connection refused'') sample_request) = 1"
  using outage_spends_no_failures [of "\<lambda>_. Inl ''connection refused''" sample_request]
  by (simp add: sample_request_def provider_down_def)

lemma gate_open:
  assumes "gateOnTraffic p req qc = None" "\<not> fle (rq_MinRequestRate req) (Fin 0)"
  shows "\<exists>s r. ask p (RequestRateQuery qc) = Inr s \<and> sa_Count s = 1 \<and> sa_Value s = Fin r \<and> 0 \<le> r
    \<and> \<not> flt (sa_Value s) (rq_MinRequestRate req)"
proof -
  obtain s where s: "ask p (RequestRateQuery qc) = Inr s"
    using assms by (auto simp: gateOnTraffic_def split: sum.splits)
  have "sa_Count s = 1" "finite_value (sa_Value s)" "\<not> flt (sa_Value s) (Fin 0)"
    "\<not> flt (sa_Value s) (rq_MinRequestRate req)"
    using assms s by (auto simp: gateOnTraffic_def split: if_splits)
  with s show ?thesis
    by (auto simp: finite_value_Fin)
qed

text \<open>
  C22. Nothing passes without traffic: with a positive traffic floor, a round that has a passed check was
  preceded by a measurement of the canary's own request rate that returned exactly one finite,
  non-negative value not below the floor.
\<close>

theorem pass_needs_traffic:
  assumes "c \<in> set (Run p req)" "mc_Verdict c = VerdictPass" "\<not> fle (rq_MinRequestRate req) (Fin 0)"
  shows "\<exists>query s r. RequestRateQuery (context_for req ''canary'') = Inr query \<and> p query = Inr s
    \<and> sa_Count s = 1 \<and> sa_Value s = Fin r \<and> 0 \<le> r \<and> \<not> flt (sa_Value s) (rq_MinRequestRate req)"
proof -
  have "gateOnTraffic p req (context_for req ''canary'') = None"
  proof (cases "gateOnTraffic p req (context_for req ''canary'')")
    case (Some checks)
    then have "\<forall>c \<in> set checks. mc_Verdict c \<noteq> VerdictPass"
      by (auto simp: gateOnTraffic_def allChecks_def split: if_splits sum.splits)
    then show ?thesis
      using assms(1,2) Some by (simp add: Run_def)
  qed
  from gate_open [OF this assms(3)] show ?thesis
    by (cases "RequestRateQuery (context_for req ''canary'')") (auto simp: ask_def)
qed

theorem pass_needs_traffic_witness:
  "\<exists>query. RequestRateQuery (context_for sample_request ''canary'') = Inr query"
proof -
  let ?p = "\<lambda>_. Inr \<lparr>sa_Value = Fin 1, sa_Count = 1\<rparr> :: string + Sample"
  obtain q where "RequestRateQuery (context_for sample_request ''canary'') = Inr q"
    by (simp add: RequestRateQuery_def validateIdentity_def context_for_def sample_request_def is_blank_def
        is_space_def)
  then have "ask ?p (RequestRateQuery (context_for sample_request ''canary'')) = Inr \<lparr>sa_Value = Fin 1, sa_Count = 1\<rparr>"
    by (simp add: ask_def)
  then have g: "gateOnTraffic ?p sample_request (context_for sample_request ''canary'') = None"
    unfolding gateOnTraffic_def by (simp add: finite_value_def) (simp add: sample_request_def)
  have "mc_Verdict (runOne ?p sample_metric (context_for sample_request ''canary'')
           (context_for sample_request ''primary'') 20) = VerdictPass"
    by (simp add: runOne_def Query_def builtinQuery_def validateIdentity_def context_for_def sample_request_def
        is_blank_def is_space_def sample_metric_def Let_def CompareToPrimaryEnabled_def Evaluate_def
        below_min_def above_max_def quantityFloat_def f64_of_i64_def)
  then have "\<exists>c \<in> set (Run ?p sample_request). mc_Verdict c = VerdictPass"
    using g by (simp add: Run_def) (simp add: sample_request_def)
  then show ?thesis
    using pass_needs_traffic [of _ ?p sample_request] by (auto simp: sample_request_def)
qed

lemma Aggregate_round:
  "(rd_Verdict (Aggregate checks) = VerdictPass \<longleftrightarrow> checks \<noteq> [] \<and> (\<forall>c \<in> set checks. mc_Verdict c = VerdictPass)) \<and>
   (rd_Verdict (Aggregate checks) = VerdictFail \<longrightarrow> VerdictFail \<in> mc_Verdict ` set checks)"
proof -
  note agg = Aggregate_dominant [of checks]
  then show ?thesis
    by (cases "checks = []") (simp, metis)
qed

section \<open>What a round measured\<close>

text \<open>
  What the backend said about a query, read without the analyzer: a number only when the query could be
  written and its answer is exactly one series with a finite value. The query of a metric is the canary's,
  or the canary's over the primary's when the metric is compared; the ranges are inclusive.
\<close>

definition sole_value :: "provider \<Rightarrow> string + string \<Rightarrow> rat option" where
  "sole_value p query = (case query of Inl _ \<Rightarrow> None
     | Inr q \<Rightarrow> (case p q of Inl _ \<Rightarrow> None
         | Inr s \<Rightarrow> if sa_Count s \<noteq> 1 then None
                   else (case sa_Value s of Fin r \<Rightarrow> Some r | NaN \<Rightarrow> None | PInf \<Rightarrow> None | NInf \<Rightarrow> None)))"

definition metric_query :: "AnalysisRequest \<Rightarrow> AnalysisMetric \<Rightarrow> string + string" where
  "metric_query req m =
     (case (Query m (context_for req ''canary''), Query m (context_for req ''primary'')) of
        (Inl err, _) \<Rightarrow> Inl err
      | (Inr canary, primary) \<Rightarrow>
          if am_CompareToPrimary m \<noteq> Some True then Inr canary
          else (case primary of Inl err \<Rightarrow> Inl err | Inr q \<Rightarrow> Inr (RatioQuery canary q)))"

definition within_range :: "AnalysisMetric \<Rightarrow> rat \<Rightarrow> bool" where
  "within_range m r \<longleftrightarrow>
     (\<forall>lo \<in> set_option (tr_Min (am_ThresholdRange m)). \<not> flt (Fin r) (quantityFloat lo)) \<and>
     (\<forall>hi \<in> set_option (tr_Max (am_ThresholdRange m)). \<not> flt (quantityFloat hi) (Fin r))"

definition traffic_shown :: "provider \<Rightarrow> AnalysisRequest \<Rightarrow> bool" where
  "traffic_shown p req \<longleftrightarrow> fle (rq_MinRequestRate req) (Fin 0) \<or>
     (\<exists>r \<in> set_option (sole_value p (RequestRateQuery (context_for req ''canary''))).
        0 \<le> r \<and> \<not> flt (Fin r) (rq_MinRequestRate req))"

definition usage_shown :: "provider \<Rightarrow> AnalysisRequest \<Rightarrow> AnalysisMetric \<Rightarrow> bool" where
  "usage_shown p req m \<longleftrightarrow> (am_Query m = '''' \<and> am_Builtin m = Some MetricOutputTokenRate \<longrightarrow>
     (\<forall>variant \<in> {''canary''} \<union> (if am_CompareToPrimary m = Some True then {''primary''} else {}).
        \<exists>u \<in> set_option (sole_value p (UsageSamplesQuery (context_for req variant))).
          of_int (if rq_MinUsageSamples req < 1 then 20 else rq_MinUsageSamples req) \<le> u))"

lemma sole_value_Some:
  "sole_value p query = Some r \<longleftrightarrow> (\<exists>s. ask p query = Inr s \<and> sa_Count s = 1 \<and> sa_Value s = Fin r)"
  by (auto simp: sole_value_def ask_def split: sum.splits f64.splits)

lemma compared [simp]: "CompareToPrimaryEnabled (Some m) \<longleftrightarrow> am_CompareToPrimary m = Some True"
  by (auto simp: CompareToPrimaryEnabled_def split: option.splits)

lemma bex_set_option: "(\<exists>x \<in> set_option opt. P x) \<longleftrightarrow> (\<exists>x. opt = Some x \<and> P x)"
  by (cases opt) simp_all

lemma gate_traffic: "gateOnTraffic p req (context_for req ''canary'') = None \<longleftrightarrow> traffic_shown p req"
  by (auto simp: gateOnTraffic_def traffic_shown_def bex_set_option sole_value_Some finite_value_Fin
      split: sum.splits if_splits)

lemma gate_undecided:
  "gateOnTraffic p req qc = Some checks \<Longrightarrow> c \<in> set checks \<Longrightarrow> mc_Verdict c \<in> {VerdictError, VerdictInconclusive}"
  by (auto simp: gateOnTraffic_def allChecks_def split: if_splits sum.splits)

lemma usage_gate_open:
  "usage_gate p m n qcs = None \<longleftrightarrow>
     (\<forall>qc \<in> set qcs. \<exists>u. sole_value p (UsageSamplesQuery qc) = Some u \<and> of_int n \<le> u)"
  by (induction qcs) (auto simp: sole_value_Some finite_value_Fin f64_of_i32_def split: sum.splits if_splits)

lemma usage_gate_undecided:
  "usage_gate p m n qcs = Some c \<Longrightarrow> mc_Verdict c \<in> {VerdictError, VerdictInconclusive}"
  by (induction qcs) (auto split: sum.splits if_splits)

definition usage_check :: "provider \<Rightarrow> AnalysisRequest \<Rightarrow> AnalysisMetric \<Rightarrow> MetricCheck option" where
  "usage_check p req m =
     (if am_Query m = '''' \<and> am_Builtin m = Some MetricOutputTokenRate then
        usage_gate p m (if rq_MinUsageSamples req < 1 then 20 else rq_MinUsageSamples req)
          (context_for req ''canary'' #
           (if CompareToPrimaryEnabled (Some m) then [context_for req ''primary''] else []))
      else None)"

lemma usage_check_None: "usage_check p req m = None \<longleftrightarrow> usage_shown p req m"
  by (auto simp: usage_check_def usage_shown_def usage_gate_open bex_set_option simp del: usage_gate.simps)

lemma runOne_usage:
  "mc_Verdict (runOne p m (context_for req ''canary'') (context_for req ''primary'') (rq_MinUsageSamples req)) =
   (case usage_check p req m of Some check \<Rightarrow> mc_Verdict check
    | None \<Rightarrow> (case ask p (metric_query req m) of Inl _ \<Rightarrow> VerdictError
        | Inr s \<Rightarrow> mc_Verdict (Evaluate m \<lparr>mo_Sample = s, mo_Err = None\<rparr>)))"
proof -
  have failed: "mc_Verdict (Evaluate m \<lparr>mo_Sample = zero_Sample, mo_Err = Some err\<rparr>) = VerdictError" for err
    by (simp add: Evaluate_def)
  show ?thesis
    unfolding runOne_def Let_def usage_check_def [symmetric]
    by (simp add: metric_query_def ask_def failed split: option.split sum.split)
qed

lemma usage_check_undecided:
  "usage_check p req m = Some c \<Longrightarrow> mc_Verdict c \<in> {VerdictError, VerdictInconclusive}"
  using usage_gate_undecided by (simp add: usage_check_def del: usage_gate.simps split: if_split_asm)

lemma Evaluate_judges:
  assumes "0 \<le> sa_Count s"
  shows "mc_Verdict (Evaluate m \<lparr>mo_Sample = s, mo_Err = None\<rparr>) = VerdictPass \<longleftrightarrow>
      sa_Count s = 1 \<and> (\<exists>r. sa_Value s = Fin r \<and> within_range m r)"
    and "mc_Verdict (Evaluate m \<lparr>mo_Sample = s, mo_Err = None\<rparr>) = VerdictFail \<longleftrightarrow>
      sa_Count s = 1 \<and> (\<exists>r. sa_Value s = Fin r \<and> \<not> within_range m r)"
  using assms
  by (cases "sa_Value s"; auto simp: Evaluate_def Let_def below_min_def above_max_def within_range_def
      split: option.splits if_splits)+

text \<open>
  C20. A round says what the backend measured, for every backend whose samples count their series. It
  passes exactly when it has metrics, the canary's own traffic was shown to reach the floor, a reported
  token rate is backed by enough usage-bearing completions on every variant it is read for, and the query of
  every metric, taken over the primary where the metric is compared with it, was answered by one finite
  number inside its range. It fails only when traffic and usage were shown and the query of some metric was
  answered by one finite number outside its range, so no outage, missing series, ambiguous query or
  non-number ever promotes a canary or counts against it.
\<close>

theorem round_verdict_is_measured:
  assumes counted: "\<And>query s. p query = Inr s \<Longrightarrow> 0 \<le> sa_Count s"
  shows "(rd_Verdict (Aggregate (Run p req)) = VerdictPass \<longleftrightarrow>
      rq_Metrics req \<noteq> [] \<and> traffic_shown p req \<and>
      (\<forall>m \<in> set (rq_Metrics req). usage_shown p req m \<and>
         (\<exists>r. sole_value p (metric_query req m) = Some r \<and> within_range m r))) \<and>
    (rd_Verdict (Aggregate (Run p req)) = VerdictFail \<longrightarrow>
      traffic_shown p req \<and>
      (\<exists>m \<in> set (rq_Metrics req). usage_shown p req m \<and>
         (\<exists>r. sole_value p (metric_query req m) = Some r \<and> \<not> within_range m r)))"
proof -
  let ?one = "\<lambda>m. runOne p m (context_for req ''canary'') (context_for req ''primary'') (rq_MinUsageSamples req)"
  have counted_ask: "0 \<le> sa_Count s" if "ask p u = Inr s" for u s
    using that counted by (auto simp: ask_def split: sum.splits)
  have "(mc_Verdict (?one m) = VerdictPass \<longleftrightarrow>
        usage_shown p req m \<and> (\<exists>r. sole_value p (metric_query req m) = Some r \<and> within_range m r)) \<and>
      (mc_Verdict (?one m) = VerdictFail \<longleftrightarrow>
        usage_shown p req m \<and> (\<exists>r. sole_value p (metric_query req m) = Some r \<and> \<not> within_range m r))" for m
    using usage_check_undecided [of p req m] counted_ask
    by (auto simp: runOne_usage usage_check_None [symmetric] sole_value_Some Evaluate_judges
        split: option.splits sum.splits)
  then have pass: "mc_Verdict (?one m) = VerdictPass \<longleftrightarrow>
        usage_shown p req m \<and> (\<exists>r. sole_value p (metric_query req m) = Some r \<and> within_range m r)"
    and fail: "mc_Verdict (?one m) = VerdictFail \<longleftrightarrow>
        usage_shown p req m \<and> (\<exists>r. sole_value p (metric_query req m) = Some r \<and> \<not> within_range m r)" for m
    by blast+
  have nonempty: "Run p req = [] \<longleftrightarrow> rq_Metrics req = []"
    using analyzer.one_check_per_metric [of p req] by (metis length_0_conv)
  note agg = Aggregate_round [of "Run p req"]
  show ?thesis
  proof (cases "traffic_shown p req")
    case True
    then have "Run p req = map ?one (rq_Metrics req)"
      by (simp add: Run_def gate_traffic [symmetric])
    then have "(\<forall>c \<in> set (Run p req). mc_Verdict c = VerdictPass) \<longleftrightarrow> (\<forall>m \<in> set (rq_Metrics req). mc_Verdict (?one m) = VerdictPass)"
      "VerdictFail \<in> mc_Verdict ` set (Run p req) \<longleftrightarrow> (\<exists>m \<in> set (rq_Metrics req). mc_Verdict (?one m) = VerdictFail)"
      by (simp, simp add: image_image image_iff eq_commute [of VerdictFail])
    with True agg show ?thesis
      unfolding pass fail nonempty by simp
  next
    case False
    then obtain checks where "gateOnTraffic p req (context_for req ''canary'') = Some checks"
      by (auto simp: gate_traffic [symmetric])
    then have "Run p req = checks" "\<forall>c \<in> set checks. mc_Verdict c \<in> {VerdictError, VerdictInconclusive}"
      using gate_undecided by (auto simp: Run_def)
    with False agg show ?thesis
      by (cases checks) auto
  qed
qed

theorem round_verdict_is_measured_witness:
  "rd_Verdict (Aggregate (Run (\<lambda>_. Inr \<lparr>sa_Value = Fin 1, sa_Count = 1\<rparr>) sample_request)) = VerdictPass
   \<and> rd_Verdict (Aggregate (Run (\<lambda>_. Inr \<lparr>sa_Value = Fin 3, sa_Count = 1\<rparr>) sample_request)) \<noteq> VerdictPass
   \<and> rd_Verdict (Aggregate (Run (\<lambda>_. Inr \<lparr>sa_Value = Fin 1, sa_Count = 2\<rparr>) sample_request)) \<notin> {VerdictPass, VerdictFail}"
proof -
  let ?answer = "\<lambda>v n. (\<lambda>_. Inr \<lparr>sa_Value = Fin v, sa_Count = n\<rparr>) :: provider"
  have query: "\<exists>q. metric_query sample_request sample_metric = Inr q"
    "\<exists>q. RequestRateQuery (context_for sample_request ''canary'') = Inr q"
    by (simp_all add: metric_query_def RequestRateQuery_def Query_def builtinQuery_def validateIdentity_def
        context_for_def sample_request_def sample_metric_def is_blank_def is_space_def)
  then have sole: "sole_value (?answer v n) (metric_query sample_request sample_metric) = (if n = 1 then Some v else None)"
    "sole_value (?answer v n) (RequestRateQuery (context_for sample_request ''canary'')) = (if n = 1 then Some v else None)"
    for v n by (auto simp: sole_value_def)
  have traffic: "traffic_shown (?answer v n) sample_request \<longleftrightarrow> n = 1 \<and> 1 \<le> v" for v n
    unfolding traffic_shown_def sole by (auto simp: sample_request_def)
  have usage: "usage_shown (?answer v n) sample_request sample_metric" for v n
    by (simp add: usage_shown_def sample_metric_def)
  have range: "within_range sample_metric v \<longleftrightarrow> v \<le> 2" for v
    by (auto simp: within_range_def sample_metric_def quantityFloat_def f64_of_i64_def)
  have metrics: "rq_Metrics sample_request = [sample_metric]"
    by (simp add: sample_request_def)
  note R = round_verdict_is_measured [where req = sample_request, unfolded metrics]
  show ?thesis
    using R [of "?answer 1 1"] R [of "?answer 3 1"] R [of "?answer 1 2"] by (simp add: sole traffic usage range)
qed

end
