(* ===== verification/Controller_Scale_Props.thy ===== *)
theory Controller_Scale_Props
  imports Controller_Scale Controller_Props Autoscale_Props Analysis_Props
begin

text \<open>
  What the autoscaling pass promises the cluster: the only thing it ever writes is a replica count
  inside the configured bounds, only while it owns the count and nobody else scales the same object; an
  outage of the metric backend freezes the fleet; the recommendation history survives the status.
\<close>

text \<open>The history survives the status.\<close>

lemma recommendation_roundtrip [simp]:
  "map (\<lambda>x. \<lparr>rc_Time = rc_Time x, rc_Replicas = rc_Replicas x\<rparr>) h = (h :: Recommendation list)"
  by (induction h) simp_all

lemma reconcile_enabled:
  fixes r :: Reconciler and pd cd :: "Deployment option"
  assumes "AutoscalingEnabled (md_Autoscaling md)" "externalScalerConflict md hpas = Inr ''''"
  defines "out \<equiv> Recommend (rr_OutOfRange r) (scale_input r md pd cd)"
  shows "sc_Object (reconcileAutoscaling r md pd cd hpas patch) =
      (if ao_Changed out then fst (applyReplicas md patch (ao_Replicas out)) else md)"
    and "av_Status (sc_Verdict (reconcileAutoscaling r md pd cd hpas patch)) =
      (if ao_Valid out then ConditionTrue else ConditionFalse)"
    and "\<not> ao_Valid out \<Longrightarrow>
      av_Reason (sc_Verdict (reconcileAutoscaling r md pd cd hpas patch)) = ReasonAutoscalingNoMetrics"
    and "\<exists>aus. av_Autoscaling (sc_Verdict (reconcileAutoscaling r md pd cd hpas patch)) = Some aus
      \<and> recommendationsFrom (Some aus) = ao_History out"
  using assms(1,2)
  by (auto simp: reconcileAutoscaling_def out_def Let_def verdict_def autoscalingStatusFrom_def
      recommendationsFrom_def comp_def split: prod.split option.split)

lemma reconcile_standing_down:
  assumes "\<not> (AutoscalingEnabled (md_Autoscaling md) \<and> externalScalerConflict md hpas = Inr '''')"
  shows "sc_Object (reconcileAutoscaling r md pd cd hpas patch) = md"
  using assms by (auto simp: reconcileAutoscaling_def Let_def split: sum.split)

text \<open>Writing what a recommender changed: at most one field, inside the bounds, on an accepted patch only.\<close>

context bounded_recommender
begin

lemma write_bounded:
  assumes "ai_Current inp = replicasFor md" "ao_Changed (recommend inp)"
  shows "fst (applyReplicas md patch (ao_Replicas (recommend inp))) = md \<or>
    (\<exists>resp n. patch = PatchOk resp \<and> fst (applyReplicas md patch (ao_Replicas (recommend inp))) = with_replicas resp n
      \<and> n \<noteq> replicasFor md \<and> max (cf_MinReplicas (ai_Config inp)) 1 \<le> n
      \<and> n \<le> max (cf_MaxReplicas (ai_Config inp)) (max (cf_MinReplicas (ai_Config inp)) 1))"
  using assms floor [of inp] ceiling [of inp] changed [of inp] by (cases patch) auto

end

text \<open>The bounds a specification gives the autoscaler.\<close>

definition spec_floor :: "ModelDeployment \<Rightarrow> i32" where
  "spec_floor md = max (case md_Autoscaling md of None \<Rightarrow> 0 | Some s \<Rightarrow> au_MinReplicas s) 1"

definition spec_ceiling :: "ModelDeployment \<Rightarrow> i32" where
  "spec_ceiling md = max (case md_Autoscaling md of None \<Rightarrow> 0 | Some s \<Rightarrow> au_MaxReplicas s) (spec_floor md)"

lemma scale_object_cases:
  "sc_Object (reconcileAutoscaling r md pd cd hpas patch) = md \<or>
   (AutoscalingEnabled (md_Autoscaling md) \<and> externalScalerConflict md hpas = Inr '''' \<and>
    (\<exists>resp n. patch = PatchOk resp \<and> sc_Object (reconcileAutoscaling r md pd cd hpas patch) = with_replicas resp n
      \<and> n \<noteq> replicasFor md \<and> spec_floor md \<le> n \<and> n \<le> spec_ceiling md))"
proof (cases "AutoscalingEnabled (md_Autoscaling md) \<and> externalScalerConflict md hpas = Inr ''''")
  case True
  let ?inp = "scale_input r md pd cd"
  have cfg: "spec_floor md = max (cf_MinReplicas (ai_Config ?inp)) 1"
    "spec_ceiling md = max (cf_MaxReplicas (ai_Config ?inp)) (max (cf_MinReplicas (ai_Config ?inp)) 1)"
    "ai_Current ?inp = replicasFor md"
    by (simp_all add: spec_floor_def spec_ceiling_def scale_input_def Let_def)
  show ?thesis
    using True reconcile_enabled(1) [of md hpas r pd cd patch]
      autoscaler.write_bounded [of ?inp md "rr_OutOfRange r" patch] unfolding cfg
    by (auto split: if_splits)
qed (use reconcile_standing_down in blast)

text \<open>
  C13. The autoscaling pass either leaves the object alone or writes exactly one field of the server's
  object: a replica count that differs from the current one and lies between the configured minimum (at least one) and maximum.
  It writes only when the built-in mode is on, the conflict check succeeded and found no
  HorizontalPodAutoscaler on this object, and the API server accepted the patch.
\<close>

theorem scaling_writes_bounded:
  "sc_Object (reconcileAutoscaling r md pd cd hpas patch) = md \<or>
   (AutoscalingEnabled (md_Autoscaling md) \<and> externalScalerConflict md hpas = Inr '''' \<and>
    (\<exists>resp n. patch = PatchOk resp \<and> sc_Object (reconcileAutoscaling r md pd cd hpas patch) = with_replicas resp n
      \<and> n \<noteq> replicasFor md \<and> spec_floor md \<le> n \<and> n \<le> spec_ceiling md))"
  by (rule scale_object_cases)

lemma no_observation_invalid [simp]: "\<not> ob_Valid (no_observation x)"
  by (simp add: no_observation_def)

lemma outage_invalid:
  assumes "\<And>p. autoscalingProviderFor r md = Some p \<Longrightarrow> provider_down p"
  shows "\<not> ob_Valid (scale_observation r md pd cd)"
proof (cases "autoscalingProviderFor r md")
  case (Some p)
  then have "\<exists>e. p q = Inl e" for q
    using assms by (simp add: provider_down_def)
  then have "\<not> ob_Valid (sampleAutoscalingMetricFrom md (Some p))"
    unfolding sampleAutoscalingMetricFrom_def
    by (auto simp del: split_paired_Ex split: sum.splits) (metis Inl_Inr_False)
  then show ?thesis
    by (simp add: scale_observation_def Some Let_def split: prod.split)
qed (simp add: scale_observation_def sampleAutoscalingMetricFrom_def Let_def split: prod.split)

text \<open>
  C29. A metric outage freezes the fleet. When no provider is configured or every query fails, an enabled
  autoscaler without a competing one leaves a fleet that is inside its bounds exactly as it is, reports
  the condition False with the reason \<open>AutoscalingNoMetrics\<close>, and adds nothing to the recommendation
  history it persists - whatever the demand was before.
\<close>

theorem outage_freezes_fleet:
  assumes "AutoscalingEnabled (md_Autoscaling md)" "externalScalerConflict md hpas = Inr ''''"
    and "\<forall>p. autoscalingProviderFor r md = Some p \<longrightarrow> provider_down p"
    and "spec_floor md \<le> replicasFor md" "replicasFor md \<le> spec_ceiling md"
  shows "sc_Object (reconcileAutoscaling r md pd cd hpas patch) = md
    \<and> av_Status (sc_Verdict (reconcileAutoscaling r md pd cd hpas patch)) = ConditionFalse
    \<and> av_Reason (sc_Verdict (reconcileAutoscaling r md pd cd hpas patch)) = ReasonAutoscalingNoMetrics
    \<and> (\<exists>aus. av_Autoscaling (sc_Verdict (reconcileAutoscaling r md pd cd hpas patch)) = Some aus
        \<and> set (recommendationsFrom (Some aus)) \<subseteq> set (recommendationsFrom (ms_Autoscaling (md_Status md))))"
proof -
  let ?inp = "scale_input r md pd cd"
  let ?out = "Recommend (rr_OutOfRange r) ?inp"
  have inp: "ai_Observation ?inp = scale_observation r md pd cd" "ai_Current ?inp = replicasFor md"
      "ai_History ?inp = recommendationsFrom (ms_Autoscaling (md_Status md))"
    by (simp_all add: scale_input_def Let_def)
  have "\<not> measured ?inp"
    using outage_invalid [of r md pd cd] assms(3) by (simp add: measured_def inp)
  then obtain m where out: "?out = hold_scale ?inp ReasonNoMetrics m"
    by (cases rule: Recommend_cases [of ?inp "rr_OutOfRange r"]) auto
  have "cur_of ?inp = replicasFor md"
    unfolding cur_of_def inp using assms(4,5)
    by (intro clamp_fix) (simp_all add: spec_floor_def spec_ceiling_def scale_input_def Let_def)
  then have "\<not> ao_Valid ?out" "\<not> ao_Changed ?out" "set (ao_History ?out) \<subseteq> set (ai_History ?inp)"
    by (auto simp: out inp dest: prune_in_window)
  then show ?thesis
    using reconcile_enabled [OF assms(1,2), of r pd cd patch] inp(3) by auto
qed


text \<open>A fleet of five under a built-in autoscaler from one to ten replicas, with an unreachable backend.\<close>

definition sample_scaling :: AutoscalingSpec where
  "sample_scaling = \<lparr>au_Mode = AutoscalingBuiltin, au_MinReplicas = 1, au_MaxReplicas = 10,
     au_Metric = AutoscalingQueueDepth, au_Target = None, au_Tolerance = None, au_PollInterval = None,
     au_Window = None, au_ScaleUpStabilization = None, au_ScaleDownStabilization = None,
     au_ProviderAddress = '''', au_ProviderTimeout = None\<rparr>"

definition sample_scaled_md :: ModelDeployment where
  "sample_scaled_md = (sample_md RolloutRollingUpdate)\<lparr>md_Spec := (md_Spec (sample_md RolloutRollingUpdate))\<lparr>sp_Autoscaling := Some sample_scaling\<rparr>\<rparr>"

theorem outage_freezes_fleet_witness:
  "sc_Object (reconcileAutoscaling sample_reconciler sample_scaled_md (Some (sample_deployment 5 [])) None
     (ListItems []) (PatchOk sample_scaled_md)) = sample_scaled_md"
proof -
  have "AutoscalingEnabled (md_Autoscaling sample_scaled_md)"
    "externalScalerConflict sample_scaled_md (ListItems []) = Inr ''''"
    "spec_floor sample_scaled_md \<le> replicasFor sample_scaled_md"
    "replicasFor sample_scaled_md \<le> spec_ceiling sample_scaled_md"
    by (simp_all add: AutoscalingEnabled_def sample_scaled_md_def sample_scaling_def spec_floor_def spec_ceiling_def
        replicasFor_def sample_md_def sample_spec_def)
  moreover have "\<forall>p. autoscalingProviderFor sample_reconciler sample_scaled_md = Some p \<longrightarrow> provider_down p"
    by (simp add: autoscalingProviderFor_def sample_reconciler_def provider_down_def)
  ultimately show ?thesis
    using outage_freezes_fleet by blast
qed

end
