(* ===== verification/Engine.thy ===== *)
theory Engine
  imports Controller_Types Go_Sort
begin

text \<open>
  The engine seam (\<open>internal/engine\<close>): the profile interface and its registry (\<open>engine.go\<close>), the thread
  count (\<open>threads.go\<close>), the llama.cpp profile (\<open>llamacpp.go\<close>) and the settings it reserves
  (\<open>llamacpp_reserved.go\<close>). A profile is a record of its methods, an error is its message, the registry
  an association list from engine types to profiles. \<open>path\<close>'s lexical functions are written out.
\<close>

section \<open>Paths\<close>

fun split_slash :: "string \<Rightarrow> string list" where
  "split_slash [] = [[]]"
| "split_slash (c # cs) =
     (if c = CHR ''/'' then [] # split_slash cs
      else (case split_slash cs of [] \<Rightarrow> [[c]] | w # ws \<Rightarrow> (c # w) # ws))"

fun join_slash :: "string list \<Rightarrow> string" where
  "join_slash [] = []"
| "join_slash [w] = w"
| "join_slash (w # ws) = w @ ''/'' @ join_slash ws"

text \<open>\<open>path.Clean\<close>: the elements from the left, on a stack; a \<open>..\<close> removes the element before it, and
  at the root nothing.\<close>

fun clean_elements :: "bool \<Rightarrow> string list \<Rightarrow> string list \<Rightarrow> string list" where
  "clean_elements rooted stack [] = rev stack"
| "clean_elements rooted stack (w # ws) =
     (if w = '''' \<or> w = ''.'' then clean_elements rooted stack ws
      else if w = ''..'' then
        (case stack of
           [] \<Rightarrow> clean_elements rooted (if rooted then [] else [''..'']) ws
         | w2 # below \<Rightarrow>
             if w2 = ''..'' then clean_elements rooted (''..'' # stack) ws
             else clean_elements rooted below ws)
      else clean_elements rooted (w # stack) ws)"

definition path_Clean :: "string \<Rightarrow> string" where
  "path_Clean p =
     (let rooted = (p \<noteq> [] \<and> hd p = CHR ''/'');
          body = join_slash (clean_elements rooted [] (split_slash p))
      in if rooted then CHR ''/'' # body else if body = '''' then ''.'' else body)"

definition strip_slashes :: "string \<Rightarrow> string" where
  "strip_slashes s = rev (dropWhile (\<lambda>c. c = CHR ''/'') (rev s))"

definition path_Base :: "string \<Rightarrow> string" where
  "path_Base p =
     (if p = '''' then ''.''
      else let b = last (split_slash (strip_slashes p)) in if b = '''' then ''/'' else b)"

definition path_Dir :: "string \<Rightarrow> string" where
  "path_Dir p = path_Clean (rev (dropWhile (\<lambda>c. c \<noteq> CHR ''/'') (rev p)))"

text \<open>\<open>path.Join\<close> of two non-empty elements.\<close>

definition path_Join :: "string \<Rightarrow> string \<Rightarrow> string" where
  "path_Join a b = path_Clean (a @ ''/'' @ b)"

section \<open>Threads\<close>

definition atLeastOneThread :: "i32 \<Rightarrow> i32" where
  "atLeastOneThread n = (if n < 1 then 1 else n)"

definition coresFrom :: "quantity \<Rightarrow> i32" where
  "coresFrom q =
     (let cores = q_MilliValue q sdiv 1000
      in if cores < 1 then 1 else if cores > MaxInt32 then MaxInt32 else cores)"

definition ThreadsFor :: "ModelDeploymentSpec option \<Rightarrow> i32 \<Rightarrow> i32" where
  "ThreadsFor spec fallback =
     (case spec of
        None \<Rightarrow> atLeastOneThread fallback
      | Some s \<Rightarrow>
          (case en_Threads (sp_Engine s) of
             Some n \<Rightarrow> atLeastOneThread n
           | None \<Rightarrow>
               (let res = en_Resources (sp_Engine s)
                in case map_of (rq_Limits res) ResourceCPU of
                     Some q \<Rightarrow> coresFrom q
                   | None \<Rightarrow>
                       (case map_of (rq_Requests res) ResourceCPU of
                          Some q \<Rightarrow> coresFrom q
                        | None \<Rightarrow> atLeastOneThread fallback))))"

section \<open>The profile interface and its registry\<close>

definition ModelVolumeName :: string where "ModelVolumeName = ''model''"
definition ContainerName :: string where "ContainerName = ''engine''"

record BuildContext =
  bc_MD :: "ModelDeployment option"
  bc_Variant :: Variant
  bc_ModelPath :: string
  bc_CacheDir :: string
  bc_Threads :: i32
  bc_Port :: i32

record BuildResult =
  br_Container :: Container
  br_HealthPath :: string

record Profile =
  pf_Type :: string
  pf_DefaultImage :: string
  pf_Validate :: "ModelDeploymentSpec option \<Rightarrow> string option"
  pf_Build :: "BuildContext \<Rightarrow> string + BuildResult"

type_synonym registry = "(string \<times> Profile) list"

datatype 'a outcome = Panics string | Returns 'a

definition Register :: "Profile option \<Rightarrow> registry \<Rightarrow> registry outcome" where
  "Register p reg =
     (case p of
        None \<Rightarrow> Panics ''engine: Register called with a nil Profile''
      | Some prof \<Rightarrow>
          (let t = pf_Type prof
           in if t = '''' then Panics ''engine: Register called with a Profile whose Type() is empty''
              else if map_of reg t \<noteq> None
                then Panics (''engine: duplicate Profile registration for type '' @ go_Quote t)
              else Returns ((t, prof) # reg)))"

definition registeredTypesLocked :: "registry \<Rightarrow> string list" where
  "registeredTypesLocked reg = sort_by str_le (map fst reg)"

fun strings_Join :: "string \<Rightarrow> string list \<Rightarrow> string" where
  "strings_Join sep [] = []"
| "strings_Join sep [w] = w"
| "strings_Join sep (w # ws) = w @ sep @ strings_Join sep ws"

definition engine_Get :: "registry \<Rightarrow> string \<Rightarrow> string + Profile" where
  "engine_Get reg t =
     (case map_of reg t of
        Some p \<Rightarrow> Inr p
      | None \<Rightarrow> Inl (''engine: unknown engine type '' @ go_Quote t @ ''; supported types are: '' @
          strings_Join '', '' (registeredTypesLocked reg)))"

section \<open>Settings the llama.cpp profile reserves\<close>

definition llamaCPPAPIKeyEnvVar :: string where "llamaCPPAPIKeyEnvVar = ''LLAMA_API_KEY''"
definition llamaCPPHostFlag :: string where "llamaCPPHostFlag = ''--host''"
definition llamaCPPPortFlag :: string where "llamaCPPPortFlag = ''--port''"
definition llamaCPPParallelFlag :: string where "llamaCPPParallelFlag = ''--parallel''"
definition llamaCPPCacheEnvVar :: string where "llamaCPPCacheEnvVar = ''LLAMA_CACHE''"
definition llamaCPPHFTokenEnvVar :: string where "llamaCPPHFTokenEnvVar = ''HF_TOKEN''"

definition settingModelSource :: string where "settingModelSource = ''.spec.model.source''"
definition settingModelSourceAndPath :: string where
  "settingModelSourceAndPath = ''.spec.model.source and .spec.model.path''"
definition settingHFRepo :: string where "settingHFRepo = ''.spec.model.source.huggingFace.repo''"
definition settingHFFile :: string where "settingHFFile = ''.spec.model.source.huggingFace.file''"
definition settingHFToken :: string where "settingHFToken = ''.spec.model.source.huggingFace.tokenSecretRef''"
definition settingServingHost :: string where "settingServingHost = ''the controller-managed serving host''"
definition settingServingPort :: string where
  "settingServingPort = ''.spec.serving.port (the external Service port)''"
definition settingModelName :: string where "settingModelName = ''.spec.model.name''"
definition settingMaxConcurrency :: string where "settingMaxConcurrency = ''.spec.engine.maxConcurrency''"
definition settingThreads :: string where "settingThreads = ''.spec.engine.threads''"
definition settingContextSize :: string where "settingContextSize = ''.spec.engine.contextSize''"
definition settingMetricsEndpoint :: string where
  "settingMetricsEndpoint = ''the controller-managed metrics endpoint''"
definition settingAPIKey :: string where "settingAPIKey = ''.spec.engine.apiKeySecretRef''"

definition llamaCPPReservedFlags :: "(string \<times> string) list" where
  "llamaCPPReservedFlags =
     [(''-m'', settingModelSourceAndPath), (''--model'', settingModelSourceAndPath),
      (''-mu'', settingModelSource), (''--model-url'', settingModelSource),
      (''-dr'', settingModelSource), (''--docker-repo'', settingModelSource),
      (''-hf'', settingHFRepo), (''-hfr'', settingHFRepo), (''--hf-repo'', settingHFRepo),
      (''-hff'', settingHFFile), (''--hf-file'', settingHFFile),
      (''-hft'', settingHFToken), (''--hf-token'', settingHFToken),
      (llamaCPPHostFlag, settingServingHost), (llamaCPPPortFlag, settingServingPort),
      (''-a'', settingModelName), (''--alias'', settingModelName),
      (''-np'', settingMaxConcurrency), (llamaCPPParallelFlag, settingMaxConcurrency),
      (''-t'', settingThreads), (''--threads'', settingThreads),
      (''-tb'', settingThreads), (''--threads-batch'', settingThreads),
      (''-c'', settingContextSize), (''--ctx-size'', settingContextSize),
      (''--metrics'', settingMetricsEndpoint),
      (''--api-key'', settingAPIKey), (''--api-key-file'', settingAPIKey),
      (''--models-dir'', settingModelSource), (''--models-preset'', settingModelSource)]"

definition llamaCPPReservedEnv :: "(string \<times> string) list" where
  "llamaCPPReservedEnv =
     [(''LLAMA_ARG_MODEL'', settingModelSourceAndPath), (''LLAMA_ARG_MODEL_URL'', settingModelSource),
      (''LLAMA_ARG_DOCKER_REPO'', settingModelSource), (''LLAMA_ARG_HF_REPO'', settingHFRepo),
      (''LLAMA_ARG_HF_FILE'', settingHFFile), (''HF_TOKEN'', settingHFToken),
      (''LLAMA_ARG_HOST'', settingServingHost), (''LLAMA_ARG_PORT'', settingServingPort),
      (''LLAMA_ARG_ALIAS'', settingModelName), (''LLAMA_ARG_N_PARALLEL'', settingMaxConcurrency),
      (''LLAMA_ARG_THREADS'', settingThreads), (''LLAMA_ARG_CTX_SIZE'', settingContextSize),
      (''LLAMA_ARG_ENDPOINT_METRICS'', settingMetricsEndpoint),
      (''LLAMA_CACHE'', ''the controller-managed model cache''),
      (llamaCPPAPIKeyEnvVar, settingAPIKey), (''LLAMA_ARG_API_KEY_FILE'', settingAPIKey),
      (''LLAMA_ARG_API_KEY'', settingAPIKey), (''LLAMA_ARG_MODELS_DIR'', settingModelSource),
      (''LLAMA_ARG_MODELS_PRESET'', settingModelSource)]"

text \<open>\<open>strings.Contains(arg, "$(")\<close>, and the flag an argument sets: the text before the first equals
  sign, underscores read as hyphens.\<close>

fun has_expansion :: "string \<Rightarrow> bool" where
  "has_expansion (a # b # s) = (a = CHR ''$'' \<and> b = CHR ''('' \<or> has_expansion (b # s))"
| "has_expansion _ = False"

definition arg_flag :: "string \<Rightarrow> string" where
  "arg_flag arg =
     map (\<lambda>c. if c = CHR ''_'' then CHR ''-'' else c) (takeWhile (\<lambda>c. c \<noteq> CHR ''='') arg)"

fun check_args :: "string list \<Rightarrow> string option" where
  "check_args [] = None"
| "check_args (arg # args) =
     (if has_expansion arg then
        Some (''llamacpp: .spec.engine.extraArgs must use literal arguments; '' @
          ''environment expansion can override controller-owned settings'')
      else (case map_of llamaCPPReservedFlags (arg_flag arg) of
              Some field \<Rightarrow> Some (''llamacpp: .spec.engine.extraArgs setting '' @ go_Quote (arg_flag arg) @
                '' is controller-owned; use '' @ field)
            | None \<Rightarrow> check_args args))"

fun check_env :: "EnvVar list \<Rightarrow> string option" where
  "check_env [] = None"
| "check_env (e # es) =
     (case map_of llamaCPPReservedEnv (ev_Name e) of
        Some field \<Rightarrow> Some (''llamacpp: .spec.engine.env setting '' @ go_Quote (ev_Name e) @
          '' is controller-owned; use '' @ field)
      | None \<Rightarrow> check_env es)"

definition validateLlamaCPPReservedSettings :: "ModelDeploymentSpec \<Rightarrow> string option" where
  "validateLlamaCPPReservedSettings spec =
     (case check_args (en_ExtraArgs (sp_Engine spec)) of
        Some e \<Rightarrow> Some e
      | None \<Rightarrow> check_env (en_Env (sp_Engine spec)))"

section \<open>The llama.cpp profile\<close>

definition LlamaCPPDefaultImage :: string where
  "LlamaCPPDefaultImage = ''ghcr.io/ggml-org/llama.cpp:server-b10731''"
definition LlamaCPPHealthPath :: string where "LlamaCPPHealthPath = ''/health''"
definition engineDefaultContextSize :: i32 where "engineDefaultContextSize = 4096"
definition engineDefaultMaxConcurrency :: i32 where "engineDefaultMaxConcurrency = 4"
definition defaultThreads :: i32 where "defaultThreads = 1"

definition llamaCPP_Validate :: "ModelDeploymentSpec option \<Rightarrow> string option" where
  "llamaCPP_Validate spec =
     (case spec of
        None \<Rightarrow> Some ''llamacpp: nil spec''
      | Some s \<Rightarrow>
          (case validateLlamaCPPReservedSettings s of
             Some e \<Rightarrow> Some e
           | None \<Rightarrow>
               (let src = mo_Source (sp_Model s)
                in if so_PersistentVolumeClaim src \<noteq> None then
                     Some (''llamacpp: model source .spec.model.source.persistentVolumeClaim is not implemented yet; '' @
                       ''use .spec.model.source.image or .spec.model.source.huggingFace'')
                   else (case so_HuggingFace src of
                           Some hf \<Rightarrow>
                             if hf_File hf = '''' then
                               Some (''llamacpp: .spec.model.source.huggingFace.file is required; '' @
                                 ''llama.cpp serves a single GGUF file and a repository usually holds several '' @
                                 ''quantisations (e.g. '' @ go_Quote ''Qwen3-0.6B-Q4_K_M.gguf'' @ '')'')
                             else None
                         | None \<Rightarrow>
                             if so_Image src = None then
                               Some (''llamacpp: one of .spec.model.source.image or '' @
                                 ''.spec.model.source.huggingFace is required'')
                             else None))))"

definition int32OrDefault :: "i32 option \<Rightarrow> i32 \<Rightarrow> i32" where
  "int32OrDefault p def = (case p of None \<Rightarrow> def | Some n \<Rightarrow> if n < 1 then def else n)"

definition orDefaultThreads :: "i32 \<Rightarrow> i32" where
  "orDefaultThreads n = (if n < 1 then defaultThreads else n)"

definition llamaCPPArgs :: "ModelDeploymentSpec \<Rightarrow> BuildContext \<Rightarrow> i32 \<Rightarrow> string list" where
  "llamaCPPArgs spec bc port =
     [llamaCPPHostFlag, ''0.0.0.0''] @
     [llamaCPPPortFlag, fmt_d port] @
     (if bc_ModelPath bc \<noteq> '''' then [''-m'', bc_ModelPath bc]
      else (case so_HuggingFace (mo_Source (sp_Model spec)) of
              Some hf \<Rightarrow> [''--hf-repo'', hf_Repo hf] @ [''--hf-file'', hf_File hf]
            | None \<Rightarrow> [])) @
     [''-c'', fmt_d (int32OrDefault (en_ContextSize (sp_Engine spec)) engineDefaultContextSize)] @
     [llamaCPPParallelFlag, fmt_d (int32OrDefault (en_MaxConcurrency (sp_Engine spec)) engineDefaultMaxConcurrency)] @
     [''-t'', fmt_d (atLeastOneThread (orDefaultThreads (bc_Threads bc)))] @
     [''--metrics''] @
     [''--alias'', mo_Name (sp_Model spec)] @
     en_ExtraArgs (sp_Engine spec)"

definition ensureTrailingSlash :: "string \<Rightarrow> string" where
  "ensureTrailingSlash dir = (if dir \<noteq> [] \<and> last dir = CHR ''/'' then dir else dir @ ''/'')"

definition llamaCPPEnv :: "ModelDeploymentSpec \<Rightarrow> string \<Rightarrow> EnvVar list" where
  "llamaCPPEnv spec cacheDir =
     (let hfToken = (case so_HuggingFace (mo_Source (sp_Model spec)) of
                       Some hf \<Rightarrow> hf_TokenSecretRef hf | None \<Rightarrow> None)
      in if en_Env (sp_Engine spec) = [] \<and> en_APIKeySecretRef (sp_Engine spec) = None \<and> cacheDir = '''' \<and> hfToken = None
         then []
         else en_Env (sp_Engine spec) @
           (case en_APIKeySecretRef (sp_Engine spec) of
              Some ref \<Rightarrow> [\<lparr>ev_Name = llamaCPPAPIKeyEnvVar, ev_Value = '''', ev_ValueFrom = Some (SecretKeyRef ref)\<rparr>]
            | None \<Rightarrow> []) @
           (if cacheDir \<noteq> '''' then
              [\<lparr>ev_Name = llamaCPPCacheEnvVar, ev_Value = ensureTrailingSlash cacheDir, ev_ValueFrom = None\<rparr>]
            else []) @
           (case hfToken of
              Some ref \<Rightarrow> [\<lparr>ev_Name = llamaCPPHFTokenEnvVar, ev_Value = '''', ev_ValueFrom = Some (SecretKeyRef ref)\<rparr>]
            | None \<Rightarrow> []))"

definition llamaCPPVolumeMounts :: "string \<Rightarrow> string \<Rightarrow> VolumeMount list" where
  "llamaCPPVolumeMounts modelPath cacheDir =
     (if modelPath \<noteq> '''' then
        [\<lparr>vm_Name = ModelVolumeName, vm_MountPath = path_Dir modelPath, vm_ReadOnly = True\<rparr>]
      else if cacheDir \<noteq> '''' then
        [\<lparr>vm_Name = ModelVolumeName, vm_MountPath = cacheDir, vm_ReadOnly = False\<rparr>]
      else [])"

definition hardenedSecurityContext :: SecurityContext where
  "hardenedSecurityContext = \<lparr>sx_AllowPrivilegeEscalation = Some False, sx_ReadOnlyRootFilesystem = Some True,
     sx_RunAsNonRoot = Some True, sx_CapabilitiesDrop = Some [''ALL''],
     sx_SeccompProfileType = Some SeccompProfileTypeRuntimeDefault\<rparr>"

definition llamaCPP_Build :: "BuildContext \<Rightarrow> string + BuildResult" where
  "llamaCPP_Build bc =
     (case bc_MD bc of
        None \<Rightarrow> Inl ''llamacpp: BuildContext.MD is nil''
      | Some md \<Rightarrow>
          (let spec = md_Spec md
           in case validateLlamaCPPReservedSettings spec of
                Some e \<Rightarrow> Inl e
              | None \<Rightarrow>
                  (let port = (if bc_Port bc = 0 then EnginePort else bc_Port bc);
                       image = (if en_Image (sp_Engine spec) = '''' then LlamaCPPDefaultImage
                                else en_Image (sp_Engine spec));
                       container = zero_container\<lparr>
                         cn_Name := ContainerName,
                         cn_Image := image,
                         cn_ImagePullPolicy := en_ImagePullPolicy (sp_Engine spec),
                         cn_Args := llamaCPPArgs spec bc port,
                         cn_Ports := [\<lparr>cp_Name = PortNameEngine, cp_ContainerPort = port, cp_Protocol = ProtocolTCP\<rparr>],
                         cn_Env := llamaCPPEnv spec (bc_CacheDir bc),
                         cn_VolumeMounts := llamaCPPVolumeMounts (bc_ModelPath bc) (bc_CacheDir bc),
                         cn_Resources := en_Resources (sp_Engine spec),
                         cn_SecurityContext := Some hardenedSecurityContext\<rparr>
                   in Inr \<lparr>br_Container = container, br_HealthPath = LlamaCPPHealthPath\<rparr>)))"

definition llamaCPP :: Profile where
  "llamaCPP = \<lparr>pf_Type = EngineLlamaCPP, pf_DefaultImage = LlamaCPPDefaultImage,
     pf_Validate = llamaCPP_Validate, pf_Build = llamaCPP_Build\<rparr>"

text \<open>The registry after the package's \<open>init\<close>.\<close>

definition initial_registry :: "registry outcome" where
  "initial_registry = Register (Some llamaCPP) []"

section \<open>Nothing the user adds can override what the controller sets\<close>

lemma map_of_key: "map_of xs k = Some v \<Longrightarrow> k \<in> fst ` set xs"
  by (force dest: map_of_SomeD)

lemma check_args_None:
  "check_args args = None \<longleftrightarrow>
     (\<forall>a\<in>set args. \<not> has_expansion a \<and> arg_flag a \<notin> fst ` set llamaCPPReservedFlags)"
  by (induction args) (auto split: option.splits simp: map_of_eq_None_iff intro: map_of_key)

lemma check_env_None:
  "check_env es = None \<longleftrightarrow> (\<forall>e\<in>set es. ev_Name e \<notin> fst ` set llamaCPPReservedEnv)"
  by (induction es) (auto split: option.splits simp: map_of_eq_None_iff intro: map_of_key)

lemma validate_reserved_None:
  "validateLlamaCPPReservedSettings spec = None \<longleftrightarrow>
     check_args (en_ExtraArgs (sp_Engine spec)) = None \<and> check_env (en_Env (sp_Engine spec)) = None"
  by (simp add: validateLlamaCPPReservedSettings_def split: option.splits)

text \<open>The arguments the controller itself writes, each with the flags it owns in front.\<close>

definition controller_args :: "ModelDeploymentSpec \<Rightarrow> BuildContext \<Rightarrow> i32 \<Rightarrow> string list" where
  "controller_args spec bc port = llamaCPPArgs (spec\<lparr>sp_Engine := (sp_Engine spec)\<lparr>en_ExtraArgs := []\<rparr>\<rparr>) bc port"

lemma llamaCPPArgs_split:
  "llamaCPPArgs spec bc port = controller_args spec bc port @ en_ExtraArgs (sp_Engine spec)"
  by (simp add: llamaCPPArgs_def controller_args_def)

text \<open>A specification for the witnesses: an image source, and a CPU limit in thousandths of a core.\<close>

definition sample_workload :: "string list \<Rightarrow> i64 \<Rightarrow> ModelDeploymentSpec" where
  "sample_workload extra milli = \<lparr>sp_Replicas = Some 5,
     sp_Model = \<lparr>mo_Name = ''qwen'', mo_Source = \<lparr>so_Image = Some \<lparr>im_Image = ''reg/qwen:1'',
       im_Path = ''/weights/qwen.gguf'', im_PullPolicy = ''''\<rparr>, so_HuggingFace = None,
       so_PersistentVolumeClaim = None\<rparr>\<rparr>,
     sp_Engine = \<lparr>en_Type = EngineLlamaCPP, en_Image = '''', en_ImagePullPolicy = '''', en_ContextSize = None,
       en_MaxConcurrency = Some 8, en_Threads = None, en_ExtraArgs = extra, en_Env = [],
       en_Resources = \<lparr>rq_Limits = [(ResourceCPU, \<lparr>q_MilliValue = milli, q_String = ''''\<rparr>)], rq_Requests = []\<rparr>,
       en_APIKeySecretRef = None\<rparr>,
     sp_Serving = \<lparr>sv_Port = 0, sv_StartupTimeout = None, sv_Shim = zero_shim\<rparr>,
     sp_Rollout = \<lparr>ro_Type = RolloutRollingUpdate, ro_MaxSurge = None, ro_MaxUnavailable = None,
       ro_ProgressDeadline = None, ro_AutoRollback = None, ro_Canary = None\<rparr>,
     sp_Observability = \<lparr>ob_ServiceMonitor = None, ob_PrometheusRule = None, ob_SLO = None\<rparr>,
     sp_Autoscaling = None\<rparr>"

definition sample_workload_md :: "ModelDeploymentSpec \<Rightarrow> ModelDeployment" where
  "sample_workload_md spec = \<lparr>md_Namespace = ''prod'', md_Name = ''chat'', md_UID = ''u1'', md_Generation = 1, md_ResourceVersion = ''7'', md_DeletionTimestamp = None,
     md_Annotations = (\<lambda>_. None), md_Spec = spec,
     md_Status = \<lparr>ms_ObservedGeneration = 1, ms_Phase = ApiAvailable, ms_Replicas = 5, ms_Selector = '''',
       ms_ReadyReplicas = 5, ms_UpdatedReplicas = 5, ms_AvailableReplicas = 5, ms_StableRevision = ''a'',
       ms_LastGoodRevision = ''a'', ms_Endpoint = '''', ms_Canary = None, ms_Autoscaling = None,
       ms_Conditions = []\<rparr>\<rparr>"

definition sample_context :: "ModelDeployment \<Rightarrow> BuildContext" where
  "sample_context md = \<lparr>bc_MD = Some md, bc_Variant = VariantPrimary, bc_ModelPath = ''/models/qwen.gguf'',
     bc_CacheDir = '''', bc_Threads = 2, bc_Port = 0\<rparr>"

text \<open>
  How an argument can set a flag of the engine: it is the flag, with a hyphen anywhere written as an underscore,
  alone or with a value after an equals sign.
\<close>

definition spells :: "string \<Rightarrow> string \<Rightarrow> bool" where
  "spells flag s \<longleftrightarrow> list_all2 (\<lambda>x y. y = x \<or> x = CHR ''-'' \<and> y = CHR ''_'') flag s"

definition sets_flag :: "string \<Rightarrow> string \<Rightarrow> bool" where
  "sets_flag flag arg \<longleftrightarrow> (\<exists>s. spells flag s \<and> (arg = s \<or> (\<exists>v. arg = s @ ''='' @ v)))"

lemma spells_flag: "spells flag s \<Longrightarrow> CHR ''_'' \<notin> set flag \<Longrightarrow> CHR ''='' \<notin> set flag \<Longrightarrow> arg_flag s = flag \<and> CHR ''='' \<notin> set s"
  unfolding spells_def
proof (induction rule: list_all2_induct)
  case (Cons x xs y ys)
  then show ?case
    by (auto simp: arg_flag_def)
qed (simp add: arg_flag_def)

lemma arg_flag_value: "CHR ''='' \<notin> set s \<Longrightarrow> arg_flag (s @ ''='' @ v) = arg_flag s"
  unfolding arg_flag_def by (induction s) auto

lemma sets_flag_arg_flag: "sets_flag flag arg \<Longrightarrow> CHR ''_'' \<notin> set flag \<Longrightarrow> CHR ''='' \<notin> set flag \<Longrightarrow> arg_flag arg = flag"
  using spells_flag arg_flag_value by (fastforce simp: sets_flag_def)

text \<open>
  The flags of the server that decide what the controller decides - the weights it loads, where it listens, the
  name it answers to, its slots, threads, context, metrics and key - under each of the names its documentation
  gives them, and its environment variables for the same settings.
\<close>

definition engine_flags :: "string list" where
  "engine_flags = [''-m'', ''--model'', ''-mu'', ''--model-url'', ''-dr'', ''--docker-repo'', ''-hf'', ''-hfr'', ''--hf-repo'',
     ''-hff'', ''--hf-file'', ''-hft'', ''--hf-token'', ''--host'', ''--port'', ''-a'', ''--alias'', ''-np'', ''--parallel'',
     ''-t'', ''--threads'', ''-tb'', ''--threads-batch'', ''-c'', ''--ctx-size'', ''--metrics'', ''--api-key'',
     ''--api-key-file'', ''--models-dir'', ''--models-preset'']"

definition engine_variables :: "string list" where
  "engine_variables = [''LLAMA_ARG_MODEL'', ''LLAMA_ARG_MODEL_URL'', ''LLAMA_ARG_DOCKER_REPO'', ''LLAMA_ARG_HF_REPO'',
     ''LLAMA_ARG_HF_FILE'', ''HF_TOKEN'', ''LLAMA_ARG_HOST'', ''LLAMA_ARG_PORT'', ''LLAMA_ARG_ALIAS'', ''LLAMA_ARG_N_PARALLEL'',
     ''LLAMA_ARG_THREADS'', ''LLAMA_ARG_CTX_SIZE'', ''LLAMA_ARG_ENDPOINT_METRICS'', ''LLAMA_CACHE'', ''LLAMA_API_KEY'',
     ''LLAMA_ARG_API_KEY_FILE'', ''LLAMA_ARG_API_KEY'', ''LLAMA_ARG_MODELS_DIR'', ''LLAMA_ARG_MODELS_PRESET'']"

lemma engine_flags_reserved:
  assumes "f \<in> set engine_flags"
  shows "f \<in> fst ` set llamaCPPReservedFlags" "CHR ''_'' \<notin> set f" "CHR ''='' \<notin> set f"
  using assms unfolding engine_flags_def
  by (auto simp: llamaCPPReservedFlags_def llamaCPPHostFlag_def llamaCPPPortFlag_def llamaCPPParallelFlag_def)

lemma engine_variables_reserved: "v \<in> set engine_variables \<Longrightarrow> v \<in> fst ` set llamaCPPReservedEnv"
  by (auto simp: engine_variables_def llamaCPPReservedEnv_def llamaCPPAPIKeyEnvVar_def)

text \<open>C19. Nothing the user adds can take over what the controller decides. In every container the llama.cpp
  profile builds, the arguments are the controller's own followed by the user's, and none of the user's sets
  a flag for the model, the address, the name, the capacity, the metrics or the credentials of the
  engine - in any of the flag's names, with hyphens or underscores, with or without a value - or contains a
  reference the kubelet would expand; the environment is the user's followed by the controller's own, and no
  variable of the user's is one for these settings.\<close>

theorem extra_args_cannot_override:
  assumes "pf_Build llamaCPP bc = Inr res" "bc_MD bc = Some md"
  shows "\<exists>port own. cn_Args (br_Container res) = controller_args (md_Spec md) bc port @ en_ExtraArgs (sp_Engine (md_Spec md)) \<and>
      (\<forall>a \<in> set (en_ExtraArgs (sp_Engine (md_Spec md))). \<not> has_expansion a \<and> (\<forall>f \<in> set engine_flags. \<not> sets_flag f a)) \<and>
      cn_Env (br_Container res) = en_Env (sp_Engine (md_Spec md)) @ own \<and>
      (\<forall>e \<in> set (en_Env (sp_Engine (md_Spec md))). ev_Name e \<notin> set engine_variables)"
proof -
  let ?spec = "md_Spec md"
  have valid: "validateLlamaCPPReservedSettings ?spec = None"
    using assms by (auto simp: llamaCPP_def llamaCPP_Build_def Let_def split: option.splits)
  have args: "cn_Args (br_Container res) = controller_args ?spec bc (if bc_Port bc = 0 then EnginePort else bc_Port bc)
      @ en_ExtraArgs (sp_Engine ?spec)"
    and env: "cn_Env (br_Container res) = llamaCPPEnv ?spec (bc_CacheDir bc)"
    using assms valid by (auto simp: llamaCPP_def llamaCPP_Build_def Let_def llamaCPPArgs_split [symmetric])
  have "\<exists>own. llamaCPPEnv ?spec (bc_CacheDir bc) = en_Env (sp_Engine ?spec) @ own"
    by (simp add: llamaCPPEnv_def Let_def)
  moreover have "\<not> sets_flag f a" if "a \<in> set (en_ExtraArgs (sp_Engine ?spec))" "f \<in> set engine_flags" for a f
    using valid that engine_flags_reserved [of f] sets_flag_arg_flag [of f a] by (auto simp: validate_reserved_None check_args_None)
  moreover have "\<not> has_expansion a" if "a \<in> set (en_ExtraArgs (sp_Engine ?spec))" for a
    using valid that by (auto simp: validate_reserved_None check_args_None)
  moreover have "ev_Name e \<notin> set engine_variables" if "e \<in> set (en_Env (sp_Engine ?spec))" for e
    using valid that engine_variables_reserved by (auto simp: validate_reserved_None check_env_None)
  ultimately show ?thesis
    using args env by auto
qed

theorem extra_args_cannot_override_witness:
  "\<exists>res. pf_Build llamaCPP (sample_context (sample_workload_md (sample_workload [''--flash-attn''] 2000))) = Inr res \<and>
     last (cn_Args (br_Container res)) = ''--flash-attn'' \<and> \<not> sets_flag ''--port'' ''--flash-attn''"
proof -
  let ?md = "sample_workload_md (sample_workload [''--flash-attn''] 2000)"
  obtain res where res: "pf_Build llamaCPP (sample_context ?md) = Inr res"
    by (simp add: llamaCPP_def llamaCPP_Build_def sample_context_def sample_workload_md_def sample_workload_def
        validateLlamaCPPReservedSettings_def llamaCPPReservedFlags_def arg_flag_def llamaCPPHostFlag_def
        llamaCPPPortFlag_def llamaCPPParallelFlag_def Let_def)
  have "bc_MD (sample_context ?md) = Some ?md"
    by (simp add: sample_context_def)
  from extra_args_cannot_override [OF res this] res show ?thesis
    by (auto simp: sample_workload_md_def sample_workload_def engine_flags_def)
qed

lemma coresFrom_bounds:
  "1 \<le> coresFrom q" "is_i32 (coresFrom q)" "coresFrom q = 1 \<or> coresFrom q * 1000 \<le> q_MilliValue q"
proof -
  show "1 \<le> coresFrom q"
    by (simp add: coresFrom_def Let_def MaxInt32_def)
  show "is_i32 (coresFrom q)"
    by (simp add: coresFrom_def Let_def MaxInt32_def is_i32_def)
  have "q_MilliValue q sdiv 1000 * 1000 \<le> q_MilliValue q" if "1 \<le> q_MilliValue q sdiv 1000"
  proof -
    have "0 \<le> q_MilliValue q"
      using that by (cases "0 \<le> q_MilliValue q") (simp_all add: signed_divide_int_def sgn_if split: if_splits)
    then show ?thesis
      using zdiv_mult_le [of 1000 "q_MilliValue q"] by (simp add: sdiv_nonneg)
  qed
  then show "coresFrom q = 1 \<or> coresFrom q * 1000 \<le> q_MilliValue q"
    by (auto simp: coresFrom_def Let_def MaxInt32_def)
qed

text \<open>The thread count is positive, fits an \<open>int32\<close>, is the user's where one was set, and otherwise
  never exceeds the whole cores of the CPU limit (of the request, where there is no limit) except to give
  a fraction of a core its one thread.\<close>

theorem ThreadsFor_bounds:
  assumes "is_i32 fallback" "\<forall>n. en_Threads (sp_Engine spec) = Some n \<longrightarrow> is_i32 n"
  shows "let t = ThreadsFor (Some spec) fallback; res = en_Resources (sp_Engine spec)
    in 1 \<le> t \<and> is_i32 t \<and>
       (case en_Threads (sp_Engine spec) of
          Some n \<Rightarrow> 1 \<le> n \<longrightarrow> t = n
        | None \<Rightarrow>
            (case (map_of (rq_Limits res) ResourceCPU, map_of (rq_Requests res) ResourceCPU) of
               (Some q, _) \<Rightarrow> t = 1 \<or> t * 1000 \<le> q_MilliValue q
             | (None, Some q) \<Rightarrow> t = 1 \<or> t * 1000 \<le> q_MilliValue q
             | (None, None) \<Rightarrow> t = max 1 fallback))"
  using assms coresFrom_bounds
  by (auto simp: ThreadsFor_def Let_def atLeastOneThread_def is_i32_def split: option.splits)

theorem ThreadsFor_bounds_witness:
  "ThreadsFor (Some (sample_workload [''--flash-attn''] 2500)) 1 = 2 \<and>
   ThreadsFor (Some (sample_workload [] 500)) 1 = 1"
  using ThreadsFor_bounds [of 1 "sample_workload [] 500"]
  by (simp add: sample_workload_def ThreadsFor_def ResourceCPU_def coresFrom_def sdiv_nonneg MaxInt32_def is_i32_def)

end
