(* ===== verification/Children.thy ===== *)
theory Children
  imports Engine
begin

text \<open>
  The child objects the operator renders for a ModelDeployment: the pod with its model delivery, engine
  container and metrics sidecar, the Deployment of each variant, the serving Service and the headless
  Service that is scraped (\<open>internal/controller/children.go\<close>, \<open>shim.go\<close>). What the builders take from
  outside the repository is in \<open>RenderEnv\<close>: the encoder of name digests, the parser of quantities, the
  result of an out-of-range float conversion, and the conversion of a typed object into an apply
  configuration, a JSON round trip through generated types, which is assumed to be faithful only where a
  theorem says so.
\<close>

record RenderEnv =
  re_SafeEncode :: "string \<Rightarrow> string"
  re_Convert :: "Container \<Rightarrow> string + Container"
  re_Reconciler :: Reconciler

section \<open>The metrics sidecar\<close>

definition DefaultShimImage :: string where
  "DefaultShimImage = ''ghcr.io/surajm20061998/llmcp-shim:v0.1.0''"

definition shimStartupPeriodSeconds :: i32 where "shimStartupPeriodSeconds = 1"
definition shimStartupFailureThresh :: i32 where "shimStartupFailureThresh = 30"
definition shimReadinessPeriodSeconds :: i32 where "shimReadinessPeriodSeconds = 5"
definition shimReadinessFailureThresh :: i32 where "shimReadinessFailureThresh = 3"
definition shimLivenessPeriodSeconds :: i32 where "shimLivenessPeriodSeconds = 10"
definition shimLivenessFailureThresh :: i32 where "shimLivenessFailureThresh = 6"

definition maxConcurrencyFor :: "ModelDeployment \<Rightarrow> i32" where
  "maxConcurrencyFor md =
     (case en_MaxConcurrency (sp_Engine (md_Spec md)) of Some n \<Rightarrow> if n > 0 then n else 4 | None \<Rightarrow> 4)"

definition shimArgs :: "ModelDeployment \<Rightarrow> Variant \<Rightarrow> string \<Rightarrow> string \<Rightarrow> string list" where
  "shimArgs md variant healthPath logLevel =
     [''--listen=:'' @ fmt_d ShimPort,
      ''--metrics-listen=:'' @ fmt_d ShimMetricsPort,
      ''--upstream=http://127.0.0.1:'' @ fmt_d EnginePort,
      ''--health-path='' @ healthPath,
      ''--model='' @ md_ModelName md,
      ''--namespace='' @ md_Namespace md,
      ''--model-deployment='' @ md_Name md,
      ''--variant='' @ variant_string variant,
      ''--max-concurrency='' @ fmt_d (maxConcurrencyFor md),
      ''--log-level='' @ logLevel]"

definition shimProbe :: "string \<Rightarrow> i32 \<Rightarrow> i32 \<Rightarrow> Probe" where
  "shimProbe path period failures =
     \<lparr>pb_HTTPGet = Some \<lparr>hg_Path = path, hg_Port = FromInt ShimPort, hg_Scheme = ''''\<rparr>,
      pb_PeriodSeconds = period, pb_FailureThreshold = failures, pb_SuccessThreshold = 1, pb_TimeoutSeconds = 2\<rparr>"

definition shimResources :: "(string \<Rightarrow> quantity) \<Rightarrow> ShimSpec \<Rightarrow> ResourceRequirements" where
  "shimResources parse shim =
     (if rq_Requests (sh_Resources shim) \<noteq> [] \<or> rq_Limits (sh_Resources shim) \<noteq> [] then sh_Resources shim
      else \<lparr>rq_Limits = [(ResourceMemory, parse ''128Mi'')],
            rq_Requests = [(ResourceCPU, parse ''50m''), (ResourceMemory, parse ''64Mi'')]\<rparr>)"

definition shimSecurityContext :: SecurityContext where
  "shimSecurityContext = \<lparr>sx_AllowPrivilegeEscalation = Some False, sx_ReadOnlyRootFilesystem = Some True,
     sx_RunAsNonRoot = Some True, sx_CapabilitiesDrop = Some [''ALL''],
     sx_SeccompProfileType = Some SeccompProfileTypeRuntimeDefault\<rparr>"

definition buildShimContainer ::
  "(string \<Rightarrow> quantity) \<Rightarrow> ModelDeployment \<Rightarrow> Variant \<Rightarrow> string \<Rightarrow> string \<Rightarrow> Container" where
  "buildShimContainer parse md variant healthPath img =
     (let shim = sv_Shim (sp_Serving (md_Spec md));
          img = (if sh_Image shim \<noteq> '''' then sh_Image shim else img);
          logLevel = (if sh_LogLevel shim = '''' then ''info'' else sh_LogLevel shim)
      in zero_container\<lparr>
           cn_Name := ShimContainerName,
           cn_Image := img,
           cn_ImagePullPolicy := en_ImagePullPolicy (sp_Engine (md_Spec md)),
           cn_RestartPolicy := Some ContainerRestartPolicyAlways,
           cn_Args := shimArgs md variant healthPath logLevel,
           cn_Ports := [\<lparr>cp_Name = PortNameHTTP, cp_ContainerPort = ShimPort, cp_Protocol = ProtocolTCP\<rparr>,
                        \<lparr>cp_Name = PortNameMetrics, cp_ContainerPort = ShimMetricsPort, cp_Protocol = ProtocolTCP\<rparr>],
           cn_StartupProbe := Some (shimProbe ShimLivePath shimStartupPeriodSeconds shimStartupFailureThresh),
           cn_ReadinessProbe := Some (shimProbe ShimHealthPath shimReadinessPeriodSeconds shimReadinessFailureThresh),
           cn_LivenessProbe := Some (shimProbe ShimLivePath shimLivenessPeriodSeconds shimLivenessFailureThresh),
           cn_Resources := shimResources parse shim,
           cn_SecurityContext := Some shimSecurityContext\<rparr>)"

section \<open>Model delivery and the engine's probes\<close>

definition modelMountPath :: string where "modelMountPath = ''/models''"
definition modelStagingPath :: string where "modelStagingPath = ''/mnt/model''"
definition modelInitContainerName :: string where "modelInitContainerName = ''model-init''"
definition defaultRevisionHistoryLimit :: i32 where "defaultRevisionHistoryLimit = 3"
definition probePeriodSeconds :: i32 where "probePeriodSeconds = 5"
definition nonRootUID :: i64 where "nonRootUID = 65532"
definition nonRootGID :: i64 where "nonRootGID = 65532"

definition runtimeModelPath :: "ImageModelSource \<Rightarrow> string" where
  "runtimeModelPath src = path_Join modelMountPath (path_Base (im_Path src))"

definition buildModelInitContainer :: "ImageModelSource \<Rightarrow> Container" where
  "buildModelInitContainer src =
     (let dest = path_Join modelStagingPath (path_Base (im_Path src))
      in zero_container\<lparr>
           cn_Name := modelInitContainerName,
           cn_Image := im_Image src,
           cn_ImagePullPolicy := im_PullPolicy src,
           cn_Command := [''cp'', im_Path src, dest],
           cn_VolumeMounts := [\<lparr>vm_Name = ModelVolumeName, vm_MountPath = modelStagingPath, vm_ReadOnly = False\<rparr>],
           cn_SecurityContext := Some \<lparr>sx_AllowPrivilegeEscalation = Some False, sx_ReadOnlyRootFilesystem = Some True,
             sx_RunAsNonRoot = Some True, sx_CapabilitiesDrop = Some [''ALL''], sx_SeccompProfileType = None\<rparr>\<rparr>)"

text \<open>The model path, the cache directory and the init containers.\<close>

definition buildModelDelivery :: "RenderEnv \<Rightarrow> ModelDeployment \<Rightarrow> string + (string \<times> string \<times> Container list)" where
  "buildModelDelivery env md =
     (let src = mo_Source (sp_Model (md_Spec md))
      in case so_Image src of
           Some isrc \<Rightarrow>
             (case re_Convert env (buildModelInitContainer isrc) of
                Inl e \<Rightarrow> Inl (''converting model init container: '' @ e)
              | Inr c \<Rightarrow> Inr (runtimeModelPath isrc, '''', [c]))
         | None \<Rightarrow>
             (case so_HuggingFace src of
                Some _ \<Rightarrow> Inr ('''', modelMountPath, [])
              | None \<Rightarrow> Inl (''no implemented model source in .spec.model.source: '' @ ''set .image or .huggingFace'')))"

definition startupFailureThreshold :: "Reconciler \<Rightarrow> ModelDeployment \<Rightarrow> i32" where
  "startupFailureThreshold r md =
     (let seconds = (case sv_StartupTimeout (sp_Serving (md_Spec md)) of
                       None \<Rightarrow> 300
                     | Some d \<Rightarrow>
                         (let s = int32_of_f64 (rr_OutOfRange r) (Duration_Seconds d) in if s > 0 then s else 300))
      in max (wrap32 (wrap32 (seconds + probePeriodSeconds) - 1) sdiv probePeriodSeconds) 1)"

definition engine_probe :: "string \<Rightarrow> Probe" where
  "engine_probe healthPath =
     \<lparr>pb_HTTPGet = Some \<lparr>hg_Path = healthPath, hg_Port = FromInt EnginePort, hg_Scheme = ''''\<rparr>,
      pb_PeriodSeconds = probePeriodSeconds, pb_FailureThreshold = 0, pb_SuccessThreshold = 0, pb_TimeoutSeconds = 0\<rparr>"

definition withProbes :: "Reconciler \<Rightarrow> string \<Rightarrow> ModelDeployment \<Rightarrow> Container \<Rightarrow> Container" where
  "withProbes r healthPath md c = c\<lparr>
     cn_StartupProbe := Some ((engine_probe healthPath)\<lparr>pb_FailureThreshold := startupFailureThreshold r md\<rparr>),
     cn_ReadinessProbe := Some ((engine_probe healthPath)\<lparr>pb_FailureThreshold := 3, pb_SuccessThreshold := 1,
       pb_TimeoutSeconds := 3\<rparr>),
     cn_LivenessProbe := Some ((engine_probe healthPath)\<lparr>pb_FailureThreshold := 6, pb_TimeoutSeconds := 5,
       pb_PeriodSeconds := 10\<rparr>)\<rparr>"

section \<open>The pod\<close>

record renderOptions =
  op_ShimImage :: string

definition shimImage :: "renderOptions \<Rightarrow> string" where
  "shimImage o1 = (if op_ShimImage o1 = '''' then DefaultShimImage else op_ShimImage o1)"

definition pod_security :: PodSecurityContext where
  "pod_security = \<lparr>px_RunAsNonRoot = Some True, px_RunAsUser = Some nonRootUID, px_RunAsGroup = Some nonRootGID,
     px_FSGroup = Some nonRootGID, px_SeccompProfileType = Some SeccompProfileTypeRuntimeDefault\<rparr>"

definition buildPodSpec ::
  "RenderEnv \<Rightarrow> ModelDeployment \<Rightarrow> Profile \<Rightarrow> Variant \<Rightarrow> renderOptions \<Rightarrow> string + PodSpec" where
  "buildPodSpec env md prof variant opts =
     (case buildModelDelivery env md of
        Inl e \<Rightarrow> Inl e
      | Inr (modelPath, cacheDir, initContainers) \<Rightarrow>
          (case pf_Build prof \<lparr>bc_MD = Some md, bc_Variant = variant, bc_ModelPath = modelPath,
                  bc_CacheDir = cacheDir, bc_Threads = ThreadsFor (Some (md_Spec md)) 1, bc_Port = EnginePort\<rparr> of
             Inl e \<Rightarrow> Inl (''building engine container: '' @ e)
           | Inr built \<Rightarrow>
               (case re_Convert env (withProbes (re_Reconciler env) (br_HealthPath built) md (br_Container built)) of
                  Inl e \<Rightarrow> Inl (''converting engine container: '' @ e)
                | Inr engine \<Rightarrow>
                    (case (if ShimEnabled (sp_Serving (md_Spec md)) then
                             (case re_Convert env (buildShimContainer (rr_MustParse (re_Reconciler env)) md variant
                                     (br_HealthPath built) (shimImage opts)) of
                                Inl e \<Rightarrow> Inl (''converting shim container: '' @ e)
                              | Inr shim \<Rightarrow> Inr (initContainers @ [shim]))
                           else Inr initContainers) of
                       Inl e \<Rightarrow> Inl e
                     | Inr inits \<Rightarrow>
                         Inr (zero_pod\<lparr>ps_SecurityContext := Some pod_security, ps_InitContainers := inits,
                           ps_Containers := [engine],
                           ps_Volumes := [\<lparr>vo_Name = ModelVolumeName, vo_Source = EmptyDir\<rparr>]\<rparr>)))))"

section \<open>The Deployment of a variant\<close>

record OwnerReference =
  ow_APIVersion :: string
  ow_Kind :: string
  ow_Name :: string
  ow_UID :: string
  ow_Controller :: bool
  ow_BlockOwnerDeletion :: bool

definition kindModelDeployment :: string where "kindModelDeployment = ''ModelDeployment''"
definition GroupVersion :: string where "GroupVersion = ''inference.llmcp.io/v1alpha1''"

definition ownerReference :: "ModelDeployment \<Rightarrow> OwnerReference" where
  "ownerReference md = \<lparr>ow_APIVersion = GroupVersion, ow_Kind = kindModelDeployment, ow_Name = md_Name md,
     ow_UID = md_UID md, ow_Controller = True, ow_BlockOwnerDeletion = True\<rparr>"

datatype DeploymentStrategy = Recreate | RollingUpdate "IntOrString option" "IntOrString option"

definition buildStrategy :: "ModelDeployment \<Rightarrow> DeploymentStrategy" where
  "buildStrategy md =
     (if ro_Type (md_Rollout md) = RolloutRecreate then Recreate
      else RollingUpdate (ro_MaxSurge (md_Rollout md)) (ro_MaxUnavailable (md_Rollout md)))"

record DeploymentApply =
  da_Name :: string
  da_Namespace :: string
  da_Labels :: labels
  da_Owner :: OwnerReference
  da_Replicas :: i32
  da_RevisionHistoryLimit :: i32
  da_ProgressDeadlineSeconds :: i32
  da_Selector :: labels
  da_Strategy :: DeploymentStrategy
  da_TemplateLabels :: labels
  da_PodSpec :: PodSpec

definition buildDeployment ::
  "RenderEnv \<Rightarrow> ModelDeployment \<Rightarrow> Profile \<Rightarrow> string \<Rightarrow> Variant \<Rightarrow> i32 \<Rightarrow> renderOptions \<Rightarrow> string + DeploymentApply" where
  "buildDeployment env md prof revision variant replicas opts =
     (case buildPodSpec env md prof variant opts of
        Inl e \<Rightarrow> Inl e
      | Inr podSpec \<Rightarrow>
          Inr \<lparr>da_Name = DeploymentFor (re_SafeEncode env) (md_Name md) variant,
            da_Namespace = md_Namespace md,
            da_Labels = (CommonLabels (md_Name md))(NamingLabelVariant \<mapsto> variant_string variant, LabelRevision \<mapsto> revision),
            da_Owner = ownerReference md,
            da_Replicas = replicas,
            da_RevisionHistoryLimit = defaultRevisionHistoryLimit,
            da_ProgressDeadlineSeconds = progressDeadlineSeconds (re_Reconciler env) md,
            da_Selector = SelectorLabels (md_Name md) variant,
            da_Strategy = buildStrategy md,
            da_TemplateLabels = PodLabels (md_Name md) variant revision,
            da_PodSpec = podSpec\<rparr>)"

section \<open>Services\<close>

record ServicePortApply =
  sp_PortName :: string
  sp_Port :: i32
  sp_Protocol :: string
  sp_TargetPort :: IntOrString

record ServiceApply =
  sa_Name :: string
  sa_Namespace :: string
  sa_Labels :: labels
  sa_Owner :: OwnerReference
  sa_Type :: string
  sa_ClusterIP :: string
  sa_PublishNotReadyAddresses :: bool
  sa_Selector :: labels
  sa_Ports :: "ServicePortApply list"

definition ComponentMetrics :: string where "ComponentMetrics = ''metrics''"

definition servingTargetPort :: "ModelDeployment \<Rightarrow> string" where
  "servingTargetPort md = (if ShimEnabled (sp_Serving (md_Spec md)) then PortNameHTTP else PortNameEngine)"

definition buildService :: "RenderEnv \<Rightarrow> ModelDeployment \<Rightarrow> ServiceApply" where
  "buildService env md =
     (let port = (if sv_Port (sp_Serving (md_Spec md)) = 0 then ServicePort else sv_Port (sp_Serving (md_Spec md)))
      in \<lparr>sa_Name = Service (re_SafeEncode env) (md_Name md), sa_Namespace = md_Namespace md,
          sa_Labels = CommonLabels (md_Name md), sa_Owner = ownerReference md, sa_Type = ''ClusterIP'',
          sa_ClusterIP = '''', sa_PublishNotReadyAddresses = False, sa_Selector = ServiceSelector (md_Name md),
          sa_Ports = [\<lparr>sp_PortName = PortNameHTTP, sp_Port = port, sp_Protocol = ProtocolTCP,
            sp_TargetPort = FromString (servingTargetPort md)\<rparr>]\<rparr>)"

definition buildMetricsService :: "RenderEnv \<Rightarrow> ModelDeployment \<Rightarrow> ServiceApply" where
  "buildMetricsService env md =
     (let labels = (CommonLabels (md_Name md))(LabelComponent \<mapsto> ComponentMetrics);
          ports = (if ShimEnabled (sp_Serving (md_Spec md)) then
                     [\<lparr>sp_PortName = PortNameMetrics, sp_Port = ShimMetricsPort, sp_Protocol = ProtocolTCP,
                       sp_TargetPort = FromString PortNameMetrics\<rparr>]
                   else []) @
                  [\<lparr>sp_PortName = PortNameEngine, sp_Port = EnginePort, sp_Protocol = ProtocolTCP,
                    sp_TargetPort = FromString PortNameEngine\<rparr>]
      in \<lparr>sa_Name = MetricsService (re_SafeEncode env) (md_Name md), sa_Namespace = md_Namespace md,
          sa_Labels = labels, sa_Owner = ownerReference md, sa_Type = ''ClusterIP'', sa_ClusterIP = ''None'',
          sa_PublishNotReadyAddresses = True, sa_Selector = ServiceSelector (md_Name md), sa_Ports = ports\<rparr>)"

section \<open>All children\<close>

record variantPlan =
  vp_Spec :: ModelDeploymentSpec
  vp_Revision :: string
  vp_Replicas :: i32

record desiredChildren =
  dh_Deployment :: DeploymentApply
  dh_Service :: ServiceApply
  dh_MetricsService :: ServiceApply
  dh_CanaryDeployment :: "DeploymentApply option"

definition withSpec :: "ModelDeployment \<Rightarrow> ModelDeploymentSpec \<Rightarrow> ModelDeployment" where
  "withSpec md spec = md\<lparr>md_Spec := spec\<rparr>"

definition singleVariant :: "ModelDeployment \<Rightarrow> string \<Rightarrow> variantPlan" where
  "singleVariant md revision = \<lparr>vp_Spec = md_Spec md, vp_Revision = revision, vp_Replicas = replicasFor md\<rparr>"

definition buildChildren ::
  "RenderEnv \<Rightarrow> ModelDeployment \<Rightarrow> Profile \<Rightarrow> variantPlan \<Rightarrow> variantPlan option \<Rightarrow> renderOptions \<Rightarrow>
   string + desiredChildren" where
  "buildChildren env md prof primary canary opts =
     (case buildDeployment env (withSpec md (vp_Spec primary)) prof (vp_Revision primary) VariantPrimary
             (vp_Replicas primary) opts of
        Inl e \<Rightarrow> Inl (''rendering the primary variant: '' @ e)
      | Inr dep \<Rightarrow>
          (let children = \<lparr>dh_Deployment = dep, dh_Service = buildService env md,
                 dh_MetricsService = buildMetricsService env md, dh_CanaryDeployment = None\<rparr>
           in case canary of
                None \<Rightarrow> Inr children
              | Some plan \<Rightarrow>
                  (case buildDeployment env (withSpec md (vp_Spec plan)) prof (vp_Revision plan) VariantCanary
                          (vp_Replicas plan) opts of
                     Inl e \<Rightarrow> Inl (''rendering the canary variant: '' @ e)
                   | Inr cdep \<Rightarrow> Inr (children\<lparr>dh_CanaryDeployment := Some cdep\<rparr>))))"

text \<open>\<open>metav1.LabelSelectorAsSelector\<close> prints a one-label selector as \<open>key=value\<close>.\<close>

definition serviceSelectorString :: "ModelDeployment \<Rightarrow> string" where
  "serviceSelectorString md = NamingLabelModelDeployment @ ''='' @ md_Name md"

end
