(* ===== verification/Children_Props.thy ===== *)
theory Children_Props
  imports Children
begin

text \<open>
  What the rendered children promise each other: a specification the profile accepts always renders,
  container ports never clash, the two Services reach the pods of a variant exactly when they agree with
  its revision about the sidecar, neither Deployment selects the pods of the other, the capacity the sidecar is told
  is the engine's, and the startup probe covers the configured budget - and where these
  promises end.
\<close>

definition faithful :: "RenderEnv \<Rightarrow> bool" where
  "faithful env \<longleftrightarrow> (\<forall>c. re_Convert env c = Inr c)"

definition pod_ports :: "PodSpec \<Rightarrow> ContainerPort list" where
  "pod_ports pod = concat (map cn_Ports (ps_InitContainers pod @ ps_Containers pod))"

definition engine_context :: "ModelDeployment \<Rightarrow> Variant \<Rightarrow> BuildContext" where
  "engine_context md variant =
     \<lparr>bc_MD = Some md, bc_Variant = variant,
      bc_ModelPath = (case md_Image md of Some src \<Rightarrow> runtimeModelPath src | None \<Rightarrow> ''''),
      bc_CacheDir = (case md_Image md of Some _ \<Rightarrow> '''' | None \<Rightarrow> modelMountPath),
      bc_Threads = ThreadsFor (Some (md_Spec md)) 1, bc_Port = EnginePort\<rparr>"

definition model_inits :: "ModelDeployment \<Rightarrow> Container list" where
  "model_inits md = (case md_Image md of Some src \<Rightarrow> [buildModelInitContainer src] | None \<Rightarrow> [])"

definition shim_inits :: "RenderEnv \<Rightarrow> ModelDeployment \<Rightarrow> Variant \<Rightarrow> string \<Rightarrow> renderOptions \<Rightarrow> Container list" where
  "shim_inits env md variant healthPath opts =
     (if ShimEnabled (sp_Serving (md_Spec md))
      then [buildShimContainer (rr_MustParse (re_Reconciler env)) md variant healthPath (shimImage opts)] else [])"

definition sample_env :: RenderEnv where
  "sample_env = \<lparr>re_SafeEncode = sample_encoder, re_Convert = Inr,
     re_Reconciler = \<lparr>rr_Now = 1000, rr_Provider = None, rr_Prometheus = (\<lambda>_ _ _. Inl ''down''),
       rr_MustParse = (\<lambda>s. \<lparr>q_MilliValue = 0, q_String = s\<rparr>), rr_OutOfRange = (\<lambda>_. 0)\<rparr>\<rparr>"

definition sample_opts :: renderOptions where
  "sample_opts = \<lparr>op_ShimImage = ''''\<rparr>"

text \<open>A ModelDeployment whose sidecar is on, and the same with the sidecar off.\<close>

definition sample_shim :: "bool \<Rightarrow> ModelDeployment" where
  "sample_shim b = sample_workload_md ((sample_workload [''--flash-attn''] 2000)\<lparr>sp_Serving :=
     \<lparr>sv_Port = 0, sv_StartupTimeout = None, sv_Shim = zero_shim\<lparr>sh_Enabled := Some b\<rparr>\<rparr>\<rparr>)"

lemma sample_env_faithful [simp]: "faithful sample_env"
  by (simp add: faithful_def sample_env_def)

lemma sample_shim_valid: "pf_Validate llamaCPP (Some (md_Spec (sample_shim b))) = None"
  by (simp add: llamaCPP_def llamaCPP_Validate_def sample_shim_def sample_workload_md_def sample_workload_def
      validateLlamaCPPReservedSettings_def llamaCPPReservedFlags_def arg_flag_def llamaCPPHostFlag_def
      llamaCPPPortFlag_def llamaCPPParallelFlag_def Let_def)

lemma sample_shim_enabled: "ShimEnabled (sp_Serving (md_Spec (sample_shim b))) = b"
  by (simp add: sample_shim_def sample_workload_md_def sample_workload_def ShimEnabled_def)

lemma buildPodSpec_faithful:
  assumes "faithful env"
  shows "buildPodSpec env md prof variant opts =
    (if md_Image md = None \<and> md_HuggingFace md = None then
       Inl (''no implemented model source in .spec.model.source: '' @ ''set .image or .huggingFace'')
     else (case pf_Build prof (engine_context md variant) of
             Inl e \<Rightarrow> Inl (''building engine container: '' @ e)
           | Inr built \<Rightarrow>
               Inr (zero_pod\<lparr>ps_SecurityContext := Some pod_security,
                 ps_InitContainers := model_inits md @ shim_inits env md variant (br_HealthPath built) opts,
                 ps_Containers := [withProbes (re_Reconciler env) (br_HealthPath built) md (br_Container built)],
                 ps_Volumes := [\<lparr>vo_Name = ModelVolumeName, vo_Source = EmptyDir\<rparr>]\<rparr>)))"
  using assms
  by (auto simp: buildPodSpec_def buildModelDelivery_def faithful_def Let_def model_inits_def shim_inits_def
      engine_context_def split: option.splits sum.splits)

lemma llamaCPP_Build_ok:
  "validateLlamaCPPReservedSettings (md_Spec md) = None \<Longrightarrow>
   \<exists>built. pf_Build llamaCPP (engine_context md variant) = Inr built \<and> br_HealthPath built = LlamaCPPHealthPath \<and>
     cn_Ports (br_Container built) = [\<lparr>cp_Name = PortNameEngine, cp_ContainerPort = EnginePort, cp_Protocol = ProtocolTCP\<rparr>] \<and>
     cn_Args (br_Container built) = llamaCPPArgs (md_Spec md) (engine_context md variant) EnginePort"
  by (simp add: llamaCPP_def llamaCPP_Build_def engine_context_def Let_def EnginePort_def)

lemma llamaCPP_Build_Inr:
  assumes "pf_Build llamaCPP (engine_context md variant) = Inr built"
  shows "validateLlamaCPPReservedSettings (md_Spec md) = None"
  using assms by (auto simp: llamaCPP_def llamaCPP_Build_def engine_context_def Let_def split: option.splits)

lemma validated_builds:
  assumes "faithful env" "pf_Validate llamaCPP (Some (md_Spec md)) = None"
  shows "\<exists>dep. buildDeployment env md llamaCPP revision variant replicas opts = Inr dep \<and> da_Replicas dep = replicas"
proof -
  have valid: "validateLlamaCPPReservedSettings (md_Spec md) = None"
    and src: "\<not> (md_Image md = None \<and> md_HuggingFace md = None)"
    using assms(2) by (auto simp: llamaCPP_def llamaCPP_Validate_def Let_def split: option.splits if_splits)
  obtain built where "pf_Build llamaCPP (engine_context md variant) = Inr built"
    using llamaCPP_Build_ok [OF valid] by blast
  then show ?thesis
    using src by (auto simp: buildDeployment_def buildPodSpec_faithful [OF assms(1)])
qed

text \<open>A specification that the profile's validation accepts always renders: no later stage of the
  pod's construction can fail, for either variant and with or without the sidecar.\<close>

theorem validated_spec_renders:
  assumes "faithful env" "pf_Validate llamaCPP (Some (md_Spec md)) = None"
  shows "\<exists>dep. buildDeployment env md llamaCPP revision variant replicas opts = Inr dep \<and> da_Replicas dep = replicas"
  by (rule validated_builds [OF assms])

theorem validated_spec_renders_witness:
  "\<exists>dep. buildDeployment sample_env (sample_shim True) llamaCPP ''b'' VariantCanary 2 sample_opts = Inr dep \<and> da_Replicas dep = 2"
  using validated_spec_renders [OF sample_env_faithful sample_shim_valid] .

lemma sample_renders: "\<exists>dep. buildDeployment sample_env (sample_shim b) llamaCPP rv variant n opts = Inr dep"
proof -
  have valid: "validateLlamaCPPReservedSettings (md_Spec (sample_shim b)) = None"
    using sample_shim_valid [of b] by (auto simp: llamaCPP_def llamaCPP_Validate_def split: option.splits)
  have "md_Image (sample_shim b) \<noteq> None"
    by (simp add: sample_shim_def sample_workload_md_def sample_workload_def)
  moreover obtain built where "pf_Build llamaCPP (engine_context (sample_shim b) variant) = Inr built"
    using llamaCPP_Build_ok [OF valid] by blast
  ultimately show ?thesis
    by (auto simp: buildDeployment_def buildPodSpec_faithful)
qed

lemma built_pod_ports:
  assumes "faithful env" "buildPodSpec env md llamaCPP variant opts = Inr pod"
  shows "map (\<lambda>p. (cp_Name p, cp_ContainerPort p)) (pod_ports pod) =
    (if ShimEnabled (sp_Serving (md_Spec md)) then [(PortNameHTTP, ShimPort), (PortNameMetrics, ShimMetricsPort)] else [])
    @ [(PortNameEngine, EnginePort)]"
proof -
  obtain built where b: "pf_Build llamaCPP (engine_context md variant) = Inr built"
    and pod: "pod = zero_pod\<lparr>ps_SecurityContext := Some pod_security,
                 ps_InitContainers := model_inits md @ shim_inits env md variant (br_HealthPath built) opts,
                 ps_Containers := [withProbes (re_Reconciler env) (br_HealthPath built) md (br_Container built)],
                 ps_Volumes := [\<lparr>vo_Name = ModelVolumeName, vo_Source = EmptyDir\<rparr>]\<rparr>"
    using assms(2) by (auto simp: buildPodSpec_faithful [OF assms(1)] split: if_splits sum.splits)
  have "cn_Ports (br_Container built) = [\<lparr>cp_Name = PortNameEngine, cp_ContainerPort = EnginePort, cp_Protocol = ProtocolTCP\<rparr>]"
    using llamaCPP_Build_ok [OF llamaCPP_Build_Inr [OF b], of variant] b by auto
  moreover have "concat (map cn_Ports (model_inits md)) = []"
    by (cases "md_Image md") (simp_all add: model_inits_def buildModelInitContainer_def zero_container_def Let_def)
  ultimately show ?thesis
    by (simp add: pod pod_ports_def shim_inits_def buildShimContainer_def withProbes_def Let_def)
qed

text \<open>A Service reaches a Deployment's pods: its selector matches their labels, and each of its ports
  targets, by name, a port that some container of the pod opens.\<close>

definition reaches :: "ServiceApply \<Rightarrow> DeploymentApply \<Rightarrow> bool" where
  "reaches svc dep \<longleftrightarrow> sa_Selector svc \<subseteq>\<^sub>m da_TemplateLabels dep \<and>
     (\<forall>p \<in> set (sa_Ports svc). sp_TargetPort p \<in> FromString ` cp_Name ` set (pod_ports (da_PodSpec dep)))"

definition rendered_variants ::
  "desiredChildren \<Rightarrow> variantPlan \<Rightarrow> variantPlan option \<Rightarrow> (DeploymentApply \<times> variantPlan) list" where
  "rendered_variants ch primary canary = (dh_Deployment ch, primary) #
     (case (dh_CanaryDeployment ch, canary) of (Some dep, Some plan) \<Rightarrow> [(dep, plan)] | _ \<Rightarrow> [])"

lemma variant_ports:
  assumes "faithful env" "buildDeployment env (withSpec md spec) llamaCPP revision variant replicas opts = Inr dep"
  shows "map (\<lambda>p. (cp_Name p, cp_ContainerPort p)) (pod_ports (da_PodSpec dep)) =
      (if ShimEnabled (sp_Serving spec) then [(PortNameHTTP, ShimPort), (PortNameMetrics, ShimMetricsPort)] else [])
      @ [(PortNameEngine, EnginePort)]"
    and "da_TemplateLabels dep = PodLabels (md_Name md) variant revision"
    and "da_Selector dep = SelectorLabels (md_Name md) variant"
  using assms(2) built_pod_ports [OF assms(1)] by (auto simp: buildDeployment_def withSpec_def split: sum.splits)

lemma rendered_variants_built:
  assumes "buildChildren env md llamaCPP primary canary opts = Inr ch"
    and "(dep, plan) \<in> set (rendered_variants ch primary canary)"
  shows "\<exists>variant. buildDeployment env (withSpec md (vp_Spec plan)) llamaCPP (vp_Revision plan) variant
      (vp_Replicas plan) opts = Inr dep"
  using assms by (auto simp: buildChildren_def rendered_variants_def Let_def split: sum.splits option.splits)

lemma children_services:
  assumes "buildChildren env md llamaCPP primary canary opts = Inr ch"
  shows "dh_Service ch = buildService env md" "dh_MetricsService ch = buildMetricsService env md"
    "dh_CanaryDeployment ch = None \<longleftrightarrow> canary = None"
  using assms by (auto simp: buildChildren_def Let_def split: sum.splits option.splits)

lemma names_of_ports: "cp_Name ` set ps = set (map fst (map (\<lambda>p. (cp_Name p, cp_ContainerPort p)) ps))"
  by (induction ps) simp_all

lemma services_reach:
  assumes "faithful env" "buildDeployment env (withSpec md spec) llamaCPP revision variant replicas opts = Inr dep"
  shows "reaches (buildService env md) dep \<and> reaches (buildMetricsService env md) dep \<longleftrightarrow>
      (ShimEnabled (sp_Serving (md_Spec md)) \<longrightarrow> ShimEnabled (sp_Serving spec))"
proof -
  have "ServiceSelector (md_Name md) \<subseteq>\<^sub>m PodLabels (md_Name md) variant revision"
    by (auto simp: map_le_def ServiceSelector_def PodLabels_def SelectorLabels_def label_keys Let_def)
  then show ?thesis
    unfolding reaches_def names_of_ports variant_ports [OF assms]
    by (cases "ShimEnabled (sp_Serving spec)"; cases "ShimEnabled (sp_Serving (md_Spec md))")
      (simp_all add: buildService_def buildMetricsService_def servingTargetPort_def Let_def
        PortNameHTTP_def PortNameMetrics_def PortNameEngine_def)
qed

text \<open>C24. The children of one pass fit together, with the llama.cpp profile and a container conversion
  that loses nothing. In every rendered Deployment, the primary's and the canary's, each built from its
  own revision's specification, the container ports have distinct names and distinct numbers and the
  Deployment selects its own pods. Both Services, built from the live specification, reach the pods of a
  variant exactly when that variant's revision has the sidecar or the live specification does not ask for
  it. The canary Deployment is there exactly when a canary was planned, and neither Deployment selects the
  pods of the other.\<close>

theorem services_resolve:
  assumes "faithful env" "buildChildren env md llamaCPP primary canary opts = Inr ch"
  shows "(\<forall>(dep, plan) \<in> set (rendered_variants ch primary canary).
      distinct (map cp_Name (pod_ports (da_PodSpec dep))) \<and>
      distinct (map cp_ContainerPort (pod_ports (da_PodSpec dep))) \<and>
      da_Selector dep \<subseteq>\<^sub>m da_TemplateLabels dep \<and>
      (reaches (dh_Service ch) dep \<and> reaches (dh_MetricsService ch) dep \<longleftrightarrow>
        (ShimEnabled (sp_Serving (md_Spec md)) \<longrightarrow> ShimEnabled (sp_Serving (vp_Spec plan))))) \<and>
    (dh_CanaryDeployment ch = None \<longleftrightarrow> canary = None) \<and>
    (\<forall>dep \<in> set_option (dh_CanaryDeployment ch).
      \<not> da_Selector dep \<subseteq>\<^sub>m da_TemplateLabels (dh_Deployment ch) \<and>
      \<not> da_Selector (dh_Deployment ch) \<subseteq>\<^sub>m da_TemplateLabels dep)"
proof -
  have variants: "distinct (map cp_Name (pod_ports (da_PodSpec dep))) \<and>
      distinct (map cp_ContainerPort (pod_ports (da_PodSpec dep))) \<and>
      da_Selector dep \<subseteq>\<^sub>m da_TemplateLabels dep \<and>
      (reaches (dh_Service ch) dep \<and> reaches (dh_MetricsService ch) dep \<longleftrightarrow>
        (ShimEnabled (sp_Serving (md_Spec md)) \<longrightarrow> ShimEnabled (sp_Serving (vp_Spec plan))))"
    if member: "(dep, plan) \<in> set (rendered_variants ch primary canary)" for dep plan
  proof -
    obtain variant where built: "buildDeployment env (withSpec md (vp_Spec plan)) llamaCPP (vp_Revision plan)
        variant (vp_Replicas plan) opts = Inr dep"
      using rendered_variants_built [OF assms(2) member] by blast
    let ?ps = "map (\<lambda>p. (cp_Name p, cp_ContainerPort p)) (pod_ports (da_PodSpec dep))"
    have "distinct (map fst ?ps)" "distinct (map snd ?ps)"
      unfolding variant_ports [OF assms(1) built]
      by (auto simp: PortNameHTTP_def PortNameMetrics_def PortNameEngine_def ShimPort_def ShimMetricsPort_def
          EnginePort_def)
    moreover have "da_Selector dep \<subseteq>\<^sub>m da_TemplateLabels dep"
      unfolding variant_ports [OF assms(1) built]
      by (auto simp: map_le_def PodLabels_def SelectorLabels_def label_keys Let_def)
    ultimately show ?thesis
      using services_reach [OF assms(1) built] by (simp add: children_services [OF assms(2)] comp_def)
  qed
  have "\<forall>dep \<in> set_option (dh_CanaryDeployment ch). da_Selector dep = SelectorLabels (md_Name md) VariantCanary \<and>
      (\<exists>rv. da_TemplateLabels dep = PodLabels (md_Name md) VariantCanary rv) \<and>
      da_Selector (dh_Deployment ch) = SelectorLabels (md_Name md) VariantPrimary \<and>
      (\<exists>rv. da_TemplateLabels (dh_Deployment ch) = PodLabels (md_Name md) VariantPrimary rv)"
    using assms(2) variant_ports(2,3) [OF assms(1)]
    by (auto simp: buildChildren_def Let_def split: sum.splits option.splits)
  moreover have "\<not> SelectorLabels n v \<subseteq>\<^sub>m PodLabels n w rv" if "variant_string v \<noteq> variant_string w" for n v w rv
    using that by (auto simp: map_le_def PodLabels_def SelectorLabels_def label_keys Let_def)
  ultimately have "\<forall>dep \<in> set_option (dh_CanaryDeployment ch).
      \<not> da_Selector dep \<subseteq>\<^sub>m da_TemplateLabels (dh_Deployment ch) \<and>
      \<not> da_Selector (dh_Deployment ch) \<subseteq>\<^sub>m da_TemplateLabels dep"
    by fastforce
  with variants show ?thesis
    using children_services(3) [OF assms(2)] by blast
qed

lemma sample_children:
  "\<exists>ch. buildChildren sample_env (sample_shim True) llamaCPP
       \<lparr>vp_Spec = md_Spec (sample_shim b), vp_Revision = ''a'', vp_Replicas = 4\<rparr>
       (Some \<lparr>vp_Spec = md_Spec (sample_shim True), vp_Revision = ''b'', vp_Replicas = 1\<rparr>) sample_opts = Inr ch"
proof -
  have "withSpec (sample_shim True) (md_Spec (sample_shim b)) = sample_shim b" for b
    by (simp add: withSpec_def sample_shim_def sample_workload_md_def)
  then show ?thesis
    using sample_renders [of b "''a''" VariantPrimary 4 sample_opts]
      sample_renders [of True "''b''" VariantCanary 1 sample_opts]
    by (auto simp: buildChildren_def)
qed

theorem services_resolve_witness:
  "\<exists>ch dep. buildChildren sample_env (sample_shim True) llamaCPP
       \<lparr>vp_Spec = md_Spec (sample_shim False), vp_Revision = ''a'', vp_Replicas = 4\<rparr>
       (Some \<lparr>vp_Spec = md_Spec (sample_shim True), vp_Revision = ''b'', vp_Replicas = 1\<rparr>) sample_opts = Inr ch \<and>
     dh_CanaryDeployment ch = Some dep \<and>
     reaches (dh_Service ch) dep \<and> reaches (dh_MetricsService ch) dep \<and>
     \<not> (reaches (dh_Service ch) (dh_Deployment ch) \<and> reaches (dh_MetricsService ch) (dh_Deployment ch))"
proof -
  obtain ch where ch: "buildChildren sample_env (sample_shim True) llamaCPP
       \<lparr>vp_Spec = md_Spec (sample_shim False), vp_Revision = ''a'', vp_Replicas = 4\<rparr>
       (Some \<lparr>vp_Spec = md_Spec (sample_shim True), vp_Revision = ''b'', vp_Replicas = 1\<rparr>) sample_opts = Inr ch"
    using sample_children by blast
  then show ?thesis
    using services_resolve [OF sample_env_faithful ch]
    by (auto simp: rendered_variants_def sample_shim_enabled split: option.splits)
qed

text \<open>The Services are rendered from the live specification and each pod from its revision's. While the
  sidecar is being turned on - the live specification has it, the revision the primary runs does not - the
  serving Service targets a port name that no container of the primary's pods has, so that none of them
  can receive traffic through it, whatever share of the fleet the canary is.\<close>

theorem shim_toggle_strands_primary:
  assumes "faithful env" "buildChildren env md llamaCPP primary canary opts = Inr ch"
    "ShimEnabled (sp_Serving (md_Spec md))" "\<not> ShimEnabled (sp_Serving (vp_Spec primary))"
  shows "\<forall>p\<in>set (sa_Ports (dh_Service ch)). \<forall>c\<in>set (pod_ports (da_PodSpec (dh_Deployment ch))).
      sp_TargetPort p \<noteq> FromString (cp_Name c)"
proof -
  obtain dep where dep: "buildDeployment env (withSpec md (vp_Spec primary)) llamaCPP (vp_Revision primary) VariantPrimary
        (vp_Replicas primary) opts = Inr dep" and ch: "dh_Deployment ch = dep" "dh_Service ch = buildService env md"
    using assms(2) by (auto simp: buildChildren_def Let_def split: sum.splits option.splits)
  obtain pod where pod: "buildPodSpec env (withSpec md (vp_Spec primary)) llamaCPP VariantPrimary opts = Inr pod"
    "da_PodSpec dep = pod"
    using dep by (auto simp: buildDeployment_def split: sum.splits)
  have "map (\<lambda>p. (cp_Name p, cp_ContainerPort p)) (pod_ports pod) = [(PortNameEngine, EnginePort)]"
    using built_pod_ports [OF assms(1) pod(1)] assms(4) by (simp add: withSpec_def)
  then have "\<forall>c\<in>set (pod_ports pod). cp_Name c = PortNameEngine"
    by (cases "pod_ports pod") auto
  then show ?thesis
    using assms(3)
    by (auto simp: ch pod buildService_def servingTargetPort_def Let_def PortNameHTTP_def PortNameEngine_def)
qed

theorem shim_toggle_strands_primary_witness:
  "\<exists>ch. buildChildren sample_env (sample_shim True) llamaCPP
       \<lparr>vp_Spec = md_Spec (sample_shim False), vp_Revision = ''a'', vp_Replicas = 4\<rparr>
       (Some \<lparr>vp_Spec = md_Spec (sample_shim True), vp_Revision = ''b'', vp_Replicas = 1\<rparr>) sample_opts = Inr ch \<and>
     (\<forall>p\<in>set (sa_Ports (dh_Service ch)). \<forall>c\<in>set (pod_ports (da_PodSpec (dh_Deployment ch))).
        sp_TargetPort p \<noteq> FromString (cp_Name c))"
proof -
  let ?primary = "\<lparr>vp_Spec = md_Spec (sample_shim False), vp_Revision = ''a'', vp_Replicas = 4\<rparr>"
  let ?canary = "\<lparr>vp_Spec = md_Spec (sample_shim True), vp_Revision = ''b'', vp_Replicas = 1\<rparr>"
  obtain ch where ch: "buildChildren sample_env (sample_shim True) llamaCPP ?primary (Some ?canary) sample_opts = Inr ch"
    using sample_children by blast
  have "ShimEnabled (sp_Serving (md_Spec (sample_shim True)))" "\<not> ShimEnabled (sp_Serving (vp_Spec ?primary))"
    by (simp_all add: sample_shim_enabled)
  from shim_toggle_strands_primary [OF sample_env_faithful ch this] ch show ?thesis
    by blast
qed

text \<open>The concurrency the sidecar subtracts to derive the queue depth is the number of slots the engine
  is started with: the same text follows the engine's parallel flag and stands in the sidecar's argument.\<close>

theorem concurrency_agrees:
  assumes "faithful env" "buildPodSpec env md llamaCPP variant opts = Inr pod" "ShimEnabled (sp_Serving (md_Spec md))"
  shows "\<exists>engine shim n pre post. ps_Containers pod = [engine] \<and> last (ps_InitContainers pod) = shim \<and>
      cn_Name shim = ShimContainerName \<and>
      cn_Args engine = pre @ [llamaCPPParallelFlag, n] @ post \<and>
      ''--max-concurrency='' @ n \<in> set (cn_Args shim)"
proof -
  obtain built where b: "pf_Build llamaCPP (engine_context md variant) = Inr built"
    and pod: "ps_Containers pod = [withProbes (re_Reconciler env) (br_HealthPath built) md (br_Container built)]"
      "last (ps_InitContainers pod) =
        buildShimContainer (rr_MustParse (re_Reconciler env)) md variant (br_HealthPath built) (shimImage opts)"
    using assms(2,3)
    by (auto simp: buildPodSpec_faithful [OF assms(1)] shim_inits_def split: if_splits sum.splits)
  have args: "cn_Args (br_Container built) = llamaCPPArgs (md_Spec md) (engine_context md variant) EnginePort"
    using llamaCPP_Build_ok [OF llamaCPP_Build_Inr [OF b], of variant] b by auto
  have n: "int32OrDefault (en_MaxConcurrency (sp_Engine (md_Spec md))) engineDefaultMaxConcurrency = maxConcurrencyFor md"
    by (simp add: int32OrDefault_def maxConcurrencyFor_def engineDefaultMaxConcurrency_def split: option.splits)
  have split: "\<exists>pre post. a1 @ a2 @ a3 @ a4 @ [llamaCPPParallelFlag, k] @ a5 = pre @ [llamaCPPParallelFlag, k] @ post"
    for a1 a2 a3 a4 a5 :: "string list" and k
    by (metis append.assoc)
  obtain pre post where "llamaCPPArgs (md_Spec md) (engine_context md variant) EnginePort =
      pre @ [llamaCPPParallelFlag, fmt_d (maxConcurrencyFor md)] @ post"
    unfolding llamaCPPArgs_def n using split by blast
  then show ?thesis
    unfolding pod by (auto simp: withProbes_def args buildShimContainer_def Let_def shimArgs_def)
qed

theorem concurrency_agrees_witness:
  "\<exists>pod engine n. buildPodSpec sample_env (sample_shim True) llamaCPP VariantCanary sample_opts = Inr pod \<and>
     ps_Containers pod = [engine] \<and> n \<in> set (cn_Args engine) \<and>
     ''--max-concurrency='' @ n \<in> set (cn_Args (last (ps_InitContainers pod)))"
proof -
  obtain dep where "buildDeployment sample_env (sample_shim True) llamaCPP ''b'' VariantCanary 2 sample_opts = Inr dep"
    using sample_renders by blast
  then obtain pod where pod: "buildPodSpec sample_env (sample_shim True) llamaCPP VariantCanary sample_opts = Inr pod"
    by (auto simp: buildDeployment_def split: sum.splits)
  have "ShimEnabled (sp_Serving (md_Spec (sample_shim True)))"
    by (simp add: sample_shim_enabled)
  from concurrency_agrees [OF sample_env_faithful pod this] pod show ?thesis
    by fastforce
qed

section \<open>The startup budget\<close>

lemma whole_seconds_float:
  assumes "0 \<le> s" "s < 9007199254740992"
  shows "Duration_Seconds (s * go_Second) = Fin (of_int s)"
proof -
  have "(s * go_Second) sdiv go_Second = s"
    using assms by (simp add: sdiv_nonneg go_Second_def)
  then show ?thesis
    using assms round64_exact [of s] by (simp add: Duration_Seconds_def Let_def f64_of_i64_def)
qed

definition with_timeout :: "ModelDeployment \<Rightarrow> go_duration \<Rightarrow> ModelDeployment" where
  "with_timeout md d = md\<lparr>md_Spec := (md_Spec md)\<lparr>sp_Serving := (sp_Serving (md_Spec md))\<lparr>sv_StartupTimeout := Some d\<rparr>\<rparr>\<rparr>"

text \<open>A startup timeout of a whole number of seconds is covered by the startup probe: its attempts,
  one every five seconds, span at least the timeout and less than one period more.\<close>

theorem startup_budget_covered:
  assumes "1 \<le> s" "s \<le> MaxInt32 - probePeriodSeconds"
  shows "s \<le> startupFailureThreshold r (with_timeout md (s * go_Second)) * probePeriodSeconds \<and>
     startupFailureThreshold r (with_timeout md (s * go_Second)) * probePeriodSeconds < s + probePeriodSeconds"
proof -
  have s: "int32_of_f64 oob (Fin (of_int s)) = s" for oob
    using assms by (simp add: int32_of_f64_def is_i32_def MaxInt32_def probePeriodSeconds_def Let_def)
  have secs: "Duration_Seconds (s * go_Second) = Fin (of_int s)"
    using assms by (simp add: whole_seconds_float MaxInt32_def probePeriodSeconds_def)
  have "wrap32 (wrap32 (s + 5) - 1) = s + 4"
    using assms by (simp add: wrap32_id is_i32_def MaxInt32_def probePeriodSeconds_def)
  then have "startupFailureThreshold r (with_timeout md (s * go_Second)) = max ((s + 4) div 5) 1"
    using assms by (simp add: startupFailureThreshold_def with_timeout_def secs s Let_def probePeriodSeconds_def sdiv_nonneg)
  moreover have "1 \<le> (s + 4) div 5"
    using assms(1) zdiv_ge_bound [of 5 1 "s + 4"] by simp
  ultimately have "startupFailureThreshold r (with_timeout md (s * go_Second)) = (s + 4) div 5"
    by simp
  then show ?thesis
    using mult_div_mod_eq [of 5 "s + 4"] pos_mod_sign [of 5 "s + 4"] pos_mod_bound [of 5 "s + 4"]
    by (simp add: probePeriodSeconds_def) linarith
qed

theorem startup_budget_covered_witness:
  "startupFailureThreshold (re_Reconciler sample_env) (with_timeout (sample_shim True) (301 * go_Second)) = 61"
  using startup_budget_covered [of 301 "re_Reconciler sample_env" "sample_shim True"]
  by (simp add: MaxInt32_def probePeriodSeconds_def)

text \<open>The budget is not always covered: the fraction of a second is cut off before the attempts are
  rounded up, so that a timeout of 5.5 seconds gets one attempt, five seconds; and the rounding wraps for
  the largest timeouts, so that 2147483647 seconds get one attempt as well.\<close>

theorem startup_budget_cut:
  "startupFailureThreshold r (with_timeout md 5500000000) = 1 \<and>
   startupFailureThreshold r (with_timeout md (2147483647 * go_Second)) = 1"
proof -
  have half: "round64 (11 / 2) = Fin (11 / 2)" "round64 (1 / 2) = Fin (1 / 2)"
    using round64_nearest [of 2 "11 / 2" "11 * 2 ^ 49"] round64_nearest [of "- 1" "1 / 2" "2 ^ 52"]
    by (simp_all add: pow2_def)
  have "Duration_Seconds 5500000000 = Fin (11 / 2)"
    using half by (simp add: Duration_Seconds_def go_Second_def sdiv_nonneg f64_of_i64_def Let_def)
  moreover have floor: "\<lfloor>11 / 2 :: rat\<rfloor> = 5"
    by (rule floor_unique) simp_all
  ultimately show ?thesis
    using whole_seconds_float [of 2147483647] floor
    by (simp add: startupFailureThreshold_def with_timeout_def Let_def int32_of_f64_def is_i32_def probePeriodSeconds_def
        sdiv_nonneg wrap32_def)
qed

end
