(* ===== verification/Go_Json.thy ===== *)
theory Go_Json
  imports Go_Text
begin

text \<open>
  Go's \<open>encoding/json\<close> as the inference shim uses it: \<open>json.Unmarshal\<close> of a byte string into structs,
  strings, \<open>int64\<close> values, pointers and slices.
  \<^item> The scanner is a recursive descent parser over bytes: white space, literals, numbers by the JSON
    grammar, strings with their escapes (surrogate pairs joined, invalid UTF-8 replaced), arrays and
    objects to Go's nesting limit. It runs on fuel; \<open>parse_enough_fuel\<close> shows that the fuel
    \<open>Unmarshal\<close> gives it is always enough, so that \<open>None\<close> means a syntax error.
  \<^item> The decoder stores a value into an existing Go value: \<open>null\<close> leaves strings, numbers and structs
    alone and clears pointers and slices, object keys match field names up to Go's case folding, an
    array overwrites the elements a slice already has, and any type mismatch makes \<open>Unmarshal\<close> return
    an error (\<open>None\<close>), which every caller here answers by ignoring the decoded value.
\<close>

datatype json =
    JNull
  | JBool bool
  | JNum string
  | JStr string
  | JArr "json list"
  | JObj "(string \<times> json) list"

section \<open>The scanner\<close>

definition json_ws :: "char \<Rightarrow> bool" where
  "json_ws c \<longleftrightarrow> byte c = 32 \<or> byte c = 9 \<or> byte c = 13 \<or> byte c = 10"

definition skip_ws :: "string \<Rightarrow> string" where
  "skip_ws s = dropWhile json_ws s"

definition is_digit :: "char \<Rightarrow> bool" where
  "is_digit c \<longleftrightarrow> 48 \<le> byte c \<and> byte c \<le> 57"

definition hex_val :: "char \<Rightarrow> nat option" where
  "hex_val c =
     (let n = byte c
      in if 48 \<le> n \<and> n \<le> 57 then Some (n - 48)
         else if 97 \<le> n \<and> n \<le> 102 then Some (n - 87)
         else if 65 \<le> n \<and> n \<le> 70 then Some (n - 55)
         else None)"

fun hex4 :: "string \<Rightarrow> (nat \<times> string) option" where
  "hex4 (a # b # c # d # s) =
     (case (hex_val a, hex_val b, hex_val c, hex_val d) of
        (Some w, Some x, Some y, Some z) \<Rightarrow> Some (4096 * w + 256 * x + 16 * y + z, s)
      | _ \<Rightarrow> None)"
| "hex4 _ = None"

definition surrogate :: "nat \<Rightarrow> bool" where
  "surrogate r \<longleftrightarrow> 55296 \<le> r \<and> r < 57344"

text \<open>\<open>getu4\<close> on the text after an escape: a second \<open>\uXXXX\<close>, if there is one.\<close>

fun low_escape :: "string \<Rightarrow> (nat \<times> string) option" where
  "low_escape (b # u # s) = (if byte b = 92 \<and> byte u = 117 then hex4 s else None)"
| "low_escape _ = None"

definition unicode_escape :: "string \<Rightarrow> (string \<times> string) option" where
  "unicode_escape s =
     (case hex4 s of
        None \<Rightarrow> None
      | Some (r, rest) \<Rightarrow>
          if \<not> surrogate r then Some (encode_rune r, rest)
          else (case low_escape rest of
                  Some (r2, rest2) \<Rightarrow>
                    if r < 56320 \<and> 56320 \<le> r2 \<and> r2 < 57344
                    then Some (encode_rune ((r - 55296) * 1024 + (r2 - 56320) + 65536), rest2)
                    else Some (encode_rune replacement_char, rest)
                | None \<Rightarrow> Some (encode_rune replacement_char, rest)))"

definition escape_char :: "char \<Rightarrow> char option" where
  "escape_char c =
     (let n = byte c
      in if n = 34 \<or> n = 92 \<or> n = 47 then Some c
         else if n = 98 then Some (char_of (8 :: nat))
         else if n = 102 then Some (char_of (12 :: nat))
         else if n = 110 then Some (char_of (10 :: nat))
         else if n = 114 then Some (char_of (13 :: nat))
         else if n = 116 then Some (char_of (9 :: nat))
         else None)"

text \<open>One unit of a string body that is not its closing quotation mark: the text it stands for and
  the rest of the input.\<close>

fun string_unit :: "string \<Rightarrow> (string \<times> string) option" where
  "string_unit [] = None"
| "string_unit (c # cs) =
     (if byte c = 92 then
        (case cs of
           [] \<Rightarrow> None
         | e # es \<Rightarrow>
             if byte e = 117 then unicode_escape es
             else map_option (\<lambda>d. ([d], es)) (escape_char e))
      else if byte c < 32 then None
      else (let k = rune_size (c # cs)
            in if k = 0 then Some (encode_rune replacement_char, cs)
               else Some (take k (c # cs), drop k (c # cs))))"

lemma hex4_shorter: "hex4 s = Some (r, rest) \<Longrightarrow> length rest < length s"
  by (cases s rule: hex4.cases) (auto split: option.splits)

lemma low_escape_shorter: "low_escape s = Some (r, rest) \<Longrightarrow> length rest < length s"
  by (cases s rule: low_escape.cases) (auto split: if_splits dest: hex4_shorter)

lemma unicode_escape_shorter: "unicode_escape s = Some (out, rest) \<Longrightarrow> length rest < length s"
  by (auto simp: unicode_escape_def dest!: hex4_shorter low_escape_shorter split: option.splits if_splits)

lemma string_unit_shorter: "string_unit s = Some (out, rest) \<Longrightarrow> length rest < length s"
  by (cases s)
    (auto simp: Let_def split: list.splits if_splits dest!: unicode_escape_shorter simp del: rune_size.simps)

function lex_string :: "string \<Rightarrow> (string \<times> string) option" where
  "lex_string s =
     (if s \<noteq> [] \<and> byte (hd s) = 34 then Some ([], tl s)
      else (case string_unit s of
              None \<Rightarrow> None
            | Some (out, rest) \<Rightarrow> map_option (\<lambda>(t, r). (out @ t, r)) (lex_string rest)))"
  by auto
termination
  by (relation "measure length") (auto dest: string_unit_shorter)

declare lex_string.simps [simp del]

lemma lex_string_shorter: "lex_string s = Some (t, r) \<Longrightarrow> length r < length s"
proof (induction s arbitrary: t r rule: lex_string.induct)
  case (1 s)
  show ?case
  proof (cases "s \<noteq> [] \<and> byte (hd s) = 34")
    case True
    then show ?thesis
      using "1.prems" lex_string.simps [of s] by (cases s) auto
  next
    case False
    then obtain out rest t' where u: "string_unit s = Some (out, rest)" and l: "lex_string rest = Some (t', r)"
      using "1.prems" by (auto simp: lex_string.simps [of s] split: option.splits if_splits)
    have "length r < length rest"
      using "1.IH" [OF False u refl l] .
    then show ?thesis
      using string_unit_shorter [OF u] by simp
  qed
qed

text \<open>Numbers by the JSON grammar: a leading zero stands alone, and a point or an exponent needs a
  digit after it. The literal is kept as text, as the decoder does.\<close>

definition lex_digits :: "string \<Rightarrow> (string \<times> string) option" where
  "lex_digits s =
     (let ds = takeWhile is_digit s in if ds = [] then None else Some (ds, dropWhile is_digit s))"

definition lex_int :: "string \<Rightarrow> (string \<times> string) option" where
  "lex_int s =
     (case s of
        c # cs \<Rightarrow> if byte c = 48 then Some ([c], cs) else lex_digits s
      | [] \<Rightarrow> None)"

definition lex_frac :: "string \<Rightarrow> (string \<times> string) option" where
  "lex_frac s =
     (case s of
        c # cs \<Rightarrow> if byte c = 46 then map_option (\<lambda>(ds, r). (c # ds, r)) (lex_digits cs) else Some ([], s)
      | [] \<Rightarrow> Some ([], s))"

definition lex_exp :: "string \<Rightarrow> (string \<times> string) option" where
  "lex_exp s =
     (case s of
        c # cs \<Rightarrow>
          if byte c = 101 \<or> byte c = 69 then
            (case cs of
               d # ds \<Rightarrow>
                 if byte d = 43 \<or> byte d = 45 then map_option (\<lambda>(x, r). (c # d # x, r)) (lex_digits ds)
                 else map_option (\<lambda>(x, r). (c # x, r)) (lex_digits cs)
             | [] \<Rightarrow> None)
          else Some ([], s)
      | [] \<Rightarrow> Some ([], s))"

definition lex_number :: "string \<Rightarrow> (string \<times> string) option" where
  "lex_number s =
     (let (sign, s1) = (case s of c # cs \<Rightarrow> if byte c = 45 then ([c], cs) else ([], s) | [] \<Rightarrow> ([], s))
      in case lex_int s1 of
           None \<Rightarrow> None
         | Some (i, s2) \<Rightarrow>
             (case lex_frac s2 of
                None \<Rightarrow> None
              | Some (f, s3) \<Rightarrow> map_option (\<lambda>(e, s4). (sign @ i @ f @ e, s4)) (lex_exp s3)))"

lemma lex_digits_shorter: "lex_digits s = Some (ds, r) \<Longrightarrow> length r < length s"
proof -
  assume d: "lex_digits s = Some (ds, r)"
  then have "length (takeWhile is_digit s) + length r = length s" "takeWhile is_digit s \<noteq> []"
    by (auto simp: lex_digits_def Let_def length_append [symmetric] simp del: length_append split: if_splits)
  then show ?thesis
    by (cases "takeWhile is_digit s") simp_all
qed

lemma lex_int_shorter: "lex_int s = Some (ds, r) \<Longrightarrow> length r < length s"
  by (auto simp: lex_int_def split: list.splits if_splits dest: lex_digits_shorter)

lemma lex_frac_shorter: "lex_frac s = Some (ds, r) \<Longrightarrow> length r \<le> length s"
  by (auto simp: lex_frac_def split: list.splits if_splits dest: lex_digits_shorter)

lemma lex_exp_shorter: "lex_exp s = Some (ds, r) \<Longrightarrow> length r \<le> length s"
  by (auto simp: lex_exp_def split: list.splits if_splits dest: lex_digits_shorter)

lemma lex_number_shorter: "lex_number s = Some (ds, r) \<Longrightarrow> length r < length s"
  by (auto simp: lex_number_def Let_def split: list.splits if_splits option.splits prod.splits
      dest!: lex_int_shorter lex_frac_shorter lex_exp_shorter)

definition json_prefix :: "string \<Rightarrow> string \<Rightarrow> bool" where
  "json_prefix p s \<longleftrightarrow> take (length p) s = p"

definition lex_atom :: "string \<Rightarrow> (json \<times> string) option" where
  "lex_atom s =
     (if json_prefix ''null'' s then Some (JNull, drop 4 s)
      else if json_prefix ''true'' s then Some (JBool True, drop 4 s)
      else if json_prefix ''false'' s then Some (JBool False, drop 5 s)
      else map_option (\<lambda>(n, r). (JNum n, r)) (lex_number s))"

definition maxNestingDepth :: nat where
  "maxNestingDepth = 10000"

text \<open>The parser of a value, of the rest of an array and of the rest of an object. \<open>depth\<close> counts the
  containers that are open.\<close>

fun parse_value :: "nat \<Rightarrow> nat \<Rightarrow> string \<Rightarrow> (json \<times> string) option"
  and parse_elements :: "nat \<Rightarrow> nat \<Rightarrow> string \<Rightarrow> (json list \<times> string) option"
  and parse_members :: "nat \<Rightarrow> nat \<Rightarrow> string \<Rightarrow> ((string \<times> json) list \<times> string) option" where
  "parse_value 0 depth s = None"
| "parse_value (Suc fuel) depth s =
     (case skip_ws s of
        [] \<Rightarrow> None
      | c # cs \<Rightarrow>
          if byte c = 34 then map_option (\<lambda>(t, r). (JStr t, r)) (lex_string cs)
          else if byte c = 91 then
            if depth \<ge> maxNestingDepth then None
            else (case skip_ws cs of
                    [] \<Rightarrow> None
                  | d # ds \<Rightarrow>
                      if byte d = 93 then Some (JArr [], ds)
                      else map_option (\<lambda>(xs, r). (JArr xs, r)) (parse_elements fuel (Suc depth) (d # ds)))
          else if byte c = 123 then
            if depth \<ge> maxNestingDepth then None
            else (case skip_ws cs of
                    [] \<Rightarrow> None
                  | d # ds \<Rightarrow>
                      if byte d = 125 then Some (JObj [], ds)
                      else map_option (\<lambda>(ms, r). (JObj ms, r)) (parse_members fuel (Suc depth) (d # ds)))
          else lex_atom (c # cs))"
| "parse_elements 0 depth s = None"
| "parse_elements (Suc fuel) depth s =
     (case parse_value fuel depth s of
        None \<Rightarrow> None
      | Some (v, r) \<Rightarrow>
          (case skip_ws r of
             [] \<Rightarrow> None
           | c # cs \<Rightarrow>
               if byte c = 93 then Some ([v], cs)
               else if byte c = 44 then map_option (\<lambda>(xs, r). (v # xs, r)) (parse_elements fuel depth cs)
               else None))"
| "parse_members 0 depth s = None"
| "parse_members (Suc fuel) depth s =
     (case skip_ws s of
        [] \<Rightarrow> None
      | q # qs \<Rightarrow>
          if byte q \<noteq> 34 then None
          else (case lex_string qs of
                  None \<Rightarrow> None
                | Some (k, r) \<Rightarrow>
                    (case skip_ws r of
                       [] \<Rightarrow> None
                     | c # cs \<Rightarrow>
                         if byte c \<noteq> 58 then None
                         else (case parse_value fuel depth cs of
                                 None \<Rightarrow> None
                               | Some (v, r) \<Rightarrow>
                                   (case skip_ws r of
                                      [] \<Rightarrow> None
                                    | e # es \<Rightarrow>
                                        if byte e = 125 then Some ([(k, v)], es)
                                        else if byte e = 44 then
                                          map_option (\<lambda>(ms, r). ((k, v) # ms, r)) (parse_members fuel depth es)
                                        else None)))))"

text \<open>The syntax check and the tree: one value, and nothing but white space around it.\<close>

definition parse_json :: "string \<Rightarrow> json option" where
  "parse_json s =
     (case parse_value (2 * length s + 2) 0 s of
        Some (j, r) \<Rightarrow> if skip_ws r = [] then Some j else None
      | None \<Rightarrow> None)"

section \<open>Enough fuel\<close>

lemma skip_ws_le: "length (skip_ws s) \<le> length s"
  by (simp add: skip_ws_def length_dropWhile_le)

lemma skip_ws_Cons: "skip_ws s = c # cs \<Longrightarrow> length cs < length s"
  using skip_ws_le [of s] by simp

lemma lex_atom_shorter: "s \<noteq> [] \<Longrightarrow> lex_atom s = Some (v, r) \<Longrightarrow> length r < length s"
  by (cases s) (auto simp: lex_atom_def split: if_splits dest: lex_number_shorter)

lemma parse_shorter:
  "parse_value n d s = Some (v, r) \<Longrightarrow> length r < length s"
  "parse_elements n d s = Some (vs, r) \<Longrightarrow> length r < length s"
  "parse_members n d s = Some (ms, r) \<Longrightarrow> length r < length s"
proof (induction n d s and n d s and n d s arbitrary: v r and vs r and ms r
    rule: parse_value_parse_elements_parse_members.induct)
  case (2 fuel depth s)
  then show ?case
    by (fastforce split: list.splits if_splits dest: skip_ws_Cons lex_string_shorter lex_atom_shorter [rotated])
next
  case (4 fuel depth s)
  then show ?case
    by (fastforce split: option.splits prod.splits list.splits if_splits dest: skip_ws_Cons)
next
  case (6 fuel depth s)
  then show ?case
    by (fastforce split: option.splits prod.splits list.splits if_splits dest: skip_ws_Cons lex_string_shorter)
qed simp_all

lemma parse_more_fuel:
  "2 * length s < n \<Longrightarrow> parse_value (Suc n) d s = parse_value n d s"
  "2 * length s + 1 < n \<Longrightarrow> parse_elements (Suc n) d s = parse_elements n d s"
  "2 * length s < n \<Longrightarrow> parse_members (Suc n) d s = parse_members n d s"
proof (induction n d s and n d s and n d s rule: parse_value_parse_elements_parse_members.induct)
  case (2 fuel depth s)
  have small: "2 * length (e # es) + 1 < fuel" if "skip_ws s = c # cs" "skip_ws cs = e # es" for c cs e es
    using that 2(3) skip_ws_Cons [OF that(1)] skip_ws_le [of cs] by simp
  show ?case
    unfolding parse_value.simps(2) [of "Suc fuel" depth s] parse_value.simps(2) [of fuel depth s]
    using 2 small by (fastforce simp del: parse_value.simps parse_elements.simps parse_members.simps split: list.splits)
next
  case (4 fuel depth s)
  have small: "2 * length cs + 1 < fuel" if "parse_value fuel depth s = Some (v, r)" "skip_ws r = c # cs" for v r c cs
    using that 4(3) parse_shorter(1) [OF that(1)] skip_ws_Cons [OF that(2)] by simp
  show ?case
    unfolding parse_elements.simps(2) [of "Suc fuel" depth s] parse_elements.simps(2) [of fuel depth s]
    using 4 small
    by (fastforce simp del: parse_value.simps parse_elements.simps parse_members.simps split: list.splits option.splits)
next
  case (6 fuel depth s)
  have a: "2 * length cs < fuel"
    if "skip_ws s = q # qs" "lex_string qs = Some (k, r)" "skip_ws r = c # cs" for q qs k r c cs
    using 6(3) skip_ws_Cons [OF that(1)] lex_string_shorter [OF that(2)] skip_ws_Cons [OF that(3)] by simp
  have b: "2 * length es < fuel"
    if "skip_ws s = q # qs" "lex_string qs = Some (k, r)" "skip_ws r = c # cs"
      "parse_value fuel depth cs = Some (v, r2)" "skip_ws r2 = e # es" for q qs k r c cs v r2 e es
    using a [OF that(1-3)] parse_shorter(1) [OF that(4)] skip_ws_Cons [OF that(5)] by simp
  show ?case
    unfolding parse_members.simps(2) [of "Suc fuel" depth s] parse_members.simps(2) [of fuel depth s]
    using 6 a b
    by (fastforce simp del: parse_value.simps parse_elements.simps parse_members.simps split: list.splits option.splits)
qed simp_all

lemma parse_enough_fuel: "2 * length s < n \<Longrightarrow> parse_value n d s = parse_value (2 * length s + 1) d s"
proof (induction n)
  case (Suc n)
  then show ?case
    by (cases "2 * length s < n") (auto simp: parse_more_fuel(1) less_Suc_eq simp del: parse_value.simps)
qed simp

section \<open>The decoder\<close>

text \<open>Keys match field names without regard to case: ASCII letters, and the two other characters that
  fold to an ASCII letter, the long s (bytes C5 BF) and the Kelvin sign (bytes E2 84 AA).\<close>

fun fold_key :: "string \<Rightarrow> string" where
  "fold_key [] = []"
| "fold_key (c # cs) =
     (let n = byte c
      in if 97 \<le> n \<and> n \<le> 122 then char_of (n - 32) # fold_key cs
         else if n = 197 \<and> cs \<noteq> [] \<and> byte (hd cs) = 191 then CHR ''S'' # fold_key (tl cs)
         else if n = 226 \<and> length cs \<ge> 2 \<and> byte (hd cs) = 132 \<and> byte (cs ! 1) = 170
           then CHR ''K'' # fold_key (drop 2 cs)
         else c # fold_key cs)"

definition key_is :: "string \<Rightarrow> string \<Rightarrow> bool" where
  "key_is name key \<longleftrightarrow> fold_key key = fold_key name"

definition parse_int :: "string \<Rightarrow> int option" where
  "parse_int lit =
     (let (neg, ds) = (case lit of c # cs \<Rightarrow> if byte c = 45 then (True, cs) else (False, lit) | [] \<Rightarrow> (False, lit));
          v = (if neg then - read_digits 0 ds else read_digits 0 ds)
      in if ds \<noteq> [] \<and> list_all is_digit ds \<and> is_i64 v then Some v else None)"

definition dec_string :: "json \<Rightarrow> string \<Rightarrow> string option" where
  "dec_string j x = (case j of JNull \<Rightarrow> Some x | JStr s \<Rightarrow> Some s | _ \<Rightarrow> None)"

definition dec_int64 :: "json \<Rightarrow> i64 \<Rightarrow> i64 option" where
  "dec_int64 j x = (case j of JNull \<Rightarrow> Some x | JNum lit \<Rightarrow> parse_int lit | _ \<Rightarrow> None)"

definition dec_pointer :: "(json \<Rightarrow> 'a \<Rightarrow> 'a option) \<Rightarrow> 'a \<Rightarrow> json \<Rightarrow> 'a option \<Rightarrow> 'a option option" where
  "dec_pointer dec zero j p =
     (case j of
        JNull \<Rightarrow> Some None
      | _ \<Rightarrow> map_option Some (dec j (case p of None \<Rightarrow> zero | Some x \<Rightarrow> x)))"

fun dec_members :: "(string \<Rightarrow> json \<Rightarrow> 'a \<Rightarrow> 'a option) \<Rightarrow> (string \<times> json) list \<Rightarrow> 'a \<Rightarrow> 'a option" where
  "dec_members field [] x = Some x"
| "dec_members field ((k, v) # ms) x =
     (case field k v x of None \<Rightarrow> None | Some y \<Rightarrow> dec_members field ms y)"

definition dec_struct :: "(string \<Rightarrow> json \<Rightarrow> 'a \<Rightarrow> 'a option) \<Rightarrow> json \<Rightarrow> 'a \<Rightarrow> 'a option" where
  "dec_struct field j x = (case j of JNull \<Rightarrow> Some x | JObj ms \<Rightarrow> dec_members field ms x | _ \<Rightarrow> None)"

text \<open>A slice is its elements and what its array still holds beyond them, which a longer array that is
  decoded into the same slice later finds there.\<close>

type_synonym 'a slice = "'a list \<times> 'a list"

fun dec_elements :: "(json \<Rightarrow> 'a \<Rightarrow> 'a option) \<Rightarrow> 'a \<Rightarrow> json list \<Rightarrow> 'a list \<Rightarrow> 'a list option" where
  "dec_elements dec zero [] old = Some []"
| "dec_elements dec zero (j # js) old =
     (case dec j (case old of [] \<Rightarrow> zero | x # _ \<Rightarrow> x) of
        None \<Rightarrow> None
      | Some y \<Rightarrow> map_option (Cons y) (dec_elements dec zero js (drop 1 old)))"

definition dec_slice :: "(json \<Rightarrow> 'a \<Rightarrow> 'a option) \<Rightarrow> 'a \<Rightarrow> json \<Rightarrow> 'a slice \<Rightarrow> 'a slice option" where
  "dec_slice dec zero j x =
     (case j of
        JNull \<Rightarrow> Some ([], [])
      | JArr [] \<Rightarrow> Some ([], [])
      | JArr js \<Rightarrow>
          (let old = fst x @ snd x
           in map_option (\<lambda>ys. (ys, drop (length js) old)) (dec_elements dec zero js old))
      | _ \<Rightarrow> None)"

text \<open>\<open>json.Unmarshal(data, &x)\<close>, \<open>None\<close> for an error.\<close>

definition Unmarshal :: "(json \<Rightarrow> 'a \<Rightarrow> 'a option) \<Rightarrow> 'a \<Rightarrow> string \<Rightarrow> 'a option" where
  "Unmarshal dec x data = (case parse_json data of None \<Rightarrow> None | Some j \<Rightarrow> dec j x)"

end
