(* ===== verification/Shim_Stream.thy ===== *)
theory Shim_Stream
  imports Go_Json
begin

text \<open>
  The stream observer of the inference shim (\<open>src/cmd/shim/sse.go\<close>): it watches the bytes of an
  upstream response pass by, reassembles the lines of a server-sent event stream from reads of any size,
  joins the data lines of an event, decodes its frame and times the first generated token.
  \<^item> Byte buffers are strings. \<open>bytes.Buffer\<close> operations are list operations on the field.
  \<^item> \<open>now func() time.Time\<close> is a function from the number of readings already taken to the time read;
    \<open>rs_ticks\<close> counts the readings of a request. So two runs over the same stream read the same times,
    whatever the reads look like.
  \<^item> \<open>interChunk func(float64)\<close> is the list of the values it has been called with, \<open>None\<close> for a nil
    function.
  \<^item> An upstream \<open>Read\<close> returns bytes and possibly an error; \<open>read_error\<close> keeps of the error what the
    code distinguishes.
\<close>

section \<open>Frames\<close>

record call_function =
  fn_Name :: string
  fn_Arguments :: string

record tool_call =
  tc_Function :: call_function

record chunk_delta =
  dl_Content :: string
  dl_ReasoningContent :: string
  dl_ToolCalls :: "tool_call slice"

record chunk_choice =
  ch_Delta :: chunk_delta
  ch_Text :: string

record completionUsage =
  cu_CompletionTokens :: "i64 option"

record streamChunk =
  sc_Usage :: "completionUsage option"
  sc_Choices :: "chunk_choice slice"

definition zero_function :: call_function where
  "zero_function = \<lparr>fn_Name = '''', fn_Arguments = ''''\<rparr>"

definition zero_call :: tool_call where
  "zero_call = \<lparr>tc_Function = zero_function\<rparr>"

definition zero_delta :: chunk_delta where
  "zero_delta = \<lparr>dl_Content = '''', dl_ReasoningContent = '''', dl_ToolCalls = ([], [])\<rparr>"

definition zero_choice :: chunk_choice where
  "zero_choice = \<lparr>ch_Delta = zero_delta, ch_Text = ''''\<rparr>"

definition zero_usage :: completionUsage where
  "zero_usage = \<lparr>cu_CompletionTokens = None\<rparr>"

definition zero_chunk :: streamChunk where
  "zero_chunk = \<lparr>sc_Usage = None, sc_Choices = ([], [])\<rparr>"

text \<open>The decoders that the \<open>json\<close> tags of these types stand for.\<close>

definition dec_function :: "json \<Rightarrow> call_function \<Rightarrow> call_function option" where
  "dec_function = dec_struct (\<lambda>k v f.
     if key_is ''name'' k then map_option (\<lambda>x. f\<lparr>fn_Name := x\<rparr>) (dec_string v (fn_Name f))
     else if key_is ''arguments'' k then map_option (\<lambda>x. f\<lparr>fn_Arguments := x\<rparr>) (dec_string v (fn_Arguments f))
     else Some f)"

definition dec_call :: "json \<Rightarrow> tool_call \<Rightarrow> tool_call option" where
  "dec_call = dec_struct (\<lambda>k v c.
     if key_is ''function'' k then map_option (\<lambda>x. c\<lparr>tc_Function := x\<rparr>) (dec_function v (tc_Function c))
     else Some c)"

definition dec_delta :: "json \<Rightarrow> chunk_delta \<Rightarrow> chunk_delta option" where
  "dec_delta = dec_struct (\<lambda>k v d.
     if key_is ''content'' k then map_option (\<lambda>x. d\<lparr>dl_Content := x\<rparr>) (dec_string v (dl_Content d))
     else if key_is ''reasoning_content'' k
       then map_option (\<lambda>x. d\<lparr>dl_ReasoningContent := x\<rparr>) (dec_string v (dl_ReasoningContent d))
     else if key_is ''tool_calls'' k
       then map_option (\<lambda>x. d\<lparr>dl_ToolCalls := x\<rparr>) (dec_slice dec_call zero_call v (dl_ToolCalls d))
     else Some d)"

definition dec_choice :: "json \<Rightarrow> chunk_choice \<Rightarrow> chunk_choice option" where
  "dec_choice = dec_struct (\<lambda>k v c.
     if key_is ''delta'' k then map_option (\<lambda>x. c\<lparr>ch_Delta := x\<rparr>) (dec_delta v (ch_Delta c))
     else if key_is ''text'' k then map_option (\<lambda>x. c\<lparr>ch_Text := x\<rparr>) (dec_string v (ch_Text c))
     else Some c)"

definition dec_usage :: "json \<Rightarrow> completionUsage \<Rightarrow> completionUsage option" where
  "dec_usage = dec_struct (\<lambda>k v u.
     if key_is ''completion_tokens'' k
       then map_option (\<lambda>x. u\<lparr>cu_CompletionTokens := x\<rparr>) (dec_pointer dec_int64 0 v (cu_CompletionTokens u))
     else Some u)"

definition dec_chunk :: "json \<Rightarrow> streamChunk \<Rightarrow> streamChunk option" where
  "dec_chunk = dec_struct (\<lambda>k v c.
     if key_is ''usage'' k
       then map_option (\<lambda>x. c\<lparr>sc_Usage := x\<rparr>) (dec_pointer dec_usage zero_usage v (sc_Usage c))
     else if key_is ''choices'' k
       then map_option (\<lambda>x. c\<lparr>sc_Choices := x\<rparr>) (dec_slice dec_choice zero_choice v (sc_Choices c))
     else Some c)"

text \<open>The anonymous struct of \<open>usageObserver.Read\<close>.\<close>

definition dec_response :: "json \<Rightarrow> completionUsage option \<Rightarrow> completionUsage option option" where
  "dec_response = dec_struct (\<lambda>k v u.
     if key_is ''usage'' k then dec_pointer dec_usage zero_usage v u else Some u)"

definition hasToken :: "streamChunk \<Rightarrow> bool" where
  "hasToken c =
     (case fst (sc_Choices c) of
        [] \<Rightarrow> False
      | ch # _ \<Rightarrow>
          if list_ex (\<lambda>call. fn_Name (tc_Function call) \<noteq> '''' \<or> fn_Arguments (tc_Function call) \<noteq> '''')
               (fst (dl_ToolCalls (ch_Delta ch)))
          then True
          else dl_Content (ch_Delta ch) \<noteq> '''' \<or> dl_ReasoningContent (ch_Delta ch) \<noteq> '''' \<or> ch_Text ch \<noteq> '''')"

section \<open>The request state\<close>

datatype read_error = EOF | Canceled | ReadFailed

record requestState =
  rs_start :: go_time
  rs_operation :: string
  rs_streamed :: bool
  rs_sawFirstToken :: bool
  rs_ttft :: go_duration
  rs_tokens :: i64
  rs_sawDone :: bool
  rs_lastContent :: go_time
  rs_interChunk :: "f64 list option"
  rs_reportedTokens :: i64
  rs_hasUsage :: bool
  rs_duration :: go_duration
  rs_readErr :: "read_error option"
  rs_ticks :: nat

definition observeUsage :: "completionUsage option \<Rightarrow> requestState \<Rightarrow> requestState" where
  "observeUsage u s =
     (case u of
        None \<Rightarrow> s
      | Some v \<Rightarrow>
          (case cu_CompletionTokens v of
             None \<Rightarrow> s
           | Some n \<Rightarrow> if n \<ge> 0 then s\<lparr>rs_reportedTokens := n, rs_hasUsage := True\<rparr> else s))"

section \<open>The observer\<close>

definition sseDataPrefix :: string where
  "sseDataPrefix = ''data:''"

definition sseDone :: string where
  "sseDone = ''[DONE]''"

definition maxSSELine :: nat where
  "maxSSELine = 1048576"

definition newline :: char where
  "newline = char_of (10 :: nat)"

record streamObserver =
  so_state :: requestState
  so_buf :: string
  so_overlong :: bool
  so_data :: string
  so_dropEvent :: bool
  so_finished :: bool

definition newStreamObserver :: "requestState \<Rightarrow> streamObserver" where
  "newStreamObserver st = \<lparr>so_state = st, so_buf = [], so_overlong = False, so_data = [],
     so_dropEvent = False, so_finished = False\<rparr>"

text \<open>\<open>bytes.TrimSpace\<close>: the runes that Unicode calls white space, by their encodings.\<close>

definition space_rune :: "string \<Rightarrow> bool" where
  "space_rune r =
     (case map byte r of
        [a] \<Rightarrow> a \<in> {9, 10, 11, 12, 13, 32}
      | [a, b] \<Rightarrow> a = 194 \<and> b \<in> {133, 160}
      | [a, b, c] \<Rightarrow>
          a = 225 \<and> b = 154 \<and> c = 128 \<or>
          a = 226 \<and> b = 128 \<and> (128 \<le> c \<and> c \<le> 138 \<or> c \<in> {168, 169, 175}) \<or>
          a = 226 \<and> b = 129 \<and> c = 159 \<or>
          a = 227 \<and> b = 128 \<and> c = 128
      | _ \<Rightarrow> False)"

definition leading_space :: "string \<Rightarrow> nat" where
  "leading_space s =
     (if space_rune (take 1 s) then 1 else if space_rune (take 2 s) then 2
      else if space_rune (take 3 s) then 3 else 0)"

definition trailing_space :: "string \<Rightarrow> nat" where
  "trailing_space s =
     (if space_rune (drop (length s - 1) s) then 1 else if space_rune (drop (length s - 2) s) then 2
      else if space_rune (drop (length s - 3) s) then 3 else 0)"

function TrimLeft_space :: "string \<Rightarrow> string" where
  "TrimLeft_space s = (if s \<noteq> [] \<and> leading_space s > 0 then TrimLeft_space (drop (leading_space s) s) else s)"
  by auto
termination
  by (relation "measure length") simp_all

function TrimRight_space :: "string \<Rightarrow> string" where
  "TrimRight_space s =
     (if s \<noteq> [] \<and> trailing_space s > 0 then TrimRight_space (take (length s - trailing_space s) s) else s)"
  by auto
termination
  by (relation "measure length") auto

declare TrimLeft_space.simps [simp del] TrimRight_space.simps [simp del]

definition bytes_TrimSpace :: "string \<Rightarrow> string" where
  "bytes_TrimSpace s = TrimRight_space (TrimLeft_space s)"

definition TrimSuffix_CR :: "string \<Rightarrow> string" where
  "TrimSuffix_CR s = (if s \<noteq> [] \<and> byte (last s) = 13 then butlast s else s)"

definition TrimPrefix_space :: "string \<Rightarrow> string" where
  "TrimPrefix_space s = (if s \<noteq> [] \<and> byte (hd s) = 32 then tl s else s)"

text \<open>A frame that carries a token: one clock reading, the first of them sets the time to first token,
  each later one reports its gap to the one before.\<close>

definition fmax0 :: "f64 \<Rightarrow> f64" where
  "fmax0 x = (if IsNaN x then NaN else if flt x (Fin 0) then Fin 0 else x)"

definition observeToken :: "(nat \<Rightarrow> go_time) \<Rightarrow> requestState \<Rightarrow> requestState" where
  "observeToken now s =
     (let t = now (rs_ticks s);
          s = s\<lparr>rs_ticks := Suc (rs_ticks s)\<rparr>;
          s = (if \<not> rs_sawFirstToken s then s\<lparr>rs_sawFirstToken := True, rs_ttft := Sub t (rs_start s)\<rparr>
               else (case rs_interChunk s of
                       Some obs \<Rightarrow>
                         s\<lparr>rs_interChunk := Some (obs @ [fmax0 (Duration_Seconds (Sub t (rs_lastContent s)))])\<rparr>
                     | None \<Rightarrow> s))
      in s\<lparr>rs_lastContent := t, rs_tokens := wrap64 (rs_tokens s + 1)\<rparr>)"

definition observeEvent :: "(nat \<Rightarrow> go_time) \<Rightarrow> string \<Rightarrow> requestState \<Rightarrow> requestState" where
  "observeEvent now payload s =
     (let payload = bytes_TrimSpace payload
      in if payload = [] then s
         else if payload = sseDone then s\<lparr>rs_sawDone := True\<rparr>
         else (case Unmarshal dec_chunk zero_chunk payload of
                 None \<Rightarrow> s
               | Some chunk \<Rightarrow>
                   (let s = observeUsage (sc_Usage chunk) s
                    in if \<not> hasToken chunk then s else observeToken now s)))"

definition handleEvent :: "(nat \<Rightarrow> go_time) \<Rightarrow> string \<Rightarrow> streamObserver \<Rightarrow> streamObserver" where
  "handleEvent now payload o1 = o1\<lparr>so_state := observeEvent now payload (so_state o1)\<rparr>"

definition handleLine :: "(nat \<Rightarrow> go_time) \<Rightarrow> string \<Rightarrow> streamObserver \<Rightarrow> streamObserver" where
  "handleLine now line0 o1 =
     (let line1 = TrimSuffix_CR line0
      in if line1 = [] then
           (let o1 = (if \<not> so_dropEvent o1 then handleEvent now (so_data o1) o1 else o1)
            in o1\<lparr>so_data := [], so_dropEvent := False\<rparr>)
         else if \<not> json_prefix sseDataPrefix line1 then o1
         else (let payload = TrimPrefix_space (drop (length sseDataPrefix) line1)
               in if so_dropEvent o1 then o1
                  else if length (so_data o1) + length payload + 1 > maxSSELine
                    then o1\<lparr>so_dropEvent := True, so_data := []\<rparr>
                  else o1\<lparr>so_data := (if so_data o1 \<noteq> [] then so_data o1 @ [newline] else so_data o1) @ payload\<rparr>))"

definition appendPartial :: "string \<Rightarrow> streamObserver \<Rightarrow> streamObserver" where
  "appendPartial chunk o1 =
     (if so_overlong o1 then o1
      else if length (so_buf o1) + length chunk > maxSSELine then o1\<lparr>so_overlong := True, so_buf := []\<rparr>
      else o1\<lparr>so_buf := so_buf o1 @ chunk\<rparr>)"

text \<open>The body of the loop of \<open>scan\<close> for a line that ends in this chunk.\<close>

definition scan_line :: "(nat \<Rightarrow> go_time) \<Rightarrow> string \<Rightarrow> streamObserver \<Rightarrow> streamObserver" where
  "scan_line now line o1 =
     (if so_overlong o1 then o1\<lparr>so_overlong := False, so_buf := [], so_dropEvent := True\<rparr>
      else if length (so_buf o1) + length line > maxSSELine then o1\<lparr>so_buf := [], so_dropEvent := True\<rparr>
      else if so_buf o1 \<noteq> [] then
        (let o1 = o1\<lparr>so_buf := so_buf o1 @ line\<rparr>
         in (handleLine now (so_buf o1) o1)\<lparr>so_buf := []\<rparr>)
      else handleLine now line o1)"

function scan :: "(nat \<Rightarrow> go_time) \<Rightarrow> string \<Rightarrow> streamObserver \<Rightarrow> streamObserver" where
  "scan now chunk o1 =
     (if chunk = [] then o1
      else (case dropWhile (\<lambda>c. c \<noteq> newline) chunk of
              [] \<Rightarrow> appendPartial chunk o1
            | _ # rest \<Rightarrow> scan now rest (scan_line now (takeWhile (\<lambda>c. c \<noteq> newline) chunk) o1)))"
  by auto
termination
proof (relation "measure (\<lambda>(now, chunk, o1). length chunk)")
  fix now chunk o1 c rest
  assume "dropWhile (\<lambda>c. c \<noteq> newline) chunk = (c :: char) # rest"
  then have "length (c # rest) \<le> length chunk"
    by (metis length_dropWhile_le)
  then show "((now, rest, scan_line now (takeWhile (\<lambda>c. c \<noteq> newline) chunk) o1), (now, chunk, o1))
      \<in> measure (\<lambda>(now :: nat \<Rightarrow> go_time, chunk, o1). length chunk)"
    by simp
qed simp

declare scan.simps [simp del]

text \<open>\<open>Read\<close>: the result of the upstream's \<open>Read\<close> goes back to the caller as it is.\<close>

type_synonym read_result = "string \<times> read_error option"

definition finish :: "(nat \<Rightarrow> go_time) \<Rightarrow> streamObserver \<Rightarrow> streamObserver" where
  "finish now o1 =
     (let o1 = o1\<lparr>so_finished := True\<rparr>;
          o1 = (if so_overlong o1 then o1\<lparr>so_dropEvent := True\<rparr> else o1);
          o1 = (if \<not> so_overlong o1 \<and> so_buf o1 \<noteq> [] then handleLine now (so_buf o1) o1 else o1);
          o1 = o1\<lparr>so_buf := []\<rparr>;
          o1 = (if \<not> so_dropEvent o1 \<and> so_data o1 \<noteq> [] then handleEvent now (so_data o1) o1 else o1)
      in o1\<lparr>so_data := [], so_dropEvent := False\<rparr>)"

definition Read_stream ::
  "(nat \<Rightarrow> go_time) \<Rightarrow> read_result \<Rightarrow> streamObserver \<Rightarrow> read_result \<times> streamObserver" where
  "Read_stream now res o1 =
     (let (p, err) = res;
          o1 = (if p \<noteq> [] then scan now p o1 else o1);
          o1 = (if err = Some EOF \<and> \<not> so_finished o1 then finish now o1 else o1);
          o1 = (if err \<noteq> None \<and> err \<noteq> Some EOF
                then o1\<lparr>so_state := (so_state o1)\<lparr>rs_readErr := err\<rparr>\<rparr> else o1)
      in (res, o1))"

section \<open>The usage observer\<close>

record usageObserver =
  uo_state :: requestState
  uo_buf :: string
  uo_overlong :: bool

definition newUsageObserver :: "requestState \<Rightarrow> usageObserver" where
  "newUsageObserver st = \<lparr>uo_state = st, uo_buf = [], uo_overlong = False\<rparr>"

definition Read_usage :: "read_result \<Rightarrow> usageObserver \<Rightarrow> read_result \<times> usageObserver" where
  "Read_usage res o1 =
     (let (p, err) = res;
          o1 = (if \<not> uo_overlong o1 then
                  if length (uo_buf o1) + length p > maxSSELine then o1\<lparr>uo_overlong := True, uo_buf := []\<rparr>
                  else o1\<lparr>uo_buf := uo_buf o1 @ p\<rparr>
                else o1);
          o1 = (if err = Some EOF \<and> \<not> uo_overlong o1 then
                  (case Unmarshal dec_response None (uo_buf o1) of
                     Some u \<Rightarrow> o1\<lparr>uo_state := observeUsage u (uo_state o1)\<rparr>
                   | None \<Rightarrow> o1)
                else if err \<noteq> None \<and> err \<noteq> Some EOF
                  then o1\<lparr>uo_state := (uo_state o1)\<lparr>rs_readErr := err\<rparr>\<rparr>
                else o1)
      in (res, o1))"

end
