(* ===== verification/Shim_Config.thy ===== *)
theory Shim_Config
  imports Children Shim_Stream
begin

text \<open>
  The sidecar's command line (\<open>src/cmd/shim/config.go\<close>): the flags, their defaults and the checks that
  refuse a configuration whose metrics could not be told apart, on top of Go's \<open>flag\<close> package and
  \<open>strconv.ParseInt\<close> with base 0. \<open>net/url\<close>'s parser and \<open>time.ParseDuration\<close> are arguments. The
  operator renders these flags (\<open>shimArgs\<close> in \<open>internal/controller/shim.go\<close>); the theorem of this
  theory says that what it renders is what the sidecar reads.
\<close>

section \<open>Numbers on the command line\<close>

definition lower_byte :: "char \<Rightarrow> nat" where
  "lower_byte c = (let n = byte c in if 65 \<le> n \<and> n \<le> 90 then n + 32 else n)"

text \<open>\<open>underscoreOK\<close>: underscores only between digits, or between a base prefix and a digit. The state is
  the kind of the character before: 0 for none, 1 for a digit or prefix, 2 for an underscore, 3 for
  another.\<close>

fun underscore_scan :: "bool \<Rightarrow> nat \<Rightarrow> string \<Rightarrow> bool" where
  "underscore_scan hex saw [] = (saw \<noteq> 2)"
| "underscore_scan hex saw (c # cs) =
     (if is_digit c \<or> hex \<and> 97 \<le> lower_byte c \<and> lower_byte c \<le> 102 then underscore_scan hex 1 cs
      else if byte c = 95 then (if saw \<noteq> 1 then False else underscore_scan hex 2 cs)
      else if saw = 2 then False
      else underscore_scan hex 3 cs)"

definition drop_sign :: "string \<Rightarrow> string" where
  "drop_sign s = (if s \<noteq> [] \<and> (byte (hd s) = 45 \<or> byte (hd s) = 43) then tl s else s)"

definition underscoreOK :: "string \<Rightarrow> bool" where
  "underscoreOK s0 =
     (let s = drop_sign s0
      in if length s \<ge> 2 \<and> byte (hd s) = 48 \<and> lower_byte (s ! 1) \<in> {98, 111, 120}
         then underscore_scan (lower_byte (s ! 1) = 120) 1 (drop 2 s)
         else underscore_scan False 0 s)"

definition base_prefix :: "string \<Rightarrow> nat \<times> string" where
  "base_prefix s =
     (if s = [] \<or> byte (hd s) \<noteq> 48 then (10, s)
      else if length s \<ge> 3 \<and> lower_byte (s ! 1) = 98 then (2, drop 2 s)
      else if length s \<ge> 3 \<and> lower_byte (s ! 1) = 111 then (8, drop 2 s)
      else if length s \<ge> 3 \<and> lower_byte (s ! 1) = 120 then (16, drop 2 s)
      else (8, tl s))"

fun read_base :: "nat \<Rightarrow> int \<Rightarrow> string \<Rightarrow> int option" where
  "read_base base acc [] = Some acc"
| "read_base base acc (c # cs) =
     (if byte c = 95 then read_base base acc cs
      else (let d = (if is_digit c then byte c - 48
                     else if 97 \<le> lower_byte c \<and> lower_byte c \<le> 122 then lower_byte c - 87 else 99)
            in if d \<ge> base then None else read_base base (acc * int base + int d) cs))"

definition ParseInt0 :: "string \<Rightarrow> i64 option" where
  "ParseInt0 s =
     (let body = drop_sign s; (base, ds) = base_prefix body
      in if body = [] then None
         else (case read_base base 0 ds of
                 None \<Rightarrow> None
               | Some v \<Rightarrow>
                   (let v = (if byte (hd s) = 45 then - v else v)
                    in if CHR ''_'' \<in> set ds \<and> \<not> underscoreOK body then None
                       else if is_i64 v then Some v else None)))"

section \<open>Flags\<close>

record shim_flags =
  fl_listen :: string
  fl_metricsListen :: string
  fl_upstream :: string
  fl_healthPath :: string
  fl_model :: string
  fl_namespace :: string
  fl_modelDeployment :: string
  fl_variant :: string
  fl_maxConcurrency :: i64
  fl_logLevel :: string
  fl_grace :: go_duration

definition defaultShutdownGrace :: go_duration where "defaultShutdownGrace = 20 * go_Second"
definition defaultUpstreamTimeout :: go_duration where "defaultUpstreamTimeout = 3 * go_Second"

definition default_flags :: shim_flags where
  "default_flags = \<lparr>fl_listen = '':'' @ fmt_d ShimPort, fl_metricsListen = '':'' @ fmt_d ShimMetricsPort,
     fl_upstream = ''http://127.0.0.1:'' @ fmt_d EnginePort, fl_healthPath = ''/health'', fl_model = '''',
     fl_namespace = '''', fl_modelDeployment = '''', fl_variant = ''primary'', fl_maxConcurrency = 1,
     fl_logLevel = ''info'', fl_grace = defaultShutdownGrace\<rparr>"

datatype config_error = ErrHelp | ConfigError string

definition flag_names :: "string list" where
  "flag_names = [''listen'', ''metrics-listen'', ''upstream'', ''health-path'', ''model'', ''namespace'',
     ''model-deployment'', ''variant'', ''max-concurrency'', ''log-level'', ''shutdown-grace'']"

definition set_flag :: "(string \<Rightarrow> go_duration option) \<Rightarrow> string \<Rightarrow> string \<Rightarrow> shim_flags \<Rightarrow> shim_flags option" where
  "set_flag parseDuration name v f =
     (if name = ''listen'' then Some (f\<lparr>fl_listen := v\<rparr>)
      else if name = ''metrics-listen'' then Some (f\<lparr>fl_metricsListen := v\<rparr>)
      else if name = ''upstream'' then Some (f\<lparr>fl_upstream := v\<rparr>)
      else if name = ''health-path'' then Some (f\<lparr>fl_healthPath := v\<rparr>)
      else if name = ''model'' then Some (f\<lparr>fl_model := v\<rparr>)
      else if name = ''namespace'' then Some (f\<lparr>fl_namespace := v\<rparr>)
      else if name = ''model-deployment'' then Some (f\<lparr>fl_modelDeployment := v\<rparr>)
      else if name = ''variant'' then Some (f\<lparr>fl_variant := v\<rparr>)
      else if name = ''max-concurrency'' then map_option (\<lambda>n. f\<lparr>fl_maxConcurrency := n\<rparr>) (ParseInt0 v)
      else if name = ''log-level'' then Some (f\<lparr>fl_logLevel := v\<rparr>)
      else map_option (\<lambda>d. f\<lparr>fl_grace := d\<rparr>) (parseDuration v))"

text \<open>\<open>FlagSet.parseOne\<close>'s reading of one argument: the end of the flags, a syntax error, or a name with
  the value after the first equals sign that is not the name's first character.\<close>

datatype flag_token = EndOfFlags | BadFlag | Flag string "string option"

definition flag_token :: "string \<Rightarrow> flag_token" where
  "flag_token s =
     (if length s < 2 \<or> byte (hd s) \<noteq> 45 \<or> s = ''--'' then EndOfFlags
      else (let name = (if byte (s ! 1) = 45 then drop 2 s else drop 1 s)
            in if name = [] \<or> byte (hd name) = 45 \<or> byte (hd name) = 61 then BadFlag
               else (let rest = dropWhile (\<lambda>c. c \<noteq> CHR ''='') (tl name)
                     in Flag (hd name # takeWhile (\<lambda>c. c \<noteq> CHR ''='') (tl name))
                          (if rest = [] then None else Some (tl rest)))))"

fun parse_flags :: "(string \<Rightarrow> go_duration option) \<Rightarrow> string list \<Rightarrow> shim_flags \<Rightarrow> config_error + shim_flags" where
  "parse_flags pd [] f = Inr f"
| "parse_flags pd (s # args) f =
     (case flag_token s of
        EndOfFlags \<Rightarrow> Inr f
      | BadFlag \<Rightarrow> Inl (ConfigError (''bad flag syntax: '' @ s))
      | Flag name v \<Rightarrow>
          if name \<notin> set flag_names then
            (if name = ''help'' \<or> name = ''h'' then Inl ErrHelp
             else Inl (ConfigError (''flag provided but not defined: -'' @ name)))
          else (case v of
                  Some x \<Rightarrow>
                    (case set_flag pd name x f of
                       Some g \<Rightarrow> parse_flags pd args g
                     | None \<Rightarrow> Inl (ConfigError (''invalid value '' @ go_Quote x @ '' for flag -'' @ name)))
                | None \<Rightarrow>
                    (case args of
                       [] \<Rightarrow> Inl (ConfigError (''flag needs an argument: -'' @ name))
                     | x # rest \<Rightarrow>
                         (case set_flag pd name x f of
                            Some g \<Rightarrow> parse_flags pd rest g
                          | None \<Rightarrow> Inl (ConfigError (''invalid value '' @ go_Quote x @ '' for flag -'' @ name))))))"

section \<open>The configuration\<close>

record url =
  ur_Scheme :: string
  ur_Host :: string
  ur_Text :: string

record config =
  cf_listen :: string
  cf_metricsListen :: string
  cf_upstream :: url
  cf_healthPath :: string
  cf_namespace :: string
  cf_modelDeployment :: string
  cf_model :: string
  cf_variant :: string
  cf_maxConcurrency :: i64
  cf_logLevel :: string
  cf_shutdownGrace :: go_duration

definition parseConfig ::
  "(string \<Rightarrow> string + url) \<Rightarrow> (string \<Rightarrow> go_duration option) \<Rightarrow> string list \<Rightarrow> config_error + config" where
  "parseConfig parseURL parseDuration args =
     (case parse_flags parseDuration args default_flags of
        Inl e \<Rightarrow> Inl e
      | Inr f \<Rightarrow>
          (case parseURL (fl_upstream f) of
             Inl e \<Rightarrow> Inl (ConfigError (''parsing -upstream: '' @ e))
           | Inr u \<Rightarrow>
               if ur_Scheme u = '''' \<or> ur_Host u = '''' then
                 Inl (ConfigError (''-upstream must be an absolute URL with a scheme and host, got '' @ go_Quote (fl_upstream f)))
               else if fl_model f = '''' then
                 Inl (ConfigError ''-model is required: it is the `model` label on every emitted metric'')
               else if bytes_TrimSpace (fl_namespace f) = '''' then
                 Inl (ConfigError ''-namespace is required: metrics must identify the owning resource namespace'')
               else if bytes_TrimSpace (fl_modelDeployment f) = '''' then
                 Inl (ConfigError ''-model-deployment is required: metrics must identify the owning resource name'')
               else if fl_healthPath f = [] \<or> hd (fl_healthPath f) \<noteq> CHR ''/'' then
                 Inl (ConfigError (''-health-path must start with '' @ go_Quote ''/'' @ '', got '' @ go_Quote (fl_healthPath f)))
               else if fl_maxConcurrency f < 1 then
                 Inl (ConfigError (''-max-concurrency must be at least 1, got '' @ fmt_d (fl_maxConcurrency f)))
               else Inr \<lparr>cf_listen = fl_listen f, cf_metricsListen = fl_metricsListen f, cf_upstream = u,
                      cf_healthPath = fl_healthPath f, cf_namespace = fl_namespace f,
                      cf_modelDeployment = fl_modelDeployment f, cf_model = fl_model f, cf_variant = fl_variant f,
                      cf_maxConcurrency = fl_maxConcurrency f, cf_logLevel = fl_logLevel f,
                      cf_shutdownGrace = fl_grace f\<rparr>))"

section \<open>What the operator writes, the sidecar reads\<close>

lemma flag_token_value:
  assumes "name \<noteq> []" "hd name \<noteq> CHR ''-''" "CHR ''='' \<notin> set name"
  shows "flag_token (''--'' @ name @ ''='' @ v) = Flag name (Some v)"
proof -
  obtain c cs where name: "name = c # cs"
    using assms(1) by (cases name) auto
  have "c = CHR ''-''" if "byte c = 45"
    using that char_of_char [of c, where 'a = nat] by (auto simp: char_of_def bit_0)
  moreover have "c = CHR ''=''" if "byte c = 61"
    using that char_of_char [of c, where 'a = nat] by (auto simp: char_of_def bit_0)
  ultimately have c: "byte c \<noteq> 45" "byte c \<noteq> 61" "CHR ''='' \<notin> set cs"
    using assms(2,3) by (auto simp: name)
  show ?thesis
    using c by (simp add: flag_token_def name Let_def takeWhile_append dropWhile_append)
qed

lemma parse_flags_value:
  assumes "name \<in> set flag_names"
  shows "parse_flags pd ((''--'' @ name @ ''='' @ v) # args) f =
    (case set_flag pd name v f of
       Some g \<Rightarrow> parse_flags pd args g
     | None \<Rightarrow> Inl (ConfigError (''invalid value '' @ go_Quote v @ '' for flag -'' @ name)))"
proof -
  have "flag_token (''--'' @ name @ ''='' @ v) = Flag name (Some v)"
    by (rule flag_token_value) (use assms in \<open>auto simp: flag_names_def\<close>)
  then show ?thesis
    using assms by (simp split: option.splits)
qed

lemma itoa_digit: "c \<in> set (itoa_loop n []) \<Longrightarrow> is_digit c"
  using itoa_loop_digits [of c n] by (auto simp: is_digit_def digit_char_def)

lemma read_base_digits:
  "\<forall>c\<in>set ds. is_digit c \<Longrightarrow> read_base 10 acc ds = Some (read_digits acc ds)"
proof (induction ds arbitrary: acc)
  case (Cons c cs)
  then have "byte c \<noteq> 95" "byte c - 48 < 10" "int (byte c - 48) = digit_val c"
    by (auto simp: is_digit_def digit_val_def)
  then show ?case
    using Cons by (simp add: Let_def mult.commute)
qed simp

lemma itoa_loop_hd: "0 < n \<Longrightarrow> itoa_loop n [] \<noteq> [] \<and> byte (hd (itoa_loop n [])) \<noteq> 48"
proof (induction "nat n" arbitrary: n rule: less_induct)
  case less
  show ?case
  proof (cases "n < 10")
    case True
    then have "itoa_loop n [] = [digit_char n]"
      using less.prems by (simp add: itoa_loop_pos itoa_loop_nonpos)
    moreover have "digit_val (digit_char n) = n"
      using True less.prems by simp
    ultimately show ?thesis
      using less.prems by (auto simp: digit_val_def)
  next
    case False
    then have "itoa_loop (n div 10) [] \<noteq> [] \<and> byte (hd (itoa_loop (n div 10) [])) \<noteq> 48"
      using less.prems by (intro less.hyps) simp_all
    then show ?thesis
      using less.prems by (simp add: itoa_loop_pos [of n])
  qed
qed

lemma ParseInt0_decimal:
  assumes "1 \<le> n" "is_i64 n"
  shows "ParseInt0 (fmt_d n) = Some n"
proof -
  let ?s = "itoa_loop n []"
  have s: "fmt_d n = ?s"
    using assms(1) by (simp add: fmt_d_def fmtInt_def)
  have digits: "\<forall>c\<in>set ?s. is_digit c" and hd: "?s \<noteq> []" "byte (hd ?s) \<noteq> 48"
    using itoa_digit itoa_loop_hd [of n] assms(1) by auto
  then have "is_digit (hd ?s)"
    by simp
  then have "drop_sign ?s = ?s" "byte (hd ?s) \<noteq> 45"
    by (auto simp: drop_sign_def is_digit_def)
  moreover have "base_prefix ?s = (10, ?s)"
    using hd by (simp add: base_prefix_def)
  moreover have "CHR ''_'' \<notin> set ?s"
    using digits by (auto simp: is_digit_def)
  ultimately show ?thesis
    using assms hd read_base_digits [OF digits] read_digits_itoa_loop [of n]
    by (simp add: ParseInt0_def s Let_def)
qed

text \<open>C28. The command line the operator gives the sidecar is accepted by it, and the sidecar's metrics carry
  the identity the operator meant: its namespace, the ModelDeployment, the model, the variant, and the
  engine's concurrency. (The URL parser is assumed to find the scheme and host of the loopback address.)\<close>

theorem operator_flags_accepted:
  assumes "parseURL ''http://127.0.0.1:8000'' = Inr u" "ur_Scheme u \<noteq> ''''" "ur_Host u \<noteq> ''''"
    and "md_ModelName md \<noteq> ''''" "bytes_TrimSpace (md_Namespace md) \<noteq> ''''" "bytes_TrimSpace (md_Name md) \<noteq> ''''"
    and "\<forall>n. en_MaxConcurrency (sp_Engine (md_Spec md)) = Some n \<longrightarrow> is_i32 n"
  shows "\<exists>cfg. parseConfig parseURL pd (shimArgs md variant (CHR ''/'' # hp) logLevel) = Inr cfg \<and>
      cf_namespace cfg = md_Namespace md \<and> cf_modelDeployment cfg = md_Name md \<and> cf_model cfg = md_ModelName md \<and>
      cf_variant cfg = variant_string variant \<and> cf_maxConcurrency cfg = maxConcurrencyFor md \<and>
      cf_healthPath cfg = CHR ''/'' # hp \<and> cf_logLevel cfg = logLevel \<and>
      cf_listen cfg = '':8080'' \<and> cf_metricsListen cfg = '':9090'' \<and> cf_upstream cfg = u"
proof -
  have n: "1 \<le> maxConcurrencyFor md" "is_i64 (maxConcurrencyFor md)"
    using assms(7) by (auto simp: maxConcurrencyFor_def is_i32_def is_i64_def split: option.splits)
  have ports: "fmt_d ShimPort = ''8080''" "fmt_d ShimMetricsPort = ''9090''" "fmt_d EnginePort = ''8000''"
    by (simp_all add: fmt_d_def fmtInt_def itoa_loop.simps digit_char_def char_of_def bit_0 ShimPort_def ShimMetricsPort_def EnginePort_def)
  have args: "shimArgs md variant (CHR ''/'' # hp) logLevel =
     [''--'' @ ''listen'' @ ''='' @ '':8080'', ''--'' @ ''metrics-listen'' @ ''='' @ '':9090'',
      ''--'' @ ''upstream'' @ ''='' @ ''http://127.0.0.1:8000'', ''--'' @ ''health-path'' @ ''='' @ CHR ''/'' # hp,
      ''--'' @ ''model'' @ ''='' @ md_ModelName md, ''--'' @ ''namespace'' @ ''='' @ md_Namespace md,
      ''--'' @ ''model-deployment'' @ ''='' @ md_Name md, ''--'' @ ''variant'' @ ''='' @ variant_string variant,
      ''--'' @ ''max-concurrency'' @ ''='' @ fmt_d (maxConcurrencyFor md), ''--'' @ ''log-level'' @ ''='' @ logLevel]"
    by (simp add: shimArgs_def ports)
  have "\<exists>f. parse_flags pd (shimArgs md variant (CHR ''/'' # hp) logLevel) default_flags = Inr f \<and>
      f = \<lparr>fl_listen = '':8080'', fl_metricsListen = '':9090'', fl_upstream = ''http://127.0.0.1:8000'',
        fl_healthPath = CHR ''/'' # hp, fl_model = md_ModelName md, fl_namespace = md_Namespace md,
        fl_modelDeployment = md_Name md, fl_variant = variant_string variant,
        fl_maxConcurrency = maxConcurrencyFor md, fl_logLevel = logLevel, fl_grace = defaultShutdownGrace\<rparr>"
    unfolding args
    by (simp only: parse_flags_value flag_names_def list.set insert_iff simp_thms set_flag_def)
      (simp add: ParseInt0_decimal [OF n] default_flags_def)
  then show ?thesis
    using assms n by (auto simp: parseConfig_def)
qed

lemma sample_names_not_blank: "bytes_TrimSpace ''prod'' \<noteq> ''''" "bytes_TrimSpace ''chat'' \<noteq> ''''"
  by code_simp+

theorem operator_flags_accepted_witness:
  "\<exists>cfg. parseConfig (\<lambda>s. Inr \<lparr>ur_Scheme = ''http'', ur_Host = ''127.0.0.1:8000'', ur_Text = s\<rparr>) (\<lambda>_. None)
       (shimArgs (sample_workload_md (sample_workload [] 2000)) VariantCanary ''/health'' ''info'') = Inr cfg \<and>
     cf_namespace cfg = ''prod'' \<and> cf_variant cfg = ''canary'' \<and> cf_maxConcurrency cfg = 8"
proof -
  let ?md = "sample_workload_md (sample_workload [] 2000)"
  have md: "md_ModelName ?md = ''qwen''" "md_Namespace ?md = ''prod''" "md_Name ?md = ''chat''"
    "en_MaxConcurrency (sp_Engine (md_Spec ?md)) = Some 8" "maxConcurrencyFor ?md = 8"
    by (simp_all add: sample_workload_md_def sample_workload_def maxConcurrencyFor_def)
  show ?thesis
    using operator_flags_accepted [of "\<lambda>s. Inr \<lparr>ur_Scheme = ''http'', ur_Host = ''127.0.0.1:8000'', ur_Text = s\<rparr>"
        "\<lparr>ur_Scheme = ''http'', ur_Host = ''127.0.0.1:8000'', ur_Text = ''http://127.0.0.1:8000''\<rparr>" ?md
        "\<lambda>_. None" VariantCanary "''health''" "''info''"] sample_names_not_blank
    by (auto simp: md is_i32_def)
qed

end
