(* ===== verification/Shim_Stream_Props.thy ===== *)
theory Shim_Stream_Props
  imports Shim_Stream
begin

text \<open>
  What the stream observer promises. The specification reads the whole byte stream at once: split it
  into lines, the lines into blocks at the blank ones, join the data lines of a block, and observe one
  event per block. The observer, which sees reads of arbitrary size and may buffer at most one mebibyte,
  implements it for every way the network cuts the stream.
\<close>

section \<open>Observers that are fed in pieces\<close>

text \<open>What a client may rely on of an observer that is fed the bytes of a stream: a state that holds
  \<open>good\<close> keeps it, and feeding two pieces is feeding their concatenation.\<close>

locale piecewise =
  fixes feed :: "string \<Rightarrow> 'o \<Rightarrow> 'o"
    and good :: "'o \<Rightarrow> bool"
  assumes feed_nil: "good x \<Longrightarrow> feed [] x = x"
    and feed_append: "good x \<Longrightarrow> feed (a @ b) x = feed b (feed a x)"
    and feed_good: "good x \<Longrightarrow> good (feed a x)"
begin

lemma feed_concat: "good x \<Longrightarrow> foldl (\<lambda>x p. feed p x) x ps = feed (concat ps) x"
  by (induction ps arbitrary: x) (simp_all add: feed_nil feed_append feed_good)

lemma feeds_good: "good x \<Longrightarrow> good (foldl (\<lambda>x p. feed p x) x ps)"
  by (simp add: feed_concat feed_good)

lemma same_bytes_same_state:
  "good x \<Longrightarrow> concat ps = concat qs \<Longrightarrow> foldl (\<lambda>x p. feed p x) x ps = foldl (\<lambda>x p. feed p x) x qs"
  by (simp add: feed_concat)

end

section \<open>Buffers stay within the cap\<close>

definition observer_wf :: "streamObserver \<Rightarrow> bool" where
  "observer_wf o1 \<longleftrightarrow> length (so_buf o1) \<le> maxSSELine \<and> length (so_data o1) \<le> maxSSELine \<and>
     (so_overlong o1 \<longrightarrow> so_buf o1 = [])"

lemma handleEvent_simps [simp]:
  "so_buf (handleEvent now p o1) = so_buf o1"
  "so_data (handleEvent now p o1) = so_data o1"
  "so_overlong (handleEvent now p o1) = so_overlong o1"
  "so_dropEvent (handleEvent now p o1) = so_dropEvent o1"
  "so_state (handleEvent now p o1) = observeEvent now p (so_state o1)"
  by (simp_all add: handleEvent_def)

lemma handleLine_simps [simp]:
  "so_buf (handleLine now l o1) = so_buf o1"
  "so_overlong (handleLine now l o1) = so_overlong o1"
  "handleLine now l (o1\<lparr>so_buf := b\<rparr>) = (handleLine now l o1)\<lparr>so_buf := b\<rparr>"
  by (simp_all add: handleLine_def handleEvent_def Let_def)

lemma handleLine_data: "length (so_data o1) \<le> maxSSELine \<Longrightarrow> length (so_data (handleLine now l o1)) \<le> maxSSELine"
  by (simp add: handleLine_def Let_def)

lemma scan_line_wf: "observer_wf o1 \<Longrightarrow> observer_wf (scan_line now l o1)"
  by (auto simp: observer_wf_def scan_line_def Let_def handleLine_data)

lemma appendPartial_wf: "observer_wf o1 \<Longrightarrow> observer_wf (appendPartial c o1)"
  by (auto simp: observer_wf_def appendPartial_def)

lemma scan_wf: "observer_wf o1 \<Longrightarrow> observer_wf (scan now chunk o1)"
  by (induction now chunk o1 rule: scan.induct)
    (subst scan.simps, auto simp: appendPartial_wf scan_line_wf split: list.splits)

lemma finish_wf: "observer_wf o1 \<Longrightarrow> observer_wf (finish now o1)"
  by (simp add: finish_def Let_def observer_wf_def)

lemma Read_stream_wf: "observer_wf o1 \<Longrightarrow> observer_wf (snd (Read_stream now res o1))"
proof -
  have "observer_wf o2 \<Longrightarrow> observer_wf (o2\<lparr>so_state := s\<rparr>)" for o2 s
    by (simp add: observer_wf_def)
  then show "observer_wf o1 \<Longrightarrow> ?thesis"
    by (simp add: Read_stream_def Let_def split_beta scan_wf finish_wf)
qed

definition read_all :: "(nat \<Rightarrow> go_time) \<Rightarrow> read_result list \<Rightarrow> streamObserver \<Rightarrow> streamObserver" where
  "read_all now rs o1 = foldl (\<lambda>x r. snd (Read_stream now r x)) o1 rs"

lemma read_all_wf: "observer_wf o1 \<Longrightarrow> observer_wf (read_all now rs o1)"
  unfolding read_all_def by (induction rs arbitrary: o1) (simp_all add: Read_stream_wf)

lemma newStreamObserver_wf [simp]: "observer_wf (newStreamObserver st)"
  by (simp add: observer_wf_def newStreamObserver_def)

section \<open>The size of the reads does not matter\<close>

lemma scan_nil [simp]: "scan now [] o1 = o1"
  by (simp add: scan.simps)

lemma scan_newline: "newline \<notin> set l \<Longrightarrow> scan now (l @ newline # rest) o1 = scan now rest (scan_line now l o1)"
  by (subst scan.simps) (simp add: takeWhile_append dropWhile_append)

lemma scan_partial: "newline \<notin> set p \<Longrightarrow> p \<noteq> [] \<Longrightarrow> scan now p o1 = appendPartial p o1"
  by (subst scan.simps) (simp add: dropWhile_eq_self_iff split: list.splits, metis (mono_tags) dropWhile_eq_Nil_conv list.distinct(1))

lemma split_newline:
  obtains (partial) "newline \<notin> set s" | (line) l rest where "s = l @ newline # rest" "newline \<notin> set l"
  by (metis split_list_first)

lemma appendPartial_append:
  "observer_wf o1 \<Longrightarrow> appendPartial b (appendPartial a o1) = appendPartial (a @ b) o1"
  by (auto simp: appendPartial_def observer_wf_def)

lemma scan_line_append:
  "observer_wf o1 \<Longrightarrow> scan_line now l (appendPartial a o1) = scan_line now (a @ l) o1"
  by (auto simp: appendPartial_def scan_line_def observer_wf_def Let_def)

lemma scan_append: "observer_wf o1 \<Longrightarrow> scan now (a @ b) o1 = scan now b (scan now a o1)"
proof (induction "length a" arbitrary: a o1 rule: less_induct)
  case less
  show ?case
  proof (cases a rule: split_newline)
    case partial
    show ?thesis
    proof (cases "a = []")
      case False
      have a: "scan now a o1 = appendPartial a o1"
        by (rule scan_partial [OF partial False])
      show ?thesis
      proof (cases b rule: split_newline)
        case b: partial
        then show ?thesis
          using False partial a less.prems
          by (cases "b = []") (simp_all add: scan_partial appendPartial_append)
      next
        case b: (line l rest)
        have "scan now (a @ b) o1 = scan now rest (scan_line now (a @ l) o1)"
          using b partial scan_newline [of "a @ l"] by simp
        then show ?thesis
          using b a less.prems by (simp add: scan_newline scan_line_append)
      qed
    qed simp
  next
    case (line l rest)
    then show ?thesis
      using less.hyps [of rest "scan_line now l o1"] less.prems
      by (simp add: scan_newline scan_line_wf)
  qed
qed

interpretation stream_feed: piecewise "scan now" observer_wf for now
  by unfold_locales (simp_all add: scan_append scan_wf)

section \<open>The specification: the events of a byte stream\<close>

text \<open>\<open>segments\<close> cuts at every newline, the last segment being the unterminated one; \<open>line_blocks\<close> cuts
  the lines at the blank ones.\<close>

fun segments :: "string \<Rightarrow> string list" where
  "segments [] = [[]]"
| "segments (c # cs) =
     (if c = newline then [] # segments cs
      else (case segments cs of [] \<Rightarrow> [[c]] | l # ls \<Rightarrow> (c # l) # ls))"

definition blank_line :: "string \<Rightarrow> bool" where
  "blank_line l \<longleftrightarrow> TrimSuffix_CR l = []"

fun line_blocks :: "string list \<Rightarrow> string list list" where
  "line_blocks [] = [[]]"
| "line_blocks (l # ls) =
     (if blank_line l then [] # line_blocks ls
      else (case line_blocks ls of [] \<Rightarrow> [[l]] | b # bs \<Rightarrow> (l # b) # bs))"

definition data_line :: "string \<Rightarrow> bool" where
  "data_line l \<longleftrightarrow> json_prefix sseDataPrefix (TrimSuffix_CR l)"

definition payload_of :: "string \<Rightarrow> string" where
  "payload_of l = TrimPrefix_space (drop (length sseDataPrefix) (TrimSuffix_CR l))"

text \<open>The data of an event: its payloads joined by newlines, unless they exceed the cap.\<close>

fun join_data :: "string \<Rightarrow> string list \<Rightarrow> string option" where
  "join_data acc [] = Some acc"
| "join_data acc (p # ps) =
     (if length acc + length p + 1 > maxSSELine then None
      else join_data ((if acc \<noteq> [] then acc @ [newline] else acc) @ p) ps)"

definition too_long :: "string \<Rightarrow> bool" where
  "too_long l \<longleftrightarrow> length l > maxSSELine"

definition resume_block :: "string option \<Rightarrow> string list \<Rightarrow> string option" where
  "resume_block pend ls =
     (case pend of
        None \<Rightarrow> None
      | Some acc \<Rightarrow> if list_ex too_long ls then None else join_data acc (map payload_of (filter data_line ls)))"

definition block_event :: "string list \<Rightarrow> string option" where
  "block_event = resume_block (Some [])"

definition sse_events :: "string \<Rightarrow> string list" where
  "sse_events s = List.map_filter block_event (line_blocks (segments s))"

definition observe_events :: "(nat \<Rightarrow> go_time) \<Rightarrow> string list \<Rightarrow> requestState \<Rightarrow> requestState" where
  "observe_events now es st = foldl (\<lambda>s e. observeEvent now e s) st es"

section \<open>The observer implements the specification\<close>

definition line_step :: "(nat \<Rightarrow> go_time) \<Rightarrow> streamObserver \<Rightarrow> string \<Rightarrow> streamObserver" where
  "line_step now o1 l = (if too_long l then o1\<lparr>so_dropEvent := True\<rparr> else handleLine now l o1)"

definition idle :: "streamObserver \<Rightarrow> bool" where
  "idle o1 \<longleftrightarrow> so_buf o1 = [] \<and> \<not> so_overlong o1"

definition pending :: "streamObserver \<Rightarrow> string option" where
  "pending o1 = (if so_dropEvent o1 then None else Some (so_data o1))"

lemma segments_Cons: "\<exists>l ls. segments s = l # ls"
  by (induction s) (auto split: list.splits)

lemma line_blocks_Cons: "\<exists>b bs. line_blocks ls = b # bs"
  by (induction ls) (auto split: list.splits)

lemma segments_line: "newline \<notin> set l \<Longrightarrow> segments (l @ newline # rest) = l # segments rest"
  by (induction l) auto

lemma segments_partial: "newline \<notin> set l \<Longrightarrow> segments l = [l]"
  by (induction l) auto

lemma idle_scan_line: "idle o1 \<Longrightarrow> scan_line now l o1 = line_step now o1 l"
  by (simp add: idle_def scan_line_def line_step_def too_long_def)

lemma idle_line_step: "idle o1 \<Longrightarrow> idle (line_step now o1 l)"
  by (simp add: idle_def line_step_def)

lemma scan_lines: "idle o1 \<Longrightarrow> scan now (s @ [newline]) o1 = foldl (line_step now) o1 (segments s)"
proof (induction "length s" arbitrary: s o1 rule: less_induct)
  case less
  show ?case
  proof (cases s rule: split_newline)
    case partial
    then show ?thesis
      using scan_newline [of s now "[]"] less.prems by (simp add: segments_partial idle_scan_line)
  next
    case (line l rest)
    then show ?thesis
      using less.hyps [of rest "line_step now o1 l"] less.prems
      by (simp add: segments_line scan_newline idle_scan_line idle_line_step)
  qed
qed

lemma observeEvent_nil [simp]: "observeEvent now [] s = s"
  by (simp add: observeEvent_def bytes_TrimSpace_def TrimLeft_space.simps TrimRight_space.simps)

lemma finish_is_blank_line: "observer_wf o1 \<Longrightarrow> so_state (finish now o1) = so_state (scan now [newline, newline] o1)"
proof -
  have two: "scan now [newline, newline] o1 = scan_line now [] (scan_line now [] o1)"
    using scan_newline [of "[]" now "[newline]" o1] scan_newline [of "[]" now "[]"] by simp
  have blank: "handleLine now [] o2 =
      (if so_dropEvent o2 then o2 else handleEvent now (so_data o2) o2)\<lparr>so_data := [], so_dropEvent := False\<rparr>" for o2
    by (simp add: handleLine_def TrimSuffix_CR_def)
  have fin: "handleLine now l (o2\<lparr>so_finished := b\<rparr>) = (handleLine now l o2)\<lparr>so_finished := b\<rparr>" for l b o2
    by (simp add: handleLine_def handleEvent_def Let_def)
  assume "observer_wf o1"
  then show ?thesis
    by (auto simp: two finish_def Let_def scan_line_def observer_wf_def blank fin)
qed

lemma line_step_blank:
  assumes "blank_line l"
  shows "so_state (line_step now o1 l) =
      (case pending o1 of None \<Rightarrow> so_state o1 | Some d \<Rightarrow> observeEvent now d (so_state o1))"
    and "pending (line_step now o1 l) = Some []"
proof -
  have "length l \<le> 1"
    using assms by (cases l rule: rev_cases) (auto simp: blank_line_def TrimSuffix_CR_def split: if_splits)
  then show "so_state (line_step now o1 l) =
      (case pending o1 of None \<Rightarrow> so_state o1 | Some d \<Rightarrow> observeEvent now d (so_state o1))"
    and "pending (line_step now o1 l) = Some []"
    using assms
    by (simp_all add: line_step_def too_long_def maxSSELine_def handleLine_def Let_def blank_line_def pending_def)
qed

lemma line_step_content:
  assumes "\<not> blank_line l"
  shows "so_state (line_step now o1 l) = so_state o1"
    and "resume_block (pending (line_step now o1 l)) b = resume_block (pending o1) (l # b)"
  using assms
  by (auto simp: line_step_def handleLine_def Let_def blank_line_def pending_def resume_block_def data_line_def
      payload_of_def)

lemma lines_refine:
  assumes "line_blocks ls = b # bs"
  shows "so_state (foldl (line_step now) o1 (ls @ [[]])) =
    observe_events now (List.map_filter id (resume_block (pending o1) b # map block_event bs)) (so_state o1)"
  using assms
proof (induction ls arbitrary: o1 b bs)
  case Nil
  have "blank_line []"
    by (simp add: blank_line_def TrimSuffix_CR_def)
  then show ?case
    using Nil
    by (auto simp: line_step_blank observe_events_def map_filter_simps resume_block_def split: option.splits)
next
  case (Cons l ls)
  obtain c cs where lb: "line_blocks ls = c # cs"
    using line_blocks_Cons by blast
  show ?case
  proof (cases "blank_line l")
    case True
    then have b: "b = []" "bs = c # cs"
      using Cons.prems lb by simp_all
    have "resume_block pend [] = pend" for pend
      by (simp add: resume_block_def split: option.splits)
    then show ?thesis
      using True Cons.IH [OF lb, of "line_step now o1 l"]
      by (simp add: b line_step_blank observe_events_def block_event_def map_filter_simps split: option.splits)
  next
    case False
    then show ?thesis
      using Cons.prems Cons.IH [OF lb, of "line_step now o1 l"] lb
      by (auto simp: line_step_content)
  qed
qed

lemma sse_events_alt:
  "line_blocks (segments s) = b # bs \<Longrightarrow> sse_events s = List.map_filter id (map block_event (b # bs))"
  by (simp add: sse_events_def map_filter_def filter_map o_def)

lemma idle_new [simp]: "idle (newStreamObserver st)" "pending (newStreamObserver st) = Some []"
  by (simp_all add: idle_def pending_def newStreamObserver_def)

lemma segments_snoc: "segments (s @ [newline]) = segments s @ [[]]"
proof (induction s)
  case (Cons c cs)
  then show ?case
    using segments_Cons [of cs] by auto
qed simp

lemma scan_refines:
  "so_state (scan now (s @ [newline, newline]) (newStreamObserver st)) = observe_events now (sse_events s) st"
proof -
  obtain b bs where lb: "line_blocks (segments s) = b # bs"
    using line_blocks_Cons by blast
  have "scan now ((s @ [newline]) @ [newline]) (newStreamObserver st) =
      foldl (line_step now) (newStreamObserver st) (segments s @ [[]])"
    by (subst scan_lines) (simp_all add: segments_snoc)
  then show ?thesis
    using lines_refine [OF lb, of now "newStreamObserver st"]
    by (simp add: sse_events_alt [OF lb] block_event_def) (simp add: newStreamObserver_def)
qed

text \<open>A response read to its end: any number of reads without an error, then one that reports the end.\<close>

definition whole_read :: "string list \<Rightarrow> string \<Rightarrow> read_result list" where
  "whole_read ps p = map (\<lambda>q. (q, None)) ps @ [(p, Some EOF)]"

lemma finished_stays: "so_finished (scan now c o1) = so_finished o1"
proof -
  have line: "so_finished (handleLine now l o2) = so_finished o2" for l o2
    by (simp add: handleLine_def handleEvent_def Let_def)
  have "so_finished (scan_line now l o2) = so_finished o2" for l o2
    by (simp add: scan_line_def Let_def line)
  then show ?thesis
    by (induction now c o1 rule: scan.induct)
      (subst scan.simps, auto simp: appendPartial_def split: list.splits)
qed

lemma reads_are_scans:
  "read_all now (map (\<lambda>q. (q, None)) ps) o1 = foldl (\<lambda>x p. scan now p x) o1 ps"
  unfolding read_all_def by (induction ps arbitrary: o1) (simp_all add: Read_stream_def)

lemma stream_events:
  "so_state (read_all now (whole_read ps p) (newStreamObserver st)) =
     observe_events now (sse_events (concat ps @ p)) st"
proof -
  let ?o = "scan now (concat ps @ p) (newStreamObserver st)"
  have "read_all now (whole_read ps p) (newStreamObserver st) =
      snd (Read_stream now (p, Some EOF) (read_all now (map (\<lambda>q. (q, None)) ps) (newStreamObserver st)))"
    by (simp add: read_all_def whole_read_def)
  also have "\<dots> = finish now ?o"
    by (simp add: reads_are_scans stream_feed.feed_concat Read_stream_def scan_append scan_wf finished_stays)
      (simp add: newStreamObserver_def)
  finally show ?thesis
    using scan_refines [of now "concat ps @ p" st]
    by (simp add: finish_is_blank_line scan_wf scan_append [symmetric])
qed

text \<open>C8. However the network cuts a response into reads, and whether or not its last event is closed by
  a blank line, the shim observes exactly the events of the specification, in their order: the lines of
  the whole byte stream, grouped at blank lines, the data lines of a group joined, groups dropped whole
  when a line or their data exceeds one mebibyte.\<close>

theorem observer_refines_events:
  "so_state (read_all now (whole_read ps p) (newStreamObserver st)) =
     observe_events now (sse_events (concat ps @ p)) st"
  by (rule stream_events)

section \<open>What the events of a stream add up to\<close>

definition carries_token :: "string \<Rightarrow> bool" where
  "carries_token e =
     (let payload = bytes_TrimSpace e
      in payload \<noteq> [] \<and> payload \<noteq> sseDone \<and>
         (case Unmarshal dec_chunk zero_chunk payload of None \<Rightarrow> False | Some chunk \<Rightarrow> hasToken chunk))"

text \<open>The part of the request state that only content events touch.\<close>

definition token_view :: "requestState \<Rightarrow> bool \<times> go_duration \<times> i64 \<times> go_time \<times> f64 list option \<times> nat \<times> go_time" where
  "token_view s = (rs_sawFirstToken s, rs_ttft s, rs_tokens s, rs_lastContent s, rs_interChunk s, rs_ticks s, rs_start s)"

lemma token_view_observeUsage [simp]: "token_view (observeUsage u s) = token_view s"
  by (simp add: token_view_def observeUsage_def split: option.splits)

lemma token_view_observeToken:
  "token_view s = token_view t \<Longrightarrow> token_view (observeToken now s) = token_view (observeToken now t)"
  by (auto simp: token_view_def observeToken_def Let_def split: option.splits)

lemma token_view_observeEvent:
  "token_view (observeEvent now e s) = token_view (if carries_token e then observeToken now s else s)"
proof -
  have "token_view (s\<lparr>rs_sawDone := True\<rparr>) = token_view s"
    by (simp add: token_view_def)
  then show ?thesis
    by (auto simp: observeEvent_def carries_token_def Let_def split: option.splits intro: token_view_observeToken)
qed

definition observe_tokens :: "(nat \<Rightarrow> go_time) \<Rightarrow> nat \<Rightarrow> requestState \<Rightarrow> requestState" where
  "observe_tokens now n s = (observeToken now ^^ n) s"

lemma token_view_cong:
  "token_view s = token_view t \<Longrightarrow> token_view (observe_tokens now n s) = token_view (observe_tokens now n t)"
  unfolding observe_tokens_def by (induction n) (auto intro: token_view_observeToken)

lemma token_view_events:
  "token_view (observe_events now es s) = token_view (observe_tokens now (length (filter carries_token es)) s)"
proof (induction es arbitrary: s)
  case (Cons e es)
  have "token_view (observe_events now (e # es) s) =
      token_view (observe_tokens now (length (filter carries_token es)) (observeEvent now e s))"
    using Cons by (simp add: observe_events_def)
  also have "\<dots> = token_view (observe_tokens now (length (filter carries_token es))
      (if carries_token e then observeToken now s else s))"
    by (rule token_view_cong) (rule token_view_observeEvent)
  finally show ?case
    by (simp add: observe_tokens_def funpow_swap1)
qed (simp add: observe_events_def observe_tokens_def)

definition chunk_gap :: "(nat \<Rightarrow> go_time) \<Rightarrow> nat \<Rightarrow> f64" where
  "chunk_gap now k = fmax0 (Duration_Seconds (Sub (now (Suc k)) (now k)))"

lemma observeToken_later:
  "token_view s = (True, d, k, l, Some obs, i, t0) \<Longrightarrow>
   token_view (observeToken now s) =
     (True, d, wrap64 (k + 1), now i, Some (obs @ [fmax0 (Duration_Seconds (Sub (now i) l))]), Suc i, t0)"
  by (simp add: token_view_def observeToken_def Let_def)

lemma observe_tokens_Suc:
  assumes "\<not> rs_sawFirstToken s" "rs_tokens s = 0" "rs_interChunk s = Some []"
  shows "token_view (observe_tokens now (Suc n) s) =
    (True, Sub (now (rs_ticks s)) (rs_start s), wrap64 (int (Suc n)), now (rs_ticks s + n),
     Some (map (\<lambda>i. chunk_gap now (rs_ticks s + i)) [0..<n]), rs_ticks s + Suc n, rs_start s)"
proof (induction n)
  case 0
  then show ?case
    using assms by (simp add: observe_tokens_def token_view_def observeToken_def Let_def)
next
  case (Suc n)
  have "wrap64 (wrap64 (int (Suc n)) + 1) = wrap64 (int (Suc (Suc n)))"
    by (simp add: wrap64_def mod_simps algebra_simps)
  moreover have "observe_tokens now (Suc (Suc n)) s = observeToken now (observe_tokens now (Suc n) s)"
    by (simp add: observe_tokens_def)
  ultimately show ?case
    using observeToken_later [OF Suc] by (simp add: chunk_gap_def del: of_nat_Suc)
qed

lemma chunk_gap_nonneg: "\<exists>q \<ge> 0. chunk_gap now k = Fin q"
  using Duration_Seconds_finite [OF Sub_is_i64, of "now (Suc k)" "now k"]
  by (auto simp: chunk_gap_def fmax0_def)

section \<open>The usage observer\<close>

text \<open>Feeding the usage observer a piece of the body, and what it makes of the body at its end.\<close>

definition usage_feed :: "string \<Rightarrow> usageObserver \<Rightarrow> usageObserver" where
  "usage_feed p o1 = snd (Read_usage (p, None) o1)"

definition usage_wf :: "usageObserver \<Rightarrow> bool" where
  "usage_wf o1 \<longleftrightarrow> length (uo_buf o1) \<le> maxSSELine \<and> (uo_overlong o1 \<longrightarrow> uo_buf o1 = [])"

lemma usage_feed_simp:
  "usage_feed p o1 =
     (if uo_overlong o1 then o1
      else if length (uo_buf o1) + length p > maxSSELine then o1\<lparr>uo_overlong := True, uo_buf := []\<rparr>
      else o1\<lparr>uo_buf := uo_buf o1 @ p\<rparr>)"
  by (simp add: usage_feed_def Read_usage_def Let_def)

interpretation usage_feed: piecewise usage_feed usage_wf
proof
  fix x :: usageObserver and a b :: string
  show "usage_feed [] x = x" if "usage_wf x"
    using that by (simp add: usage_feed_simp usage_wf_def)
  show "usage_feed (a @ b) x = usage_feed b (usage_feed a x)" if "usage_wf x"
    using that by (simp add: usage_feed_simp usage_wf_def)
  show "usage_wf (usage_feed a x)" if "usage_wf x"
    using that by (auto simp: usage_feed_simp usage_wf_def)
qed

lemma usage_at_end:
  "snd (Read_usage (p, Some EOF) o1) =
     (let o2 = usage_feed p o1
      in if uo_overlong o2 then o2
         else case Unmarshal dec_response None (uo_buf o2) of
                Some u \<Rightarrow> o2\<lparr>uo_state := observeUsage u (uo_state o2)\<rparr> | None \<Rightarrow> o2)"
  by (simp add: Read_usage_def usage_feed_def Let_def)

definition read_usage_all :: "read_result list \<Rightarrow> usageObserver \<Rightarrow> usageObserver" where
  "read_usage_all rs o1 = foldl (\<lambda>x r. snd (Read_usage r x)) o1 rs"

text \<open>However a non-streaming response is cut into reads, the usage it reports is taken from the whole
  body, decoded as one JSON document, when the body is at most one mebibyte; a longer body, and one that
  does not decode, changes nothing.\<close>

theorem usage_of_whole_body:
  "uo_state (read_usage_all (whole_read ps p) (newUsageObserver st)) =
     (let body = concat ps @ p
      in if length body \<le> maxSSELine then
           (case Unmarshal dec_response None body of Some u \<Rightarrow> observeUsage u st | None \<Rightarrow> st)
         else st)"
proof -
  let ?o = "usage_feed (concat ps @ p) (newUsageObserver st)"
  have wf: "usage_wf (newUsageObserver st)"
    by (simp add: usage_wf_def newUsageObserver_def)
  have feeds: "foldl (\<lambda>x r. snd (Read_usage r x)) x (map (\<lambda>q. (q, None)) ps) = foldl (\<lambda>x q. usage_feed q x) x ps"
    for x
    by (induction ps arbitrary: x) (simp_all add: usage_feed_def)
  have "read_usage_all (whole_read ps p) (newUsageObserver st) =
      snd (Read_usage (p, Some EOF) (usage_feed (concat ps) (newUsageObserver st)))"
    by (simp add: read_usage_all_def whole_read_def feeds usage_feed.feed_concat [OF wf])
  also have "\<dots> = (if uo_overlong ?o then ?o
      else case Unmarshal dec_response None (uo_buf ?o) of
             Some u \<Rightarrow> ?o\<lparr>uo_state := observeUsage u (uo_state ?o)\<rparr> | None \<Rightarrow> ?o)"
    by (simp only: usage_feed.feed_append [OF wf] usage_at_end Let_def)
  finally show ?thesis
    by (simp add: usage_feed_simp newUsageObserver_def Let_def split: option.splits)
qed

text \<open>C40. The observer holds at most one mebibyte of an unfinished line and one of an unfinished event,
  after any sequence of reads, errors included.\<close>

theorem observer_memory_bounded:
  "length (so_buf (read_all now rs (newStreamObserver st))) \<le> maxSSELine \<and>
   length (so_data (read_all now rs (newStreamObserver st))) \<le> maxSSELine"
  using read_all_wf [OF newStreamObserver_wf] by (simp add: observer_wf_def)

end
