(* ===== verification/Shim_Proxy.thy ===== *)
theory Shim_Proxy
  imports Shim_Config Shim_Stream_Props
begin

text \<open>
  The sidecar's request path (\<open>src/cmd/shim/proxy.go\<close>, \<open>metrics.go\<close>, the operation and reason labels of
  \<open>internal/metrics/names.go\<close>). The Prometheus client is not modelled: a metric operation is recorded as
  the call it is, with its labels and value, in the order the calls are made. \<open>httputil.ReverseProxy\<close> is
  the sequence of what it does to the shim while it serves a request - it hands over a response, reads
  the body, writes a status or bytes to the recorder, reports an upstream error - an arbitrary list of
  events, which may stop at any point, because the proxy may panic at any point. \<open>mime.ParseMediaType\<close>
  is an argument that returns the media type and whether it failed.
\<close>

section \<open>Labels\<close>

definition OperationChat :: string where "OperationChat = ''chat.completions''"
definition OperationCompletion :: string where "OperationCompletion = ''completions''"
definition OperationEmbeddings :: string where "OperationEmbeddings = ''embeddings''"
definition OperationModels :: string where "OperationModels = ''models''"
definition OperationOther :: string where "OperationOther = ''other''"

definition ReasonUnreachable :: string where "ReasonUnreachable = ''unreachable''"
definition ReasonStreamAborted :: string where "ReasonStreamAborted = ''stream_aborted''"
definition ReasonClientCanceled :: string where "ReasonClientCanceled = ''client_canceled''"

definition NormalizeOperation :: "string \<Rightarrow> string" where
  "NormalizeOperation path =
     (if path = ''/v1/chat/completions'' then OperationChat
      else if path = ''/v1/completions'' then OperationCompletion
      else if path = ''/v1/embeddings'' then OperationEmbeddings
      else if path = ''/v1/models'' then OperationModels
      else OperationOther)"

section \<open>Metrics\<close>

datatype metric_call =
    RequestsAdd string string f64
  | RequestsStartedAdd string f64
  | DurationObserve string f64
  | TTFTObserve f64
  | TPOTObserve f64
  | OutTokensAdd f64
  | OutChunksAdd f64
  | ReportedTokensAdd f64
  | UsageRequestsAdd f64
  | UpstreamErrorAdd string f64

record metrics =
  mt_calls :: "metric_call list"
  mt_concurrency :: i64
  mt_live :: i64

text \<open>The series that exist from the first scrape.\<close>

definition newMetrics :: "config \<Rightarrow> metrics" where
  "newMetrics cfg = \<lparr>mt_calls = [OutTokensAdd (Fin 0),
       RequestsAdd OperationChat (fmt_d 200) (Fin 0), RequestsAdd OperationCompletion (fmt_d 200) (Fin 0),
       RequestsStartedAdd OperationChat (Fin 0), RequestsStartedAdd OperationCompletion (Fin 0),
       RequestsStartedAdd OperationEmbeddings (Fin 0)],
     mt_concurrency = cf_maxConcurrency cfg, mt_live = 0\<rparr>"

definition metrics_begin :: "metrics \<Rightarrow> metrics" where
  "metrics_begin m = m\<lparr>mt_live := wrap64 (mt_live m + 1)\<rparr>"

definition metrics_end :: "metrics \<Rightarrow> metrics" where
  "metrics_end m = m\<lparr>mt_live := wrap64 (mt_live m - 1)\<rparr>"

text \<open>The two gauges are evaluated at scrape time.\<close>

definition gauge_inFlight :: "metrics \<Rightarrow> f64" where
  "gauge_inFlight m = f64_of_i64 (mt_live m)"

definition gauge_queueDepth :: "metrics \<Rightarrow> f64" where
  "gauge_queueDepth m = f64_of_i64 (max (wrap64 (mt_live m - mt_concurrency m)) 0)"

definition emit :: "metric_call list \<Rightarrow> metrics \<Rightarrow> metrics" where
  "emit cs m = m\<lparr>mt_calls := mt_calls m @ cs\<rparr>"

definition usage_calls :: "requestState \<Rightarrow> i64 \<Rightarrow> metric_call list" where
  "usage_calls st code =
     (if rs_hasUsage st \<and> rs_readErr st = None \<and> code \<ge> 200 \<and> code < 300
      then [ReportedTokensAdd (f64_of_i64 (rs_reportedTokens st)), UsageRequestsAdd (Fin 1)] else [])"

definition metrics_observeUsage :: "requestState \<Rightarrow> i64 \<Rightarrow> metrics \<Rightarrow> metrics" where
  "metrics_observeUsage st code m = emit (usage_calls st code) m"

definition observe :: "requestState \<Rightarrow> i64 \<Rightarrow> metrics \<Rightarrow> metrics" where
  "observe st code m =
     (let m = emit [DurationObserve (rs_operation st) (Duration_Seconds (rs_duration st)),
                    RequestsAdd (rs_operation st) (fmt_d code) (Fin 1)] m
      in if \<not> rs_streamed st then metrics_observeUsage st code m
         else
           (let m = (if rs_sawDone st then metrics_observeUsage st code m else m);
                m = (if rs_tokens st > 0
                     then emit [OutTokensAdd (f64_of_i64 (rs_tokens st)), OutChunksAdd (f64_of_i64 (rs_tokens st))] m
                     else m)
            in if \<not> rs_sawFirstToken st then m
               else
                 (let m = emit [TTFTObserve (Duration_Seconds (rs_ttft st))] m
                  in if rs_tokens st \<ge> 2 then
                       (let decode = wrap64 (rs_duration st - rs_ttft st)
                        in if decode > 0
                           then emit [TPOTObserve (fdiv (Duration_Seconds decode) (f64_of_i64 (rs_tokens st - 1)))] m
                           else m)
                     else m)))"

definition upstreamError :: "string \<Rightarrow> metrics \<Rightarrow> metrics" where
  "upstreamError reason m = emit [UpstreamErrorAdd reason (Fin 1)] m"

section \<open>The status recorder\<close>

record statusRecorder =
  sr_status :: i64
  sr_written :: bool

definition recorder_WriteHeader :: "i64 \<Rightarrow> statusRecorder \<Rightarrow> statusRecorder" where
  "recorder_WriteHeader code s =
     (if \<not> sr_written s then \<lparr>sr_status = code, sr_written = True\<rparr> else s)"

definition recorder_Write :: "statusRecorder \<Rightarrow> statusRecorder" where
  "recorder_Write s = s\<lparr>sr_written := True\<rparr>"

section \<open>One request\<close>

definition contentTypeSSE :: string where "contentTypeSSE = ''text/event-stream''"
definition contentTypeJSON :: string where "contentTypeJSON = ''application/json''"

definition ascii_lower :: "string \<Rightarrow> string" where
  "ascii_lower s = map (\<lambda>c. char_of (lower_byte c)) s"

definition isEventStream :: "(string \<Rightarrow> string \<times> bool) \<Rightarrow> string \<Rightarrow> bool" where
  "isEventStream parseMediaType header =
     (if header = '''' then False
      else (let (mediaType, failed) = parseMediaType header
            in if failed then json_prefix contentTypeSSE (ascii_lower header)
               else fold_key mediaType = fold_key contentTypeSSE))"

record request =
  rq_Method :: string
  rq_Path :: string
  rq_Canceled :: bool

datatype upstream_error = UpstreamCanceled | UpstreamFailed string

text \<open>The body of the response as the proxy reads it; the observers share the request's state.\<close>

datatype body = Plain requestState | Observed streamObserver | Inspected usageObserver

fun body_state :: "body \<Rightarrow> requestState" where
  "body_state (Plain st) = st"
| "body_state (Observed o1) = so_state o1"
| "body_state (Inspected u) = uo_state u"

record exchange =
  ex_body :: body
  ex_rec :: statusRecorder
  ex_metrics :: metrics

datatype rp_event =
    GotResponse string
  | ReadBody read_result
  | WriteStatus i64
  | WriteBytes
  | UpstreamErr upstream_error

definition modifyResponse :: "(string \<Rightarrow> string \<times> bool) \<Rightarrow> string \<Rightarrow> requestState \<Rightarrow> body" where
  "modifyResponse parseMediaType contentType st =
     (if \<not> isEventStream parseMediaType contentType then
        (if fst (parseMediaType contentType) = contentTypeJSON then Inspected (newUsageObserver st) else Plain st)
      else Observed (newStreamObserver (st\<lparr>rs_streamed := True, rs_interChunk := Some []\<rparr>)))"

definition handleUpstreamError :: "request \<Rightarrow> upstream_error \<Rightarrow> exchange \<Rightarrow> exchange" where
  "handleUpstreamError r err ex =
     (if err = UpstreamCanceled \<or> rq_Canceled r then
        ex\<lparr>ex_metrics := upstreamError ReasonClientCanceled (ex_metrics ex),
           ex_rec := recorder_WriteHeader 499 (ex_rec ex)\<rparr>
      else
        ex\<lparr>ex_metrics := upstreamError ReasonUnreachable (ex_metrics ex),
           ex_rec := recorder_Write (recorder_WriteHeader 502 (ex_rec ex))\<rparr>)"

fun rp_step :: "(nat \<Rightarrow> go_time) \<Rightarrow> (string \<Rightarrow> string \<times> bool) \<Rightarrow> request \<Rightarrow> rp_event \<Rightarrow> exchange \<Rightarrow> exchange" where
  "rp_step now pmt r (GotResponse ct) ex = ex\<lparr>ex_body := modifyResponse pmt ct (body_state (ex_body ex))\<rparr>"
| "rp_step now pmt r (ReadBody res) ex =
     ex\<lparr>ex_body := (case ex_body ex of
          Plain st \<Rightarrow> Plain st
        | Observed o1 \<Rightarrow> Observed (snd (Read_stream now res o1))
        | Inspected u \<Rightarrow> Inspected (snd (Read_usage res u)))\<rparr>"
| "rp_step now pmt r (WriteStatus code) ex = ex\<lparr>ex_rec := recorder_WriteHeader code (ex_rec ex)\<rparr>"
| "rp_step now pmt r WriteBytes ex = ex\<lparr>ex_rec := recorder_Write (ex_rec ex)\<rparr>"
| "rp_step now pmt r (UpstreamErr err) ex = handleUpstreamError r err ex"

definition countStreamOutcome :: "request \<Rightarrow> requestState \<Rightarrow> metrics \<Rightarrow> metrics" where
  "countStreamOutcome r st m =
     (if \<not> rs_streamed st \<or> rs_sawDone st \<or> rs_readErr st = None then m
      else if rs_readErr st = Some Canceled \<or> rq_Canceled r then upstreamError ReasonClientCanceled m
      else upstreamError ReasonStreamAborted m)"

definition new_state :: "(nat \<Rightarrow> go_time) \<Rightarrow> request \<Rightarrow> requestState" where
  "new_state now r = \<lparr>rs_start = now 0, rs_operation = NormalizeOperation (rq_Path r), rs_streamed = False,
     rs_sawFirstToken = False, rs_ttft = 0, rs_tokens = 0, rs_sawDone = False, rs_lastContent = time_zero,
     rs_interChunk = None, rs_reportedTokens = 0, rs_hasUsage = False, rs_duration = 0, rs_readErr = None,
     rs_ticks = 1\<rparr>"

definition admit :: "request \<Rightarrow> metrics \<Rightarrow> metrics" where
  "admit r m =
     (let op1 = NormalizeOperation (rq_Path r)
      in if rq_Method r = ''POST'' \<and> (op1 = OperationChat \<or> op1 = OperationCompletion \<or> op1 = OperationEmbeddings)
         then emit [RequestsStartedAdd op1 (Fin 1)] m else m)"

text \<open>The deferred function: it runs when the proxy returns and when it panics.\<close>

definition record_outcome :: "(nat \<Rightarrow> go_time) \<Rightarrow> request \<Rightarrow> exchange \<Rightarrow> metrics" where
  "record_outcome now r ex =
     (let st = body_state (ex_body ex);
          st = st\<lparr>rs_duration := Sub (now (rs_ticks st)) (rs_start st), rs_ticks := Suc (rs_ticks st)\<rparr>
      in countStreamOutcome r st (observe st (sr_status (ex_rec ex)) (ex_metrics ex)))"

definition rp_run ::
  "(nat \<Rightarrow> go_time) \<Rightarrow> (string \<Rightarrow> string \<times> bool) \<Rightarrow> request \<Rightarrow> rp_event list \<Rightarrow> exchange \<Rightarrow> exchange" where
  "rp_run now pmt r evs ex = foldl (\<lambda>ex ev. rp_step now pmt r ev ex) ex evs"

definition serveProxy ::
  "(nat \<Rightarrow> go_time) \<Rightarrow> (string \<Rightarrow> string \<times> bool) \<Rightarrow> request \<Rightarrow> rp_event list \<Rightarrow> metrics \<Rightarrow> metrics" where
  "serveProxy now pmt r events m =
     (let ex = \<lparr>ex_body = Plain (new_state now r), ex_rec = \<lparr>sr_status = 200, sr_written = False\<rparr>,
                ex_metrics = metrics_begin (admit r m)\<rparr>;
          ex = rp_run now pmt r events ex
      in metrics_end (record_outcome now r ex))"

section \<open>Health endpoints and headers\<close>

text \<open>Header names are ASCII tokens.\<close>

text \<open>\<open>handleHealth\<close>: the engine's answer, or that it could not be reached; the body is cut at 64 KiB.\<close>

datatype health_upstream = HealthBadRequest string | HealthUnreachable string
  | HealthResponse i64 "(string \<times> string list) list" string

record response =
  rw_Status :: i64
  rw_Header :: "(string \<times> string list) list"
  rw_Body :: string

definition hopByHopHeaders :: "string list" where
  "hopByHopHeaders = [''connection'', ''keep-alive'', ''proxy-authenticate'', ''proxy-authorization'', ''te'',
     ''trailer'', ''transfer-encoding'', ''upgrade'']"

definition isHopByHop :: "string \<Rightarrow> bool" where
  "isHopByHop name \<longleftrightarrow> ascii_lower name \<in> set hopByHopHeaders"

definition copyHeader :: "(string \<times> string list) list \<Rightarrow> (string \<times> string list) list" where
  "copyHeader src = filter (\<lambda>(k, vs). \<not> isHopByHop k) src"

definition http_Error :: "string \<Rightarrow> i64 \<Rightarrow> response" where
  "http_Error msg status = \<lparr>rw_Status = status, rw_Header = [(''Content-Type'', [''text/plain; charset=utf-8'']),
     (''X-Content-Type-Options'', [''nosniff''])], rw_Body = msg @ [newline]\<rparr>"

definition handleHealth :: "health_upstream \<Rightarrow> response" where
  "handleHealth up =
     (case up of
        HealthBadRequest e \<Rightarrow> http_Error (''building upstream health request: '' @ e) 500
      | HealthUnreachable e \<Rightarrow> http_Error (''engine unreachable: '' @ e) 503
      | HealthResponse status hdr body \<Rightarrow>
          \<lparr>rw_Status = status, rw_Header = filter (\<lambda>(k, vs). k \<noteq> ''Content-Length'') (copyHeader hdr),
           rw_Body = take 65536 body\<rparr>)"

definition handleLive :: response where
  "handleLive = \<lparr>rw_Status = 200, rw_Header = [(''Content-Type'', [''text/plain; charset=utf-8''])],
     rw_Body = ''ok'' @ [newline]\<rparr>"

text \<open>The routing table, for a path that \<open>ServeMux\<close> takes as it is: one it would clean is redirected first.\<close>

datatype route = RouteLive | RouteHealth | RouteProxy

definition handler :: "string \<Rightarrow> route" where
  "handler path = (if path = ShimLivePath then RouteLive else if path = ShimHealthPath then RouteHealth else RouteProxy)"

end
