(* ===== verification/Shim_Proxy_Props.thy ===== *)
theory Shim_Proxy_Props
  imports Shim_Proxy
begin

text \<open>
  What the sidecar counts. Whatever the reverse proxy does with a request - finishes it, reports an
  upstream error, or stops in the middle because it panicked - the request is counted once, under a label
  from a closed set. For a stream that is read to its end the latency and chunk metrics are exactly those
  of the events it carried. The last section says which failures the counters do not see.
\<close>

fun is_request :: "metric_call \<Rightarrow> bool" where
  "is_request (RequestsAdd op1 code v) = True" | "is_request _ = False"

fun is_duration :: "metric_call \<Rightarrow> bool" where
  "is_duration (DurationObserve op1 v) = True" | "is_duration _ = False"

fun is_ttft :: "metric_call \<Rightarrow> bool" where
  "is_ttft (TTFTObserve v) = True" | "is_ttft _ = False"

fun is_tpot :: "metric_call \<Rightarrow> bool" where
  "is_tpot (TPOTObserve v) = True" | "is_tpot _ = False"

fun is_chunks :: "metric_call \<Rightarrow> bool" where
  "is_chunks (OutChunksAdd v) = True" | "is_chunks _ = False"

fun is_upstream :: "metric_call \<Rightarrow> bool" where
  "is_upstream (UpstreamErrorAdd reason v) = True" | "is_upstream _ = False"

section \<open>What a request keeps\<close>

lemma observeUsage_keeps [simp]:
  "rs_operation (observeUsage u s) = rs_operation s" "rs_streamed (observeUsage u s) = rs_streamed s"
  "rs_start (observeUsage u s) = rs_start s" "rs_readErr (observeUsage u s) = rs_readErr s"
  by (simp_all add: observeUsage_def split: option.splits)

lemma observeToken_keeps [simp]:
  "rs_operation (observeToken now s) = rs_operation s" "rs_streamed (observeToken now s) = rs_streamed s"
  "rs_start (observeToken now s) = rs_start s" "rs_readErr (observeToken now s) = rs_readErr s"
  by (simp_all add: observeToken_def Let_def split: option.splits)

lemma observeEvent_keeps [simp]:
  "rs_operation (observeEvent now e s) = rs_operation s" "rs_streamed (observeEvent now e s) = rs_streamed s"
  "rs_start (observeEvent now e s) = rs_start s" "rs_readErr (observeEvent now e s) = rs_readErr s"
  by (simp_all add: observeEvent_def Let_def split: option.splits)

text \<open>The fields of the request state that no observer writes.\<close>

definition fixed_part :: "requestState \<Rightarrow> string \<times> bool \<times> go_time" where
  "fixed_part s = (rs_operation s, rs_streamed s, rs_start s)"

lemma handleLine_fixed: "fixed_part (so_state (handleLine now l o1)) = fixed_part (so_state o1)"
  by (simp add: handleLine_def Let_def fixed_part_def)

lemma scan_line_fixed: "fixed_part (so_state (scan_line now l o1)) = fixed_part (so_state o1)"
  by (simp add: scan_line_def Let_def handleLine_fixed)

lemma scan_fixed: "fixed_part (so_state (scan now c o1)) = fixed_part (so_state o1)"
  by (induction now c o1 rule: scan.induct)
    (subst scan.simps, auto simp: appendPartial_def scan_line_fixed split: list.splits)

lemma finish_fixed: "fixed_part (so_state (finish now o1)) = fixed_part (so_state o1)"
proof -
  have "fixed_part (so_state (handleEvent now d o2)) = fixed_part (so_state o2)" for d o2
    by (simp add: fixed_part_def)
  then show ?thesis
    by (simp add: finish_def Let_def handleLine_fixed)
qed

lemma Read_stream_fixed: "fixed_part (so_state (snd (Read_stream now res o1))) = fixed_part (so_state o1)"
proof -
  have "fixed_part (s\<lparr>rs_readErr := e\<rparr>) = fixed_part s" for s e
    by (simp add: fixed_part_def)
  then show ?thesis
    by (simp add: Read_stream_def Let_def split_beta scan_fixed finish_fixed)
qed

lemma Read_usage_fixed: "fixed_part (uo_state (snd (Read_usage res u))) = fixed_part (uo_state u)"
  by (simp add: Read_usage_def Let_def split_beta fixed_part_def split: option.splits)

lemma modifyResponse_operation: "rs_operation (body_state (modifyResponse pmt ct st)) = rs_operation st"
  by (simp add: modifyResponse_def newUsageObserver_def newStreamObserver_def)

lemma rp_step_operation: "rs_operation (body_state (ex_body (rp_step now pmt r ev ex))) = rs_operation (body_state (ex_body ex))"
proof (cases ev)
  case (ReadBody res)
  then show ?thesis
    using Read_stream_fixed [of now res] Read_usage_fixed [of res]
    by (auto simp: fixed_part_def split: body.splits)
qed (simp_all add: modifyResponse_operation handleUpstreamError_def)

lemma rp_step_metrics:
  "\<exists>cs. ex_metrics (rp_step now pmt r ev ex) = emit cs (ex_metrics ex) \<and> list_all is_upstream cs"
proof -
  have none: "\<exists>cs. m = emit cs m \<and> list_all is_upstream cs" for m
    by (rule exI [of _ "[]"]) (simp add: emit_def)
  show ?thesis
    by (cases ev) (auto simp: none handleUpstreamError_def upstreamError_def)
qed

lemma emit_emit [simp]: "emit b (emit a m) = emit (a @ b) m" "emit [] m = m"
  by (simp_all add: emit_def)

lemma rp_run_Nil [simp]: "rp_run now pmt r [] ex = ex"
  by (simp add: rp_run_def)

lemma rp_run_Cons: "rp_run now pmt r (ev # evs) ex = rp_run now pmt r evs (rp_step now pmt r ev ex)"
  by (simp add: rp_run_def)

lemma rp_run_keeps:
  "\<exists>cs. ex_metrics (rp_run now pmt r evs ex) = emit cs (ex_metrics ex) \<and> list_all is_upstream cs \<and>
     rs_operation (body_state (ex_body (rp_run now pmt r evs ex))) = rs_operation (body_state (ex_body ex))"
proof (induction evs arbitrary: ex)
  case Nil
  show ?case
    by (rule exI [of _ "[]"]) simp
next
  case (Cons ev evs)
  obtain cs where cs: "ex_metrics (rp_step now pmt r ev ex) = emit cs (ex_metrics ex)" "list_all is_upstream cs"
    using rp_step_metrics by blast
  then show ?case
    using Cons [of "rp_step now pmt r ev ex"] by (fastforce simp: rp_run_Cons rp_step_operation)
qed

section \<open>Every request is counted once\<close>

text \<open>The calls that \<open>observe\<close> makes.\<close>

definition observe_calls :: "requestState \<Rightarrow> i64 \<Rightarrow> metric_call list" where
  "observe_calls st code =
     [DurationObserve (rs_operation st) (Duration_Seconds (rs_duration st)), RequestsAdd (rs_operation st) (fmt_d code) (Fin 1)] @
     (if \<not> rs_streamed st then usage_calls st code
      else (if rs_sawDone st then usage_calls st code else []) @
        (if rs_tokens st > 0 then [OutTokensAdd (f64_of_i64 (rs_tokens st)), OutChunksAdd (f64_of_i64 (rs_tokens st))] else []) @
        (if rs_sawFirstToken st then
           [TTFTObserve (Duration_Seconds (rs_ttft st))] @
           (if rs_tokens st \<ge> 2 \<and> wrap64 (rs_duration st - rs_ttft st) > 0
            then [TPOTObserve (fdiv (Duration_Seconds (wrap64 (rs_duration st - rs_ttft st))) (f64_of_i64 (rs_tokens st - 1)))]
            else [])
         else []))"

lemma observe_emits: "observe st code m = emit (observe_calls st code) m"
  by (simp add: observe_def observe_calls_def metrics_observeUsage_def Let_def)

definition outcome_calls :: "request \<Rightarrow> requestState \<Rightarrow> metric_call list" where
  "outcome_calls r st =
     (if \<not> rs_streamed st \<or> rs_sawDone st \<or> rs_readErr st = None then []
      else if rs_readErr st = Some Canceled \<or> rq_Canceled r then [UpstreamErrorAdd ReasonClientCanceled (Fin 1)]
      else [UpstreamErrorAdd ReasonStreamAborted (Fin 1)])"

lemma countStreamOutcome_emits: "countStreamOutcome r st m = emit (outcome_calls r st) m"
  by (simp add: countStreamOutcome_def outcome_calls_def upstreamError_def)

definition final_state :: "(nat \<Rightarrow> go_time) \<Rightarrow> exchange \<Rightarrow> requestState" where
  "final_state now ex =
     (let st = body_state (ex_body ex)
      in st\<lparr>rs_duration := Sub (now (rs_ticks st)) (rs_start st), rs_ticks := Suc (rs_ticks st)\<rparr>)"

definition start_exchange :: "(nat \<Rightarrow> go_time) \<Rightarrow> request \<Rightarrow> metrics \<Rightarrow> exchange" where
  "start_exchange now r m = \<lparr>ex_body = Plain (new_state now r), ex_rec = \<lparr>sr_status = 200, sr_written = False\<rparr>,
     ex_metrics = metrics_begin (admit r m)\<rparr>"

lemma filter_upstream: "list_all is_upstream cs \<Longrightarrow> filter is_request cs = [] \<and> filter is_duration cs = [] \<and>
    filter is_ttft cs = [] \<and> filter is_tpot cs = [] \<and> filter is_chunks cs = []"
  by (induction cs) (auto elim: is_upstream.elims)

lemma filter_observe [simp]:
  "filter is_request (observe_calls st code) = [RequestsAdd (rs_operation st) (fmt_d code) (Fin 1)]"
  "filter is_duration (observe_calls st code) = [DurationObserve (rs_operation st) (Duration_Seconds (rs_duration st))]"
  "filter is_ttft (observe_calls st code) =
     (if rs_streamed st \<and> rs_sawFirstToken st then [TTFTObserve (Duration_Seconds (rs_ttft st))] else [])"
  "filter is_tpot (observe_calls st code) =
     (if rs_streamed st \<and> rs_sawFirstToken st \<and> rs_tokens st \<ge> 2 \<and> wrap64 (rs_duration st - rs_ttft st) > 0
      then [TPOTObserve (fdiv (Duration_Seconds (wrap64 (rs_duration st - rs_ttft st))) (f64_of_i64 (rs_tokens st - 1)))] else [])"
  "filter is_chunks (observe_calls st code) =
     (if rs_streamed st \<and> rs_tokens st > 0 then [OutChunksAdd (f64_of_i64 (rs_tokens st))] else [])"
  "filter is_upstream (observe_calls st code) = []"
  by (simp_all add: observe_calls_def usage_calls_def)

lemma filter_outcome [simp]:
  "filter is_request (outcome_calls r st) = []" "filter is_duration (outcome_calls r st) = []"
  "filter is_ttft (outcome_calls r st) = []" "filter is_tpot (outcome_calls r st) = []" "filter is_chunks (outcome_calls r st) = []"
  "filter is_upstream (outcome_calls r st) = outcome_calls r st"
  by (simp_all add: outcome_calls_def)

lemma admit_emits: "\<exists>cs. mt_calls (admit r m) = mt_calls m @ cs \<and> filter is_request cs = [] \<and> filter is_duration cs = [] \<and>
    filter is_ttft cs = [] \<and> filter is_tpot cs = [] \<and> filter is_chunks cs = [] \<and> filter is_upstream cs = []"
  by (rule exI [of _ "drop (length (mt_calls m)) (mt_calls (admit r m))"]) (simp add: admit_def emit_def Let_def)

text \<open>The calls a request makes: at its admission, from the error handler, and from the deferred function.\<close>

lemma serveProxy_calls:
  fixes now pmt r evs m
  defines "ex \<equiv> rp_run now pmt r evs (start_exchange now r m)"
  obtains pre errs where
    "mt_calls (serveProxy now pmt r evs m) = mt_calls m @ pre @ errs @
       observe_calls (final_state now ex) (sr_status (ex_rec ex)) @ outcome_calls r (final_state now ex)"
    "filter is_request pre = []" "filter is_duration pre = []" "filter is_ttft pre = []" "filter is_tpot pre = []"
    "filter is_chunks pre = []" "filter is_upstream pre = []"
    "filter is_request errs = []" "filter is_duration errs = []" "filter is_ttft errs = []" "filter is_tpot errs = []"
    "filter is_chunks errs = []"
    "ex_metrics ex = emit errs (metrics_begin (admit r m))"
    "mt_live (serveProxy now pmt r evs m) = wrap64 (mt_live m)"
proof -
  obtain errs where errs: "ex_metrics ex = emit errs (metrics_begin (admit r m))" "list_all is_upstream errs"
    using rp_run_keeps [where now = now and pmt = pmt and r = r and evs = evs and ex = "start_exchange now r m"]
    by (auto simp: ex_def start_exchange_def)
  have sp: "serveProxy now pmt r evs m =
      metrics_end (emit (errs @ observe_calls (final_state now ex) (sr_status (ex_rec ex)) @ outcome_calls r (final_state now ex))
        (metrics_begin (admit r m)))"
    using errs(1)
    by (simp add: serveProxy_def ex_def start_exchange_def record_outcome_def observe_emits countStreamOutcome_emits
        final_state_def Let_def)
  have "wrap64 (wrap64 (mt_live m + 1) - 1) = wrap64 (mt_live m)"
    by (simp add: wrap64_def mod_simps algebra_simps)
  then have live: "mt_live (serveProxy now pmt r evs m) = wrap64 (mt_live m)"
    by (simp add: sp metrics_end_def metrics_begin_def emit_def admit_def Let_def)
  obtain pre where pre: "mt_calls (admit r m) = mt_calls m @ pre" "filter is_request pre = []" "filter is_duration pre = []"
    "filter is_ttft pre = []" "filter is_tpot pre = []" "filter is_chunks pre = []" "filter is_upstream pre = []"
    using admit_emits by blast
  have "mt_calls (serveProxy now pmt r evs m) = mt_calls m @ pre @ errs @
       observe_calls (final_state now ex) (sr_status (ex_rec ex)) @ outcome_calls r (final_state now ex)"
    by (simp add: sp metrics_end_def metrics_begin_def emit_def pre(1))
  then show ?thesis
    using that pre(2-7) filter_upstream [OF errs(2)] errs(1) live by blast
qed

lemma no_errors: "emit errs m1 = m1 \<Longrightarrow> errs = []"
  by (drule arg_cong [where f = mt_calls]) (simp add: emit_def)

lemma final_operation:
  "rs_operation (final_state now (rp_run now pmt r evs (start_exchange now r m))) = NormalizeOperation (rq_Path r)"
  using rp_run_keeps [where now = now and pmt = pmt and r = r and evs = evs and ex = "start_exchange now r m"]
  by (auto simp: final_state_def Let_def start_exchange_def new_state_def)

text \<open>C25. Whatever the reverse proxy does while it serves a request, and wherever it stops, the request is
  counted exactly once with one duration, under the operation of its path, and the number of requests in
  flight is what it was.\<close>

theorem every_request_counted:
  "\<exists>cs code d. mt_calls (serveProxy now pmt r evs m) = mt_calls m @ cs \<and>
     filter is_request cs = [RequestsAdd (NormalizeOperation (rq_Path r)) (fmt_d code) (Fin 1)] \<and>
     filter is_duration cs = [DurationObserve (NormalizeOperation (rq_Path r)) d] \<and>
     length (filter is_ttft cs) \<le> 1 \<and>
     mt_live (serveProxy now pmt r evs m) = wrap64 (mt_live m)"
  by (rule serveProxy_calls [where now = now and pmt = pmt and r = r and evs = evs and m = m])
    (auto simp: final_operation)

section \<open>A stream that is read to its end\<close>

text \<open>What the proxy does after it has handed over a streaming response: it writes a status, and reads
  and writes in turn. \<open>body_reads\<close> are the results of its reads.\<close>

fun copies :: "rp_event \<Rightarrow> bool" where
  "copies (ReadBody res) = True" | "copies (WriteStatus code) = True" | "copies WriteBytes = True"
| "copies _ = False"

fun body_reads :: "rp_event list \<Rightarrow> read_result list" where
  "body_reads [] = []"
| "body_reads (ReadBody res # evs) = res # body_reads evs"
| "body_reads (_ # evs) = body_reads evs"

lemma copy_run:
  "list_all copies evs \<Longrightarrow> ex_body ex = Observed o1 \<Longrightarrow>
   ex_body (rp_run now pmt r evs ex) = Observed (read_all now (body_reads evs) o1) \<and>
   ex_metrics (rp_run now pmt r evs ex) = ex_metrics ex"
proof (induction evs arbitrary: ex o1)
  case (Cons ev evs)
  then show ?case
    by (cases ev) (auto simp: read_all_def rp_run_Cons)
qed (simp add: read_all_def)

text \<open>The status the recorder has for a response that is copied: the first one written, 200 if bytes come first.\<close>

fun first_status :: "rp_event list \<Rightarrow> i64" where
  "first_status [] = 200"
| "first_status (WriteStatus code # evs) = code"
| "first_status (WriteBytes # evs) = 200"
| "first_status (_ # evs) = first_status evs"

lemma copy_status:
  "list_all copies evs \<Longrightarrow> sr_written (ex_rec ex) \<or> sr_status (ex_rec ex) = 200 \<Longrightarrow>
   sr_status (ex_rec (rp_run now pmt r evs ex)) = (if sr_written (ex_rec ex) then sr_status (ex_rec ex) else first_status evs)"
proof (induction evs arbitrary: ex)
  case (Cons ev evs)
  then show ?case
    by (cases ev) (auto simp: rp_run_Cons recorder_WriteHeader_def recorder_Write_def)
qed auto

text \<open>The state of a request whose response turned out to be a stream.\<close>

definition streamed_state :: "(nat \<Rightarrow> go_time) \<Rightarrow> request \<Rightarrow> requestState" where
  "streamed_state now r = (new_state now r)\<lparr>rs_streamed := True, rs_interChunk := Some []\<rparr>"

lemma stream_run:
  assumes "isEventStream pmt ct" "list_all copies evs"
  shows "ex_body (rp_run now pmt r (GotResponse ct # evs) (start_exchange now r m)) =
      Observed (read_all now (body_reads evs) (newStreamObserver (streamed_state now r)))"
    and "ex_metrics (rp_run now pmt r (GotResponse ct # evs) (start_exchange now r m)) = metrics_begin (admit r m)"
    and "sr_status (ex_rec (rp_run now pmt r (GotResponse ct # evs) (start_exchange now r m))) = first_status evs"
  using assms copy_run [OF assms(2)] copy_status [OF assms(2)]
  by (simp_all add: rp_run_Cons start_exchange_def modifyResponse_def streamed_state_def)

lemma observe_events_fixed: "fixed_part (observe_events now es s) = fixed_part s"
  unfolding observe_events_def by (induction es arbitrary: s) (simp_all add: fixed_part_def)

lemma observe_events_readErr: "rs_readErr (observe_events now es s) = rs_readErr s"
  unfolding observe_events_def by (induction es arbitrary: s) simp_all

text \<open>The token part of the state after the events of a stream: \<open>n\<close> of them carried content.\<close>

lemma stream_tokens:
  assumes "n = length (filter carries_token es)" "int n < 2 ^ 63"
  shows "let st = observe_events now es (streamed_state now r)
    in rs_tokens st = int n \<and> rs_sawFirstToken st = (n > 0) \<and>
       (n > 0 \<longrightarrow> rs_ttft st = Sub (now 1) (now 0)) \<and>
       rs_interChunk st = Some (map (\<lambda>i. chunk_gap now (Suc i)) [0..<n - 1]) \<and> rs_ticks st = Suc n"
proof -
  let ?s = "streamed_state now r"
  have view: "token_view (observe_events now es ?s) = token_view (observe_tokens now n ?s)"
    using token_view_events assms(1) by blast
  have s: "\<not> rs_sawFirstToken ?s" "rs_tokens ?s = 0" "rs_interChunk ?s = Some []" "rs_ticks ?s = 1" "rs_start ?s = now 0"
    by (simp_all add: streamed_state_def new_state_def)
  show ?thesis
  proof (cases n)
    case 0
    then show ?thesis
      using view s by (simp add: observe_tokens_def token_view_def Let_def)
  next
    case (Suc k)
    have "wrap64 (int n) = int n"
      using assms(2) by (simp add: wrap64_id is_i64_def)
    then show ?thesis
      using view observe_tokens_Suc [OF s(1-3), of now k] Suc
      by (simp add: token_view_def Let_def s)
  qed
qed

text \<open>C18. For a streaming response that is read to its end, however the bytes arrive, let \<open>n\<close> be the number of
  its events that carried generated content. The request is recorded once, under its operation, with the
  status that was written first, and with the time from its admission to its end as its duration. The time
  to first token is observed exactly when there was such an event, and is the time between the admission
  and the clock reading at the first one - not at the headers, a role frame or a comment; the chunks
  counted are these events. The time per output token is observed if there were at least two and the
  decoding took time: what is left of the duration after the first, divided by their number less one. No
  upstream error is counted.\<close>

theorem stream_measured:
  assumes "isEventStream pmt ct" "list_all copies evs" "body_reads evs = whole_read ps p"
    and "n = length (filter carries_token (sse_events (concat ps @ p)))" "int n < 2 ^ 63"
    and "spent = Sub (now (Suc n)) (now 0)" "ttft = Sub (now 1) (now 0)"
  shows "\<exists>cs. mt_calls (serveProxy now pmt r (GotResponse ct # evs) m) = mt_calls m @ cs \<and>
     filter is_request cs = [RequestsAdd (NormalizeOperation (rq_Path r)) (fmt_d (first_status evs)) (Fin 1)] \<and>
     filter is_duration cs = [DurationObserve (NormalizeOperation (rq_Path r)) (Duration_Seconds spent)] \<and>
     filter is_ttft cs = (if n = 0 then [] else [TTFTObserve (Duration_Seconds ttft)]) \<and>
     filter is_tpot cs = (if 2 \<le> n \<and> 0 < wrap64 (spent - ttft)
       then [TPOTObserve (fdiv (Duration_Seconds (wrap64 (spent - ttft))) (f64_of_i64 (int n - 1)))] else []) \<and>
     filter is_chunks cs = (if n = 0 then [] else [OutChunksAdd (f64_of_i64 (int n))]) \<and>
     filter is_upstream cs = []"
proof -
  let ?ex = "rp_run now pmt r (GotResponse ct # evs) (start_exchange now r m)"
  let ?st = "observe_events now (sse_events (concat ps @ p)) (streamed_state now r)"
  have body: "body_state (ex_body ?ex) = ?st"
    using stream_run(1) [OF assms(1,2)] stream_events assms(3) by simp
  note tokens = stream_tokens [OF assms(4,5), of now r, unfolded Let_def]
  have fin: "rs_streamed (final_state now ?ex)" "rs_readErr (final_state now ?ex) = None"
    "rs_tokens (final_state now ?ex) = rs_tokens ?st" "rs_sawFirstToken (final_state now ?ex) = rs_sawFirstToken ?st"
    "rs_ttft (final_state now ?ex) = rs_ttft ?st" "rs_duration (final_state now ?ex) = spent"
    using observe_events_fixed [of now "sse_events (concat ps @ p)" "streamed_state now r"] tokens
    by (simp_all add: final_state_def Let_def body observe_events_readErr fixed_part_def assms(6))
      (simp_all add: streamed_state_def new_state_def)
  have out: "outcome_calls r (final_state now ?ex) = []"
    using fin by (simp add: outcome_calls_def)
  show ?thesis
  proof (rule serveProxy_calls [where now = now and pmt = pmt and r = r and evs = "GotResponse ct # evs" and m = m])
    fix pre errs
    assume calls: "mt_calls (serveProxy now pmt r (GotResponse ct # evs) m) = mt_calls m @ pre @ errs @
        observe_calls (final_state now ?ex) (sr_status (ex_rec ?ex)) @ outcome_calls r (final_state now ?ex)"
      and pre: "filter is_request pre = []" "filter is_duration pre = []" "filter is_ttft pre = []" "filter is_tpot pre = []"
        "filter is_chunks pre = []" "filter is_upstream pre = []"
      and errs: "ex_metrics ?ex = emit errs (metrics_begin (admit r m))"
    have "errs = []"
      using errs stream_run(2) [OF assms(1,2), of now r m] by (intro no_errors [of errs "metrics_begin (admit r m)"]) simp
    moreover have "sr_status (ex_rec ?ex) = first_status evs"
      by (rule stream_run(3) [OF assms(1,2)])
    ultimately show ?thesis
      using calls pre fin out tokens assms(7)
      by (intro exI [of _ "pre @ observe_calls (final_state now ?ex) (first_status evs)"]) (auto simp: final_operation)
  qed
qed

text \<open>A stream that breaks - its last read fails with anything but the end of the body - before the
  terminating frame was seen is counted as exactly one upstream error, attributed to the client when the
  client had gone and to the engine otherwise; and the tokens it had produced until then are counted.\<close>

theorem broken_stream_counted:
  assumes "isEventStream pmt ct" "list_all copies evs"
    and "body_reads evs = map (\<lambda>q. (q, None)) ps @ [(p, Some err)]" "err \<noteq> EOF"
    and "st = so_state (scan now (concat ps @ p) (newStreamObserver (streamed_state now r)))" "\<not> rs_sawDone st"
  shows "\<exists>cs. mt_calls (serveProxy now pmt r (GotResponse ct # evs) m) = mt_calls m @ cs \<and>
     filter is_upstream cs =
       [UpstreamErrorAdd (if err = Canceled \<or> rq_Canceled r then ReasonClientCanceled else ReasonStreamAborted) (Fin 1)] \<and>
     filter is_chunks cs = (if rs_tokens st > 0 then [OutChunksAdd (f64_of_i64 (rs_tokens st))] else [])"
proof -
  let ?ex = "rp_run now pmt r (GotResponse ct # evs) (start_exchange now r m)"
  let ?o = "newStreamObserver (streamed_state now r)"
  have "read_all now (body_reads evs) ?o = snd (Read_stream now (p, Some err) (read_all now (map (\<lambda>q. (q, None)) ps) ?o))"
    by (simp add: read_all_def assms(3))
  also have "\<dots> = (let o1 = scan now (concat ps @ p) ?o in o1\<lparr>so_state := (so_state o1)\<lparr>rs_readErr := Some err\<rparr>\<rparr>)"
    using assms(4) by (simp add: reads_are_scans stream_feed.feed_concat Read_stream_def scan_append scan_wf Let_def)
  finally have body: "body_state (ex_body ?ex) = st\<lparr>rs_readErr := Some err\<rparr>"
    using stream_run(1) [OF assms(1,2)] assms(5) by (simp add: Let_def)
  have "rs_streamed st"
    using scan_fixed [of now "concat ps @ p" ?o]
    by (simp add: assms(5) fixed_part_def newStreamObserver_def streamed_state_def)
  then have fin: "rs_streamed (final_state now ?ex)" "rs_readErr (final_state now ?ex) = Some err"
    "rs_tokens (final_state now ?ex) = rs_tokens st" "\<not> rs_sawDone (final_state now ?ex)"
    using assms(6) by (simp_all add: final_state_def body Let_def)
  show ?thesis
  proof (rule serveProxy_calls [where now = now and pmt = pmt and r = r and evs = "GotResponse ct # evs" and m = m])
    fix pre errs
    assume calls: "mt_calls (serveProxy now pmt r (GotResponse ct # evs) m) = mt_calls m @ pre @ errs @
        observe_calls (final_state now ?ex) (sr_status (ex_rec ?ex)) @ outcome_calls r (final_state now ?ex)"
      and pre: "filter is_chunks pre = []" "filter is_upstream pre = []"
      and errs: "ex_metrics ?ex = emit errs (metrics_begin (admit r m))"
    have "errs = []"
      using errs stream_run(2) [OF assms(1,2), of now r m] by (intro no_errors [of errs "metrics_begin (admit r m)"]) simp
    then show ?thesis
      using calls pre fin by (auto simp: outcome_calls_def)
  qed
qed

section \<open>Failures the counters do not see\<close>

text \<open>An informational status sticks: when the proxy forwards a 1xx response - a 100 Continue, say - the
  recorder takes it for the status of the request, and whatever the engine answers later the request is
  counted under code 100.\<close>

theorem informational_status_sticks:
  "\<exists>cs. mt_calls (serveProxy now pmt r (WriteStatus 100 # evs) m) = mt_calls m @ cs \<and>
     filter is_request cs = [RequestsAdd (NormalizeOperation (rq_Path r)) (fmt_d 100) (Fin 1)]"
proof -
  let ?ex = "rp_run now pmt r (WriteStatus 100 # evs) (start_exchange now r m)"
  have step: "sr_written (ex_rec ex) \<Longrightarrow> ex_rec (rp_step now pmt r ev ex) = ex_rec ex" for ev ex
    by (cases ev) (simp_all add: recorder_WriteHeader_def recorder_Write_def handleUpstreamError_def)
  have run: "sr_written (ex_rec ex) \<Longrightarrow> ex_rec (rp_run now pmt r evs ex) = ex_rec ex" for ex
    by (induction evs arbitrary: ex) (simp_all add: step rp_run_Cons)
  have code: "sr_status (ex_rec ?ex) = 100"
    using run [of "rp_step now pmt r (WriteStatus 100) (start_exchange now r m)"]
    by (simp add: rp_run_Cons start_exchange_def recorder_WriteHeader_def)
  show ?thesis
    by (rule serveProxy_calls [where now = now and pmt = pmt and r = r and evs = "WriteStatus 100 # evs" and m = m])
      (auto simp: final_operation code)
qed

text \<open>A response that is not a stream is not watched for failures: when reading it from the engine
  fails halfway, no upstream error is counted and the request goes down as whatever status was written
  before.\<close>

theorem body_failure_uncounted:
  assumes "\<not> isEventStream pmt ct"
  shows "\<exists>cs. mt_calls (serveProxy now pmt r [GotResponse ct, WriteStatus 200, ReadBody (p, Some ReadFailed)] m) = mt_calls m @ cs \<and>
     filter is_upstream cs = [] \<and>
     filter is_request cs = [RequestsAdd (NormalizeOperation (rq_Path r)) (fmt_d 200) (Fin 1)]"
proof -
  let ?evs = "[GotResponse ct, WriteStatus 200, ReadBody (p, Some ReadFailed)]"
  let ?ex = "rp_run now pmt r ?evs (start_exchange now r m)"
  have st: "\<not> rs_streamed (final_state now ?ex)" "sr_status (ex_rec ?ex) = 200" "ex_metrics ?ex = metrics_begin (admit r m)"
    using assms
    by (simp_all add: rp_run_Cons start_exchange_def modifyResponse_def newUsageObserver_def Read_usage_def new_state_def Let_def
        recorder_WriteHeader_def final_state_def)
  show ?thesis
  proof (rule serveProxy_calls [where now = now and pmt = pmt and r = r and evs = ?evs and m = m])
    fix pre errs
    assume calls: "mt_calls (serveProxy now pmt r ?evs m) = mt_calls m @ pre @ errs @
        observe_calls (final_state now ?ex) (sr_status (ex_rec ?ex)) @ outcome_calls r (final_state now ?ex)"
      and pre: "filter is_request pre = []" "filter is_upstream pre = []"
      and errs: "ex_metrics ?ex = emit errs (metrics_begin (admit r m))"
    have "errs = []"
      using errs st(3) by (intro no_errors [of errs "metrics_begin (admit r m)"]) simp
    then show ?thesis
      using calls pre st by (auto simp: final_operation outcome_calls_def)
  qed
qed

section \<open>Witnesses\<close>

text \<open>One frame with content, cut in three reads and not closed by a blank line; the clock ticks seconds.\<close>

definition sample_frame :: string where
  \<open>sample_frame = ''{"choices":[{"delta":{"content":"hi"}}]}''\<close>

definition sample_clock :: "nat \<Rightarrow> go_time" where
  "sample_clock k = int k * go_Second"

definition sample_request :: request where
  "sample_request = \<lparr>rq_Method = ''POST'', rq_Path = ''/v1/chat/completions'', rq_Canceled = False\<rparr>"

definition sample_metrics :: metrics where
  "sample_metrics = \<lparr>mt_calls = [], mt_concurrency = 4, mt_live = 0\<rparr>"

definition sample_pmt :: "string \<Rightarrow> string \<times> bool" where
  "sample_pmt h = (h, False)"

lemma sample_frame_carries: "carries_token sample_frame"
  by code_simp

lemma sample_no_newline: "newline \<notin> set (''data: '' @ sample_frame)"
  by code_simp

lemma sample_events: "sse_events (concat [''data: '', sample_frame] @ [newline]) = [sample_frame, []]"
proof -
  let ?l = "''data: '' @ sample_frame"
  have l: "TrimSuffix_CR ?l = ?l" "data_line ?l" "payload_of ?l = sample_frame" "\<not> too_long ?l"
    by (simp_all add: sample_frame_def TrimSuffix_CR_def data_line_def json_prefix_def sseDataPrefix_def payload_of_def
        TrimPrefix_space_def too_long_def maxSSELine_def)
  have "segments (?l @ [newline]) = [?l, []]"
    using segments_line [OF sample_no_newline, of "[]"] by simp
  moreover have "\<not> blank_line ?l" "blank_line []"
    using l(1) by (simp_all add: blank_line_def TrimSuffix_CR_def)
  moreover have "block_event [?l] = Some sample_frame" "block_event [] = Some []"
    using l by (simp_all add: block_event_def resume_block_def) (simp add: maxSSELine_def sample_frame_def)
  ultimately show ?thesis
    by (simp add: sse_events_def map_filter_simps)
qed

lemma sample_stream_type: "isEventStream sample_pmt contentTypeSSE" "\<not> isEventStream sample_pmt contentTypeJSON"
  by code_simp+

theorem stream_measured_witness:
  "\<exists>cs. mt_calls (serveProxy sample_clock sample_pmt sample_request
       [GotResponse contentTypeSSE, WriteStatus 200, ReadBody (''data: '', None), WriteBytes,
        ReadBody (sample_frame, None), WriteBytes, ReadBody ([newline], Some EOF)] sample_metrics) = cs \<and>
     filter is_ttft cs = [TTFTObserve (Fin 1)] \<and> filter is_chunks cs = [OutChunksAdd (Fin 1)]"
proof -
  let ?evs = "[WriteStatus 200, ReadBody (''data: '', None), WriteBytes, ReadBody (sample_frame, None), WriteBytes,
    ReadBody ([newline], Some EOF)]"
  have "\<not> carries_token []"
    by code_simp
  then have n: "1 = length (filter carries_token (sse_events (concat [''data: '', sample_frame] @ [newline])))"
    by (simp only: sample_events) (simp add: sample_frame_carries)
  have secs: "Duration_Seconds (Sub (sample_clock (Suc 0)) (sample_clock 0)) = Fin 1"
    by (simp add: sample_clock_def Sub_def Duration_Seconds_def go_Second_def sdiv_nonneg f64_of_i64_def Let_def)
  have "list_all copies ?evs" "body_reads ?evs = whole_read [''data: '', sample_frame] [newline]"
    by (simp_all add: whole_read_def)
  from stream_measured [OF sample_stream_type(1) this n _ refl refl, of sample_clock sample_request sample_metrics]
  show ?thesis
    by (simp add: secs sample_metrics_def f64_of_i64_def)
qed

theorem broken_stream_counted_witness:
  "\<exists>cs. mt_calls (serveProxy sample_clock sample_pmt sample_request
       [GotResponse contentTypeSSE, WriteStatus 200, ReadBody (''data'', Some ReadFailed)] sample_metrics) = cs \<and>
     filter is_upstream cs = [UpstreamErrorAdd ReasonStreamAborted (Fin 1)]"
proof -
  let ?evs = "[WriteStatus 200, ReadBody (''data'', Some ReadFailed)]"
  have nl: "newline \<notin> set ''data''"
    by code_simp
  have "list_all copies ?evs" "body_reads ?evs = map (\<lambda>q. (q, None)) [] @ [(''data'', Some ReadFailed)]"
    by simp_all
  moreover have "\<not> rs_sawDone (so_state (scan sample_clock (concat [] @ ''data'')
      (newStreamObserver (streamed_state sample_clock sample_request))))"
    using scan_partial [OF nl]
    by (simp add: appendPartial_def newStreamObserver_def streamed_state_def new_state_def maxSSELine_def)
  ultimately show ?thesis
    using broken_stream_counted [OF sample_stream_type(1) _ _ _ refl, of ?evs "[]" "''data''" ReadFailed sample_clock
        sample_request sample_metrics]
    by (simp add: sample_metrics_def sample_request_def)
qed

theorem body_failure_uncounted_witness:
  "\<exists>cs. mt_calls (serveProxy sample_clock sample_pmt sample_request
       [GotResponse contentTypeJSON, WriteStatus 200, ReadBody (''x'', Some ReadFailed)] sample_metrics) = cs \<and>
     filter is_upstream cs = []"
  using body_failure_uncounted [OF sample_stream_type(2), of sample_clock sample_request "''x''" sample_metrics]
  by (auto simp: sample_metrics_def)

end
