(* ===== verification/Revision_Hash.thy ===== *)
theory Revision_Hash
  imports Children Go_Json
begin

text \<open>
  Revision identity (\<open>internal/revision/hash.go\<close>) and the resolution of defaults that comes before it
  (\<open>resolvedRevisionSpec\<close> and \<open>mergeWorkloadSpec\<close> of \<open>internal/controller/revision_snapshot.go\<close>). The
  JSON encoding of the API types rests on generated code and is the parameter \<open>Codec\<close>; the header that
  carries the payload's version is decoded by the model of \<open>encoding/json\<close> itself. \<open>codec_restores\<close> is
  what is assumed of the encoding of one payload: it can be read back, and its header names its version.
\<close>

section \<open>Wire formats\<close>

record revisionServing =
  rsv_Port :: i32
  rsv_Shim :: ShimSpec

record revisionInput =
  ri_Model :: ModelSpec
  ri_Engine :: EngineSpec
  ri_Serving :: revisionServing

record workloadServingV2 =
  wsv_StartupTimeout :: "go_duration option"
  wsv_Shim :: ShimSpec

record workloadV2 =
  wl_Model :: ModelSpec
  wl_Engine :: EngineSpec
  wl_Serving :: workloadServingV2

record versionedPayload =
  vpl_Version :: string
  vpl_Workload :: workloadV2

definition PayloadVersionV2 :: string where "PayloadVersionV2 = ''v2''"

record Snapshot =
  sn_Revision :: string
  sn_Raw :: string

record Decoded =
  de_Spec :: ModelDeploymentSpec
  de_Version :: string

definition Legacy :: "Decoded \<Rightarrow> bool" where
  "Legacy d \<longleftrightarrow> de_Version d = ''''"

record Codec =
  co_SafeEncode :: "string \<Rightarrow> string"
  co_MarshalV2 :: "versionedPayload \<Rightarrow> string + string"
  co_MarshalLegacy :: "revisionInput \<Rightarrow> string + string"
  co_UnmarshalV2 :: "string \<Rightarrow> string + versionedPayload"
  co_UnmarshalLegacy :: "string \<Rightarrow> string + revisionInput"

definition zero_spec :: ModelDeploymentSpec where
  "zero_spec = \<lparr>sp_Replicas = None,
     sp_Model = \<lparr>mo_Name = '''', mo_Source = \<lparr>so_Image = None, so_HuggingFace = None, so_PersistentVolumeClaim = None\<rparr>\<rparr>,
     sp_Engine = \<lparr>en_Type = '''', en_Image = '''', en_ImagePullPolicy = '''', en_ContextSize = None,
       en_MaxConcurrency = None, en_Threads = None, en_ExtraArgs = [], en_Env = [], en_Resources = zero_resources,
       en_APIKeySecretRef = None\<rparr>,
     sp_Serving = \<lparr>sv_Port = 0, sv_StartupTimeout = None, sv_Shim = zero_shim\<rparr>,
     sp_Rollout = \<lparr>ro_Type = RolloutOther '''', ro_MaxSurge = None, ro_MaxUnavailable = None,
       ro_ProgressDeadline = None, ro_AutoRollback = None, ro_Canary = None\<rparr>,
     sp_Observability = \<lparr>ob_ServiceMonitor = None, ob_PrometheusRule = None, ob_SLO = None\<rparr>,
     sp_Autoscaling = None\<rparr>"

section \<open>Hashing and encoding\<close>

definition hashBytes :: "(string \<Rightarrow> string) \<Rightarrow> string \<Rightarrow> string" where
  "hashBytes enc data = enc (fmt_d (uint (fnv32a data)))"

definition validateEffectiveSpec :: "ModelDeploymentSpec \<Rightarrow> string option" where
  "validateEffectiveSpec spec =
     (let e = sp_Engine spec; shim = sv_Shim (sp_Serving spec)
      in if en_Type e = '''' then Some ''revision: effective engine type is empty''
         else if en_Image e = '''' then Some ''revision: effective engine image is empty''
         else if en_ImagePullPolicy e = '''' then Some ''revision: effective engine image pull policy is empty''
         else if en_ContextSize e = None then Some ''revision: effective engine context size is unresolved''
         else if en_MaxConcurrency e = None then Some ''revision: effective engine concurrency is unresolved''
         else if en_Threads e = None then Some ''revision: effective engine thread count is unresolved''
         else if sv_StartupTimeout (sp_Serving spec) = None then Some ''revision: effective startup timeout is unresolved''
         else if sh_Enabled shim = None then Some ''revision: effective shim enablement is unresolved''
         else if (case so_Image (mo_Source (sp_Model spec)) of
                    Some isrc \<Rightarrow> im_Path isrc = '''' \<or> im_PullPolicy isrc = '''' | None \<Rightarrow> False)
           then Some ''revision: effective model image path or pull policy is unresolved''
         else if ShimEnabled (sp_Serving spec) \<and> (sh_Image shim = '''' \<or> sh_LogLevel shim = '''' \<or>
             rq_Requests (sh_Resources shim) = [] \<and> rq_Limits (sh_Resources shim) = [])
           then Some ''revision: effective shim image, log level, or resources are unresolved''
         else None)"

definition workload_payload :: "ModelDeploymentSpec \<Rightarrow> versionedPayload" where
  "workload_payload spec = \<lparr>vpl_Version = PayloadVersionV2,
     vpl_Workload = \<lparr>wl_Model = sp_Model spec, wl_Engine = sp_Engine spec,
       wl_Serving = \<lparr>wsv_StartupTimeout = sv_StartupTimeout (sp_Serving spec), wsv_Shim = sv_Shim (sp_Serving spec)\<rparr>\<rparr>\<rparr>"

definition NewSnapshot :: "Codec \<Rightarrow> ModelDeploymentSpec option \<Rightarrow> string + Snapshot" where
  "NewSnapshot codec spec =
     (case spec of
        None \<Rightarrow> Inl ''revision: cannot snapshot a nil effective workload''
      | Some s \<Rightarrow>
          (case validateEffectiveSpec s of
             Some e \<Rightarrow> Inl e
           | None \<Rightarrow>
               (case co_MarshalV2 codec (workload_payload s) of
                  Inl e \<Rightarrow> Inl (''revision: encoding '' @ PayloadVersionV2 @ '' payload: '' @ e)
                | Inr raw \<Rightarrow> Inr \<lparr>sn_Revision = hashBytes (co_SafeEncode codec) raw, sn_Raw = raw\<rparr>)))"

text \<open>The header struct \<open>{version string}\<close>.\<close>

definition dec_header :: "json \<Rightarrow> string \<Rightarrow> string option" where
  "dec_header = dec_struct (\<lambda>k v x. if key_is ''version'' k then dec_string v x else Some x)"

definition Decode :: "Codec \<Rightarrow> string \<Rightarrow> string + Decoded" where
  "Decode codec raw =
     (if raw = [] then Inl ''revision: empty payload''
      else (case Unmarshal dec_header '''' raw of
              None \<Rightarrow> Inl ''revision: decoding payload header''
            | Some version \<Rightarrow>
                if version = '''' then
                  (case co_UnmarshalLegacy codec raw of
                     Inl e \<Rightarrow> Inl (''revision: decoding legacy payload: '' @ e)
                   | Inr legacy \<Rightarrow>
                       Inr \<lparr>de_Spec = zero_spec\<lparr>sp_Model := ri_Model legacy, sp_Engine := ri_Engine legacy,
                         sp_Serving := \<lparr>sv_Port = rsv_Port (ri_Serving legacy), sv_StartupTimeout = None,
                           sv_Shim = rsv_Shim (ri_Serving legacy)\<rparr>\<rparr>, de_Version = ''''\<rparr>)
                else if version \<noteq> PayloadVersionV2 then
                  Inl (''revision: unsupported payload version '' @ go_Quote version)
                else (case co_UnmarshalV2 codec raw of
                        Inl e \<Rightarrow> Inl (''revision: decoding '' @ PayloadVersionV2 @ '' payload: '' @ e)
                      | Inr payload \<Rightarrow>
                          Inr \<lparr>de_Spec = zero_spec\<lparr>sp_Model := wl_Model (vpl_Workload payload),
                            sp_Engine := wl_Engine (vpl_Workload payload),
                            sp_Serving := \<lparr>sv_Port = 0,
                              sv_StartupTimeout = wsv_StartupTimeout (wl_Serving (vpl_Workload payload)),
                              sv_Shim = wsv_Shim (wl_Serving (vpl_Workload payload))\<rparr>\<rparr>,
                            de_Version = vpl_Version payload\<rparr>)))"

definition revisionPayload :: "ModelDeploymentSpec option \<Rightarrow> revisionInput" where
  "revisionPayload spec =
     (let s = (case spec of None \<Rightarrow> zero_spec | Some x \<Rightarrow> x)
      in \<lparr>ri_Model = sp_Model s, ri_Engine = sp_Engine s,
          ri_Serving = \<lparr>rsv_Port = sv_Port (sp_Serving s), rsv_Shim = sv_Shim (sp_Serving s)\<rparr>\<rparr>)"

definition Encode :: "Codec \<Rightarrow> ModelDeploymentSpec option \<Rightarrow> string + string" where
  "Encode codec spec = co_MarshalLegacy codec (revisionPayload spec)"

definition Hash :: "Codec \<Rightarrow> ModelDeploymentSpec option \<Rightarrow> string" where
  "Hash codec spec =
     hashBytes (co_SafeEncode codec)
       (case Encode codec spec of Inr data \<Rightarrow> data | Inl e \<Rightarrow> ''llmcp: revision encode error: '' @ e)"

section \<open>Resolving defaults\<close>

definition defaultModelImagePath :: string where "defaultModelImagePath = ''/weights/model.gguf''"
definition defaultShimLogLevel :: string where "defaultShimLogLevel = ''info''"
definition defaultStartupTimeout :: go_duration where "defaultStartupTimeout = 300 * go_Second"
definition defaultContextSize :: i32 where "defaultContextSize = 4096"
definition defaultMaxConcurrency :: i32 where "defaultMaxConcurrency = 4"

definition or_default :: "string \<Rightarrow> string \<Rightarrow> string" where
  "or_default s d = (if s = '''' then d else s)"

definition or_some :: "'a option \<Rightarrow> 'a \<Rightarrow> 'a option" where
  "or_some p d = (case p of None \<Rightarrow> Some d | Some x \<Rightarrow> Some x)"

definition resolve_image :: "ImageModelSource \<Rightarrow> ImageModelSource" where
  "resolve_image isrc = isrc\<lparr>im_Path := or_default (im_Path isrc) defaultModelImagePath,
     im_PullPolicy := or_default (im_PullPolicy isrc) PullIfNotPresent\<rparr>"

text \<open>The thread count is resolved last, from the engine block resolved so far.\<close>

definition resolve_engine :: "Profile \<Rightarrow> ModelDeploymentSpec \<Rightarrow> EngineSpec" where
  "resolve_engine prof spec =
     (let e = sp_Engine spec;
          e = e\<lparr>en_Type := or_default (en_Type e) (pf_Type prof), en_Image := or_default (en_Image e) (pf_DefaultImage prof),
            en_ImagePullPolicy := or_default (en_ImagePullPolicy e) PullIfNotPresent,
            en_ContextSize := or_some (en_ContextSize e) defaultContextSize,
            en_MaxConcurrency := or_some (en_MaxConcurrency e) defaultMaxConcurrency\<rparr>
      in e\<lparr>en_Threads := or_some (en_Threads e) (ThreadsFor (Some (spec\<lparr>sp_Engine := e\<rparr>)) 1)\<rparr>)"

definition resolve_shim :: "(string \<Rightarrow> quantity) \<Rightarrow> renderOptions \<Rightarrow> ServingSpec \<Rightarrow> ShimSpec" where
  "resolve_shim parse opts sv =
     (if \<not> ShimEnabled sv then zero_shim\<lparr>sh_Enabled := Some False\<rparr>
      else (let shim = (sv_Shim sv)\<lparr>sh_Enabled := Some True,
                  sh_Image := or_default (sh_Image (sv_Shim sv)) (shimImage opts),
                  sh_LogLevel := or_default (sh_LogLevel (sv_Shim sv)) defaultShimLogLevel\<rparr>
            in shim\<lparr>sh_Resources := shimResources parse shim\<rparr>))"

definition resolvedRevisionSpec ::
  "(string \<Rightarrow> quantity) \<Rightarrow> ModelDeployment \<Rightarrow> Profile \<Rightarrow> renderOptions \<Rightarrow> ModelDeploymentSpec" where
  "resolvedRevisionSpec parse md prof opts =
     (let spec = md_Spec md;
          src = mo_Source (sp_Model spec);
          spec = spec\<lparr>sp_Model := (sp_Model spec)\<lparr>mo_Source := src\<lparr>so_Image := map_option resolve_image (so_Image src)\<rparr>\<rparr>\<rparr>;
          spec = spec\<lparr>sp_Engine := resolve_engine prof spec\<rparr>;
          sv = sp_Serving spec
      in spec\<lparr>sp_Serving := sv\<lparr>sv_StartupTimeout := or_some (sv_StartupTimeout sv) defaultStartupTimeout,
           sv_Shim := resolve_shim parse opts sv\<rparr>\<rparr>)"

definition mergeWorkloadSpec :: "ModelDeploymentSpec \<Rightarrow> ModelDeploymentSpec \<Rightarrow> bool \<Rightarrow> ModelDeploymentSpec" where
  "mergeWorkloadSpec live workload legacy =
     live\<lparr>sp_Model := sp_Model workload, sp_Engine := sp_Engine workload,
       sp_Serving := (sp_Serving live)\<lparr>sv_StartupTimeout := sv_StartupTimeout (sp_Serving workload),
         sv_Shim := sv_Shim (sp_Serving workload),
         sv_Port := (if legacy then sv_Port (sp_Serving workload) else sv_Port (sp_Serving live))\<rparr>\<rparr>"

section \<open>Identity\<close>

definition codec_restores :: "Codec \<Rightarrow> versionedPayload \<Rightarrow> bool" where
  "codec_restores codec p \<longleftrightarrow>
     (\<forall>raw. co_MarshalV2 codec p = Inr raw \<longrightarrow>
        co_UnmarshalV2 codec raw = Inr p \<and> Unmarshal dec_header '''' raw = Some (vpl_Version p))"

definition same_workload :: "ModelDeploymentSpec \<Rightarrow> ModelDeploymentSpec \<Rightarrow> bool" where
  "same_workload a b \<longleftrightarrow> sp_Model a = sp_Model b \<and> sp_Engine a = sp_Engine b \<and>
     sv_StartupTimeout (sp_Serving a) = sv_StartupTimeout (sp_Serving b) \<and> sv_Shim (sp_Serving a) = sv_Shim (sp_Serving b)"

lemma same_workload_payload: "workload_payload a = workload_payload b \<longleftrightarrow> same_workload a b"
  by (auto simp: workload_payload_def same_workload_def)

lemma same_workload_valid:
  assumes "same_workload a b"
  shows "validateEffectiveSpec a = validateEffectiveSpec b"
proof -
  have "ShimEnabled (sp_Serving a) = ShimEnabled (sp_Serving b)"
    using assms by (simp add: same_workload_def ShimEnabled_def)
  then show ?thesis
    using assms unfolding same_workload_def validateEffectiveSpec_def by (simp only:)
qed

lemma same_workload_snapshot: "same_workload a b \<Longrightarrow> NewSnapshot codec (Some a) = NewSnapshot codec (Some b)"
  by (simp only: NewSnapshot_def option.case same_workload_payload [THEN iffD2] same_workload_valid)

text \<open>Scaling, changing the rollout policy, the autoscaling or observability settings, or the Service
  port never changes a revision's identity or its stored bytes: they are a function of the model, engine,
  startup timeout and sidecar alone.\<close>

theorem snapshot_ignores_policy:
  "NewSnapshot codec (Some (spec\<lparr>sp_Replicas := n, sp_Rollout := ro, sp_Observability := ob, sp_Autoscaling := au,
     sp_Serving := (sp_Serving spec)\<lparr>sv_Port := port\<rparr>\<rparr>)) = NewSnapshot codec (Some spec)"
  by (rule same_workload_snapshot) (simp add: same_workload_def)

lemma snapshot_decodes:
  assumes "NewSnapshot codec (Some spec) = Inr snap" "codec_restores codec (workload_payload spec)"
  shows "\<exists>d. Decode codec (sn_Raw snap) = Inr d \<and> sn_Raw snap \<noteq> [] \<and> \<not> Legacy d \<and> (\<forall>live.
     let m = mergeWorkloadSpec live (de_Spec d) False in same_workload m spec \<and>
     sp_Replicas m = sp_Replicas live \<and> sp_Rollout m = sp_Rollout live \<and> sp_Autoscaling m = sp_Autoscaling live \<and>
     sp_Observability m = sp_Observability live \<and> sv_Port (sp_Serving m) = sv_Port (sp_Serving live))"
proof -
  have "co_MarshalV2 codec (workload_payload spec) = Inr (sn_Raw snap)"
    using assms(1) by (auto simp: NewSnapshot_def split: option.splits sum.splits)
  then have raw: "co_UnmarshalV2 codec (sn_Raw snap) = Inr (workload_payload spec)"
    "Unmarshal dec_header '''' (sn_Raw snap) = Some PayloadVersionV2"
    using assms(2) by (simp_all add: codec_restores_def workload_payload_def)
  have "Unmarshal dec_header '''' [] = None"
    by (simp add: Unmarshal_def parse_json_def skip_ws_def numeral_2_eq_2)
  then have "sn_Raw snap \<noteq> []"
    using raw(2) by auto
  then show ?thesis
    using raw
    by (simp add: Let_def Decode_def PayloadVersionV2_def Legacy_def workload_payload_def mergeWorkloadSpec_def same_workload_def)
qed

text \<open>A stored revision rolls back exactly the workload: decoding the bytes a snapshot stored and merging
  them over any live specification gives the recorded model, engine, startup timeout and sidecar, and
  leaves the live replica count, rollout policy, autoscaling, observability and Service port alone.\<close>

theorem rollback_restores_workload:
  assumes "NewSnapshot codec (Some spec) = Inr snap" "codec_restores codec (workload_payload spec)"
  shows "\<exists>d. Decode codec (sn_Raw snap) = Inr d \<and> \<not> Legacy d \<and>
     same_workload (mergeWorkloadSpec live (de_Spec d) (Legacy d)) spec \<and>
     sp_Replicas (mergeWorkloadSpec live (de_Spec d) (Legacy d)) = sp_Replicas live \<and>
     sp_Rollout (mergeWorkloadSpec live (de_Spec d) (Legacy d)) = sp_Rollout live \<and>
     sp_Autoscaling (mergeWorkloadSpec live (de_Spec d) (Legacy d)) = sp_Autoscaling live \<and>
     sp_Observability (mergeWorkloadSpec live (de_Spec d) (Legacy d)) = sp_Observability live \<and>
     sv_Port (sp_Serving (mergeWorkloadSpec live (de_Spec d) (Legacy d))) = sv_Port (sp_Serving live)"
  using snapshot_decodes [OF assms] by (auto simp: Let_def)

text \<open>A payload whose header names a version this build does not know is refused, whatever else it
  holds; it is never read as the current format or as the old one.\<close>

theorem unknown_version_fails_closed:
  assumes "Unmarshal dec_header '''' raw = Some v" "v \<noteq> ''''" "v \<noteq> PayloadVersionV2"
  shows "\<exists>e. Decode codec raw = Inl e"
  using assms by (auto simp: Decode_def)

lemma shimResources_nonempty:
  "rq_Requests (shimResources parse shim) \<noteq> [] \<or> rq_Limits (shimResources parse shim) \<noteq> []"
  by (auto simp: shimResources_def)

lemma resolve_engine_cong:
  assumes "sp_Engine s1 = sp_Engine s2"
  shows "resolve_engine prof s1 = resolve_engine prof s2"
proof -
  have "ThreadsFor (Some (s1\<lparr>sp_Engine := e\<rparr>)) n = ThreadsFor (Some (s2\<lparr>sp_Engine := e\<rparr>)) n" for e n
    by (simp add: ThreadsFor_def Let_def split: option.splits)
  then show ?thesis
    using assms by (simp add: resolve_engine_def Let_def)
qed

text \<open>The blocks of a resolved specification.\<close>

lemma resolved_blocks:
  fixes parse md prof opts
  defines "s \<equiv> resolvedRevisionSpec parse md prof opts"
  shows "so_Image (mo_Source (sp_Model s)) = map_option resolve_image (md_Image md)"
    and "sv_StartupTimeout (sp_Serving s) = or_some (sv_StartupTimeout (sp_Serving (md_Spec md))) defaultStartupTimeout"
    and "sv_Shim (sp_Serving s) = resolve_shim parse opts (sp_Serving (md_Spec md))"
    and "sp_Engine s = resolve_engine prof (md_Spec md)"
  unfolding s_def resolvedRevisionSpec_def Let_def by (simp_all, rule resolve_engine_cong, simp)

lemma or_default_nonempty: "d \<noteq> '''' \<Longrightarrow> or_default x d \<noteq> ''''"
  by (simp add: or_default_def)

lemma or_some_Some: "or_some x d \<noteq> None"
  by (simp add: or_some_def split: option.splits)

lemma resolve_engine_set:
  "pf_Type prof \<noteq> '''' \<Longrightarrow> en_Type (resolve_engine prof spec) \<noteq> ''''"
  "pf_DefaultImage prof \<noteq> '''' \<Longrightarrow> en_Image (resolve_engine prof spec) \<noteq> ''''"
  "en_ImagePullPolicy (resolve_engine prof spec) \<noteq> ''''" "en_ContextSize (resolve_engine prof spec) \<noteq> None"
  "en_MaxConcurrency (resolve_engine prof spec) \<noteq> None" "en_Threads (resolve_engine prof spec) \<noteq> None"
  by (simp_all add: resolve_engine_def Let_def or_default_nonempty or_some_Some PullIfNotPresent_def del: not_None_eq)

lemma resolve_shim_set:
  "sh_Enabled (resolve_shim parse opts sv) = Some (ShimEnabled sv)"
  "ShimEnabled sv \<Longrightarrow> sh_Image (resolve_shim parse opts sv) \<noteq> '''' \<and> sh_LogLevel (resolve_shim parse opts sv) \<noteq> '''' \<and>
     (rq_Requests (sh_Resources (resolve_shim parse opts sv)) \<noteq> [] \<or> rq_Limits (sh_Resources (resolve_shim parse opts sv)) \<noteq> [])"
  using shimResources_nonempty
  by (simp_all add: resolve_shim_def Let_def or_default_nonempty shimImage_def DefaultShimImage_def defaultShimLogLevel_def)

lemma resolve_image_set: "im_Path (resolve_image i) \<noteq> '''' \<and> im_PullPolicy (resolve_image i) \<noteq> ''''"
  by (simp add: resolve_image_def or_default_nonempty defaultModelImagePath_def PullIfNotPresent_def)

text \<open>Resolving defaults is enough for a snapshot: for a profile with a type and a default image, what
  resolution returns is never refused as unresolved, so the only way a snapshot can fail is the encoder.\<close>

theorem resolved_spec_snapshots:
  assumes "pf_Type prof \<noteq> ''''" "pf_DefaultImage prof \<noteq> ''''"
  shows "validateEffectiveSpec (resolvedRevisionSpec parse md prof opts) = None"
proof -
  let ?s = "resolvedRevisionSpec parse md prof opts"
  have shim: "ShimEnabled (sp_Serving ?s) = ShimEnabled (sp_Serving (md_Spec md))"
    by (simp add: ShimEnabled_def [of "sp_Serving ?s"] resolved_blocks resolve_shim_set)
  have img: "\<not> (case so_Image (mo_Source (sp_Model ?s)) of Some isrc \<Rightarrow> im_Path isrc = '''' \<or> im_PullPolicy isrc = '''' | None \<Rightarrow> False)"
    using resolve_image_set by (simp add: resolved_blocks split: option.splits)
  show ?thesis
    using resolve_engine_set(1) [OF assms(1), of "md_Spec md"] resolve_engine_set(2) [OF assms(2), of "md_Spec md"]
      resolve_engine_set(3-6) [of prof "md_Spec md"] or_some_Some [of _ defaultStartupTimeout] resolve_shim_set img
    unfolding validateEffectiveSpec_def Let_def shim by (simp add: resolved_blocks del: not_None_eq)
qed

lemma or_default_idem: "or_default (or_default x d) d = or_default x d"
  by (simp add: or_default_def)

lemma or_some_idem: "or_some (or_some x d) e = or_some x d"
  by (simp add: or_some_def split: option.splits)

lemma resolve_image_idem: "resolve_image (resolve_image i) = resolve_image i"
  by (simp add: resolve_image_def or_default_idem)

lemma resolve_engine_idem:
  "sp_Engine spec2 = resolve_engine prof spec \<Longrightarrow> resolve_engine prof spec2 = resolve_engine prof spec"
  by (simp add: resolve_engine_def Let_def or_default_idem or_some_idem)

lemma shimResources_idem:
  "sh_Resources shim = shimResources parse shim0 \<Longrightarrow> shimResources parse shim = shimResources parse shim0"
  using shimResources_nonempty [of parse shim0] by (simp add: shimResources_def [of parse shim])

lemma resolve_shim_on:
  assumes "ShimEnabled sv"
  shows "sh_Image (resolve_shim parse opts sv) = or_default (sh_Image (sv_Shim sv)) (shimImage opts)"
    and "sh_LogLevel (resolve_shim parse opts sv) = or_default (sh_LogLevel (sv_Shim sv)) defaultShimLogLevel"
    and "sh_Resources (resolve_shim parse opts sv) = shimResources parse (sv_Shim sv)"
  using assms by (simp_all add: resolve_shim_def Let_def shimResources_def)

lemma resolve_shim_idem:
  assumes "sv_Shim sv2 = resolve_shim parse opts sv"
  shows "resolve_shim parse opts sv2 = resolve_shim parse opts sv"
proof -
  have same: "ShimEnabled sv2 = ShimEnabled sv"
    using assms by (simp add: ShimEnabled_def [of sv2] resolve_shim_set)
  show ?thesis
  proof (cases "ShimEnabled sv")
    case True
    then show ?thesis
      using same assms shimResources_idem [of "sv_Shim sv2" parse "sv_Shim sv"]
      by (intro ShimSpec.equality) (simp_all add: resolve_shim_set resolve_shim_on or_default_idem)
  next
    case False
    then show ?thesis
      using same by (simp add: resolve_shim_def)
  qed
qed

text \<open>Resolution is idempotent, so that a specification that was already resolved - one read back from
  history - keeps its identity when it goes through resolution again.\<close>

theorem resolve_idempotent:
  "resolvedRevisionSpec parse (md\<lparr>md_Spec := resolvedRevisionSpec parse md prof opts\<rparr>) prof opts =
   resolvedRevisionSpec parse md prof opts"
proof -
  let ?s = "resolvedRevisionSpec parse md prof opts"
  let ?t = "resolvedRevisionSpec parse (md\<lparr>md_Spec := ?s\<rparr>) prof opts"
  have "so_Image (mo_Source (sp_Model ?t)) = so_Image (mo_Source (sp_Model ?s))"
    by (simp add: resolved_blocks option.map_comp o_def resolve_image_idem)
  moreover have "sp_Engine ?t = sp_Engine ?s"
    using resolve_engine_idem [of ?s prof "md_Spec md"] by (simp add: resolved_blocks)
  moreover have "sv_StartupTimeout (sp_Serving ?t) = sv_StartupTimeout (sp_Serving ?s)"
    by (simp add: resolved_blocks or_some_idem)
  moreover have "sv_Shim (sp_Serving ?t) = sv_Shim (sp_Serving ?s)"
    using resolve_shim_idem [of "sp_Serving ?s" parse opts "sp_Serving (md_Spec md)"] by (simp add: resolved_blocks)
  moreover have rest: "mo_Name (sp_Model ?t) = mo_Name (sp_Model ?s)"
    "so_HuggingFace (mo_Source (sp_Model ?t)) = so_HuggingFace (mo_Source (sp_Model ?s))"
    "so_PersistentVolumeClaim (mo_Source (sp_Model ?t)) = so_PersistentVolumeClaim (mo_Source (sp_Model ?s))"
    "sv_Port (sp_Serving ?t) = sv_Port (sp_Serving ?s)" "sp_Replicas ?t = sp_Replicas ?s" "sp_Rollout ?t = sp_Rollout ?s"
    "sp_Observability ?t = sp_Observability ?s" "sp_Autoscaling ?t = sp_Autoscaling ?s"
    by (simp_all add: resolvedRevisionSpec_def Let_def)
  ultimately show ?thesis
    by (intro ModelDeploymentSpec.equality ModelSpec.equality ModelSourceSpec.equality ServingSpec.equality) simp_all
qed

section \<open>Witnesses\<close>

text \<open>A codec that knows one payload.\<close>

definition sample_raw :: string where
  \<open>sample_raw = ''{"version":"v2","workload":{}}''\<close>

definition sample_codec :: "ModelDeploymentSpec \<Rightarrow> Codec" where
  "sample_codec spec = \<lparr>co_SafeEncode = sample_encoder, co_MarshalV2 = (\<lambda>_. Inr sample_raw), co_MarshalLegacy = (\<lambda>_. Inr ''{}''),
     co_UnmarshalV2 = (\<lambda>_. Inr (workload_payload spec)), co_UnmarshalLegacy = (\<lambda>_. Inl ''unused'')\<rparr>"

definition sample_resolved :: ModelDeploymentSpec where
  "sample_resolved = resolvedRevisionSpec (\<lambda>s. \<lparr>q_MilliValue = 0, q_String = s\<rparr>)
     (sample_workload_md (sample_workload [] 2000)) llamaCPP \<lparr>op_ShimImage = ''''\<rparr>"

lemma sample_header: "Unmarshal dec_header '''' sample_raw = Some ''v2''"
  by code_simp

lemma llamaCPP_named: "pf_Type llamaCPP \<noteq> ''''" "pf_DefaultImage llamaCPP \<noteq> ''''"
  by (simp_all add: llamaCPP_def EngineLlamaCPP_def LlamaCPPDefaultImage_def)

theorem resolved_spec_snapshots_witness:
  "validateEffectiveSpec (resolvedRevisionSpec (\<lambda>s. \<lparr>q_MilliValue = 0, q_String = s\<rparr>)
     (sample_workload_md (sample_workload [] 2000)) llamaCPP \<lparr>op_ShimImage = ''''\<rparr>) = None"
  by (rule resolved_spec_snapshots [OF llamaCPP_named])

lemma sample_resolved_valid: "validateEffectiveSpec sample_resolved = None"
  unfolding sample_resolved_def by code_simp

theorem rollback_restores_workload_witness:
  "\<exists>snap d. NewSnapshot (sample_codec sample_resolved) (Some sample_resolved) = Inr snap \<and>
     Decode (sample_codec sample_resolved) (sn_Raw snap) = Inr d \<and>
     same_workload (mergeWorkloadSpec (sample_workload [''--new''] 500) (de_Spec d) (Legacy d)) sample_resolved"
proof -
  let ?codec = "sample_codec sample_resolved"
  obtain snap where snap: "NewSnapshot ?codec (Some sample_resolved) = Inr snap"
    by (simp add: NewSnapshot_def sample_resolved_valid sample_codec_def)
  have "codec_restores ?codec (workload_payload sample_resolved)"
    using sample_header by (simp add: codec_restores_def sample_codec_def workload_payload_def PayloadVersionV2_def)
  from rollback_restores_workload [OF snap this, of "sample_workload [''--new''] 500"] snap show ?thesis
    by blast
qed

theorem unknown_version_fails_closed_witness:
  \<open>\<exists>e. Decode (sample_codec sample_resolved) ''{"version":"v3"}'' = Inl e\<close>
proof -
  have \<open>Unmarshal dec_header '''' ''{"version":"v3"}'' = Some ''v3''\<close>
    by code_simp
  from unknown_version_fails_closed [OF this] show ?thesis
    by (simp add: PayloadVersionV2_def)
qed

end
