(* ===== verification/Revision_History.thy ===== *)
theory Revision_History
  imports Revision_Hash Go_Sort
begin

text \<open>
  Revision history as \<open>ControllerRevision\<close> objects (\<open>internal/revision/history.go\<close>) and the controller's use
  of it (\<open>recordRevision\<close> in \<open>internal/controller/modeldeployment_controller.go\<close>). The API server is a
  list of objects with a key each. Reads go through a cache that may lag: a \<open>HistoryView\<close> is what one
  read sees, or its error. Writes act on the server's list and may fail for other reasons, which are
  arguments too. The locale \<open>keyed_history\<close> states what the history relies on of the server's store.
\<close>

section \<open>Objects and the server\<close>

record ControllerRevision =
  cr_Namespace :: string
  cr_Name :: string
  cr_Labels :: labels
  cr_Owner :: "OwnerReference option"
  cr_Raw :: string
  cr_Revision :: i64

type_synonym cr_key = "string \<times> string"
type_synonym cr_store = "ControllerRevision list"

definition cr_key :: "ControllerRevision \<Rightarrow> cr_key" where
  "cr_key cr = (cr_Namespace cr, cr_Name cr)"

definition store_get :: "cr_key \<Rightarrow> cr_store \<Rightarrow> ControllerRevision option" where
  "store_get k objs = find (\<lambda>cr. cr_key cr = k) objs"

definition store_add :: "ControllerRevision \<Rightarrow> cr_store \<Rightarrow> cr_store" where
  "store_add cr objs = objs @ [cr]"

definition store_delete :: "cr_key \<Rightarrow> cr_store \<Rightarrow> cr_store" where
  "store_delete k objs = filter (\<lambda>cr. cr_key cr \<noteq> k) objs"

locale keyed_history =
  fixes get :: "'k \<Rightarrow> 's \<Rightarrow> 'v option" and add :: "'v \<Rightarrow> 's \<Rightarrow> 's" and del :: "'k \<Rightarrow> 's \<Rightarrow> 's"
    and key :: "'v \<Rightarrow> 'k"
  assumes get_del: "get k (del k' s) = (if k = k' then None else get k s)"
    and get_add: "get k (add v s) = (case get k s of Some w \<Rightarrow> Some w | None \<Rightarrow> if key v = k then Some v else None)"
begin

lemma get_dels: "get k (foldl (\<lambda>s k. del k s) s ks) = (if k \<in> set ks then None else get k s)"
  by (induction ks arbitrary: s) (simp_all add: get_del)

lemma add_keeps: "get k s = Some w \<Longrightarrow> get k (add v s) = Some w"
  by (simp add: get_add)

lemma add_finds: "get (key v) s = None \<Longrightarrow> get (key v) (add v s) = Some v"
  by (simp add: get_add)

end

interpretation history: keyed_history store_get store_add store_delete cr_key
proof
  fix k k' :: cr_key and v :: ControllerRevision and s :: cr_store
  show "store_get k (store_delete k' s) = (if k = k' then None else store_get k s)"
    by (induction s) (auto simp: store_get_def store_delete_def)
  show "store_get k (store_add v s) =
      (case store_get k s of Some w \<Rightarrow> Some w | None \<Rightarrow> if cr_key v = k then Some v else None)"
    by (induction s) (auto simp: store_get_def store_add_def)
qed

section \<open>Reads\<close>

datatype history_error = ApiNotFound | HistoryError string

record HistoryView =
  hv_Objects :: cr_store
  hv_GetErr :: "string option"
  hv_ListErr :: "string option"

definition revision_key :: "(string \<Rightarrow> string) \<Rightarrow> ModelDeployment \<Rightarrow> string \<Rightarrow> cr_key" where
  "revision_key enc md revision = (md_Namespace md, ControllerRevision_name enc (md_Name md) revision)"

definition history_Get ::
  "(string \<Rightarrow> string) \<Rightarrow> ModelDeployment option \<Rightarrow> string \<Rightarrow> HistoryView \<Rightarrow> history_error + ControllerRevision" where
  "history_Get enc md revision view =
     (case md of
        None \<Rightarrow> Inl (HistoryError ''revision: cannot get a revision of a nil ModelDeployment'')
      | Some m \<Rightarrow>
          (case hv_GetErr view of
             Some e \<Rightarrow> Inl (HistoryError e)
           | None \<Rightarrow>
               (case store_get (revision_key enc m revision) (hv_Objects view) of
                  None \<Rightarrow> Inl ApiNotFound
                | Some cr \<Rightarrow> Inr cr)))"

definition cr_le :: "ControllerRevision \<Rightarrow> ControllerRevision \<Rightarrow> bool" where
  "cr_le a b \<longleftrightarrow> cr_Revision a < cr_Revision b \<or> cr_Revision a = cr_Revision b \<and> str_le (cr_Name a) (cr_Name b)"

definition owned_by :: "ModelDeployment \<Rightarrow> ControllerRevision \<Rightarrow> bool" where
  "owned_by md cr \<longleftrightarrow> cr_Namespace cr = md_Namespace md \<and> cr_Labels cr NamingLabelModelDeployment = Some (md_Name md)"

definition history_List :: "ModelDeployment option \<Rightarrow> HistoryView \<Rightarrow> history_error + ControllerRevision list" where
  "history_List md view =
     (case md of
        None \<Rightarrow> Inl (HistoryError ''revision: cannot list revisions of a nil ModelDeployment'')
      | Some m \<Rightarrow>
          (case hv_ListErr view of
             Some e \<Rightarrow> Inl (HistoryError (''revision: listing revisions of '' @ md_Namespace m @ ''/'' @ md_Name m @ '': '' @ e))
           | None \<Rightarrow> Inr (sort_by cr_le (filter (owned_by m) (hv_Objects view)))))"

definition nextRevisionNumber :: "ModelDeployment option \<Rightarrow> HistoryView \<Rightarrow> history_error + i64" where
  "nextRevisionNumber md view =
     (case history_List md view of
        Inl e \<Rightarrow> Inl e
      | Inr revisions \<Rightarrow> Inr (wrap64 (foldl (\<lambda>mx cr. if cr_Revision cr > mx then cr_Revision cr else mx) 0 revisions + 1)))"

definition SpecFrom :: "Codec \<Rightarrow> ControllerRevision option \<Rightarrow> string + ModelDeploymentSpec" where
  "SpecFrom codec cr =
     (case cr of
        None \<Rightarrow> Inl ''revision: cannot decode a nil ControllerRevision''
      | Some c \<Rightarrow>
          if cr_Raw c = [] then
            Inl (''revision: ControllerRevision '' @ cr_Namespace c @ ''/'' @ cr_Name c @ '' has an empty payload'')
          else (case Decode codec (cr_Raw c) of
                  Inl e \<Rightarrow> Inl (''revision: decoding ControllerRevision '' @ cr_Namespace c @ ''/'' @ cr_Name c @ '': '' @ e)
                | Inr d \<Rightarrow> Inr (de_Spec d)))"

section \<open>Record\<close>

definition record_data :: "Codec \<Rightarrow> ModelDeployment \<Rightarrow> string \<Rightarrow> string list \<Rightarrow> history_error + string" where
  "record_data codec md revision payload =
     (let nm = md_Namespace md @ ''/'' @ md_Name md
      in case payload of
           [] \<Rightarrow> (case Encode codec (Some (md_Spec md)) of
                   Inl e \<Rightarrow> Inl (HistoryError (''revision: encoding spec of '' @ nm @ '': '' @ e))
                 | Inr data \<Rightarrow> Inr data)
         | [p] \<Rightarrow>
             (if p = [] then Inl (HistoryError (''revision: cannot record an empty payload for '' @ nm))
              else let actual = hashBytes (co_SafeEncode codec) p
                   in if actual \<noteq> revision then
                        Inl (HistoryError (''revision: payload identity '' @ actual @ '' does not match requested revision '' @
                          revision @ '' for '' @ nm))
                      else Inr p)
         | _ \<Rightarrow> Inl (HistoryError (''revision: expected at most one payload for '' @ nm)))"

definition adopt :: "string \<Rightarrow> string \<Rightarrow> string \<Rightarrow> ControllerRevision \<Rightarrow> history_error + (ControllerRevision \<times> bool)" where
  "adopt what revision data cr =
     (if cr_Raw cr \<noteq> data then
        Inl (HistoryError (''revision: '' @ what @ '' '' @ cr_Namespace cr @ ''/'' @ cr_Name cr @
          '' has different payload bytes for identity '' @ revision))
      else Inr (cr, False))"

text \<open>\<open>view\<close> is the cache at the first read, \<open>again\<close> the cache after a lost race; \<open>ownerErr\<close> and
  \<open>createErr\<close> are failures outside the repository.\<close>

definition Record ::
  "Codec \<Rightarrow> ModelDeployment option \<Rightarrow> string \<Rightarrow> string list \<Rightarrow> HistoryView \<Rightarrow> HistoryView \<Rightarrow>
   string option \<Rightarrow> string option \<Rightarrow> cr_store \<Rightarrow> (history_error + (ControllerRevision \<times> bool)) \<times> cr_store" where
  "Record codec md revision payload view again ownerErr createErr store =
     (case md of
        None \<Rightarrow> (Inl (HistoryError ''revision: cannot record a nil ModelDeployment''), store)
      | Some m \<Rightarrow>
          if revision = '''' then
            (Inl (HistoryError (''revision: cannot record an empty revision for '' @ md_Namespace m @ ''/'' @ md_Name m)), store)
          else (case record_data codec m revision payload of
                  Inl e \<Rightarrow> (Inl e, store)
                | Inr data \<Rightarrow>
                    (case history_Get (co_SafeEncode codec) md revision view of
                       Inr existing \<Rightarrow> (adopt ''existing'' revision data existing, store)
                     | Inl (HistoryError e) \<Rightarrow> (Inl (HistoryError e), store)
                     | Inl ApiNotFound \<Rightarrow>
                         (case nextRevisionNumber md view of
                            Inl e \<Rightarrow> (Inl e, store)
                          | Inr n \<Rightarrow>
                              (let cr = \<lparr>cr_Namespace = md_Namespace m,
                                     cr_Name = ControllerRevision_name (co_SafeEncode codec) (md_Name m) revision,
                                     cr_Labels = (CommonLabels (md_Name m))(LabelRevision \<mapsto> revision),
                                     cr_Owner = Some (ownerReference m), cr_Raw = data, cr_Revision = n\<rparr>
                               in case ownerErr of
                                    Some e \<Rightarrow> (Inl (HistoryError (''revision: setting owner reference on '' @ cr_Name cr @ '': '' @ e)), store)
                                  | None \<Rightarrow>
                                      (case createErr of
                                         Some e \<Rightarrow> (Inl (HistoryError (''revision: creating '' @ cr_Namespace cr @ ''/'' @
                                                cr_Name cr @ '': '' @ e)), store)
                                       | None \<Rightarrow>
                                           if store_get (cr_key cr) store \<noteq> None then
                                             (case history_Get (co_SafeEncode codec) md revision again of
                                                Inl e \<Rightarrow> (Inl e, store)
                                              | Inr adopted \<Rightarrow> (adopt ''raced'' revision data adopted, store))
                                           else (Inr (cr, True), store_add cr store)))))))"

section \<open>Prune\<close>

definition pinned_names :: "(string \<Rightarrow> string) \<Rightarrow> ModelDeployment \<Rightarrow> string list \<Rightarrow> string list" where
  "pinned_names enc md keep =
     concat (map (\<lambda>k. if k = '''' then [] else [k, ControllerRevision_name enc (md_Name md) k]) keep)"

definition is_pinned :: "string list \<Rightarrow> ControllerRevision \<Rightarrow> bool" where
  "is_pinned names cr \<longleftrightarrow> cr_Name cr \<in> set names \<or> map_get (cr_Labels cr) LabelRevision \<in> set names"

text \<open>Deleting an object that is gone already is no error: removal then changes nothing.\<close>

fun prune_loop ::
  "string list \<Rightarrow> (ControllerRevision \<Rightarrow> string option) \<Rightarrow> int \<Rightarrow> ControllerRevision list \<Rightarrow> cr_store \<Rightarrow>
   history_error option \<times> cr_store" where
  "prune_loop names delErr excess [] store = (None, store)"
| "prune_loop names delErr excess (cr # rest) store =
     (if excess \<le> 0 then (None, store)
      else if is_pinned names cr then prune_loop names delErr excess rest store
      else (case delErr cr of
              Some e \<Rightarrow> (Some (HistoryError (''revision: deleting '' @ cr_Namespace cr @ ''/'' @ cr_Name cr @ '': '' @ e)), store)
            | None \<Rightarrow> prune_loop names delErr (excess - 1) rest (store_delete (cr_key cr) store)))"

definition Prune ::
  "(string \<Rightarrow> string) \<Rightarrow> ModelDeployment option \<Rightarrow> i32 \<Rightarrow> string list \<Rightarrow> HistoryView \<Rightarrow>
   (ControllerRevision \<Rightarrow> string option) \<Rightarrow> cr_store \<Rightarrow> history_error option \<times> cr_store" where
  "Prune enc md limit keep view delErr store =
     (case md of
        None \<Rightarrow> (Some (HistoryError ''revision: cannot prune revisions of a nil ModelDeployment''), store)
      | Some m \<Rightarrow>
          if limit < 0 then (None, store)
          else (case history_List md view of
                  Inl e \<Rightarrow> (Some e, store)
                | Inr revisions \<Rightarrow>
                    (let excess = int (length revisions) - limit
                     in if excess \<le> 0 then (None, store)
                        else prune_loop (pinned_names enc m keep) delErr excess revisions store)))"

section \<open>Recording a revision in a pass\<close>

definition revisionHistoryLimit :: i32 where "revisionHistoryLimit = 10"

definition keep_revisions :: "ModelDeployment \<Rightarrow> string \<Rightarrow> string list" where
  "keep_revisions md target =
     [target, ms_StableRevision (md_Status md), ms_LastGoodRevision (md_Status md)] @
     (case ms_Canary (md_Status md) of
        Some cs \<Rightarrow> [ct_Revision cs, ct_StableRevision cs, ct_FailedRevision cs]
      | None \<Rightarrow> [])"

text \<open>The error, whether the event \<open>RevisionCreated\<close> is emitted, and the store. The three views are those
  of the two reads of \<open>Record\<close> and of the listing of \<open>Prune\<close>.\<close>

definition recordRevision ::
  "Codec \<Rightarrow> ModelDeployment \<Rightarrow> string \<Rightarrow> string list \<Rightarrow> HistoryView \<times> HistoryView \<times> HistoryView \<Rightarrow>
   string option \<times> string option \<times> (ControllerRevision \<Rightarrow> string option) \<Rightarrow> cr_store \<Rightarrow>
   history_error option \<times> bool \<times> cr_store" where
  "recordRevision codec md target payload views errs store =
     (let (v1, v2, v3) = views; (ownerErr, createErr, delErr) = errs
      in case Record codec (Some md) target payload v1 v2 ownerErr createErr store of
           (Inl e, store1) \<Rightarrow> (Some e, False, store1)
         | (Inr (cr, created), store1) \<Rightarrow>
             (let (err, store2) = Prune (co_SafeEncode codec) (Some md) revisionHistoryLimit (keep_revisions md target) v3 delErr store1
              in (err, created, store2)))"

end
