(* ===== verification/Revision_History_Props.thy ===== *)
theory Revision_History_Props
  imports Revision_History
begin

text \<open>
  What the revision history promises: recording only appends, and what it appends is fresh; an event is
  emitted at most once per revision however stale the reads are; pruning takes the oldest unpinned
  objects and no other, so the revisions a rollback can aim at are always there.
\<close>

section \<open>Order\<close>

interpretation cr_order: total_order_on_keys cr_le
proof
  fix x y z :: ControllerRevision
  show "cr_le x y \<or> cr_le y x"
    using str_le_total [of "cr_Name x" "cr_Name y"] by (auto simp: cr_le_def)
  show "cr_le x y \<Longrightarrow> cr_le y z \<Longrightarrow> cr_le x z"
    using str_le_trans [of "cr_Name x" "cr_Name y" "cr_Name z"] by (auto simp: cr_le_def)
qed

lemma history_List_ok:
  "history_List (Some m) view = Inr revs \<Longrightarrow>
   revs = sort_by cr_le (filter (owned_by m) (hv_Objects view)) \<and> sorted_wrt cr_le revs"
  by (auto simp: history_List_def cr_order.sorted_sort_by split: option.splits)

lemma listed_namespace:
  "history_List (Some m) view = Inr revs \<Longrightarrow> cr \<in> set revs \<Longrightarrow> cr_Namespace cr = md_Namespace m"
  by (auto dest!: history_List_ok simp: owned_by_def)

section \<open>Recording\<close>

lemma adopt_ok: "adopt what revision data cr = Inr p \<longleftrightarrow> p = (cr, False) \<and> cr_Raw cr = data"
  by (auto simp: adopt_def)

lemma Record_cases:
  assumes "Record codec (Some m) revision payload view again ownerErr createErr store = (res, store')"
  obtains (unchanged) "store' = store" "\<And>cr created. res = Inr (cr, created) \<Longrightarrow> \<not> created"
  | (created) cr n data where "store' = store_add cr store" "res = Inr (cr, True)"
      "cr_key cr = revision_key (co_SafeEncode codec) m revision" "store_get (cr_key cr) store = None"
      "record_data codec m revision payload = Inr data" "cr_Raw cr = data"
      "nextRevisionNumber (Some m) view = Inr n" "cr_Revision cr = n" "owned_by m cr"
      "cr_Labels cr LabelRevision = Some revision"
  using assms
  by (auto simp: Record_def adopt_def Let_def cr_key_def revision_key_def owned_by_def CommonLabels_def label_keys
      split: if_splits sum.splits history_error.splits option.splits)

lemma Record_payload:
  assumes "Record codec (Some m) revision [p] view again ownerErr createErr store = (Inr (cr, created), store')"
  shows "cr_Raw cr = p" "hashBytes (co_SafeEncode codec) p = revision" "p \<noteq> []"
  using assms
  by (auto simp: Record_def record_data_def adopt_def Let_def
      split: if_splits sum.splits history_error.splits option.splits)

lemma Record_keeps:
  assumes "Record codec (Some m) revision payload view again ownerErr createErr store = (res, store')"
    and "store_get k store = Some cr"
  shows "store_get k store' = Some cr"
  using assms(1) by (cases rule: Record_cases) (use assms(2) history.add_keeps in auto)

section \<open>Pruning\<close>

lemma prune_loop_prefix:
  "prune_loop names delErr excess revs store = (err, store') \<Longrightarrow>
   \<exists>n \<le> nat excess. store' = foldl (\<lambda>s k. store_delete k s) store
      (map cr_key (take n (filter (\<lambda>cr. \<not> is_pinned names cr) revs)))"
proof (induction names delErr excess revs store rule: prune_loop.induct)
  case (2 names delErr excess cr rest store)
  consider (stop) "store' = store" | (skip) "is_pinned names cr" "0 < excess" | (del) "\<not> is_pinned names cr" "0 < excess" "delErr cr = None"
    using "2.prems" by (auto split: if_splits option.splits)
  then show ?case
  proof cases
    case stop
    then show ?thesis
      by (intro exI [of _ 0]) simp
  next
    case skip
    then show ?thesis
      using "2.IH"(1) "2.prems" by auto
  next
    case del
    then obtain n where n: "n \<le> nat (excess - 1)" "store' = foldl (\<lambda>s k. store_delete k s) (store_delete (cr_key cr) store)
        (map cr_key (take n (filter (\<lambda>cr. \<not> is_pinned names cr) rest)))"
      using "2.IH"(2) "2.prems" by auto
    then show ?thesis
      using del by (intro exI [of _ "Suc n"]) auto
  qed
qed (simp add: exI [of _ 0])

lemma prune_loop_exact:
  "prune_loop names (\<lambda>_. None) excess revs store =
   (None, foldl (\<lambda>s k. store_delete k s) store
      (map cr_key (take (nat excess) (filter (\<lambda>cr. \<not> is_pinned names cr) revs))))"
proof (induction revs arbitrary: excess store)
  case (Cons cr revs)
  then show ?case
    by (cases "0 < excess") (auto simp: take_Cons' nat_diff_distrib)
qed simp

lemma foldl_store_delete: "foldl (\<lambda>s k. store_delete k s) s ks = filter (\<lambda>cr. cr_key cr \<notin> set ks) s"
  by (induction ks arbitrary: s) (auto simp: store_delete_def intro: filter_cong)

lemma pinned_by_name:
  "k \<in> set keep \<Longrightarrow> k \<noteq> '''' \<Longrightarrow> cr_Name cr = ControllerRevision_name enc (md_Name m) k \<Longrightarrow>
   is_pinned (pinned_names enc m keep) cr"
  by (auto simp: is_pinned_def pinned_names_def)

lemma Prune_keeps:
  assumes "Prune enc (Some m) limit keep view delErr store = (err, store')"
    and keep: "k \<in> set keep" "k \<noteq> ''''"
  shows "store_get (revision_key enc m k) store' = store_get (revision_key enc m k) store"
proof (cases "store' = store")
  case False
  then obtain revs where revs: "history_List (Some m) view = Inr revs"
    and loop: "prune_loop (pinned_names enc m keep) delErr (int (length revs) - limit) revs store = (err, store')"
    using assms(1) by (auto simp: Prune_def Let_def split: if_splits sum.splits)
  obtain n where n: "store' = foldl (\<lambda>s k. store_delete k s) store
      (map cr_key (take n (filter (\<lambda>cr. \<not> is_pinned (pinned_names enc m keep) cr) revs)))"
    using prune_loop_prefix [OF loop] by auto
  have "revision_key enc m k \<notin> cr_key ` set (take n (filter (\<lambda>cr. \<not> is_pinned (pinned_names enc m keep) cr) revs))"
    using pinned_by_name [OF keep] by (auto simp: revision_key_def cr_key_def dest!: in_set_takeD)
  then show ?thesis
    by (simp add: n history.get_dels)
qed simp

section \<open>A pass\<close>

lemma recordRevision_steps:
  assumes "recordRevision codec md target payload (v1, v2, v3) (ownerErr, createErr, delErr) store = (err, created, store')"
  obtains res store1 where "Record codec (Some md) target payload v1 v2 ownerErr createErr store = (res, store1)"
    "created \<Longrightarrow> \<exists>cr. res = Inr (cr, True)"
    "\<And>k. k \<in> set (keep_revisions md target) \<Longrightarrow> k \<noteq> '''' \<Longrightarrow>
       store_get (revision_key (co_SafeEncode codec) md k) store' = store_get (revision_key (co_SafeEncode codec) md k) store1"
proof -
  obtain res store1 where rec: "Record codec (Some md) target payload v1 v2 ownerErr createErr store = (res, store1)"
    by fastforce
  have "created \<Longrightarrow> \<exists>cr. res = Inr (cr, True)"
    using assms rec by (auto simp: recordRevision_def split: sum.splits prod.splits)
  moreover have "store_get (revision_key (co_SafeEncode codec) md k) store' = store_get (revision_key (co_SafeEncode codec) md k) store1"
    if "k \<in> set (keep_revisions md target)" "k \<noteq> ''''" for k
    using assms rec Prune_keeps [OF _ that, of "co_SafeEncode codec" md]
    by (auto simp: recordRevision_def split: sum.splits prod.splits)
  ultimately show ?thesis
    using that rec by blast
qed

lemma rollback_targets_survive_step:
  assumes "recordRevision codec md target payload views errs store = (err, created, store')"
    and "k \<in> set (keep_revisions md target)" "k \<noteq> ''''"
    and "store_get (revision_key (co_SafeEncode codec) md k) store = Some cr"
  shows "store_get (revision_key (co_SafeEncode codec) md k) store' = Some cr"
proof -
  obtain v1 v2 v3 ownerErr createErr delErr where split: "views = (v1, v2, v3)" "errs = (ownerErr, createErr, delErr)"
    by (metis prod_cases3)
  from assms(1) [unfolded split] show ?thesis
    by (rule recordRevision_steps) (use assms(2-4) Record_keeps in metis)
qed

lemma created_fresh:
  assumes "recordRevision codec md target payload views errs store = (err, True, store')" and "target \<noteq> ''''"
  shows "store_get (revision_key (co_SafeEncode codec) md target) store = None"
    "\<exists>cr. store_get (revision_key (co_SafeEncode codec) md target) store' = Some cr \<and>
       (\<forall>p. payload = [p] \<longrightarrow> cr_Raw cr = p)"
proof -
  obtain v1 v2 v3 ownerErr createErr delErr where split: "views = (v1, v2, v3)" "errs = (ownerErr, createErr, delErr)"
    by (metis prod_cases3)
  obtain res store1 where rec: "Record codec (Some md) target payload v1 v2 ownerErr createErr store = (res, store1)"
    and res: "\<exists>cr. res = Inr (cr, True)"
    and kept: "store_get (revision_key (co_SafeEncode codec) md target) store' = store_get (revision_key (co_SafeEncode codec) md target) store1"
    by (rule recordRevision_steps [OF assms(1) [unfolded split]]) (use assms(2) in \<open>simp add: keep_revisions_def\<close>)
  from rec show "store_get (revision_key (co_SafeEncode codec) md target) store = None"
    by (cases rule: Record_cases) (use res in auto)
  from rec show "\<exists>cr. store_get (revision_key (co_SafeEncode codec) md target) store' = Some cr \<and>
       (\<forall>p. payload = [p] \<longrightarrow> cr_Raw cr = p)"
  proof (cases rule: Record_cases)
    case (created cr n data)
    then have "store_get (cr_key cr) store1 = Some cr"
      using history.add_finds by metis
    moreover have "cr_Raw cr = p" if "payload = [p]" for p
      using Record_payload(1) [OF rec [unfolded that created(2)]] .
    ultimately show ?thesis
      using created(3) kept by auto
  qed (use res in blast)
qed

text \<open>A run of passes that keep recording the same revision while the status moves.\<close>

type_synonym record_pass =
  "ModelDeploymentStatus \<times> string list \<times> (HistoryView \<times> HistoryView \<times> HistoryView) \<times>
   (string option \<times> string option \<times> (ControllerRevision \<Rightarrow> string option))"

fun record_run :: "Codec \<Rightarrow> ModelDeployment \<Rightarrow> string \<Rightarrow> record_pass list \<Rightarrow> cr_store \<Rightarrow> bool list \<times> cr_store" where
  "record_run codec md target [] store = ([], store)"
| "record_run codec md target ((st, payload, views, errs) # rest) store =
     (let (err, created, store1) = recordRevision codec (md\<lparr>md_Status := st\<rparr>) target payload views errs store;
          (events, store2) = record_run codec md target rest store1
      in (created # events, store2))"

lemma revision_key_status [simp]: "revision_key enc (md\<lparr>md_Status := st\<rparr>) k = revision_key enc md k"
  by (simp add: revision_key_def)

lemma record_run_present:
  assumes "target \<noteq> ''''" "store_get (revision_key (co_SafeEncode codec) md target) store = Some cr"
  shows "True \<notin> set (fst (record_run codec md target passes store)) \<and>
     store_get (revision_key (co_SafeEncode codec) md target) (snd (record_run codec md target passes store)) = Some cr"
  using assms(2)
proof (induction passes arbitrary: store)
  case (Cons pass passes)
  obtain st payload views errs where pass: "pass = (st, payload, views, errs)"
    by (metis prod_cases4)
  obtain err created store1 where r: "recordRevision codec (md\<lparr>md_Status := st\<rparr>) target payload views errs store = (err, created, store1)"
    by (metis prod_cases3)
  have "\<not> created"
    using created_fresh(1) [of codec "md\<lparr>md_Status := st\<rparr>" target payload views errs store err store1] r Cons.prems assms(1)
    by auto
  moreover have "store_get (revision_key (co_SafeEncode codec) md target) store1 = Some cr"
    using rollback_targets_survive_step [OF r] Cons.prems assms(1) by (simp add: keep_revisions_def)
  ultimately show ?case
    using Cons.IH [of store1] by (simp add: pass r split_beta)
qed simp

text \<open>The event of a new revision is emitted at most once for as long as that revision is the target,
  however far the cache behind the reads lags and whatever else fails: only the server's answer counts.\<close>

theorem revision_event_once:
  assumes "target \<noteq> ''''"
  shows "count_list (fst (record_run codec md target passes store)) True \<le> 1"
proof (induction passes arbitrary: store)
  case (Cons pass passes)
  obtain st payload views errs where pass: "pass = (st, payload, views, errs)"
    by (metis prod_cases4)
  obtain err created store1 where r: "recordRevision codec (md\<lparr>md_Status := st\<rparr>) target payload views errs store = (err, created, store1)"
    by (metis prod_cases3)
  have "count_list (fst (record_run codec md target passes store1)) True = 0" if new: created
  proof -
    obtain cr where "store_get (revision_key (co_SafeEncode codec) md target) store1 = Some cr"
      using created_fresh(2) [of codec "md\<lparr>md_Status := st\<rparr>" target payload views errs store err store1] r new assms
      by auto
    then show ?thesis
      using record_run_present [OF assms] by (auto simp: count_list_0_iff)
  qed
  then show ?case
    using Cons.IH [of store1] by (cases created) (auto simp: pass r split_beta)
qed simp

lemma kept_through_run:
  assumes "k \<noteq> ''''" "\<forall>st \<in> fst ` set passes. k \<in> set (keep_revisions (md\<lparr>md_Status := st\<rparr>) target)"
    and "store_get (revision_key (co_SafeEncode codec) md k) store = Some cr"
  shows "store_get (revision_key (co_SafeEncode codec) md k) (snd (record_run codec md target passes store)) = Some cr"
  using assms(2,3)
proof (induction passes arbitrary: store)
  case (Cons pass passes)
  obtain st payload views errs where pass: "pass = (st, payload, views, errs)"
    by (metis prod_cases4)
  obtain err created store1 where r: "recordRevision codec (md\<lparr>md_Status := st\<rparr>) target payload views errs store = (err, created, store1)"
    by (metis prod_cases3)
  have "store_get (revision_key (co_SafeEncode codec) md k) store1 = Some cr"
    using rollback_targets_survive_step [OF r _ assms(1), of cr] Cons.prems pass by simp
  then show ?case
    using Cons.IH [of store1] Cons.prems(1) by (simp add: pass r split_beta)
qed simp

text \<open>C6. Recording and pruning never lose a revision a rollback can aim at: through any number of passes,
  a recorded revision that each pass's status names - as the stable one, the last good one, the canary's
  own, its baseline or its failed one - stays retrievable and unchanged, whatever the cache showed and
  whichever API call failed on the way.\<close>

theorem rollback_targets_survive:
  assumes "k \<noteq> ''''" "store_get (revision_key (co_SafeEncode codec) md k) store = Some cr"
    and "\<forall>(st, payload, views, errs) \<in> set passes. k = target \<or> k = ms_StableRevision st \<or> k = ms_LastGoodRevision st \<or>
       (\<exists>cs. ms_Canary st = Some cs \<and> k \<in> {ct_Revision cs, ct_StableRevision cs, ct_FailedRevision cs})"
  shows "store_get (revision_key (co_SafeEncode codec) md k) (snd (record_run codec md target passes store)) = Some cr"
proof (rule kept_through_run [OF assms(1) _ assms(2)])
  show "\<forall>st \<in> fst ` set passes. k \<in> set (keep_revisions (md\<lparr>md_Status := st\<rparr>) target)"
    using assms(3) by (force simp: keep_revisions_def)
qed

text \<open>A release can be rolled back to the workload that was recorded for it: after the pass that created
  the record and any further passes, a fresh read finds it, it decodes, and merging it over the live
  specification gives the recorded model, engine, startup timeout and sidecar.\<close>

theorem recorded_workload_recoverable:
  assumes "NewSnapshot codec (Some spec) = Inr snap" "codec_restores codec (workload_payload spec)"
    and "recordRevision codec md (sn_Revision snap) [sn_Raw snap] views errs store = (err, True, store1)"
    and "sn_Revision snap \<noteq> ''''" "hv_GetErr view = None"
    and "hv_Objects view = snd (record_run codec md (sn_Revision snap) passes store1)"
  shows "\<exists>cr s. history_Get (co_SafeEncode codec) (Some md) (sn_Revision snap) view = Inr cr \<and> SpecFrom codec (Some cr) = Inr s \<and>
     same_workload (mergeWorkloadSpec live s False) spec"
proof -
  obtain cr where "store_get (revision_key (co_SafeEncode codec) md (sn_Revision snap)) store1 = Some cr"
    and raw: "cr_Raw cr = sn_Raw snap"
    using created_fresh(2) [OF assms(3,4)] by auto
  then have "history_Get (co_SafeEncode codec) (Some md) (sn_Revision snap) view = Inr cr"
    using record_run_present [OF assms(4)] assms(5,6) by (simp add: history_Get_def)
  moreover obtain d where "Decode codec (sn_Raw snap) = Inr d" "sn_Raw snap \<noteq> []"
    "same_workload (mergeWorkloadSpec live (de_Spec d) False) spec"
    using snapshot_decodes [OF assms(1,2)] by (auto simp: Let_def)
  ultimately show ?thesis
    by (auto simp: SpecFrom_def raw)
qed

section \<open>Which objects pruning takes\<close>

lemma key_filter_set:
  assumes "distinct (map cr_key store)" "set victims \<subseteq> set store"
  shows "set (filter (\<lambda>cr. cr_key cr \<notin> set (map cr_key victims)) store) = set store - set victims"
  using assms by (auto simp: distinct_map inj_on_def)

lemma sorted_take_before:
  "sorted_wrt le xs \<Longrightarrow> a \<in> set (take n xs) \<Longrightarrow> b \<in> set xs - set (take n xs) \<Longrightarrow> le a b"
  by (metis DiffE Un_iff append_take_drop_id set_append sorted_wrt_append)

lemma prune_count:
  assumes "f + p = n" "0 \<le> limit"
  shows "n - min f (nat (int n - limit)) = max p (min n (nat limit))"
  using assms by (cases "int n \<le> limit"; cases "f \<le> nat (int n - limit)") (simp_all add: min_def max_def, linarith+)

lemma length_after_removal:
  assumes "distinct xs" "distinct ys" "distinct gone" "set ys = set xs - set gone" "set gone \<subseteq> set (filter P xs)"
  shows "length (filter P ys) = length (filter P xs) - length gone"
proof -
  have "set (filter P ys) = set (filter P xs) - set gone"
    using assms(4) by auto
  then have "card (set (filter P ys)) = card (set (filter P xs)) - card (set gone)"
    using card_Diff_subset [OF List.finite_set assms(5)] by simp
  then show ?thesis
    using assms(1-3) by (simp only: distinct_card distinct_filter)
qed

lemma free_count: "length (filter (\<lambda>x. \<not> pin x) (sort_by le xs)) + length (filter pin xs) = length xs"
proof -
  have "mset (filter (\<lambda>x. \<not> pin x) (sort_by le xs)) = mset (filter (\<lambda>x. \<not> pin x) xs)"
    by simp
  then show ?thesis
    using sum_length_filter_compl [of pin xs] mset_eq_length by fastforce
qed

text \<open>C34. Pruning a history read afresh, with no call failing, leaves exactly the limit, or the pinned ones if
  they are more; what it deletes belongs to this ModelDeployment, is not pinned, and is older than every
  unpinned revision that stays.\<close>

theorem pruned_history:
  assumes "distinct (map cr_key store)" "0 \<le> limit"
    and "hv_Objects view = store" "hv_ListErr view = None"
    and "Prune enc (Some m) limit keep view (\<lambda>_. None) store = (err, store')"
  shows "err = None \<and> length (filter (owned_by m) store') =
      max (length (filter (is_pinned (pinned_names enc m keep)) (filter (owned_by m) store)))
          (min (length (filter (owned_by m) store)) (nat limit)) \<and>
      (\<forall>cr \<in> set store - set store'. owned_by m cr \<and> \<not> is_pinned (pinned_names enc m keep) cr \<and>
      (\<forall>kept \<in> set store'. owned_by m kept \<and> \<not> is_pinned (pinned_names enc m keep) kept \<longrightarrow> cr_le cr kept))"
proof (intro conjI)
  let ?pin = "is_pinned (pinned_names enc m keep)" and ?own = "filter (owned_by m) store"
  let ?revs = "sort_by cr_le ?own" and ?ex = "int (length ?own) - limit"
  define free where "free = filter (\<lambda>cr. \<not> ?pin cr) ?revs"
  define victims where "victims = take (nat ?ex) free"
  have "history_List (Some m) view = Inr ?revs"
    using assms(3,4) by (simp add: history_List_def)
  then have run: "err = None" "store' = filter (\<lambda>cr. cr_key cr \<notin> set (map cr_key victims)) store"
    using assms(2,5)
    by (auto simp: Prune_def Let_def prune_loop_exact foldl_store_delete victims_def free_def split: if_splits)
  then show "err = None"
    by simp
  have sub: "set victims \<subseteq> set ?own" "\<forall>cr \<in> set victims. \<not> ?pin cr"
    by (auto simp: victims_def free_def dest!: in_set_takeD)
  then have set': "set store' = set store - set victims"
    unfolding run(2) by (intro key_filter_set [OF assms(1)]) auto
  have sorted: "sorted_wrt cr_le free"
    unfolding free_def by (intro sorted_wrt_filter cr_order.sorted_sort_by)
  have dist: "distinct store" "distinct store'" "distinct victims"
    using assms(1) distinct_sort_by [of "\<lambda>x. x" cr_le ?own]
    by (simp_all add: distinct_map run(2) victims_def free_def)
  have left: "length (filter (owned_by m) store') = length ?own - min (length free) (nat ?ex)"
    using length_after_removal [OF dist set' sub(1)] unfolding victims_def length_take .
  have parts: "length free + length (filter ?pin ?own) = length ?own"
    unfolding free_def by (rule free_count)
  show "length (filter (owned_by m) store') = max (length (filter ?pin ?own)) (min (length ?own) (nat limit))"
    unfolding left by (rule prune_count [OF parts assms(2)])
  show "\<forall>cr \<in> set store - set store'. owned_by m cr \<and> \<not> ?pin cr \<and>
      (\<forall>kept \<in> set store'. owned_by m kept \<and> \<not> ?pin kept \<longrightarrow> cr_le cr kept)"
  proof (intro ballI conjI impI)
    fix cr assume "cr \<in> set store - set store'"
    then have cr: "cr \<in> set victims"
      using set' by auto
    with sub show "owned_by m cr" "\<not> ?pin cr"
      by auto
    fix kept assume "kept \<in> set store'" "owned_by m kept \<and> \<not> ?pin kept"
    then have "kept \<in> set free" "kept \<notin> set victims"
      by (simp_all add: set' free_def)
    then show "cr_le cr kept"
      by (intro sorted_take_before [OF sorted cr [unfolded victims_def]]) (simp only: victims_def Diff_iff simp_thms)
  qed
qed

section \<open>Witnesses\<close>

definition sample_history_md :: ModelDeployment where
  "sample_history_md = sample_workload_md (sample_workload [] 2000)"

definition sample_cr :: "string \<Rightarrow> i64 \<Rightarrow> ControllerRevision" where
  "sample_cr r n = \<lparr>cr_Namespace = ''prod'', cr_Name = ''chat-'' @ r, cr_Labels = (CommonLabels ''chat'')(LabelRevision \<mapsto> r),
     cr_Owner = None, cr_Raw = sample_raw, cr_Revision = n\<rparr>"

definition view_of :: "cr_store \<Rightarrow> HistoryView" where
  "view_of objs = \<lparr>hv_Objects = objs, hv_GetErr = None, hv_ListErr = None\<rparr>"

lemma sample_owned: "owned_by sample_history_md (sample_cr r n)"
  by (simp add: owned_by_def sample_history_md_def sample_workload_md_def sample_cr_def CommonLabels_def label_keys)

lemma sample_name: "length r \<le> 20 \<Longrightarrow> ControllerRevision_name sample_encoder ''chat'' r = ''chat-'' @ r"
  by (simp add: ControllerRevision_name_def withSuffix_def maxNameLen_def)

lemma sample_key: "cr_key (sample_cr r n) = (''prod'', ''chat-'' @ r)"
  by (simp add: cr_key_def sample_cr_def)

lemma sample_revision_key: "length r \<le> 20 \<Longrightarrow> revision_key sample_encoder sample_history_md r = (''prod'', ''chat-'' @ r)"
  by (simp add: revision_key_def sample_history_md_def sample_workload_md_def sample_name)

lemma sample_history_name: "md_Name sample_history_md = ''chat''"
  by (simp add: sample_history_md_def sample_workload_md_def)

theorem pruned_history_witness:
  "\<exists>store'. Prune sample_encoder (Some sample_history_md) 2 [''aa''] (view_of [sample_cr ''cc'' 3, sample_cr ''aa'' 1, sample_cr ''bb'' 2])
     (\<lambda>_. None) [sample_cr ''cc'' 3, sample_cr ''aa'' 1, sample_cr ''bb'' 2] = (None, store') \<and>
     length (filter (owned_by sample_history_md) store') = 2"
proof -
  let ?s = "[sample_cr ''cc'' 3, sample_cr ''aa'' 1, sample_cr ''bb'' 2]"
  obtain err store' where r: "Prune sample_encoder (Some sample_history_md) 2 [''aa''] (view_of ?s) (\<lambda>_. None) ?s = (err, store')"
    by fastforce
  have "distinct (map cr_key ?s)"
    by (simp add: sample_key)
  moreover have "is_pinned (pinned_names sample_encoder sample_history_md [''aa'']) (sample_cr r n) \<longleftrightarrow> r = ''aa''"
    if "r \<in> {''aa'', ''bb'', ''cc''}" for r n
    using that by (auto simp: is_pinned_def pinned_names_def sample_cr_def map_get_def sample_history_name sample_name)
  ultimately show ?thesis
    using pruned_history [OF _ _ _ _ r] r by (simp add: view_of_def sample_owned)
qed

definition sample_pass :: "HistoryView \<Rightarrow> record_pass" where
  "sample_pass view = (md_Status sample_history_md, [], (view, view, view), (None, None, \<lambda>_. None))"

theorem revision_event_once_witness:
  "count_list (fst (record_run (sample_codec sample_resolved) sample_history_md ''aa''
     [sample_pass (view_of []), sample_pass (view_of [])] [])) True \<le> 1"
  by (rule revision_event_once) simp

theorem rollback_targets_survive_witness:
  "store_get (revision_key sample_encoder sample_history_md ''aa'')
     (snd (record_run (sample_codec sample_resolved) sample_history_md ''aa'' [sample_pass (view_of [])] [sample_cr ''aa'' 1])) =
   Some (sample_cr ''aa'' 1)"
proof -
  have "store_get (revision_key sample_encoder sample_history_md ''aa'') [sample_cr ''aa'' 1] = Some (sample_cr ''aa'' 1)"
    by (simp add: store_get_def sample_key sample_revision_key)
  then have "store_get (revision_key (co_SafeEncode (sample_codec sample_resolved)) sample_history_md ''aa'') [sample_cr ''aa'' 1] =
      Some (sample_cr ''aa'' 1)"
    by (simp add: sample_codec_def)
  from rollback_targets_survive [OF _ this, of "[sample_pass (view_of [])]" "''aa''"] show ?thesis
    by (simp add: sample_codec_def sample_pass_def del: record_run.simps)
qed

theorem recorded_workload_recoverable_witness:
  "\<exists>view cr s. history_Get sample_encoder (Some sample_history_md) (hashBytes sample_encoder sample_raw) view = Inr cr \<and>
     SpecFrom (sample_codec sample_resolved) (Some cr) = Inr s \<and>
     same_workload (mergeWorkloadSpec (sample_workload [''--new''] 500) s False) sample_resolved"
proof -
  let ?codec = "sample_codec sample_resolved" and ?rev = "hashBytes sample_encoder sample_raw"
  define snap where "snap = \<lparr>sn_Revision = ?rev, sn_Raw = sample_raw\<rparr>"
  have snap: "NewSnapshot ?codec (Some sample_resolved) = Inr snap"
    by (simp add: NewSnapshot_def sample_resolved_valid sample_codec_def snap_def)
  have codec: "codec_restores ?codec (workload_payload sample_resolved)"
    using sample_header by (simp add: codec_restores_def sample_codec_def workload_payload_def PayloadVersionV2_def)
  have rev: "sample_raw \<noteq> []" "?rev \<noteq> ''''"
    by (simp add: sample_raw_def, code_simp)
  then have "\<exists>err store1. recordRevision ?codec sample_history_md (sn_Revision snap) [sn_Raw snap] (view_of [], view_of [], view_of [])
      (None, None, \<lambda>_. None) [] = (err, True, store1)"
    by (simp add: recordRevision_def Record_def record_data_def snap_def sample_codec_def history_Get_def view_of_def
        store_get_def nextRevisionNumber_def history_List_def sort_by_def Let_def split: prod.splits)
  then obtain err store1 where rec: "recordRevision ?codec sample_history_md (sn_Revision snap) [sn_Raw snap]
      (view_of [], view_of [], view_of []) (None, None, \<lambda>_. None) [] = (err, True, store1)"
    by blast
  have "sn_Revision snap \<noteq> ''''"
    using rev by (simp add: snap_def)
  from recorded_workload_recoverable [OF snap codec rec this, of "view_of store1" "[]" "sample_workload [''--new''] 500"]
  show ?thesis
    by (simp add: view_of_def snap_def sample_codec_def) blast
qed

end
