(* ===== verification/Revision_Migration.thy ===== *)
theory Revision_Migration
  imports Revision_History Controller_Events
begin

text \<open>
  Old revisions and the specifications that are rendered
  (\<open>internal/controller/revision_snapshot.go\<close>; \<open>specForRevision\<close> and \<open>renderRollout\<close> of
  \<open>modeldeployment_controller.go\<close>). A revision recorded before payloads had a version stands under another
  identity than the same workload recorded today. \<open>targetRevisionForMigration\<close> decides, on the evidence of
  the stored payload and of the live Deployment, which identity a pass uses; \<open>specForRevision\<close> gives the
  specification to render for a revision, and refuses to guess when its record is missing.
  \<open>Library\<close> holds what the Kubernetes libraries compute: semantic equality of parts of a specification and
  of a status, \<open>DeepDerivative\<close> on pod templates, the conversion of an apply configuration to a typed pod
  template, and the text of a not-found error.
\<close>

record Library =
  lib_EqModel :: "ModelSpec \<Rightarrow> ModelSpec \<Rightarrow> bool"
  lib_EqEngine :: "EngineSpec \<Rightarrow> EngineSpec \<Rightarrow> bool"
  lib_EqShim :: "ShimSpec \<Rightarrow> ShimSpec \<Rightarrow> bool"
  lib_EqStatus :: "ModelDeploymentStatus \<Rightarrow> ModelDeploymentStatus \<Rightarrow> bool"
  lib_Derivative :: "labels \<times> PodSpec \<Rightarrow> labels \<times> PodSpec \<Rightarrow> bool"
  lib_Typed :: "DeploymentApply \<Rightarrow> string + labels \<times> PodSpec"
  lib_NotFound :: string

text \<open>The constants of a pass: the library, the codec of payloads, the builders' environment, the registry of
  engines and the operator's settings.\<close>

record Setup =
  su_Library :: Library
  su_Codec :: Codec
  su_Env :: RenderEnv
  su_Registry :: registry
  su_Options :: renderOptions

abbreviation su_Reconciler :: "Setup \<Rightarrow> Reconciler" where
  "su_Reconciler su \<equiv> re_Reconciler (su_Env su)"

abbreviation su_SafeEncode :: "Setup \<Rightarrow> string \<Rightarrow> string" where
  "su_SafeEncode su \<equiv> co_SafeEncode (su_Codec su)"

definition containerNamed :: "Container list \<Rightarrow> string \<Rightarrow> Container option" where
  "containerNamed cs name = find (\<lambda>c. cn_Name c = name) cs"

definition template_revision :: "Deployment \<Rightarrow> string" where
  "template_revision d = map_get (dp_TemplateLabels d) LabelRevision"

section \<open>The persisted target\<close>

record legacyMigrationReference =
  lm_revision :: string
  lm_deployment :: "Deployment option"
  lm_variant :: Variant
  lm_noRender :: bool

definition legacyRolloutActive :: "ModelDeployment \<Rightarrow> bool" where
  "legacyRolloutActive md \<longleftrightarrow> ms_Phase (md_Status md) \<in> {ApiCanarying, ApiPaused, ApiPromoting}"

definition primary_reference :: "ModelDeployment \<Rightarrow> Deployment option \<Rightarrow> legacyMigrationReference option" where
  "primary_reference md primary =
     (case primary of
        None \<Rightarrow> None
      | Some d \<Rightarrow>
          (let rv = template_revision d
           in if rv = '''' \<or> rv \<noteq> ms_LastGoodRevision (md_Status md) \<and> rv \<noteq> ms_StableRevision (md_Status md) then None
              else Some \<lparr>lm_revision = rv, lm_deployment = primary, lm_variant = VariantPrimary, lm_noRender = False\<rparr>))"

definition legacyReferenceFrom ::
  "ModelDeployment option \<Rightarrow> Deployment option \<Rightarrow> Deployment option \<Rightarrow> legacyMigrationReference option" where
  "legacyReferenceFrom md primary canary =
     (case md of
        None \<Rightarrow> None
      | Some m \<Rightarrow>
          (case ms_Canary (md_Status m) of
             None \<Rightarrow> primary_reference m primary
           | Some cs \<Rightarrow>
               if ct_Revision cs \<noteq> '''' \<and> ms_Phase (md_Status m) \<in> {ApiCanarying, ApiPaused} then
                 Some \<lparr>lm_revision = ct_Revision cs, lm_deployment = canary, lm_variant = VariantCanary, lm_noRender = False\<rparr>
               else if ct_Revision cs \<noteq> '''' \<and> ms_Phase (md_Status m) = ApiPromoting then
                 Some \<lparr>lm_revision = ct_Revision cs, lm_deployment = primary, lm_variant = VariantPrimary, lm_noRender = False\<rparr>
               else if ct_Revision cs \<noteq> '''' \<and> ms_Phase (md_Status m) = ApiRollingBack then
                 Some \<lparr>lm_revision = ct_Revision cs, lm_deployment = None, lm_variant = VariantCanary, lm_noRender = True\<rparr>
               else if ct_FailedRevision cs \<noteq> '''' then
                 Some \<lparr>lm_revision = ct_FailedRevision cs, lm_deployment = None, lm_variant = VariantCanary, lm_noRender = True\<rparr>
               else primary_reference m primary))"

section \<open>Evidence\<close>

definition legacyRecordedWorkloadEqual :: "Library \<Rightarrow> ModelDeploymentSpec \<Rightarrow> ModelDeploymentSpec \<Rightarrow> bool" where
  "legacyRecordedWorkloadEqual lib live stored \<longleftrightarrow>
     lib_EqModel lib (sp_Model live) (sp_Model stored) \<and> lib_EqEngine lib (sp_Engine live) (sp_Engine stored) \<and>
     lib_EqShim lib (sv_Shim (sp_Serving live)) (sv_Shim (sp_Serving stored))"

definition startupTimeoutMatchesDeployment ::
  "Reconciler \<Rightarrow> ModelDeployment \<Rightarrow> ModelDeploymentSpec \<Rightarrow> Deployment option \<Rightarrow> bool" where
  "startupTimeoutMatchesDeployment r md resolved primary =
     (case primary of
        None \<Rightarrow> False
      | Some d \<Rightarrow>
          (let stable = firstNonEmpty [ms_LastGoodRevision (md_Status md), ms_StableRevision (md_Status md)]
           in if stable = '''' \<or> template_revision d \<noteq> stable then False
              else (case containerNamed (ps_Containers (dp_PodSpec d)) ContainerName of
                      None \<Rightarrow> False
                    | Some c \<Rightarrow>
                        (case cn_StartupProbe c of
                           None \<Rightarrow> False
                         | Some p \<Rightarrow> pb_PeriodSeconds p = probePeriodSeconds \<and>
                             pb_FailureThreshold p = startupFailureThreshold r (withSpec md resolved)))))"

definition default_probe :: "Probe \<Rightarrow> Probe" where
  "default_probe p =
     p\<lparr>pb_TimeoutSeconds := (if pb_TimeoutSeconds p = 0 then 1 else pb_TimeoutSeconds p),
       pb_SuccessThreshold := (if pb_SuccessThreshold p = 0 then 1 else pb_SuccessThreshold p),
       pb_HTTPGet := map_option (\<lambda>g. if hg_Scheme g = '''' then g\<lparr>hg_Scheme := ''HTTP''\<rparr> else g) (pb_HTTPGet p)\<rparr>"

definition default_container :: "Container \<Rightarrow> Container" where
  "default_container c =
     c\<lparr>cn_TerminationMessagePath := or_default (cn_TerminationMessagePath c) ''/dev/termination-log'',
       cn_TerminationMessagePolicy := or_default (cn_TerminationMessagePolicy c) ''File'',
       cn_LivenessProbe := map_option default_probe (cn_LivenessProbe c),
       cn_ReadinessProbe := map_option default_probe (cn_ReadinessProbe c),
       cn_StartupProbe := map_option default_probe (cn_StartupProbe c)\<rparr>"

definition applyPodStorageDefaults :: "PodSpec \<Rightarrow> PodSpec" where
  "applyPodStorageDefaults spec =
     spec\<lparr>ps_RestartPolicy := or_default (ps_RestartPolicy spec) ''Always'',
       ps_TerminationGracePeriodSeconds := or_some (ps_TerminationGracePeriodSeconds spec) 30,
       ps_DNSPolicy := or_default (ps_DNSPolicy spec) ''ClusterFirst'',
       ps_SchedulerName := or_default (ps_SchedulerName spec) ''default-scheduler'',
       ps_InitContainers := map default_container (ps_InitContainers spec),
       ps_Containers := map default_container (ps_Containers spec)\<rparr>"

definition withoutMetricScopeArgs :: "string list \<Rightarrow> string list" where
  "withoutMetricScopeArgs args =
     filter (\<lambda>a. \<not> (json_prefix ''--namespace='' a \<or> json_prefix ''--model-deployment='' a)) args"

text \<open>The first container with the sidecar's name is the one that is replaced.\<close>

fun strip_first_shim :: "Container list \<Rightarrow> Container list" where
  "strip_first_shim [] = []"
| "strip_first_shim (c # cs) =
     (if cn_Name c = ShimContainerName then c\<lparr>cn_Args := withoutMetricScopeArgs (cn_Args c)\<rparr> # cs
      else c # strip_first_shim cs)"

datatype workloadMigrationMatch = workloadDifferent | workloadExact | workloadLegacyTelemetry

definition currentWorkloadMatchesDeployment ::
  "Setup \<Rightarrow> ModelDeployment \<Rightarrow> Profile \<Rightarrow> ModelDeploymentSpec \<Rightarrow> string \<Rightarrow> Variant \<Rightarrow> Deployment \<Rightarrow>
   string + workloadMigrationMatch" where
  "currentWorkloadMatchesDeployment su md prof resolved revision variant live =
     (case buildDeployment (su_Env su) (withSpec md resolved) prof revision variant (replicasFor md) (su_Options su) of
        Inl e \<Rightarrow> Inl e
      | Inr desired \<Rightarrow>
          (case lib_Typed (su_Library su) desired of
             Inl e \<Rightarrow> Inl e
           | Inr (lbls, pod0) \<Rightarrow>
               (let pod = applyPodStorageDefaults pod0;
                    live_template = (dp_TemplateLabels live, dp_PodSpec live);
                    legacyShape = pod\<lparr>ps_InitContainers := strip_first_shim (ps_InitContainers pod)\<rparr>
                in if lib_Derivative (su_Library su) (lbls, pod) live_template then Inr workloadExact
                   else if lib_Derivative (su_Library su) (lbls, legacyShape) live_template then Inr workloadLegacyTelemetry
                   else Inr workloadDifferent)))"

section \<open>The identity of a pass\<close>

text \<open>The revision, whether it is an adopted old one, and whether the pass must hold.\<close>

definition targetRevisionForMigration ::
  "Setup \<Rightarrow> ModelDeployment \<Rightarrow> Profile \<Rightarrow> ModelDeploymentSpec \<Rightarrow> string \<Rightarrow> Deployment option \<Rightarrow> Deployment option \<Rightarrow>
   HistoryView \<Rightarrow> string + (string \<times> bool \<times> bool)" where
  "targetRevisionForMigration su md prof resolved v2 primary canary view =
     (case legacyReferenceFrom (Some md) primary canary of
        None \<Rightarrow> Inr (v2, False, False)
      | Some ref \<Rightarrow>
          (let rv = lm_revision ref
           in if rv = '''' \<or> rv = v2 then Inr (v2, False, False)
              else case history_Get (su_SafeEncode su) (Some md) rv view of
                Inl ApiNotFound \<Rightarrow> Inl (''persisted rollout identity '' @ rv @
                  '' has no ControllerRevision; refusing to infer whether the v2 hash is only a schema change: '' @
                  lib_NotFound (su_Library su))
              | Inl (HistoryError e) \<Rightarrow> Inl (''reading persisted rollout identity '' @ rv @ '': '' @ e)
              | Inr cr \<Rightarrow>
                  (case Decode (su_Codec su) (cr_Raw cr) of
                     Inl e \<Rightarrow> Inl (''decoding persisted rollout identity '' @ rv @ '': '' @ e)
                   | Inr stored \<Rightarrow>
                       if \<not> Legacy stored then Inr (v2, False, False)
                       else (case Encode (su_Codec su) (Some (de_Spec stored)) of
                               Inl e \<Rightarrow> Inl (''re-encoding legacy rollout identity '' @ rv @ '': '' @ e)
                             | Inr canonical \<Rightarrow>
                                 if canonical \<noteq> cr_Raw cr \<or> Hash (su_Codec su) (Some (de_Spec stored)) \<noteq> rv then
                                   Inl (''ControllerRevision '' @ rv @ '' does not contain the canonical payload for its '' @
                                     ''persisted identity; refusing legacy adoption'')
                                 else if \<not> legacyRecordedWorkloadEqual (su_Library su) (md_Spec md) (de_Spec stored) then
                                   Inr (v2, False, False)
                                 else if lm_noRender ref then
                                   (if \<not> startupTimeoutMatchesDeployment (su_Reconciler su) md resolved primary then
                                      Inl (''legacy rejected revision '' @ rv @ '' has no live candidate and the primary '' @
                                        ''Deployment does not prove its omitted serving.startupTimeout; refusing to guess equivalence'')
                                    else Inr (rv, True, False))
                                 else (case lm_deployment ref of
                                         None \<Rightarrow> Inl (''legacy rollout identity '' @ rv @ '' has no matching live '' @
                                           variant_string (lm_variant ref) @ '' Deployment; refusing to guess effective runtime defaults'')
                                       | Some live \<Rightarrow>
                                           if template_revision live \<noteq> rv then
                                             Inl (''legacy rollout identity '' @ rv @ '' conflicts with live '' @
                                               variant_string (lm_variant ref) @ '' Deployment revision '' @
                                               go_Quote (template_revision live))
                                           else (case currentWorkloadMatchesDeployment su md prof resolved rv (lm_variant ref) live of
                                                   Inl e \<Rightarrow> Inl (''comparing legacy rollout identity '' @ rv @
                                                     '' with its live workload: '' @ e)
                                                 | Inr workloadDifferent \<Rightarrow> Inr (v2, False, False)
                                                 | Inr match \<Rightarrow>
                                                     Inr (rv, True, match = workloadLegacyTelemetry \<and> legacyRolloutActive md)))))))"

section \<open>The specification to render\<close>

definition deployment_read :: "string \<Rightarrow> (string + Deployment option) \<Rightarrow> string + Deployment option" where
  "deployment_read name answer =
     (case answer of Inl e \<Rightarrow> Inl (''reading Deployment '' @ name @ '': '' @ e) | Inr d \<Rightarrow> Inr d)"

fun cut_log_level :: "string list \<Rightarrow> string option" where
  "cut_log_level [] = None"
| "cut_log_level (a # as) =
     (if json_prefix ''--log-level='' a then Some (drop (length ''--log-level='') a) else cut_log_level as)"

definition resolveLegacyRevisionSpec ::
  "Setup \<Rightarrow> ModelDeployment \<Rightarrow> string \<Rightarrow> ModelDeploymentSpec \<Rightarrow> Profile \<Rightarrow> (string + Deployment option) \<Rightarrow>
   string + ModelDeploymentSpec" where
  "resolveLegacyRevisionSpec su md revisionID stored prof answer =
     (case deployment_read (PrimaryDeployment (re_SafeEncode (su_Env su)) (md_Name md)) answer of
        Inl e \<Rightarrow> Inl e
      | Inr primary \<Rightarrow>
          (case primary of
             None \<Rightarrow> Inl (''legacy revision '' @ revisionID @ '' omitted effective runtime defaults and no matching '' @
               ''primary Deployment remains; refusing to guess rollback configuration'')
           | Some d \<Rightarrow>
               if template_revision d \<noteq> revisionID then
                 Inl (''legacy revision '' @ revisionID @ '' omitted effective runtime defaults and no matching '' @
                   ''primary Deployment remains; refusing to guess rollback configuration'')
               else
                 (let unrecovered = ''legacy revision '' @ revisionID @
                        '' cannot recover its engine image and startup probe from the primary Deployment''
                  in case containerNamed (ps_Containers (dp_PodSpec d)) ContainerName of
                       None \<Rightarrow> Inl unrecovered
                     | Some c \<Rightarrow>
                         (case cn_StartupProbe c of
                            None \<Rightarrow> Inl unrecovered
                          | Some p \<Rightarrow>
                              if cn_Image c = '''' \<or> pb_PeriodSeconds p < 1 \<or> pb_FailureThreshold p < 1 then Inl unrecovered
                              else
                                (let seconds = wrap64 (pb_PeriodSeconds p * pb_FailureThreshold p);
                                     s = stored\<lparr>sp_Engine := (sp_Engine stored)\<lparr>en_Image := cn_Image c,
                                             en_ImagePullPolicy := cn_ImagePullPolicy c\<rparr>,
                                           sp_Serving := (sp_Serving stored)\<lparr>sv_StartupTimeout := Some (wrap64 (seconds * go_Second))\<rparr>\<rparr>;
                                     finish = (\<lambda>s. Inr (resolvedRevisionSpec (rr_MustParse (su_Reconciler su))
                                                 (md\<lparr>md_Spec := s\<rparr>) prof (su_Options su)))
                                 in if \<not> ShimEnabled (sp_Serving s) then finish s
                                    else (case containerNamed (ps_InitContainers (dp_PodSpec d)) ShimContainerName of
                                            None \<Rightarrow> Inl (''legacy revision '' @ revisionID @
                                              '' cannot recover its shim image from the primary Deployment'')
                                          | Some shim \<Rightarrow>
                                              if cn_Image shim = '''' then
                                                Inl (''legacy revision '' @ revisionID @
                                                  '' cannot recover its shim image from the primary Deployment'')
                                              else
                                                (let sh = (sv_Shim (sp_Serving s))\<lparr>sh_Image := cn_Image shim,
                                                       sh_Resources := cn_Resources shim\<rparr>;
                                                     sh = (if sh_LogLevel sh = '''' then
                                                             (case cut_log_level (cn_Args shim) of
                                                                Some l \<Rightarrow> sh\<lparr>sh_LogLevel := l\<rparr> | None \<Rightarrow> sh)
                                                           else sh)
                                                 in finish (s\<lparr>sp_Serving := (sp_Serving s)\<lparr>sv_Shim := sh\<rparr>\<rparr>))))))))"

definition specForRevision ::
  "Setup \<Rightarrow> ModelDeployment \<Rightarrow> string \<Rightarrow> string \<Rightarrow> ModelDeploymentSpec option \<Rightarrow> HistoryView \<Rightarrow>
   (string + Deployment option) \<Rightarrow> string + ModelDeploymentSpec" where
  "specForRevision su md target want resolvedTarget view answer =
     (if want = '''' \<or> want = target then
        (case resolvedTarget of
           Some t \<Rightarrow> Inr (mergeWorkloadSpec (md_Spec md) t False)
         | None \<Rightarrow> Inr (md_Spec md))
      else (case history_Get (su_SafeEncode su) (Some md) want view of
              Inl ApiNotFound \<Rightarrow> Inl (''revision history '' @ want @
                '' is missing; refusing to replace the stable workload with the live candidate: '' @ lib_NotFound (su_Library su))
            | Inl (HistoryError e) \<Rightarrow> Inl (''reading revision '' @ want @ '': '' @ e)
            | Inr cr \<Rightarrow>
                (case Decode (su_Codec su) (cr_Raw cr) of
                   Inl e \<Rightarrow> Inl (''decoding revision '' @ want @ '': '' @ e)
                 | Inr stored \<Rightarrow>
                     if \<not> Legacy stored then Inr (mergeWorkloadSpec (md_Spec md) (de_Spec stored) False)
                     else (let t = en_Type (sp_Engine (de_Spec stored)); legacyType = (if t = '''' then EngineLlamaCPP else t)
                           in case engine_Get (su_Registry su) legacyType of
                                Inl e \<Rightarrow> Inl (''resolving legacy revision '' @ want @ '': '' @ e)
                              | Inr prof \<Rightarrow>
                                  (case resolveLegacyRevisionSpec su md want (de_Spec stored) prof answer of
                                     Inl e \<Rightarrow> Inl (''resolving legacy revision '' @ want @ '': '' @ e)
                                   | Inr s \<Rightarrow> Inr (mergeWorkloadSpec (md_Spec md) s True))))))"

text \<open>Each lookup is a call of its own: what it sees is given per revision.\<close>

definition renderRollout ::
  "Setup \<Rightarrow> ModelDeployment \<Rightarrow> Profile \<Rightarrow> ModelDeploymentSpec \<Rightarrow> string \<Rightarrow> rollout \<Rightarrow> (string \<Rightarrow> HistoryView) \<Rightarrow>
   (string \<Rightarrow> string + Deployment option) \<Rightarrow> string + desiredChildren" where
  "renderRollout su md prof targetSpec target plan views answers =
     (let spec_of = (\<lambda>rv. specForRevision su md target rv (Some targetSpec) (views rv) (answers rv))
      in case spec_of (rl_PrimaryRevision plan) of
           Inl e \<Rightarrow> Inl e
         | Inr primarySpec \<Rightarrow>
             (let primary = \<lparr>vp_Spec = primarySpec, vp_Revision = rl_PrimaryRevision plan, vp_Replicas = rl_PrimaryReplicas plan\<rparr>
              in if rl_CanaryRevision plan = '''' \<or> rl_CanaryReplicas plan \<le> 0 then
                   buildChildren (su_Env su) md prof primary None (su_Options su)
                 else (case spec_of (rl_CanaryRevision plan) of
                         Inl e \<Rightarrow> Inl e
                       | Inr canarySpec \<Rightarrow>
                           buildChildren (su_Env su) md prof primary
                             (Some \<lparr>vp_Spec = canarySpec, vp_Revision = rl_CanaryRevision plan, vp_Replicas = rl_CanaryReplicas plan\<rparr>)
                             (su_Options su))))"

end
