(* ===== verification/Reconcile.thy ===== *)
theory Reconcile
  imports Revision_Migration Controller_Scale
begin

text \<open>
  One pass of the controller, whole (\<open>Reconcile\<close> and the functions it is made of,
  \<open>internal/controller/modeldeployment_controller.go\<close>; the API calls of \<open>canary.go\<close>). The API server is
  what it answers: \<open>Api\<close> holds the answer to each call of the pass, an object, an absence or an error. So
  other clients may do anything to the server between two calls. A pass returns the writes the server
  accepted, in order, the events it emitted, the revision history, and the requeue time or error that it
  hands to its caller. An \<open>option\<close> around it is the ladder loop of the planner, which may not return.
  Reconciling the monitoring objects is a call of the pass with an answer like the others: it touches no
  object this theory writes, and theory \<open>Observability\<close> models it.
\<close>

datatype 'a answer = AnswerNotFound | AnswerError string | AnswerOk 'a

datatype update_answer = UpdateOk | UpdateConflict string | UpdateError string

datatype ApiWrite =
    ApplyDeployment DeploymentApply
  | ApplyService ServiceApply
  | ApplyMetricsService ServiceApply
  | ApplyCanary DeploymentApply
  | DeleteCanary
  | PatchReplicas i32
  | ClearAnnotations
  | UpdateStatus ModelDeploymentStatus

datatype reconcile_error = TerminalError string | RetryError string

record Outcome =
  oc_Requeue :: go_duration
  oc_Err :: "reconcile_error option"
  oc_Writes :: "ApiWrite list"
  oc_Events :: "Event list"
  oc_History :: cr_store

record Api =
  ap_Get :: "ModelDeployment answer"
  ap_Primary :: "string + Deployment option"
  ap_Canary :: "string + Deployment option"
  ap_MigrationView :: HistoryView
  ap_Hold :: "(ModelDeployment answer \<times> update_answer) list"
  ap_RecordViews :: "HistoryView \<times> HistoryView \<times> HistoryView"
  ap_RecordErrs :: "string option \<times> string option \<times> (ControllerRevision \<Rightarrow> string option)"
  ap_History :: cr_store
  ap_HPAs :: ListResult
  ap_Scale :: PatchResult
  ap_RenderViews :: "string \<Rightarrow> HistoryView"
  ap_RenderPrimary :: "string \<Rightarrow> string + Deployment option"
  ap_Apply :: "ApiWrite \<Rightarrow> string option"
  ap_Delete :: "string option"
  ap_Clear :: PatchResult
  ap_Observability :: "ModelDeployment \<Rightarrow> metricsVerdict \<times> string option"
  ap_Primary2 :: "string + Deployment option"
  ap_Canary2 :: "string + Deployment option"
  ap_Latest :: "ModelDeployment answer"
  ap_Update :: update_answer
  ap_Terminal :: "(ModelDeployment answer \<times> update_answer) list"
  ap_Grows :: bool

text \<open>Conditions: the library's setter and lookup.\<close>

record Conditions =
  cl_Set :: condition_setter
  cl_Has :: "Condition list \<Rightarrow> string \<Rightarrow> bool"

fun isConditionTrue :: "Condition list \<Rightarrow> string \<Rightarrow> bool" where
  "isConditionTrue [] t = False"
| "isConditionTrue (c # cs) t = (if cd_Type c = t then cd_Status c = ConditionTrue else isConditionTrue cs t)"

definition EventReasonInvalidSpec :: string where "EventReasonInvalidSpec = ''InvalidSpec''"
definition EventReasonRolloutComplete :: string where "EventReasonRolloutComplete = ''RolloutComplete''"
definition EventReasonRevisionCreated :: string where "EventReasonRevisionCreated = ''RevisionCreated''"
definition EventReasonMetricsUnavailable :: string where "EventReasonMetricsUnavailable = ''MetricsUnavailable''"

definition staleRequeue :: go_duration where "staleRequeue = 250 * 1000000"

section \<open>Failing terminally\<close>

text \<open>\<open>retry.RetryOnConflict\<close>: the attempts in order until one does not conflict; the list holds as many as
  the library's default allows, at least one; the last conflict is the error.\<close>

fun retry_on_conflict ::
  "(ModelDeployment \<Rightarrow> string + ModelDeploymentStatus option) \<Rightarrow> (ModelDeployment answer \<times> update_answer) list \<Rightarrow>
   ApiWrite list \<times> string option" where
  "retry_on_conflict attempt [] = ([], None)"
| "retry_on_conflict attempt ((got, upd) # rest) =
     (case got of
        AnswerNotFound \<Rightarrow> ([], None)
      | AnswerError e \<Rightarrow> ([], Some e)
      | AnswerOk latest \<Rightarrow>
          (case attempt latest of
             Inl e \<Rightarrow> ([], Some e)
           | Inr None \<Rightarrow> ([], None)
           | Inr (Some status) \<Rightarrow>
               (case upd of
                  UpdateOk \<Rightarrow> ([UpdateStatus status], None)
                | UpdateError e \<Rightarrow> ([], Some e)
                | UpdateConflict e \<Rightarrow> if rest = [] then ([], Some e) else retry_on_conflict attempt rest)))"

text \<open>
  \<open>status := latest.Status\<close> copies the struct but shares the array of conditions: a condition that exists
  is changed in place and shows in \<open>latest\<close> too, one that is appended does not. \<open>grows\<close> says whether the
  first append had to move the array, after which the two no longer share it.
\<close>

definition shared_conditions :: "Conditions \<Rightarrow> bool \<Rightarrow> Condition list \<Rightarrow> i64 \<Rightarrow> string \<Rightarrow> Condition list" where
  "shared_conditions cl grows cs gen msg =
     (let put = (\<lambda>cs t. if cl_Has cl cs t
                 then cl_Set cl cs (condition t gen ConditionFalse ReasonInvalidSpec msg) else cs);
          cs1 = put cs ConditionSpecValid
      in if \<not> cl_Has cl cs ConditionSpecValid \<and> grows then cs1 else put cs1 ConditionReady)"

definition terminal_attempt ::
  "Library \<Rightarrow> Conditions \<Rightarrow> bool \<Rightarrow> string \<Rightarrow> ModelDeployment \<Rightarrow> string + ModelDeploymentStatus option" where
  "terminal_attempt lib cl grows msg latest =
     (let status = setInvalidSpec (cl_Set cl) (cl_Has cl)
            ((md_Status latest)\<lparr>ms_ObservedGeneration := md_Generation latest\<rparr>) (md_Generation latest) msg;
          seen = (md_Status latest)\<lparr>ms_Conditions :=
            shared_conditions cl grows (ms_Conditions (md_Status latest)) (md_Generation latest) msg\<rparr>
      in if lib_EqStatus lib seen status then Inr None else Inr (Some status))"

definition outcome_of :: "go_duration \<Rightarrow> reconcile_error option \<Rightarrow> ApiWrite list \<Rightarrow> Event list \<Rightarrow> cr_store \<Rightarrow> Outcome" where
  "outcome_of rq err ws evs hist =
     \<lparr>oc_Requeue = rq, oc_Err = err, oc_Writes = ws, oc_Events = evs, oc_History = hist\<rparr>"

definition failTerminally ::
  "Setup \<Rightarrow> Conditions \<Rightarrow> Api \<Rightarrow> ApiWrite list \<Rightarrow> Event list \<Rightarrow> cr_store \<Rightarrow> string \<Rightarrow> Outcome" where
  "failTerminally su cl api ws evs hist msg =
     (let evs = evs @ [event EventWarning EventReasonInvalidSpec ''Validate'' msg];
          (ws2, err) = retry_on_conflict (terminal_attempt (su_Library su) cl (ap_Grows api) msg) (ap_Terminal api)
      in case err of
           Some e \<Rightarrow> outcome_of 0 (Some (RetryError e)) (ws @ ws2) evs hist
         | None \<Rightarrow> outcome_of 0 (Some (TerminalError msg)) (ws @ ws2) evs hist)"

section \<open>Holding an old rollout\<close>

definition hold_message :: "string \<Rightarrow> string" where
  "hold_message rv = ''Legacy rollout '' @ rv @ '' is using pre-migration telemetry. Serving workloads, rung, counters, '' @
     ''and timestamps are preserved; set '' @ AnnoAbort @ ''=true to abort safely before telemetry migration''"

definition hold_attempt :: "Library \<Rightarrow> Conditions \<Rightarrow> string \<Rightarrow> ModelDeployment \<Rightarrow> string + ModelDeploymentStatus option" where
  "hold_attempt lib cl rv latest =
     (let changed = ''legacy rollout state changed while publishing the telemetry migration hold''
      in case ms_Canary (md_Status latest) of
           None \<Rightarrow> Inl changed
         | Some cs \<Rightarrow>
             if ct_Revision cs \<noteq> rv then Inl changed
             else
               (let status = (md_Status latest)\<lparr>ms_Canary := Some (cs\<lparr>ct_MetricScopeReady := False, ct_Message := hold_message rv\<rparr>)\<rparr>;
                    status = setCondition (cl_Set cl) status (condition ConditionMetricScopeReady (md_Generation latest)
                      ConditionFalse ReasonMetricsScopePending (hold_message rv))
                in if lib_EqStatus lib (md_Status latest) status then Inr None else Inr (Some status)))"

definition holdLegacyTelemetryMigration ::
  "Setup \<Rightarrow> Conditions \<Rightarrow> string \<Rightarrow> (ModelDeployment answer \<times> update_answer) list \<Rightarrow> ApiWrite list \<times> string option" where
  "holdLegacyTelemetryMigration su cl rv attempts = retry_on_conflict (hold_attempt (su_Library su) cl rv) attempts"

section \<open>Children\<close>

fun apply_all :: "(ApiWrite \<Rightarrow> string option) \<Rightarrow> (string \<times> ApiWrite) list \<Rightarrow> ApiWrite list \<times> string option" where
  "apply_all fails [] = ([], None)"
| "apply_all fails ((what, w) # rest) =
     (case fails w of
        Some e \<Rightarrow> ([], Some (''applying '' @ what @ '': '' @ e))
      | None \<Rightarrow> (let (ws, err) = apply_all fails rest in (w # ws, err)))"

definition children_writes :: "desiredChildren \<Rightarrow> (string \<times> ApiWrite) list" where
  "children_writes d =
     [(''Deployment'', ApplyDeployment (dh_Deployment d)), (''Service'', ApplyService (dh_Service d)),
      (''metrics Service'', ApplyMetricsService (dh_MetricsService d))] @
     (case dh_CanaryDeployment d of None \<Rightarrow> [] | Some c \<Rightarrow> [(''canary Deployment'', ApplyCanary c)])"

definition applyChildren :: "(ApiWrite \<Rightarrow> string option) \<Rightarrow> desiredChildren \<Rightarrow> ApiWrite list \<times> string option" where
  "applyChildren fails d = apply_all fails (children_writes d)"

text \<open>The answer to the deletion: an error, or none when the Deployment was deleted or is gone already.\<close>

definition deleteCanaryDeployment :: "string option \<Rightarrow> ApiWrite list \<times> string option" where
  "deleteCanaryDeployment answer =
     (case answer of Some e \<Rightarrow> ([], Some (''deleting canary Deployment: '' @ e)) | None \<Rightarrow> ([DeleteCanary], None))"

definition clearRolloutAnnotations :: "ModelDeployment \<Rightarrow> PatchResult \<Rightarrow> ModelDeployment \<times> ApiWrite list \<times> string option" where
  "clearRolloutAnnotations md patch =
     (if \<not> annotationTrue md AnnoPromote \<and> \<not> annotationTrue md AnnoAbort then (md, [], None)
      else (case patch of
              PatchOk resp \<Rightarrow> (resp, [ClearAnnotations], None)
            | PatchNotFound \<Rightarrow> (md, [], None)
            | PatchError e \<Rightarrow> (md, [], Some (''clearing rollout annotations: '' @ e))))"

section \<open>Observing and writing the status\<close>

definition canary_read :: "string + Deployment option \<Rightarrow> string + Deployment option" where
  "canary_read answer = (case answer of Inl e \<Rightarrow> Inl (''reading canary Deployment: '' @ e) | Inr d \<Rightarrow> Inr d)"

definition endpointFor :: "(string \<Rightarrow> string) \<Rightarrow> ModelDeployment \<Rightarrow> string" where
  "endpointFor enc md = Endpoint enc (md_Name md) (md_Namespace md) (sv_Port (sp_Serving (md_Spec md)))"

definition observe_cluster ::
  "Setup \<Rightarrow> Api \<Rightarrow> ModelDeployment \<Rightarrow> string \<Rightarrow> rollout \<Rightarrow> autoscaleVerdict \<Rightarrow> metricsVerdict \<Rightarrow> string + observed" where
  "observe_cluster su api md rv plan scaling metrics =
     (case deployment_read (PrimaryDeployment (re_SafeEncode (su_Env su)) (md_Name md)) (ap_Primary2 api) of
        Inl e \<Rightarrow> Inl e
      | Inr dep \<Rightarrow>
          (case canary_read (ap_Canary2 api) of
             Inl e \<Rightarrow> Inl e
           | Inr cdep \<Rightarrow>
               Inr \<lparr>ov_Deployment = dep, ov_CanaryDeployment = cdep, ov_DesiredReplicas = replicasFor md, ov_Revision = rv,
                 ov_PrimaryRevision = rl_PrimaryRevision plan, ov_Selector = serviceSelectorString md,
                 ov_Endpoint = endpointFor (re_SafeEncode (su_Env su)) md, ov_Rollout = plan,
                 ov_Scaling = scaling, ov_Metrics = metrics\<rparr>))"

datatype status_error = StalePlan | StatusError string

definition updateStatus ::
  "Setup \<Rightarrow> Conditions \<Rightarrow> Api \<Rightarrow> ModelDeployment \<Rightarrow> observed \<Rightarrow> ApiWrite list \<times> Event list \<times> status_error option" where
  "updateStatus su cl api md obs =
     (case ap_Latest api of
        AnswerNotFound \<Rightarrow> ([], [], None)
      | AnswerError e \<Rightarrow> ([], [], Some (StatusError e))
      | AnswerOk latest \<Rightarrow>
          if md_ResourceVersion latest \<noteq> md_ResourceVersion md then ([], [], Some StalePlan)
          else
            (let wasReady = isConditionTrue (ms_Conditions (md_Status latest)) ConditionReady;
                 newStatus = computeStatus (cl_Set cl) latest obs (md_Status latest)
             in if lib_EqStatus (su_Library su) (md_Status latest) newStatus then ([], [], None)
                else (case ap_Update api of
                        UpdateConflict e \<Rightarrow> ([], [], Some StalePlan)
                      | UpdateError e \<Rightarrow> ([], [], Some (StatusError e))
                      | UpdateOk \<Rightarrow>
                          ([UpdateStatus newStatus],
                           (if \<not> wasReady \<and> isConditionTrue (ms_Conditions newStatus) ConditionReady
                            then [event EventNormal EventReasonRolloutComplete ''Rollout''
                                    (''Revision '' @ ov_Revision obs @ '' is serving'')] else []), None))))"

definition noteMetricsUnavailable :: "ModelDeployment \<Rightarrow> metricsVerdict \<Rightarrow> Event list" where
  "noteMetricsUnavailable md v =
     (if mv_Status v = ConditionTrue then []
      else eventOnce md ConditionMetricsRegistered (mv_Reason v)
             (event EventWarning EventReasonMetricsUnavailable ''RegisterMetrics'' (mv_Message v)))"

section \<open>The pass\<close>

text \<open>The checks that need no API call.\<close>

definition admitted :: "Setup \<Rightarrow> ModelDeployment \<Rightarrow> string + (Profile \<times> ModelDeploymentSpec \<times> Snapshot)" where
  "admitted su md =
     (case validateCanaryRouting (md_Rollout md) of
        Some e \<Rightarrow> Inl e
      | None \<Rightarrow>
          (case engine_Get (su_Registry su) (en_Type (sp_Engine (md_Spec md))) of
             Inl e \<Rightarrow> Inl e
           | Inr prof \<Rightarrow>
               (case pf_Validate prof (Some (md_Spec md)) of
                  Some e \<Rightarrow> Inl e
                | None \<Rightarrow>
                    (let resolved = resolvedRevisionSpec (rr_MustParse (su_Reconciler su)) md prof (su_Options su)
                     in case NewSnapshot (su_Codec su) (Some resolved) of
                          Inl e \<Rightarrow> Inl e
                        | Inr snap \<Rightarrow> Inr (prof, resolved, snap)))))"

text \<open>From the rendered children to the end of the pass.\<close>

definition reconcile_finish ::
  "Setup \<Rightarrow> Conditions \<Rightarrow> Api \<Rightarrow> ModelDeployment \<Rightarrow> string \<Rightarrow> rollout \<Rightarrow> ScaleResult \<Rightarrow> desiredChildren \<Rightarrow>
   ApiWrite list \<Rightarrow> Event list \<Rightarrow> cr_store \<Rightarrow> Outcome" where
  "reconcile_finish su cl api md rv plan scaling desired ws0 evs0 hist =
     (let retry = (\<lambda>ws evs e. outcome_of 0 (Some (RetryError e)) ws evs hist);
          (ws1, err1) = applyChildren (ap_Apply api) desired; ws = ws0 @ ws1
      in case err1 of
           Some e \<Rightarrow> retry ws evs0 e
         | None \<Rightarrow>
             (let (ws2, err2) = (if dh_CanaryDeployment desired = None then deleteCanaryDeployment (ap_Delete api) else ([], None));
                  ws = ws @ ws2
              in case err2 of
                   Some e \<Rightarrow> retry ws evs0 e
                 | None \<Rightarrow>
                     (let evs = evs0 @ emitRolloutEvents md plan;
                          (md1, ws3, err3) = clearRolloutAnnotations md (ap_Clear api); ws = ws @ ws3
                      in case err3 of
                           Some e \<Rightarrow> retry ws evs e
                         | None \<Rightarrow>
                             (let (verdict, metricsErr) = ap_Observability api md1;
                                  evs = evs @ noteMetricsUnavailable md1 verdict
                              in case observe_cluster su api md1 rv plan (sc_Verdict scaling) verdict of
                                   Inl e \<Rightarrow> retry ws evs e
                                 | Inr obs \<Rightarrow>
                                     (let (ws4, evs4, err4) = updateStatus su cl api md1 obs; ws = ws @ ws4; evs = evs @ evs4
                                      in case err4 of
                                           Some StalePlan \<Rightarrow> outcome_of staleRequeue None ws evs hist
                                         | Some (StatusError e) \<Rightarrow> retry ws evs e
                                         | None \<Rightarrow>
                                             (case metricsErr of
                                                Some e \<Rightarrow> retry ws evs e
                                              | None \<Rightarrow>
                                                  (case sc_Err scaling of
                                                     Some e \<Rightarrow> retry ws evs e
                                                   | None \<Rightarrow>
                                                       outcome_of (soonest (soonest (rl_RequeueAfter plan)
                                                         (av_RequeueAfter (sc_Verdict scaling))) (mv_RequeueAfter verdict))
                                                         None ws evs hist)))))))"

text \<open>From the target revision on: scale, plan, render. The replica patch was sent and accepted exactly if
  the count is no longer the one that was read.\<close>

definition scale_writes :: "ModelDeployment \<Rightarrow> ScaleResult \<Rightarrow> PatchResult \<Rightarrow> ApiWrite list" where
  "scale_writes md s patch =
     (case patch of
        PatchOk resp \<Rightarrow> if replicasFor (sc_Object s) = replicasFor md then [] else [PatchReplicas (replicasFor (sc_Object s))]
      | _ \<Rightarrow> [])"

definition reconcile_rollout ::
  "Setup \<Rightarrow> Conditions \<Rightarrow> Api \<Rightarrow> ModelDeployment \<Rightarrow> Profile \<Rightarrow> ModelDeploymentSpec \<Rightarrow> string \<Rightarrow>
   Deployment option \<Rightarrow> Deployment option \<Rightarrow> Event list \<Rightarrow> cr_store \<Rightarrow> Outcome option" where
  "reconcile_rollout su cl api md prof resolved rv primaryDep canaryDep evs hist =
     (let scaling = reconcileAutoscaling (su_Reconciler su) md primaryDep canaryDep (ap_HPAs api) (ap_Scale api);
          md1 = sc_Object scaling; evs = evs @ sc_Events scaling; ws = scale_writes md scaling (ap_Scale api)
      in map_option (\<lambda>plan.
           case renderRollout su md1 prof resolved rv plan (ap_RenderViews api) (ap_RenderPrimary api) of
             Inl e \<Rightarrow> failTerminally su cl api ws evs hist e
           | Inr desired \<Rightarrow> reconcile_finish su cl api md1 rv plan scaling desired ws evs hist)
         (planRollout (su_Reconciler su) md1 rv primaryDep canaryDep))"

definition Reconcile :: "Setup \<Rightarrow> Conditions \<Rightarrow> Api \<Rightarrow> Outcome option" where
  "Reconcile su cl api =
     (let hist = ap_History api; retry = (\<lambda>e. Some (outcome_of 0 (Some (RetryError e)) [] [] hist));
          quiet = Some (outcome_of 0 None [] [] hist)
      in case ap_Get api of
           AnswerNotFound \<Rightarrow> quiet
         | AnswerError e \<Rightarrow> retry e
         | AnswerOk md \<Rightarrow>
             if md_DeletionTimestamp md \<noteq> None then quiet
             else (case admitted su md of
                     Inl e \<Rightarrow> Some (failTerminally su cl api [] [] hist e)
                   | Inr (prof, resolved, snap) \<Rightarrow>
                       (case deployment_read (PrimaryDeployment (re_SafeEncode (su_Env su)) (md_Name md)) (ap_Primary api) of
                          Inl e \<Rightarrow> retry e
                        | Inr primaryDep \<Rightarrow>
                            (case canary_read (ap_Canary api) of
                               Inl e \<Rightarrow> retry e
                             | Inr canaryDep \<Rightarrow>
                                 (case targetRevisionForMigration su md prof resolved (sn_Revision snap) primaryDep canaryDep
                                         (ap_MigrationView api) of
                                    Inl e \<Rightarrow> retry (''resolving revision migration: '' @ e)
                                  | Inr (rv, adoptedLegacy, holdLegacy) \<Rightarrow>
                                      if holdLegacy \<and> \<not> annotationTrue md AnnoAbort then
                                        (let (ws, err) = holdLegacyTelemetryMigration su cl rv (ap_Hold api)
                                         in Some (outcome_of 0 (map_option RetryError err) ws [] hist))
                                      else if adoptedLegacy then
                                        reconcile_rollout su cl api md prof resolved rv primaryDep canaryDep [] hist
                                      else
                                        (let (err, created, hist1) = recordRevision (su_Codec su) md rv [sn_Raw snap]
                                               (ap_RecordViews api) (ap_RecordErrs api) hist;
                                             evs = (if created then [event EventNormal EventReasonRevisionCreated ''RecordRevision''
                                                      (''Recorded revision '' @ rv)] else [])
                                         in case err of
                                              Some e \<Rightarrow> Some (outcome_of 0 (Some (RetryError (''recording revision: '' @
                                                (case e of HistoryError m \<Rightarrow> m | ApiNotFound \<Rightarrow> lib_NotFound (su_Library su)))))
                                                [] evs hist1)
                                            | None \<Rightarrow>
                                                reconcile_rollout su cl api md prof resolved rv primaryDep canaryDep evs hist1))))))"

end
