(* ===== verification/Reconcile_Cases.thy ===== *)
theory Reconcile_Cases
  imports Reconcile Controller_Scale_Props Controller_Runs Children_Props Revision_History_Props
begin

text \<open>
  The cases of a pass. Backwards: which writes a pass can have made, and from which plan a write to a child
  comes. Forwards: what a pass does on given answers of the API server. The theories after this one state
  their properties over these cases.
\<close>

section \<open>Writes\<close>

fun is_child :: "ApiWrite \<Rightarrow> bool" where
  "is_child (ApplyDeployment d) = True"
| "is_child (ApplyService s) = True"
| "is_child (ApplyMetricsService s) = True"
| "is_child (ApplyCanary d) = True"
| "is_child DeleteCanary = True"
| "is_child _ = False"

fun is_status :: "ApiWrite \<Rightarrow> bool" where
  "is_status (UpdateStatus s) = True"
| "is_status _ = False"

lemma status_not_child: "is_status w \<Longrightarrow> \<not> is_child w"
  by (cases w) auto

lemma children_not_status: "w \<in> set (map snd (children_writes desired)) \<Longrightarrow> \<not> is_status w"
  by (auto simp: children_writes_def split: option.splits)

lemma retry_writes:
  "retry_on_conflict attempt tries = (ws, err) \<Longrightarrow>
   ws = [] \<or> (\<exists>latest status. ws = [UpdateStatus status] \<and> err = None \<and> attempt latest = Inr (Some status) \<and>
     (AnswerOk latest, UpdateOk) \<in> set tries)"
proof (induction attempt tries rule: retry_on_conflict.induct)
  case (2 attempt got upd rest)
  then show ?case
    by (auto split: answer.splits sum.splits option.splits update_answer.splits if_splits)
qed simp

lemma failTerminally_writes:
  "\<exists>ws2. oc_Writes (failTerminally su cl api ws evs hist msg) = ws @ ws2 \<and>
    (ws2 = [] \<or> (\<exists>latest status. ws2 = [UpdateStatus status] \<and>
       terminal_attempt (su_Library su) cl (ap_Grows api) msg latest = Inr (Some status) \<and>
       (AnswerOk latest, UpdateOk) \<in> set (ap_Terminal api)))"
proof -
  obtain ws2 err where r: "retry_on_conflict (terminal_attempt (su_Library su) cl (ap_Grows api) msg) (ap_Terminal api) = (ws2, err)"
    by fastforce
  show ?thesis
    using retry_writes [OF r] by (cases err) (auto simp: failTerminally_def r outcome_of_def)
qed

lemma scale_writes_cases: "scale_writes md s patch = [] \<or> (\<exists>n. scale_writes md s patch = [PatchReplicas n])"
  by (auto simp: scale_writes_def split: PatchResult.splits)

lemma apply_all_prefix:
  "apply_all fails ws = (done1, err) \<Longrightarrow>
   \<exists>n. done1 = take n (map snd ws) \<and> (err = None \<longleftrightarrow> done1 = map snd ws)"
proof (induction ws arbitrary: done1 err)
  case (Cons w ws)
  obtain what x where w: "w = (what, x)"
    by fastforce
  show ?case
  proof (cases "fails x")
    case None
    obtain d e where r: "apply_all fails ws = (d, e)"
      by fastforce
    from Cons.IH [OF r] obtain n where "d = take n (map snd ws)" "e = None \<longleftrightarrow> d = map snd ws"
      by blast
    then show ?thesis
      using Cons.prems None r by (intro exI [of _ "Suc n"]) (auto simp: w)
  qed (use Cons.prems in \<open>auto simp: w intro!: exI [of _ 0]\<close>)
qed simp

lemma applyChildren_sub: "applyChildren fails d = (ws, err) \<Longrightarrow> set ws \<subseteq> set (map snd (children_writes d))"
  using apply_all_prefix [of fails "children_writes d" ws err] by (auto simp: applyChildren_def dest: in_set_takeD)

lemma clear_writes: "clearRolloutAnnotations md patch = (md1, ws, err) \<Longrightarrow> ws = [] \<and> md1 = md \<or> ws = [ClearAnnotations] \<and> patch = PatchOk md1"
  by (auto simp: clearRolloutAnnotations_def split: if_splits PatchResult.splits)

lemma updateStatus_writes:
  "updateStatus su cl api md obs = (ws, evs, err) \<Longrightarrow> ws = [] \<or>
   (\<exists>latest. ap_Latest api = AnswerOk latest \<and> md_ResourceVersion latest = md_ResourceVersion md \<and>
      ws = [UpdateStatus (computeStatus (cl_Set cl) latest obs (md_Status latest))] \<and> err = None \<and> ap_Update api = UpdateOk)"
  by (auto simp: updateStatus_def Let_def split: answer.splits if_splits update_answer.splits)

section \<open>The steps of a pass\<close>

text \<open>The end of a pass, as the writes it can have made: children, the deletion of the canary, the cleared
  annotations and the status, in this order; a later group only after the earlier ones are complete.\<close>

definition finish_shape ::
  "Setup \<Rightarrow> Conditions \<Rightarrow> Api \<Rightarrow> ModelDeployment \<Rightarrow> string \<Rightarrow> rollout \<Rightarrow> ScaleResult \<Rightarrow> desiredChildren \<Rightarrow>
   ApiWrite list \<Rightarrow> ApiWrite list \<Rightarrow> ApiWrite list \<Rightarrow> ApiWrite list \<Rightarrow> bool" where
  "finish_shape su cl api md rv plan scaling desired ws1 ws2 ws3 ws4 \<longleftrightarrow>
    set ws1 \<subseteq> set (map snd (children_writes desired)) \<and>
    (ws2 = [] \<or> ws2 = [DeleteCanary] \<and> dh_CanaryDeployment desired = None) \<and>
    (ws3 = [] \<or> ws3 = [ClearAnnotations] \<and> ap_Clear api = PatchOk (fst (clearRolloutAnnotations md (ap_Clear api)))) \<and>
    (ws4 = [] \<or> ws3 = fst (snd (clearRolloutAnnotations md (ap_Clear api))) \<and> (\<exists>latest obs v. ap_Latest api = AnswerOk latest \<and> ap_Update api = UpdateOk \<and>
       md_ResourceVersion latest = md_ResourceVersion (fst (clearRolloutAnnotations md (ap_Clear api))) \<and>
       observe_cluster su api (fst (clearRolloutAnnotations md (ap_Clear api))) rv plan (sc_Verdict scaling) v = Inr obs \<and>
       ws4 = [UpdateStatus (computeStatus (cl_Set cl) latest obs (md_Status latest))]))"

definition children_done :: "desiredChildren \<Rightarrow> ApiWrite list \<Rightarrow> ApiWrite list \<Rightarrow> bool" where
  "children_done desired ws1 ws2 \<longleftrightarrow>
     ws1 = map snd (children_writes desired) \<and> (dh_CanaryDeployment desired = None \<longrightarrow> ws2 = [DeleteCanary])"

lemma finish_writes:
  fixes su cl api md rv plan scaling desired ws0 evs0 hist
  defines "oc \<equiv> reconcile_finish su cl api md rv plan scaling desired ws0 evs0 hist"
  shows "\<exists>ws1 ws2 ws3 ws4. oc_Writes oc = ws0 @ ws1 @ ws2 @ ws3 @ ws4 \<and> oc_History oc = hist \<and>
    finish_shape su cl api md rv plan scaling desired ws1 ws2 ws3 ws4 \<and>
    (oc_Err oc = None \<or> ws4 \<noteq> [] \<longrightarrow> children_done desired ws1 ws2)"
proof -
  obtain ws1 err1 where s1: "applyChildren (ap_Apply api) desired = (ws1, err1)"
    by fastforce
  obtain ws2 err2 where s2: "(if dh_CanaryDeployment desired = None then deleteCanaryDeployment (ap_Delete api) else ([], None)) = (ws2, err2)"
    by fastforce
  obtain md1 ws3 err3 where s3: "clearRolloutAnnotations md (ap_Clear api) = (md1, ws3, err3)"
    by (metis prod_cases3)
  obtain v merr where s4: "ap_Observability api md1 = (v, merr)"
    by fastforce
  note steps = reconcile_finish_def s1 s2 s3 s4 outcome_of_def Let_def split_conv
  have shape: "finish_shape su cl api md rv plan scaling desired ws1 [] [] []"
    "finish_shape su cl api md rv plan scaling desired ws1 ws2 [] []"
    "finish_shape su cl api md rv plan scaling desired ws1 ws2 ws3 []"
    using applyChildren_sub [OF s1] s2 clear_writes [OF s3]
    by (auto simp: finish_shape_def s3 deleteCanaryDeployment_def split: if_splits option.splits)
  have dn: "children_done desired ws1 ws2" if "err1 = None" "err2 = None"
    using that s2 apply_all_prefix [of "ap_Apply api" "children_writes desired" ws1 err1] s1
    by (auto simp: applyChildren_def children_done_def deleteCanaryDeployment_def split: if_splits option.splits)
  consider (unapplied) e where "err1 = Some e" | (undeleted) e where "err1 = None" "err2 = Some e"
    | (uncleared) e where "err1 = None" "err2 = None" "err3 = Some e"
    | (unobserved) e where "err1 = None" "err2 = None" "err3 = None"
        "observe_cluster su api md1 rv plan (sc_Verdict scaling) v = Inl e"
    | (observed) obs where "err1 = None" "err2 = None" "err3 = None"
        "observe_cluster su api md1 rv plan (sc_Verdict scaling) v = Inr obs"
    by (cases err1; cases err2; cases err3; cases "observe_cluster su api md1 rv plan (sc_Verdict scaling) v") auto
  then show ?thesis
  proof cases
    case unapplied
    then have "oc_Writes oc = ws0 @ ws1" "oc_History oc = hist" "oc_Err oc \<noteq> None"
      by (simp_all add: oc_def steps)
    then show ?thesis
      using shape(1) by - (rule exI [of _ ws1], rule exI [of _ "[]"], rule exI [of _ "[]"], rule exI [of _ "[]"], auto)
  next
    case undeleted
    then have "oc_Writes oc = ws0 @ ws1 @ ws2" "oc_History oc = hist" "oc_Err oc \<noteq> None"
      by (simp_all add: oc_def steps)
    then show ?thesis
      using shape(2) by - (rule exI [of _ ws1], rule exI [of _ ws2], rule exI [of _ "[]"], rule exI [of _ "[]"], auto)
  next
    case uncleared
    then have "oc_Writes oc = ws0 @ ws1 @ ws2 @ ws3" "oc_History oc = hist"
      by (simp_all add: oc_def steps)
    then show ?thesis
      using shape(3) dn uncleared by - (rule exI [of _ ws1], rule exI [of _ ws2], rule exI [of _ ws3], rule exI [of _ "[]"], auto)
  next
    case unobserved
    then have "oc_Writes oc = ws0 @ ws1 @ ws2 @ ws3" "oc_History oc = hist"
      by (simp_all add: oc_def steps)
    then show ?thesis
      using shape(3) dn unobserved by - (rule exI [of _ ws1], rule exI [of _ ws2], rule exI [of _ ws3], rule exI [of _ "[]"], auto)
  next
    case (observed obs)
    obtain ws4 evs4 err4 where s5: "updateStatus su cl api md1 obs = (ws4, evs4, err4)"
      by (metis prod_cases3)
    have "oc_Writes oc = ws0 @ ws1 @ ws2 @ ws3 @ ws4" "oc_History oc = hist"
      using observed by (simp_all add: oc_def steps s5 split: option.split status_error.split)
    moreover have "finish_shape su cl api md rv plan scaling desired ws1 ws2 ws3 ws4"
      using shape(3) updateStatus_writes [OF s5] observed(4) unfolding finish_shape_def s3 fst_conv snd_conv by blast
    ultimately show ?thesis
      using dn observed(1,2) by blast
  qed
qed

text \<open>What a pass that reaches its rollout has established: the object, the profile, the resolved
  specification, the target revision and the Deployments it read.\<close>

record Reached =
  rd_MD :: ModelDeployment
  rd_Profile :: Profile
  rd_Resolved :: ModelDeploymentSpec
  rd_Snapshot :: Snapshot
  rd_Target :: string
  rd_Primary :: "Deployment option"
  rd_CanaryDep :: "Deployment option"

definition reached :: "Setup \<Rightarrow> Api \<Rightarrow> Reached \<Rightarrow> bool" where
  "reached su api x \<longleftrightarrow>
     ap_Get api = AnswerOk (rd_MD x) \<and> md_DeletionTimestamp (rd_MD x) = None \<and>
     admitted su (rd_MD x) = Inr (rd_Profile x, rd_Resolved x, rd_Snapshot x) \<and>
     ap_Primary api = Inr (rd_Primary x) \<and> ap_Canary api = Inr (rd_CanaryDep x) \<and>
     (\<exists>adopted hold. targetRevisionForMigration su (rd_MD x) (rd_Profile x) (rd_Resolved x) (sn_Revision (rd_Snapshot x))
        (rd_Primary x) (rd_CanaryDep x) (ap_MigrationView api) = Inr (rd_Target x, adopted, hold) \<and>
        (hold \<longrightarrow> annotationTrue (rd_MD x) AnnoAbort))"

definition scaled :: "Setup \<Rightarrow> Api \<Rightarrow> Reached \<Rightarrow> ScaleResult" where
  "scaled su api x = reconcileAutoscaling (su_Reconciler su) (rd_MD x) (rd_Primary x) (rd_CanaryDep x) (ap_HPAs api) (ap_Scale api)"

text \<open>Once the object is admitted and its Deployments are read.\<close>

lemma Reconcile_read_cases:
  assumes "Reconcile su cl api = Some oc" and obj: "ap_Get api = AnswerOk md" "md_DeletionTimestamp md = None"
    and adm: "admitted su md = Inr (prof, resolved, snap)" and reads: "ap_Primary api = Inr pd" "ap_Canary api = Inr cd"
  obtains (settled) "\<forall>w \<in> set (oc_Writes oc). is_status w"
  | (rollout) x evs hist where "reached su api x"
      "reconcile_rollout su cl api (rd_MD x) (rd_Profile x) (rd_Resolved x) (rd_Target x) (rd_Primary x) (rd_CanaryDep x) evs hist = Some oc"
proof (cases "targetRevisionForMigration su md prof resolved (sn_Revision snap) pd cd (ap_MigrationView api)")
  case (Inl e)
  then show thesis
    using assms settled by (auto simp: Reconcile_def Let_def deployment_read_def canary_read_def outcome_of_def)
next
  case t: (Inr b)
  obtain rv adopted hold where b: "b = (rv, adopted, hold)"
    by (metis prod_cases3)
  let ?x = "\<lparr>rd_MD = md, rd_Profile = prof, rd_Resolved = resolved, rd_Snapshot = snap, rd_Target = rv,
    rd_Primary = pd, rd_CanaryDep = cd\<rparr>"
  obtain err created hist1 where rec: "recordRevision (su_Codec su) md rv [sn_Raw snap] (ap_RecordViews api) (ap_RecordErrs api) (ap_History api) = (err, created, hist1)"
    by (metis prod_cases3)
  obtain ws herr where h: "holdLegacyTelemetryMigration su cl rv (ap_Hold api) = (ws, herr)"
    by fastforce
  have hw: "\<forall>w \<in> set ws. is_status w"
    using retry_writes h unfolding holdLegacyTelemetryMigration_def by fastforce
  note unfold = Reconcile_def obj adm reads t b rec h deployment_read_def canary_read_def outcome_of_def
  show thesis
  proof (cases "hold \<and> \<not> annotationTrue md AnnoAbort")
    case True
    then show thesis
      using assms(1) settled hw by (auto simp: unfold Let_def)
  next
    case False
    then have x: "reached su api ?x"
      using obj adm reads t b by (auto simp: reached_def)
    consider "adopted \<or> err = None" | "\<not> adopted" "err \<noteq> None"
      by blast
    then show thesis
      using rollout [OF x] settled assms(1) False by cases (cases adopted; auto simp: unfold Let_def)+
  qed
qed

lemma Reconcile_cases:
  assumes "Reconcile su cl api = Some oc"
  obtains (settled) "\<forall>w \<in> set (oc_Writes oc). is_status w"
  | (rollout) x evs hist where "reached su api x"
      "reconcile_rollout su cl api (rd_MD x) (rd_Profile x) (rd_Resolved x) (rd_Target x) (rd_Primary x) (rd_CanaryDep x) evs hist = Some oc"
proof -
  have status: "\<forall>w \<in> set (oc_Writes (failTerminally su cl api [] [] hist e)). is_status w" for hist e
    using failTerminally_writes [of su cl api "[]" "[]" hist e] by auto
  show thesis
  proof (cases "ap_Get api")
    case (AnswerOk md)
    show thesis
    proof (cases "md_DeletionTimestamp md = None")
      case True
      show thesis
      proof (cases "admitted su md")
        case (Inl e)
        then show thesis
          using assms settled AnswerOk True status by (auto simp: Reconcile_def Let_def)
      next
        case (Inr adm)
        obtain prof resolved snap where adm: "adm = (prof, resolved, snap)"
          by (metis prod_cases3)
        show thesis
        proof (cases "ap_Primary api"; cases "ap_Canary api")
          fix pd cd assume "ap_Primary api = Inr pd" "ap_Canary api = Inr cd"
          from Reconcile_read_cases [OF assms AnswerOk True Inr [unfolded adm] this] settled rollout show thesis
            by metis
        qed (use assms settled AnswerOk True Inr adm in \<open>auto simp: Reconcile_def Let_def deployment_read_def canary_read_def outcome_of_def\<close>)
      qed
    qed (use assms settled AnswerOk in \<open>auto simp: Reconcile_def Let_def outcome_of_def\<close>)
  qed (use assms settled in \<open>auto simp: Reconcile_def Let_def outcome_of_def\<close>)
qed

lemma rollout_cases:
  assumes "reached su api x"
    "reconcile_rollout su cl api (rd_MD x) (rd_Profile x) (rd_Resolved x) (rd_Target x) (rd_Primary x) (rd_CanaryDep x) evs hist = Some oc"
  obtains (unrendered) plan e evs' where
      "planRollout (su_Reconciler su) (sc_Object (scaled su api x)) (rd_Target x) (rd_Primary x) (rd_CanaryDep x) = Some plan"
      "renderRollout su (sc_Object (scaled su api x)) (rd_Profile x) (rd_Resolved x) (rd_Target x) plan (ap_RenderViews api) (ap_RenderPrimary api) = Inl e"
      "oc = failTerminally su cl api (scale_writes (rd_MD x) (scaled su api x) (ap_Scale api)) evs' hist e"
  | (rendered) plan desired evs' where
      "planRollout (su_Reconciler su) (sc_Object (scaled su api x)) (rd_Target x) (rd_Primary x) (rd_CanaryDep x) = Some plan"
      "renderRollout su (sc_Object (scaled su api x)) (rd_Profile x) (rd_Resolved x) (rd_Target x) plan (ap_RenderViews api) (ap_RenderPrimary api) = Inr desired"
      "oc = reconcile_finish su cl api (sc_Object (scaled su api x)) (rd_Target x) plan (scaled su api x) desired
         (scale_writes (rd_MD x) (scaled su api x) (ap_Scale api)) evs' hist"
proof -
  obtain plan where plan: "planRollout (su_Reconciler su) (sc_Object (scaled su api x)) (rd_Target x) (rd_Primary x) (rd_CanaryDep x) = Some plan"
    using assms(2) by (auto simp: reconcile_rollout_def scaled_def Let_def)
  show thesis
  proof (cases "renderRollout su (sc_Object (scaled su api x)) (rd_Profile x) (rd_Resolved x) (rd_Target x) plan
      (ap_RenderViews api) (ap_RenderPrimary api)")
    case (Inl e)
    then show thesis
      using assms(2) plan by (intro unrendered [OF plan Inl, of "evs @ sc_Events (scaled su api x)"]) (simp add: reconcile_rollout_def scaled_def Let_def)
  next
    case (Inr desired)
    then show thesis
      using assms(2) plan by (intro rendered [OF plan Inr, of "evs @ sc_Events (scaled su api x)"]) (simp add: reconcile_rollout_def scaled_def Let_def)
  qed
qed

text \<open>A write to a child, and a child that is deleted, come from a rendered plan.\<close>

lemma child_from_plan:
  assumes "Reconcile su cl api = Some oc" "w \<in> set (oc_Writes oc)" "is_child w"
  obtains x plan desired where "reached su api x"
    "planRollout (su_Reconciler su) (sc_Object (scaled su api x)) (rd_Target x) (rd_Primary x) (rd_CanaryDep x) = Some plan"
    "renderRollout su (sc_Object (scaled su api x)) (rd_Profile x) (rd_Resolved x) (rd_Target x) plan (ap_RenderViews api) (ap_RenderPrimary api) = Inr desired"
    "w \<in> set (map snd (children_writes desired)) \<or> w = DeleteCanary \<and> dh_CanaryDeployment desired = None"
    "oc_Err oc = None \<longrightarrow> set (map snd (children_writes desired)) \<subseteq> set (oc_Writes oc) \<and>
       (DeleteCanary \<in> set (oc_Writes oc) \<longleftrightarrow> dh_CanaryDeployment desired = None) \<and>
       (\<forall>c. ApplyCanary c \<in> set (oc_Writes oc) \<longrightarrow> dh_CanaryDeployment desired = Some c)"
  using assms(1)
proof (cases rule: Reconcile_cases)
  case settled
  then show thesis
    using assms(2,3) by (cases w) auto
next
  case (rollout x evs hist)
  from rollout show thesis
  proof (cases rule: rollout_cases)
    case (unrendered plan e evs')
    then show thesis
      using assms(2,3) failTerminally_writes [of su cl api "scale_writes (rd_MD x) (scaled su api x) (ap_Scale api)" evs' hist e]
        scale_writes_cases [of "rd_MD x" "scaled su api x" "ap_Scale api"] by auto
  next
    case (rendered plan desired evs')
    obtain ws1 ws2 ws3 ws4 where ws: "oc_Writes oc = scale_writes (rd_MD x) (scaled su api x) (ap_Scale api) @ ws1 @ ws2 @ ws3 @ ws4"
      "finish_shape su cl api (sc_Object (scaled su api x)) (rd_Target x) plan (scaled su api x) desired ws1 ws2 ws3 ws4"
      "oc_Err oc = None \<Longrightarrow> children_done desired ws1 ws2"
      using finish_writes unfolding rendered(3) by blast
    have sh: "set ws1 \<subseteq> set (map snd (children_writes desired))" "ws2 = [] \<or> ws2 = [DeleteCanary] \<and> dh_CanaryDeployment desired = None"
      "ws3 = [] \<or> ws3 = [ClearAnnotations]" "ws4 = [] \<or> (\<exists>s. ws4 = [UpdateStatus s])"
      using ws(2) unfolding finish_shape_def by blast+
    note none = scale_writes_cases [of "rd_MD x" "scaled su api x" "ap_Scale api"]
    have canary: "ApplyCanary c \<in> set (map snd (children_writes desired)) \<longleftrightarrow> dh_CanaryDeployment desired = Some c"
      "DeleteCanary \<notin> set (map snd (children_writes desired))" for c
      by (auto simp: children_writes_def split: option.splits)
    have "set (map snd (children_writes desired)) \<subseteq> set (oc_Writes oc) \<and>
       (DeleteCanary \<in> set (oc_Writes oc) \<longleftrightarrow> dh_CanaryDeployment desired = None) \<and>
       (\<forall>c. ApplyCanary c \<in> set (oc_Writes oc) \<longrightarrow> dh_CanaryDeployment desired = Some c)" if "oc_Err oc = None"
      using ws(1) sh ws(3) [OF that] canary none unfolding children_done_def by auto
    note clean = this
    have "w \<notin> set ws3" "w \<notin> set ws4" "w \<notin> set (scale_writes (rd_MD x) (scaled su api x) (ap_Scale api))"
      using sh assms(3) none by auto
    then have "w \<in> set (map snd (children_writes desired)) \<or> w = DeleteCanary \<and> dh_CanaryDeployment desired = None"
      using ws(1) sh assms(2) by auto
    then show thesis
      using clean by (intro that [OF rollout(1) rendered(1,2)]) auto
  qed
qed

lemma built_replicas: "buildDeployment env md prof rv v n opts = Inr dep \<Longrightarrow> da_Replicas dep = n"
  by (cases dep) (auto simp: buildDeployment_def split: sum.splits)

lemma rendered_primary:
  assumes "renderRollout su md prof resolved target plan views answers = Inr desired"
  obtains spec where
    "specForRevision su md target (rl_PrimaryRevision plan) (Some resolved) (views (rl_PrimaryRevision plan)) (answers (rl_PrimaryRevision plan)) = Inr spec"
    "buildDeployment (su_Env su) (withSpec md spec) prof (rl_PrimaryRevision plan) VariantPrimary (rl_PrimaryReplicas plan) (su_Options su) = Inr (dh_Deployment desired)"
  using assms by (auto simp: renderRollout_def buildChildren_def Let_def split: sum.splits if_splits option.splits)

lemma rendered_canary:
  assumes "renderRollout su md prof resolved target plan views answers = Inr desired" "dh_CanaryDeployment desired = Some dep"
  obtains spec where "rl_CanaryRevision plan \<noteq> ''''" "0 < rl_CanaryReplicas plan"
    "specForRevision su md target (rl_CanaryRevision plan) (Some resolved) (views (rl_CanaryRevision plan)) (answers (rl_CanaryRevision plan)) = Inr spec"
    "buildDeployment (su_Env su) (withSpec md spec) prof (rl_CanaryRevision plan) VariantCanary (rl_CanaryReplicas plan) (su_Options su) = Inr dep"
  using assms by (auto simp: renderRollout_def buildChildren_def Let_def split: sum.splits if_splits option.splits)

lemma canary_rendered:
  assumes "renderRollout su md prof resolved target plan views answers = Inr desired"
    "rl_CanaryRevision plan \<noteq> ''''" "0 < rl_CanaryReplicas plan"
  shows "dh_CanaryDeployment desired \<noteq> None"
  using assms by (auto simp: renderRollout_def buildChildren_def Let_def split: sum.splits if_splits option.splits)

lemma legacy_resolved:
  assumes "resolveLegacyRevisionSpec su md rv stored prof answer = Inr s"
  shows "\<exists>d. answer = Inr (Some d) \<and> template_revision d = rv"
  using assms by (auto simp: resolveLegacyRevisionSpec_def deployment_read_def split: sum.splits option.splits if_splits)

lemma spec_from_record:
  assumes "specForRevision su md target want rt view answer = Inr spec" "want \<noteq> ''''" "want \<noteq> target"
  obtains cr stored where "history_Get (su_SafeEncode su) (Some md) want view = Inr cr"
    "Decode (su_Codec su) (cr_Raw cr) = Inr stored"
    "if \<not> Legacy stored then spec = mergeWorkloadSpec (md_Spec md) (de_Spec stored) False
     else \<exists>prof s. resolveLegacyRevisionSpec su md want (de_Spec stored) prof answer = Inr s \<and>
       spec = mergeWorkloadSpec (md_Spec md) s True"
proof -
  obtain cr stored where r: "history_Get (su_SafeEncode su) (Some md) want view = Inr cr" "Decode (su_Codec su) (cr_Raw cr) = Inr stored"
    using assms by (auto simp: specForRevision_def Let_def split: sum.splits history_error.splits if_splits)
  show thesis
    by (rule that [OF r]) (use assms r in \<open>auto simp: specForRevision_def Let_def split: sum.splits if_splits\<close>)
qed

lemma reached_unique: "reached su api x \<Longrightarrow> reached su api y \<Longrightarrow> x = y"
  by (cases x; cases y) (auto simp: reached_def)

lemma active_has_revision:
  assumes "planRollout r md target pd cd = Some plan" "rl_Active plan"
  shows "rl_CanaryRevision plan \<noteq> ''''"
proof -
  have keep: "rl_CanaryRevision (guardAgainstStall md (holdRejectedRevision md res target) pd) = rl_CanaryRevision res \<and> rl_Active res"
    if "rl_Active (guardAgainstStall md (holdRejectedRevision md res target) pd)" for res
    using that by (auto simp: guardAgainstStall_def holdRejectedRevision_def with_failed_def Let_def split: if_splits)
  have "rl_Active (carry_out md target n out rnd) \<Longrightarrow> rl_CanaryRevision (carry_out md target n out rnd) \<noteq> ''''" for n out rnd
    by (auto simp: carry_out_def Let_def zero_rollout_def split: Action.splits)
  then have "rl_Active res \<Longrightarrow> rl_CanaryRevision res \<noteq> ''''" if "planCanary r md target cd n = Some res" for n res
    using that by (auto simp: planCanary_def Let_def split_beta)
  moreover obtain res where res: "plan = guardAgainstStall md (holdRejectedRevision md res target) pd"
    "\<not> rl_Active res \<or> (\<exists>n. planCanary r md target cd n = Some res)"
    using assms(1) by (auto simp: planRollout_def Let_def zero_rollout_def split: if_splits)
  ultimately show ?thesis
    using keep [of res] assms(2) by auto
qed

section \<open>Running a pass forward\<close>

definition recorded :: "Setup \<Rightarrow> Api \<Rightarrow> Reached \<Rightarrow> bool" where
  "recorded su api x \<longleftrightarrow>
     fst (recordRevision (su_Codec su) (rd_MD x) (rd_Target x) [sn_Raw (rd_Snapshot x)]
       (ap_RecordViews api) (ap_RecordErrs api) (ap_History api)) = None"

lemma Reconcile_reached:
  assumes "reached su api x" "recorded su api x"
  obtains evs hist where "Reconcile su cl api =
    reconcile_rollout su cl api (rd_MD x) (rd_Profile x) (rd_Resolved x) (rd_Target x) (rd_Primary x) (rd_CanaryDep x) evs hist"
proof -
  obtain created hist where r: "recordRevision (su_Codec su) (rd_MD x) (rd_Target x) [sn_Raw (rd_Snapshot x)]
      (ap_RecordViews api) (ap_RecordErrs api) (ap_History api) = (None, created, hist)"
    using assms(2) unfolding recorded_def by (metis prod.collapse)
  obtain adopted hold where t: "targetRevisionForMigration su (rd_MD x) (rd_Profile x) (rd_Resolved x) (sn_Revision (rd_Snapshot x))
      (rd_Primary x) (rd_CanaryDep x) (ap_MigrationView api) = Inr (rd_Target x, adopted, hold)"
    "hold \<longrightarrow> annotationTrue (rd_MD x) AnnoAbort"
    using assms(1) by (auto simp: reached_def)
  have nh: "\<not> (hold \<and> \<not> annotationTrue (rd_MD x) AnnoAbort)"
    using t(2) by blast
  show thesis
  proof (cases adopted)
    case True
    then show thesis
      using assms(1) t(1) nh by (intro that [of "[]" "ap_History api"])
        (auto simp: Reconcile_def reached_def deployment_read_def canary_read_def Let_def)
  next
    case False
    let ?evs = "if created then [event EventNormal EventReasonRevisionCreated ''RecordRevision'' (''Recorded revision '' @ rd_Target x)] else []"
    show thesis
      using False assms(1) t(1) nh r by (intro that [of ?evs hist])
        (auto simp: Reconcile_def reached_def deployment_read_def canary_read_def Let_def)
  qed
qed

lemma pass_unrendered:
  assumes "reached su api x" "recorded su api x"
    "planRollout (su_Reconciler su) (sc_Object (scaled su api x)) (rd_Target x) (rd_Primary x) (rd_CanaryDep x) = Some plan"
    "renderRollout su (sc_Object (scaled su api x)) (rd_Profile x) (rd_Resolved x) (rd_Target x) plan
       (ap_RenderViews api) (ap_RenderPrimary api) = Inl e"
  obtains evs hist where
    "Reconcile su cl api = Some (failTerminally su cl api (scale_writes (rd_MD x) (scaled su api x) (ap_Scale api)) evs hist e)"
proof -
  obtain evs hist where "Reconcile su cl api =
    reconcile_rollout su cl api (rd_MD x) (rd_Profile x) (rd_Resolved x) (rd_Target x) (rd_Primary x) (rd_CanaryDep x) evs hist"
    by (rule Reconcile_reached [OF assms(1,2)])
  then show thesis
    using assms(3,4) by (intro that) (simp add: reconcile_rollout_def scaled_def Let_def)
qed

text \<open>The answers of a server that accepts the children.\<close>

definition accepts :: "Api \<Rightarrow> bool" where
  "accepts api \<longleftrightarrow> ap_Apply api = (\<lambda>_. None) \<and> ap_Delete api = None \<and>
     (\<exists>d. ap_Primary2 api = Inr d) \<and> (\<exists>d. ap_Canary2 api = Inr d)"

lemma apply_all_accepted: "apply_all (\<lambda>_. None) ws = (map snd ws, None)"
  by (induction ws) auto

definition pass_obs :: "Setup \<Rightarrow> Api \<Rightarrow> ModelDeployment \<Rightarrow> string \<Rightarrow> rollout \<Rightarrow> autoscaleVerdict \<Rightarrow> observed" where
  "pass_obs su api md rv plan v = projr (observe_cluster su api md rv plan v (fst (ap_Observability api md)))"

definition canary_gone :: "desiredChildren \<Rightarrow> ApiWrite list" where
  "canary_gone desired = (if dh_CanaryDeployment desired = None then [DeleteCanary] else [])"

definition pass_err :: "status_error option \<Rightarrow> string option \<Rightarrow> string option \<Rightarrow> reconcile_error option" where
  "pass_err err4 metricsErr scaleErr =
     (case err4 of
        Some StalePlan \<Rightarrow> None
      | Some (StatusError e) \<Rightarrow> Some (RetryError e)
      | None \<Rightarrow> map_option RetryError (if metricsErr = None then scaleErr else metricsErr))"

lemma finish_accepted:
  assumes "accepts api" "clearRolloutAnnotations md (ap_Clear api) = (md1, ws3, None)"
    "updateStatus su cl api md1 (pass_obs su api md1 rv plan (sc_Verdict scaling)) = (ws4, evs4, err4)"
  shows "oc_Writes (reconcile_finish su cl api md rv plan scaling desired ws0 evs0 hist) =
      ws0 @ map snd (children_writes desired) @ canary_gone desired @ ws3 @ ws4"
    and "oc_Err (reconcile_finish su cl api md rv plan scaling desired ws0 evs0 hist) =
      pass_err err4 (snd (ap_Observability api md1)) (sc_Err scaling)"
proof -
  obtain v merr where v: "ap_Observability api md1 = (v, merr)"
    by fastforce
  have obs: "observe_cluster su api md1 rv plan (sc_Verdict scaling) v = Inr (pass_obs su api md1 rv plan (sc_Verdict scaling))"
    using assms(1) by (auto simp: pass_obs_def v observe_cluster_def accepts_def deployment_read_def canary_read_def)
  note run = reconcile_finish_def accepts_def applyChildren_def apply_all_accepted deleteCanaryDeployment_def
    canary_gone_def v obs outcome_of_def Let_def
  show "oc_Writes (reconcile_finish su cl api md rv plan scaling desired ws0 evs0 hist) =
      ws0 @ map snd (children_writes desired) @ canary_gone desired @ ws3 @ ws4"
    using assms by (auto simp: run split: option.split status_error.split)
  show "oc_Err (reconcile_finish su cl api md rv plan scaling desired ws0 evs0 hist) =
      pass_err err4 (snd (ap_Observability api md1)) (sc_Err scaling)"
    using assms by (auto simp: run pass_err_def split: option.split status_error.split)
qed

lemma pass_rendered:
  assumes "reached su api x" "recorded su api x" "accepts api"
    "planRollout (su_Reconciler su) (sc_Object (scaled su api x)) (rd_Target x) (rd_Primary x) (rd_CanaryDep x) = Some plan"
    "renderRollout su (sc_Object (scaled su api x)) (rd_Profile x) (rd_Resolved x) (rd_Target x) plan
       (ap_RenderViews api) (ap_RenderPrimary api) = Inr desired"
    "clearRolloutAnnotations (sc_Object (scaled su api x)) (ap_Clear api) = (md1, ws3, None)"
    "updateStatus su cl api md1 (pass_obs su api md1 (rd_Target x) plan (sc_Verdict (scaled su api x))) = (ws4, evs4, err4)"
  obtains oc where "Reconcile su cl api = Some oc"
    "oc_Writes oc = scale_writes (rd_MD x) (scaled su api x) (ap_Scale api) @ map snd (children_writes desired) @
       canary_gone desired @ ws3 @ ws4"
    "oc_Err oc = pass_err err4 (snd (ap_Observability api md1)) (sc_Err (scaled su api x))"
proof -
  obtain evs hist where "Reconcile su cl api =
    reconcile_rollout su cl api (rd_MD x) (rd_Profile x) (rd_Resolved x) (rd_Target x) (rd_Primary x) (rd_CanaryDep x) evs hist"
    by (rule Reconcile_reached [OF assms(1,2)])
  then have "Reconcile su cl api = Some (reconcile_finish su cl api (sc_Object (scaled su api x)) (rd_Target x) plan (scaled su api x)
      desired (scale_writes (rd_MD x) (scaled su api x) (ap_Scale api)) (evs @ sc_Events (scaled su api x)) hist)"
    using assms(4,5) by (simp add: reconcile_rollout_def scaled_def Let_def)
  then show thesis
    by (rule that) (rule finish_accepted [OF assms(3,6,7)])+
qed

lemma computed_generation: "ms_ObservedGeneration (computeStatus setc md obs prev) = md_Generation md"
  by (simp add: computeStatus_def base_status_def setCondition_def Let_def split_beta setSpecValid_def setMetricsRegistered_def
      setAvailable_def setProgressing_def setModelReady_def setCanaryHealthy_def setMetricScopeReady_def
      setTrafficRoutingReady_def setAutoscalingReady_def setReady_def)

end
