(* ===== verification/Reconcile_Samples.thy ===== *)
theory Reconcile_Samples
  imports Reconcile_Cases
begin

text \<open>
  A pass on concrete answers, on which the properties of whole passes are instantiated: a canary in flight
  that its owner aborts (\<open>sample_flight\<close>, \<open>sample_api\<close>).
\<close>

section \<open>A sample pass\<close>

text \<open>The plan of an aborted canary: everything on the stable revision.\<close>

lemma aborted_plan:
  assumes "IsCanary (Some (md_Rollout md))" "canaryPlan r md = Some plan" "annotationTrue md AnnoAbort"
    and "ms_Phase (md_Status md) = ApiCanarying" "ms_Canary (md_Status md) = Some cs" "ct_Revision cs = target"
    and "ct_StableRevision cs = ms_LastGoodRevision (md_Status md)" "ms_LastGoodRevision (md_Status md) \<notin> {'''', target}"
  obtains res where "planRollout r md target None cd = Some res" "rl_PrimaryRevision res = ms_LastGoodRevision (md_Status md)"
    "rl_PrimaryReplicas res = replicasFor md" "rl_CanaryReplicas res = 0"
proof -
  let ?inp = "pass_input r md plan target cd"
  have inp: "in_Aborted ?inp" "isActive (st_Phase (in_State ?inp))" "st_StableRevision (in_State ?inp) = ms_LastGoodRevision (md_Status md)"
    using assms(3-5,7) by (simp_all add: pass_input_def gated_input_def canary_input_def canaryStateFrom_def)
  then have out: "out_Action (Next ?inp) = ActionRollback" "st_StableRevision (out_State (Next ?inp)) = ms_LastGoodRevision (md_Status md)"
    by (cases rule: Next_cases [of ?inp]; simp add: rollback_def)+
  obtain pending where p: "planCanary r md target cd (replicasFor md) =
      Some (carry_out md target (replicasFor md) (decided r md plan ?inp pending) (in_Round ?inp))"
    using planCanary_Some [OF assms(2)] by blast
  let ?res = "carry_out md target (replicasFor md) (decided r md plan ?inp pending) (in_Round ?inp)"
  have res: "rl_PrimaryRevision ?res = ms_LastGoodRevision (md_Status md)" "rl_PrimaryReplicas ?res = replicasFor md"
    "rl_CanaryReplicas ?res = 0" "\<not> rl_Active ?res"
    using out assms(8) by (simp_all add: carry_out_def zero_rollout_def Let_def)
  show thesis
    by (rule that [of "guardAgainstStall md (holdRejectedRevision md ?res target) None"]) (use assms(1) p res in \<open>auto simp: planRollout_def holdRejectedRevision_def guardAgainstStall_def
      with_failed_def deploymentStalled_def Let_def\<close>)
qed

text \<open>A canary in flight that its owner aborts, on a cluster that answers every call. By the time the annotation
  is cleared the object has a new generation.\<close>

definition sample_set :: condition_setter where
  "sample_set cs c = filter (\<lambda>x. cd_Type x \<noteq> cd_Type c) cs @ [c]"

definition sample_conditions :: Conditions where
  "sample_conditions = \<lparr>cl_Set = sample_set, cl_Has = (\<lambda>cs t. \<exists>c \<in> set cs. cd_Type c = t)\<rparr>"

definition sample_library :: Library where
  "sample_library = \<lparr>lib_EqModel = (=), lib_EqEngine = (=), lib_EqShim = (=), lib_EqStatus = (=),
     lib_Derivative = (\<lambda>a b. snd a = snd b), lib_Typed = (\<lambda>d. Inr (da_TemplateLabels d, da_PodSpec d)), lib_NotFound = ''not found''\<rparr>"

definition sample_setup :: Setup where
  "sample_setup = \<lparr>su_Library = sample_library, su_Codec = sample_codec sample_resolved, su_Env = sample_env,
     su_Registry = [(EngineLlamaCPP, llamaCPP)], su_Options = sample_opts\<rparr>"

definition sample_target :: string where
  "sample_target = hashBytes sample_encoder sample_raw"

definition sample_flight :: "bool \<Rightarrow> ModelDeployment" where
  "sample_flight aborted = (sample_shim True)\<lparr>md_Generation := (if aborted then 1 else 2),
     md_Annotations := (\<lambda>k. if aborted \<and> k = AnnoAbort then Some ''true'' else None),
     md_Spec := (md_Spec (sample_shim True))\<lparr>sp_Rollout := sample_rollout RolloutCanary\<rparr>,
     md_Status := (md_Status (sample_shim True))\<lparr>ms_Phase := ApiCanarying,
       ms_Canary := Some (sample_canary_status\<lparr>ct_Revision := sample_target\<rparr>)\<rparr>\<rparr>"

definition sample_api :: "cr_store \<Rightarrow> ModelDeployment answer \<Rightarrow> Api" where
  "sample_api objs latest = \<lparr>ap_Get = AnswerOk (sample_flight True), ap_Primary = Inr None, ap_Canary = Inr None, ap_MigrationView = view_of [],
     ap_Hold = [], ap_RecordViews = (view_of [], view_of [], view_of []),
     ap_RecordErrs = (None, None, \<lambda>_. None), ap_History = [], ap_HPAs = ListItems [], ap_Scale = PatchNotFound,
     ap_RenderViews = (\<lambda>_. view_of objs), ap_RenderPrimary = (\<lambda>_. Inr None), ap_Apply = (\<lambda>_. None), ap_Delete = None,
     ap_Clear = PatchOk (sample_flight False),
     ap_Observability = (\<lambda>_. (\<lparr>mv_Status = ConditionTrue, mv_Reason = '''', mv_Message = '''', mv_RequeueAfter = 0\<rparr>, None)),
     ap_Primary2 = Inr None, ap_Canary2 = Inr None, ap_Latest = latest, ap_Update = UpdateOk,
     ap_Terminal = [(AnswerOk (sample_flight False), UpdateOk)], ap_Grows = True\<rparr>"

definition sample_effective :: ModelDeploymentSpec where
  "sample_effective = resolvedRevisionSpec (rr_MustParse (su_Reconciler sample_setup)) (sample_flight True) llamaCPP sample_opts"

definition sample_reached :: Reached where
  "sample_reached = \<lparr>rd_MD = sample_flight True, rd_Profile = llamaCPP, rd_Resolved = sample_effective,
     rd_Snapshot = \<lparr>sn_Revision = sample_target, sn_Raw = sample_raw\<rparr>, rd_Target = sample_target, rd_Primary = None, rd_CanaryDep = None\<rparr>"

lemma sample_effective_valid: "validateEffectiveSpec sample_effective = None"
  unfolding sample_effective_def by code_simp

lemma validate_workload:
  "sp_Model a = sp_Model b \<Longrightarrow> sp_Engine a = sp_Engine b \<Longrightarrow> pf_Validate llamaCPP (Some a) = pf_Validate llamaCPP (Some b)"
  by (simp add: llamaCPP_def llamaCPP_Validate_def validateLlamaCPPReservedSettings_def cong: option.case_cong)

lemma sample_flight_valid: "pf_Validate llamaCPP (Some (md_Spec (sample_flight b))) = None"
proof -
  have "pf_Validate llamaCPP (Some (md_Spec (sample_flight b))) = pf_Validate llamaCPP (Some (md_Spec (sample_shim True)))"
    by (rule validate_workload) (simp_all add: sample_flight_def)
  then show ?thesis
    by (simp add: sample_shim_valid)
qed

lemma resolved_validates:
  "pf_Validate llamaCPP (Some (resolvedRevisionSpec parse md prof opts)) = pf_Validate llamaCPP (Some (md_Spec md))"
  by (simp add: resolvedRevisionSpec_def resolve_engine_def llamaCPP_def llamaCPP_Validate_def validateLlamaCPPReservedSettings_def
      Let_def cong: option.case_cong)

lemma resolved_shim: "ShimEnabled (sp_Serving (resolvedRevisionSpec parse md prof opts)) = ShimEnabled (sp_Serving (md_Spec md))"
  by (simp add: resolvedRevisionSpec_def resolve_shim_def ShimEnabled_def Let_def split: option.split)

lemma resolved_image: "so_Image (mo_Source (sp_Model (resolvedRevisionSpec parse md prof opts))) = map_option resolve_image (md_Image md)"
  by (simp add: resolvedRevisionSpec_def Let_def)

lemma sample_flight_parts:
  "md_DeletionTimestamp (sample_flight b) = None" "md_Generation (sample_flight b) = (if b then 1 else 2)"
  "ms_ObservedGeneration (md_Status (sample_flight b)) = 1" "ms_Phase (md_Status (sample_flight b)) = ApiCanarying"
  "ms_Canary (md_Status (sample_flight b)) = Some (sample_canary_status\<lparr>ct_Revision := sample_target\<rparr>)"
  "ms_LastGoodRevision (md_Status (sample_flight b)) = ''a''" "md_Rollout (sample_flight b) = sample_rollout RolloutCanary"
  "annotationTrue (sample_flight b) AnnoAbort = b" "replicasFor (sample_flight b) = 5" "md_Autoscaling (sample_flight b) = None"
  by (simp_all add: sample_flight_def sample_shim_def sample_workload_md_def sample_workload_def annotationTrue_def map_get_def
      annotationEnabled_def replicasFor_def)

lemma sample_encoder_letters: "sample_encoder s \<noteq> ''a''"
proof
  assume "sample_encoder s = ''a''"
  then obtain c where "(char_of (98 + (of_char c :: nat) mod 25) :: char) = CHR ''a''"
    by (auto simp: sample_encoder_def)
  then have "(of_char (char_of (98 + (of_char c :: nat) mod 25) :: char) :: nat) = of_char (CHR ''a'')"
    by (rule arg_cong)
  then show False
    by (simp add: of_char_of take_bit_eq_mod)
qed

lemma fmt_d_nonempty: "fmt_d n \<noteq> []"
proof -
  have "itoa_loop m [] \<noteq> []" if "0 < m" for m
    using that by (subst itoa_loop.simps) (subst itoa_loop_append, simp)
  then show ?thesis
    by (auto simp: fmt_d_def fmtInt_def)
qed

lemma sample_target_named: "sample_target \<notin> {'''', ''a''}"
  using sample_encoder_letters fmt_d_nonempty by (auto simp: sample_target_def hashBytes_def) (simp add: sample_encoder_def)

lemma sample_reaches: "reached sample_setup (sample_api objs latest) sample_reached"
proof -
  have "sp_Engine (md_Spec (sample_flight True)) = sp_Engine (md_Spec (sample_shim True))"
    by (simp add: sample_flight_def)
  then have "engine_Get (su_Registry sample_setup) (en_Type (sp_Engine (md_Spec (sample_flight True)))) = Inr llamaCPP"
    by (simp add: sample_setup_def engine_Get_def sample_shim_def sample_workload_md_def sample_workload_def)
  moreover have "validateCanaryRouting (md_Rollout (sample_flight True)) = None"
    by code_simp
  moreover have "NewSnapshot (su_Codec sample_setup) (Some sample_effective) = Inr \<lparr>sn_Revision = sample_target, sn_Raw = sample_raw\<rparr>"
    by (simp add: NewSnapshot_def sample_effective_valid sample_setup_def sample_codec_def sample_target_def)
  ultimately have "admitted sample_setup (sample_flight True) = Inr (llamaCPP, sample_effective, rd_Snapshot sample_reached)"
    using sample_flight_valid [of True] by (simp add: admitted_def sample_effective_def sample_reached_def sample_setup_def)
  then show ?thesis
    using sample_target_named
    by (auto simp: reached_def sample_reached_def sample_api_def targetRevisionForMigration_def legacyReferenceFrom_def
        sample_flight_parts Let_def)
qed

lemma sample_api_parts:
  "ap_RenderViews (sample_api objs latest) = (\<lambda>_. view_of objs)" "ap_RenderPrimary (sample_api objs latest) = (\<lambda>_. Inr None)"
  "ap_Clear (sample_api objs latest) = PatchOk (sample_flight False)" "ap_Latest (sample_api objs latest) = latest"
  "ap_Update (sample_api objs latest) = UpdateOk" "ap_Terminal (sample_api objs latest) = [(AnswerOk (sample_flight False), UpdateOk)]"
  "snd (ap_Observability (sample_api objs latest) md) = None"
  by (simp_all add: sample_api_def)

lemma sample_reached_parts:
  "rd_MD sample_reached = sample_flight True" "rd_Profile sample_reached = llamaCPP" "rd_Resolved sample_reached = sample_effective"
  "rd_Target sample_reached = sample_target" "rd_Primary sample_reached = None" "rd_CanaryDep sample_reached = None"
  by (simp_all add: sample_reached_def)

lemma sample_scaled: "scaled sample_setup (sample_api objs latest) sample_reached =
    \<lparr>sc_Verdict = verdict ConditionFalse ReasonAutoscalingDisabled msg_scaling_off None 0, sc_Err = None,
     sc_Object = sample_flight True, sc_Events = []\<rparr>"
  by (simp add: scaled_def sample_reached_def sample_api_def reconcileAutoscaling_def sample_flight_parts AutoscalingEnabled_def)

lemma sample_recorded: "recorded sample_setup (sample_api objs latest) sample_reached"
proof -
  have "sample_raw \<noteq> []"
    by (simp add: sample_raw_def)
  then show ?thesis
    using sample_target_named sample_target_def
    by (simp add: recorded_def sample_setup_def sample_reached_def sample_api_def recordRevision_def Record_def record_data_def
        sample_codec_def history_Get_def view_of_def store_get_def nextRevisionNumber_def history_List_def sort_by_def Prune_def
        Let_def split: prod.splits)
qed

lemma sample_accepts: "accepts (sample_api objs latest)"
  by (simp add: accepts_def sample_api_def)

lemma sample_plan:
  obtains plan where "planRollout (su_Reconciler sample_setup) (sample_flight True) sample_target None None = Some plan"
    "rl_PrimaryRevision plan = ''a''" "rl_PrimaryReplicas plan = 5" "rl_CanaryReplicas plan = 0"
proof -
  have "canaryPlan (su_Reconciler sample_setup) (sample_flight True) = canaryPlan sample_reconciler sample_canary_md"
    by (simp add: canaryPlan_def canary_spec_def sample_flight_parts sample_canary_md_def sample_md_def sample_spec_def
        progressDeadlineSeconds_def sample_rollout_def)
  then have plan: "canaryPlan (su_Reconciler sample_setup) (sample_flight True) = Some sample_full_plan"
    by (simp add: sample_full_plan)
  have "IsCanary (Some (md_Rollout (sample_flight True)))" "annotationTrue (sample_flight True) AnnoAbort"
    by (simp_all add: sample_flight_parts IsCanary_def sample_rollout_def)
  moreover have "ct_StableRevision (sample_canary_status\<lparr>ct_Revision := sample_target\<rparr>) = ms_LastGoodRevision (md_Status (sample_flight True))"
    "ms_LastGoodRevision (md_Status (sample_flight True)) \<notin> {'''', sample_target}"
    using sample_target_named by (auto simp: sample_flight_parts sample_canary_status_def)
  ultimately obtain res where "planRollout (su_Reconciler sample_setup) (sample_flight True) sample_target None None = Some res"
    "rl_PrimaryRevision res = ms_LastGoodRevision (md_Status (sample_flight True))"
    "rl_PrimaryReplicas res = replicasFor (sample_flight True)" "rl_CanaryReplicas res = 0"
    using aborted_plan [OF _ plan _ sample_flight_parts(4,5)] by (metis CanaryStatus.select_convs(1) CanaryStatus.surjective CanaryStatus.update_convs(1))
  then show thesis
    by (intro that) (simp_all add: sample_flight_parts)
qed

lemma sample_stable_found:
  "history_Get sample_encoder (Some (sample_flight True)) ''a'' (view_of [sample_cr ''a'' 1]) = Inr (sample_cr ''a'' 1)"
  by (simp add: history_Get_def view_of_def store_get_def sample_key revision_key_def sample_flight_def sample_shim_def
      sample_workload_md_def sample_name)

lemma sample_codec_restores: "codec_restores (sample_codec sample_resolved) (workload_payload sample_resolved)"
  using sample_header by (simp add: codec_restores_def sample_codec_def workload_payload_def PayloadVersionV2_def)

lemma sample_snapshot:
  "NewSnapshot (sample_codec sample_resolved) (Some sample_resolved) = Inr \<lparr>sn_Revision = sample_target, sn_Raw = sample_raw\<rparr>"
  by (simp add: NewSnapshot_def sample_resolved_valid sample_codec_def sample_target_def)

lemma sample_rendered:
  assumes "rl_PrimaryRevision plan = ''a''" "rl_CanaryReplicas plan = 0"
  obtains desired where "renderRollout sample_setup (sample_flight True) llamaCPP sample_effective sample_target plan
      (\<lambda>_. view_of [sample_cr ''a'' 1]) answers = Inr desired" "dh_CanaryDeployment desired = None"
proof -
  from snapshot_decodes [OF sample_snapshot sample_codec_restores] obtain d where d: "Decode (sample_codec sample_resolved) sample_raw = Inr d" "\<not> Legacy d"
      "same_workload (mergeWorkloadSpec (md_Spec (sample_flight True)) (de_Spec d) False) sample_resolved"
    by (auto simp: Let_def)
  let ?spec = "mergeWorkloadSpec (md_Spec (sample_flight True)) (de_Spec d) False"
  have "pf_Validate llamaCPP (Some ?spec) = pf_Validate llamaCPP (Some sample_resolved)"
    using d(3) by (intro validate_workload) (simp_all add: same_workload_def)
  also have "\<dots> = None"
    unfolding sample_resolved_def resolved_validates by code_simp
  finally have "pf_Validate llamaCPP (Some (md_Spec (withSpec (sample_flight True) ?spec))) = None"
    by (simp add: withSpec_def)
  then obtain dep where dep: "buildDeployment sample_env (withSpec (sample_flight True) ?spec) llamaCPP ''a'' VariantPrimary
      (rl_PrimaryReplicas plan) sample_opts = Inr dep"
    using validated_builds [OF sample_env_faithful] by blast
  have "specForRevision sample_setup (sample_flight True) sample_target ''a'' rt (view_of [sample_cr ''a'' 1]) answer = Inr ?spec" for rt answer
  proof -
    have "cr_Raw (sample_cr ''a'' 1) = sample_raw" "co_SafeEncode (sample_codec sample_resolved) = sample_encoder" "sample_target \<noteq> ''a''"
      using sample_target_named by (simp_all add: sample_cr_def sample_codec_def)
    then show ?thesis
      using sample_stable_found d by (auto simp: specForRevision_def sample_setup_def Let_def)
  qed
  then show thesis
    using dep assms by (intro that [of "\<lparr>dh_Deployment = dep, dh_Service = buildService sample_env (sample_flight True),
        dh_MetricsService = buildMetricsService sample_env (sample_flight True), dh_CanaryDeployment = None\<rparr>"])
      (simp_all add: renderRollout_def buildChildren_def sample_setup_def Let_def)
qed

text \<open>The pass of the sample, as far as the answers to its last calls do not matter.\<close>

lemma sample_pass:
  obtains plan desired where
    "planRollout (su_Reconciler sample_setup) (sc_Object (scaled sample_setup (sample_api [sample_cr ''a'' 1] latest) sample_reached))
       (rd_Target sample_reached) (rd_Primary sample_reached) (rd_CanaryDep sample_reached) = Some plan"
    "rl_PrimaryRevision plan = ''a''" "rl_PrimaryReplicas plan = 5"
    "renderRollout sample_setup (sc_Object (scaled sample_setup (sample_api [sample_cr ''a'' 1] latest) sample_reached))
       (rd_Profile sample_reached) (rd_Resolved sample_reached) (rd_Target sample_reached) plan
       (ap_RenderViews (sample_api [sample_cr ''a'' 1] latest)) (ap_RenderPrimary (sample_api [sample_cr ''a'' 1] latest)) = Inr desired"
    "dh_CanaryDeployment desired = None"
proof -
  obtain plan where plan: "planRollout (su_Reconciler sample_setup) (sample_flight True) sample_target None None = Some plan"
    "rl_PrimaryRevision plan = ''a''" "rl_PrimaryReplicas plan = 5" "rl_CanaryReplicas plan = 0"
    by (rule sample_plan)
  obtain desired where "renderRollout sample_setup (sample_flight True) llamaCPP sample_effective sample_target plan
      (\<lambda>_. view_of [sample_cr ''a'' 1]) (\<lambda>_. Inr None) = Inr desired" "dh_CanaryDeployment desired = None"
    by (rule sample_rendered [OF plan(2,4)])
  then show thesis
    using plan by (intro that [of plan desired]) (simp_all add: sample_scaled sample_reached_parts sample_api_parts)
qed

lemma sample_cleared:
  "clearRolloutAnnotations (sc_Object (scaled sample_setup (sample_api objs latest) sample_reached)) (ap_Clear (sample_api objs latest)) =
   (sample_flight False, [ClearAnnotations], None)"
  by (simp add: clearRolloutAnnotations_def sample_scaled sample_api_parts sample_flight_parts)

text \<open>The object is gone when the status is to be written: the pass ends without one, and without an error.\<close>

lemma sample_outcome:
  obtains oc dep where "Reconcile sample_setup sample_conditions (sample_api [sample_cr ''a'' 1] AnswerNotFound) = Some oc"
    "oc_Err oc = None" "ApplyDeployment dep \<in> set (oc_Writes oc)" "DeleteCanary \<in> set (oc_Writes oc)"
proof -
  let ?api = "sample_api [sample_cr ''a'' 1] AnswerNotFound"
  obtain plan desired where plan: "planRollout (su_Reconciler sample_setup) (sc_Object (scaled sample_setup ?api sample_reached))
       (rd_Target sample_reached) (rd_Primary sample_reached) (rd_CanaryDep sample_reached) = Some plan" "rl_PrimaryRevision plan = ''a''" "rl_PrimaryReplicas plan = 5"
    and r: "renderRollout sample_setup (sc_Object (scaled sample_setup ?api sample_reached))
       (rd_Profile sample_reached) (rd_Resolved sample_reached) (rd_Target sample_reached) plan
       (ap_RenderViews ?api) (ap_RenderPrimary ?api) = Inr desired" "dh_CanaryDeployment desired = None"
    by (rule sample_pass)
  have upd: "updateStatus sample_setup sample_conditions ?api (sample_flight False)
      (pass_obs sample_setup ?api (sample_flight False) (rd_Target sample_reached) plan (sc_Verdict (scaled sample_setup ?api sample_reached)))
      = ([], [], None)"
    by (simp add: updateStatus_def sample_api_parts)
  obtain oc where oc: "Reconcile sample_setup sample_conditions ?api = Some oc"
      "oc_Writes oc = scale_writes (rd_MD sample_reached) (scaled sample_setup ?api sample_reached) (ap_Scale ?api) @
         map snd (children_writes desired) @ canary_gone desired @ [ClearAnnotations] @ []"
      "oc_Err oc = pass_err None (snd (ap_Observability ?api (sample_flight False))) (sc_Err (scaled sample_setup ?api sample_reached))"
    by (rule pass_rendered [OF sample_reaches sample_recorded sample_accepts plan(1) r(1) sample_cleared upd])
  then show thesis
    using r(2) by (intro that [of oc "dh_Deployment desired"])
      (simp_all add: pass_err_def sample_api_parts sample_scaled children_writes_def canary_gone_def)
qed

lemma sample_admitted: "spec_admitted (sample_flight b)"
  by (simp add: spec_admitted_def sample_flight_parts sample_rollout_def sample_canary_spec_def valid_ladder_spec_def schema_bound_def)

text \<open>The object is still there: its status is written.\<close>

lemma sample_written:
  obtains oc s dep where "Reconcile sample_setup sample_conditions (sample_api [sample_cr ''a'' 1] (AnswerOk (sample_flight False))) = Some oc"
    "UpdateStatus s \<in> set (oc_Writes oc)" "ApplyDeployment dep \<in> set (oc_Writes oc)"
proof -
  let ?api = "sample_api [sample_cr ''a'' 1] (AnswerOk (sample_flight False))"
  obtain plan desired where plan: "planRollout (su_Reconciler sample_setup) (sc_Object (scaled sample_setup ?api sample_reached))
       (rd_Target sample_reached) (rd_Primary sample_reached) (rd_CanaryDep sample_reached) = Some plan"
      "rl_PrimaryRevision plan = ''a''" "rl_PrimaryReplicas plan = 5"
    and r: "renderRollout sample_setup (sc_Object (scaled sample_setup ?api sample_reached))
       (rd_Profile sample_reached) (rd_Resolved sample_reached) (rd_Target sample_reached) plan
       (ap_RenderViews ?api) (ap_RenderPrimary ?api) = Inr desired" "dh_CanaryDeployment desired = None"
    by (rule sample_pass)
  let ?obs = "pass_obs sample_setup ?api (sample_flight False) (rd_Target sample_reached) plan (sc_Verdict (scaled sample_setup ?api sample_reached))"
  let ?s = "computeStatus (cl_Set sample_conditions) (sample_flight False) ?obs (md_Status (sample_flight False))"
  have "ms_ObservedGeneration (md_Status (sample_flight False)) \<noteq> ms_ObservedGeneration ?s"
    by (simp add: computed_generation sample_flight_parts)
  then have "\<not> lib_EqStatus (su_Library sample_setup) (md_Status (sample_flight False)) ?s"
    by (auto simp: sample_setup_def sample_library_def)
  then obtain evs4 where upd: "updateStatus sample_setup sample_conditions ?api (sample_flight False) ?obs = ([UpdateStatus ?s], evs4, None)"
    by (simp add: updateStatus_def sample_api_parts Let_def)
  obtain oc where oc: "Reconcile sample_setup sample_conditions ?api = Some oc"
      "oc_Writes oc = scale_writes (rd_MD sample_reached) (scaled sample_setup ?api sample_reached) (ap_Scale ?api) @
         map snd (children_writes desired) @ canary_gone desired @ [ClearAnnotations] @ [UpdateStatus ?s]"
      "oc_Err oc = pass_err None (snd (ap_Observability ?api (sample_flight False))) (sc_Err (scaled sample_setup ?api sample_reached))"
    by (rule pass_rendered [OF sample_reaches sample_recorded sample_accepts plan(1) r(1) sample_cleared upd])
  then show thesis
    by (intro that [of oc ?s "dh_Deployment desired"]) (simp_all add: children_writes_def)
qed

end
