(* ===== verification/Reconcile_Props.thy ===== *)
theory Reconcile_Props
  imports Reconcile_Samples
begin

text \<open>
  What a whole pass promises: a pod template is applied under a revision's name only if it was built from
  that revision's record; the replica counts applied are those of the plan; the status is written last, and
  from a plan made for the object that is there; a specification that cannot be used touches no child; and
  the pass returns.
\<close>

section \<open>Revisions and replicas\<close>

text \<open>The specification a revision stands for: the resolved target's for the target itself, otherwise the one
  its record holds; what an old record left out is read off a live Deployment of this very revision.\<close>

definition spec_of_revision ::
  "Setup \<Rightarrow> Api \<Rightarrow> Reached \<Rightarrow> ModelDeployment \<Rightarrow> string \<Rightarrow> ModelDeploymentSpec \<Rightarrow> bool" where
  "spec_of_revision su api x md rv spec \<longleftrightarrow>
     (if rv \<in> {'''', rd_Target x} then spec = mergeWorkloadSpec (md_Spec md) (rd_Resolved x) False
      else \<exists>cr stored. history_Get (su_SafeEncode su) (Some md) rv (ap_RenderViews api rv) = Inr cr \<and>
        Decode (su_Codec su) (cr_Raw cr) = Inr stored \<and>
        (if \<not> Legacy stored then spec = mergeWorkloadSpec (md_Spec md) (de_Spec stored) False
         else \<exists>prof d s. resolveLegacyRevisionSpec su md rv (de_Spec stored) prof (Inr (Some d)) = Inr s \<and>
           template_revision d = rv \<and> spec = mergeWorkloadSpec (md_Spec md) s True))"

lemma specForRevision_meaning:
  assumes "specForRevision su md (rd_Target x) rv (Some (rd_Resolved x)) (ap_RenderViews api rv) answer = Inr spec"
  shows "spec_of_revision su api x md rv spec"
proof (cases "rv \<in> {'''', rd_Target x}")
  case False
  then have rv: "rv \<noteq> ''''" "rv \<noteq> rd_Target x"
    by auto
  obtain cr stored where r: "history_Get (su_SafeEncode su) (Some md) rv (ap_RenderViews api rv) = Inr cr"
    "Decode (su_Codec su) (cr_Raw cr) = Inr stored"
    and spec: "if \<not> Legacy stored then spec = mergeWorkloadSpec (md_Spec md) (de_Spec stored) False
      else \<exists>prof s. resolveLegacyRevisionSpec su md rv (de_Spec stored) prof answer = Inr s \<and>
        spec = mergeWorkloadSpec (md_Spec md) s True"
    by (rule spec_from_record [OF assms rv])
  have "if \<not> Legacy stored then spec = mergeWorkloadSpec (md_Spec md) (de_Spec stored) False
      else \<exists>prof d s. resolveLegacyRevisionSpec su md rv (de_Spec stored) prof (Inr (Some d)) = Inr s \<and>
        template_revision d = rv \<and> spec = mergeWorkloadSpec (md_Spec md) s True"
    using spec legacy_resolved by (cases "Legacy stored") (simp, blast, simp)
  with False r show ?thesis
    by (simp only: spec_of_revision_def if_False) blast
qed (use assms in \<open>auto simp: spec_of_revision_def specForRevision_def\<close>)

text \<open>C3. A pod template goes to the cluster under a revision's name only if it is that revision's: the
  Deployments a pass applies are built from the resolved target, or from the specification recorded under
  the very revision they are labelled with. When the record is missing, cannot be read or cannot be
  decoded, no child is touched at all.\<close>

theorem applied_template_matches_revision:
  assumes "Reconcile su cl api = Some oc" "w \<in> set (oc_Writes oc)" "is_child w"
  shows "\<exists>x md plan dep spec. reached su api x \<and> md = sc_Object (scaled su api x) \<and>
     planRollout (su_Reconciler su) md (rd_Target x) (rd_Primary x) (rd_CanaryDep x) = Some plan \<and>
     spec_of_revision su api x md (rl_PrimaryRevision plan) spec \<and>
     buildDeployment (su_Env su) (withSpec md spec) (rd_Profile x) (rl_PrimaryRevision plan) VariantPrimary
       (rl_PrimaryReplicas plan) (su_Options su) = Inr dep \<and>
     (\<forall>d. w = ApplyDeployment d \<longrightarrow> d = dep) \<and>
     (\<forall>d. w = ApplyCanary d \<longrightarrow> (\<exists>cspec. spec_of_revision su api x md (rl_CanaryRevision plan) cspec \<and>
        buildDeployment (su_Env su) (withSpec md cspec) (rd_Profile x) (rl_CanaryRevision plan) VariantCanary
          (rl_CanaryReplicas plan) (su_Options su) = Inr d))"
proof -
  obtain x plan desired where x: "reached su api x"
    "planRollout (su_Reconciler su) (sc_Object (scaled su api x)) (rd_Target x) (rd_Primary x) (rd_CanaryDep x) = Some plan"
    and r: "renderRollout su (sc_Object (scaled su api x)) (rd_Profile x) (rd_Resolved x) (rd_Target x) plan (ap_RenderViews api) (ap_RenderPrimary api) = Inr desired"
    and w: "w \<in> set (map snd (children_writes desired)) \<or> w = DeleteCanary \<and> dh_CanaryDeployment desired = None"
    by (rule child_from_plan [OF assms])
  obtain spec where s: "specForRevision su (sc_Object (scaled su api x)) (rd_Target x) (rl_PrimaryRevision plan) (Some (rd_Resolved x))
      (ap_RenderViews api (rl_PrimaryRevision plan)) (ap_RenderPrimary api (rl_PrimaryRevision plan)) = Inr spec" and b: "buildDeployment (su_Env su) (withSpec (sc_Object (scaled su api x)) spec) (rd_Profile x) (rl_PrimaryRevision plan)
       VariantPrimary (rl_PrimaryReplicas plan) (su_Options su) = Inr (dh_Deployment desired)"
    by (rule rendered_primary [OF r])
  have "\<exists>cspec. spec_of_revision su api x (sc_Object (scaled su api x)) (rl_CanaryRevision plan) cspec \<and>
      buildDeployment (su_Env su) (withSpec (sc_Object (scaled su api x)) cspec) (rd_Profile x) (rl_CanaryRevision plan)
        VariantCanary (rl_CanaryReplicas plan) (su_Options su) = Inr d" if "dh_CanaryDeployment desired = Some d" for d
    by (rule rendered_canary [OF r that]) (use specForRevision_meaning in blast)
  moreover have "w = ApplyDeployment d \<Longrightarrow> d = dh_Deployment desired" "w = ApplyCanary d \<Longrightarrow> dh_CanaryDeployment desired = Some d" for d
    using w by (auto simp: children_writes_def split: option.splits)
  ultimately show ?thesis
    using x specForRevision_meaning [OF s] b
    by - (rule exI [of _ x], rule exI [of _ "sc_Object (scaled su api x)"], rule exI [of _ plan],
      rule exI [of _ "dh_Deployment desired"], rule exI [of _ spec], intro conjI allI impI; (assumption | simp))
qed

text \<open>The counts of the rendered children are those of the plan, so they divide the total as the plan does.\<close>

lemma rendered_counts:
  assumes r: "renderRollout su md prof resolved target plan views reads = Inr desired"
    and plan: "planRollout (su_Reconciler su) md target pd cd = Some plan" and div: "divides n plan"
  shows "case dh_CanaryDeployment desired of
      None \<Rightarrow> da_Replicas (dh_Deployment desired) = n
    | Some c \<Rightarrow> da_Replicas (dh_Deployment desired) + da_Replicas c = n"
proof -
  have dep: "da_Replicas (dh_Deployment desired) = rl_PrimaryReplicas plan"
    by (rule rendered_primary [OF r]) (rule built_replicas)
  have total: "rl_PrimaryReplicas plan + rl_CanaryReplicas plan = n"
    using div by (simp add: divides_def)
  show ?thesis
  proof (cases "dh_CanaryDeployment desired")
    case None
    have "rl_CanaryReplicas plan = 0"
    proof (rule ccontr)
      assume "rl_CanaryReplicas plan \<noteq> 0"
      then have "rl_Active plan" "0 < rl_CanaryReplicas plan"
        using div by (auto simp: divides_def)
      with None show False
        using canary_rendered [OF r active_has_revision [OF plan]] by simp
    qed
    with None dep total show ?thesis
      by simp
  next
    case (Some c)
    have "da_Replicas c = rl_CanaryReplicas plan"
      by (rule rendered_canary [OF r Some]) (rule built_replicas)
    with Some dep total show ?thesis
      by simp
  qed
qed

text \<open>C11. A pass that ends without an error has applied exactly the requested fleet: the replica counts of the
  Deployments it applied sum to the total, after the autoscaler's write of this pass; and it has deleted the
  canary Deployment exactly if it applied none.\<close>

theorem applied_fleet_total:
  assumes "Reconcile su cl api = Some oc" "oc_Err oc = None" "w \<in> set (oc_Writes oc)" "is_child w"
    and "\<And>x. reached su api x \<Longrightarrow> spec_admitted (sc_Object (scaled su api x)) \<and> is_i32 (replicasFor (sc_Object (scaled su api x))) \<and>
       0 \<le> replicasFor (sc_Object (scaled su api x)) \<and> rd_Target x \<noteq> ''''"
  shows "\<exists>x dep. reached su api x \<and> ApplyDeployment dep \<in> set (oc_Writes oc) \<and>
     ((\<exists>c. ApplyCanary c \<in> set (oc_Writes oc) \<and> DeleteCanary \<notin> set (oc_Writes oc) \<and>
        da_Replicas dep + da_Replicas c = replicasFor (sc_Object (scaled su api x))) \<or>
      (DeleteCanary \<in> set (oc_Writes oc) \<and> (\<forall>c. ApplyCanary c \<notin> set (oc_Writes oc)) \<and>
        da_Replicas dep = replicasFor (sc_Object (scaled su api x))))"
proof -
  obtain x plan desired where x: "reached su api x"
    "planRollout (su_Reconciler su) (sc_Object (scaled su api x)) (rd_Target x) (rd_Primary x) (rd_CanaryDep x) = Some plan"
    and r: "renderRollout su (sc_Object (scaled su api x)) (rd_Profile x) (rd_Resolved x) (rd_Target x) plan (ap_RenderViews api) (ap_RenderPrimary api) = Inr desired"
    and "w \<in> set (map snd (children_writes desired)) \<or> w = DeleteCanary \<and> dh_CanaryDeployment desired = None"
    and ws: "oc_Err oc = None \<longrightarrow> set (map snd (children_writes desired)) \<subseteq> set (oc_Writes oc) \<and>
       (DeleteCanary \<in> set (oc_Writes oc) \<longleftrightarrow> dh_CanaryDeployment desired = None) \<and>
       (\<forall>c. ApplyCanary c \<in> set (oc_Writes oc) \<longrightarrow> dh_CanaryDeployment desired = Some c)"
    by (rule child_from_plan [OF assms(1,3,4)])
  let ?n = "replicasFor (sc_Object (scaled su api x))"
  have div: "divides ?n plan"
  proof -
    have "\<exists>res. planRollout (su_Reconciler su) (sc_Object (scaled su api x)) (rd_Target x) (rd_Primary x) (rd_CanaryDep x) = Some res \<and>
        divides ?n res"
      by (rule planRollout_returns) (use assms(5) [OF x(1)] in blast)+
    then show ?thesis
      unfolding x(2) by simp
  qed
  note counts = rendered_counts [OF r x(2) div] and written = ws [THEN mp, OF assms(2)]
  have app: "ApplyDeployment (dh_Deployment desired) \<in> set (oc_Writes oc)"
    using conjunct1 [OF written] by (simp add: children_writes_def)
  show ?thesis
  proof (cases "dh_CanaryDeployment desired")
    case None
    then show ?thesis
      using x(1) app counts conjunct2 [OF written]
      by - (rule exI [of _ x], rule exI [of _ "dh_Deployment desired"], intro conjI disjI2, simp_all)
  next
    case (Some c)
    then have "ApplyCanary c \<in> set (oc_Writes oc)"
      using conjunct1 [OF written] by (simp add: children_writes_def)
    then show ?thesis
      using x(1) app counts Some conjunct1 [OF conjunct2 [OF written]]
      by - (rule exI [of _ x], rule exI [of _ "dh_Deployment desired"], intro conjI disjI1 exI [of _ c], simp_all)
  qed
qed

section \<open>What a status rests on\<close>

text \<open>A pass that sent no replica patch still has the object it read.\<close>

lemma unpatched:
  assumes "scale_writes md (scaled su api x) (ap_Scale api) = []" "md = rd_MD x"
  shows "sc_Object (scaled su api x) = rd_MD x"
  using scale_object_cases [of "su_Reconciler su" "rd_MD x" "rd_Primary x" "rd_CanaryDep x" "ap_HPAs api" "ap_Scale api"] assms
  by (auto simp: scale_writes_def scaled_def replicasFor_def)

text \<open>A status written by a pass that also wrote a child comes from the end of the pass.\<close>

lemma status_from_finish:
  assumes "Reconcile su cl api = Some oc" "w \<in> set (oc_Writes oc)" "is_child w" "UpdateStatus s \<in> set (oc_Writes oc)"
  obtains x plan desired md1 ws3 latest obs v where "reached su api x"
    "planRollout (su_Reconciler su) (sc_Object (scaled su api x)) (rd_Target x) (rd_Primary x) (rd_CanaryDep x) = Some plan"
    "md1 = fst (clearRolloutAnnotations (sc_Object (scaled su api x)) (ap_Clear api))"
    "ws3 = fst (snd (clearRolloutAnnotations (sc_Object (scaled su api x)) (ap_Clear api)))" "ap_Latest api = AnswerOk latest" "md_ResourceVersion latest = md_ResourceVersion md1"
    "observe_cluster su api md1 (rd_Target x) plan (sc_Verdict (scaled su api x)) v = Inr obs"
    "s = computeStatus (cl_Set cl) latest obs (md_Status latest)"
    "oc_Writes oc = (scale_writes (rd_MD x) (scaled su api x) (ap_Scale api) @ map snd (children_writes desired) @
       canary_gone desired @ ws3) @ [UpdateStatus s]"
  using assms(1)
proof (cases rule: Reconcile_cases)
  case settled
  then show thesis
    using assms(2,3) status_not_child by blast
next
  case (rollout x evs hist)
  note none = scale_writes_cases [of "rd_MD x" "scaled su api x" "ap_Scale api"]
  from rollout show thesis
  proof (cases rule: rollout_cases)
    case (unrendered plan e evs')
    have "\<not> is_child w"
      using assms(2) failTerminally_writes [of su cl api "scale_writes (rd_MD x) (scaled su api x) (ap_Scale api)" evs' hist e]
        none unfolding unrendered(3) by auto
    with assms(3) show thesis
      by blast
  next
    case (rendered plan desired evs')
    let ?md1 = "fst (clearRolloutAnnotations (sc_Object (scaled su api x)) (ap_Clear api))"
    obtain ws1 ws2 ws3 ws4 where ws: "oc_Writes oc = scale_writes (rd_MD x) (scaled su api x) (ap_Scale api) @ ws1 @ ws2 @ ws3 @ ws4"
      and shape: "finish_shape su cl api (sc_Object (scaled su api x)) (rd_Target x) plan (scaled su api x) desired ws1 ws2 ws3 ws4"
      and dn: "ws4 \<noteq> [] \<longrightarrow> children_done desired ws1 ws2"
      using finish_writes unfolding rendered(3) by blast
    have ws3: "ws3 = [] \<or> ws3 = [ClearAnnotations]" and ws2: "ws2 = [] \<or> ws2 = [DeleteCanary] \<and> dh_CanaryDeployment desired = None"
      and sub: "set ws1 \<subseteq> set (map snd (children_writes desired))"
      using shape unfolding finish_shape_def by blast+
    have "UpdateStatus s \<notin> set ws1"
      using sub children_not_status [of "UpdateStatus s" desired] by auto
    then have in4: "UpdateStatus s \<in> set ws4"
      using assms(4) ws ws2 ws3 none by auto
    then have clear: "ws3 = fst (snd (clearRolloutAnnotations (sc_Object (scaled su api x)) (ap_Clear api)))"
      using shape unfolding finish_shape_def by auto
    obtain latest obs v where l: "ap_Latest api = AnswerOk latest" "md_ResourceVersion latest = md_ResourceVersion ?md1"
        "observe_cluster su api ?md1 (rd_Target x) plan (sc_Verdict (scaled su api x)) v = Inr obs"
        "ws4 = [UpdateStatus (computeStatus (cl_Set cl) latest obs (md_Status latest))]"
      using shape in4 unfolding finish_shape_def by auto
    have "ws1 = map snd (children_writes desired)" "ws2 = canary_gone desired"
      using dn in4 ws2 unfolding children_done_def canary_gone_def by auto
    then show thesis
      using in4 l(4) ws by (intro that [OF rollout(1) rendered(1) refl clear l(1-3)]) auto
  qed
qed

text \<open>C10. The status is written last, and not from an old plan. If a pass that touched a child wrote a status,
  that was its last write, after every child was applied and the canary deleted if there is none. If the
  pass did not patch the object itself, the object the server then held was the very version that the pass
  had read and planned from, and the status is the one computed from that plan.\<close>

theorem status_last_and_fresh:
  assumes "Reconcile su cl api = Some oc" "w \<in> set (oc_Writes oc)" "is_child w" "UpdateStatus s \<in> set (oc_Writes oc)"
  shows "(\<exists>ws desired. oc_Writes oc = ws @ [UpdateStatus s] \<and> (\<forall>w \<in> set ws. \<not> is_status w) \<and>
      set (map snd (children_writes desired)) \<union> set (canary_gone desired) \<subseteq> set ws) \<and>
    (ClearAnnotations \<notin> set (oc_Writes oc) \<and> (\<forall>n. PatchReplicas n \<notin> set (oc_Writes oc)) \<longrightarrow>
      (\<exists>x plan latest obs. reached su api x \<and>
        planRollout (su_Reconciler su) (rd_MD x) (rd_Target x) (rd_Primary x) (rd_CanaryDep x) = Some plan \<and>
        ap_Latest api = AnswerOk latest \<and> md_ResourceVersion latest = md_ResourceVersion (rd_MD x) \<and>
        s = computeStatus (cl_Set cl) latest obs (md_Status latest) \<and> ov_Rollout obs = plan \<and> ov_Revision obs = rd_Target x))"
proof -
  obtain x plan desired md1 ws3 latest obs v where x: "reached su api x"
    and plan: "planRollout (su_Reconciler su) (sc_Object (scaled su api x)) (rd_Target x) (rd_Primary x) (rd_CanaryDep x) = Some plan"
    and md1: "md1 = fst (clearRolloutAnnotations (sc_Object (scaled su api x)) (ap_Clear api))"
    and ws3: "ws3 = fst (snd (clearRolloutAnnotations (sc_Object (scaled su api x)) (ap_Clear api)))" and latest: "ap_Latest api = AnswerOk latest"
      "md_ResourceVersion latest = md_ResourceVersion md1"
    and obs: "observe_cluster su api md1 (rd_Target x) plan (sc_Verdict (scaled su api x)) v = Inr obs"
    and s: "s = computeStatus (cl_Set cl) latest obs (md_Status latest)"
    and ws: "oc_Writes oc = (scale_writes (rd_MD x) (scaled su api x) (ap_Scale api) @ map snd (children_writes desired) @
       canary_gone desired @ ws3) @ [UpdateStatus s]"
    by (rule status_from_finish [OF assms])
  note none = scale_writes_cases [of "rd_MD x" "scaled su api x" "ap_Scale api"]
  let ?ws = "scale_writes (rd_MD x) (scaled su api x) (ap_Scale api) @ map snd (children_writes desired) @ canary_gone desired @ ws3"
  have clear: "ws3 = [] \<and> md1 = sc_Object (scaled su api x) \<or> ws3 = [ClearAnnotations]"
    using clear_writes [of "sc_Object (scaled su api x)" "ap_Clear api"] unfolding ws3 md1 by (metis prod.collapse)
  have "\<forall>w \<in> set ?ws. \<not> is_status w"
    using clear none children_not_status [of _ desired] by (auto simp: canary_gone_def)
  with ws have last: "\<exists>ws desired. oc_Writes oc = ws @ [UpdateStatus s] \<and> (\<forall>w \<in> set ws. \<not> is_status w) \<and>
      set (map snd (children_writes desired)) \<union> set (canary_gone desired) \<subseteq> set ws"
    by - (rule exI [of _ ?ws], rule exI [of _ desired], auto)
  have ov: "ov_Rollout obs = plan" "ov_Revision obs = rd_Target x"
    using obs by (auto simp: observe_cluster_def split: sum.splits)
  have md: "md1 = rd_MD x" "sc_Object (scaled su api x) = rd_MD x"
    if "ClearAnnotations \<notin> set (oc_Writes oc)" "\<forall>n. PatchReplicas n \<notin> set (oc_Writes oc)"
    using that clear ws unpatched [of "rd_MD x" su api x] none by auto
  show ?thesis
    using last
  proof (intro conjI impI)
    assume "ClearAnnotations \<notin> set (oc_Writes oc) \<and> (\<forall>n. PatchReplicas n \<notin> set (oc_Writes oc))"
    then show "\<exists>x plan latest obs. reached su api x \<and>
        planRollout (su_Reconciler su) (rd_MD x) (rd_Target x) (rd_Primary x) (rd_CanaryDep x) = Some plan \<and>
        ap_Latest api = AnswerOk latest \<and> md_ResourceVersion latest = md_ResourceVersion (rd_MD x) \<and>
        s = computeStatus (cl_Set cl) latest obs (md_Status latest) \<and> ov_Rollout obs = plan \<and> ov_Revision obs = rd_Target x"
      using x plan latest s ov md
      by - (rule exI [of _ x], rule exI [of _ plan], rule exI [of _ latest], rule exI [of _ obs], simp)
  qed
qed

section \<open>Errors and termination\<close>

text \<open>Why a report fails: a read or a write of it failed, or every attempt ran into a conflict.\<close>

definition report_failed :: "(ModelDeployment answer \<times> update_answer) list \<Rightarrow> string \<Rightarrow> bool" where
  "report_failed tries e \<longleftrightarrow>
     (\<exists>upd. (AnswerError e, upd) \<in> set tries) \<or> (\<exists>latest. (AnswerOk latest, UpdateError e) \<in> set tries) \<or>
     tries \<noteq> [] \<and> snd (last tries) = UpdateConflict e \<and>
     list_all (\<lambda>(got, upd). (\<exists>latest c. got = AnswerOk latest \<and> upd = UpdateConflict c)) tries"

lemma retry_failed:
  "retry_on_conflict attempt tries = (ws, Some e) \<Longrightarrow> \<forall>latest. attempt latest \<noteq> Inl e \<Longrightarrow> report_failed tries e \<and> ws = []"
proof (induction attempt tries rule: retry_on_conflict.induct)
  case (2 attempt got upd rest)
  show ?case
  proof (cases "\<exists>latest status c. got = AnswerOk latest \<and> attempt latest = Inr (Some status) \<and> upd = UpdateConflict c")
    case True
    then obtain latest status c where got: "got = AnswerOk latest" "attempt latest = Inr (Some status)" "upd = UpdateConflict c"
      by blast
    show ?thesis
    proof (cases "rest = []")
      case False
      then have "report_failed rest e \<and> ws = []"
        using 2 got by simp
      then show ?thesis
        using False got by (auto simp: report_failed_def)
    qed (use 2 got in \<open>auto simp: report_failed_def\<close>)
  qed (use 2 in \<open>auto simp: report_failed_def split: answer.splits sum.splits option.splits update_answer.splits\<close>)
qed simp

text \<open>C17. A specification that cannot be used stops the pass before anything is touched: no child, no replica
  count, no annotation and no record changes. The error of the pass is the one that is not retried, with the
  reason; a status, if written, says \<open>Degraded\<close>. The pass is retried only when reporting the reason failed:
  reading or writing the status failed, or every attempt to write it ran into a conflict - and then
  nothing was written.\<close>

theorem unusable_spec_touches_nothing:
  assumes "ap_Get api = AnswerOk md" "md_DeletionTimestamp md = None" "admitted su md = Inl e"
  shows "\<exists>oc. Reconcile su cl api = Some oc \<and> oc_History oc = ap_History api \<and> oc_Requeue oc = 0 \<and>
     (oc_Err oc = Some (TerminalError e) \<and>
        (oc_Writes oc = [] \<or> (\<exists>s. oc_Writes oc = [UpdateStatus s] \<and> ms_Phase s = ApiDegraded)) \<or>
      (\<exists>e2. oc_Err oc = Some (RetryError e2) \<and> report_failed (ap_Terminal api) e2 \<and> oc_Writes oc = []))"
proof -
  obtain ws err where r: "retry_on_conflict (terminal_attempt (su_Library su) cl (ap_Grows api) e) (ap_Terminal api) = (ws, err)"
    by fastforce
  have "Reconcile su cl api = Some (failTerminally su cl api [] [] (ap_History api) e)"
    using assms by (simp add: Reconcile_def)
  moreover have "ms_Phase s = ApiDegraded" if "terminal_attempt lib cl grows msg latest = Inr (Some s)" for lib grows msg latest s
    using that by (auto simp: terminal_attempt_def setInvalidSpec_def Let_def split: if_splits)
  moreover have "\<forall>latest. terminal_attempt lib cl grows msg latest \<noteq> Inl e2" for lib grows msg e2
    by (simp add: terminal_attempt_def Let_def)
  ultimately show ?thesis
    using retry_writes [OF r] retry_failed [of "terminal_attempt (su_Library su) cl (ap_Grows api) e" "ap_Terminal api" ws] r
    by (cases err) (auto simp: failTerminally_def outcome_of_def)
qed

lemma Reconcile_None:
  assumes "Reconcile su cl api = None"
  obtains x where "reached su api x"
    "planRollout (su_Reconciler su) (sc_Object (scaled su api x)) (rd_Target x) (rd_Primary x) (rd_CanaryDep x) = None"
proof -
  note run = Reconcile_def deployment_read_def canary_read_def Let_def
  obtain md where g: "ap_Get api = AnswerOk md" "md_DeletionTimestamp md = None"
    using assms by (cases "ap_Get api") (auto simp: run split: if_splits)
  obtain prof resolved snap where a: "admitted su md = Inr (prof, resolved, snap)"
    using assms g by (cases "admitted su md") (auto simp: run)
  obtain pd where p: "ap_Primary api = Inr pd"
    using assms g a by (cases "ap_Primary api") (auto simp: run)
  obtain cd where c: "ap_Canary api = Inr cd"
    using assms g a p by (cases "ap_Canary api") (auto simp: run)
  obtain rv adopted held where t: "targetRevisionForMigration su md prof resolved (sn_Revision snap) pd cd (ap_MigrationView api) =
      Inr (rv, adopted, held)"
    using assms g a p c by (cases "targetRevisionForMigration su md prof resolved (sn_Revision snap) pd cd (ap_MigrationView api)")
      (auto simp: run)
  let ?x = "\<lparr>rd_MD = md, rd_Profile = prof, rd_Resolved = resolved, rd_Snapshot = snap, rd_Target = rv, rd_Primary = pd, rd_CanaryDep = cd\<rparr>"
  have h: "held \<longrightarrow> annotationTrue md AnnoAbort"
    using assms g a p c t by (auto simp: run split: prod.splits if_splits)
  have "reached su api ?x"
    using g a p c t h by (simp add: reached_def)
  moreover have "\<exists>evs hist. reconcile_rollout su cl api md prof resolved rv pd cd evs hist = None"
    using assms g a p c t h by (auto simp: run split: prod.splits if_splits option.splits)
  ultimately show thesis
    by (intro that [of ?x]) (auto simp: reconcile_rollout_def scaled_def Let_def)
qed

lemma planRollout_None: "planRollout r md target pd cd = None \<Longrightarrow> \<not> spec_admitted md"
  using canaryPlan_returns [of md r] by (auto simp: planRollout_def planCanary_def Let_def split: if_splits)

text \<open>C27. Every pass returns: whatever the API server answers, if the objects it answers with were admitted by
  the schema.\<close>

theorem Reconcile_returns:
  assumes "\<forall>x. reached su api x \<longrightarrow> spec_admitted (sc_Object (scaled su api x))"
  shows "\<exists>oc. Reconcile su cl api = Some oc"
proof (cases "Reconcile su cl api")
  case None
  then obtain x where "reached su api x"
    "planRollout (su_Reconciler su) (sc_Object (scaled su api x)) (rd_Target x) (rd_Primary x) (rd_CanaryDep x) = None"
    by (rule Reconcile_None)
  then show ?thesis
    using assms planRollout_None by blast
qed simp

text \<open>C7. A rollback runs what was recorded. When a pass puts the primary on another revision than the target, and
  the record it finds under that revision is the snapshot taken of a specification, the Deployment it applies
  is built from a specification with that model, engine, startup timeout and sidecar - whatever the live
  specification says now.\<close>

theorem rollback_applies_recorded_workload:
  assumes "NewSnapshot (su_Codec su) (Some spec) = Inr snap" "codec_restores (su_Codec su) (workload_payload spec)"
    and "Reconcile su cl api = Some oc" "ApplyDeployment d \<in> set (oc_Writes oc)" "reached su api x"
    and "planRollout (su_Reconciler su) (sc_Object (scaled su api x)) (rd_Target x) (rd_Primary x) (rd_CanaryDep x) = Some plan"
    and "rl_PrimaryRevision plan \<notin> {'''', rd_Target x}"
    and "history_Get (su_SafeEncode su) (Some (sc_Object (scaled su api x))) (rl_PrimaryRevision plan)
       (ap_RenderViews api (rl_PrimaryRevision plan)) = Inr cr" "cr_Raw cr = sn_Raw snap"
  shows "\<exists>s. same_workload s spec \<and> buildDeployment (su_Env su) (withSpec (sc_Object (scaled su api x)) s) (rd_Profile x)
     (rl_PrimaryRevision plan) VariantPrimary (rl_PrimaryReplicas plan) (su_Options su) = Inr d"
proof -
  have "is_child (ApplyDeployment d)"
    by simp
  then obtain y plan' desired where y: "reached su api y"
    "planRollout (su_Reconciler su) (sc_Object (scaled su api y)) (rd_Target y) (rd_Primary y) (rd_CanaryDep y) = Some plan'"
    "renderRollout su (sc_Object (scaled su api y)) (rd_Profile y) (rd_Resolved y) (rd_Target y) plan' (ap_RenderViews api) (ap_RenderPrimary api) = Inr desired"
    "ApplyDeployment d \<in> set (map snd (children_writes desired)) \<or> ApplyDeployment d = DeleteCanary \<and> dh_CanaryDeployment desired = None"
    "oc_Err oc = None \<longrightarrow> set (map snd (children_writes desired)) \<subseteq> set (oc_Writes oc) \<and>
       (DeleteCanary \<in> set (oc_Writes oc) \<longleftrightarrow> dh_CanaryDeployment desired = None) \<and>
       (\<forall>c. ApplyCanary c \<in> set (oc_Writes oc) \<longrightarrow> dh_CanaryDeployment desired = Some c)"
    by (rule child_from_plan [OF assms(3,4)])
  have same: "y = x" "plan' = plan"
    using reached_unique [OF y(1) assms(5)] y(2) assms(6) by auto
  have d: "d = dh_Deployment desired"
    using y(4) by (auto simp: children_writes_def split: option.splits)
  obtain s where s: "specForRevision su (sc_Object (scaled su api x)) (rd_Target x) (rl_PrimaryRevision plan) (Some (rd_Resolved x))
      (ap_RenderViews api (rl_PrimaryRevision plan)) (ap_RenderPrimary api (rl_PrimaryRevision plan)) = Inr s"
    and b: "buildDeployment (su_Env su) (withSpec (sc_Object (scaled su api x)) s) (rd_Profile x) (rl_PrimaryRevision plan)
       VariantPrimary (rl_PrimaryReplicas plan) (su_Options su) = Inr (dh_Deployment desired)"
    by (rule rendered_primary [OF y(3) [unfolded same]])
  obtain dec where "Decode (su_Codec su) (cr_Raw cr) = Inr dec" "\<not> Legacy dec"
    "same_workload (mergeWorkloadSpec (md_Spec (sc_Object (scaled su api x))) (de_Spec dec) False) spec"
    using snapshot_decodes [OF assms(1,2)] by (auto simp: assms(9) Let_def)
  then have "same_workload s spec"
    using s assms(7,8) by (simp add: specForRevision_def)
  then show ?thesis
    using b d by blast
qed

section \<open>Witnesses\<close>

theorem applied_template_matches_revision_witness:
  "\<exists>plan dep spec. planRollout (su_Reconciler sample_setup) (sample_flight True) sample_target None None = Some plan \<and>
     spec_of_revision sample_setup (sample_api [sample_cr ''a'' 1] AnswerNotFound) sample_reached (sample_flight True) (rl_PrimaryRevision plan) spec \<and>
     buildDeployment sample_env (withSpec (sample_flight True) spec) llamaCPP (rl_PrimaryRevision plan) VariantPrimary
       (rl_PrimaryReplicas plan) sample_opts = Inr dep"
proof -
  let ?api = "sample_api [sample_cr ''a'' 1] AnswerNotFound"
  obtain oc dep where oc: "Reconcile sample_setup sample_conditions ?api = Some oc" "oc_Err oc = None"
    "ApplyDeployment dep \<in> set (oc_Writes oc)" "DeleteCanary \<in> set (oc_Writes oc)"
    by (rule sample_outcome)
  have "is_child (ApplyDeployment dep)"
    by simp
  from applied_template_matches_revision [OF oc(1,3) this] obtain x md plan d spec where "reached sample_setup ?api x"
    "md = sc_Object (scaled sample_setup ?api x)"
    "planRollout (su_Reconciler sample_setup) md (rd_Target x) (rd_Primary x) (rd_CanaryDep x) = Some plan"
    "spec_of_revision sample_setup ?api x md (rl_PrimaryRevision plan) spec"
    "buildDeployment (su_Env sample_setup) (withSpec md spec) (rd_Profile x) (rl_PrimaryRevision plan) VariantPrimary
       (rl_PrimaryReplicas plan) (su_Options sample_setup) = Inr d"
    by blast
  moreover from this(1) have "x = sample_reached"
    by (rule reached_unique [OF _ sample_reaches])
  moreover have "su_Env sample_setup = sample_env" "su_Options sample_setup = sample_opts"
    by (simp_all add: sample_setup_def)
  ultimately show ?thesis
    by (auto simp: sample_scaled sample_reached_parts)
qed

theorem applied_fleet_total_witness:
  "\<exists>oc dep. Reconcile sample_setup sample_conditions (sample_api [sample_cr ''a'' 1] AnswerNotFound) = Some oc \<and>
     ApplyDeployment dep \<in> set (oc_Writes oc) \<and> da_Replicas dep = 5"
proof -
  let ?api = "sample_api [sample_cr ''a'' 1] AnswerNotFound"
  obtain oc dep0 where oc: "Reconcile sample_setup sample_conditions ?api = Some oc" "oc_Err oc = None"
    "ApplyDeployment dep0 \<in> set (oc_Writes oc)" "DeleteCanary \<in> set (oc_Writes oc)"
    by (rule sample_outcome)
  have obj: "sc_Object (scaled sample_setup ?api x) = sample_flight True \<and> rd_Target x = sample_target"
    if "reached sample_setup ?api x" for x
    using reached_unique [OF that sample_reaches] by (simp add: sample_scaled sample_reached_parts)
  have "\<exists>x dep. reached sample_setup ?api x \<and> ApplyDeployment dep \<in> set (oc_Writes oc) \<and>
     ((\<exists>c. ApplyCanary c \<in> set (oc_Writes oc) \<and> DeleteCanary \<notin> set (oc_Writes oc) \<and>
        da_Replicas dep + da_Replicas c = replicasFor (sc_Object (scaled sample_setup ?api x))) \<or>
      (DeleteCanary \<in> set (oc_Writes oc) \<and> (\<forall>c. ApplyCanary c \<notin> set (oc_Writes oc)) \<and>
        da_Replicas dep = replicasFor (sc_Object (scaled sample_setup ?api x))))"
    by (rule applied_fleet_total [OF oc(1,2,3)])
      (use obj sample_target_named in \<open>auto simp: sample_flight_parts sample_admitted is_i32_def\<close>)
  then show ?thesis
    using oc(1,4) obj by (auto simp: sample_flight_parts)
qed

theorem status_last_and_fresh_witness:
  "\<exists>oc ws s. Reconcile sample_setup sample_conditions (sample_api [sample_cr ''a'' 1] (AnswerOk (sample_flight False))) = Some oc \<and>
     oc_Writes oc = ws @ [UpdateStatus s]"
proof -
  obtain oc s dep where oc: "Reconcile sample_setup sample_conditions (sample_api [sample_cr ''a'' 1] (AnswerOk (sample_flight False))) = Some oc"
    "UpdateStatus s \<in> set (oc_Writes oc)" "ApplyDeployment dep \<in> set (oc_Writes oc)"
    by (rule sample_written)
  have "is_child (ApplyDeployment dep)"
    by simp
  from status_last_and_fresh [OF oc(1,3) this oc(2)] oc(1) show ?thesis
    by blast
qed

theorem unusable_spec_touches_nothing_witness:
  "\<exists>oc. Reconcile (sample_setup\<lparr>su_Registry := []\<rparr>) sample_conditions (sample_api [] AnswerNotFound) = Some oc \<and> oc_History oc = []"
proof -
  let ?su = "sample_setup\<lparr>su_Registry := []\<rparr>" and ?api = "sample_api [] AnswerNotFound"
  have "validateCanaryRouting (md_Rollout (sample_flight True)) = None"
    by code_simp
  then obtain e where "admitted ?su (sample_flight True) = Inl e"
    by (simp add: admitted_def engine_Get_def)
  moreover have "ap_Get ?api = AnswerOk (sample_flight True)" "ap_History ?api = []"
    by (simp_all add: sample_api_def)
  ultimately show ?thesis
    using unusable_spec_touches_nothing [of ?api "sample_flight True" ?su] sample_flight_parts(1) by fastforce
qed

theorem Reconcile_returns_witness:
  "\<exists>oc. Reconcile sample_setup sample_conditions (sample_api [] (AnswerError ''timeout'')) = Some oc"
proof (rule Reconcile_returns, intro allI impI)
  fix x
  assume "reached sample_setup (sample_api [] (AnswerError ''timeout'')) x"
  then have "x = sample_reached"
    by (rule reached_unique [OF _ sample_reaches])
  then show "spec_admitted (sc_Object (scaled sample_setup (sample_api [] (AnswerError ''timeout'')) x))"
    by (simp add: sample_scaled sample_admitted)
qed

theorem rollback_applies_recorded_workload_witness:
  "\<exists>oc d s. Reconcile sample_setup sample_conditions (sample_api [sample_cr ''a'' 1] AnswerNotFound) = Some oc \<and>
     ApplyDeployment d \<in> set (oc_Writes oc) \<and> same_workload s sample_resolved"
proof -
  let ?api = "sample_api [sample_cr ''a'' 1] AnswerNotFound"
  obtain oc dep where oc: "Reconcile sample_setup sample_conditions ?api = Some oc" "oc_Err oc = None"
    "ApplyDeployment dep \<in> set (oc_Writes oc)" "DeleteCanary \<in> set (oc_Writes oc)"
    by (rule sample_outcome)
  obtain plan desired where plan: "planRollout (su_Reconciler sample_setup) (sc_Object (scaled sample_setup ?api sample_reached))
       (rd_Target sample_reached) (rd_Primary sample_reached) (rd_CanaryDep sample_reached) = Some plan" "rl_PrimaryRevision plan = ''a''"
    "rl_PrimaryReplicas plan = 5"
    "renderRollout sample_setup (sc_Object (scaled sample_setup ?api sample_reached))
       (rd_Profile sample_reached) (rd_Resolved sample_reached) (rd_Target sample_reached) plan
       (ap_RenderViews ?api) (ap_RenderPrimary ?api) = Inr desired" "dh_CanaryDeployment desired = None"
    by (rule sample_pass)
  have snap: "NewSnapshot (su_Codec sample_setup) (Some sample_resolved) = Inr \<lparr>sn_Revision = sample_target, sn_Raw = sample_raw\<rparr>"
    and codec: "codec_restores (su_Codec sample_setup) (workload_payload sample_resolved)"
    by (simp_all add: sample_setup_def sample_snapshot sample_codec_restores)
  have get: "history_Get (su_SafeEncode sample_setup) (Some (sc_Object (scaled sample_setup ?api sample_reached))) (rl_PrimaryRevision plan)
       (ap_RenderViews ?api (rl_PrimaryRevision plan)) = Inr (sample_cr ''a'' 1)"
  proof -
    have "su_SafeEncode sample_setup = sample_encoder"
      by (simp add: sample_setup_def sample_codec_def)
    then show ?thesis
      using sample_stable_found by (simp add: plan(2) sample_scaled sample_api_parts)
  qed
  have "rl_PrimaryRevision plan \<notin> {'''', rd_Target sample_reached}" "cr_Raw (sample_cr ''a'' 1) = sample_raw"
    using sample_target_named by (auto simp: plan(2) sample_reached_parts sample_cr_def)
  then show ?thesis
    using rollback_applies_recorded_workload [OF snap codec oc(1,3) sample_reaches plan(1) _ get] oc(1,3) by auto
qed

end
