(* ===== verification/Reconcile_Legacy.thy ===== *)
theory Reconcile_Legacy
  imports Reconcile_Samples
begin

text \<open>
  Rollouts recorded before payloads had a version: on which evidence a pass adopts the old identity, and
  what it leaves alone when it holds such a rollout for its owner.
\<close>

section \<open>Evidence and the hold\<close>

text \<open>The reference a status gives: a rejected revision has no Deployment of its own to compare.\<close>

lemma legacy_reference:
  assumes "legacyReferenceFrom (Some md) primary canary = Some ref"
  shows "if lm_noRender ref
    then \<exists>cs. ms_Canary (md_Status md) = Some cs \<and>
      (ct_Revision cs = lm_revision ref \<and> ms_Phase (md_Status md) = ApiRollingBack \<or> ct_FailedRevision cs = lm_revision ref)
    else lm_deployment ref = (case lm_variant ref of VariantPrimary \<Rightarrow> primary | VariantCanary \<Rightarrow> canary)"
  using assms by (auto simp: legacyReferenceFrom_def primary_reference_def Let_def split: option.splits if_splits)

lemma migration_record:
  assumes "targetRevisionForMigration su md prof resolved v2 primary canary view = Inr (rv, True, held)"
  obtains ref cr stored where "legacyReferenceFrom (Some md) primary canary = Some ref" "lm_revision ref = rv" "rv \<noteq> v2"
    "history_Get (su_SafeEncode su) (Some md) rv view = Inr cr"
    "Decode (su_Codec su) (cr_Raw cr) = Inr stored" "Legacy stored"
    "Encode (su_Codec su) (Some (de_Spec stored)) = Inr (cr_Raw cr)" "Hash (su_Codec su) (Some (de_Spec stored)) = rv"
    "legacyRecordedWorkloadEqual (su_Library su) (md_Spec md) (de_Spec stored)"
    "if lm_noRender ref then startupTimeoutMatchesDeployment (su_Reconciler su) md resolved primary \<and> \<not> held
     else \<exists>live match. lm_deployment ref = Some live \<and> template_revision live = rv \<and>
       currentWorkloadMatchesDeployment su md prof resolved rv (lm_variant ref) live = Inr match \<and>
       match \<noteq> workloadDifferent \<and> (held \<longleftrightarrow> match = workloadLegacyTelemetry \<and> legacyRolloutActive md)"
  using assms
  by (auto simp: targetRevisionForMigration_def Let_def split: option.splits if_splits sum.splits history_error.splits
      workloadMigrationMatch.splits)

text \<open>C16. The migration decision of a pass adopts an old identity on evidence only. If it answers with a revision
  recorded before payloads had a version, the record of that revision exists, is canonical for that very
  identity and describes the workload that is specified now. The part the old payload left out is proved by the
  live Deployment of the variant that runs the revision, which carries the revision and whose pods match; the
  rollout is held exactly if they match only without the scope flags of the sidecar and it is still
  active. Only for a revision the status names as rejected - being rolled back, or the last failed one - does
  the startup probe of the primary stand in, and then nothing is held. In every other case the answer is the
  identity computed now, or an error.\<close>

theorem migration_adopts_on_evidence:
  assumes "targetRevisionForMigration su md prof resolved v2 primary canary view = Inr (rv, adopted, held)"
  shows "if \<not> adopted then rv = v2 \<and> \<not> held
    else \<exists>ref cr stored. legacyReferenceFrom (Some md) primary canary = Some ref \<and> lm_revision ref = rv \<and> rv \<noteq> v2 \<and>
      history_Get (su_SafeEncode su) (Some md) rv view = Inr cr \<and>
      Decode (su_Codec su) (cr_Raw cr) = Inr stored \<and> Legacy stored \<and>
      Encode (su_Codec su) (Some (de_Spec stored)) = Inr (cr_Raw cr) \<and> Hash (su_Codec su) (Some (de_Spec stored)) = rv \<and>
      legacyRecordedWorkloadEqual (su_Library su) (md_Spec md) (de_Spec stored) \<and>
      (if lm_noRender ref
       then \<not> held \<and> startupTimeoutMatchesDeployment (su_Reconciler su) md resolved primary \<and>
         (\<exists>cs. ms_Canary (md_Status md) = Some cs \<and>
           (ct_Revision cs = rv \<and> ms_Phase (md_Status md) = ApiRollingBack \<or> ct_FailedRevision cs = rv))
       else \<exists>live match. (case lm_variant ref of VariantPrimary \<Rightarrow> primary | VariantCanary \<Rightarrow> canary) = Some live \<and>
         template_revision live = rv \<and> match \<noteq> workloadDifferent \<and>
         currentWorkloadMatchesDeployment su md prof resolved rv (lm_variant ref) live = Inr match \<and>
         (held \<longleftrightarrow> match = workloadLegacyTelemetry \<and> legacyRolloutActive md))"
proof (cases adopted)
  case True
  then have eq: "targetRevisionForMigration su md prof resolved v2 primary canary view = Inr (rv, True, held)"
    using assms by simp
  from eq show ?thesis
  proof (cases rule: migration_record)
    case (1 ref cr stored)
    note ref = legacy_reference [OF 1(1)]
    show ?thesis
    proof (cases "lm_noRender ref")
      case noRender: True
      with 1 ref True show ?thesis
        by simp
    next
      case render: False
      with 1 ref True show ?thesis
        by auto
    qed
  qed
next
  case False
  then show ?thesis
    using assms
    by (auto simp: targetRevisionForMigration_def Let_def split: option.splits if_splits sum.splits history_error.splits
        workloadMigrationMatch.splits)
qed

text \<open>C26. A rollout whose telemetry is of the old shape is held as it is: the pass writes no child and no record,
  sets no timer, and changes nothing of the status but the canary's message, its scope flag and one
  condition - the rung, the counters and the timestamps stay, whatever conflicts the write runs into.\<close>

theorem hold_preserves_rollout:
  assumes "ap_Get api = AnswerOk md" "md_DeletionTimestamp md = None" "admitted su md = Inr (prof, resolved, snap)"
    and "ap_Primary api = Inr primary" "ap_Canary api = Inr canary" "\<not> annotationTrue md AnnoAbort"
    and "targetRevisionForMigration su md prof resolved (sn_Revision snap) primary canary (ap_MigrationView api) = Inr (rv, adopted, True)"
  shows "\<exists>oc. Reconcile su cl api = Some oc \<and> oc_History oc = ap_History api \<and> oc_Requeue oc = 0 \<and> oc_Events oc = [] \<and>
     (oc_Writes oc = [] \<or>
      (\<exists>latest cs s. (AnswerOk latest, UpdateOk) \<in> set (ap_Hold api) \<and> oc_Writes oc = [UpdateStatus s] \<and>
        ms_Canary (md_Status latest) = Some cs \<and> ct_Revision cs = rv \<and>
        s = (md_Status latest)\<lparr>ms_Canary := Some (cs\<lparr>ct_MetricScopeReady := False, ct_Message := hold_message rv\<rparr>),
              ms_Conditions := ms_Conditions s\<rparr>))"
proof -
  obtain ws err where h: "holdLegacyTelemetryMigration su cl rv (ap_Hold api) = (ws, err)"
    by fastforce
  have "Reconcile su cl api = Some (outcome_of 0 (map_option RetryError err) ws [] (ap_History api))"
    using assms by (simp add: Reconcile_def deployment_read_def canary_read_def h)
  moreover have "ws = [] \<or> (\<exists>latest status. ws = [UpdateStatus status] \<and> hold_attempt (su_Library su) cl rv latest = Inr (Some status) \<and>
     (AnswerOk latest, UpdateOk) \<in> set (ap_Hold api))"
    using retry_writes [of "hold_attempt (su_Library su) cl rv" "ap_Hold api" ws err] h by (auto simp: holdLegacyTelemetryMigration_def)
  moreover have "\<exists>cs. ms_Canary (md_Status latest) = Some cs \<and> ct_Revision cs = rv \<and>
        s = (md_Status latest)\<lparr>ms_Canary := Some (cs\<lparr>ct_MetricScopeReady := False, ct_Message := hold_message rv\<rparr>),
              ms_Conditions := ms_Conditions s\<rparr>"
    if "hold_attempt (su_Library su) cl rv latest = Inr (Some s)" for latest s
    using that by (auto simp: hold_attempt_def setCondition_def Let_def split: option.splits if_splits)
  ultimately show ?thesis
    by (auto simp: outcome_of_def)
qed

section \<open>An old rollout\<close>

text \<open>A codec that reads old payloads of one specification, and a library that finds a template in a live one if
  its sidecar has no scope flags: the telemetry of the old shape.\<close>

definition sample_legacy :: Setup where
  "sample_legacy = sample_setup\<lparr>su_Codec := (sample_codec sample_resolved)\<lparr>co_MarshalV2 := (\<lambda>_. Inr ''v''), co_UnmarshalLegacy :=
       (\<lambda>_. Inr (revisionPayload (Some (md_Spec (sample_flight False)))))\<rparr>,
     su_Library := sample_library\<lparr>lib_Derivative :=
       (\<lambda>a b. strip_first_shim (ps_InitContainers (snd a)) = ps_InitContainers (snd a))\<rparr>\<rparr>"

definition sample_old :: string where
  "sample_old = hashBytes sample_encoder ''{}''"

definition sample_old_cr :: ControllerRevision where
  "sample_old_cr = (sample_cr sample_old 1)\<lparr>cr_Raw := ''{}''\<rparr>"

definition sample_old_md :: ModelDeployment where
  "sample_old_md = (sample_flight False)\<lparr>md_Status := (md_Status (sample_flight False))\<lparr>
     ms_Canary := Some (sample_canary_status\<lparr>ct_Revision := sample_old\<rparr>)\<rparr>\<rparr>"

definition sample_old_canary :: Deployment where
  "sample_old_canary = (sample_deployment 2 [])\<lparr>dp_TemplateLabels := [LabelRevision \<mapsto> sample_old]\<rparr>"

definition sample_new :: string where
  "sample_new = hashBytes sample_encoder ''v''"

lemma sample_old_named: "sample_old \<notin> {'''', sample_new}" "length sample_old \<le> 20"
  by (simp_all add: sample_old_def sample_new_def hashBytes_def fnv32a_def fmt_d_def fmtInt_def itoa_loop.simps digit_char_def
      char_of_def bit_0 sample_encoder_def)

lemma strip_twice: "strip_first_shim (strip_first_shim cs) = strip_first_shim cs"
  by (induction cs) (auto simp: withoutMetricScopeArgs_def)

lemma strip_changes:
  assumes "cn_Name c = ShimContainerName" "withoutMetricScopeArgs (cn_Args c) \<noteq> cn_Args c" "\<forall>x \<in> set pre. cn_Name x \<noteq> ShimContainerName"
  shows "strip_first_shim (pre @ c # post) \<noteq> pre @ c # post"
proof
  assume "strip_first_shim (pre @ c # post) = pre @ c # post"
  then have "map cn_Args (strip_first_shim (pre @ c # post)) = map cn_Args (pre @ c # post)"
    by (rule arg_cong)
  moreover have "map cn_Args (strip_first_shim (pre @ c # post)) = map cn_Args pre @ withoutMetricScopeArgs (cn_Args c) # map cn_Args post"
    using assms(1,3) by (induction pre) simp_all
  ultimately show False
    using assms(2) by simp
qed

lemma scope_args: "withoutMetricScopeArgs (shimArgs md variant path level) \<noteq> shimArgs md variant path level"
proof -
  have "''--namespace='' @ md_Namespace md \<in> set (shimArgs md variant path level)" "json_prefix ''--namespace='' (''--namespace='' @ md_Namespace md)"
    by (simp_all add: shimArgs_def json_prefix_def)
  then show ?thesis
    unfolding withoutMetricScopeArgs_def filter_id_conv by blast
qed

lemma sample_old_parts:
  "md_Image (withSpec sample_old_md sample_effective) \<noteq> None" "ShimEnabled (sp_Serving sample_effective)"
  "pf_Validate llamaCPP (Some (md_Spec (withSpec sample_old_md sample_effective))) = None"
proof -
  have md: "md_Spec (withSpec sample_old_md sample_effective) = sample_effective"
    by (simp add: withSpec_def)
  show "md_Image (withSpec sample_old_md sample_effective) \<noteq> None"
    unfolding md by (simp add: sample_effective_def resolved_image sample_flight_def sample_shim_def sample_workload_md_def sample_workload_def)
  show "ShimEnabled (sp_Serving sample_effective)"
    by (simp add: sample_effective_def resolved_shim sample_flight_def sample_shim_enabled)
  show "pf_Validate llamaCPP (Some (md_Spec (withSpec sample_old_md sample_effective))) = None"
    unfolding md by (simp add: sample_effective_def resolved_validates sample_flight_valid)
qed

lemma sample_old_matches:
  "currentWorkloadMatchesDeployment sample_legacy sample_old_md llamaCPP sample_effective sample_old VariantCanary sample_old_canary =
   Inr workloadLegacyTelemetry"
proof -
  let ?md = "withSpec sample_old_md sample_effective"
  obtain dep where dep: "buildDeployment sample_env ?md llamaCPP sample_old VariantCanary (replicasFor sample_old_md) sample_opts = Inr dep"
    using validated_builds [OF sample_env_faithful sample_old_parts(3)] by blast
  obtain pod where pod: "buildPodSpec sample_env ?md llamaCPP VariantCanary sample_opts = Inr pod" "da_PodSpec dep = pod"
    using dep by (cases dep) (auto simp: buildDeployment_def split: sum.splits)
  obtain h where "ps_InitContainers pod = model_inits ?md @ [buildShimContainer (rr_MustParse (re_Reconciler sample_env)) ?md VariantCanary h (shimImage sample_opts)]"
    using pod(1) sample_old_parts(2) by (auto simp: buildPodSpec_faithful [OF sample_env_faithful] shim_inits_def withSpec_def
      split: if_splits sum.splits)
  then have inits: "map default_container (ps_InitContainers pod) =
      map default_container (model_inits ?md) @ [default_container (buildShimContainer (rr_MustParse (re_Reconciler sample_env)) ?md
        VariantCanary h (shimImage sample_opts))]"
    by simp
  have "strip_first_shim (map default_container (ps_InitContainers pod)) \<noteq> map default_container (ps_InitContainers pod)"
    unfolding inits by (rule strip_changes)
      (auto simp: default_container_def buildShimContainer_def scope_args model_inits_def buildModelInitContainer_def
        modelInitContainerName_def ShimContainerName_def Let_def split: option.splits)
  moreover have "lib_Typed (su_Library sample_legacy) dep = Inr (da_TemplateLabels dep, pod)" "su_Env sample_legacy = sample_env"
    "su_Options sample_legacy = sample_opts"
    "lib_Derivative (su_Library sample_legacy) = (\<lambda>a b. strip_first_shim (ps_InitContainers (snd a)) = ps_InitContainers (snd a))"
    using pod(2) by (simp_all add: sample_legacy_def sample_setup_def sample_library_def)
  ultimately show ?thesis
    by (simp add: currentWorkloadMatchesDeployment_def dep applyPodStorageDefaults_def strip_twice Let_def)
qed

lemma sample_old_held:
  "targetRevisionForMigration sample_legacy sample_old_md llamaCPP sample_effective sample_new None (Some sample_old_canary)
     (view_of [sample_old_cr]) = Inr (sample_old, True, True)"
proof -
  let ?live = "md_Spec (sample_flight False)"
  have ref: "legacyReferenceFrom (Some sample_old_md) None (Some sample_old_canary) =
      Some \<lparr>lm_revision = sample_old, lm_deployment = Some sample_old_canary, lm_variant = VariantCanary, lm_noRender = False\<rparr>"
    using sample_old_named(1) by (simp add: legacyReferenceFrom_def sample_old_md_def sample_flight_parts)
  have codec: "co_SafeEncode (su_Codec sample_legacy) = sample_encoder" "co_MarshalLegacy (su_Codec sample_legacy) = (\<lambda>_. Inr ''{}'')"
    "co_UnmarshalLegacy (su_Codec sample_legacy) = (\<lambda>_. Inr (revisionPayload (Some ?live)))"
    by (simp_all add: sample_legacy_def sample_codec_def)
  have get: "history_Get sample_encoder (Some sample_old_md) sample_old (view_of [sample_old_cr]) = Inr sample_old_cr"
    by (simp add: history_Get_def view_of_def store_get_def cr_key_def sample_old_cr_def sample_cr_def revision_key_def sample_old_md_def
        sample_flight_def sample_shim_def sample_workload_md_def sample_name [OF sample_old_named(2)])
  have "Unmarshal dec_header '''' ''{}'' = Some ''''"
    by code_simp
  then obtain stored where stored: "Decode (su_Codec sample_legacy) ''{}'' = Inr stored" "Legacy stored" "sp_Model (de_Spec stored) = sp_Model ?live"
      "sp_Engine (de_Spec stored) = sp_Engine ?live" "sv_Shim (sp_Serving (de_Spec stored)) = sv_Shim (sp_Serving ?live)"
    by (simp add: Decode_def codec revisionPayload_def Legacy_def Let_def)
  have raw: "cr_Raw sample_old_cr = ''{}''" "Encode (su_Codec sample_legacy) spec = Inr ''{}''" "Hash (su_Codec sample_legacy) spec = sample_old" for spec
    by (simp_all add: sample_old_cr_def Encode_def Hash_def codec sample_old_def)
  have eq: "legacyRecordedWorkloadEqual (su_Library sample_legacy) (md_Spec sample_old_md) (de_Spec stored)"
    using stored by (simp add: legacyRecordedWorkloadEqual_def sample_legacy_def sample_library_def sample_old_md_def)
  have live: "template_revision sample_old_canary = sample_old" "legacyRolloutActive sample_old_md"
    by (simp_all add: template_revision_def sample_old_canary_def map_get_def legacyRolloutActive_def sample_old_md_def sample_flight_parts)
  show ?thesis
    using sample_old_named(1)
    by (simp add: targetRevisionForMigration_def ref codec get raw stored eq live sample_old_matches Let_def)
qed

section \<open>Witnesses\<close>

theorem migration_adopts_on_evidence_witness:
  "\<exists>cr stored. history_Get (su_SafeEncode sample_legacy) (Some sample_old_md) sample_old (view_of [sample_old_cr]) = Inr cr \<and>
     Decode (su_Codec sample_legacy) (cr_Raw cr) = Inr stored \<and> Legacy stored"
  using migration_adopts_on_evidence [OF sample_old_held] by auto

lemma sample_old_admitted: "admitted sample_legacy sample_old_md = Inr (llamaCPP, sample_effective, \<lparr>sn_Revision = sample_new, sn_Raw = ''v''\<rparr>)"
proof -
  have spec: "md_Spec sample_old_md = md_Spec (sample_flight True)"
    by (simp add: sample_old_md_def sample_flight_def)
  have "resolvedRevisionSpec (rr_MustParse (su_Reconciler sample_legacy)) sample_old_md llamaCPP (su_Options sample_legacy) = sample_effective"
    by (simp add: sample_effective_def resolvedRevisionSpec_def spec sample_legacy_def sample_setup_def)
  moreover have "engine_Get (su_Registry sample_legacy) (en_Type (sp_Engine (md_Spec sample_old_md))) = Inr llamaCPP"
    by (simp add: spec sample_legacy_def sample_setup_def engine_Get_def sample_flight_def sample_shim_def sample_workload_md_def sample_workload_def)
  moreover have "NewSnapshot (su_Codec sample_legacy) (Some sample_effective) = Inr \<lparr>sn_Revision = sample_new, sn_Raw = ''v''\<rparr>"
    by (simp add: NewSnapshot_def sample_effective_valid sample_legacy_def sample_codec_def sample_new_def)
  moreover have "validateCanaryRouting (md_Rollout sample_old_md) = None"
    unfolding spec by code_simp
  ultimately show ?thesis
    using sample_flight_valid [of True] by (simp add: admitted_def spec)
qed

theorem hold_preserves_rollout_witness:
  "\<exists>oc. Reconcile sample_legacy sample_conditions ((sample_api [] AnswerNotFound)\<lparr>ap_Get := AnswerOk sample_old_md,
       ap_Canary := Inr (Some sample_old_canary), ap_MigrationView := view_of [sample_old_cr],
       ap_Hold := [(AnswerOk sample_old_md, UpdateOk)]\<rparr>) = Some oc \<and> oc_Requeue oc = 0"
proof -
  let ?api = "(sample_api [] AnswerNotFound)\<lparr>ap_Get := AnswerOk sample_old_md,
       ap_Canary := Inr (Some sample_old_canary), ap_MigrationView := view_of [sample_old_cr],
       ap_Hold := [(AnswerOk sample_old_md, UpdateOk)]\<rparr>"
  have "ap_Get ?api = AnswerOk sample_old_md" "ap_Primary ?api = Inr None" "ap_Canary ?api = Inr (Some sample_old_canary)"
    by (simp_all add: sample_api_def)
  moreover have "md_DeletionTimestamp sample_old_md = None" "\<not> annotationTrue sample_old_md AnnoAbort"
    using sample_flight_parts [of False] by (simp_all add: sample_old_md_def annotationTrue_def)
  moreover have "targetRevisionForMigration sample_legacy sample_old_md llamaCPP sample_effective
      (sn_Revision \<lparr>sn_Revision = sample_new, sn_Raw = ''v''\<rparr>) None (Some sample_old_canary) (ap_MigrationView ?api) = Inr (sample_old, True, True)"
    using sample_old_held by simp
  ultimately show ?thesis
    using hold_preserves_rollout [OF _ _ sample_old_admitted, of ?api] by blast
qed

end
