(* ===== verification/Reconcile_Faults.thy ===== *)
theory Reconcile_Faults
  imports Reconcile_Samples
begin

text \<open>
  Four ways in which a pass does not do what its comments say: a status can be written from a stale plan
  after all, an abort can be lost, a history read that fails for a moment ends a canary for good, and an
  unusable specification can go unreported.
\<close>

section \<open>Where a pass goes wrong\<close>

text \<open>The patch that clears the annotations puts the server's answer in the place of the object that was
  planned from.\<close>

lemma cleared_object:
  "annotationTrue md AnnoPromote \<or> annotationTrue md AnnoAbort \<Longrightarrow>
   clearRolloutAnnotations md (PatchOk resp) = (resp, [ClearAnnotations], None)"
  by (auto simp: clearRolloutAnnotations_def)

text \<open>A pass with an annotation to clear is not protected against a stale plan. It plans from the object it
  read; the patch of the annotations answers with the object as it is now, of a later generation; and the
  check of the resource version, made against that answer, passes. So the pass writes a status that claims
  the new generation as observed and holds the decision made for the old one.\<close>

theorem patch_masks_stale_plan:
  assumes "reached su api x" "recorded su api x" "accepts api"
    and "planRollout (su_Reconciler su) (sc_Object (scaled su api x)) (rd_Target x) (rd_Primary x) (rd_CanaryDep x) = Some plan"
    and "renderRollout su (sc_Object (scaled su api x)) (rd_Profile x) (rd_Resolved x) (rd_Target x) plan
       (ap_RenderViews api) (ap_RenderPrimary api) = Inr desired"
    and "annotationTrue (sc_Object (scaled su api x)) AnnoPromote \<or> annotationTrue (sc_Object (scaled su api x)) AnnoAbort"
    and "ap_Clear api = PatchOk resp" "ap_Latest api = AnswerOk resp" "ap_Update api = UpdateOk"
    and "ms_ObservedGeneration (md_Status resp) \<noteq> md_Generation resp"
    and "\<forall>a b. lib_EqStatus (su_Library su) a b \<longrightarrow> ms_ObservedGeneration a = ms_ObservedGeneration b"
  shows "\<exists>oc s obs. Reconcile su cl api = Some oc \<and> UpdateStatus s \<in> set (oc_Writes oc) \<and>
     s = computeStatus (cl_Set cl) resp obs (md_Status resp) \<and>
     ms_ObservedGeneration s = md_Generation resp \<and> ov_Revision obs = rd_Target x \<and> ov_Rollout obs = plan"
proof -
  let ?obs = "pass_obs su api resp (rd_Target x) plan (sc_Verdict (scaled su api x))"
  let ?s = "computeStatus (cl_Set cl) resp ?obs (md_Status resp)"
  have clear: "clearRolloutAnnotations (sc_Object (scaled su api x)) (ap_Clear api) = (resp, [ClearAnnotations], None)"
    using assms(6,7) by (simp add: cleared_object)
  have "\<not> lib_EqStatus (su_Library su) (md_Status resp) ?s"
    using assms(10,11) computed_generation [of "cl_Set cl" resp ?obs] by metis
  then obtain evs4 where upd: "updateStatus su cl api resp ?obs = ([UpdateStatus ?s], evs4, None)"
    using assms(8,9) by (simp add: updateStatus_def Let_def)
  obtain oc where oc: "Reconcile su cl api = Some oc"
    "oc_Writes oc = scale_writes (rd_MD x) (scaled su api x) (ap_Scale api) @ map snd (children_writes desired) @
       canary_gone desired @ [ClearAnnotations] @ [UpdateStatus ?s]" "oc_Err oc = pass_err None (snd (ap_Observability api resp)) (sc_Err (scaled su api x))"
    by (rule pass_rendered [OF assms(1-5) clear upd])
  have "ov_Revision ?obs = rd_Target x" "ov_Rollout ?obs = plan"
    using assms(3) by (auto simp: pass_obs_def observe_cluster_def accepts_def deployment_read_def canary_read_def)
  then show ?thesis
    using oc computed_generation [of "cl_Set cl" resp ?obs]
    by - (rule exI [of _ oc], rule exI [of _ ?s], rule exI [of _ ?obs], simp)
qed

lemma resumed:
  assumes "\<not> in_Aborted inp" "in_State inp = canaryStateFrom md" "in_TargetRevision inp = ct_Revision cs"
    "ms_Phase (md_Status md) = ApiCanarying" "ms_Canary (md_Status md) = Some cs"
  shows "Next inp = analyse (Observe inp) (in_State (Observe inp))"
  by (cases rule: Next_cases [of inp]) (use assms in \<open>auto simp: canaryStateFrom_def\<close>)

text \<open>An abort can be lost. A pass that finds the abort annotation deletes the canary and clears the
  annotation before it writes the status that records the rollback; if the status is then not written,
  nothing says any more that the revision was rejected, and the next decision, taken from the object as the
  patch left it, is the analysis of a canary in progress - which is created again.\<close>

theorem abort_lost:
  assumes "reached su api x" "recorded su api x" "accepts api"
    and "planRollout (su_Reconciler su) (sc_Object (scaled su api x)) (rd_Target x) (rd_Primary x) (rd_CanaryDep x) = Some plan"
    and "renderRollout su (sc_Object (scaled su api x)) (rd_Profile x) (rd_Resolved x) (rd_Target x) plan
       (ap_RenderViews api) (ap_RenderPrimary api) = Inr desired"
    and "annotationTrue (sc_Object (scaled su api x)) AnnoAbort" "dh_CanaryDeployment desired = None"
    and "ap_Clear api = PatchOk resp" "ap_Latest api = AnswerError e"
    and "\<not> annotationTrue resp AnnoAbort" "ms_Phase (md_Status resp) = ApiCanarying" "ms_Canary (md_Status resp) = Some cs"
  shows "\<exists>oc. Reconcile su cl api = Some oc \<and> {DeleteCanary, ClearAnnotations} \<subseteq> set (oc_Writes oc) \<and>
     (\<forall>w \<in> set (oc_Writes oc). \<not> is_status w) \<and>
     (\<forall>plan2 dep n. let inp = canary_input (su_Reconciler su) resp plan2 (ct_Revision cs) dep n
        in Next inp = analyse (Observe inp) (in_State (Observe inp)))"
proof -
  have clear: "clearRolloutAnnotations (sc_Object (scaled su api x)) (ap_Clear api) = (resp, [ClearAnnotations], None)"
    using assms(6,8) by (simp add: cleared_object)
  have upd: "updateStatus su cl api resp (pass_obs su api resp (rd_Target x) plan (sc_Verdict (scaled su api x))) =
      ([], [], Some (StatusError e))"
    using assms(9) by (simp add: updateStatus_def)
  obtain oc where oc: "Reconcile su cl api = Some oc"
    "oc_Writes oc = scale_writes (rd_MD x) (scaled su api x) (ap_Scale api) @ map snd (children_writes desired) @
       canary_gone desired @ [ClearAnnotations] @ []"
    "oc_Err oc = pass_err (Some (StatusError e)) (snd (ap_Observability api resp)) (sc_Err (scaled su api x))"
    by (rule pass_rendered [OF assms(1-5) clear upd])
  have "Next inp = analyse (Observe inp) (in_State (Observe inp))"
    if "inp = canary_input (su_Reconciler su) resp plan2 (ct_Revision cs) dep n" for inp plan2 dep n
    using that assms(10) by (intro resumed [OF _ _ _ assms(11,12)]) (simp_all add: canary_input_def)
  moreover have "\<forall>w \<in> set (oc_Writes oc). \<not> is_status w"
    using oc(2) children_not_status [of _ desired] scale_writes_cases [of "rd_MD x" "scaled su api x" "ap_Scale api"]
    by (auto simp: canary_gone_def)
  ultimately show ?thesis
    using oc assms(7) by (auto simp: canary_gone_def Let_def)
qed

lemma invalid_phase: "ms_Phase (setInvalidSpec setc has status gen msg) = ApiDegraded"
  by (simp add: setInvalidSpec_def Let_def)

lemma terminal_degrades:
  assumes "\<forall>a b. lib_EqStatus lib a b \<longrightarrow> ms_Phase a = ms_Phase b" "ms_Phase (md_Status latest) \<noteq> ApiDegraded"
  shows "\<exists>s. terminal_attempt lib cl grows msg latest = Inr (Some s) \<and> ms_Phase s = ApiDegraded"
proof -
  have "\<not> lib_EqStatus lib ((md_Status latest)\<lparr>ms_Conditions := cs\<rparr>) (setInvalidSpec setc has status gen msg)"
    for cs setc has status gen
  proof
    assume "lib_EqStatus lib ((md_Status latest)\<lparr>ms_Conditions := cs\<rparr>) (setInvalidSpec setc has status gen msg)"
    with assms(1) have "ms_Phase ((md_Status latest)\<lparr>ms_Conditions := cs\<rparr>) = ms_Phase (setInvalidSpec setc has status gen msg)"
      by blast
    with assms(2) show False
      by (simp add: invalid_phase)
  qed
  then show ?thesis
    by (simp add: terminal_attempt_def Let_def invalid_phase)
qed

text \<open>C39. One failed read ends a canary. When the record of the stable revision cannot be read - a timeout, say -
  the pass takes that for a specification it cannot render: it returns the error that is never retried
  and publishes the phase \<open>Degraded\<close>. The phase is where a later pass looks for the canary: it finds none,
  and starts one from the first rung, its step, its counters and its evidence forgotten.\<close>

theorem history_read_failure_ends_canary:
  assumes "reached su api x" "recorded su api x"
    and "planRollout (su_Reconciler su) (sc_Object (scaled su api x)) (rd_Target x) (rd_Primary x) (rd_CanaryDep x) = Some plan"
    and "rl_PrimaryRevision plan \<notin> {'''', rd_Target x}" "hv_GetErr (ap_RenderViews api (rl_PrimaryRevision plan)) = Some e"
    and "ap_Terminal api = (AnswerOk latest, UpdateOk) # rest" "ms_Phase (md_Status latest) = ApiCanarying"
    and "\<forall>a b. lib_EqStatus (su_Library su) a b \<longrightarrow> ms_Phase a = ms_Phase b"
  shows "\<exists>oc s. Reconcile su cl api = Some oc \<and>
     oc_Err oc = Some (TerminalError (''reading revision '' @ rl_PrimaryRevision plan @ '': '' @ e)) \<and>
     UpdateStatus s \<in> set (oc_Writes oc) \<and> ms_Phase s = ApiDegraded \<and>
     (\<forall>inp. in_State inp = canaryStateFrom (latest\<lparr>md_Status := s\<rparr>) \<longrightarrow> Next inp = begin_canary inp)"
proof -
  let ?msg = "''reading revision '' @ rl_PrimaryRevision plan @ '': '' @ e"
  have "history_Get (su_SafeEncode su) (Some (sc_Object (scaled su api x))) (rl_PrimaryRevision plan)
      (ap_RenderViews api (rl_PrimaryRevision plan)) = Inl (HistoryError e)"
    using assms(5) by (simp add: history_Get_def)
  then have "renderRollout su (sc_Object (scaled su api x)) (rd_Profile x) (rd_Resolved x) (rd_Target x) plan
      (ap_RenderViews api) (ap_RenderPrimary api) = Inl ?msg"
    using assms(4) by (simp add: renderRollout_def specForRevision_def Let_def)
  then obtain evs hist where rec: "Reconcile su cl api =
      Some (failTerminally su cl api (scale_writes (rd_MD x) (scaled su api x) (ap_Scale api)) evs hist ?msg)"
    by (rule pass_unrendered [OF assms(1-3)])
  obtain s where s: "terminal_attempt (su_Library su) cl (ap_Grows api) ?msg latest = Inr (Some s)" "ms_Phase s = ApiDegraded"
    using terminal_degrades [OF assms(8), of latest cl "ap_Grows api" ?msg] assms(7) by auto
  have "canaryPhaseFrom ApiDegraded = PhaseIdle"
    by simp
  then have "st_Phase (canaryStateFrom (latest\<lparr>md_Status := s\<rparr>)) = PhaseIdle"
    using s(2) by (auto simp: canaryStateFrom_def zero_State_def split: option.split)
  then have "Next inp = begin_canary inp" if "in_State inp = canaryStateFrom (latest\<lparr>md_Status := s\<rparr>)" for inp
    using that by (cases rule: Next_cases [of inp]) auto
  then show ?thesis
    using rec s by (auto simp: failTerminally_def assms(6) outcome_of_def Let_def)
qed

text \<open>An unusable specification can go unreported. \<open>status := latest.Status\<close> shares its array of conditions
  with \<open>latest\<close>, so the conditions that are set on the copy are set on the original too. If the object is
  already \<open>Degraded\<close> at its current generation and has every condition, the two are equal after the
  conditions were set: nothing is written, whatever they said before, and the error is not retried.\<close>

theorem invalid_spec_not_published:
  assumes "\<forall>cs c t. cl_Has cl (cl_Set cl cs c) t \<longleftrightarrow> t = cd_Type c \<or> cl_Has cl cs t"
    and "\<forall>a. lib_EqStatus (su_Library su) a a"
    and "ms_Phase (md_Status latest) = ApiDegraded" "ms_ObservedGeneration (md_Status latest) = md_Generation latest"
    and "\<forall>t \<in> set AllConditionTypes. cl_Has cl (ms_Conditions (md_Status latest)) t"
    and "ap_Terminal api = (AnswerOk latest, upd) # rest"
  shows "oc_Writes (failTerminally su cl api ws evs hist msg) = ws \<and>
     oc_Err (failTerminally su cl api ws evs hist msg) = Some (TerminalError msg)"
proof -
  let ?put = "\<lambda>t cs. cl_Set cl cs (condition t (md_Generation latest) ConditionFalse ReasonInvalidSpec msg)"
  let ?cs = "?put ConditionReady (?put ConditionSpecValid (ms_Conditions (md_Status latest)))"
  have has: "cl_Has cl (ms_Conditions (md_Status latest)) ConditionSpecValid" "cl_Has cl (ms_Conditions (md_Status latest)) ConditionReady"
    using assms(5) by (simp_all add: AllConditionTypes_def)
  have skip: "fold (\<lambda>t status. if cl_Has cl (ms_Conditions status) t then status else f t status) ts status = status"
    if "\<forall>t \<in> set ts. cl_Has cl (ms_Conditions status) t" for ts f and status :: ModelDeploymentStatus
    using that by (induction ts) auto
  have all: "\<forall>t \<in> set AllConditionTypes. cl_Has cl ?cs t"
    using assms(1,5) by blast
  have "setInvalidSpec (cl_Set cl) (cl_Has cl) ((md_Status latest)\<lparr>ms_ObservedGeneration := md_Generation latest\<rparr>) (md_Generation latest) msg
      = (md_Status latest)\<lparr>ms_Conditions := ?cs\<rparr>"
    using assms(3,4) all by (simp add: setInvalidSpec_def setCondition_def skip Let_def)
  moreover have "shared_conditions cl (ap_Grows api) (ms_Conditions (md_Status latest)) (md_Generation latest) msg = ?cs"
    using has assms(1) by (simp add: shared_conditions_def Let_def)
  ultimately have "terminal_attempt (su_Library su) cl (ap_Grows api) msg latest = Inr None"
    using assms(2) by (simp add: terminal_attempt_def Let_def)
  then show ?thesis
    by (simp add: failTerminally_def assms(6) outcome_of_def)
qed

section \<open>Witnesses\<close>

lemma sample_library_status: "lib_EqStatus (su_Library sample_setup) = (=)"
  by (simp add: sample_setup_def sample_library_def)

theorem patch_masks_stale_plan_witness:
  "\<exists>oc s. Reconcile sample_setup sample_conditions (sample_api [sample_cr ''a'' 1] (AnswerOk (sample_flight False))) = Some oc \<and>
     UpdateStatus s \<in> set (oc_Writes oc) \<and> ms_ObservedGeneration s = 2 \<and> md_Generation (sample_flight True) = 1"
proof -
  let ?api = "sample_api [sample_cr ''a'' 1] (AnswerOk (sample_flight False))"
  obtain plan desired where p: "planRollout (su_Reconciler sample_setup) (sc_Object (scaled sample_setup ?api sample_reached))
       (rd_Target sample_reached) (rd_Primary sample_reached) (rd_CanaryDep sample_reached) = Some plan" "rl_PrimaryRevision plan = ''a''"
    "rl_PrimaryReplicas plan = 5"
    "renderRollout sample_setup (sc_Object (scaled sample_setup ?api sample_reached))
       (rd_Profile sample_reached) (rd_Resolved sample_reached) (rd_Target sample_reached) plan
       (ap_RenderViews ?api) (ap_RenderPrimary ?api) = Inr desired" "dh_CanaryDeployment desired = None"
    by (rule sample_pass)
  have "\<exists>oc s obs. Reconcile sample_setup sample_conditions ?api = Some oc \<and> UpdateStatus s \<in> set (oc_Writes oc) \<and>
     s = computeStatus (cl_Set sample_conditions) (sample_flight False) obs (md_Status (sample_flight False)) \<and>
     ms_ObservedGeneration s = md_Generation (sample_flight False) \<and> ov_Revision obs = rd_Target sample_reached \<and> ov_Rollout obs = plan"
    by (rule patch_masks_stale_plan [OF sample_reaches sample_recorded sample_accepts p(1,4)])
      (auto simp: sample_scaled sample_flight_parts sample_api_parts sample_library_status)
  then show ?thesis
    by (auto simp: sample_flight_parts)
qed

theorem abort_lost_witness:
  "\<exists>oc. Reconcile sample_setup sample_conditions (sample_api [sample_cr ''a'' 1] (AnswerError ''timeout'')) = Some oc \<and>
     {DeleteCanary, ClearAnnotations} \<subseteq> set (oc_Writes oc) \<and> (\<forall>w \<in> set (oc_Writes oc). \<not> is_status w)"
proof -
  let ?api = "sample_api [sample_cr ''a'' 1] (AnswerError ''timeout'')"
  obtain plan desired where p: "planRollout (su_Reconciler sample_setup) (sc_Object (scaled sample_setup ?api sample_reached))
       (rd_Target sample_reached) (rd_Primary sample_reached) (rd_CanaryDep sample_reached) = Some plan" "rl_PrimaryRevision plan = ''a''"
    "rl_PrimaryReplicas plan = 5"
    "renderRollout sample_setup (sc_Object (scaled sample_setup ?api sample_reached))
       (rd_Profile sample_reached) (rd_Resolved sample_reached) (rd_Target sample_reached) plan
       (ap_RenderViews ?api) (ap_RenderPrimary ?api) = Inr desired" "dh_CanaryDeployment desired = None"
    by (rule sample_pass)
  have parts: "annotationTrue (sc_Object (scaled sample_setup ?api sample_reached)) AnnoAbort" "ap_Clear ?api = PatchOk (sample_flight False)"
    "ap_Latest ?api = AnswerError ''timeout''" "\<not> annotationTrue (sample_flight False) AnnoAbort"
    by (simp_all add: sample_scaled sample_flight_parts sample_api_parts)
  from abort_lost [OF sample_reaches sample_recorded sample_accepts p(1,4) parts(1) p(5) parts(2-4) sample_flight_parts(4,5), of sample_conditions]
  show ?thesis
    by (elim exE conjE) (intro exI conjI)
qed

theorem history_read_failure_ends_canary_witness:
  "\<exists>oc s. Reconcile sample_setup sample_conditions ((sample_api [] AnswerNotFound)\<lparr>ap_RenderViews :=
       (\<lambda>_. (view_of [])\<lparr>hv_GetErr := Some ''timeout''\<rparr>)\<rparr>) = Some oc \<and> UpdateStatus s \<in> set (oc_Writes oc) \<and> ms_Phase s = ApiDegraded"
proof -
  define api where "api = (sample_api [] AnswerNotFound)\<lparr>ap_RenderViews := (\<lambda>_. (view_of [])\<lparr>hv_GetErr := Some ''timeout''\<rparr>)\<rparr>"
  have "scaled sample_setup api sample_reached = scaled sample_setup (sample_api [] AnswerNotFound) sample_reached"
    by (simp add: scaled_def api_def)
  then have obj: "sc_Object (scaled sample_setup api sample_reached) = sample_flight True"
    by (simp add: sample_scaled)
  obtain plan where plan: "planRollout (su_Reconciler sample_setup) (sample_flight True) sample_target None None = Some plan"
    "rl_PrimaryRevision plan = ''a''" "rl_PrimaryReplicas plan = 5" "rl_CanaryReplicas plan = 0"
    by (rule sample_plan)
  have reached: "reached sample_setup api sample_reached"
    using sample_reaches [of "[]" AnswerNotFound] by (simp only: reached_def api_def Api.select_convs Api.update_convs Api.surjective) simp
  have recorded: "recorded sample_setup api sample_reached"
    using sample_recorded [of "[]" AnswerNotFound] by (simp add: recorded_def api_def)
  have planned: "planRollout (su_Reconciler sample_setup) (sc_Object (scaled sample_setup api sample_reached)) (rd_Target sample_reached)
       (rd_Primary sample_reached) (rd_CanaryDep sample_reached) = Some plan"
    using plan(1) by (simp only: obj sample_reached_parts)
  have stable: "rl_PrimaryRevision plan \<notin> {'''', rd_Target sample_reached}"
    using sample_target_named by (auto simp: plan(2) sample_reached_parts)
  have parts: "hv_GetErr (ap_RenderViews api (rl_PrimaryRevision plan)) = Some ''timeout''"
    "ap_Terminal api = (AnswerOk (sample_flight False), UpdateOk) # []"
    by (simp_all add: api_def sample_api_def)
  have eq: "\<forall>a b. lib_EqStatus (su_Library sample_setup) a b \<longrightarrow> ms_Phase a = ms_Phase b"
    by (simp add: sample_library_status)
  from history_read_failure_ends_canary [OF reached recorded planned stable parts sample_flight_parts(4) eq, of sample_conditions]
  show ?thesis
    unfolding api_def
    by (elim exE conjE) (intro exI conjI)
qed

definition sample_degraded :: ModelDeployment where
  "sample_degraded = (sample_flight True)\<lparr>md_Status := (md_Status (sample_flight True))\<lparr>ms_Phase := ApiDegraded,
     ms_Conditions := map (\<lambda>t. condition t 1 ConditionTrue ReasonSpecAccepted '''') AllConditionTypes\<rparr>\<rparr>"

theorem invalid_spec_not_published_witness:
  "isConditionTrue (ms_Conditions (md_Status sample_degraded)) ConditionSpecValid \<and>
   oc_Writes (failTerminally sample_setup sample_conditions
     ((sample_api [] AnswerNotFound)\<lparr>ap_Terminal := [(AnswerOk sample_degraded, UpdateOk)]\<rparr>) [] [] [] ''unusable'') = []"
proof -
  let ?api = "(sample_api [] AnswerNotFound)\<lparr>ap_Terminal := [(AnswerOk sample_degraded, UpdateOk)]\<rparr>"
  have "\<forall>cs c t. cl_Has sample_conditions (cl_Set sample_conditions cs c) t \<longleftrightarrow> t = cd_Type c \<or> cl_Has sample_conditions cs t"
    by (auto simp: sample_conditions_def sample_set_def)
  moreover have "\<forall>a. lib_EqStatus (su_Library sample_setup) a a"
    by (simp add: sample_library_status)
  moreover have "ms_Phase (md_Status sample_degraded) = ApiDegraded"
    "ms_ObservedGeneration (md_Status sample_degraded) = md_Generation sample_degraded"
    using sample_flight_parts(2,3) [of True] by (simp_all add: sample_degraded_def)
  moreover have "\<forall>t \<in> set AllConditionTypes. cl_Has sample_conditions (ms_Conditions (md_Status sample_degraded)) t"
    by (simp add: sample_conditions_def sample_degraded_def condition_def)
  moreover have "ap_Terminal ?api = (AnswerOk sample_degraded, UpdateOk) # []"
    by simp
  ultimately have "oc_Writes (failTerminally sample_setup sample_conditions ?api [] [] [] ''unusable'') = []"
    using invalid_spec_not_published [of sample_conditions sample_setup sample_degraded ?api UpdateOk "[]" "[]" "[]" "[]" "''unusable''"] by blast
  moreover have "isConditionTrue (ms_Conditions (md_Status sample_degraded)) ConditionSpecValid"
    by (simp add: sample_degraded_def AllConditionTypes_def condition_def ConditionSpecValid_def ConditionReady_def
        ConditionAvailable_def ConditionProgressing_def ConditionModelReady_def)
  ultimately show ?thesis
    by blast
qed

end
