(* ===== verification/Discovery.thy ===== *)
theory Discovery
  imports Go_Base
begin

text \<open>
  The probe for optional API kinds (\<open>internal/discovery/discovery.go\<close>): its cache with one lifetime for each
  polarity, \<open>Has\<close> as the code composes it from \<open>lookup\<close>, the call of the discovery client and \<open>store\<close>, and
  \<open>Invalidate\<close>. The client is what it answers. The clock is read at \<open>lookup\<close> and again at \<open>store\<close>. The
  mutex guards the two cache accesses and not the call between them, so callers may interleave there:
  \<open>prober_step\<close> is any number of workers on one prober. The locale \<open>kind_probe\<close> is what the controller
  relies on when it asks, interpreted on \<open>Has\<close> and on \<open>Static_Has\<close>.
\<close>

section \<open>Kinds and answers\<close>

record GroupVersionKind =
  gk_Group :: string
  gk_Version :: string
  gk_Kind :: string

text \<open>\<open>GroupVersion.String\<close>\<close>

definition gv_String :: "string \<Rightarrow> string \<Rightarrow> string" where
  "gv_String g v = (if g \<noteq> '''' then g @ ''/'' @ v else v)"

abbreviation groupVersion :: "GroupVersionKind \<Rightarrow> string" where
  "groupVersion gvk \<equiv> gv_String (gk_Group gvk) (gk_Version gvk)"

text \<open>What \<open>ServerResourcesForGroupVersion\<close> returns: the kinds of the group version, or an error. Of an
  error the code asks whether the API server says not found, and whether it is an aggregated discovery
  failure; the latter holds for each failed group version whether its cause is not found. The string is
  the text of the error.\<close>

datatype discovery_error =
    ErrNotFound string
  | ErrGroupDiscoveryFailed "((string \<times> string) \<times> bool) list" string
  | ErrOther string

fun discovery_error_text :: "discovery_error \<Rightarrow> string" where
  "discovery_error_text (ErrNotFound s) = s"
| "discovery_error_text (ErrGroupDiscoveryFailed gs s) = s"
| "discovery_error_text (ErrOther s) = s"

type_synonym discovery_answer = "discovery_error + string list"

definition isGroupDiscoveryFailure :: "discovery_error \<Rightarrow> string \<Rightarrow> bool" where
  "isGroupDiscoveryFailure err gv =
     (case err of
        ErrGroupDiscoveryFailed groups _ \<Rightarrow>
          (case find (\<lambda>((g, v), _). gv_String g v = gv) groups of
             Some (_, notFound) \<Rightarrow> notFound
           | None \<Rightarrow> False)
      | _ \<Rightarrow> False)"

section \<open>The prober\<close>

definition PresentTTL :: go_duration where "PresentTTL = 600 * go_Second"
definition AbsentTTL :: go_duration where "AbsentTTL = 30 * go_Second"

record entry =
  et_present :: bool
  et_expiresAt :: go_time

record Prober =
  pb_presentTTL :: go_duration
  pb_absentTTL :: go_duration
  pb_cache :: "GroupVersionKind \<Rightarrow> entry option"

definition WithTTLs :: "go_duration \<Rightarrow> go_duration \<Rightarrow> Prober \<Rightarrow> Prober" where
  "WithTTLs present absent p = p\<lparr>pb_presentTTL := present, pb_absentTTL := absent\<rparr>"

definition NewFor :: "(Prober \<Rightarrow> Prober) list \<Rightarrow> Prober" where
  "NewFor opts = fold (\<lambda>f p. f p) opts \<lparr>pb_presentTTL = PresentTTL, pb_absentTTL = AbsentTTL, pb_cache = \<lambda>_. None\<rparr>"

definition lookup :: "go_time \<Rightarrow> Prober \<Rightarrow> GroupVersionKind \<Rightarrow> bool option" where
  "lookup now p gvk =
     (case pb_cache p gvk of
        None \<Rightarrow> None
      | Some e \<Rightarrow> if \<not> Before now (et_expiresAt e) then None else Some (et_present e))"

definition ttl_for :: "Prober \<Rightarrow> bool \<Rightarrow> go_duration" where
  "ttl_for p present = (if present then pb_presentTTL p else pb_absentTTL p)"

definition store :: "go_time \<Rightarrow> GroupVersionKind \<Rightarrow> bool \<Rightarrow> Prober \<Rightarrow> Prober" where
  "store now gvk present p =
     p\<lparr>pb_cache := (pb_cache p)(gvk \<mapsto> \<lparr>et_present = present, et_expiresAt = Add now (ttl_for p present)\<rparr>)\<rparr>"

definition Invalidate :: "GroupVersionKind \<Rightarrow> Prober \<Rightarrow> Prober" where
  "Invalidate gvk p = p\<lparr>pb_cache := (pb_cache p)(gvk := None)\<rparr>"

text \<open>What an answer says of a kind: the error that is passed on, or a definitive yes or no.\<close>

definition served :: "GroupVersionKind \<Rightarrow> discovery_answer \<Rightarrow> string + bool" where
  "served gvk answer =
     (let gv = groupVersion gvk
      in case answer of
           Inl err \<Rightarrow>
             (case err of
                ErrNotFound _ \<Rightarrow> Inr False
              | _ \<Rightarrow> if isGroupDiscoveryFailure err gv then Inr False
                     else Inl (''discovering '' @ gv @ '': '' @ discovery_error_text err))
         | Inr kinds \<Rightarrow> Inr (list_ex (\<lambda>k. k = gk_Kind gvk) kinds))"

text \<open>One call of \<open>Has\<close>: the clock at the lookup, the client's answer to a group version, the clock at the
  store.\<close>

record has_call =
  hc_lookup :: go_time
  hc_client :: "string \<Rightarrow> discovery_answer"
  hc_store :: go_time

definition Has :: "has_call \<Rightarrow> GroupVersionKind \<Rightarrow> Prober \<Rightarrow> (string + bool) \<times> Prober" where
  "Has call gvk p =
     (case lookup (hc_lookup call) p gvk of
        Some cached \<Rightarrow> (Inr cached, p)
      | None \<Rightarrow>
          (case served gvk (hc_client call (groupVersion gvk)) of
             Inl e \<Rightarrow> (Inl e, p)
           | Inr present \<Rightarrow> (Inr present, store (hc_store call) gvk present p)))"

record Static =
  st_Present :: "GroupVersionKind \<Rightarrow> bool"
  st_Err :: "string option"

definition Static_Has :: "has_call \<Rightarrow> GroupVersionKind \<Rightarrow> Static \<Rightarrow> (string + bool) \<times> Static" where
  "Static_Has call gvk s = ((case st_Err s of Some e \<Rightarrow> Inl e | None \<Rightarrow> Inr (st_Present s gvk)), s)"

section \<open>Basic laws\<close>

lemma store_fields [simp]:
  "pb_presentTTL (store t g b p) = pb_presentTTL p" "pb_absentTTL (store t g b p) = pb_absentTTL p"
  "ttl_for (store t g b p) = ttl_for p"
  by (simp_all add: store_def ttl_for_def fun_eq_iff)

lemma Invalidate_fields [simp]:
  "pb_presentTTL (Invalidate g p) = pb_presentTTL p" "pb_absentTTL (Invalidate g p) = pb_absentTTL p"
  "ttl_for (Invalidate g p) = ttl_for p"
  by (simp_all add: Invalidate_def ttl_for_def fun_eq_iff)

lemma cache_store: "pb_cache (store t g b p) h =
    (if h = g then Some \<lparr>et_present = b, et_expiresAt = t + ttl_for p b\<rparr> else pb_cache p h)"
  by (simp add: store_def Add_def)

lemma cache_Invalidate: "pb_cache (Invalidate g p) h = (if h = g then None else pb_cache p h)"
  by (simp add: Invalidate_def)

lemma lookup_store:
  "lookup now (store t g b p) h = (if h = g then (if now < t + ttl_for p b then Some b else None) else lookup now p h)"
  by (simp add: lookup_def cache_store Before_def)

lemma lookup_Invalidate: "lookup now (Invalidate g p) h = (if h = g then None else lookup now p h)"
  by (simp add: lookup_def cache_Invalidate)

lemma lookup_expires: "lookup now p g = Some b \<Longrightarrow> t \<le> now \<Longrightarrow> lookup t p g = Some b"
  by (auto simp: lookup_def Before_def split: option.splits if_splits)

lemma served_Inl:
  "served gvk answer = Inl e \<Longrightarrow> \<exists>err. answer = Inl err \<and> (\<forall>s. err \<noteq> ErrNotFound s) \<and> \<not> isGroupDiscoveryFailure err (groupVersion gvk)"
  by (auto simp: served_def Let_def split: sum.splits discovery_error.splits if_splits)

section \<open>A cache whose entries expire\<close>

text \<open>
  What the workers rely on: an entry is found until its lifetime is over, a write of one key leaves the
  others alone, and the lifetimes are fixed. From these laws alone, a hit after any sequence of writes and
  removals is the last write of that key, still within its lifetime.
\<close>

datatype ('k, 'v) cache_op = Put go_time 'k 'v | Drop 'k

fun op_key :: "('k, 'v) cache_op \<Rightarrow> 'k" where
  "op_key (Put t k v) = k"
| "op_key (Drop k) = k"

locale expiring_cache =
  fixes get :: "go_time \<Rightarrow> 'c \<Rightarrow> 'k \<Rightarrow> 'v option"
    and put :: "go_time \<Rightarrow> 'k \<Rightarrow> 'v \<Rightarrow> 'c \<Rightarrow> 'c"
    and remove :: "'k \<Rightarrow> 'c \<Rightarrow> 'c"
    and life :: "'c \<Rightarrow> 'v \<Rightarrow> go_duration"
  assumes get_put: "get now (put t k v c) j =
      (if j = k then (if now < t + life c v then Some v else None) else get now c j)"
    and get_remove: "get now (remove k c) j = (if j = k then None else get now c j)"
    and life_put: "life (put t k v c) = life c"
    and life_remove: "life (remove k c) = life c"
begin

fun perform :: "('k, 'v) cache_op \<Rightarrow> 'c \<Rightarrow> 'c" where
  "perform (Put t k v) c = put t k v c"
| "perform (Drop k) c = remove k c"

lemma life_run: "life (fold perform ops c) = life c"
proof (induction ops arbitrary: c)
  case (Cons x ops)
  then show ?case
    by (cases x) (simp_all add: life_put life_remove)
qed simp

lemma hit_is_last_write:
  assumes "get now (fold perform ops c) k = Some v"
  shows "get now c k = Some v \<and> k \<notin> op_key ` set ops \<or>
    (\<exists>pre t post. ops = pre @ Put t k v # post \<and> k \<notin> op_key ` set post \<and> now < t + life c v)"
  using assms
proof (induction ops rule: rev_induct)
  case (snoc x ops)
  show ?case
  proof (cases "op_key x = k")
    case True
    then obtain t where "x = Put t k v" "now < t + life c v"
      using snoc.prems by (cases x) (auto simp: get_put get_remove life_run split: if_splits)
    then show ?thesis
      by (intro disjI2 exI [of _ ops] exI [of _ t] exI [of _ "[]"]) simp
  next
    case False
    then have "get now (fold perform ops c) k = Some v"
      using snoc.prems by (cases x) (auto simp: get_put get_remove)
    then consider "get now c k = Some v" "k \<notin> op_key ` set ops"
      | pre t post where "ops = pre @ Put t k v # post" "k \<notin> op_key ` set post" "now < t + life c v"
      using snoc.IH by blast
    then show ?thesis
    proof cases
      case 1
      then show ?thesis
        using False by auto
    next
      case 2
      then show ?thesis
        using False by (intro disjI2 exI [of _ pre] exI [of _ t] exI [of _ "post @ [x]"]) auto
    qed
  qed
qed simp

end

interpretation pc: expiring_cache lookup store Invalidate ttl_for
  by unfold_locales (simp_all add: lookup_store lookup_Invalidate)

section \<open>Workers on one prober\<close>

text \<open>
  A worker that missed the cache waits for the client and then stores, or passes the error on. Hits change
  nothing. The log is every answer the cluster gave, with its time.
\<close>

record probing =
  pg_now :: go_time
  pg_prober :: Prober
  pg_waiting :: "nat \<Rightarrow> (GroupVersionKind \<times> discovery_answer option) option"
  pg_log :: "(go_time \<times> GroupVersionKind \<times> discovery_answer) set"

inductive prober_step :: "probing \<Rightarrow> probing \<Rightarrow> bool" where
  tick: "pg_now s \<le> t \<Longrightarrow> prober_step s (s\<lparr>pg_now := t\<rparr>)"
| miss: "pg_waiting s w = None \<Longrightarrow> lookup (pg_now s) (pg_prober s) g = None \<Longrightarrow>
    prober_step s (s\<lparr>pg_waiting := (pg_waiting s)(w \<mapsto> (g, None))\<rparr>)"
| answered: "pg_waiting s w = Some (g, None) \<Longrightarrow>
    prober_step s (s\<lparr>pg_waiting := (pg_waiting s)(w \<mapsto> (g, Some a)), pg_log := insert (pg_now s, g, a) (pg_log s)\<rparr>)"
| stored: "pg_waiting s w = Some (g, Some a) \<Longrightarrow> served g a = Inr b \<Longrightarrow>
    prober_step s (s\<lparr>pg_waiting := (pg_waiting s)(w := None), pg_prober := store (pg_now s) g b (pg_prober s)\<rparr>)"
| failed: "pg_waiting s w = Some (g, Some a) \<Longrightarrow> served g a = Inl e \<Longrightarrow>
    prober_step s (s\<lparr>pg_waiting := (pg_waiting s)(w := None)\<rparr>)"
| forget: "prober_step s (s\<lparr>pg_prober := Invalidate g (pg_prober s)\<rparr>)"

inductive_cases prober_stepE: "prober_step s s'"

definition probing_start :: "go_time \<Rightarrow> Prober \<Rightarrow> probing" where
  "probing_start t p = \<lparr>pg_now = t, pg_prober = p, pg_waiting = (\<lambda>_. None), pg_log = {}\<rparr>"

text \<open>An entry of the cache is a definitive answer of the cluster, kept for the lifetime of its polarity from
  the moment it was stored.\<close>

definition backed :: "probing \<Rightarrow> GroupVersionKind \<Rightarrow> entry \<Rightarrow> bool" where
  "backed s g e \<longleftrightarrow> (\<exists>t a u. (t, g, a) \<in> pg_log s \<and> served g a = Inr (et_present e) \<and> t \<le> u \<and> u \<le> pg_now s \<and>
     et_expiresAt e = u + ttl_for (pg_prober s) (et_present e))"

definition probing_inv :: "probing \<Rightarrow> bool" where
  "probing_inv s \<longleftrightarrow>
     (\<forall>g e. pb_cache (pg_prober s) g = Some e \<longrightarrow> backed s g e) \<and>
     (\<forall>w g a. pg_waiting s w = Some (g, Some a) \<longrightarrow> (\<exists>t \<le> pg_now s. (t, g, a) \<in> pg_log s))"

lemma backed_mono:
  assumes "backed s g e" "pg_now s \<le> pg_now s'" "pg_log s \<subseteq> pg_log s'" "ttl_for (pg_prober s') = ttl_for (pg_prober s)"
  shows "backed s' g e"
  using assms unfolding backed_def by (metis order_trans subsetD)

lemma prober_step_mono:
  "prober_step s s' \<Longrightarrow> pg_now s \<le> pg_now s' \<and> pg_log s \<subseteq> pg_log s' \<and> ttl_for (pg_prober s') = ttl_for (pg_prober s)"
  by (cases rule: prober_step.cases) auto

lemma probing_inv_step:
  assumes "prober_step s s'" "probing_inv s"
  shows "probing_inv s'"
proof -
  note mono = prober_step_mono [OF assms(1)]
  have cached: "backed s' g e" if "pb_cache (pg_prober s) g = Some e" for g e
    using assms(2) that mono by (auto simp: probing_inv_def intro: backed_mono [of s])
  have waits: "\<exists>t \<le> pg_now s'. (t, g, a) \<in> pg_log s'" if "pg_waiting s w = Some (g, Some a)" for w g a
  proof -
    obtain t where "t \<le> pg_now s" "(t, g, a) \<in> pg_log s"
      using assms(2) \<open>pg_waiting s w = Some (g, Some a)\<close> unfolding probing_inv_def by blast
    then show ?thesis
      using mono by (intro exI [of _ t]) auto
  qed
  show ?thesis
    using assms(1)
  proof (cases rule: prober_step.cases)
    case (stored w g a b)
    have "backed s' g \<lparr>et_present = b, et_expiresAt = pg_now s + ttl_for (pg_prober s) b\<rparr>"
      using waits [OF stored(2)] stored(3) by (auto simp: backed_def stored(1))
    then show ?thesis
      using cached waits by (auto simp: probing_inv_def cache_store stored(1) split: if_splits)
  next
    case (forget g)
    then show ?thesis
      using cached waits by (auto simp: probing_inv_def cache_Invalidate split: if_splits)
  qed (use cached waits in \<open>auto simp: probing_inv_def split: if_splits\<close>)
qed

lemma probing_reachable:
  assumes "prober_step\<^sup>*\<^sup>* (probing_start t0 p) s" "pb_cache p = (\<lambda>_. None)"
  shows "probing_inv s" "ttl_for (pg_prober s) = ttl_for p"
  using assms
  by (induction rule: rtranclp_induct) (auto simp: probing_inv_def probing_start_def dest: probing_inv_step prober_step_mono)

lemma NewFor_TTLs:
  "NewFor [] = \<lparr>pb_presentTTL = PresentTTL, pb_absentTTL = AbsentTTL, pb_cache = (\<lambda>_. None)\<rparr>"
  by (simp add: NewFor_def)

section \<open>What a cached answer is worth\<close>

lemma reachable_lookup:
  assumes "prober_step\<^sup>*\<^sup>* (probing_start t0 (NewFor [])) s" "lookup now (pg_prober s) g = Some b"
  obtains t a u where "(t, g, a) \<in> pg_log s" "served g a = Inr b" "t \<le> u" "u \<le> pg_now s"
    "now < u + (if b then 600 else 30) * go_Second"
proof -
  have inv: "probing_inv s" and life: "ttl_for (pg_prober s) = ttl_for (NewFor [])"
    using probing_reachable [OF assms(1)] by (simp_all add: NewFor_TTLs)
  obtain e where e: "pb_cache (pg_prober s) g = Some e" "et_present e = b" "now < et_expiresAt e"
    using assms(2) by (auto simp: lookup_def Before_def split: option.splits if_splits)
  then have "backed s g e"
    using inv by (simp add: probing_inv_def)
  then obtain t a u where tau: "(t, g, a) \<in> pg_log s" "served g a = Inr b" "t \<le> u" "u \<le> pg_now s"
      "et_expiresAt e = u + ttl_for (NewFor []) b"
    unfolding backed_def e(2) life by blast
  then have "now < u + (if b then 600 else 30) * go_Second"
    using e(3) by (simp add: NewFor_TTLs ttl_for_def PresentTTL_def AbsentTTL_def split: if_splits)
  with tau(1-4) show ?thesis
    by (rule that)
qed

text \<open>
  Whatever number of workers share a prober, with calls to the cluster of any length and answers cast out
  at any time, an answer that \<open>lookup\<close> gives was given by the cluster itself: a definitive answer about this
  kind, stored afterwards and not older than ten minutes since then if it is positive, thirty seconds if it
  is negative. A failed call never becomes an absence.
\<close>

theorem cached_answer_is_recent:
  assumes "prober_step\<^sup>*\<^sup>* (probing_start t0 (NewFor [])) s"
    and "lookup (pg_now s) (pg_prober s) g = Some b"
  shows "\<exists>t a u. (t, g, a) \<in> pg_log s \<and> served g a = Inr b \<and> t \<le> u \<and> u \<le> pg_now s \<and>
    pg_now s < u + (if b then 600 else 30) * go_Second"
  using reachable_lookup [OF assms] by metis

definition sample_kind :: GroupVersionKind where
  "sample_kind = \<lparr>gk_Group = ''monitoring.coreos.com'', gk_Version = ''v1'', gk_Kind = ''ServiceMonitor''\<rparr>"

definition sample_probing :: "discovery_answer \<Rightarrow> probing" where
  "sample_probing a = \<lparr>pg_now = 7, pg_prober = store 7 sample_kind (a = Inr [''ServiceMonitor'']) (NewFor []),
     pg_waiting = (\<lambda>_. None), pg_log = {(7, sample_kind, a)}\<rparr>"

lemma sample_probing_run: "prober_step\<^sup>*\<^sup>* (probing_start 7 (NewFor [])) (sample_probing (Inl (ErrNotFound ''404'')))"
proof -
  let ?p = "NewFor []" and ?a = "Inl (ErrNotFound ''404'') :: discovery_answer"
  let ?s1 = "\<lparr>pg_now = 7, pg_prober = ?p, pg_waiting = (\<lambda>_. None)(0 \<mapsto> (sample_kind, None)), pg_log = {}\<rparr>"
  let ?s2 = "\<lparr>pg_now = 7, pg_prober = ?p, pg_waiting = (\<lambda>_. None)(0 \<mapsto> (sample_kind, Some ?a)), pg_log = {(7, sample_kind, ?a)}\<rparr>"
  have "prober_step (probing_start 7 ?p) ?s1"
    using prober_step.miss [of "probing_start 7 ?p" 0 sample_kind]
    by (simp add: probing_start_def lookup_def NewFor_TTLs)
  moreover have "prober_step ?s1 ?s2"
    using prober_step.answered [of ?s1 0 sample_kind ?a] by simp
  moreover have "prober_step ?s2 (sample_probing ?a)"
    using prober_step.stored [of ?s2 0 sample_kind ?a False] by (simp add: sample_probing_def served_def Let_def)
  ultimately show ?thesis
    by (meson rtranclp.rtrancl_into_rtrancl rtranclp.rtrancl_refl)
qed

theorem cached_answer_is_recent_witness:
  "\<exists>t a u. (t, sample_kind, a) \<in> pg_log (sample_probing (Inl (ErrNotFound ''404''))) \<and> served sample_kind a = Inr False \<and>
     t \<le> u \<and> u \<le> 7 \<and> 7 < u + 30 * go_Second"
proof -
  let ?s = "sample_probing (Inl (ErrNotFound ''404''))"
  have now: "pg_now ?s = 7"
    by (simp add: sample_probing_def)
  have "lookup (pg_now ?s) (pg_prober ?s) sample_kind = Some False"
    by (simp add: sample_probing_def lookup_store ttl_for_def NewFor_TTLs AbsentTTL_def go_Second_def)
  from cached_answer_is_recent [OF sample_probing_run this] show ?thesis
    by (simp only: now if_False)
qed

section \<open>One call\<close>

text \<open>The cases of a call, and what it leaves in the cache.\<close>

lemma Has_cases:
  obtains (hit) b where "lookup (hc_lookup c) p g = Some b" "Has c g p = (Inr b, p)"
  | (fresh) b where "lookup (hc_lookup c) p g = None" "served g (hc_client c (groupVersion g)) = Inr b"
      "Has c g p = (Inr b, store (hc_store c) g b p)"
  | (failed) e where "lookup (hc_lookup c) p g = None" "served g (hc_client c (groupVersion g)) = Inl e" "Has c g p = (Inl e, p)"
  unfolding Has_def
  by (cases "lookup (hc_lookup c) p g"; cases "served g (hc_client c (groupVersion g))") auto

lemma Has_error_keeps: "fst (Has c g p) = Inl e \<Longrightarrow> snd (Has c g p) = p"
  by (cases rule: Has_cases [of c p g]) auto

text \<open>A call is a run of the system: the worker misses, waits, and stores or fails.\<close>

lemma Has_is_run:
  assumes "pg_waiting s w = None" "pg_now s \<le> hc_lookup c" "hc_lookup c \<le> hc_store c"
  shows "\<exists>s'. prober_step\<^sup>*\<^sup>* s s' \<and> pg_prober s' = snd (Has c g (pg_prober s)) \<and> pg_waiting s' = pg_waiting s \<and>
    pg_now s' \<le> hc_store c"
proof -
  define s1 where "s1 = s\<lparr>pg_now := hc_lookup c\<rparr>"
  define a where "a = hc_client c (groupVersion g)"
  define s2 where "s2 = s1\<lparr>pg_waiting := (pg_waiting s)(w \<mapsto> (g, None))\<rparr>"
  define s3 where "s3 = s2\<lparr>pg_waiting := (pg_waiting s)(w \<mapsto> (g, Some a)), pg_log := insert (hc_lookup c, g, a) (pg_log s)\<rparr>"
  define s4 where "s4 = s3\<lparr>pg_now := hc_store c\<rparr>"
  have one: "prober_step s s1"
    using prober_step.tick [OF assms(2)] by (simp add: s1_def)
  have four: "prober_step\<^sup>*\<^sup>* s s4" if none: "lookup (hc_lookup c) (pg_prober s) g = None"
  proof -
    have "prober_step s1 s2"
      using prober_step.miss [of s1 w g] assms(1) none
      by (simp add: s1_def s2_def)
    moreover have "prober_step s2 s3"
      using prober_step.answered [of s2 w g a] by (simp add: s1_def s2_def s3_def)
    moreover have "prober_step s3 s4"
      using prober_step.tick [of s3 "hc_store c"] assms(3) by (simp add: s1_def s2_def s3_def s4_def)
    ultimately show ?thesis
      using one by (meson rtranclp.rtrancl_into_rtrancl rtranclp.rtrancl_refl)
  qed
  have idle: "(pg_waiting s)(w := None) = pg_waiting s"
    using assms(1) by auto
  show ?thesis
  proof (cases rule: Has_cases [of c "pg_prober s" g])
    case (hit b)
    then show ?thesis
      using one assms(3) by (intro exI [of _ s1]) (auto simp: s1_def)
  next
    case (fresh b)
    define s5 where "s5 = s4\<lparr>pg_waiting := (pg_waiting s4)(w := None), pg_prober := store (pg_now s4) g b (pg_prober s4)\<rparr>"
    have "prober_step s4 s5"
      using prober_step.stored [of s4 w g a b] fresh by (simp add: s5_def s4_def s3_def a_def)
    with four [OF fresh(1)] have "prober_step\<^sup>*\<^sup>* s s5" ..
    then show ?thesis
      using fresh(3) idle by (intro exI [of _ s5]) (simp add: s5_def s4_def s3_def s2_def s1_def)
  next
    case (failed e)
    define s5 where "s5 = s4\<lparr>pg_waiting := (pg_waiting s4)(w := None)\<rparr>"
    have "prober_step s4 s5"
      using prober_step.failed [of s4 w g a e] failed by (simp add: s5_def s4_def s3_def a_def)
    with four [OF failed(1)] have "prober_step\<^sup>*\<^sup>* s s5" ..
    then show ?thesis
      using failed(3) idle by (intro exI [of _ s5]) (simp add: s5_def s4_def s3_def s2_def s1_def)
  qed
qed

text \<open>
  An installation is noticed: thirty seconds after the last answer was stored, whatever answers were stored and
  cast out before, no absence is served from the cache, and a call that does not find a presence there asks the
  cluster and returns what it says.
\<close>

theorem installation_noticed:
  assumes "\<forall>t k b. Put t k b \<in> set ops \<longrightarrow> t \<le> last_store" "last_store + AbsentTTL \<le> hc_lookup c"
    and "Has c g (fold pc.perform ops (NewFor [])) = (r, p')"
  shows "r = Inr True \<or> r = served g (hc_client c (groupVersion g))"
proof -
  have "lookup (hc_lookup c) (fold pc.perform ops (NewFor [])) g \<noteq> Some False"
  proof
    assume "lookup (hc_lookup c) (fold pc.perform ops (NewFor [])) g = Some False"
    moreover have "lookup (hc_lookup c) (NewFor []) g = None" "ttl_for (NewFor []) False = AbsentTTL"
      by (simp_all add: NewFor_TTLs lookup_def ttl_for_def)
    ultimately obtain pre t post where "ops = pre @ Put t g False # post" "hc_lookup c < t + AbsentTTL"
      using pc.hit_is_last_write [of "hc_lookup c" ops "NewFor []" g False] by auto
    then have "Put t g False \<in> set ops" "hc_lookup c < t + AbsentTTL"
      by simp_all
    then show False
      using assms(1,2) by fastforce
  qed
  then show ?thesis
    using assms(3) by (cases rule: Has_cases [of c "fold pc.perform ops (NewFor [])" g]) auto
qed

end
