(* ===== verification/Monitoring.thy ===== *)
theory Monitoring
  imports Children Discovery
begin

text \<open>
  The monitoring objects the controller publishes (\<open>internal/observability\<close>: \<open>fields.go\<close>, \<open>gvk.go\<close>,
  \<open>servicemonitor.go\<close>, \<open>prometheusrule.go\<close>) and the histogram boundaries they share with the sidecar
  (\<open>internal/metrics/buckets.go\<close>). An unstructured object is a tree; its maps are maps, which the
  encoder sorts by key, so that equal trees are equal documents.
\<close>

datatype unstructured = UString string | UBool bool | UList "unstructured list" | UMap "string \<Rightarrow> unstructured option"

text \<open>A quotation mark and a line feed in a text.\<close>

definition dq :: string where "dq = [CHR 0x22]"
definition nl :: string where "nl = [CHR 0x0A]"

section \<open>Field names\<close>

definition fieldAPIVersion :: string where "fieldAPIVersion = ''apiVersion''"
definition fieldKind :: string where "fieldKind = ''kind''"
definition fieldMetadata :: string where "fieldMetadata = ''metadata''"
definition fieldSpec :: string where "fieldSpec = ''spec''"
definition fieldName :: string where "fieldName = ''name''"
definition fieldNamespace :: string where "fieldNamespace = ''namespace''"
definition fieldLabels :: string where "fieldLabels = ''labels''"
definition fieldAnnotations :: string where "fieldAnnotations = ''annotations''"
definition fieldOwnerReferences :: string where "fieldOwnerReferences = ''ownerReferences''"
definition fieldInterval :: string where "fieldInterval = ''interval''"
definition fieldExpr :: string where "fieldExpr = ''expr''"
definition fieldRules :: string where "fieldRules = ''rules''"
definition fieldGroups :: string where "fieldGroups = ''groups''"
definition fieldRecord :: string where "fieldRecord = ''record''"
definition fieldAlert :: string where "fieldAlert = ''alert''"
definition fieldFor :: string where "fieldFor = ''for''"
definition fieldPort :: string where "fieldPort = ''port''"
definition fieldPath :: string where "fieldPath = ''path''"
definition fieldScheme :: string where "fieldScheme = ''scheme''"
definition fieldScrapeTimeout :: string where "fieldScrapeTimeout = ''scrapeTimeout''"
definition fieldHonorLabels :: string where "fieldHonorLabels = ''honorLabels''"
definition labelSeverity :: string where "labelSeverity = ''severity''"
definition labelSLO :: string where "labelSLO = ''slo''"
definition annotationSummary :: string where "annotationSummary = ''summary''"
definition annotationDesc :: string where "annotationDesc = ''description''"
definition annotationRunbook :: string where "annotationRunbook = ''runbook_url''"
definition severityCritical :: string where "severityCritical = ''critical''"
definition severityWarning :: string where "severityWarning = ''warning''"
definition severityInfo :: string where "severityInfo = ''info''"
definition alertNoTraffic :: string where "alertNoTraffic = ''LLMCPNoTraffic''"
definition runbookURL :: string where
  "runbookURL = ''https://github.com/surajm20061998/LLM_Inference_Control_Plane/blob/main/docs/slo.md''"

lemmas field_defs = fieldAPIVersion_def fieldKind_def fieldMetadata_def fieldSpec_def fieldName_def fieldNamespace_def
  fieldLabels_def fieldAnnotations_def fieldOwnerReferences_def fieldInterval_def fieldExpr_def fieldRules_def
  fieldGroups_def fieldRecord_def fieldAlert_def fieldFor_def fieldPort_def fieldPath_def fieldScheme_def
  fieldScrapeTimeout_def fieldHonorLabels_def

definition MonitoringGroup :: string where "MonitoringGroup = ''monitoring.coreos.com''"
definition MonitoringVersion :: string where "MonitoringVersion = ''v1''"
definition KindServiceMonitor :: string where "KindServiceMonitor = ''ServiceMonitor''"
definition KindPrometheusRule :: string where "KindPrometheusRule = ''PrometheusRule''"

definition ServiceMonitorGVK :: GroupVersionKind where
  "ServiceMonitorGVK = \<lparr>gk_Group = MonitoringGroup, gk_Version = MonitoringVersion, gk_Kind = KindServiceMonitor\<rparr>"

definition PrometheusRuleGVK :: GroupVersionKind where
  "PrometheusRuleGVK = \<lparr>gk_Group = MonitoringGroup, gk_Version = MonitoringVersion, gk_Kind = KindPrometheusRule\<rparr>"

section \<open>Common parts\<close>

record MetaOwnerReference =
  mw_APIVersion :: string
  mw_Kind :: string
  mw_Name :: string
  mw_UID :: string
  mw_Controller :: "bool option"
  mw_BlockOwnerDeletion :: "bool option"

definition toStringMap :: "labels \<Rightarrow> unstructured" where
  "toStringMap l = UMap (\<lambda>k. map_option UString (l k))"

definition ownerRefMap :: "MetaOwnerReference \<Rightarrow> unstructured" where
  "ownerRefMap ref =
     (let m = [''apiVersion'' \<mapsto> UString (mw_APIVersion ref), ''kind'' \<mapsto> UString (mw_Kind ref),
               ''name'' \<mapsto> UString (mw_Name ref), ''uid'' \<mapsto> UString (mw_UID ref)];
          m = (case mw_Controller ref of Some b \<Rightarrow> m(''controller'' \<mapsto> UBool b) | None \<Rightarrow> m);
          m = (case mw_BlockOwnerDeletion ref of Some b \<Rightarrow> m(''blockOwnerDeletion'' \<mapsto> UBool b) | None \<Rightarrow> m)
      in UMap m)"

section \<open>The ServiceMonitor\<close>

definition defaultInterval :: go_duration where "defaultInterval = 15 * go_Second"
definition defaultScrapeTimeout :: go_duration where "defaultScrapeTimeout = 10 * go_Second"
definition engineScrapeInterval :: go_duration where "engineScrapeInterval = 30 * go_Second"
definition labelMetricName :: string where "labelMetricName = ''__name__''"

record ServiceMonitorInput =
  si_Name :: string
  si_Namespace :: string
  si_OwnerRef :: MetaOwnerReference
  si_Spec :: "ObservabilitySpec option"
  si_ShimEnabled :: bool

definition prom_seconds :: "go_duration \<Rightarrow> int" where
  "prom_seconds d = max (Duration_Round d go_Second sdiv go_Second) 1"

definition duration :: "go_duration \<Rightarrow> string" where
  "duration d = fmt_d (prom_seconds d) @ ''s''"

definition positive_or :: "go_duration \<Rightarrow> go_duration option \<Rightarrow> go_duration" where
  "positive_or dflt v = (case v of Some d \<Rightarrow> if d > 0 then d else dflt | None \<Rightarrow> dflt)"

definition scrapeTimings :: "ObservabilitySpec option \<Rightarrow> go_duration \<times> go_duration" where
  "scrapeTimings spec =
     (let (interval, timeout) =
        (case spec of
           None \<Rightarrow> (defaultInterval, defaultScrapeTimeout)
         | Some o1 \<Rightarrow>
             (case ob_ServiceMonitor o1 of
                None \<Rightarrow> (defaultInterval, defaultScrapeTimeout)
              | Some sm \<Rightarrow> (positive_or defaultInterval (smn_Interval sm),
                            positive_or defaultScrapeTimeout (smn_ScrapeTimeout sm))))
      in if timeout > interval then (interval, interval) else (interval, timeout))"

definition shimEndpoint :: "go_duration \<Rightarrow> go_duration \<Rightarrow> unstructured" where
  "shimEndpoint interval timeout = UMap
     [fieldPort \<mapsto> UString PortNameMetrics, fieldPath \<mapsto> UString ShimMetricsPath, fieldScheme \<mapsto> UString ''http'',
      fieldInterval \<mapsto> UString (duration interval), fieldScrapeTimeout \<mapsto> UString (duration timeout),
      fieldHonorLabels \<mapsto> UBool False]"

definition engineEndpoint :: "go_duration \<Rightarrow> unstructured" where
  "engineEndpoint timeout = UMap
     [fieldPort \<mapsto> UString PortNameEngine, fieldPath \<mapsto> UString ShimMetricsPath, fieldScheme \<mapsto> UString ''http'',
      fieldInterval \<mapsto> UString (duration engineScrapeInterval), fieldScrapeTimeout \<mapsto> UString (duration timeout),
      fieldHonorLabels \<mapsto> UBool False,
      ''metricRelabelings'' \<mapsto> UList [UMap
        [''sourceLabels'' \<mapsto> UList [UString labelMetricName], ''regex'' \<mapsto> UString ''llamacpp:(.*)'',
         ''targetLabel'' \<mapsto> UString labelMetricName, ''replacement'' \<mapsto> UString ''llamacpp_$1'',
         ''action'' \<mapsto> UString ''replace'']]]"

definition BuildServiceMonitor :: "(string \<Rightarrow> string) \<Rightarrow> ServiceMonitorInput \<Rightarrow> unstructured" where
  "BuildServiceMonitor enc inp =
     (let labels = CommonLabels (si_Name inp) ++
            (case Option.bind (si_Spec inp) ob_ServiceMonitor of None \<Rightarrow> Map.empty | Some sm \<Rightarrow> map_of (smn_Labels sm));
          (interval, timeout) = scrapeTimings (si_Spec inp);
          endpoints = (if si_ShimEnabled inp then [shimEndpoint interval timeout] else []) @
                      (if EngineMetricsScraped (si_Spec inp) then [engineEndpoint timeout] else [])
      in UMap
        [fieldAPIVersion \<mapsto> UString (MonitoringGroup @ ''/'' @ MonitoringVersion),
         fieldKind \<mapsto> UString KindServiceMonitor,
         fieldMetadata \<mapsto> UMap
           [fieldName \<mapsto> UString (ServiceMonitor enc (si_Name inp)), fieldNamespace \<mapsto> UString (si_Namespace inp),
            fieldLabels \<mapsto> toStringMap labels, fieldOwnerReferences \<mapsto> UList [ownerRefMap (si_OwnerRef inp)]],
         fieldSpec \<mapsto> UMap
           [''jobLabel'' \<mapsto> UString LabelInstance,
            ''selector'' \<mapsto> UMap [''matchLabels'' \<mapsto> UMap
              [NamingLabelModelDeployment \<mapsto> UString (si_Name inp), LabelComponent \<mapsto> UString ComponentMetrics]],
            ''namespaceSelector'' \<mapsto> UMap [''matchNames'' \<mapsto> UList [UString (si_Namespace inp)]],
            ''podTargetLabels'' \<mapsto> UList [UString NamingLabelVariant, UString LabelRevision],
            ''endpoints'' \<mapsto> UList endpoints]])"


section \<open>Histogram boundaries\<close>

text \<open>A decimal literal of the source is the nearest float.\<close>

definition TTFTBuckets :: "f64 list" where
  "TTFTBuckets = map round64 [1/100, 25/1000, 5/100, 1/10, 15/100, 25/100, 4/10, 6/10, 8/10,
     1, 15/10, 2, 3, 5, 75/10, 10, 15, 20, 30]"

definition DurationBuckets :: "f64 list" where
  "DurationBuckets = map round64 [5/100, 1/10, 25/100, 5/10, 1, 2, 3, 5, 75/10, 10, 15, 20, 30, 45, 60, 120]"

definition TPOTBuckets :: "f64 list" where
  "TPOTBuckets = map round64 [1/1000, 25/10000, 5/1000, 1/100, 2/100, 35/1000, 5/100, 75/1000,
     1/10, 15/100, 25/100, 5/10, 1, 25/10]"

text \<open>\<open>cmp.Less\<close> and \<open>slices.BinarySearch\<close>: a NaN is before every number.\<close>

definition cmp_Less :: "f64 \<Rightarrow> f64 \<Rightarrow> bool" where
  "cmp_Less x y \<longleftrightarrow> (IsNaN x \<and> \<not> IsNaN y) \<or> flt x y"

function bsearch_loop :: "f64 list \<Rightarrow> f64 \<Rightarrow> nat \<Rightarrow> nat \<Rightarrow> nat" where
  "bsearch_loop xs target i j =
     (if i < j then
        (let h = (i + j) div 2
         in if cmp_Less (xs ! h) target then bsearch_loop xs target (h + 1) j else bsearch_loop xs target i h)
      else i)"
  by pat_completeness auto

termination
  by (relation "measure (\<lambda>(xs, target, i, j). j - i)") auto

declare bsearch_loop.simps [simp del]

definition BinarySearch :: "f64 list \<Rightarrow> f64 \<Rightarrow> nat \<times> bool" where
  "BinarySearch xs target =
     (let i = bsearch_loop xs target 0 (length xs)
      in (i, i < length xs \<and> (feq (xs ! i) target \<or> IsNaN (xs ! i) \<and> IsNaN target)))"

definition SnapToBucket :: "f64 \<Rightarrow> f64 list \<Rightarrow> f64 \<times> bool" where
  "SnapToBucket threshold buckets =
     (if length buckets = 0 then (threshold, False)
      else
        let (idx, exact) = BinarySearch buckets threshold
        in if exact then (threshold, False)
           else if idx \<ge> length buckets then (buckets ! (length buckets - 1), True)
           else (buckets ! idx, True))"

text \<open>
  \<open>strconv.FormatFloat\<close> with the shortest digits that read back as the same float, nearest to it if
  there are several. Seventeen digits are enough for any \<open>float64\<close>.
\<close>

definition digits_at :: "nat \<Rightarrow> rat \<Rightarrow> int option" where
  "digits_at n a =
     (let scale = rat_pow10 (int n - decimal_point a);
          lo = \<lfloor>a * scale\<rfloor>;
          back = (\<lambda>c. round64 (of_int c / scale) = Fin a)
      in if back lo \<and> (a * scale - of_int lo \<le> 1 / 2 \<or> \<not> back (lo + 1)) then Some lo
         else if back (lo + 1) then Some (lo + 1) else None)"

definition shortest :: "rat \<Rightarrow> string \<times> int" where
  "shortest a =
     (case find (\<lambda>n. digits_at n a \<noteq> None) [1..<18] of
        None \<Rightarrow> significant 17 a
      | Some n \<Rightarrow>
          (let ds = itoa_loop (the (digits_at n a)) []
           in (rev (drop_zero_digits (rev ds)), decimal_point a + int (length ds) - int n)))"

definition FormatFloat_f_shortest :: "f64 \<Rightarrow> string" where
  "FormatFloat_f_shortest v =
     (case v of NaN \<Rightarrow> ''NaN'' | PInf \<Rightarrow> ''+Inf'' | NInf \<Rightarrow> ''-Inf''
      | Fin q \<Rightarrow>
          if q = 0 then ''0''
          else let (ds, dp) = shortest \<bar>q\<bar>
               in if q < 0 then ''-'' @ fixed_text ds dp else fixed_text ds dp)"

definition FormatFloat_g_shortest :: "f64 \<Rightarrow> string" where
  "FormatFloat_g_shortest v =
     (case v of NaN \<Rightarrow> ''NaN'' | PInf \<Rightarrow> ''+Inf'' | NInf \<Rightarrow> ''-Inf''
      | Fin q \<Rightarrow>
          if q = 0 then ''0''
          else let (ds, dp) = shortest \<bar>q\<bar>;
                   e = dp - 1;
                   body = (if e < - 4 \<or> e \<ge> 6
                           then take 1 ds @ (if length ds > 1 then ''.'' @ drop 1 ds else '''') @ ''e'' @ exponent_text e
                           else fixed_text ds dp)
               in if q < 0 then ''-'' @ body else body)"

definition FormatBucket :: "f64 \<Rightarrow> string" where
  "FormatBucket v = FormatFloat_f_shortest v"

section \<open>The PrometheusRule\<close>

definition recordTTFTSLI :: string where "recordTTFTSLI = ''llmcp:ttft_sli:ratio_rate''"
definition recordAvailSLI :: string where "recordAvailSLI = ''llmcp:availability_sli:ratio_rate''"
definition recordTTFTObjective :: string where "recordTTFTObjective = ''llmcp:slo_ttft:objective''"
definition recordAvailabilityObjective :: string where
  "recordAvailabilityObjective = ''llmcp:slo_availability:objective''"
definition ComponentSLO :: string where "ComponentSLO = ''slo''"
definition LabelModel :: string where "LabelModel = ''model''"

record burnWindow =
  bw_Name :: string
  bw_Factor :: f64
  bw_Long :: string
  bw_Short :: string
  bw_Severity :: string
  bw_For :: string

definition fastBurnLadder :: "burnWindow list" where
  "fastBurnLadder =
     [\<lparr>bw_Name = ''FastBurn'', bw_Factor = round64 (144/10), bw_Long = ''1h'', bw_Short = ''5m'',
       bw_Severity = severityCritical, bw_For = ''2m''\<rparr>,
      \<lparr>bw_Name = ''SlowBurn'', bw_Factor = Fin 6, bw_Long = ''6h'', bw_Short = ''30m'',
       bw_Severity = severityWarning, bw_For = ''15m''\<rparr>]"

definition longBurnLadder :: "burnWindow list" where
  "longBurnLadder =
     [\<lparr>bw_Name = ''SlowBurnDaily'', bw_Factor = Fin 3, bw_Long = ''1d'', bw_Short = ''2h'',
       bw_Severity = severityWarning, bw_For = ''1h''\<rparr>,
      \<lparr>bw_Name = ''SlowBurnWeekly'', bw_Factor = Fin 1, bw_Long = ''3d'', bw_Short = ''6h'',
       bw_Severity = severityInfo, bw_For = ''3h''\<rparr>]"

definition fastRecordingWindows :: "string list" where "fastRecordingWindows = [''5m'', ''30m'', ''1h'', ''6h'']"
definition longRecordingWindows :: "string list" where "longRecordingWindows = [''2h'', ''6h'', ''1d'', ''3d'']"

record PrometheusRuleInput =
  ri_Name :: string
  ri_Namespace :: string
  ri_Model :: string
  ri_OwnerRef :: MetaOwnerReference
  ri_Spec :: "ObservabilitySpec option"

abbreviation slo_of :: "ObservabilitySpec option \<Rightarrow> SLOSpec option" where
  "slo_of spec \<equiv> Option.bind spec ob_SLO"

definition SnappedThreshold :: "ObservabilitySpec option \<Rightarrow> f64 \<times> bool" where
  "SnappedThreshold spec = SnapToBucket (ResolvedTTFTThreshold (slo_of spec)) TTFTBuckets"

definition formatG :: "f64 \<Rightarrow> string" where "formatG v = FormatFloat_g 6 v"

text \<open>The loop of \<open>dedupe\<close> over the windows that are left, with the set of those it has seen.\<close>

fun dedupe_loop :: "string list \<Rightarrow> string list \<Rightarrow> string list" where
  "dedupe_loop seen [] = []"
| "dedupe_loop seen (v # vs) = (if v \<in> set seen then dedupe_loop seen vs else v # dedupe_loop (v # seen) vs)"

definition dedupe :: "string list \<Rightarrow> string list" where
  "dedupe vs = dedupe_loop [] vs"

definition resourceSelector :: "PrometheusRuleInput \<Rightarrow> string" where
  "resourceSelector inp = LabelNamespace @ ''='' @ go_Quote (ri_Namespace inp) @ '','' @
     LabelModelDeployment @ ''='' @ go_Quote (ri_Name inp)"

definition ruleIdentityLabels :: "PrometheusRuleInput \<Rightarrow> unstructured" where
  "ruleIdentityLabels inp = UMap [LabelNamespace \<mapsto> UString (ri_Namespace inp),
     LabelModelDeployment \<mapsto> UString (ri_Name inp), LabelModel \<mapsto> UString (ri_Model inp)]"

definition ttft_expr :: "string \<Rightarrow> string \<Rightarrow> string \<Rightarrow> string" where
  "ttft_expr sel le w =
     ''1 - (clamp_min(sum(rate('' @ TTFTSeconds @ ''_count{'' @ sel @ ''}['' @ w @ ''])) - sum(rate('' @ TTFTSeconds @
     ''_bucket{'' @ sel @ '',le='' @ go_Quote le @ ''}['' @ w @ ''])), 0) '' @
     ''/ clamp_min(sum(rate('' @ TTFTSeconds @ ''_count{'' @ sel @ ''}['' @ w @ ''])), 1e-9))''"

definition avail_expr :: "string \<Rightarrow> string \<Rightarrow> string" where
  "avail_expr sel w =
     ''1 - ((sum(rate('' @ RequestsTotal @ ''{'' @ sel @ '','' @ LabelCode @ ''=~'' @ dq @ ''5..'' @ dq @ ''}['' @ w @
     ''])) or vector(0)) '' @
     ''/ clamp_min(sum(rate('' @ RequestsTotal @ ''{'' @ sel @ ''}['' @ w @ ''])), 1e-9))''"

definition record_rule :: "PrometheusRuleInput \<Rightarrow> string \<Rightarrow> string \<Rightarrow> unstructured" where
  "record_rule inp name expr = UMap [fieldRecord \<mapsto> UString name, fieldExpr \<mapsto> UString expr,
     fieldLabels \<mapsto> ruleIdentityLabels inp]"

definition recordingRules :: "PrometheusRuleInput \<Rightarrow> f64 \<Rightarrow> string list \<Rightarrow> unstructured list" where
  "recordingRules inp threshold windows =
     (let le = FormatBucket threshold; sel = resourceSelector inp; slo = slo_of (ri_Spec inp)
      in map (\<lambda>w. record_rule inp (recordTTFTSLI @ w) (ttft_expr sel le w)) windows @
         map (\<lambda>w. record_rule inp (recordAvailSLI @ w) (avail_expr sel w)) windows @
         map (\<lambda>(name, value). record_rule inp name (''vector('' @ formatG value @ '')''))
           [(recordTTFTObjective, ResolvedTTFTObjective slo),
            (recordAvailabilityObjective, ResolvedAvailabilityObjective slo)])"

record burnAlertInput =
  ba_Alert :: string
  ba_Record :: string
  ba_Objective :: f64
  ba_Rung :: burnWindow
  ba_MD :: PrometheusRuleInput
  ba_Summary :: string
  ba_Description :: string
  ba_SLO :: string

definition alert_labels :: "string \<Rightarrow> string \<Rightarrow> PrometheusRuleInput \<Rightarrow> unstructured" where
  "alert_labels severity slo inp = UMap [labelSeverity \<mapsto> UString severity, labelSLO \<mapsto> UString slo,
     LabelModel \<mapsto> UString (ri_Model inp), LabelModelDeployment \<mapsto> UString (ri_Name inp),
     fieldNamespace \<mapsto> UString (ri_Namespace inp)]"

definition burn_expr :: "string \<Rightarrow> string \<Rightarrow> string \<Rightarrow> string \<Rightarrow> string" where
  "burn_expr long short sel limit =
     ''(1 - '' @ long @ ''{'' @ sel @ ''}) > '' @ limit @ nl @ ''and'' @ nl @
     ''(1 - '' @ short @ ''{'' @ sel @ ''}) > '' @ limit"

definition burnAlert :: "burnAlertInput \<Rightarrow> unstructured" where
  "burnAlert inp =
     (let budget = fsub (Fin 1) (ba_Objective inp);
          limit = fmul (bw_Factor (ba_Rung inp)) budget;
          sel = resourceSelector (ba_MD inp)
      in UMap
        [fieldAlert \<mapsto> UString (ba_Alert inp),
         fieldExpr \<mapsto> UString (burn_expr (ba_Record inp @ bw_Long (ba_Rung inp)) (ba_Record inp @ bw_Short (ba_Rung inp))
           sel (formatG limit)),
         fieldFor \<mapsto> UString (bw_For (ba_Rung inp)),
         fieldLabels \<mapsto> alert_labels (bw_Severity (ba_Rung inp)) (ba_SLO inp) (ba_MD inp),
         fieldAnnotations \<mapsto> UMap [annotationSummary \<mapsto> UString (ba_Summary inp),
           annotationDesc \<mapsto> UString (ba_Description inp), annotationRunbook \<mapsto> UString runbookURL]])"

definition noTrafficAlert :: "PrometheusRuleInput \<Rightarrow> unstructured" where
  "noTrafficAlert inp = UMap
     [fieldAlert \<mapsto> UString alertNoTraffic,
      fieldExpr \<mapsto> UString (''sum(rate('' @ RequestsTotal @ ''{'' @ resourceSelector inp @ ''}[10m])) == 0 and on() (sum('' @
        ShimInfo @ ''{'' @ resourceSelector inp @ ''}) > 0)''),
      fieldFor \<mapsto> UString ''15m'',
      fieldLabels \<mapsto> alert_labels severityWarning ''traffic'' inp,
      fieldAnnotations \<mapsto> UMap
        [annotationSummary \<mapsto> UString (ri_Name inp @ '' has shims reporting but no requests for 10 minutes''),
         annotationDesc \<mapsto> UString (''The pods are up and being scraped, but nothing is reaching them. '' @
           ''Every SLO for this deployment currently evaluates to a perfect score because '' @
           ''both SLIs are ratios over zero traffic '' @ [CHR 0xE2, CHR 0x80, CHR 0x94] @ '' so this alert, not those, is the one '' @
           ''that can tell you the difference between '' @ [CHR 0x27] @ ''no problems'' @ [CHR 0x27] @ '' and '' @
           [CHR 0x27] @ ''no data'' @ [CHR 0x27] @ ''.''),
         annotationRunbook \<mapsto> UString runbookURL]]"

definition alertRules :: "PrometheusRuleInput \<Rightarrow> f64 \<Rightarrow> f64 \<Rightarrow> f64 \<Rightarrow> burnWindow list \<Rightarrow> unstructured list" where
  "alertRules inp ttftObj availObj threshold ladder =
     map (\<lambda>rung. let factor = FormatFloat_g 4 (bw_Factor rung) in
       burnAlert \<lparr>ba_Alert = ''LLMCPTTFTBudget'' @ bw_Name rung, ba_Record = recordTTFTSLI, ba_Objective = ttftObj,
         ba_Rung = rung, ba_MD = inp,
         ba_Summary = ''Time-to-first-token budget for '' @ ri_Name inp @ '' is burning at '' @ factor @ ''x'',
         ba_Description = ''Over the last '' @ bw_Long rung @ '' and the last '' @ bw_Short rung @ '', more than '' @ factor @
           ''x the allowed share of requests '' @ ''took longer than '' @ FormatFloat_g_shortest threshold @
           ''s to produce their first token. The '' @ FormatFloat_g 4 (fmul ttftObj (Fin 100)) @
           ''% objective'' @ [CHR 0x27] @ ''s error budget is being consumed '' @ factor @ ''x faster than sustainable.'',
         ba_SLO = ''ttft''\<rparr>) ladder @
     map (\<lambda>rung. let factor = FormatFloat_g 4 (bw_Factor rung) in
       burnAlert \<lparr>ba_Alert = ''LLMCPAvailabilityBudget'' @ bw_Name rung, ba_Record = recordAvailSLI, ba_Objective = availObj,
         ba_Rung = rung, ba_MD = inp,
         ba_Summary = ''Availability budget for '' @ ri_Name inp @ '' is burning at '' @ factor @ ''x'',
         ba_Description = ''Over the last '' @ bw_Long rung @ '' and the last '' @ bw_Short rung @ '', more than '' @ factor @
           ''x the allowed share of requests '' @ ''failed with a 5xx. The '' @ FormatFloat_g 4 (fmul availObj (Fin 100)) @
           ''% objective'' @ [CHR 0x27] @ ''s error budget is being consumed '' @ factor @ ''x faster than sustainable.'',
         ba_SLO = ''availability''\<rparr>) ladder @
     [noTrafficAlert inp]"

definition rule_windows :: "bool \<Rightarrow> string list" where
  "rule_windows long = dedupe (fastRecordingWindows @ (if long then longRecordingWindows else []))"

definition rule_ladder :: "bool \<Rightarrow> burnWindow list" where
  "rule_ladder long = fastBurnLadder @ (if long then longBurnLadder else [])"

definition rule_group :: "string \<Rightarrow> unstructured list \<Rightarrow> unstructured" where
  "rule_group name rules = UMap [fieldName \<mapsto> UString name, fieldInterval \<mapsto> UString ''30s'', fieldRules \<mapsto> UList rules]"

definition BuildPrometheusRule :: "(string \<Rightarrow> string) \<Rightarrow> PrometheusRuleInput \<Rightarrow> unstructured" where
  "BuildPrometheusRule enc inp =
     (let labels = (CommonLabels (ri_Name inp))(LabelComponent \<mapsto> ComponentSLO) ++
            (case Option.bind (ri_Spec inp) ob_PrometheusRule of None \<Rightarrow> Map.empty | Some r \<Rightarrow> map_of (pr_Labels r));
          slo = slo_of (ri_Spec inp);
          threshold = fst (SnappedThreshold (ri_Spec inp));
          long = LongWindowAlertsEnabled (ri_Spec inp)
      in UMap
        [fieldAPIVersion \<mapsto> UString (MonitoringGroup @ ''/'' @ MonitoringVersion),
         fieldKind \<mapsto> UString KindPrometheusRule,
         fieldMetadata \<mapsto> UMap
           [fieldName \<mapsto> UString (PrometheusRule enc (ri_Name inp)), fieldNamespace \<mapsto> UString (ri_Namespace inp),
            fieldLabels \<mapsto> toStringMap labels, fieldOwnerReferences \<mapsto> UList [ownerRefMap (ri_OwnerRef inp)]],
         fieldSpec \<mapsto> UMap [fieldGroups \<mapsto> UList
           [rule_group (ri_Name inp @ ''.sli'') (recordingRules inp threshold (rule_windows long)),
            rule_group (ri_Name inp @ ''.slo'')
              (alertRules inp (ResolvedTTFTObjective slo) (ResolvedAvailabilityObjective slo) threshold (rule_ladder long))]]])"

end
