(* ===== verification/Monitoring_Props.thy ===== *)
theory Monitoring_Props
  imports Monitoring
begin

text \<open>
  What the monitoring objects promise: the latency threshold of a rule is a boundary of the histogram it
  selects from, every series an alert reads is recorded by the same object under the same identity, and the
  sidecar is scraped with a timeout within its interval. Three statements at the end show where the rendered
  objects do not do what they are meant to.
\<close>

section \<open>Snapping to a boundary\<close>

lemma not_flt: "\<not> IsNaN x \<Longrightarrow> \<not> IsNaN y \<Longrightarrow> (\<not> flt x y) = fle y x"
  by (cases x; cases y) (auto simp: fle_def)

lemma flt_irrefl: "\<not> flt x x"
  by (cases x) auto

lemma flt_trans: "flt x y \<Longrightarrow> flt y z \<Longrightarrow> flt x z"
  by (cases x; cases y; cases z) auto

lemma cmp_Less_flt: "\<not> IsNaN x \<Longrightarrow> cmp_Less x y = flt x y"
  by (simp add: cmp_Less_def)

lemma feq_iff: "\<not> IsNaN x \<Longrightarrow> feq x y = (x = y)"
  by (cases x; cases y) auto

text \<open>The loop keeps the boundary between the smaller elements and the others inside its range.\<close>

lemma bsearch_loop_bounds:
  assumes "i \<le> j" "j \<le> length xs" "\<forall>k < i. cmp_Less (xs ! k) t" "\<forall>k. j \<le> k \<longrightarrow> k < length xs \<longrightarrow> \<not> cmp_Less (xs ! k) t"
    and "\<And>k l. k < l \<Longrightarrow> l < length xs \<Longrightarrow> cmp_Less (xs ! l) t \<Longrightarrow> cmp_Less (xs ! k) t"
  shows "bsearch_loop xs t i j \<le> length xs \<and> (\<forall>k < bsearch_loop xs t i j. cmp_Less (xs ! k) t) \<and>
    (\<forall>k. bsearch_loop xs t i j \<le> k \<longrightarrow> k < length xs \<longrightarrow> \<not> cmp_Less (xs ! k) t)"
  using assms
proof (induction xs t i j rule: bsearch_loop.induct)
  case (1 xs t i j)
  show ?case
  proof (cases "i < j")
    case True
    define h where "h = (i + j) div 2"
    have h: "i \<le> h" "h < j" "h < length xs"
      using True \<open>j \<le> length xs\<close> by (auto simp: h_def)
    show ?thesis
    proof (cases "cmp_Less (xs ! h) t")
      case less: True
      have below: "\<forall>k < h + 1. cmp_Less (xs ! k) t"
        using 1(7) [of _ h] less h(3) by (auto simp: less_Suc_eq)
      have "bsearch_loop xs t i j = bsearch_loop xs t (h + 1) j"
        using True less by (subst bsearch_loop.simps) (simp add: h_def Let_def)
      then show ?thesis
        using 1(1) [OF True h_def less] h 1(4,6,7) below by simp
    next
      case False
      have above: "\<forall>k. h \<le> k \<longrightarrow> k < length xs \<longrightarrow> \<not> cmp_Less (xs ! k) t"
        using 1(7) False by (metis le_neq_implies_less)
      have "bsearch_loop xs t i j = bsearch_loop xs t i h"
        using True False by (subst bsearch_loop.simps) (simp add: h_def Let_def)
      then show ?thesis
        using 1(2) [OF True h_def False] h 1(5,7) above by simp
    qed
  next
    case False
    have "bsearch_loop xs t i j = i"
      using False by (subst bsearch_loop.simps) simp
    then show ?thesis
      using False 1(3-6) by simp
  qed
qed

text \<open>On boundaries in ascending order: a boundary, the least at or above the threshold if there is one.\<close>

lemma SnapToBucket_least:
  assumes "bs \<noteq> []" "sorted_wrt flt bs" "\<forall>b \<in> set bs. \<not> IsNaN b" "\<not> IsNaN t" "SnapToBucket t bs = (b, changed)"
  shows "b \<in> set bs" "changed = (b \<noteq> t)" "\<forall>x \<in> set bs. fle t x \<longrightarrow> fle t b \<and> fle b x"
    "(\<forall>x \<in> set bs. flt x t) \<Longrightarrow> b = last bs"
proof -
  define r where "r = bsearch_loop bs t 0 (length bs)"
  have num: "\<not> IsNaN (bs ! k)" if "k < length bs" for k
    using assms(3) that by simp
  have less: "cmp_Less (bs ! k) t = flt (bs ! k) t" if "k < length bs" for k
    using cmp_Less_flt num that by simp
  have asc: "flt (bs ! k) (bs ! l)" if "k < l" "l < length bs" for k l
    using assms(2) that by (simp add: sorted_wrt_iff_nth_less)
  have "r \<le> length bs \<and> (\<forall>k < r. cmp_Less (bs ! k) t) \<and> (\<forall>k. r \<le> k \<longrightarrow> k < length bs \<longrightarrow> \<not> cmp_Less (bs ! k) t)"
    unfolding r_def by (rule bsearch_loop_bounds) (auto simp: less dest: asc intro: flt_trans)
  then have r: "r \<le> length bs" "\<And>k. k < r \<Longrightarrow> flt (bs ! k) t" "\<And>k. r \<le> k \<Longrightarrow> k < length bs \<Longrightarrow> fle t (bs ! k)"
    using less not_flt num assms(4) by (auto simp: order_less_le_trans)
  have at: "feq (bs ! r) t = (bs ! r = t)" "\<not> (IsNaN (bs ! r) \<and> IsNaN t)" if "r < length bs"
    using feq_iff num that by auto
  have b: "b = (if r < length bs then bs ! r else last bs) \<and> changed = (b \<noteq> t)"
    using assms(1,5) at r(2) [of "length bs - 1"] r(1) assms(4)
    by (auto simp: SnapToBucket_def BinarySearch_def Let_def r_def [symmetric] last_conv_nth split: if_splits)
      (metis diff_less flt_irrefl length_greater_0_conv less_one order_le_less)
  then show "b \<in> set bs" "changed = (b \<noteq> t)"
    using assms(1) by auto
  show "\<forall>x \<in> set bs. fle t x \<longrightarrow> fle t b \<and> fle b x"
  proof (intro ballI impI)
    fix x
    assume "x \<in> set bs" and x: "fle t x"
    then obtain k where k: "k < length bs" "x = bs ! k"
      by (metis in_set_conv_nth)
    have "r \<le> k"
      using r(2) [of k] x not_flt [of x t] assms(4) num k by fastforce
    then have "r < length bs" "b = bs ! r"
      using k(1) b by simp_all
    moreover have "fle (bs ! r) x"
      using asc [of r k] k \<open>r \<le> k\<close> feq_iff [OF num [of k]] by (cases "r = k") (simp_all add: fle_def)
    ultimately show "fle t b \<and> fle b x"
      using r(3) by simp
  qed
  show "b = last bs" if "\<forall>x \<in> set bs. flt x t"
  proof -
    have "\<not> r < length bs"
      using r(3) [of r] that not_flt [of "bs ! r" t] num [of r] assms(4) by auto
    then show ?thesis
      using b by simp
  qed
qed

section \<open>The threshold of the latency rules\<close>

lemma TTFT_roundings:
  "round64 (1 / 100) = Fin (5764607523034235 / 576460752303423488)"
  "round64 (1 / 40) = Fin (3602879701896397 / 144115188075855872)"
  "round64 (1 / 20) = Fin (3602879701896397 / 72057594037927936)"
  "round64 (1 / 10) = Fin (3602879701896397 / 36028797018963968)"
  "round64 (3 / 20) = Fin (5404319552844595 / 36028797018963968)"
  "round64 (1 / 4) = Fin (1 / 4)"
  "round64 (2 / 5) = Fin (3602879701896397 / 9007199254740992)"
  "round64 (3 / 5) = Fin (5404319552844595 / 9007199254740992)"
  "round64 (4 / 5) = Fin (3602879701896397 / 4503599627370496)"
  "round64 1 = Fin (1)"
  "round64 (3 / 2) = Fin (3 / 2)"
  "round64 (2) = Fin (2)"
  "round64 (3) = Fin (3)"
  "round64 (5) = Fin (5)"
  "round64 (15 / 2) = Fin (15 / 2)"
  "round64 (10) = Fin (10)"
  "round64 (15) = Fin (15)"
  "round64 (20) = Fin (20)"
  "round64 (30) = Fin (30)"
  using round64_nearest [of "-7" "1 / 100" "5764607523034235"]
    round64_nearest [of "-6" "1 / 40" "7205759403792794"]
    round64_nearest [of "-5" "1 / 20" "7205759403792794"]
    round64_nearest [of "-4" "1 / 10" "7205759403792794"]
    round64_nearest [of "-3" "3 / 20" "5404319552844595"]
    round64_nearest [of "-2" "1 / 4" "4503599627370496"]
    round64_nearest [of "-2" "2 / 5" "7205759403792794"]
    round64_nearest [of "-1" "3 / 5" "5404319552844595"]
    round64_nearest [of "-1" "4 / 5" "7205759403792794"]
    round64_nearest [of "0" "1" "4503599627370496"]
    round64_nearest [of "0" "3 / 2" "6755399441055744"]
    round64_nearest [of "1" "2" "4503599627370496"]
    round64_nearest [of "1" "3" "6755399441055744"]
    round64_nearest [of "2" "5" "5629499534213120"]
    round64_nearest [of "2" "15 / 2" "8444249301319680"]
    round64_nearest [of "3" "10" "5629499534213120"]
    round64_nearest [of "3" "15" "8444249301319680"]
    round64_nearest [of "4" "20" "5629499534213120"]
    round64_nearest [of "4" "30" "8444249301319680"]
  by (simp_all add: pow2_def)

lemma TTFTBuckets_eq: "TTFTBuckets = map Fin [5764607523034235 / 576460752303423488, 3602879701896397 / 144115188075855872, 3602879701896397 / 72057594037927936, 3602879701896397 / 36028797018963968, 5404319552844595 / 36028797018963968, 1 / 4, 3602879701896397 / 9007199254740992, 5404319552844595 / 9007199254740992, 3602879701896397 / 4503599627370496, 1, 3 / 2, 2, 3, 5, 15 / 2, 10, 15, 20, 30]"
  by (simp add: TTFTBuckets_def TTFT_roundings)

lemma TTFTBuckets_ascending: "sorted_wrt flt TTFTBuckets" "\<forall>b \<in> set TTFTBuckets. \<not> IsNaN b"
  "last TTFTBuckets = Fin 30" "TTFTBuckets \<noteq> []"
  by (simp_all add: TTFTBuckets_eq)

lemma ResolvedTTFTThreshold_number: "\<not> IsNaN (ResolvedTTFTThreshold slo)"
proof -
  have "\<not> IsNaN (fdiv (round64 x) (Fin 1000))" for x
    using round64_not_NaN [of x] round64_not_NaN by (cases "round64 x") (auto simp: signed_inf_def elim: IsNaN.elims)
  then show ?thesis
    by (simp add: ResolvedTTFTThreshold_def f64_of_i64_def split: option.split)
qed

text \<open>
  For every objective in the specification, set or not, the latency rules count requests below a boundary
  that the sidecar's histogram has. It is the least boundary at or above the configured threshold, or 30
  seconds when the threshold is above them all; the controller is told of a change exactly when there is one.
\<close>

lemma ttft_threshold_is_boundary:
  "fst (SnappedThreshold spec) \<in> set TTFTBuckets \<and>
   (snd (SnappedThreshold spec) \<longleftrightarrow> fst (SnappedThreshold spec) \<noteq> ResolvedTTFTThreshold (slo_of spec)) \<and>
   (if flt (Fin 30) (ResolvedTTFTThreshold (slo_of spec)) then fst (SnappedThreshold spec) = Fin 30
    else fle (ResolvedTTFTThreshold (slo_of spec)) (fst (SnappedThreshold spec)) \<and>
      list_all (\<lambda>x. flt x (ResolvedTTFTThreshold (slo_of spec)) \<or> fle (fst (SnappedThreshold spec)) x) TTFTBuckets)"
proof -
  let ?t = "ResolvedTTFTThreshold (slo_of spec)"
  obtain b changed where snap: "SnapToBucket ?t TTFTBuckets = (b, changed)"
    by (cases "SnapToBucket ?t TTFTBuckets")
  note least = SnapToBucket_least [OF TTFTBuckets_ascending(4,1,2) ResolvedTTFTThreshold_number snap]
  have top: "Fin 30 \<in> set TTFTBuckets" "\<forall>x \<in> set TTFTBuckets. fle x (Fin 30)"
    by (simp_all add: TTFTBuckets_eq)
  have above: "flt x ?t" if "flt (Fin 30) ?t" "x \<in> set TTFTBuckets" for x
    using top(2) that by (cases x; cases ?t) (fastforce simp: fle_def)+
  have inside: "fle ?t (Fin 30)" if "\<not> flt (Fin 30) ?t"
    using that not_flt [of "Fin 30" ?t] ResolvedTTFTThreshold_number by simp
  have "flt x ?t \<or> fle b x" if "x \<in> set TTFTBuckets" for x
    using least(3) that not_flt [of x ?t] ResolvedTTFTThreshold_number TTFTBuckets_ascending(2) by blast
  then show ?thesis
    using least above inside top(1) TTFTBuckets_ascending(3) by (simp add: SnappedThreshold_def snap list_all_iff)
qed

section \<open>Reading a rendered object\<close>

fun field :: "string \<Rightarrow> unstructured \<Rightarrow> unstructured option" where
  "field k (UMap m) = m k"
| "field k _ = None"

fun items :: "unstructured option \<Rightarrow> unstructured list" where
  "items (Some (UList xs)) = xs"
| "items _ = []"

definition object_rules :: "unstructured \<Rightarrow> unstructured list" where
  "object_rules obj = concat (map (\<lambda>g. items (field fieldRules g))
     (items (Option.bind (field fieldSpec obj) (field fieldGroups))))"

definition object_endpoints :: "unstructured \<Rightarrow> unstructured list" where
  "object_endpoints obj = items (Option.bind (field fieldSpec obj) (field ''endpoints''))"

definition object_owner :: "unstructured \<Rightarrow> unstructured option" where
  "object_owner obj = Option.bind (field fieldMetadata obj) (field fieldOwnerReferences)"

lemma rules_of_PrometheusRule:
  "object_rules (BuildPrometheusRule enc inp) =
     recordingRules inp (fst (SnappedThreshold (ri_Spec inp))) (rule_windows (LongWindowAlertsEnabled (ri_Spec inp))) @
     alertRules inp (ResolvedTTFTObjective (slo_of (ri_Spec inp))) (ResolvedAvailabilityObjective (slo_of (ri_Spec inp)))
       (fst (SnappedThreshold (ri_Spec inp))) (rule_ladder (LongWindowAlertsEnabled (ri_Spec inp)))"
  by (simp add: object_rules_def BuildPrometheusRule_def rule_group_def field_defs Let_def)

lemma endpoints_of_ServiceMonitor:
  "object_endpoints (BuildServiceMonitor enc inp) =
     (case scrapeTimings (si_Spec inp) of (interval, timeout) \<Rightarrow>
       (if si_ShimEnabled inp then [shimEndpoint interval timeout] else []) @
       (if EngineMetricsScraped (si_Spec inp) then [engineEndpoint timeout] else []))"
  by (simp add: object_endpoints_def BuildServiceMonitor_def field_defs Let_def split_beta)

section \<open>Alerts read recorded series\<close>

lemma set_dedupe_loop: "set (dedupe_loop seen vs) = set vs - set seen"
  by (induction seen vs rule: dedupe_loop.induct) auto

lemma dedupe_set_distinct: "set (dedupe vs) = set vs" "distinct (dedupe vs)"
proof -
  have "distinct (dedupe_loop seen vs)" for seen
    by (induction seen vs rule: dedupe_loop.induct) (auto simp: set_dedupe_loop)
  then show "set (dedupe vs) = set vs" "distinct (dedupe vs)"
    by (simp_all add: dedupe_def set_dedupe_loop)
qed

lemma ladder_windows:
  "rung \<in> set (rule_ladder long) \<Longrightarrow> bw_Long rung \<in> set (rule_windows long) \<and> bw_Short rung \<in> set (rule_windows long)"
  by (auto simp: rule_ladder_def rule_windows_def dedupe_set_distinct fastBurnLadder_def longBurnLadder_def
    fastRecordingWindows_def longRecordingWindows_def split: if_splits)

lemma record_rule_fields [simp]:
  "field fieldRecord (record_rule inp name e) = Some (UString name)"
  "field fieldLabels (record_rule inp name e) = Some (ruleIdentityLabels inp)"
  "field fieldExpr (record_rule inp name e) = Some (UString e)"
  "field fieldAlert (record_rule inp name e) = None"
  by (simp_all add: record_rule_def field_defs)

lemma burnAlert_fields [simp]:
  "field fieldAlert (burnAlert a) = Some (UString (ba_Alert a))"
  "field fieldExpr (burnAlert a) = Some (UString (burn_expr (ba_Record a @ bw_Long (ba_Rung a)) (ba_Record a @ bw_Short (ba_Rung a))
     (resourceSelector (ba_MD a)) (formatG (fmul (bw_Factor (ba_Rung a)) (fsub (Fin 1) (ba_Objective a))))))"
  by (simp_all add: burnAlert_def field_defs Let_def)

lemma recorded_window:
  assumes "w \<in> set windows" "name = recordTTFTSLI @ w \<or> name = recordAvailSLI @ w"
  shows "\<exists>q \<in> set (recordingRules inp t windows). field fieldRecord q = Some (UString name) \<and>
    field fieldLabels q = Some (ruleIdentityLabels inp)"
proof -
  let ?ttft = "record_rule inp (recordTTFTSLI @ w) (ttft_expr (resourceSelector inp) (FormatBucket t) w)"
  let ?avail = "record_rule inp (recordAvailSLI @ w) (avail_expr (resourceSelector inp) w)"
  have "?ttft \<in> set (recordingRules inp t windows)" "?avail \<in> set (recordingRules inp t windows)"
    using assms(1) by (auto simp: recordingRules_def Let_def)
  then show ?thesis
    using assms(2) record_rule_fields by metis
qed

lemma burn_alerts_recorded:
  assumes "r \<in> set (object_rules (BuildPrometheusRule enc inp))"
    and "field fieldAlert r = Some (UString alert)" "alert \<noteq> alertNoTraffic"
  shows "\<exists>long short limit. field fieldExpr r = Some (UString (burn_expr long short (resourceSelector inp) limit)) \<and>
    list_all (\<lambda>name. list_ex (\<lambda>q. field fieldRecord q = Some (UString name) \<and>
        field fieldLabels q = Some (ruleIdentityLabels inp)) (object_rules (BuildPrometheusRule enc inp))) [long, short]"
proof -
  let ?long = "LongWindowAlertsEnabled (ri_Spec inp)" and ?t = "fst (SnappedThreshold (ri_Spec inp))"
  have recorded: "list_ex (\<lambda>q. field fieldRecord q = Some (UString name) \<and> field fieldLabels q = Some (ruleIdentityLabels inp))
      (object_rules (BuildPrometheusRule enc inp))"
    if "w \<in> set (rule_windows ?long)" "name = recordTTFTSLI @ w \<or> name = recordAvailSLI @ w" for w name
    using recorded_window [OF that, of inp ?t] by (auto simp: list_ex_iff rules_of_PrometheusRule)
  have "field fieldAlert (noTrafficAlert inp) = Some (UString alertNoTraffic)"
    by (simp add: noTrafficAlert_def field_defs)
  moreover have "field fieldAlert q = None" if "q \<in> set (recordingRules inp ?t ws)" for q ws
    using that by (auto simp: recordingRules_def Let_def)
  ultimately obtain a where a: "r = burnAlert a" "ba_MD a = inp" "ba_Rung a \<in> set (rule_ladder ?long)"
      "ba_Record a = recordTTFTSLI \<or> ba_Record a = recordAvailSLI"
    using assms by (auto simp: rules_of_PrometheusRule alertRules_def Let_def)
  have "list_all (\<lambda>name. list_ex (\<lambda>q. field fieldRecord q = Some (UString name) \<and>
        field fieldLabels q = Some (ruleIdentityLabels inp)) (object_rules (BuildPrometheusRule enc inp)))
      [ba_Record a @ bw_Long (ba_Rung a), ba_Record a @ bw_Short (ba_Rung a)]"
    using ladder_windows [OF a(3)] a(4) recorded by auto
  moreover have "field fieldExpr r = Some (UString (burn_expr (ba_Record a @ bw_Long (ba_Rung a))
      (ba_Record a @ bw_Short (ba_Rung a)) (resourceSelector inp)
      (formatG (fmul (bw_Factor (ba_Rung a)) (fsub (Fin 1) (ba_Objective a))))))"
    by (simp add: a(1,2))
  ultimately show ?thesis
    by blast
qed

text \<open>
  The label set a recording rule attaches answers a selector: each label the selector names is there, with
  the value the selector quotes.
\<close>

definition carries :: "unstructured \<Rightarrow> (string \<times> string) list \<Rightarrow> bool" where
  "carries labels pairs \<longleftrightarrow> list_all (\<lambda>(key, value). field key labels = Some (UString value)) pairs"

fun selector_text :: "(string \<times> string) list \<Rightarrow> string" where
  "selector_text [] = ''''"
| "selector_text [(key, value)] = key @ ''='' @ go_Quote value"
| "selector_text ((key, value) # pairs) = key @ ''='' @ go_Quote value @ '','' @ selector_text pairs"

text \<open>
  C33. Whatever the specification, every alert of the rendered rules except the one for missing traffic compares
  two series with its limit, each under a selector that asks for exactly the namespace and the name of this
  ModelDeployment. Both series are recorded by the same object, and the recording attaches the label
  \<open>namespace\<close> with that namespace and the label \<open>model_deployment\<close> with that name. No alert waits for a
  series that nothing writes, and none asks for a label its series does not have.
\<close>

theorem alerts_read_recorded:
  assumes "r \<in> set (object_rules (BuildPrometheusRule enc inp))"
    and "field fieldAlert r = Some (UString alert)" "alert \<noteq> alertNoTraffic"
  shows "\<exists>long short limit. let asked = [(''namespace'', ri_Namespace inp), (''model_deployment'', ri_Name inp)] in
    field fieldExpr r = Some (UString
      (''(1 - '' @ long @ ''{'' @ selector_text asked @ ''}) > '' @ limit @ nl @ ''and'' @ nl @
       ''(1 - '' @ short @ ''{'' @ selector_text asked @ ''}) > '' @ limit)) \<and>
    list_all (\<lambda>name. list_ex (\<lambda>q. field fieldRecord q = Some (UString name) \<and>
        (case field fieldLabels q of None \<Rightarrow> False | Some labels \<Rightarrow> carries labels asked))
      (object_rules (BuildPrometheusRule enc inp))) [long, short]"
proof -
  let ?asked = "[(''namespace'', ri_Namespace inp), (''model_deployment'', ri_Name inp)]"
  have "selector_text ?asked = resourceSelector inp"
    by (simp add: resourceSelector_def LabelNamespace_def LabelModelDeployment_def)
  moreover have "carries (ruleIdentityLabels inp) ?asked"
    by (simp add: carries_def ruleIdentityLabels_def LabelNamespace_def LabelModelDeployment_def LabelModel_def)
  ultimately show ?thesis
    using burn_alerts_recorded [OF assms] unfolding Let_def burn_expr_def
    by (fastforce simp: list_ex_iff)
qed

definition sample_owner_ref :: MetaOwnerReference where
  "sample_owner_ref = \<lparr>mw_APIVersion = GroupVersion, mw_Kind = kindModelDeployment, mw_Name = ''chat'', mw_UID = ''u1'',
     mw_Controller = Some True, mw_BlockOwnerDeletion = Some True\<rparr>"

definition sample_rule_input :: PrometheusRuleInput where
  "sample_rule_input = \<lparr>ri_Name = ''chat'', ri_Namespace = ''prod'', ri_Model = ''qwen'', ri_OwnerRef = sample_owner_ref,
     ri_Spec = None\<rparr>"

definition sample_fast_burn :: unstructured where
  "sample_fast_burn = alertRules sample_rule_input (ResolvedTTFTObjective None) (ResolvedAvailabilityObjective None)
     (fst (SnappedThreshold None)) (rule_ladder False) ! 0"

lemma sample_fast_burn:
  "sample_fast_burn \<in> set (object_rules (BuildPrometheusRule enc sample_rule_input))"
  "field fieldAlert sample_fast_burn = Some (UString ''LLMCPTTFTBudgetFastBurn'')"
proof -
  have ladder: "rule_ladder False \<noteq> []" "bw_Name (rule_ladder False ! 0) = ''FastBurn''"
    by (simp_all add: rule_ladder_def fastBurnLadder_def)
  then show "field fieldAlert sample_fast_burn = Some (UString ''LLMCPTTFTBudgetFastBurn'')"
    by (simp add: sample_fast_burn_def alertRules_def nth_append Let_def)
  have none: "LongWindowAlertsEnabled None = False"
    by (simp add: LongWindowAlertsEnabled_def)
  show "sample_fast_burn \<in> set (object_rules (BuildPrometheusRule enc sample_rule_input))"
    using ladder(1)
    by (simp add: rules_of_PrometheusRule sample_fast_burn_def sample_rule_input_def none alertRules_def nth_append Let_def)
qed

theorem alerts_read_recorded_witness:
  "\<exists>long short limit. field fieldExpr sample_fast_burn = Some (UString
      (''(1 - '' @ long @ ''{namespace='' @ go_Quote ''prod'' @ '',model_deployment='' @ go_Quote ''chat'' @ ''}) > '' @ limit @
       nl @ ''and'' @ nl @
       ''(1 - '' @ short @ ''{namespace='' @ go_Quote ''prod'' @ '',model_deployment='' @ go_Quote ''chat'' @ ''}) > '' @ limit)) \<and>
    list_all (\<lambda>name. list_ex (\<lambda>q. field fieldRecord q = Some (UString name) \<and>
        (case field fieldLabels q of None \<Rightarrow> False
         | Some labels \<Rightarrow> carries labels [(''namespace'', ''prod''), (''model_deployment'', ''chat'')]))
      (object_rules (BuildPrometheusRule (\<lambda>s. s) sample_rule_input))) [long, short]"
proof -
  have "''LLMCPTTFTBudgetFastBurn'' \<noteq> alertNoTraffic"
    by (simp add: alertNoTraffic_def)
  moreover have "ri_Namespace sample_rule_input = ''prod''" "ri_Name sample_rule_input = ''chat''"
    by (simp_all add: sample_rule_input_def)
  ultimately show ?thesis
    using alerts_read_recorded [OF sample_fast_burn(1) sample_fast_burn(2), of "\<lambda>s. s"]
    by (simp add: Let_def)
qed

section \<open>Scrape timings\<close>

lemma Duration_Round_seconds:
  assumes "d = 1000000000 * q + r" "0 \<le> r" "r < 1000000000" "0 < d" "is_i64 d"
  shows "Duration_Round d go_Second =
    (if r < 500000000 then 1000000000 * q
     else if q < 9223372036 then 1000000000 * (q + 1) else 9223372036854775807)"
proof -
  have r: "d mod 1000000000 = r"
    using assms(1-3) by simp
  have range: "d < 9223372036854775808"
    using assms(5) by (simp add: is_i64_def)
  show ?thesis
  proof (cases "q < 9223372036")
    case True
    have "wrap64 (d + 1000000000 - r) = d + 1000000000 - r"
      using True assms by (intro wrap64_id) (simp add: is_i64_def)
    then show ?thesis
      using True assms by (simp add: Duration_Round_def go_Second_def r Let_def)
  next
    case False
    then have q: "q = 9223372036"
      using range assms(1,2) by simp
    have down: "d - r = 9223372036000000000" and "d + 1000000000 - r = 9223372037000000000"
      using assms(1) q by simp_all
    then have "\<not> d < wrap64 (d + 1000000000 - r)"
      using assms(4) by (simp add: wrap64_def)
    then show ?thesis
      using assms(4) down unfolding Duration_Round_def go_Second_def r Let_def q by simp
  qed
qed

lemma prom_seconds_eq:
  assumes "0 < d" "is_i64 d"
  shows "prom_seconds d = max (min ((d + 500000000) div 1000000000) 9223372036) 1"
proof -
  define q where "q = d div 1000000000"
  define r where "r = d mod 1000000000"
  have d: "d = 1000000000 * q + r" "0 \<le> r" "r < 1000000000"
    by (simp_all add: q_def r_def)
  have q: "0 \<le> q" "q \<le> 9223372036"
    using d assms by (simp_all add: is_i64_def)
  have near: "(d + 500000000) div 1000000000 = (if r < 500000000 then q else q + 1)"
  proof (cases "r < 500000000")
    case True
    then show ?thesis
      using d int_div_pos_eq [of "d + 500000000" 1000000000 q "r + 500000000"] by simp
  next
    case False
    then show ?thesis
      using d int_div_pos_eq [of "d + 500000000" 1000000000 "q + 1" "r - 500000000"] by simp
  qed
  have div: "x sdiv 1000000000 = x div 1000000000" if "0 \<le> x" for x :: int
    using that by (cases "x = 0") (simp_all add: signed_divide_int_def)
  show ?thesis
    using q unfolding prom_seconds_def Duration_Round_seconds [OF d assms] near
    by (simp add: go_Second_def div)
qed

lemma prom_seconds_mono: "0 < d \<Longrightarrow> d \<le> e \<Longrightarrow> is_i64 e \<Longrightarrow> prom_seconds d \<le> prom_seconds e"
  using zdiv_mono1 [of "d + 500000000" "e + 500000000" 1000000000]
  by (simp add: prom_seconds_eq is_i64_def min_def max_def)

lemma scrapeTimings_bounds:
  assumes "scrapeTimings spec = (interval, timeout)"
  shows "0 < timeout" "timeout \<le> interval"
proof -
  have "0 < positive_or defaultInterval v" "0 < positive_or defaultScrapeTimeout v" for v
    by (simp_all add: positive_or_def defaultInterval_def defaultScrapeTimeout_def go_Second_def split: option.split)
  moreover have "0 < defaultInterval" "0 < defaultScrapeTimeout"
    by (simp_all add: defaultInterval_def defaultScrapeTimeout_def go_Second_def)
  ultimately show "0 < timeout" "timeout \<le> interval"
    using assms by (auto simp: scrapeTimings_def Let_def split: option.splits prod.splits if_splits)
qed

lemma shimEndpoint_fields:
  "field fieldInterval (shimEndpoint i t) = Some (UString (fmt_d (prom_seconds i) @ ''s''))"
  "field fieldScrapeTimeout (shimEndpoint i t) = Some (UString (fmt_d (prom_seconds t) @ ''s''))"
  by (simp_all add: shimEndpoint_def field_defs duration_def)

lemma engineEndpoint_fields:
  "field fieldInterval (engineEndpoint t) = Some (UString ''30s'')"
  "field fieldScrapeTimeout (engineEndpoint t) = Some (UString (fmt_d (prom_seconds t) @ ''s''))"
proof -
  have "prom_seconds engineScrapeInterval = 30"
    by (simp add: prom_seconds_eq engineScrapeInterval_def go_Second_def is_i64_def)
  moreover have "fmt_d 30 = ''30''"
    by (simp add: fmt_d_def fmtInt_def itoa_loop.simps digit_char_def char_of_def bit_0)
  ultimately show "field fieldInterval (engineEndpoint t) = Some (UString ''30s'')"
    by (simp add: engineEndpoint_def field_defs duration_def)
  show "field fieldScrapeTimeout (engineEndpoint t) = Some (UString (fmt_d (prom_seconds t) @ ''s''))"
    by (simp add: engineEndpoint_def field_defs duration_def)
qed

text \<open>
  The rendered endpoint of the sidecar: whole seconds, at least one, and a timeout that is not above the
  interval, for every configured pair of durations.
\<close>

lemma shim_scrape_within_interval:
  assumes "si_ShimEnabled inp" "scrapeTimings (si_Spec inp) = (interval, timeout)" "is_i64 interval"
  shows "\<exists>ep i t. ep \<in> set (object_endpoints (BuildServiceMonitor enc inp)) \<and>
    field fieldInterval ep = Some (UString (fmt_d i @ ''s'')) \<and>
    field fieldScrapeTimeout ep = Some (UString (fmt_d t @ ''s'')) \<and> 1 \<le> t \<and> t \<le> i"
proof -
  have "1 \<le> prom_seconds timeout" "prom_seconds timeout \<le> prom_seconds interval"
    using prom_seconds_mono [OF scrapeTimings_bounds [OF assms(2)] assms(3)] by (simp_all add: prom_seconds_def)
  then show ?thesis
    using assms(1,2) by (intro exI [of _ "shimEndpoint interval timeout"] exI [of _ "prom_seconds interval"]
        exI [of _ "prom_seconds timeout"] conjI)
      (simp_all add: endpoints_of_ServiceMonitor shimEndpoint_fields)
qed

section \<open>Where the objects fall short\<close>

text \<open>
  The clamp compares the timeout with the interval of the sidecar, but the engine endpoint has an interval of
  its own. A specification with an interval and a timeout above thirty seconds renders an endpoint whose
  timeout exceeds its interval, the configuration that the clamp exists to prevent.
\<close>

theorem engine_timeout_exceeds_interval:
  assumes "EngineMetricsScraped (si_Spec inp)" "scrapeTimings (si_Spec inp) = (interval, timeout)"
    and "31 * go_Second \<le> timeout" "is_i64 timeout"
  shows "\<exists>ep t. ep \<in> set (object_endpoints (BuildServiceMonitor enc inp)) \<and> field fieldInterval ep = Some (UString ''30s'') \<and>
    field fieldScrapeTimeout ep = Some (UString (fmt_d t @ ''s'')) \<and> 30 < t"
proof -
  have "(31 :: int) \<le> (timeout + 500000000) div 1000000000"
    using assms(3) by (simp add: go_Second_def)
  then have "30 < prom_seconds timeout"
    using assms(3,4) by (simp add: prom_seconds_eq go_Second_def)
  then show ?thesis
    using assms(1,2) by (intro exI [of _ "engineEndpoint timeout"] exI [of _ "prom_seconds timeout"])
      (simp add: endpoints_of_ServiceMonitor engineEndpoint_fields)
qed

definition sample_slow_scrape :: ServiceMonitorInput where
  "sample_slow_scrape = \<lparr>si_Name = ''chat'', si_Namespace = ''prod'', si_OwnerRef = sample_owner_ref,
     si_Spec = Some \<lparr>ob_ServiceMonitor = Some \<lparr>smn_Enabled = None, smn_Interval = Some (60 * go_Second),
       smn_ScrapeTimeout = Some (45 * go_Second), smn_Labels = [], smn_ScrapeEngineMetrics = None\<rparr>,
       ob_PrometheusRule = None, ob_SLO = None\<rparr>, si_ShimEnabled = True\<rparr>"

theorem engine_timeout_exceeds_interval_witness:
  "\<exists>ep t. ep \<in> set (object_endpoints (BuildServiceMonitor (\<lambda>s. s) sample_slow_scrape)) \<and>
    field fieldInterval ep = Some (UString ''30s'') \<and> field fieldScrapeTimeout ep = Some (UString (fmt_d t @ ''s'')) \<and> 30 < t"
proof (rule engine_timeout_exceeds_interval)
  show "EngineMetricsScraped (si_Spec sample_slow_scrape)"
    by (simp add: sample_slow_scrape_def EngineMetricsScraped_def)
  show "scrapeTimings (si_Spec sample_slow_scrape) = (60 * go_Second, 45 * go_Second)"
    by (simp add: sample_slow_scrape_def scrapeTimings_def positive_or_def go_Second_def)
qed (simp_all add: go_Second_def is_i64_def)

text \<open>
  An objective is read in thousandths, rounded up by the quantity. Every objective above 0.999 becomes one, is
  taken for invalid and replaced by the default: 99.95 per cent is alerted on as 99.5 per cent.
\<close>

theorem tight_objective_replaced:
  assumes "q_MilliValue q = \<lceil>1000 * x\<rceil>" "999 / 1000 < (x :: rat)" "x < 1"
  shows "ResolvedAvailabilityObjective (Some (slo\<lparr>sl_AvailabilityObjective := Some q\<rparr>)) = ResolvedAvailabilityObjective None"
proof -
  have "\<lceil>1000 * x\<rceil> = 1000"
    using assms(2,3) by (intro ceiling_unique) simp_all
  moreover have "fdiv (f64_of_i64 1000) (Fin 1000) = Fin 1"
    using round64_exact [of 1000] round64_exact [of 1] by (simp add: f64_of_i64_def)
  ultimately show ?thesis
    by (simp add: ResolvedAvailabilityObjective_def objectiveOr_def assms(1))
qed

text \<open>
  With an objective of 0.93 or less the limit of the fast-burn alert is at least one. The alert compares it with
  one minus a ratio that lies between zero and one, so that it can never fire.
\<close>

theorem fast_burn_limit_unreachable:
  assumes "o1 \<le> 93 / 100" "0 \<le> o1" "long \<in> set (rule_ladder b)" "bw_Name long = ''FastBurn''"
  shows "fle (Fin 1) (fmul (bw_Factor long) (fsub (Fin 1) (Fin o1)))"
proof -
  have factor: "bw_Factor long = Fin (8106479329266893 / 562949953421312)"
    using assms(3,4) round64_nearest [of 3 "144 / 10" 8106479329266893]
    by (auto simp: rule_ladder_def fastBurnLadder_def longBurnLadder_def pow2_def split: if_splits)
  obtain b1 where b1: "fsub (Fin 1) (Fin o1) = Fin b1" "699 / 10000 \<le> b1"
  proof -
    have "fle (round64 (7 / 100)) (round64 (1 - o1))" "fle (round64 (1 - o1)) (round64 1)"
      using assms(1,2) by (intro round64_mono; simp)+
    moreover have "round64 (7 / 100) = Fin (5044031582654956 / 72057594037927936)" "round64 1 = Fin 1"
      using round64_nearest [of "- 4" "7 / 100" 5044031582654956] round64_exact [of 1] by (simp_all add: pow2_def)
    ultimately show ?thesis
      by (intro that [of "case round64 (1 - o1) of Fin q \<Rightarrow> q"]) (cases "round64 (1 - o1)"; simp add: fsub_def)+
  qed
  have "1 \<le> 8106479329266893 / 562949953421312 * b1"
    using b1(2) by (simp add: field_simps)
  then have "fle (round64 1) (fmul (bw_Factor long) (fsub (Fin 1) (Fin o1)))"
    unfolding factor b1(1) fmul.simps by (rule round64_mono)
  then show ?thesis
    using round64_exact [of 1] by simp
qed

end
