(* ===== verification/Observability.thy ===== *)
theory Observability
  imports Monitoring_Props Controller_Status
begin

text \<open>
  Wiring up metric collection in a pass (\<open>internal/controller/observability.go\<close>), whole: the rules first, then
  the ServiceMonitor, each applied or removed only if this resource owns it, the verdict that becomes the
  condition \<open>MetricsRegistered\<close>, and the time of the next repair. The API server is what it answers to each
  call; a pass returns its verdict, its error, the prober with its cache, and the calls the server accepted.
  One pass at a time uses the prober, as the controller runs with one worker.
\<close>

definition ReasonMetricsRegistered :: string where "ReasonMetricsRegistered = ''MetricsRegistered''"
definition ReasonPrometheusOperatorCRDsAbsent :: string where
  "ReasonPrometheusOperatorCRDsAbsent = ''PrometheusOperatorCRDsAbsent''"
definition ReasonServiceMonitorDisabled :: string where "ReasonServiceMonitorDisabled = ''ServiceMonitorDisabled''"
definition ReasonShimDisabled :: string where "ReasonShimDisabled = ''ShimDisabled''"

section \<open>The API server and the prober\<close>

datatype kube_error = KubeNotFound string | KubeNoMatch string | KubeError string

fun kube_text :: "kube_error \<Rightarrow> string" where
  "kube_text (KubeNotFound s) = s" | "kube_text (KubeNoMatch s) = s" | "kube_text (KubeError s) = s"

fun missing :: "kube_error \<Rightarrow> bool" where
  "missing (KubeError s) = False" | "missing _ = True"

text \<open>Of an object that was read the code uses its identity, its version and the owner that controls it.\<close>

record MonitoringObject =
  ko_UID :: string
  ko_ResourceVersion :: string
  ko_ControllerUID :: "string option"

definition IsControlledBy :: "MonitoringObject \<Rightarrow> ModelDeployment \<Rightarrow> bool" where
  "IsControlledBy obj md \<longleftrightarrow> ko_ControllerUID obj = Some (md_UID md)"

datatype MonitoringCall =
    CreateMonitoring GroupVersionKind unstructured
  | ApplyMonitoring GroupVersionKind unstructured string
  | DeleteMonitoring GroupVersionKind string string
  | ResetMapper

fun call_kind :: "MonitoringCall \<Rightarrow> GroupVersionKind option" where
  "call_kind (CreateMonitoring g _) = Some g"
| "call_kind (ApplyMonitoring g _ _) = Some g"
| "call_kind (DeleteMonitoring g _ _) = Some g"
| "call_kind ResetMapper = None"

text \<open>The reconciler's probe: none, the caching prober, or fixed answers, which have nothing to invalidate.\<close>

datatype probe = is_NoProbe: NoProbe | Probing Prober | Fixed Static

definition probe_Has :: "has_call \<Rightarrow> GroupVersionKind \<Rightarrow> probe \<Rightarrow> (string + bool) \<times> probe" where
  "probe_Has c g p =
     (case p of
        NoProbe \<Rightarrow> (Inl '''', p)
      | Probing pb \<Rightarrow> map_prod id Probing (Has c g pb)
      | Fixed s \<Rightarrow> map_prod id Fixed (Static_Has c g s))"

definition probe_Invalidate :: "GroupVersionKind \<Rightarrow> probe \<Rightarrow> probe" where
  "probe_Invalidate g p = (case p of Probing pb \<Rightarrow> Probing (Invalidate g pb) | _ \<Rightarrow> p)"

record ObsEnv =
  oe_SafeEncode :: "string \<Rightarrow> string"
  oe_Resettable :: bool
  oe_ProbeRule :: has_call
  oe_ProbeMonitor :: has_call
  oe_ResyncMonitor :: has_call
  oe_ResyncRule :: has_call
  oe_Get :: "GroupVersionKind \<Rightarrow> kube_error + MonitoringObject"
  oe_Create :: "GroupVersionKind \<Rightarrow> kube_error + MonitoringObject"
  oe_Apply :: "GroupVersionKind \<Rightarrow> kube_error option"
  oe_Delete :: "GroupVersionKind \<Rightarrow> kube_error option"

section \<open>Children\<close>

definition ownerReferenceFor :: "ModelDeployment \<Rightarrow> MetaOwnerReference" where
  "ownerReferenceFor md = \<lparr>mw_APIVersion = GroupVersion, mw_Kind = kindModelDeployment, mw_Name = md_Name md,
     mw_UID = md_UID md, mw_Controller = Some True, mw_BlockOwnerDeletion = Some True\<rparr>"

definition deleteObservabilityChild ::
  "ObsEnv \<Rightarrow> ModelDeployment \<Rightarrow> GroupVersionKind \<Rightarrow> string \<Rightarrow> MonitoringCall list \<times> string option" where
  "deleteObservabilityChild env md gvk name =
     (case oe_Get env gvk of
        Inl e \<Rightarrow> if missing e then ([], None) else ([], Some (kube_text e))
      | Inr obj \<Rightarrow>
          if \<not> IsControlledBy obj md then
            ([], Some (''refusing to delete '' @ gk_Kind gvk @ '' '' @ name @ '': object is not owned by this ModelDeployment''))
          else
            (case oe_Delete env gvk of
               None \<Rightarrow> ([DeleteMonitoring gvk name (ko_UID obj)], None)
             | Some e \<Rightarrow>
                 if missing e then ([], None)
                 else ([], Some (''deleting disabled '' @ gk_Kind gvk @ '' '' @ name @ '': '' @ kube_text e))))"

definition invalidateMissingObservabilityKind ::
  "ObsEnv \<Rightarrow> GroupVersionKind \<Rightarrow> kube_error option \<Rightarrow> probe \<Rightarrow> probe \<times> MonitoringCall list" where
  "invalidateMissingObservabilityKind env gvk err p =
     (case err of
        None \<Rightarrow> (p, [])
      | Some e \<Rightarrow>
          if \<not> missing e then (p, [])
          else (probe_Invalidate gvk p, if oe_Resettable env then [ResetMapper] else []))"

definition applyObservabilityChild ::
  "ObsEnv \<Rightarrow> ModelDeployment \<Rightarrow> GroupVersionKind \<Rightarrow> string \<Rightarrow> unstructured \<Rightarrow> probe \<Rightarrow>
   probe \<times> MonitoringCall list \<times> string option" where
  "applyObservabilityChild env md gvk name desired p =
     (let failed = (\<lambda>ws e. let (p1, ws1) = invalidateMissingObservabilityKind env gvk (Some e) p
                     in (p1, ws @ ws1, Some (kube_text e)));
          (ws, existing) =
            (case oe_Get env gvk of
               Inl (KubeNotFound _) \<Rightarrow>
                 (case oe_Create env gvk of
                    Inl e \<Rightarrow> ([], Inl e)
                  | Inr obj \<Rightarrow> ([CreateMonitoring gvk desired], Inr obj))
             | Inl e \<Rightarrow> ([], Inl e)
             | Inr obj \<Rightarrow> ([], Inr obj))
      in case existing of
           Inl e \<Rightarrow> failed ws e
         | Inr obj \<Rightarrow>
             if \<not> IsControlledBy obj md then
               (p, ws, Some (''refusing to apply '' @ gk_Kind gvk @ '' '' @ name @ '': object is not owned by this ModelDeployment''))
             else
               (case oe_Apply env gvk of
                  Some e \<Rightarrow> failed ws e
                | None \<Rightarrow> (p, ws @ [ApplyMonitoring gvk desired (ko_ResourceVersion obj)], None)))"

section \<open>The rules\<close>

definition monitor_object :: "ObsEnv \<Rightarrow> ModelDeployment \<Rightarrow> unstructured" where
  "monitor_object env md = BuildServiceMonitor (oe_SafeEncode env)
     \<lparr>si_Name = md_Name md, si_Namespace = md_Namespace md, si_OwnerRef = ownerReferenceFor md,
      si_Spec = Some (sp_Observability (md_Spec md)), si_ShimEnabled = ShimEnabled (sp_Serving (md_Spec md))\<rparr>"

definition rule_object :: "ObsEnv \<Rightarrow> ModelDeployment \<Rightarrow> unstructured" where
  "rule_object env md = BuildPrometheusRule (oe_SafeEncode env)
     \<lparr>ri_Name = md_Name md, ri_Namespace = md_Namespace md, ri_Model = md_ModelName md, ri_OwnerRef = ownerReferenceFor md,
      ri_Spec = Some (sp_Observability (md_Spec md))\<rparr>"

definition snapped_message :: "ObservabilitySpec option \<Rightarrow> string" where
  "snapped_message spec =
     (let (snapped, changed) = SnappedThreshold spec
      in if changed then
           '' (the TTFT threshold was snapped up to '' @ FormatFloat_g_shortest snapped @
           ''s, the nearest histogram bucket boundary '' @ ''at or above the configured value '' @ [CHR 0xE2, CHR 0x80, CHR 0x94] @
           '' a threshold between boundaries would select '' @ ''no bucket and the alert could never fire)''
         else '''')"

definition reconcilePrometheusRule ::
  "ObsEnv \<Rightarrow> ModelDeployment \<Rightarrow> probe \<Rightarrow> (string \<times> ConditionStatus \<times> string option) \<times> probe \<times> MonitoringCall list" where
  "reconcilePrometheusRule env md p =
     (let spec = Some (sp_Observability (md_Spec md)); name = PrometheusRule (oe_SafeEncode env) (md_Name md)
      in if \<not> PrometheusRuleEnabled spec then
           (case deleteObservabilityChild env md PrometheusRuleGVK name of
              (ws, Some e) \<Rightarrow> (('''', ConditionFalse, Some e), p, ws)
            | (ws, None) \<Rightarrow> ((''; SLO rules disabled'', ConditionTrue, None), p, ws))
         else if is_NoProbe p then ((''; SLO rules not probed'', ConditionUnknown, None), p, [])
         else
           (case probe_Has (oe_ProbeRule env) PrometheusRuleGVK p of
              (Inl e, p1) \<Rightarrow> (('''', ConditionUnknown, Some (''probing for '' @ KindPrometheusRule @ '': '' @ e)), p1, [])
            | (Inr False, p1) \<Rightarrow> ((''; no PrometheusRule CRD in this cluster, so no SLO alerts'', ConditionTrue, None), p1, [])
            | (Inr True, p1) \<Rightarrow>
                (case applyObservabilityChild env md PrometheusRuleGVK name (rule_object env md) p1 of
                   (p2, ws, Some e) \<Rightarrow> (('''', ConditionFalse, Some (''applying PrometheusRule: '' @ e)), p2, ws)
                 | (p2, ws, None) \<Rightarrow> ((''; SLO rules in '' @ name @ snapped_message spec, ConditionTrue, None), p2, ws))))"

section \<open>The pass\<close>

text \<open>The loop over the enabled kinds: the first one that is not known to be served decides.\<close>

fun resync_loop :: "(has_call \<times> GroupVersionKind) list \<Rightarrow> probe \<Rightarrow> go_duration option \<times> probe" where
  "resync_loop [] p = (None, p)"
| "resync_loop ((c, g) # ks) p =
     (if is_NoProbe p then (Some AbsentTTL, p)
      else (case probe_Has c g p of
              (Inr True, p1) \<Rightarrow> resync_loop ks p1
            | (_, p1) \<Rightarrow> (Some AbsentTTL, p1)))"

definition resync_kinds :: "ObsEnv \<Rightarrow> ObservabilitySpec option \<Rightarrow> (has_call \<times> GroupVersionKind) list" where
  "resync_kinds env spec =
     (if ServiceMonitorEnabled spec then [(oe_ResyncMonitor env, ServiceMonitorGVK)] else []) @
     (if PrometheusRuleEnabled spec then [(oe_ResyncRule env, PrometheusRuleGVK)] else [])"

definition observabilityResync :: "ObsEnv \<Rightarrow> ModelDeployment \<Rightarrow> probe \<Rightarrow> go_duration \<times> probe" where
  "observabilityResync env md p =
     (let kinds = resync_kinds env (Some (sp_Observability (md_Spec md)))
      in case resync_loop kinds p of
           (Some d, p1) \<Rightarrow> (d, p1)
         | (None, p1) \<Rightarrow>
             if kinds = [] then (0, p1)
             else (270 * go_Second + (uint (fnv32a (md_UID md @ ''/'' @ md_Namespace md @ ''/'' @ md_Name md)) mod 61) * go_Second, p1))"

definition mverdict :: "ConditionStatus \<Rightarrow> string \<Rightarrow> string \<Rightarrow> metricsVerdict" where
  "mverdict st reason msg = \<lparr>mv_Status = st, mv_Reason = reason, mv_Message = msg, mv_RequeueAfter = 0\<rparr>"

text \<open>The part for the ServiceMonitor, after the rules.\<close>

definition reconcileServiceMonitor ::
  "ObsEnv \<Rightarrow> ModelDeployment \<Rightarrow> string \<Rightarrow> probe \<Rightarrow> (metricsVerdict \<times> string option) \<times> probe \<times> MonitoringCall list" where
  "reconcileServiceMonitor env md rulesMsg p =
     (let spec = Some (sp_Observability (md_Spec md)); name = ServiceMonitor (oe_SafeEncode env) (md_Name md)
      in if \<not> ServiceMonitorEnabled spec then
           (case deleteObservabilityChild env md ServiceMonitorGVK name of
              (ws, Some e) \<Rightarrow> ((mverdict ConditionUnknown ReasonReconciling
                 (''Could not remove the disabled ServiceMonitor: '' @ e), Some e), p, ws)
            | (ws, None) \<Rightarrow> ((mverdict ConditionFalse ReasonServiceMonitorDisabled
                 (''spec.observability.serviceMonitor.enabled is false; no ServiceMonitor is created, '' @
                  ''so nothing scrapes this deployment''), None), p, ws))
         else if is_NoProbe p then
           ((mverdict ConditionUnknown ReasonReconciling ''Metric collection has not been probed'', None), p, [])
         else
           (case probe_Has (oe_ProbeMonitor env) ServiceMonitorGVK p of
              (Inl e, p1) \<Rightarrow> ((mverdict ConditionUnknown ReasonReconciling
                 (''Could not determine whether the cluster serves ServiceMonitor: '' @ e),
                 Some (''probing for '' @ gk_Kind ServiceMonitorGVK @ '': '' @ e)), p1, [])
            | (Inr False, p1) \<Rightarrow> ((mverdict ConditionFalse ReasonPrometheusOperatorCRDsAbsent
                 (''The cluster does not serve '' @ MonitoringGroup @ ''/'' @ MonitoringVersion @ '' '' @ KindServiceMonitor @
                  ''; install prometheus-operator to collect metrics. The workload is serving normally.''), None), p1, [])
            | (Inr True, p1) \<Rightarrow>
                (case applyObservabilityChild env md ServiceMonitorGVK name (monitor_object env md) p1 of
                   (p2, ws, Some e) \<Rightarrow> ((mverdict ConditionFalse ReasonReconciling
                      (''Applying the ServiceMonitor failed: '' @ e), Some (''applying ServiceMonitor: '' @ e)), p2, ws)
                 | (p2, ws, None) \<Rightarrow>
                     if \<not> ShimEnabled (sp_Serving (md_Spec md)) then
                       ((mverdict ConditionFalse ReasonShimDisabled (''spec.serving.shim.enabled is false, so no '' @
                          ''llmcp_* metric is produced; canary analysis and the built-in autoscaler have no inputs''), None), p2, ws)
                     else
                       ((mverdict ConditionTrue ReasonMetricsRegistered
                          (''Shim injected and ServiceMonitor '' @ name @ '' applied'' @ rulesMsg), None), p2, ws))))"

definition reconcileObservability ::
  "ObsEnv \<Rightarrow> ModelDeployment \<Rightarrow> probe \<Rightarrow> (metricsVerdict \<times> string option) \<times> probe \<times> MonitoringCall list" where
  "reconcileObservability env md p =
     (let ((rulesMsg, rulesStatus, err), p1, ws1) = reconcilePrometheusRule env md p;
          ((v, err), p2, ws2) =
            (case err of
               Some e \<Rightarrow> ((mverdict rulesStatus ReasonReconciling (''Reconciling the PrometheusRule failed: '' @ e), Some e), p1, [])
             | None \<Rightarrow> reconcileServiceMonitor env md rulesMsg p1);
          (d, p3) = observabilityResync env md p2
      in ((v\<lparr>mv_RequeueAfter := d\<rparr>, err), p3, ws1 @ ws2))"

end
