(* ===== verification/Observability_Props.thy ===== *)
theory Observability_Props
  imports Observability Controller_Props
begin

text \<open>
  What a pass over the monitoring objects promises: it never writes or deletes an object that another owner
  controls, its verdict is what it did and learnt, the rules are reconciled whatever becomes of the
  ServiceMonitor, and the next repair is scheduled within a bound.
\<close>

section \<open>One child\<close>

text \<open>The object a call of the pass was authorised by: read, or created because the read found nothing.\<close>

definition held_object :: "ObsEnv \<Rightarrow> GroupVersionKind \<Rightarrow> MonitoringObject \<Rightarrow> bool" where
  "held_object env g obj \<longleftrightarrow>
     oe_Get env g = Inr obj \<or> (\<exists>m. oe_Get env g = Inl (KubeNotFound m)) \<and> oe_Create env g = Inr obj"

definition authorised :: "ObsEnv \<Rightarrow> ModelDeployment \<Rightarrow> MonitoringCall \<Rightarrow> bool" where
  "authorised env md call =
     (case call of
        CreateMonitoring g _ \<Rightarrow> (\<exists>m. oe_Get env g = Inl (KubeNotFound m))
      | ApplyMonitoring g _ rv \<Rightarrow> (\<exists>obj. held_object env g obj \<and> IsControlledBy obj md \<and> rv = ko_ResourceVersion obj)
      | DeleteMonitoring g _ uid \<Rightarrow> (\<exists>obj. oe_Get env g = Inr obj \<and> IsControlledBy obj md \<and> uid = ko_UID obj)
      | ResetMapper \<Rightarrow> True)"

definition concerns :: "GroupVersionKind \<Rightarrow> MonitoringCall \<Rightarrow> bool" where
  "concerns g call \<longleftrightarrow> call_kind call = None \<or> call_kind call = Some g"

lemma delete_cases:
  assumes "deleteObservabilityChild env md g name = (ws, err)"
  obtains (gone) e where "oe_Get env g = Inl e" "missing e" "ws = []" "err = None"
  | (unread) e where "oe_Get env g = Inl e" "\<not> missing e" "ws = []" "err \<noteq> None"
  | (foreign) obj where "oe_Get env g = Inr obj" "\<not> IsControlledBy obj md" "ws = []" "err \<noteq> None"
  | (deleted) obj where "oe_Get env g = Inr obj" "IsControlledBy obj md" "ws = [DeleteMonitoring g name (ko_UID obj)]" "err = None"
      "oe_Delete env g = None"
  | (vanished) obj e where "oe_Get env g = Inr obj" "IsControlledBy obj md" "ws = []" "err = None" "oe_Delete env g = Some e" "missing e"
  | (failed) obj e where "oe_Get env g = Inr obj" "IsControlledBy obj md" "ws = []" "err \<noteq> None" "oe_Delete env g = Some e" "\<not> missing e"
  using assms unfolding deleteObservabilityChild_def by (auto split: sum.splits option.splits if_splits)

lemma apply_cases:
  assumes "applyObservabilityChild env md g name desired p = (p1, ws, err)"
  obtains (applied) obj ws0 where "held_object env g obj" "IsControlledBy obj md" "p1 = p" "err = None"
      "ws = ws0 @ [ApplyMonitoring g desired (ko_ResourceVersion obj)]"
      "ws0 = [] \<or> ws0 = [CreateMonitoring g desired] \<and> (\<exists>m. oe_Get env g = Inl (KubeNotFound m))"
  | (refused) ws0 where "err \<noteq> None" "p1 = p \<or> p1 = probe_Invalidate g p" "ws = ws0 \<or> ws = ws0 @ [ResetMapper]"
      "ws0 = [] \<or> ws0 = [CreateMonitoring g desired] \<and> (\<exists>m. oe_Get env g = Inl (KubeNotFound m))"
proof -
  have inv: "fst (invalidateMissingObservabilityKind env g (Some e) p) = p \<or>
      fst (invalidateMissingObservabilityKind env g (Some e) p) = probe_Invalidate g p"
    "snd (invalidateMissingObservabilityKind env g (Some e) p) = [] \<or>
      snd (invalidateMissingObservabilityKind env g (Some e) p) = [ResetMapper]" for e
    by (simp_all add: invalidateMissingObservabilityKind_def)
  define found where "found = (case oe_Get env g of
       Inl (KubeNotFound _) \<Rightarrow> (case oe_Create env g of Inl e \<Rightarrow> ([], Inl e) | Inr obj \<Rightarrow> ([CreateMonitoring g desired], Inr obj))
     | Inl e \<Rightarrow> ([], Inl e) | Inr obj \<Rightarrow> ([], Inr obj))"
  obtain ws0 r where f: "found = (ws0, r)"
    by (cases found)
  have start: "ws0 = [] \<or> ws0 = [CreateMonitoring g desired] \<and> (\<exists>m. oe_Get env g = Inl (KubeNotFound m))"
    using f by (auto simp: found_def split: sum.splits kube_error.splits)
  have held: "held_object env g obj" if "r = Inr obj" for obj
    using f that by (auto simp: found_def held_object_def split: sum.splits kube_error.splits)
  have eq: "applyObservabilityChild env md g name desired p =
     (case r of
        Inl e \<Rightarrow> (let (q, us) = invalidateMissingObservabilityKind env g (Some e) p in (q, ws0 @ us, Some (kube_text e)))
      | Inr obj \<Rightarrow>
          if \<not> IsControlledBy obj md then
            (p, ws0, Some (''refusing to apply '' @ gk_Kind g @ '' '' @ name @ '': object is not owned by this ModelDeployment''))
          else (case oe_Apply env g of
                  Some e \<Rightarrow> (let (q, us) = invalidateMissingObservabilityKind env g (Some e) p in (q, ws0 @ us, Some (kube_text e)))
                | None \<Rightarrow> (p, ws0 @ [ApplyMonitoring g desired (ko_ResourceVersion obj)], None)))"
    unfolding applyObservabilityChild_def found_def [symmetric] f
    by (simp add: Let_def split: sum.split option.split)
  show ?thesis
  proof (cases "\<exists>obj. r = Inr obj \<and> IsControlledBy obj md \<and> oe_Apply env g = None")
    case True
    then obtain obj where obj: "r = Inr obj" "IsControlledBy obj md" "oe_Apply env g = None"
      by blast
    then have "p1 = p" "err = None" "ws = ws0 @ [ApplyMonitoring g desired (ko_ResourceVersion obj)]"
      using assms eq by simp_all
    then show ?thesis
      using held [OF obj(1)] obj(2) start by (intro applied)
  next
    case False
    then have "err \<noteq> None" "p1 = p \<or> p1 = probe_Invalidate g p" "ws = ws0 \<or> ws = ws0 @ [ResetMapper]"
      using assms inv unfolding eq by (auto simp: split_beta split: sum.splits if_splits option.splits)
    then show ?thesis
      using start by (rule refused)
  qed
qed

lemma delete_authorised:
  assumes "deleteObservabilityChild env md g name = (ws, err)"
  shows "list_all (\<lambda>c. authorised env md c \<and> concerns g c) ws"
  by (cases rule: delete_cases [OF assms]) (auto simp: authorised_def concerns_def)

lemma apply_authorised:
  assumes "applyObservabilityChild env md g name desired p = (p1, ws, err)"
  shows "list_all (\<lambda>c. authorised env md c \<and> concerns g c) ws"
  by (cases rule: apply_cases [OF assms]) (auto simp: authorised_def concerns_def)

lemma rule_calls:
  assumes "reconcilePrometheusRule env md p = (res, p1, ws)"
  shows "list_all (\<lambda>c. authorised env md c \<and> concerns PrometheusRuleGVK c) ws"
  using assms delete_authorised apply_authorised
  by (auto simp: reconcilePrometheusRule_def Let_def split: if_splits prod.splits option.splits sum.splits bool.splits)

lemma monitor_calls:
  assumes "reconcileServiceMonitor env md msg p = (res, p1, ws)"
  shows "list_all (\<lambda>c. authorised env md c \<and> concerns ServiceMonitorGVK c) ws"
  using assms delete_authorised apply_authorised
  by (auto simp: reconcileServiceMonitor_def Let_def split: if_splits prod.splits option.splits sum.splits bool.splits)

section \<open>The pass\<close>

lemma reconcile_cases:
  assumes "reconcileObservability env md p = ((v, err), p3, ws)"
  obtains msg st rerr p1 ws1 v0 p2 ws2 d where
    "reconcilePrometheusRule env md p = ((msg, st, rerr), p1, ws1)" "ws = ws1 @ ws2"
    "v = v0\<lparr>mv_RequeueAfter := d\<rparr>" "observabilityResync env md p2 = (d, p3)"
    "rerr = None \<and> reconcileServiceMonitor env md msg p1 = ((v0, err), p2, ws2) \<or>
     (\<exists>e. rerr = Some e \<and> err = Some e \<and> ws2 = [] \<and> p2 = p1 \<and>
       v0 = mverdict st ReasonReconciling (''Reconciling the PrometheusRule failed: '' @ e))"
proof -
  obtain msg st rerr p1 ws1 where rule: "reconcilePrometheusRule env md p = ((msg, st, rerr), p1, ws1)"
    by (metis prod_cases3)
  show ?thesis
  proof (cases rerr)
    case None
    obtain v0 err0 p2 ws2 where m: "reconcileServiceMonitor env md msg p1 = ((v0, err0), p2, ws2)"
      by (metis prod_cases4 prod.exhaust)
    obtain d q where "observabilityResync env md p2 = (d, q)"
      by (cases "observabilityResync env md p2")
    with rule m None show ?thesis
      using assms by (intro that [of msg st rerr p1 ws1 ws2 d v0 p2]) (simp_all add: reconcileObservability_def)
  next
    case (Some e)
    obtain d q where "observabilityResync env md p1 = (d, q)"
      by (cases "observabilityResync env md p1")
    with rule Some show ?thesis
      using assms by (intro that [of msg st rerr p1 ws1 "[]" d
          "mverdict st ReasonReconciling (''Reconciling the PrometheusRule failed: '' @ e)" p1])
        (auto simp: reconcileObservability_def)
  qed
qed

text \<open>
  C30. A pass touches no monitoring object that another owner controls, whatever the server answers and whenever
  it changes. It creates an object only after the read found none; it applies only over an object controlled
  by this resource, with that object's version as a precondition, so that a replacement in between is refused;
  it deletes only such an object, with its identity as a precondition.
\<close>

theorem monitoring_objects_owned:
  assumes "reconcileObservability env md p = ((v, err), p', ws)"
  shows "list_all (authorised env md) ws"
proof (cases rule: reconcile_cases [OF assms])
  case (1 msg st rerr p1 ws1 v0 p2 ws2 d)
  have "list_all (authorised env md) ws1"
    using rule_calls [OF 1(1)] by (simp add: list_all_iff)
  moreover have "list_all (authorised env md) ws2"
    using 1(5) monitor_calls by (fastforce simp: list_all_iff)
  ultimately show ?thesis
    by (simp add: 1(2))
qed

text \<open>
  The rules do not depend on scraping. The calls of a pass on the rule object are those of reconciling the
  rules alone: the same when the ServiceMonitor is disabled, its kind is not served, or its apply is refused.
\<close>

lemma rules_independent_of_scraping:
  assumes "reconcileObservability env md p = ((v, err), p', ws)"
  shows "filter (\<lambda>c. call_kind c = Some PrometheusRuleGVK) ws =
    filter (\<lambda>c. call_kind c = Some PrometheusRuleGVK) (snd (snd (reconcilePrometheusRule env md p)))"
proof (cases rule: reconcile_cases [OF assms])
  case (1 msg st rerr p1 ws1 v0 p2 ws2 d)
  have "ServiceMonitorGVK \<noteq> PrometheusRuleGVK"
    by (simp add: ServiceMonitorGVK_def PrometheusRuleGVK_def KindServiceMonitor_def KindPrometheusRule_def)
  then have "call_kind c \<noteq> Some PrometheusRuleGVK" if "c \<in> set ws2" for c
    using that 1(5) monitor_calls by (fastforce simp: list_all_iff concerns_def)
  then show ?thesis
    by (simp add: 1 filter_empty_conv)
qed

section \<open>The verdict\<close>

text \<open>What each verdict of the ServiceMonitor part rests on.\<close>

lemma monitor_verdict:
  assumes "reconcileServiceMonitor env md msg p = ((v, err), p1, ws)"
  shows "mv_Status v = ConditionTrue \<Longrightarrow> err = None \<and> ShimEnabled (sp_Serving (md_Spec md)) \<and>
      (\<exists>rv. ApplyMonitoring ServiceMonitorGVK (monitor_object env md) rv \<in> set ws)"
    and "mv_Reason v = ReasonServiceMonitorDisabled \<Longrightarrow>
      (\<exists>e. oe_Get env ServiceMonitorGVK = Inl e \<and> missing e) \<or> (\<exists>e. oe_Delete env ServiceMonitorGVK = Some e \<and> missing e) \<or>
      (\<exists>n uid. DeleteMonitoring ServiceMonitorGVK n uid \<in> set ws)"
    and "mv_Reason v = ReasonPrometheusOperatorCRDsAbsent \<Longrightarrow>
      \<not> is_NoProbe p \<and> fst (probe_Has (oe_ProbeMonitor env) ServiceMonitorGVK p) = Inr False"
proof -
  note reasons = ReasonMetricsRegistered_def ReasonPrometheusOperatorCRDsAbsent_def ReasonServiceMonitorDisabled_def
    ReasonShimDisabled_def ReasonReconciling_def
  have applied: "\<exists>rv. ApplyMonitoring ServiceMonitorGVK o1 rv \<in> set us"
    if "applyObservabilityChild env md ServiceMonitorGVK n o1 q = (q1, us, None)" for n o1 q q1 us
    by (cases rule: apply_cases [OF that]) auto
  show "err = None \<and> ShimEnabled (sp_Serving (md_Spec md)) \<and>
      (\<exists>rv. ApplyMonitoring ServiceMonitorGVK (monitor_object env md) rv \<in> set ws)" if "mv_Status v = ConditionTrue"
    using assms that applied
    by (auto simp: reconcileServiceMonitor_def Let_def mverdict_def split: if_splits prod.splits option.splits sum.splits bool.splits)
  have removed: "(\<exists>e. oe_Get env ServiceMonitorGVK = Inl e \<and> missing e) \<or> (\<exists>e. oe_Delete env ServiceMonitorGVK = Some e \<and> missing e) \<or>
      (\<exists>n uid. DeleteMonitoring ServiceMonitorGVK n uid \<in> set us)"
    if "deleteObservabilityChild env md ServiceMonitorGVK n = (us, None)" for n us
    by (cases rule: delete_cases [OF that]) auto
  show "(\<exists>e. oe_Get env ServiceMonitorGVK = Inl e \<and> missing e) \<or> (\<exists>e. oe_Delete env ServiceMonitorGVK = Some e \<and> missing e) \<or>
      (\<exists>n uid. DeleteMonitoring ServiceMonitorGVK n uid \<in> set ws)" if "mv_Reason v = ReasonServiceMonitorDisabled"
    using assms that removed
    by (auto simp: reconcileServiceMonitor_def Let_def mverdict_def reasons
        split: if_splits prod.splits option.splits sum.splits bool.splits)
  show "\<not> is_NoProbe p \<and> fst (probe_Has (oe_ProbeMonitor env) ServiceMonitorGVK p) = Inr False"
    if "mv_Reason v = ReasonPrometheusOperatorCRDsAbsent"
    using assms that
    by (auto simp: reconcileServiceMonitor_def Let_def mverdict_def reasons
        split: if_splits prod.splits option.splits sum.splits bool.splits)
qed

lemma rule_error_status:
  "reconcilePrometheusRule env md p = ((msg, st, Some e), p1, ws) \<Longrightarrow> st \<noteq> ConditionTrue"
  by (auto simp: reconcilePrometheusRule_def Let_def split: if_splits prod.splits option.splits sum.splits bool.splits)

text \<open>
  C31. The verdict is what the pass did. \<open>MetricsRegistered\<close> is true only if the sidecar is enabled, this pass
  applied the ServiceMonitor and nothing failed; that scraping is disabled is reported only if the server said
  the object is not there or accepted its deletion; a pass that returns an error never reports success.
\<close>

theorem verdict_matches_actions:
  assumes "reconcileObservability env md p = ((v, err), p', ws)"
  shows "if mv_Status v = ConditionTrue
      then err = None \<and> ShimEnabled (sp_Serving (md_Spec md)) \<and>
        (\<exists>rv. ApplyMonitoring ServiceMonitorGVK (monitor_object env md) rv \<in> set ws)
      else if mv_Reason v = ReasonServiceMonitorDisabled
      then (\<exists>e. oe_Get env ServiceMonitorGVK = Inl e \<and> missing e) \<or>
        (\<exists>e. oe_Delete env ServiceMonitorGVK = Some e \<and> missing e) \<or>
        (\<exists>n uid. DeleteMonitoring ServiceMonitorGVK n uid \<in> set ws)
      else True"
proof (cases rule: reconcile_cases [OF assms])
  case (1 msg st rerr p1 ws1 v0 p2 ws2 d)
  have same: "mv_Status v = mv_Status v0" "mv_Reason v = mv_Reason v0"
    by (simp_all add: 1(3))
  show ?thesis
  proof (cases rerr)
    case None
    then have m: "reconcileServiceMonitor env md msg p1 = ((v0, err), p2, ws2)"
      using 1(5) by simp
    show ?thesis
      using monitor_verdict(1,2) [OF m] by (auto simp: same 1(2))
  next
    case (Some e)
    then have "mv_Status v0 \<noteq> ConditionTrue" "mv_Reason v0 \<noteq> ReasonServiceMonitorDisabled"
      using 1(1,5) rule_error_status
      by (auto simp: mverdict_def ReasonReconciling_def ReasonServiceMonitorDisabled_def)
    then show ?thesis
      by (simp add: same)
  qed
qed

section \<open>Absence is witnessed\<close>

text \<open>Reconciling the rules leaves what the prober knows of other kinds.\<close>

lemma probe_Has_Probing:
  "probe_Has c g (Probing pb) = (r, p1) \<Longrightarrow> \<exists>pb1. p1 = Probing pb1 \<and> (\<forall>h. h \<noteq> g \<longrightarrow> pb_cache pb1 h = pb_cache pb h)"
  by (cases rule: Has_cases [of c pb g]) (auto simp: probe_Has_def cache_store)

lemma apply_keeps_others:
  assumes "applyObservabilityChild env md g name desired (Probing pb) = (p1, ws, err)"
  shows "\<exists>pb1. p1 = Probing pb1 \<and> (\<forall>h. h \<noteq> g \<longrightarrow> pb_cache pb1 h = pb_cache pb h)"
  by (cases rule: apply_cases [OF assms]) (auto simp: probe_Invalidate_def cache_Invalidate)

lemma rule_keeps_others:
  assumes "reconcilePrometheusRule env md (Probing pb) = (r, p1, ws)"
  shows "\<exists>pb1. p1 = Probing pb1 \<and> (\<forall>h. h \<noteq> PrometheusRuleGVK \<longrightarrow> pb_cache pb1 h = pb_cache pb h)"
proof (cases "PrometheusRuleEnabled (Some (sp_Observability (md_Spec md)))")
  case False
  then show ?thesis
    using assms by (auto simp: reconcilePrometheusRule_def split: prod.splits option.splits)
next
  case True
  obtain r0 p0 where has: "probe_Has (oe_ProbeRule env) PrometheusRuleGVK (Probing pb) = (r0, p0)"
    by (cases "probe_Has (oe_ProbeRule env) PrometheusRuleGVK (Probing pb)")
  obtain pb0 where pb0: "p0 = Probing pb0" "\<forall>h. h \<noteq> PrometheusRuleGVK \<longrightarrow> pb_cache pb0 h = pb_cache pb h"
    using probe_Has_Probing [OF has] by blast
  have "p1 = p0 \<or> (\<exists>us e. applyObservabilityChild env md PrometheusRuleGVK
      (PrometheusRule (oe_SafeEncode env) (md_Name md)) (rule_object env md) (Probing pb0) = (p1, us, e))"
    using assms True has pb0(1)
    by (auto simp: reconcilePrometheusRule_def Let_def split: prod.splits option.splits sum.splits bool.splits)
  then show ?thesis
    using pb0 apply_keeps_others by metis
qed

text \<open>
  C32. The claim that the cluster does not serve ServiceMonitor is never made up from a failure. When a pass
  reports it, the cluster answered so in this pass; or a worker recorded a definitive answer of the cluster
  that this kind is not served, and that answer was stored in the cache no earlier than it was given, no
  later than the clock the workers had reached, and less than thirty seconds before the pass looked.
\<close>

theorem absence_is_witnessed:
  assumes "prober_step\<^sup>*\<^sup>* (probing_start t0 (NewFor [])) s"
    and "reconcileObservability env md (Probing (pg_prober s)) = ((v, err), p', ws)"
    and "mv_Reason v = ReasonPrometheusOperatorCRDsAbsent"
  shows "served ServiceMonitorGVK (hc_client (oe_ProbeMonitor env) (groupVersion ServiceMonitorGVK)) = Inr False \<or>
    (\<exists>t a u. (t, ServiceMonitorGVK, a) \<in> pg_log s \<and> served ServiceMonitorGVK a = Inr False \<and> t \<le> u \<and>
      u \<le> pg_now s \<and> hc_lookup (oe_ProbeMonitor env) < u + 30 * go_Second)"
proof (cases rule: reconcile_cases [OF assms(2)])
  case (1 msg st rerr p1 ws1 v0 p2 ws2 d)
  have reason: "mv_Reason v0 = ReasonPrometheusOperatorCRDsAbsent"
    using assms(3) by (simp add: 1(3))
  then have m: "reconcileServiceMonitor env md msg p1 = ((v0, err), p2, ws2)"
    using 1(5) by (auto simp: mverdict_def ReasonReconciling_def ReasonPrometheusOperatorCRDsAbsent_def)
  have "ServiceMonitorGVK \<noteq> PrometheusRuleGVK"
    by (simp add: ServiceMonitorGVK_def PrometheusRuleGVK_def KindServiceMonitor_def KindPrometheusRule_def)
  then obtain pb1 where pb1: "p1 = Probing pb1"
      "pb_cache pb1 ServiceMonitorGVK = pb_cache (pg_prober s) ServiceMonitorGVK"
    using rule_keeps_others [OF 1(1)] by blast
  have "fst (Has (oe_ProbeMonitor env) ServiceMonitorGVK pb1) = Inr False"
    using monitor_verdict(3) [OF m reason] by (simp add: pb1(1) probe_Has_def)
  then show ?thesis
  proof (cases rule: Has_cases [of "oe_ProbeMonitor env" pb1 ServiceMonitorGVK])
    case (hit b)
    then have "lookup (hc_lookup (oe_ProbeMonitor env)) (pg_prober s) ServiceMonitorGVK = Some False"
      using \<open>fst (Has (oe_ProbeMonitor env) ServiceMonitorGVK pb1) = Inr False\<close> pb1(2) by (simp add: lookup_def)
    from reachable_lookup [OF assms(1) this] show ?thesis
      by (metis (full_types))
  qed auto
qed

section \<open>The next repair\<close>

lemma resync_loop_some: "resync_loop ks p = (Some d, p1) \<Longrightarrow> d = AbsentTTL"
  by (induction ks p rule: resync_loop.induct) (auto split: if_splits prod.splits sum.splits bool.splits)

text \<open>
  The next repair is scheduled on every path, errors included: after thirty seconds, or after at least four and
  a half and at most five and a half minutes; not at all only when both objects are disabled.
\<close>

lemma repair_is_scheduled:
  assumes "reconcileObservability env md p = ((v, err), p', ws)"
  shows "if ServiceMonitorEnabled (Some (sp_Observability (md_Spec md))) \<or> PrometheusRuleEnabled (Some (sp_Observability (md_Spec md)))
    then mv_RequeueAfter v = 30 * go_Second \<or> 270 * go_Second \<le> mv_RequeueAfter v \<and> mv_RequeueAfter v \<le> 330 * go_Second
    else mv_RequeueAfter v = 0"
proof (cases rule: reconcile_cases [OF assms])
  case (1 msg st rerr p1 ws1 v0 p2 ws2 d)
  let ?spec = "Some (sp_Observability (md_Spec md))"
  have jitter: "0 \<le> n mod 61 \<and> n mod 61 \<le> 60" for n :: int
    by simp
  have d: "d = 30 * go_Second \<or> (if resync_kinds env ?spec = [] then d = 0 else 270 * go_Second \<le> d \<and> d \<le> 330 * go_Second)"
    using 1(4) jitter [of "uint (fnv32a (md_UID md @ ''/'' @ md_Namespace md @ ''/'' @ md_Name md))"]
    by (auto simp: observabilityResync_def Let_def AbsentTTL_def go_Second_def dest: resync_loop_some
        split: prod.splits option.splits if_splits)
  have none: "resync_kinds env ?spec = [] \<longleftrightarrow> \<not> ServiceMonitorEnabled ?spec \<and> \<not> PrometheusRuleEnabled ?spec"
    by (simp add: resync_kinds_def)
  have "d = 0" if "resync_kinds env ?spec = []"
    using 1(4) that by (simp add: observabilityResync_def)
  then show ?thesis
    using d none by (auto simp: 1(3) go_Second_def split: if_splits)
qed

section \<open>A cluster\<close>

text \<open>A cluster where nothing exists yet, whose client answers as given and which accepts every call.\<close>

definition sample_call :: "discovery_answer \<Rightarrow> has_call" where
  "sample_call a = \<lparr>hc_lookup = 7, hc_client = (\<lambda>_. a), hc_store = 8\<rparr>"

definition sample_child :: MonitoringObject where
  "sample_child = \<lparr>ko_UID = ''m1'', ko_ResourceVersion = ''1'', ko_ControllerUID = Some ''u1''\<rparr>"

definition sample_obs_env :: "discovery_answer \<Rightarrow> ObsEnv" where
  "sample_obs_env a = \<lparr>oe_SafeEncode = (\<lambda>s. s), oe_Resettable = True, oe_ProbeRule = sample_call a,
     oe_ProbeMonitor = sample_call a, oe_ResyncMonitor = sample_call a, oe_ResyncRule = sample_call a,
     oe_Get = (\<lambda>_. Inl (KubeNotFound ''404'')), oe_Create = (\<lambda>_. Inr sample_child), oe_Apply = (\<lambda>_. None),
     oe_Delete = (\<lambda>_. None)\<rparr>"

definition sample_serving :: ObsEnv where
  "sample_serving = sample_obs_env (Inr [''ServiceMonitor'', ''PrometheusRule''])"

definition sample_bare :: ObsEnv where
  "sample_bare = sample_obs_env (Inl (ErrNotFound ''404''))"

abbreviation sample_obs_md :: ModelDeployment where
  "sample_obs_md \<equiv> sample_md RolloutRecreate"

lemmas obs_sample_simps = sample_serving_def sample_bare_def sample_obs_env_def sample_call_def sample_child_def
  sample_md_defs zero_shim_def probe_Has_def Has_def lookup_store lookup_Invalidate served_def
  NewFor_TTLs lookup_def ttl_for_def PresentTTL_def AbsentTTL_def go_Second_def isGroupDiscoveryFailure_def
  ServiceMonitorGVK_def PrometheusRuleGVK_def KindServiceMonitor_def KindPrometheusRule_def
  applyObservabilityChild_def IsControlledBy_def ServiceMonitorEnabled_def PrometheusRuleEnabled_def ShimEnabled_def

definition sample_calls :: "MonitoringCall list" where
  "sample_calls =
     [CreateMonitoring PrometheusRuleGVK (rule_object sample_serving sample_obs_md),
      ApplyMonitoring PrometheusRuleGVK (rule_object sample_serving sample_obs_md) ''1'',
      CreateMonitoring ServiceMonitorGVK (monitor_object sample_serving sample_obs_md),
      ApplyMonitoring ServiceMonitorGVK (monitor_object sample_serving sample_obs_md) ''1'']"

lemma sample_serving_rules: "\<exists>msg pb. reconcilePrometheusRule sample_serving sample_obs_md (Probing (NewFor [])) =
    ((msg, ConditionTrue, None), Probing pb, take 2 sample_calls) \<and> pb = store 8 PrometheusRuleGVK True (NewFor [])"
  by (simp add: reconcilePrometheusRule_def obs_sample_simps sample_calls_def)

lemma sample_serving_pass: "\<exists>v p'. reconcileObservability sample_serving sample_obs_md (Probing (NewFor [])) =
    ((v, None), p', sample_calls) \<and> mv_Status v = ConditionTrue"
proof -
  obtain msg where r: "reconcilePrometheusRule sample_serving sample_obs_md (Probing (NewFor [])) =
      ((msg, ConditionTrue, None), Probing (store 8 PrometheusRuleGVK True (NewFor [])), take 2 sample_calls)"
    using sample_serving_rules by blast
  have "\<exists>v pb. reconcileServiceMonitor sample_serving sample_obs_md msg (Probing (store 8 PrometheusRuleGVK True (NewFor []))) =
      ((v, None), Probing pb, drop 2 sample_calls) \<and> mv_Status v = ConditionTrue"
    by (simp add: reconcileServiceMonitor_def obs_sample_simps cache_store Let_def sample_calls_def mverdict_def)
  then obtain v pb where m: "reconcileServiceMonitor sample_serving sample_obs_md msg (Probing (store 8 PrometheusRuleGVK True (NewFor []))) =
      ((v, None), Probing pb, drop 2 sample_calls)" "mv_Status v = ConditionTrue"
    by blast
  obtain d q where "observabilityResync sample_serving sample_obs_md (Probing pb) = (d, q)"
    by (cases "observabilityResync sample_serving sample_obs_md (Probing pb)")
  then show ?thesis
    using m by (simp add: reconcileObservability_def r)
qed

lemma sample_bare_pass: "\<exists>v p' ws. reconcileObservability sample_bare sample_obs_md (Probing (NewFor [])) =
    ((v, None), p', ws) \<and> mv_Reason v = ReasonPrometheusOperatorCRDsAbsent"
proof -
  let ?p = "Probing (store 8 PrometheusRuleGVK False (NewFor []))"
  have r: "\<exists>msg. reconcilePrometheusRule sample_bare sample_obs_md (Probing (NewFor [])) = ((msg, ConditionTrue, None), ?p, [])"
    by (simp add: reconcilePrometheusRule_def obs_sample_simps)
  then obtain msg where msg: "reconcilePrometheusRule sample_bare sample_obs_md (Probing (NewFor [])) = ((msg, ConditionTrue, None), ?p, [])"
    by blast
  have "\<exists>v q. reconcileServiceMonitor sample_bare sample_obs_md msg ?p = ((v, None), q, []) \<and>
      mv_Reason v = ReasonPrometheusOperatorCRDsAbsent"
    by (simp add: reconcileServiceMonitor_def obs_sample_simps cache_store Let_def mverdict_def)
  then obtain v q where m: "reconcileServiceMonitor sample_bare sample_obs_md msg ?p = ((v, None), q, [])"
      "mv_Reason v = ReasonPrometheusOperatorCRDsAbsent"
    by blast
  obtain d q' where "observabilityResync sample_bare sample_obs_md q = (d, q')"
    by (cases "observabilityResync sample_bare sample_obs_md q")
  then show ?thesis
    using m by (simp add: reconcileObservability_def msg)
qed

theorem monitoring_objects_owned_witness: "list_all (authorised sample_serving sample_obs_md) sample_calls"
proof -
  obtain v p' where "reconcileObservability sample_serving sample_obs_md (Probing (NewFor [])) = ((v, None), p', sample_calls)"
    using sample_serving_pass by blast
  then show ?thesis
    by (rule monitoring_objects_owned)
qed

theorem verdict_matches_actions_witness:
  "\<exists>v p'. reconcileObservability sample_serving sample_obs_md (Probing (NewFor [])) = ((v, None), p', sample_calls) \<and>
    ShimEnabled (sp_Serving (md_Spec sample_obs_md)) \<and>
    (\<exists>rv. ApplyMonitoring ServiceMonitorGVK (monitor_object sample_serving sample_obs_md) rv \<in> set sample_calls)"
proof -
  obtain v p' where pass: "reconcileObservability sample_serving sample_obs_md (Probing (NewFor [])) = ((v, None), p', sample_calls)"
      "mv_Status v = ConditionTrue"
    using sample_serving_pass by blast
  have "ShimEnabled (sp_Serving (md_Spec sample_obs_md)) \<and>
      (\<exists>rv. ApplyMonitoring ServiceMonitorGVK (monitor_object sample_serving sample_obs_md) rv \<in> set sample_calls)"
    using verdict_matches_actions [OF pass(1)] by (simp only: pass(2) if_True)
  with pass(1) show ?thesis
    by blast
qed

text \<open>A cluster whose discovery times out now, and a prober that was told so before.\<close>

definition sample_timeout :: ObsEnv where
  "sample_timeout = sample_bare\<lparr>oe_ProbeMonitor := sample_call (Inl (ErrOther ''timeout''))\<rparr>"

lemma sample_timeout_pass:
  "\<exists>v p' ws. reconcileObservability sample_timeout sample_obs_md
      (Probing (pg_prober (sample_probing (Inl (ErrNotFound ''404''))))) = ((v, None), p', ws) \<and>
    mv_Reason v = ReasonPrometheusOperatorCRDsAbsent"
proof -
  let ?cache = "pg_prober (sample_probing (Inl (ErrNotFound ''404'')))"
  let ?p = "Probing (store 8 PrometheusRuleGVK False ?cache)"
  have kind: "sample_kind = ServiceMonitorGVK"
    by (simp add: sample_kind_def ServiceMonitorGVK_def KindServiceMonitor_def MonitoringGroup_def MonitoringVersion_def)
  have p0: "?cache = store 7 ServiceMonitorGVK False (NewFor [])"
    by (simp add: sample_probing_def kind)
  have "\<exists>msg. reconcilePrometheusRule sample_timeout sample_obs_md (Probing ?cache) = ((msg, ConditionTrue, None), ?p, [])"
    unfolding p0 by (simp add: reconcilePrometheusRule_def sample_timeout_def obs_sample_simps cache_store)
  then obtain msg where msg: "reconcilePrometheusRule sample_timeout sample_obs_md (Probing ?cache) = ((msg, ConditionTrue, None), ?p, [])"
    by blast
  have "\<exists>v q. reconcileServiceMonitor sample_timeout sample_obs_md msg ?p = ((v, None), q, []) \<and>
      mv_Reason v = ReasonPrometheusOperatorCRDsAbsent"
    unfolding p0
    by (simp add: reconcileServiceMonitor_def sample_timeout_def obs_sample_simps cache_store Let_def mverdict_def Before_def)
  then obtain v q where m: "reconcileServiceMonitor sample_timeout sample_obs_md msg ?p = ((v, None), q, [])"
      "mv_Reason v = ReasonPrometheusOperatorCRDsAbsent"
    by blast
  obtain d q' where "observabilityResync sample_timeout sample_obs_md q = (d, q')"
    by (cases "observabilityResync sample_timeout sample_obs_md q")
  then show ?thesis
    using m by (simp add: reconcileObservability_def msg)
qed

theorem absence_is_witnessed_witness:
  "\<exists>t a u. (t, ServiceMonitorGVK, a) \<in> pg_log (sample_probing (Inl (ErrNotFound ''404''))) \<and>
     served ServiceMonitorGVK a = Inr False \<and> t \<le> u \<and> u \<le> 7 \<and> 7 < u + 30 * go_Second"
proof -
  let ?s = "sample_probing (Inl (ErrNotFound ''404''))"
  obtain v p' ws where pass: "reconcileObservability sample_timeout sample_obs_md (Probing (pg_prober ?s)) = ((v, None), p', ws)"
      "mv_Reason v = ReasonPrometheusOperatorCRDsAbsent"
    using sample_timeout_pass by blast
  have now: "pg_now ?s = 7" "hc_lookup (oe_ProbeMonitor sample_timeout) = 7"
    by (simp_all add: sample_probing_def sample_timeout_def sample_call_def)
  have "served ServiceMonitorGVK (hc_client (oe_ProbeMonitor sample_timeout) (groupVersion ServiceMonitorGVK)) \<noteq> Inr False"
    by (simp add: sample_timeout_def sample_call_def served_def isGroupDiscoveryFailure_def)
  then show ?thesis
    using absence_is_witnessed [OF sample_probing_run pass] unfolding now by blast
qed

section \<open>A misleading message\<close>

text \<open>
  A threshold above thirty seconds is lowered to the last boundary, while the condition tells its author that it
  was snapped up to a boundary at or above the configured value.
\<close>

theorem lowered_threshold_called_raised:
  assumes "flt (Fin 30) (ResolvedTTFTThreshold (slo_of spec))"
  shows "\<exists>text. snapped_message spec = '' (the TTFT threshold was snapped up to '' @ FormatFloat_g_shortest (Fin 30) @
      ''s, the nearest histogram bucket boundary '' @ ''at or above the configured value '' @ text"
proof -
  have "fst (SnappedThreshold spec) = Fin 30" "snd (SnappedThreshold spec)"
    using ttft_threshold_is_boundary [of spec] assms by (auto simp: flt_irrefl)
  then show ?thesis
    by (simp add: snapped_message_def split_beta)
qed

theorem lowered_threshold_called_raised_witness:
  "\<exists>text. snapped_message (Some \<lparr>ob_ServiceMonitor = None, ob_PrometheusRule = None, ob_SLO = Some \<lparr>sl_TTFTThreshold =
       Some \<lparr>q_MilliValue = 45000, q_String = ''45''\<rparr>, sl_TTFTObjective = None, sl_AvailabilityObjective = None\<rparr>\<rparr>) =
     '' (the TTFT threshold was snapped up to '' @ FormatFloat_g_shortest (Fin 30) @
      ''s, the nearest histogram bucket boundary '' @ ''at or above the configured value '' @ text"
  by (rule lowered_threshold_called_raised)
    (use round64_exact [of 45000] round64_exact [of 45] in \<open>simp add: ResolvedTTFTThreshold_def f64_of_i64_def\<close>)

end
