(* ===== verification/Prometheus.thy ===== *)
theory Prometheus
  imports Analysis Go_Json
begin

text \<open>
  The metric backend of the controller (\<open>internal/analysis/prometheus.go\<close>): one query over the Prometheus HTTP
  API, with every way it can fail. The HTTP client is what it answers to a request: an error, or a status
  code and a body whose reading may fail. The parser of URLs and the texts of decoding errors are parameters
  too. Decoding the envelope is \<open>encoding/json\<close> as \<open>Go_Json\<close> models it; a raw message is the value it holds.
  \<open>strconv.ParseFloat\<close> is written out: decimal and hexadecimal literals with underscores, the special values,
  and the range error.
\<close>

section \<open>ParseFloat\<close>

definition lower :: "char \<Rightarrow> char" where
  "lower c = (if 65 \<le> byte c \<and> byte c \<le> 90 then char_of (byte c + 32) else c)"

definition is_hex_letter :: "char \<Rightarrow> bool" where
  "is_hex_letter c \<longleftrightarrow> 97 \<le> byte (lower c) \<and> byte (lower c) \<le> 102"

text \<open>The digits of the mantissa: what was read so far, and how many digits stand after the point.\<close>

record mantissa =
  mn_value :: int
  mn_frac :: nat
  mn_dot :: bool
  mn_digits :: bool
  mn_underscores :: bool

definition mantissa_start :: mantissa where
  "mantissa_start = \<lparr>mn_value = 0, mn_frac = 0, mn_dot = False, mn_digits = False, mn_underscores = False\<rparr>"

definition digit_value :: "char \<Rightarrow> int" where
  "digit_value c = (if is_digit c then int (byte c) - 48 else int (byte (lower c)) - 87)"

fun read_mantissa :: "bool \<Rightarrow> string \<Rightarrow> mantissa \<Rightarrow> mantissa \<times> string" where
  "read_mantissa hex [] m = (m, [])"
| "read_mantissa hex (c # cs) m =
     (if c = CHR ''_'' then read_mantissa hex cs (m\<lparr>mn_underscores := True\<rparr>)
      else if c = CHR ''.'' then
        (if mn_dot m then (m, c # cs) else read_mantissa hex cs (m\<lparr>mn_dot := True\<rparr>))
      else if is_digit c \<or> hex \<and> is_hex_letter c then
        read_mantissa hex cs (m\<lparr>mn_value := mn_value m * (if hex then 16 else 10) + digit_value c,
          mn_frac := (if mn_dot m then mn_frac m + 1 else mn_frac m), mn_digits := True\<rparr>)
      else (m, c # cs))"

text \<open>The digits of the exponent, which stop to count at 10000, and whether there was an underscore.\<close>

fun read_exponent :: "string \<Rightarrow> int \<Rightarrow> bool \<Rightarrow> int \<times> bool \<times> string" where
  "read_exponent [] e u = (e, u, [])"
| "read_exponent (c # cs) e u =
     (if is_digit c then read_exponent cs (if e < 10000 then e * 10 + (int (byte c) - 48) else e) u
      else if c = CHR ''_'' then read_exponent cs e True
      else (e, u, c # cs))"

definition split_sign :: "string \<Rightarrow> bool \<times> string" where
  "split_sign s = (case s of c # cs \<Rightarrow> if c = CHR ''-'' then (True, cs) else if c = CHR ''+'' then (False, cs) else (False, s)
     | [] \<Rightarrow> (False, s))"

text \<open>\<open>underscoreOK\<close>: the class of the previous character is at the start, a digit, an underscore, or another.\<close>

datatype prev_char = AtStart | AfterDigit | AfterUnderscore | AfterOther

fun underscores_ok :: "bool \<Rightarrow> prev_char \<Rightarrow> string \<Rightarrow> bool" where
  "underscores_ok hex p [] = (p \<noteq> AfterUnderscore)"
| "underscores_ok hex p (c # cs) =
     (if is_digit c \<or> hex \<and> is_hex_letter c then underscores_ok hex AfterDigit cs
      else if c = CHR ''_'' then p = AfterDigit \<and> underscores_ok hex AfterUnderscore cs
      else p \<noteq> AfterUnderscore \<and> underscores_ok hex AfterOther cs)"

definition underscoreOK :: "string \<Rightarrow> bool" where
  "underscoreOK s0 =
     (let s = snd (split_sign s0)
      in case s of
           a # b # cs \<Rightarrow>
             if a = CHR ''0'' \<and> lower b \<in> {CHR ''b'', CHR ''o'', CHR ''x''}
             then underscores_ok (lower b = CHR ''x'') AfterDigit cs else underscores_ok False AtStart s
         | _ \<Rightarrow> underscores_ok False AtStart s)"

definition special :: "string \<Rightarrow> f64 option" where
  "special s =
     (let (neg, r) = split_sign s; w = map lower r
      in if w = ''inf'' \<or> w = ''infinity'' then Some (if neg then NInf else PInf)
         else if map lower s = ''nan'' then Some NaN else None)"

text \<open>\<open>readFloat\<close>: the sign and the exact value of a literal, \<open>None\<close> where it is not one.\<close>

definition hex_prefix :: "string \<Rightarrow> bool" where
  "hex_prefix s = (case s of a # b # c # cs \<Rightarrow> a = CHR ''0'' \<and> lower b = CHR ''x'' | _ \<Rightarrow> False)"

definition readFloat :: "string \<Rightarrow> (bool \<times> rat) option" where
  "readFloat s =
     (let (neg, r) = split_sign s;
          hex = hex_prefix r;
          (m, rest) = read_mantissa hex (if hex then drop 2 r else r) mantissa_start;
          scaled = (\<lambda>e. of_int (mn_value m) * (if hex then pow2 e / 16 ^ mn_frac m else rat_pow10 e / 10 ^ mn_frac m))
      in if \<not> mn_digits m then None
         else (case rest of
             [] \<Rightarrow> if hex \<or> mn_underscores m \<and> \<not> underscoreOK s then None else Some (neg, scaled 0)
           | c # cs \<Rightarrow>
               if lower c \<noteq> (if hex then CHR ''p'' else CHR ''e'') then None
               else
                 (let (eneg, ds) = split_sign cs
                  in case ds of
                       [] \<Rightarrow> None
                     | d # _ \<Rightarrow>
                         if \<not> is_digit d then None
                         else
                           (let (e, u, rest2) = read_exponent ds 0 False
                            in if rest2 \<noteq> [] \<or> (mn_underscores m \<or> u) \<and> \<not> underscoreOK s then None
                               else Some (neg, scaled (if eneg then - e else e))))))"

text \<open>\<open>strconv.ParseFloat(s, 64)\<close>, \<open>None\<close> for its error: no number, or a number beyond the range.\<close>

definition ParseFloat :: "string \<Rightarrow> f64 option" where
  "ParseFloat s =
     (case special s of
        Some v \<Rightarrow> Some v
      | None \<Rightarrow>
          (case readFloat s of
             None \<Rightarrow> None
           | Some (neg, q) \<Rightarrow>
               (let v = round64 (if neg then - q else q) in if IsInf v then None else Some v)))"

section \<open>The request\<close>

text \<open>\<open>url.Values.Encode\<close> of the one parameter: \<open>url.QueryEscape\<close> of its text.\<close>

definition upper_hex :: "nat \<Rightarrow> char" where
  "upper_hex n = (if n < 10 then char_of (48 + n) else char_of (55 + n))"

definition unreserved :: "char \<Rightarrow> bool" where
  "unreserved c \<longleftrightarrow> is_digit c \<or> 97 \<le> byte c \<and> byte c \<le> 122 \<or> 65 \<le> byte c \<and> byte c \<le> 90 \<or>
     c = CHR ''-'' \<or> c = CHR ''_'' \<or> c = CHR ''.'' \<or> c = CHR ''~''"

definition escape_byte :: "char \<Rightarrow> string" where
  "escape_byte c = (if unreserved c then [c] else if c = CHR '' '' then ''+''
     else [CHR ''%'', upper_hex (byte c div 16), upper_hex (byte c mod 16)])"

definition QueryEscape :: "string \<Rightarrow> string" where
  "QueryEscape s = concat (map escape_byte s)"

definition form_Encode :: "string \<Rightarrow> string" where
  "form_Encode query = ''query='' @ QueryEscape query"

record http_request =
  hr_URL :: string
  hr_Body :: string
  hr_Timeout :: go_duration

datatype http_answer = HttpFailed string | HttpResponse int string "string option"

record prom_env =
  pe_ParseURL :: "string \<Rightarrow> string + string"
  pe_NewRequest :: "string \<Rightarrow> string option"
  pe_Do :: "http_request \<Rightarrow> http_answer"
  pe_JsonError :: "string \<Rightarrow> string"
  pe_ValueError :: "json \<Rightarrow> string"
  pe_FloatError :: "string \<Rightarrow> string"

record PrometheusProvider =
  pp_Address :: string
  pp_Timeout :: go_duration

definition maxResponseBytes :: nat where "maxResponseBytes = 4194304"
definition statusSuccess :: string where "statusSuccess = ''success''"

definition TrimRight_slash :: "string \<Rightarrow> string" where
  "TrimRight_slash s = rev (dropWhile (\<lambda>c. c = CHR ''/'') (rev s))"

text \<open>\<open>io.ReadAll(io.LimitReader(body, max))\<close>: a failure after the limit is not seen.\<close>

definition read_limited :: "string \<Rightarrow> string option \<Rightarrow> string + string" where
  "read_limited bytes failure =
     (if length bytes \<ge> maxResponseBytes then Inr (take maxResponseBytes bytes)
      else (case failure of Some e \<Rightarrow> Inl e | None \<Rightarrow> Inr bytes))"

section \<open>The response\<close>

record promResult =
  pv_Value :: "json slice"

record promData =
  pd_ResultType :: string
  pd_Result :: "promResult slice"

record promResponse =
  pm_Status :: string
  pm_Data :: promData
  pm_ErrorType :: string
  pm_Error :: string
  pm_Warnings :: "string slice"

definition zero_promResponse :: promResponse where
  "zero_promResponse = \<lparr>pm_Status = '''', pm_Data = \<lparr>pd_ResultType = '''', pd_Result = ([], [])\<rparr>,
     pm_ErrorType = '''', pm_Error = '''', pm_Warnings = ([], [])\<rparr>"

definition dec_result :: "json \<Rightarrow> promResult \<Rightarrow> promResult option" where
  "dec_result = dec_struct (\<lambda>k v r.
     if key_is ''value'' k then map_option (\<lambda>x. r\<lparr>pv_Value := x\<rparr>) (dec_slice (\<lambda>j _. Some j) JNull v (pv_Value r))
     else Some r)"

definition dec_data :: "json \<Rightarrow> promData \<Rightarrow> promData option" where
  "dec_data = dec_struct (\<lambda>k v d.
     if key_is ''resultType'' k then map_option (\<lambda>x. d\<lparr>pd_ResultType := x\<rparr>) (dec_string v (pd_ResultType d))
     else if key_is ''result'' k
       then map_option (\<lambda>x. d\<lparr>pd_Result := x\<rparr>) (dec_slice dec_result \<lparr>pv_Value = ([], [])\<rparr> v (pd_Result d))
     else Some d)"

definition dec_promResponse :: "json \<Rightarrow> promResponse \<Rightarrow> promResponse option" where
  "dec_promResponse = dec_struct (\<lambda>k v r.
     if key_is ''status'' k then map_option (\<lambda>x. r\<lparr>pm_Status := x\<rparr>) (dec_string v (pm_Status r))
     else if key_is ''data'' k then map_option (\<lambda>x. r\<lparr>pm_Data := x\<rparr>) (dec_data v (pm_Data r))
     else if key_is ''errorType'' k then map_option (\<lambda>x. r\<lparr>pm_ErrorType := x\<rparr>) (dec_string v (pm_ErrorType r))
     else if key_is ''error'' k then map_option (\<lambda>x. r\<lparr>pm_Error := x\<rparr>) (dec_string v (pm_Error r))
     else if key_is ''warnings'' k
       then map_option (\<lambda>x. r\<lparr>pm_Warnings := x\<rparr>) (dec_slice dec_string '''' v (pm_Warnings r))
     else Some r)"

definition scalarFrom :: "prom_env \<Rightarrow> json list \<Rightarrow> string + f64" where
  "scalarFrom env pair =
     (if length pair \<noteq> 2 then
        Inl (''malformed sample: expected [timestamp, value], got '' @ fmt_d (int (length pair)) @ '' elements'')
      else
        (case dec_string (pair ! 1) '''' of
           None \<Rightarrow> Inl (''decoding sample value: '' @ pe_ValueError env (pair ! 1))
         | Some raw \<Rightarrow>
             (case ParseFloat raw of
                None \<Rightarrow> Inl (''sample value '' @ go_Quote raw @ '' is not a number: '' @ pe_FloatError env raw)
              | Some v \<Rightarrow> Inr v)))"

text \<open>What a decoded response says.\<close>

definition sample_of_response :: "prom_env \<Rightarrow> string \<Rightarrow> int \<Rightarrow> promResponse \<Rightarrow> string + Sample" where
  "sample_of_response env addr code decoded =
     (if pm_Status decoded \<noteq> statusSuccess then
        (let msg = (if pm_Error decoded = '''' then ''HTTP '' @ fmt_d code else pm_Error decoded)
         in Inl (''query rejected by '' @ addr @ '': '' @ msg @ '' ('' @ pm_ErrorType decoded @ '')''))
      else if pd_ResultType (pm_Data decoded) \<noteq> ''vector'' then
        Inl (''query returned a '' @ go_Quote (pd_ResultType (pm_Data decoded)) @ '' result; an instant vector is required'')
      else
        (let results = fst (pd_Result (pm_Data decoded))
         in if length results = 0 then Inr \<lparr>sa_Value = Fin 0, sa_Count = 0\<rparr>
            else if length results > 1 then Inr \<lparr>sa_Value = Fin 0, sa_Count = int (length results)\<rparr>
            else (case scalarFrom env (fst (pv_Value (results ! 0))) of
                    Inl e \<Rightarrow> Inl e
                  | Inr v \<Rightarrow> Inr \<lparr>sa_Value = v, sa_Count = 1\<rparr>)))"

definition prometheus_Query :: "prom_env \<Rightarrow> PrometheusProvider \<Rightarrow> provider" where
  "prometheus_Query env p query =
     (if is_blank (pp_Address p) then
        Inl (''no metric provider address configured: '' @ ''set spec.rollout.canary.analysis.provider.address'')
      else
        (case pe_ParseURL env (TrimRight_slash (pp_Address p) @ ''/api/v1/query'') of
           Inl e \<Rightarrow> Inl (''parsing provider address '' @ go_Quote (pp_Address p) @ '': '' @ e)
         | Inr endpoint \<Rightarrow>
           (case pe_NewRequest env endpoint of
             Some e \<Rightarrow> Inl (''building query request: '' @ e)
           | None \<Rightarrow>
             (let timeout = (if pp_Timeout p \<le> 0 then 10 * go_Second else pp_Timeout p)
              in case pe_Do env \<lparr>hr_URL = endpoint, hr_Body = form_Encode query, hr_Timeout = timeout\<rparr> of
                   HttpFailed e \<Rightarrow> Inl (''querying '' @ pp_Address p @ '': '' @ e)
                 | HttpResponse code bytes failure \<Rightarrow>
                     (case read_limited bytes failure of
                        Inl e \<Rightarrow> Inl (''reading response from '' @ pp_Address p @ '': '' @ e)
                      | Inr body \<Rightarrow>
                          (case Unmarshal dec_promResponse zero_promResponse body of
                             None \<Rightarrow> Inl (''decoding response from '' @ pp_Address p @ '' (HTTP '' @ fmt_d code @ ''): '' @
                               pe_JsonError env body)
                           | Some decoded \<Rightarrow> sample_of_response env (pp_Address p) code decoded))))))"

section \<open>The query arrives as it was written\<close>

text \<open>The reader of a form on the other side.\<close>

definition from_hex :: "char \<Rightarrow> nat" where
  "from_hex c = (if byte c < 58 then byte c - 48 else byte c - 55)"

fun unescape :: "string \<Rightarrow> string" where
  "unescape [] = []"
| "unescape (c # cs) =
     (if c = CHR ''+'' then CHR '' '' # unescape cs
      else if c = CHR ''%'' then
        (case cs of h # l # r \<Rightarrow> char_of (16 * from_hex h + from_hex l) # unescape r | _ \<Rightarrow> [])
      else c # unescape cs)"

lemma from_hex_upper: "n < 16 \<Longrightarrow> from_hex (upper_hex n) = n"
  by (simp add: from_hex_def upper_hex_def)

lemma unescape_byte: "unescape (escape_byte c @ rest) = c # unescape rest"
proof (cases "unreserved c \<or> c = CHR '' ''")
  case True
  then show ?thesis
    by (auto simp: escape_byte_def unreserved_def is_digit_def)
next
  case False
  have "byte c div 16 < 16"
    using nat_of_char_less_256 [of c] by (simp add: less_mult_imp_div_less)
  then have "from_hex (upper_hex (byte c div 16)) = byte c div 16" "from_hex (upper_hex (byte c mod 16)) = byte c mod 16"
    by (simp_all add: from_hex_upper)
  moreover have "char_of (16 * (byte c div 16) + byte c mod 16) = c"
    by simp
  ultimately show ?thesis
    using False by (simp add: escape_byte_def)
qed

lemma unescape_QueryEscape: "unescape (QueryEscape s) = s"
  by (induction s) (simp_all add: QueryEscape_def unescape_byte)

section \<open>Data is data\<close>

lemma scalarFrom_Inr:
  assumes "scalarFrom env pair = Inr v"
  shows "\<exists>t raw. pair = [t, JStr raw] \<and> ParseFloat raw = Some v"
proof -
  have empty: "ParseFloat '''' = None"
    by (simp add: ParseFloat_def special_def readFloat_def split_sign_def hex_prefix_def mantissa_start_def)
  obtain t x where pair: "pair = [t, x]"
    using assms by (auto simp: scalarFrom_def numeral_2_eq_2 length_Suc_conv split: if_splits)
  then show ?thesis
    using assms empty by (cases x) (auto simp: scalarFrom_def dec_string_def split: option.splits)
qed

text \<open>
  C23. What the provider returns as a measurement is one. A sample without an error means that the server was
  reached at the query endpoint with the query exactly as it was built, its answer could be read and decoded,
  it said success and returned an instant vector; the count is the number of series, and the value of a single
  series is the number its text denotes, the special values included. Every other outcome is an error.
\<close>

theorem prometheus_sample_is_measured:
  assumes "prometheus_Query env p query = Inr s"
  shows "\<exists>req code bytes failure body decoded. unescape (drop 6 (hr_Body req)) = query \<and> 0 < hr_Timeout req \<and>
    pe_Do env req = HttpResponse code bytes failure \<and> read_limited bytes failure = Inr body \<and>
    Unmarshal dec_promResponse zero_promResponse body = Some decoded \<and>
    pm_Status decoded = statusSuccess \<and> pd_ResultType (pm_Data decoded) = ''vector'' \<and>
    sa_Count s = int (length (fst (pd_Result (pm_Data decoded)))) \<and>
    (if sa_Count s = 1
     then \<exists>t raw. fst (pv_Value (hd (fst (pd_Result (pm_Data decoded))))) = [t, JStr raw] \<and> ParseFloat raw = Some (sa_Value s)
     else sa_Value s = Fin 0)"
proof -
  define req where "req = (\<lambda>endpoint. \<lparr>hr_URL = endpoint, hr_Body = form_Encode query,
    hr_Timeout = (if pp_Timeout p \<le> 0 then 10 * go_Second else pp_Timeout p)\<rparr>)"
  obtain endpoint code bytes failure body decoded where steps:
      "pe_Do env (req endpoint) = HttpResponse code bytes failure" "read_limited bytes failure = Inr body"
      "Unmarshal dec_promResponse zero_promResponse body = Some decoded"
      "sample_of_response env (pp_Address p) code decoded = Inr s"
    using assms unfolding prometheus_Query_def Let_def req_def
    by (auto split: if_splits sum.splits option.splits http_answer.splits)
  have sent: "unescape (drop 6 (hr_Body (req endpoint))) = query" "0 < hr_Timeout (req endpoint)"
    by (simp_all add: req_def form_Encode_def unescape_QueryEscape go_Second_def)
  let ?rs = "fst (pd_Result (pm_Data decoded))"
  have said: "pm_Status decoded = statusSuccess" "pd_ResultType (pm_Data decoded) = ''vector''"
    using steps(4) by (auto simp: sample_of_response_def split: if_splits)
  have "sa_Count s = int (length ?rs) \<and> (if sa_Count s = 1
      then \<exists>t raw. fst (pv_Value (hd ?rs)) = [t, JStr raw] \<and> ParseFloat raw = Some (sa_Value s) else sa_Value s = Fin 0)"
  proof (cases "length ?rs = 1")
    case True
    then obtain v where "scalarFrom env (fst (pv_Value (hd ?rs))) = Inr v" "s = \<lparr>sa_Value = v, sa_Count = 1\<rparr>"
      using steps(4) said by (cases ?rs) (auto simp: sample_of_response_def split: sum.splits)
    then show ?thesis
      using True scalarFrom_Inr by simp
  next
    case False
    then have "?rs = [] \<or> Suc 0 < length ?rs"
      by (cases ?rs) auto
    then show ?thesis
      using steps(4) said by (auto simp: sample_of_response_def Let_def split: if_splits)
  qed
  then show ?thesis
    using sent steps(1-3) said by blast
qed

section \<open>A server\<close>

definition quoted :: "string \<Rightarrow> string" where
  "quoted s = CHR 0x22 # s @ [CHR 0x22]"

definition sample_body :: string where
  "sample_body = ''{'' @ quoted ''status'' @ '':'' @ quoted ''success'' @ '','' @ quoted ''data'' @ '':{'' @
     quoted ''resultType'' @ '':'' @ quoted ''vector'' @ '','' @ quoted ''result'' @ '':[{'' @ quoted ''value'' @
     '':[1,'' @ quoted ''NaN'' @ '']}]}}''"

definition sample_prom :: prom_env where
  "sample_prom = \<lparr>pe_ParseURL = Inr, pe_NewRequest = (\<lambda>_. None), pe_Do = (\<lambda>_. HttpResponse 200 sample_body None),
     pe_JsonError = (\<lambda>_. ''''), pe_ValueError = (\<lambda>_. ''''), pe_FloatError = (\<lambda>_. '''')\<rparr>"

definition sample_provider :: PrometheusProvider where
  "sample_provider = \<lparr>pp_Address = ''http://prom/'', pp_Timeout = 0\<rparr>"

lemma sample_body_parsed: "parse_json sample_body = Some (JObj
    [(''status'', JStr ''success''), (''data'', JObj [(''resultType'', JStr ''vector''),
     (''result'', JArr [JObj [(''value'', JArr [JNum ''1'', JStr ''NaN''])]])])])"
  by code_simp

lemma sample_query: "prometheus_Query sample_prom sample_provider ''up'' = Inr \<lparr>sa_Value = NaN, sa_Count = 1\<rparr>"
proof -
  have read: "read_limited sample_body None = Inr sample_body"
    by (simp add: read_limited_def maxResponseBytes_def sample_body_def quoted_def)
  have "Unmarshal dec_promResponse zero_promResponse sample_body = Some (zero_promResponse\<lparr>pm_Status := ''success'',
      pm_Data := \<lparr>pd_ResultType = ''vector'', pd_Result = ([\<lparr>pv_Value = ([JNum ''1'', JStr ''NaN''], [])\<rparr>], [])\<rparr>\<rparr>)"
    unfolding Unmarshal_def sample_body_parsed by code_simp
  moreover have "ParseFloat ''NaN'' = Some NaN"
    by code_simp
  moreover have "is_blank ''http://prom/'' = False"
    by code_simp
  ultimately show ?thesis
    by (simp add: prometheus_Query_def sample_prom_def sample_provider_def read sample_of_response_def
        statusSuccess_def scalarFrom_def dec_string_def)
qed

theorem prometheus_sample_is_measured_witness:
  "\<exists>req code bytes failure body decoded. unescape (drop 6 (hr_Body req)) = ''up'' \<and> 0 < hr_Timeout req \<and>
    pe_Do sample_prom req = HttpResponse code bytes failure \<and> read_limited bytes failure = Inr body \<and>
    Unmarshal dec_promResponse zero_promResponse body = Some decoded \<and>
    pm_Status decoded = statusSuccess \<and> pd_ResultType (pm_Data decoded) = ''vector'' \<and>
    1 = int (length (fst (pd_Result (pm_Data decoded)))) \<and>
    (\<exists>t raw. fst (pv_Value (hd (fst (pd_Result (pm_Data decoded))))) = [t, JStr raw] \<and> ParseFloat raw = Some NaN)"
  using prometheus_sample_is_measured [OF sample_query] by simp

end
