(* ===== verification/Operator_Metrics.thy ===== *)
theory Operator_Metrics
  imports Controller_Events
begin

text \<open>
  The operator's own series (\<open>internal/observability/metrics.go\<close>) and the part of \<open>emitRolloutEvents\<close> that
  updates them. A vector of the client library is a map from label values to a series; \<open>With\<close> creates a series
  at zero, \<open>Delete\<close> removes one, \<open>DeletePartialMatch\<close> every series with the given values. Counters are natural
  numbers, exact in the library's floats up to \<open>2 ^ 53\<close>; gauges hold \<open>int32\<close> values, which are exact.
\<close>

record ResourceKey =
  rk_Model :: string
  rk_Namespace :: string
  rk_Name :: string

record OperatorMetrics =
  om_CanaryPromotions :: "ResourceKey \<Rightarrow> nat option"
  om_CanaryRollbacks :: "ResourceKey \<times> string \<Rightarrow> nat option"
  om_CanaryCurrentWeight :: "ResourceKey \<Rightarrow> i32 option"
  om_CanaryDesiredWeight :: "ResourceKey \<Rightarrow> i32 option"
  om_CanaryFailedChecks :: "ResourceKey \<Rightarrow> i32 option"
  om_AnalysisVerdicts :: "ResourceKey \<times> string \<Rightarrow> nat option"
  om_AnalysisCheckDuration :: "ResourceKey \<Rightarrow> f64 list option"
  om_AutoscaleDesiredReplicas :: "ResourceKey \<Rightarrow> i32 option"

definition no_metrics :: OperatorMetrics where
  "no_metrics = \<lparr>om_CanaryPromotions = Map.empty, om_CanaryRollbacks = Map.empty, om_CanaryCurrentWeight = Map.empty,
     om_CanaryDesiredWeight = Map.empty, om_CanaryFailedChecks = Map.empty, om_AnalysisVerdicts = Map.empty,
     om_AnalysisCheckDuration = Map.empty, om_AutoscaleDesiredReplicas = Map.empty\<rparr>"

definition count :: "('k \<Rightarrow> nat option) \<Rightarrow> 'k \<Rightarrow> nat" where
  "count m k = (case m k of None \<Rightarrow> 0 | Some n \<Rightarrow> n)"

definition Inc :: "'k \<Rightarrow> ('k \<Rightarrow> nat option) \<Rightarrow> 'k \<Rightarrow> nat option" where
  "Inc k m = m(k \<mapsto> count m k + 1)"

section \<open>Recording\<close>

definition RecordCanaryPromotion :: "ResourceKey \<Rightarrow> OperatorMetrics \<Rightarrow> OperatorMetrics" where
  "RecordCanaryPromotion k om = om\<lparr>om_CanaryPromotions := Inc k (om_CanaryPromotions om)\<rparr>"

definition RecordCanaryRollback :: "ResourceKey \<Rightarrow> string \<Rightarrow> OperatorMetrics \<Rightarrow> OperatorMetrics" where
  "RecordCanaryRollback k reason om = om\<lparr>om_CanaryRollbacks := Inc (k, reason) (om_CanaryRollbacks om)\<rparr>"

definition RecordCanaryState :: "ResourceKey \<Rightarrow> i32 \<Rightarrow> i32 \<Rightarrow> i32 \<Rightarrow> OperatorMetrics \<Rightarrow> OperatorMetrics" where
  "RecordCanaryState k desired current failedChecks om =
     om\<lparr>om_CanaryDesiredWeight := (om_CanaryDesiredWeight om)(k \<mapsto> desired),
        om_CanaryCurrentWeight := (om_CanaryCurrentWeight om)(k \<mapsto> current),
        om_CanaryFailedChecks := (om_CanaryFailedChecks om)(k \<mapsto> failedChecks)\<rparr>"

definition RecordAnalysisRound :: "ResourceKey \<Rightarrow> string \<Rightarrow> go_duration \<Rightarrow> OperatorMetrics \<Rightarrow> OperatorMetrics" where
  "RecordAnalysisRound k verdict took om =
     om\<lparr>om_AnalysisVerdicts := Inc (k, verdict) (om_AnalysisVerdicts om),
        om_AnalysisCheckDuration := (om_AnalysisCheckDuration om)(k \<mapsto>
          (case om_AnalysisCheckDuration om k of None \<Rightarrow> [] | Some xs \<Rightarrow> xs) @ [Duration_Seconds took])\<rparr>"

definition RecordAutoscaleDecision :: "ResourceKey \<Rightarrow> i32 \<Rightarrow> OperatorMetrics \<Rightarrow> OperatorMetrics" where
  "RecordAutoscaleDecision k replicas om =
     om\<lparr>om_AutoscaleDesiredReplicas := (om_AutoscaleDesiredReplicas om)(k \<mapsto> replicas)\<rparr>"

definition ForgetCanary :: "ResourceKey \<Rightarrow> OperatorMetrics \<Rightarrow> OperatorMetrics" where
  "ForgetCanary k om =
     om\<lparr>om_CanaryCurrentWeight := (om_CanaryCurrentWeight om)(k := None),
        om_CanaryDesiredWeight := (om_CanaryDesiredWeight om)(k := None),
        om_CanaryFailedChecks := (om_CanaryFailedChecks om)(k := None)\<rparr>"

definition DeletePartialMatch :: "string \<Rightarrow> string \<Rightarrow> (ResourceKey \<Rightarrow> 'v option) \<Rightarrow> ResourceKey \<Rightarrow> 'v option" where
  "DeletePartialMatch namespace name m = (\<lambda>k. if rk_Namespace k = namespace \<and> rk_Name k = name then None else m k)"

definition ForgetNamespacedName :: "string \<Rightarrow> string \<Rightarrow> OperatorMetrics \<Rightarrow> OperatorMetrics" where
  "ForgetNamespacedName namespace name om =
     om\<lparr>om_CanaryCurrentWeight := DeletePartialMatch namespace name (om_CanaryCurrentWeight om),
        om_CanaryDesiredWeight := DeletePartialMatch namespace name (om_CanaryDesiredWeight om),
        om_CanaryFailedChecks := DeletePartialMatch namespace name (om_CanaryFailedChecks om),
        om_AutoscaleDesiredReplicas := DeletePartialMatch namespace name (om_AutoscaleDesiredReplicas om)\<rparr>"

section \<open>A pass\<close>

definition resourceKeyFor :: "ModelDeployment \<Rightarrow> ResourceKey" where
  "resourceKeyFor md = \<lparr>rk_Model = md_ModelName md, rk_Namespace = md_Namespace md, rk_Name = md_Name md\<rparr>"

definition emitRolloutMetrics :: "ModelDeployment \<Rightarrow> rollout \<Rightarrow> OperatorMetrics \<Rightarrow> OperatorMetrics" where
  "emitRolloutMetrics md res om =
     (if rl_StallReverted res then om
      else
        (let out = rl_Output res;
             key = resourceKeyFor md;
             om = (if rl_Active res
                   then RecordCanaryState key (out_DesiredWeight out) (out_RealizedWeight out) (failed (st_counters (out_State out))) om
                   else ForgetCanary key om)
         in case out_Action out of
              ActionPromote \<Rightarrow> if ms_Phase (md_Status md) \<noteq> ApiPromoting then RecordCanaryPromotion key om else om
            | ActionRollback \<Rightarrow>
                if ms_Phase (md_Status md) \<noteq> ApiRollingBack then RecordCanaryRollback key (out_Reason out) om else om
            | _ \<Rightarrow> om))"

section \<open>Counters agree with the audit trail\<close>

definition events_of :: "string list \<Rightarrow> Event list \<Rightarrow> nat" where
  "events_of reasons evs = length (filter (\<lambda>e. ev_Reason e \<in> set reasons) evs)"

lemma count_Inc: "count (Inc k m) j = (if j = k then count m k + 1 else count m j)"
  by (simp add: Inc_def count_def)

lemma recorded_fields [simp]:
  "om_CanaryPromotions (RecordCanaryState k d c f om) = om_CanaryPromotions om"
  "om_CanaryRollbacks (RecordCanaryState k d c f om) = om_CanaryRollbacks om"
  "om_CanaryPromotions (ForgetCanary k om) = om_CanaryPromotions om"
  "om_CanaryRollbacks (ForgetCanary k om) = om_CanaryRollbacks om"
  "om_CanaryPromotions (RecordCanaryPromotion k om) = Inc k (om_CanaryPromotions om)"
  "om_CanaryRollbacks (RecordCanaryPromotion k om) = om_CanaryRollbacks om"
  "om_CanaryPromotions (RecordCanaryRollback k r om) = om_CanaryPromotions om"
  "om_CanaryRollbacks (RecordCanaryRollback k r om) = Inc (k, r) (om_CanaryRollbacks om)"
  by (simp_all add: RecordCanaryState_def ForgetCanary_def RecordCanaryPromotion_def RecordCanaryRollback_def)

lemma action_event_counts:
  "events_of [EventReasonCanaryPromoted] (action_events md out) =
     (if out_Action out = ActionPromote \<and> ms_Phase (md_Status md) \<noteq> ApiPromoting then 1 else 0)"
  "events_of [EventReasonCanaryRolledBack, EventReasonCanaryAborted] (action_events md out) =
     (if out_Action out = ActionRollback \<and> ms_Phase (md_Status md) \<noteq> ApiRollingBack then 1 else 0)"
  by (cases "out_Action out"; simp add: action_events_def events_of_def event_def event_reason_defs Let_def)+

lemma events_of_append: "events_of rs (xs @ ys) = events_of rs xs + events_of rs ys"
  by (simp add: events_of_def)

lemma emit_event_counts:
  assumes "r = EventReasonCanaryPromoted \<and> rs = [r] \<or> rs = [EventReasonCanaryRolledBack, EventReasonCanaryAborted]"
  shows "events_of rs (emitRolloutEvents md res) = (if rl_StallReverted res then 0 else events_of rs (action_events md (rl_Output res)))"
proof -
  have none: "events_of rs [event t q a m] = 0"
    if "q \<in> {EventReasonRolloutStalled, EventReasonAnalysisFailed, EventReasonWeightQuantized}" for t q a m
    using assms that by (auto simp: events_of_def event_def event_reason_defs)
  have empty: "events_of rs [] = 0"
    by (simp add: events_of_def)
  show ?thesis
    unfolding emitRolloutEvents_def Let_def
    by (simp add: events_of_append none empty split: option.split)
qed

text \<open>
  The counters and the events tell the same story: a pass adds one to the promotions of its resource exactly when
  it emits the event of a promotion, and one to the rollbacks for its reason exactly when it emits the event of
  a rollback or an abort. No other counter of promotions or rollbacks moves.
\<close>

theorem counters_follow_events:
  "count (om_CanaryPromotions (emitRolloutMetrics md res om)) k = count (om_CanaryPromotions om) k +
     (if k = resourceKeyFor md then events_of [EventReasonCanaryPromoted] (emitRolloutEvents md res) else 0)"
  "count (om_CanaryRollbacks (emitRolloutMetrics md res om)) (k, r) = count (om_CanaryRollbacks om) (k, r) +
     (if k = resourceKeyFor md \<and> r = out_Reason (rl_Output res)
      then events_of [EventReasonCanaryRolledBack, EventReasonCanaryAborted] (emitRolloutEvents md res) else 0)"
  by (cases "out_Action (rl_Output res)";
      simp add: emitRolloutMetrics_def emit_event_counts action_event_counts count_Inc Let_def)+

section \<open>Gauges of a resource that is gone\<close>

text \<open>The deletion path leaves no gauge of the resource, under whatever model it was recorded, and every counter.\<close>

theorem deletion_clears_gauges:
  assumes "rk_Namespace k = namespace" "rk_Name k = name"
  shows "om_CanaryCurrentWeight (ForgetNamespacedName namespace name om) k = None"
    "om_CanaryDesiredWeight (ForgetNamespacedName namespace name om) k = None"
    "om_CanaryFailedChecks (ForgetNamespacedName namespace name om) k = None"
    "om_AutoscaleDesiredReplicas (ForgetNamespacedName namespace name om) k = None"
    "om_CanaryPromotions (ForgetNamespacedName namespace name om) = om_CanaryPromotions om"
    "om_CanaryRollbacks (ForgetNamespacedName namespace name om) = om_CanaryRollbacks om"
  using assms by (simp_all add: ForgetNamespacedName_def DeletePartialMatch_def)

text \<open>
  Ending a canary is weaker: the gauges are dropped under the model the specification names now. When an edit
  renames the model while a canary is in flight, the weight that was recorded under the old name is exported
  for as long as the resource exists, whatever later passes of the new specification do.
\<close>

theorem renamed_model_keeps_weight:
  assumes "rl_Active res" "\<not> rl_StallReverted res" "md_ModelName md \<noteq> model"
  shows "om_CanaryCurrentWeight
      (fold (\<lambda>(md', res'). emitRolloutMetrics md' res') (filter (\<lambda>(md', _). md_ModelName md' = model) later)
        (emitRolloutMetrics md res om)) (resourceKeyFor md) = Some (out_RealizedWeight (rl_Output res))"
proof -
  have now: "om_CanaryCurrentWeight (emitRolloutMetrics md res om) (resourceKeyFor md) = Some (out_RealizedWeight (rl_Output res))"
    using assms(1,2) by (simp add: emitRolloutMetrics_def RecordCanaryState_def RecordCanaryPromotion_def
        RecordCanaryRollback_def Let_def split: Action.split)
  have keep: "om_CanaryCurrentWeight (emitRolloutMetrics md' res' o1) (resourceKeyFor md) = om_CanaryCurrentWeight o1 (resourceKeyFor md)"
    if "md_ModelName md' = model" for md' res' o1
  proof -
    have "resourceKeyFor md \<noteq> resourceKeyFor md'"
      using that assms(3) by (auto simp: resourceKeyFor_def)
    then show ?thesis
      by (simp add: emitRolloutMetrics_def RecordCanaryState_def ForgetCanary_def RecordCanaryPromotion_def
          RecordCanaryRollback_def Let_def split: Action.split)
  qed
  show ?thesis
    using now by (induction later arbitrary: om rule: rev_induct) (auto simp: keep)
qed

end
