(* ===== verification/Spec2Isabelle.thy ===== *)
theory Spec2Isabelle
  imports Canary_Spec Controller_Status_Props Controller_Scale_Props Children_Props Shim_Proxy_Props
    Revision_History_Props Reconcile_Props Reconcile_Legacy Reconcile_Faults Observability_Props Prometheus
    Operator_Metrics
begin

text \<open>
  Verification of the LLM inference control plane, a Kubernetes operator that rolls out and scales
  language-model servers.

  \<^bold>\<open>The program.\<close> A user writes a \<open>ModelDeployment\<close> (\<open>api/v1alpha1\<close>). On every event the controller
  (\<open>internal/controller\<close>) reads it with its status and the live Deployments and runs one pass, \<open>Reconcile\<close>
  (\<open>modeldeployment_controller.go\<close>): it validates the specification and resolves its defaults, names the
  revision by a hash (\<open>internal/revision\<close>) and records it, asks the autoscaler for a new total
  (\<open>autoscale.go\<close>, \<open>internal/autoscale\<close>), plans which revision and how many replicas the primary and the
  canary should run (\<open>canary.go\<close>), renders and applies the Deployments and Services (\<open>children.go\<close>,
  \<open>shim.go\<close>, \<open>internal/engine\<close>, \<open>internal/naming\<close>), publishes the monitoring objects (\<open>observability.go\<close>,
  \<open>internal/observability\<close>, after asking \<open>internal/discovery\<close> whether the cluster serves them), and writes
  the status last (\<open>status.go\<close>). The plan of a canary comes from a pure state machine (\<open>internal/canary\<close>),
  which climbs a ladder of weights as long as rounds of metric checks pass; the rounds are run by
  \<open>internal/analysis\<close> against a Prometheus server. Beside every engine runs a sidecar (\<open>cmd/shim\<close>), a proxy
  that measures the requests. Nothing is kept in memory between passes but the probe cache and the operator's
  metrics: the position of a rollout and the scaling history live in the status.

  \<^bold>\<open>The theories.\<close>
  \<^item> Prelude. \<open>Go_Base\<close>, \<open>Go_Float\<close>, \<open>Go_Unicode\<close>, \<open>Go_Text\<close>, \<open>Go_Sort\<close>, \<open>Go_Json\<close>: integers with written-out
    wrap-around, times and durations, \<open>float64\<close> arithmetic with its rounding (a finite float is its rational
    value), UTF-8 and the printable characters, the text, sorting and JSON functions of the Go library that
    the code calls.
  \<^item> API types. \<open>Api_Rollout\<close>, \<open>Api_Autoscaling\<close>, \<open>Api_Workload\<close>: the specifications with their accessors
    and defaults, and the weight ladder.
  \<^item> Canary. \<open>Canary_Weights\<close>, \<open>Canary_Verdict\<close>, \<open>Canary_State\<close>: \<open>weights.go\<close>, \<open>verdict.go\<close> and \<open>state.go\<close>,
    every handler and every field of its answer. \<open>Canary_Cases\<close>, \<open>Canary_Props\<close>, \<open>Canary_Runs\<close>,
    \<open>Canary_Spec\<close>: the case rules of the machine, the properties of one pass and of runs, and the abstract
    rollout protocol \<open>spec_step\<close> that \<open>Next\<close> refines.
  \<^item> Measuring. \<open>Analysis\<close>, \<open>Analysis_Props\<close>: the text of every query, the verdict of an observation, a
    round. \<open>Prometheus\<close>: the provider that asks the server (\<open>prometheus.go\<close>), with \<open>strconv.ParseFloat\<close>.
  \<^item> Scaling. \<open>Autoscale\<close>, \<open>Autoscale_Props\<close>: \<open>recommend.go\<close>. \<open>Controller_Scale\<close>, \<open>Controller_Scale_Props\<close>: the
    autoscaling pass.
  \<^item> Planning. \<open>Controller_Types\<close>, \<open>Controller_Plan\<close>, \<open>Controller_Status\<close>, \<open>Controller_Events\<close>: the objects,
    \<open>planRollout\<close> with the schema handshake and the guards, \<open>computeStatus\<close> with every condition, the events.
    \<open>Controller_Props\<close>, \<open>Controller_Runs\<close>, \<open>Controller_Status_Props\<close>: one pass, sequences of passes through
    the status, what status and events may claim. \<open>Operator_Metrics\<close>: the operator's own series.
  \<^item> Children. \<open>Naming\<close>, \<open>Engine\<close>, \<open>Children\<close>, \<open>Children_Props\<close>: names and labels, the engine profiles with
    validation and command line, and the rendered objects.
  \<^item> Revisions. \<open>Revision_Hash\<close>, \<open>Revision_History\<close>, \<open>Revision_History_Props\<close>, \<open>Revision_Migration\<close>: payloads and
    their hash, the history over a store with stale reads and failing calls, the adoption of old identities
    and the specification a revision is rendered from.
  \<^item> The pass. \<open>Reconcile\<close>: the whole pass over the answers of the API server. \<open>Reconcile_Cases\<close>: which writes a
    pass can have made and where they come from. \<open>Reconcile_Samples\<close>: a concrete cluster. \<open>Reconcile_Props\<close>,
    \<open>Reconcile_Legacy\<close>, \<open>Reconcile_Faults\<close>: its properties, those of the migration, and its faults.
  \<^item> Monitoring. \<open>Discovery\<close>: the caching prober and any interleaving of workers on it. \<open>Monitoring\<close>,
    \<open>Monitoring_Props\<close>: the ServiceMonitor and the PrometheusRule as trees, with the histogram boundaries.
    \<open>Observability\<close>, \<open>Observability_Props\<close>: applying and removing them, and the verdict. The value of
    \<open>reconcileObservability\<close> is what \<open>Reconcile\<close> takes as the answer \<open>ap_Observability\<close>.
  \<^item> Sidecar. \<open>Shim_Config\<close>, \<open>Shim_Stream\<close>, \<open>Shim_Stream_Props\<close>, \<open>Shim_Proxy\<close>, \<open>Shim_Proxy_Props\<close>: its command
    line, the observer of streamed responses, the proxy with its metrics and health endpoints.

  \<^bold>\<open>Interfaces.\<close> Each is a locale with an interpretation on the model's definitions: \<open>replica_splitter\<close>, what the
  state machine relies on when it divides replicas (on \<open>Split\<close>); \<open>verdict_budget\<close>, when it counts rounds (on
  \<open>apply_verdict\<close>); \<open>round_source\<close>, what the budgets may expect of a round (on \<open>Run\<close>); \<open>bounded_recommender\<close>,
  what the scaling pass relies on before it writes (on \<open>Recommend\<close>); \<open>keyed_history\<close>, the store of revisions
  (on \<open>store_get\<close>, \<open>store_add\<close> and \<open>store_delete\<close>); \<open>total_order_on_keys\<close>, what sorting needs (on strings and on
  revisions); \<open>piecewise\<close>, a reader that does not depend on how its input is cut (on both observers of the
  sidecar); \<open>expiring_cache\<close>, the cache of the prober (on \<open>lookup\<close>, \<open>store\<close> and \<open>Invalidate\<close>).

  \<^bold>\<open>What is shown.\<close> The machine refines the protocol on every branch; a promotion has one of five causes;
  over any passes through the status, rounds are spaced by the interval, or by a warm-up and a window after a
  reset, and act at the limits of disjoint budgets; under plans that may change in every pass, a canary in
  flight stays on a rung and below a threshold it was given; a started canary that is not ready by the progress
  deadline is rolled back; replicas are conserved. Over passes: a rejected revision stays off the primary and
  the rollback target is kept; a restart between two passes changes no more than the fraction of a second that
  the status does not store; the rollback target advances only on convergence with no canary in flight;
  recorded revisions that the status names survive pruning, which keeps the newest others up to the limit. A
  whole pass applies a template under a revision only if it was built from that revision, applies exactly the
  requested fleet, writes its status last and onto the object it planned from, touches nothing for an unusable
  specification, adopts an old identity on evidence only, and returns. Measuring: a sample without an error was
  measured, a round passes exactly on measured values inside their ranges with traffic shown and fails only on
  one outside, an outage freezes the fleet. Scaling stays in its bounds and needs evidence over its window.
  Children: valid names, Services that reach the pods of a variant exactly when they agree with its revision
  about the sidecar, no user argument that sets an operator flag in any spelling, sidecar flags that the sidecar
  accepts. Monitoring: no foreign object is touched, the verdict is what was done, absence is witnessed, every
  alert reads series recorded under the labels it asks for. The sidecar counts every request once, measures
  streams however they are cut, in bounded memory.

  \<^bold>\<open>Where code and documentation part.\<close> Theorems of their own state it: in \<open>Canary_Runs\<close>,
  \<open>Autoscale_Props\<close>, \<open>Controller_Status_Props\<close>, \<open>Children_Props\<close>, \<open>Shim_Proxy_Props\<close>, \<open>Naming\<close>, \<open>Reconcile_Faults\<close>
  (a lost abort, a failed read that ends a canary, a stale plan behind a patch, an unpublished error),
  \<open>Monitoring_Props\<close> (a scrape timeout above its interval, objectives above 0.999, an alert that cannot fire),
  \<open>Observability_Props\<close> (a lowered threshold called raised) and \<open>Operator_Metrics\<close> (a weight under an old name).

  \<^bold>\<open>Parameters.\<close> Code outside the repository is an argument. The API server is its answers, one for each call
  of a pass, so that other clients may do anything in between (\<open>Api\<close>, \<open>ObsEnv\<close>, the views of the history); the
  metric backend and the HTTP client are functions from a request to an answer; the discovery client
  likewise. Further arguments: the codec of revision payloads (\<open>Codec\<close>), semantic equality and derivation of
  the Kubernetes libraries (\<open>Library\<close>), the conversion to apply configurations (\<open>RenderEnv\<close>), the setter of
  a condition, the parsers of quantities, URLs and media types, \<open>SafeEncodeString\<close>, the actions of the reverse
  proxy, and the result of converting an out-of-range float. All reads of the clock in one pass of the planner
  give the same instant; the prober's two reads are separate. The theorems hold for every value of the
  parameters unless a hypothesis says otherwise.

  \<^bold>\<open>Loops and fuel.\<close> The ladder loop steps an \<open>int32\<close> and is a partial function into an option; it is proved to
  return for every specification the schema admits (\<open>StepLadder_wf\<close>), and so are the planning of a pass and
  the pass (\<open>Reconcile_returns\<close>). The JSON parser runs on fuel of twice the input's length; \<open>parse_enough_fuel\<close>
  shows that more changes nothing. Retries on conflict run over the list of answers of the attempts. The
  binary search over boundaries has a termination measure. All other loops are structural.

  \<^bold>\<open>Not modelled.\<close> Logging, registration with the manager, watches and predicates (\<open>SetupWithManager\<close>) and the
  process start (\<open>cmd/main.go\<close>) wire the parts to the Kubernetes libraries and compute nothing. Generated deep
  copies, embedded dashboards, the scripted provider of the tests, the fake engine and the load generator are
  outside the program's logic. Of the sidecar, listening, shutdown and the client library's registry are left
  out; the reverse proxy is any sequence of what it may do to the response.
\<close>

end
